(* ===== verification/Prelude.thy ===== *)
theory Prelude
  imports Complex_Main
    "HOL-Library.Sublist"
    "HOL-Library.Char_ord"
    "HOL-Library.List_Lexorder"
    "HOL-Library.Product_Lexorder"
begin

section \<open>Effects, tables and strings shared by every component\<close>

text \<open>
  The program's services are asynchronous methods that read and write a database, throw
  errors and return values. A method is a function from the state of the world to a result
  and a new state. What was written before a \<open>throw\<close> stays written, as in the code, so the error
  value carries the state with it; the few handlers that open a database transaction say so
  (\<open>transaction\<close> in \<open>Api_Common\<close>). This theory holds that monad, the relation-preservation
  calculus used for the invariants, tables as lists of rows, and the string functions.
\<close>

named_theorems run_simps \<open>unfolding rules that evaluate a method from a state\<close>
named_theorems step_simps \<open>rules that run the first step of a method\<close>
named_theorems step_elims \<open>rules that take a successful run of a method apart, step by step\<close>
named_theorems effect_intros \<open>composition rules for the effect of a method\<close>

subsection \<open>Methods\<close>

type_synonym ('s, 'e, 'a) sem = "'s \<Rightarrow> ('e + 'a) \<times> 's"

definition ret :: "'a \<Rightarrow> ('s, 'e, 'a) sem" where
  "ret x = (\<lambda>s. (Inr x, s))"

definition throw :: "'e \<Rightarrow> ('s, 'e, 'a) sem" where
  "throw e = (\<lambda>s. (Inl e, s))"

definition bnd :: "('s, 'e, 'a) sem \<Rightarrow> ('a \<Rightarrow> ('s, 'e, 'b) sem) \<Rightarrow> ('s, 'e, 'b) sem" where
  "bnd m f = (\<lambda>s. case m s of (Inl e, s') \<Rightarrow> (Inl e, s') | (Inr x, s') \<Rightarrow> f x s')"

definition try_catch :: "('s, 'e, 'a) sem \<Rightarrow> ('e \<Rightarrow> ('s, 'e, 'a) sem) \<Rightarrow> ('s, 'e, 'a) sem" where
  "try_catch m h = (\<lambda>s. case m s of (Inl e, s') \<Rightarrow> h e s' | (Inr x, s') \<Rightarrow> (Inr x, s'))"

text \<open>\<open>finally\<close>: the clean-up runs on both outcomes, and its own error replaces them.\<close>

definition try_finally :: "('s, 'e, 'a) sem \<Rightarrow> ('s, 'e, unit) sem \<Rightarrow> ('s, 'e, 'a) sem" where
  "try_finally m fin = (\<lambda>s. case m s of (r, s') \<Rightarrow>
     (case fin s' of (Inl e, s'') \<Rightarrow> (Inl e, s'') | (Inr _, s'') \<Rightarrow> (r, s'')))"

definition gets :: "('s \<Rightarrow> 'a) \<Rightarrow> ('s, 'e, 'a) sem" where
  "gets f = (\<lambda>s. (Inr (f s), s))"

definition modify :: "('s \<Rightarrow> 's) \<Rightarrow> ('s, 'e, unit) sem" where
  "modify f = (\<lambda>s. (Inr (), f s))"

definition require :: "bool \<Rightarrow> 'e \<Rightarrow> ('s, 'e, unit) sem" where
  "require b e = (if b then ret () else throw e)"

definition run_if :: "bool \<Rightarrow> ('s, 'e, unit) sem \<Rightarrow> ('s, 'e, unit) sem" where
  "run_if b m = (if b then m else ret ())"

text \<open>\<open>if (!x) throw e\<close> on a nullable value.\<close>

definition require_some :: "'a option \<Rightarrow> 'e \<Rightarrow> ('s, 'e, 'a) sem" where
  "require_some v e = (case v of None \<Rightarrow> throw e | Some x \<Rightarrow> ret x)"

text \<open>\<open>for (const x of xs) await f(x)\<close>: the first error leaves the loop.\<close>

fun for_each :: "('a \<Rightarrow> ('s, 'e, unit) sem) \<Rightarrow> 'a list \<Rightarrow> ('s, 'e, unit) sem" where
  "for_each f [] = ret ()"
| "for_each f (x # xs) = bnd (f x) (\<lambda>_. for_each f xs)"

declare ret_def [run_simps] throw_def [run_simps] bnd_def [run_simps]
  try_catch_def [run_simps] try_finally_def [run_simps] gets_def [run_simps]
  modify_def [run_simps] require_def [run_simps] run_if_def [run_simps]
  require_some_def [run_simps]

lemma bnd_assoc: "bnd (bnd m f) g = bnd m (\<lambda>x. bnd (f x) g)"
  by (auto simp: bnd_def fun_eq_iff split: prod.splits sum.splits)

lemma run_last [step_simps]:
  "ret x s = (Inr x, s)" "throw e s = (Inl e, s)" "gets f s = (Inr (f s), s)"
  "modify g s = (Inr (), g s)" "run_if b m s = (if b then m s else (Inr (), s))"
  by (simp_all add: ret_def throw_def gets_def modify_def run_if_def)

lemma bnd_ret [step_simps]: "bnd (ret x) f = f x"
  by (simp add: bnd_def ret_def)

lemma bnd_throw [step_simps]: "bnd (throw e) f = throw e"
  by (simp add: bnd_def throw_def)

lemma bnd_gets [step_simps]: "bnd (gets g) f s = f (g s) s"
  by (simp add: bnd_def gets_def)

lemma bnd_modify [step_simps]: "bnd (modify g) f s = f () (g s)"
  by (simp add: bnd_def modify_def)

lemma bnd_require [step_simps]: "bnd (require b e) f = (if b then f () else throw e)"
  by (simp add: bnd_def require_def ret_def throw_def)

lemma bnd_require_some [step_simps]:
  "bnd (require_some (Some x) e) f = f x" "bnd (require_some None e) f = throw e"
  by (simp_all add: bnd_def require_some_def ret_def throw_def)

lemma bnd_run_if [step_simps]: "bnd (run_if b m) f = (if b then bnd m f else f ())"
  by (simp add: run_if_def bnd_ret)

lemma bnd_Inr: "m s = (Inr x, s') \<Longrightarrow> bnd m f s = f x s'"
  by (simp add: bnd_def)

lemma bnd_Inl: "m s = (Inl e, s') \<Longrightarrow> bnd m f s = (Inl e, s')"
  by (simp add: bnd_def)

lemma bnd_InrE:
  assumes "bnd m f s = (Inr y, s'')"
  obtains x s' where "m s = (Inr x, s')" and "f x s' = (Inr y, s'')"
  using assms by (auto simp: bnd_def split: prod.splits sum.splits)

lemma bnd_requireE: "bnd (require b e) f s = (Inr y, s') \<Longrightarrow> (b \<Longrightarrow> f () s = (Inr y, s') \<Longrightarrow> thesis) \<Longrightarrow> thesis"
  by (cases b) (simp_all add: bnd_require throw_def)

lemma bnd_require_someE:
  "bnd (require_some v e) g s = (Inr y, s') \<Longrightarrow> (\<And>x. v = Some x \<Longrightarrow> g x s = (Inr y, s') \<Longrightarrow> thesis) \<Longrightarrow> thesis"
  by (cases v) (simp_all add: bnd_require_some throw_def)

lemma bnd_getsE: "bnd (gets h) g s = (Inr y, s') \<Longrightarrow> (g (h s) s = (Inr y, s') \<Longrightarrow> thesis) \<Longrightarrow> thesis"
  by (unfold bnd_gets, blast)

lemma bnd_modifyE: "bnd (modify k) f s = (Inr y, s') \<Longrightarrow> (f () (k s) = (Inr y, s') \<Longrightarrow> thesis) \<Longrightarrow> thesis"
  by (unfold bnd_modify, blast)

lemma bnd_InlE:
  assumes "bnd m f s = (Inl e, s'')"
  obtains "m s = (Inl e, s'')" | x s' where "m s = (Inr x, s')" and "f x s' = (Inl e, s'')"
  using assms by (auto simp: bnd_def split: prod.splits sum.splits)

lemma require_Inr [simp]: "require b e s = (Inr x, s') \<longleftrightarrow> b \<and> s' = s"
  by (auto simp: require_def ret_def throw_def)

lemma require_some_Inr [simp]: "require_some v e s = (Inr x, s') \<longleftrightarrow> v = Some x \<and> s' = s"
  by (auto simp: require_some_def ret_def throw_def split: option.splits)

lemma gets_Inr [simp]: "gets f s = (Inr x, s') \<longleftrightarrow> x = f s \<and> s' = s"
  by (auto simp: gets_def)

lemma ret_Inr [simp]: "ret y s = (Inr x, s') \<longleftrightarrow> x = y \<and> s' = s"
  by (auto simp: ret_def)

lemma throw_Inr [simp]: "throw e s \<noteq> (Inr x, s')"
  by (simp add: throw_def)

lemma getsE: "gets h s = (Inr y, s') \<Longrightarrow> (y = h s \<Longrightarrow> s' = s \<Longrightarrow> thesis) \<Longrightarrow> thesis"
  by (drule gets_Inr [THEN iffD1]) blast

lemma retE: "ret x s = (Inr y, s') \<Longrightarrow> (y = x \<Longrightarrow> s' = s \<Longrightarrow> thesis) \<Longrightarrow> thesis"
  by (drule ret_Inr [THEN iffD1]) blast

lemma modifyE: "modify g s = (Inr y, s') \<Longrightarrow> (s' = g s \<Longrightarrow> thesis) \<Longrightarrow> thesis"
  by (simp add: modify_def)

lemmas [step_elims] = bnd_requireE bnd_require_someE bnd_getsE bnd_modifyE getsE retE modifyE bnd_InrE

subsection \<open>What a method may do to the state\<close>

text \<open>
  \<open>effect R m s\<close>: running \<open>m\<close> from \<open>s\<close> changes the state only as the relation \<open>R\<close> allows,
  whether it returns or throws. For a reflexive and transitive relation the effect of a
  method is the composition of the effects of its parts; the rules below are the only thing
  the invariant proofs of the components use.
\<close>

definition effect :: "('s \<Rightarrow> 's \<Rightarrow> bool) \<Rightarrow> ('s, 'e, 'a) sem \<Rightarrow> 's \<Rightarrow> bool" where
  "effect R m s \<longleftrightarrow> R s (snd (m s))"

locale effect_order =
  fixes R :: "'s \<Rightarrow> 's \<Rightarrow> bool"
  assumes R_refl: "R s s"
    and R_trans: "R s t \<Longrightarrow> R t u \<Longrightarrow> R s u"
begin

lemma effect_ret [effect_intros]: "effect R (ret x) s"
  by (simp add: effect_def ret_def R_refl)

lemma effect_throw [effect_intros]: "effect R (throw e) s"
  by (simp add: effect_def throw_def R_refl)

lemma effect_gets [effect_intros]: "effect R (gets f) s"
  by (simp add: effect_def gets_def R_refl)

lemma effect_require [effect_intros]: "effect R (require b e) s"
  by (simp add: effect_def require_def ret_def throw_def R_refl)

lemma effect_require_some [effect_intros]: "effect R (require_some v e) s"
  by (simp add: effect_def require_some_def ret_def throw_def R_refl split: option.splits)

lemma effect_bnd [effect_intros]:
  assumes "effect R m s" and "\<And>x s'. m s = (Inr x, s') \<Longrightarrow> effect R (f x) s'"
  shows "effect R (bnd m f) s"
  using assms by (cases "m s"; cases "fst (m s)") (auto simp: effect_def bnd_def intro: R_trans)

lemma effect_try_catch [effect_intros]:
  assumes "effect R m s" and "\<And>e s'. m s = (Inl e, s') \<Longrightarrow> effect R (h e) s'"
  shows "effect R (try_catch m h) s"
  using assms by (cases "m s"; cases "fst (m s)") (auto simp: effect_def try_catch_def intro: R_trans)

lemma effect_try_finally [effect_intros]:
  assumes "effect R m s" and "\<And>s'. effect R fin s'"
  shows "effect R (try_finally m fin) s"
proof -
  obtain r s' where m: "m s = (r, s')" by (cases "m s")
  obtain q s'' where fin: "fin s' = (q, s'')" by (cases "fin s'")
  have "R s s'" using assms(1) m by (simp add: effect_def)
  moreover have "R s' s''" using assms(2) [of s'] fin by (simp add: effect_def)
  ultimately show ?thesis
    using m fin by (cases q) (auto simp: effect_def try_finally_def intro: R_trans)
qed

lemma effect_if [effect_intros]:
  "(b \<Longrightarrow> effect R m s) \<Longrightarrow> (\<not> b \<Longrightarrow> effect R n s) \<Longrightarrow> effect R (if b then m else n) s"
  by simp

lemma effect_run_if [effect_intros]: "(b \<Longrightarrow> effect R m s) \<Longrightarrow> effect R (run_if b m) s"
  by (simp add: run_if_def effect_ret)

lemma effect_case_option [effect_intros]:
  "(v = None \<Longrightarrow> effect R m s) \<Longrightarrow> (\<And>x. v = Some x \<Longrightarrow> effect R (f x) s) \<Longrightarrow>
   effect R (case v of None \<Rightarrow> m | Some x \<Rightarrow> f x) s"
  by (cases v) simp_all

lemma effect_case_sum [effect_intros]:
  "(\<And>x. v = Inl x \<Longrightarrow> effect R (f x) s) \<Longrightarrow> (\<And>y. v = Inr y \<Longrightarrow> effect R (g y) s) \<Longrightarrow>
   effect R (case v of Inl x \<Rightarrow> f x | Inr y \<Rightarrow> g y) s"
  by (cases v) simp_all

lemma effect_modify: "R s (f s) \<Longrightarrow> effect R (modify f) s"
  by (simp add: effect_def modify_def)

lemma effect_for_each [effect_intros]:
  assumes "\<And>x s. x \<in> set xs \<Longrightarrow> effect R (f x) s"
  shows "effect R (for_each f xs) s"
  using assms
proof (induction xs arbitrary: s)
  case Nil
  show ?case by (simp add: effect_ret)
next
  case (Cons x xs)
  show ?case
    unfolding for_each.simps
    by (rule effect_bnd) (simp_all add: Cons)
qed

lemma effect_let [effect_intros]: "effect R (f v) s \<Longrightarrow> effect R (Let v f) s"
  by simp

end

subsection \<open>Tables\<close>

text \<open>
  A table of the database is a list of rows in insertion order with a key. The generated
  client of the program is used through \<open>findFirst\<close>, \<open>findMany\<close>, \<open>count\<close>, \<open>create\<close> and
  \<open>update\<close> by id; a record of type \<open>table\<close> says where the rows live in the world.
\<close>

record ('w, 'r) table =
  tget :: "'w \<Rightarrow> 'r list"
  tput :: "'r list \<Rightarrow> 'w \<Rightarrow> 'w"
  tkey :: "'r \<Rightarrow> string"

definition upd_row :: "('r \<Rightarrow> string) \<Rightarrow> string \<Rightarrow> ('r \<Rightarrow> 'r) \<Rightarrow> 'r list \<Rightarrow> 'r list" where
  "upd_row key k f rs = map (\<lambda>r. if key r = k then f r else r) rs"

definition find_first :: "('w, 'r) table \<Rightarrow> ('r \<Rightarrow> bool) \<Rightarrow> ('w, 'e, 'r option) sem" where
  "find_first t P = gets (\<lambda>w. find P (tget t w))"

definition find_many :: "('w, 'r) table \<Rightarrow> ('r \<Rightarrow> bool) \<Rightarrow> ('w, 'e, 'r list) sem" where
  "find_many t P = gets (\<lambda>w. filter P (tget t w))"

definition create_row :: "('w, 'r) table \<Rightarrow> 'r \<Rightarrow> ('w, 'e, 'r) sem" where
  "create_row t r = bnd (modify (\<lambda>w. tput t (tget t w @ [r]) w)) (\<lambda>_. ret r)"

text \<open>An update by id returns the updated row; a missing row is an error of the client.\<close>

definition update_row ::
  "('w, 'r) table \<Rightarrow> 'e \<Rightarrow> string \<Rightarrow> ('r \<Rightarrow> 'r) \<Rightarrow> ('w, 'e, 'r) sem" where
  "update_row t missing k f = (\<lambda>w.
     case find (\<lambda>r. tkey t r = k) (tget t w) of
       None \<Rightarrow> (Inl missing, w)
     | Some r \<Rightarrow> (Inr (f r), tput t (upd_row (tkey t) k f (tget t w)) w))"

definition update_many :: "('w, 'r) table \<Rightarrow> ('r \<Rightarrow> bool) \<Rightarrow> ('r \<Rightarrow> 'r) \<Rightarrow> ('w, 'e, nat) sem" where
  "update_many t P f = (\<lambda>w.
     (Inr (length (filter P (tget t w))),
      tput t (map (\<lambda>r. if P r then f r else r) (tget t w)) w))"

definition row_of :: "('w, 'r) table \<Rightarrow> string \<Rightarrow> 'w \<Rightarrow> 'r option" where
  "row_of t k w = find (\<lambda>r. tkey t r = k) (tget t w)"

declare find_first_def [run_simps] find_many_def [run_simps] create_row_def [run_simps]
  update_row_def [run_simps] update_many_def [run_simps]

lemma bnd_find_first [step_simps]: "bnd (find_first t P) f w = f (find P (tget t w)) w"
  by (simp add: bnd_def run_simps)

lemma bnd_find_many [step_simps]: "bnd (find_many t P) f w = f (filter P (tget t w)) w"
  by (simp add: bnd_def run_simps)

lemma bnd_create_row [step_simps]: "bnd (create_row t r) f w = f r (tput t (tget t w @ [r]) w)"
  by (simp add: bnd_def run_simps)

lemma bnd_find_firstE:
  "bnd (find_first t P) f w = (Inr y, w') \<Longrightarrow> (f (find P (tget t w)) w = (Inr y, w') \<Longrightarrow> thesis) \<Longrightarrow> thesis"
  by (unfold bnd_find_first, blast)

lemma bnd_find_manyE:
  "bnd (find_many t P) f w = (Inr y, w') \<Longrightarrow> (f (filter P (tget t w)) w = (Inr y, w') \<Longrightarrow> thesis) \<Longrightarrow> thesis"
  by (unfold bnd_find_many, blast)

lemma bnd_create_rowE:
  "bnd (create_row t r) f w = (Inr y, w') \<Longrightarrow> (f r (tput t (tget t w @ [r]) w) = (Inr y, w') \<Longrightarrow> thesis) \<Longrightarrow> thesis"
  by (unfold bnd_create_row, blast)

lemma find_upd_row:
  assumes "\<And>r. key (f r) = key r"
  shows "find (\<lambda>r. key r = k') (upd_row key k f rs) =
    (if k' = k then map_option f (find (\<lambda>r. key r = k) rs) else find (\<lambda>r. key r = k') rs)"
  using assms by (induction rs) (auto simp: upd_row_def)

lemma map_key_upd_row: "(\<And>r. key (f r) = key r) \<Longrightarrow> map key (upd_row key k f rs) = map key rs"
  by (simp add: upd_row_def)

lemma length_upd_row [simp]: "length (upd_row key k f rs) = length rs"
  by (simp add: upd_row_def)

lemma find_append: "find P (xs @ ys) = (case find P xs of None \<Rightarrow> find P ys | Some x \<Rightarrow> Some x)"
  by (induction xs) auto

lemma find_SomeD: "find P xs = Some x \<Longrightarrow> P x \<and> x \<in> set xs"
  by (induction xs) (auto split: if_splits)

text \<open>
  The interface a component relies on: what is read back after each operation. It is
  stated as lens laws of the table and proved once for every table of the program.
\<close>

locale table_laws =
  fixes t :: "('w, 'r) table"
  assumes get_put [simp]: "tget t (tput t rs w) = rs"
    and put_put [simp]: "tput t rs (tput t rs' w) = tput t rs w"
    and put_get [simp]: "tput t (tget t w) w = w"
begin

lemma row_of_create:
  "row_of t k (snd (create_row t r w)) =
   (case row_of t k w of None \<Rightarrow> if tkey t r = k then Some r else None | Some q \<Rightarrow> Some q)"
  by (simp add: row_of_def run_simps find_append split: option.splits)

lemma row_of_update:
  assumes "\<And>r. tkey t (f r) = tkey t r" and "update_row t e k f w = (Inr q, w')"
  shows "row_of t k' w' = (if k' = k then Some q else row_of t k' w)"
  using assms by (auto simp: row_of_def update_row_def find_upd_row split: option.splits)

lemma update_row_Inr:
  assumes "row_of t k w = Some r"
  shows "update_row t e k f w = (Inr (f r), tput t (upd_row (tkey t) k f (tget t w)) w)"
  using assms by (simp add: row_of_def update_row_def)

lemma update_row_Inl:
  assumes "row_of t k w = None"
  shows "update_row t e k f w = (Inl e, w)"
  using assms by (simp add: row_of_def update_row_def)

lemma distinct_keys_update:
  assumes "\<And>r. tkey t (f r) = tkey t r"
  shows "map (tkey t) (tget t (snd (update_row t e k f w))) = map (tkey t) (tget t w)"
  using assms by (auto simp: update_row_def map_key_upd_row split: option.splits)

end

subsection \<open>Frames and the evolution of rows\<close>

text \<open>
  Relations on states, reflexive and transitive, so that the calculus above composes them along
  a method. \<open>same_of f\<close> says that a part of the state is left alone; \<open>preserves I\<close> that a
  predicate is maintained; \<open>rows_ok t like\<close> that the keys of a table stay unique, no row
  disappears and each row changes only as \<open>like\<close> allows.
\<close>

definition same_of :: "('s \<Rightarrow> 'x) \<Rightarrow> 's \<Rightarrow> 's \<Rightarrow> bool" where
  "same_of f w w' \<longleftrightarrow> f w' = f w"

interpretation same: effect_order "same_of f" for f
  by unfold_locales (simp_all add: same_of_def)

definition preserves :: "('s \<Rightarrow> bool) \<Rightarrow> 's \<Rightarrow> 's \<Rightarrow> bool" where
  "preserves I w w' \<longleftrightarrow> (I w \<longrightarrow> I w')"

interpretation maintained: effect_order "preserves I" for I
  by unfold_locales (simp_all add: preserves_def)

definition keeps :: "('w \<Rightarrow> 'x) \<Rightarrow> ('w, 'r) table \<Rightarrow> bool" where
  "keeps f t \<longleftrightarrow> (\<forall>rs w. f (tput t rs w) = f w)"

lemma same_create [effect_intros]: "keeps f t \<Longrightarrow> effect (same_of f) (create_row t r) w"
  by (simp add: effect_def same_of_def keeps_def run_simps)

lemma same_update [effect_intros]: "keeps f t \<Longrightarrow> effect (same_of f) (update_row t e k g) w"
  by (simp add: effect_def same_of_def keeps_def run_simps split: option.splits)

lemma same_update_many [effect_intros]: "keeps f t \<Longrightarrow> effect (same_of f) (update_many t P g) w"
  by (simp add: effect_def same_of_def keeps_def run_simps)

lemma same_find_first [effect_intros]: "effect (same_of f) (find_first t P) w"
  by (simp add: effect_def same_of_def run_simps)

lemma same_find_many [effect_intros]: "effect (same_of f) (find_many t P) w"
  by (simp add: effect_def same_of_def run_simps)

lemma same_modify [effect_intros]: "f (g w) = f w \<Longrightarrow> effect (same_of f) (modify g) w"
  by (simp add: effect_def same_of_def run_simps)

definition unique_keys :: "('w, 'r) table \<Rightarrow> 'w \<Rightarrow> bool" where
  "unique_keys t w \<longleftrightarrow> distinct (map (tkey t) (tget t w))"

lemma find_unique:
  assumes "distinct (map key rs)" and "find (\<lambda>r. key r = k \<and> P r) rs = Some r"
  shows "find (\<lambda>r. key r = k) rs = Some r"
  using assms by (induction rs) (auto split: if_splits dest!: find_SomeD)

definition rows_ok :: "('w, 'r) table \<Rightarrow> ('r \<Rightarrow> 'r \<Rightarrow> bool) \<Rightarrow> 'w \<Rightarrow> 'w \<Rightarrow> bool" where
  "rows_ok t like w w' \<longleftrightarrow> (unique_keys t w \<longrightarrow> unique_keys t w'
     \<and> (\<forall>k r. row_of t k w = Some r \<longrightarrow> (\<exists>r'. row_of t k w' = Some r' \<and> like r r')))"

lemma rows_okD:
  assumes "effect (rows_ok t like) m w" and "unique_keys t w" and "row_of t k w = Some r"
  obtains r' where "row_of t k (snd (m w)) = Some r'" and "like r r'"
  using assms by (auto simp: effect_def rows_ok_def)

lemma rows_ok_mono:
  assumes "\<And>r q. like r q \<Longrightarrow> like' r q" and "effect (rows_ok t like) m w"
  shows "effect (rows_ok t like') m w"
  using assms unfolding effect_def rows_ok_def by meson

locale row_order = table_laws t for t :: "('w, 'r) table" +
  fixes like :: "'r \<Rightarrow> 'r \<Rightarrow> bool"
  assumes like_refl: "like r r"
    and like_trans: "like r q \<Longrightarrow> like q p \<Longrightarrow> like r p"
begin

sublocale ord: effect_order "rows_ok t like"
proof
  show "rows_ok t like w w" for w
    by (auto simp: rows_ok_def like_refl)
  show "rows_ok t like w u \<Longrightarrow> rows_ok t like u v \<Longrightarrow> rows_ok t like w v" for w u v
    unfolding rows_ok_def by (meson like_trans)
qed

lemma rows_unique: "(unique_keys t w \<Longrightarrow> effect (rows_ok t like) m w) \<Longrightarrow> effect (rows_ok t like) m w"
  by (auto simp: effect_def rows_ok_def)

lemma rows_same: "effect (same_of (tget t)) m w \<Longrightarrow> effect (rows_ok t like) m w"
  by (auto simp: effect_def same_of_def rows_ok_def unique_keys_def row_of_def like_refl)

lemma rows_find_first [effect_intros]: "effect (rows_ok t like) (find_first u P) w"
  by (intro rows_same same_find_first)

lemma rows_find_many [effect_intros]: "effect (rows_ok t like) (find_many u P) w"
  by (intro rows_same same_find_many)

lemma rows_create_other [effect_intros]:
  "keeps (tget t) u \<Longrightarrow> effect (rows_ok t like) (create_row u r) w"
  by (intro rows_same same_create)

lemma rows_update_other [effect_intros]:
  "keeps (tget t) u \<Longrightarrow> effect (rows_ok t like) (update_row u e k g) w"
  by (intro rows_same same_update)

text \<open>A new row under a fresh key, and an update that moves a row along \<open>like\<close>.\<close>

lemma rows_create:
  assumes "tkey t r \<notin> tkey t ` set (tget t w)"
  shows "effect (rows_ok t like) (create_row t r) w"
  using assms
  by (auto simp: effect_def rows_ok_def row_of_create like_refl) (simp add: unique_keys_def run_simps)

lemma rows_update:
  assumes key: "\<And>q. tkey t (f q) = tkey t q" and step: "\<And>r. row_of t k w = Some r \<Longrightarrow> like r (f r)"
  shows "effect (rows_ok t like) (update_row t e k f) w"
proof (cases "row_of t k w")
  case None
  then show ?thesis by (simp add: effect_def update_row_Inl ord.R_refl)
next
  case (Some r)
  have "update_row t e k f w = (Inr (f r), snd (update_row t e k f w))"
    by (simp add: update_row_Inr [OF Some])
  note rows = row_of_update [OF key this]
  have "unique_keys t (snd (update_row t e k f w)) = unique_keys t w"
    by (simp add: unique_keys_def distinct_keys_update key)
  then show ?thesis
    using step [OF Some] Some by (auto simp: effect_def rows_ok_def rows like_refl)
qed

text \<open>Steps that leave the table alone keep what is known of a row; an update of a known row.\<close>

lemma keep_bnd:
  assumes "row_of t k s = Some r" and "effect (same_of (tget t)) m s"
    and "\<And>x s'. row_of t k s' = Some r \<Longrightarrow> m s = (Inr x, s') \<Longrightarrow> effect (rows_ok t like) (f x) s'"
  shows "effect (rows_ok t like) (bnd m f) s"
proof (rule ord.effect_bnd)
  show "effect (rows_ok t like) m s" using assms(2) by (rule rows_same)
  fix x s' assume m: "m s = (Inr x, s')"
  have "row_of t k s' = Some r"
    using assms(1,2) m by (simp add: effect_def same_of_def row_of_def)
  then show "effect (rows_ok t like) (f x) s'" using m by (rule assms(3))
qed

text \<open>The same for a property of any part of the state that contains the table.\<close>

lemma keep_part:
  assumes "Q (g s)" and "effect (same_of g) m s" and "\<And>w w'. g w' = g w \<Longrightarrow> tget t w' = tget t w"
    and "\<And>x s'. Q (g s') \<Longrightarrow> m s = (Inr x, s') \<Longrightarrow> effect (rows_ok t like) (f x) s'"
  shows "effect (rows_ok t like) (bnd m f) s"
proof (rule ord.effect_bnd)
  have "g (snd (m s)) = g s"
    using assms(2) by (simp add: effect_def same_of_def)
  from assms(3) [OF this] show "effect (rows_ok t like) m s"
    by (intro rows_same) (simp add: effect_def same_of_def)
  fix x s' assume m: "m s = (Inr x, s')"
  then have "Q (g s')" using assms(1,2) by (simp add: effect_def same_of_def)
  then show "effect (rows_ok t like) (f x) s'" using m by (rule assms(4))
qed

lemma keep_update:
  assumes "row_of t k s = Some r" and "effect (same_of (tget t)) pre s"
    and "\<And>x. like r (f x r)" and "\<And>x q. tkey t (f x q) = tkey t q"
    and "\<And>x s'. effect (rows_ok t like) (h x) s'"
  shows "effect (rows_ok t like) (bnd (bnd pre (\<lambda>x. update_row t e k (f x))) h) s"
proof (rule ord.effect_bnd [OF _ assms(5)], rule keep_bnd [OF assms(1,2)])
  fix x s' assume "row_of t k s' = Some r"
  then show "effect (rows_ok t like) (update_row t e k (f x)) s'"
    using assms(3,4) by (intro rows_update) auto
qed

end

subsection \<open>Strings\<close>

text \<open>
  Strings are lists of characters; the program's case folding and patterns are on ASCII
  letters, and the model's strings are read as ASCII text.
\<close>

definition lower_char :: "char \<Rightarrow> char" where
  "lower_char c = (let n = of_char c :: nat in
     if 65 \<le> n \<and> n \<le> 90 then char_of (n + 32) else c)"

definition upper_char :: "char \<Rightarrow> char" where
  "upper_char c = (let n = of_char c :: nat in
     if 97 \<le> n \<and> n \<le> 122 then char_of (n - 32) else c)"

definition to_lower :: "string \<Rightarrow> string" where
  "to_lower s = map lower_char s"

definition to_upper :: "string \<Rightarrow> string" where
  "to_upper s = map upper_char s"

definition str_includes :: "string \<Rightarrow> string \<Rightarrow> bool" where
  "str_includes s sub \<longleftrightarrow> sublist sub s"

definition starts_with :: "string \<Rightarrow> string \<Rightarrow> bool" where
  "starts_with s p \<longleftrightarrow> prefix p s"

definition ends_with :: "string \<Rightarrow> string \<Rightarrow> bool" where
  "ends_with s p \<longleftrightarrow> suffix p s"

definition is_space :: "char \<Rightarrow> bool" where
  "is_space c \<longleftrightarrow> (let n = of_char c :: nat in n = 32 \<or> (9 \<le> n \<and> n \<le> 13) \<or> n = 160)"

definition trim :: "string \<Rightarrow> string" where
  "trim s = rev (dropWhile is_space (rev (dropWhile is_space s)))"

text \<open>\<open>s.split(sep)\<close> for a one-character separator.\<close>

fun split_on :: "char \<Rightarrow> string \<Rightarrow> string list" where
  "split_on sep [] = [[]]"
| "split_on sep (c # cs) =
     (if c = sep then [] # split_on sep cs
      else (case split_on sep cs of [] \<Rightarrow> [[c]] | p # ps \<Rightarrow> (c # p) # ps))"

fun join_with :: "string \<Rightarrow> string list \<Rightarrow> string" where
  "join_with sep [] = []"
| "join_with sep [p] = p"
| "join_with sep (p # q # ps) = p @ sep @ join_with sep (q # ps)"

text \<open>Decimal numerals.\<close>

definition is_digit :: "char \<Rightarrow> bool" where
  "is_digit c \<longleftrightarrow> CHR ''0'' \<le> c \<and> c \<le> CHR ''9''"

definition digits_value :: "string \<Rightarrow> nat" where
  "digits_value s = foldl (\<lambda>n c. 10 * n + (of_char c - 48)) 0 s"

text \<open>JavaScript's truthiness of a nullable string: \<open>undefined\<close>, \<open>null\<close> and \<open>''\<close> are false.\<close>

definition truthy :: "string option \<Rightarrow> bool" where
  "truthy v \<longleftrightarrow> (case v of None \<Rightarrow> False | Some s \<Rightarrow> s \<noteq> [])"

text \<open>\<open>x ?? y\<close>.\<close>

fun coalesce :: "'a option \<Rightarrow> 'a \<Rightarrow> 'a" where
  "coalesce (Some x) _ = x"
| "coalesce None y = y"

lemma split_on_Nil [simp]: "split_on sep cs \<noteq> []"
  by (induction cs) (auto split: list.splits)

lemma join_split [simp]: "join_with [sep] (split_on sep cs) = cs"
proof (induction cs)
  case (Cons c cs)
  then show ?case by (cases "split_on sep cs"; cases "tl (split_on sep cs)") auto
qed simp

lemma split_on_append:
  "sep \<notin> set p \<Longrightarrow> split_on sep (p @ sep # cs) = p # split_on sep cs"
  by (induction p) auto

lemma split_on_absent: "sep \<notin> set p \<Longrightarrow> split_on sep p = [p]"
  by (induction p) auto

lemma to_lower_append [simp]: "to_lower (xs @ ys) = to_lower xs @ to_lower ys"
  by (simp add: to_lower_def)

lemma lower_char_idem [simp]: "lower_char (lower_char c) = lower_char c"
  by (auto simp: lower_char_def Let_def)

lemma to_lower_idem [simp]: "to_lower (to_lower s) = to_lower s"
  by (simp add: to_lower_def)

subsection \<open>Lists\<close>

text \<open>\<open>[...new Set(xs)]\<close>: the first occurrence of each element, in order.\<close>

fun dedupe_aux :: "'a list \<Rightarrow> 'a list \<Rightarrow> 'a list" where
  "dedupe_aux seen [] = []"
| "dedupe_aux seen (x # xs) =
     (if List.member seen x then dedupe_aux seen xs else x # dedupe_aux (x # seen) xs)"

definition dedupe :: "'a list \<Rightarrow> 'a list" where
  "dedupe xs = dedupe_aux [] xs"

lemma set_dedupe_aux: "set (dedupe_aux seen xs) = set xs - set seen"
  by (induction seen xs rule: dedupe_aux.induct) (auto simp: List.member_iff)

lemma set_dedupe [simp]: "set (dedupe xs) = set xs"
  by (simp add: dedupe_def set_dedupe_aux)

lemma distinct_dedupe_aux: "distinct (dedupe_aux seen xs)"
  by (induction seen xs rule: dedupe_aux.induct) (auto simp: List.member_iff set_dedupe_aux)

lemma distinct_dedupe [simp]: "distinct (dedupe xs)"
  by (simp add: dedupe_def distinct_dedupe_aux)

text \<open>\<open>take\<close> and \<open>skip\<close> of a query.\<close>

definition page_of :: "nat \<Rightarrow> nat \<Rightarrow> 'a list \<Rightarrow> 'a list" where
  "page_of skip n xs = take n (drop skip xs)"

end
