(* ===== verification/Enums.thy ===== *)
theory Enums
  imports Prelude
begin

section \<open>The enumerations of the domain and its errors\<close>

text \<open>
  The constant objects of \<open>libs/domain/src/enums.ts\<close>, the error codes of
  \<open>errors.ts\<close> and the risk signals of \<open>policy.ts\<close>: one datatype per object,
  its \<open>_value\<close> function with the strings of the source, and the list
  \<open>Object.values\<close> gives. The database client's enumerations have the same members, in
  upper case; the model uses one datatype for both, and the theory Mappings has the
  conversion functions over their names.
\<close>

datatype user_role =
    Role_Owner | Role_Admin | Role_Approver | Role_Auditor | Role_Developer

primrec user_role_value :: "user_role \<Rightarrow> string" where
  "user_role_value Role_Owner = ''owner''"
| "user_role_value Role_Admin = ''admin''"
| "user_role_value Role_Approver = ''approver''"
| "user_role_value Role_Auditor = ''auditor''"
| "user_role_value Role_Developer = ''developer''"

definition USER_ROLES :: "user_role list" where
  "USER_ROLES =
    [Role_Owner, Role_Admin, Role_Approver, Role_Auditor, Role_Developer]"

lemma set_USER_ROLES [simp]: "set USER_ROLES = UNIV"
proof -
  have "x \<in> set USER_ROLES" for x by (cases x) (simp_all add: USER_ROLES_def)
  then show ?thesis by auto
qed

lemma user_role_value_inject [simp]: "user_role_value x = user_role_value y \<longleftrightarrow> x = y"
  by (cases x; cases y) simp_all

datatype user_status =
    User_Active | User_Invited | User_Disabled

primrec user_status_value :: "user_status \<Rightarrow> string" where
  "user_status_value User_Active = ''active''"
| "user_status_value User_Invited = ''invited''"
| "user_status_value User_Disabled = ''disabled''"

definition USER_STATUSES :: "user_status list" where
  "USER_STATUSES =
    [User_Active, User_Invited, User_Disabled]"

lemma set_USER_STATUSES [simp]: "set USER_STATUSES = UNIV"
proof -
  have "x \<in> set USER_STATUSES" for x by (cases x) (simp_all add: USER_STATUSES_def)
  then show ?thesis by auto
qed

lemma user_status_value_inject [simp]: "user_status_value x = user_status_value y \<longleftrightarrow> x = y"
  by (cases x; cases y) simp_all

datatype agent_status =
    Agent_Active | Agent_Paused | Agent_Revoked

primrec agent_status_value :: "agent_status \<Rightarrow> string" where
  "agent_status_value Agent_Active = ''active''"
| "agent_status_value Agent_Paused = ''paused''"
| "agent_status_value Agent_Revoked = ''revoked''"

definition AGENT_STATUSES :: "agent_status list" where
  "AGENT_STATUSES =
    [Agent_Active, Agent_Paused, Agent_Revoked]"

lemma set_AGENT_STATUSES [simp]: "set AGENT_STATUSES = UNIV"
proof -
  have "x \<in> set AGENT_STATUSES" for x by (cases x) (simp_all add: AGENT_STATUSES_def)
  then show ?thesis by auto
qed

lemma agent_status_value_inject [simp]: "agent_status_value x = agent_status_value y \<longleftrightarrow> x = y"
  by (cases x; cases y) simp_all

datatype vendor_category =
    Vendor_Analytics | Vendor_Productivity | Vendor_Sales | Vendor_Payroll |
    Vendor_Finance | Vendor_Security | Vendor_Other

primrec vendor_category_value :: "vendor_category \<Rightarrow> string" where
  "vendor_category_value Vendor_Analytics = ''analytics''"
| "vendor_category_value Vendor_Productivity = ''productivity''"
| "vendor_category_value Vendor_Sales = ''sales''"
| "vendor_category_value Vendor_Payroll = ''payroll''"
| "vendor_category_value Vendor_Finance = ''finance''"
| "vendor_category_value Vendor_Security = ''security''"
| "vendor_category_value Vendor_Other = ''other''"

definition VENDOR_CATEGORIES :: "vendor_category list" where
  "VENDOR_CATEGORIES =
    [Vendor_Analytics, Vendor_Productivity, Vendor_Sales, Vendor_Payroll,
     Vendor_Finance, Vendor_Security, Vendor_Other]"

lemma set_VENDOR_CATEGORIES [simp]: "set VENDOR_CATEGORIES = UNIV"
proof -
  have "x \<in> set VENDOR_CATEGORIES" for x by (cases x) (simp_all add: VENDOR_CATEGORIES_def)
  then show ?thesis by auto
qed

lemma vendor_category_value_inject [simp]: "vendor_category_value x = vendor_category_value y \<longleftrightarrow> x = y"
  by (cases x; cases y) simp_all

datatype connector_type =
    Connector_Sandbox | Connector_StripeBilling | Connector_Github

primrec connector_type_value :: "connector_type \<Rightarrow> string" where
  "connector_type_value Connector_Sandbox = ''sandbox''"
| "connector_type_value Connector_StripeBilling = ''stripe_billing''"
| "connector_type_value Connector_Github = ''github''"

definition CONNECTOR_TYPES :: "connector_type list" where
  "CONNECTOR_TYPES =
    [Connector_Sandbox, Connector_StripeBilling, Connector_Github]"

lemma set_CONNECTOR_TYPES [simp]: "set CONNECTOR_TYPES = UNIV"
proof -
  have "x \<in> set CONNECTOR_TYPES" for x by (cases x) (simp_all add: CONNECTOR_TYPES_def)
  then show ?thesis by auto
qed

lemma connector_type_value_inject [simp]: "connector_type_value x = connector_type_value y \<longleftrightarrow> x = y"
  by (cases x; cases y) simp_all

datatype policy_type =
    PolicyType_WebsiteAllowlist | PolicyType_ActionPermissions |
    PolicyType_SpendingLimits | PolicyType_DataAccess | PolicyType_TimeWindow |
    PolicyType_ApprovalRules | PolicyType_AgentPolicyBundle

primrec policy_type_value :: "policy_type \<Rightarrow> string" where
  "policy_type_value PolicyType_WebsiteAllowlist = ''website_allowlist''"
| "policy_type_value PolicyType_ActionPermissions = ''action_permissions''"
| "policy_type_value PolicyType_SpendingLimits = ''spending_limits''"
| "policy_type_value PolicyType_DataAccess = ''data_access''"
| "policy_type_value PolicyType_TimeWindow = ''time_window''"
| "policy_type_value PolicyType_ApprovalRules = ''approval_rules''"
| "policy_type_value PolicyType_AgentPolicyBundle = ''agent_policy_bundle''"

definition POLICY_TYPES :: "policy_type list" where
  "POLICY_TYPES =
    [PolicyType_WebsiteAllowlist, PolicyType_ActionPermissions,
     PolicyType_SpendingLimits, PolicyType_DataAccess, PolicyType_TimeWindow,
     PolicyType_ApprovalRules, PolicyType_AgentPolicyBundle]"

lemma set_POLICY_TYPES [simp]: "set POLICY_TYPES = UNIV"
proof -
  have "x \<in> set POLICY_TYPES" for x by (cases x) (simp_all add: POLICY_TYPES_def)
  then show ?thesis by auto
qed

lemma policy_type_value_inject [simp]: "policy_type_value x = policy_type_value y \<longleftrightarrow> x = y"
  by (cases x; cases y) simp_all

datatype policy_status =
    Policy_Active | Policy_Draft | Policy_Archived

primrec policy_status_value :: "policy_status \<Rightarrow> string" where
  "policy_status_value Policy_Active = ''active''"
| "policy_status_value Policy_Draft = ''draft''"
| "policy_status_value Policy_Archived = ''archived''"

definition POLICY_STATUSES :: "policy_status list" where
  "POLICY_STATUSES =
    [Policy_Active, Policy_Draft, Policy_Archived]"

lemma set_POLICY_STATUSES [simp]: "set POLICY_STATUSES = UNIV"
proof -
  have "x \<in> set POLICY_STATUSES" for x by (cases x) (simp_all add: POLICY_STATUSES_def)
  then show ?thesis by auto
qed

lemma policy_status_value_inject [simp]: "policy_status_value x = policy_status_value y \<longleftrightarrow> x = y"
  by (cases x; cases y) simp_all

datatype credential_type =
    CredentialType_UsernamePassword | CredentialType_TotpSecret |
    CredentialType_ApiToken | CredentialType_OAuthToken | CredentialType_SessionCookie

primrec credential_type_value :: "credential_type \<Rightarrow> string" where
  "credential_type_value CredentialType_UsernamePassword = ''username_password''"
| "credential_type_value CredentialType_TotpSecret = ''totp_secret''"
| "credential_type_value CredentialType_ApiToken = ''api_token''"
| "credential_type_value CredentialType_OAuthToken = ''oauth_token''"
| "credential_type_value CredentialType_SessionCookie = ''session_cookie''"

definition CREDENTIAL_TYPES :: "credential_type list" where
  "CREDENTIAL_TYPES =
    [CredentialType_UsernamePassword, CredentialType_TotpSecret,
     CredentialType_ApiToken, CredentialType_OAuthToken, CredentialType_SessionCookie]"

lemma set_CREDENTIAL_TYPES [simp]: "set CREDENTIAL_TYPES = UNIV"
proof -
  have "x \<in> set CREDENTIAL_TYPES" for x by (cases x) (simp_all add: CREDENTIAL_TYPES_def)
  then show ?thesis by auto
qed

lemma credential_type_value_inject [simp]: "credential_type_value x = credential_type_value y \<longleftrightarrow> x = y"
  by (cases x; cases y) simp_all

datatype credential_status =
    Credential_Active | Credential_Revoked | Credential_Rotated

primrec credential_status_value :: "credential_status \<Rightarrow> string" where
  "credential_status_value Credential_Active = ''active''"
| "credential_status_value Credential_Revoked = ''revoked''"
| "credential_status_value Credential_Rotated = ''rotated''"

definition CREDENTIAL_STATUSES :: "credential_status list" where
  "CREDENTIAL_STATUSES =
    [Credential_Active, Credential_Revoked, Credential_Rotated]"

lemma set_CREDENTIAL_STATUSES [simp]: "set CREDENTIAL_STATUSES = UNIV"
proof -
  have "x \<in> set CREDENTIAL_STATUSES" for x by (cases x) (simp_all add: CREDENTIAL_STATUSES_def)
  then show ?thesis by auto
qed

lemma credential_status_value_inject [simp]: "credential_status_value x = credential_status_value y \<longleftrightarrow> x = y"
  by (cases x; cases y) simp_all

datatype workflow_template =
    Template_VendorInvoiceDownload | Template_SaasRenewalCheck |
    Template_PlanDowngradeRequest

primrec workflow_template_value :: "workflow_template \<Rightarrow> string" where
  "workflow_template_value Template_VendorInvoiceDownload = ''vendor_invoice_download''"
| "workflow_template_value Template_SaasRenewalCheck = ''saas_renewal_check''"
| "workflow_template_value Template_PlanDowngradeRequest = ''plan_downgrade_request''"

definition WORKFLOW_TEMPLATES :: "workflow_template list" where
  "WORKFLOW_TEMPLATES =
    [Template_VendorInvoiceDownload, Template_SaasRenewalCheck,
     Template_PlanDowngradeRequest]"

lemma set_WORKFLOW_TEMPLATES [simp]: "set WORKFLOW_TEMPLATES = UNIV"
proof -
  have "x \<in> set WORKFLOW_TEMPLATES" for x by (cases x) (simp_all add: WORKFLOW_TEMPLATES_def)
  then show ?thesis by auto
qed

lemma workflow_template_value_inject [simp]: "workflow_template_value x = workflow_template_value y \<longleftrightarrow> x = y"
  by (cases x; cases y) simp_all

datatype workflow_status =
    Workflow_Active | Workflow_Paused | Workflow_Archived

primrec workflow_status_value :: "workflow_status \<Rightarrow> string" where
  "workflow_status_value Workflow_Active = ''active''"
| "workflow_status_value Workflow_Paused = ''paused''"
| "workflow_status_value Workflow_Archived = ''archived''"

definition WORKFLOW_STATUSES :: "workflow_status list" where
  "WORKFLOW_STATUSES =
    [Workflow_Active, Workflow_Paused, Workflow_Archived]"

lemma set_WORKFLOW_STATUSES [simp]: "set WORKFLOW_STATUSES = UNIV"
proof -
  have "x \<in> set WORKFLOW_STATUSES" for x by (cases x) (simp_all add: WORKFLOW_STATUSES_def)
  then show ?thesis by auto
qed

lemma workflow_status_value_inject [simp]: "workflow_status_value x = workflow_status_value y \<longleftrightarrow> x = y"
  by (cases x; cases y) simp_all

datatype workflow_run_status =
    Run_Queued | Run_Running | Run_WaitingForApproval | Run_Completed | Run_Failed |
    Run_Canceled | Run_Denied

primrec workflow_run_status_value :: "workflow_run_status \<Rightarrow> string" where
  "workflow_run_status_value Run_Queued = ''queued''"
| "workflow_run_status_value Run_Running = ''running''"
| "workflow_run_status_value Run_WaitingForApproval = ''waiting_for_approval''"
| "workflow_run_status_value Run_Completed = ''completed''"
| "workflow_run_status_value Run_Failed = ''failed''"
| "workflow_run_status_value Run_Canceled = ''canceled''"
| "workflow_run_status_value Run_Denied = ''denied''"

definition WORKFLOW_RUN_STATUSES :: "workflow_run_status list" where
  "WORKFLOW_RUN_STATUSES =
    [Run_Queued, Run_Running, Run_WaitingForApproval, Run_Completed, Run_Failed,
     Run_Canceled, Run_Denied]"

lemma set_WORKFLOW_RUN_STATUSES [simp]: "set WORKFLOW_RUN_STATUSES = UNIV"
proof -
  have "x \<in> set WORKFLOW_RUN_STATUSES" for x by (cases x) (simp_all add: WORKFLOW_RUN_STATUSES_def)
  then show ?thesis by auto
qed

lemma workflow_run_status_value_inject [simp]: "workflow_run_status_value x = workflow_run_status_value y \<longleftrightarrow> x = y"
  by (cases x; cases y) simp_all

datatype action_type =
    OpenPage | ReadPage | FillForm | ClickButton | DownloadFile | SubmitForm |
    ChangePlan | CancelSubscription | InviteUser | ChangeBillingDetails |
    MakePurchase | CredentialInjection

primrec action_type_value :: "action_type \<Rightarrow> string" where
  "action_type_value OpenPage = ''open_page''"
| "action_type_value ReadPage = ''read_page''"
| "action_type_value FillForm = ''fill_form''"
| "action_type_value ClickButton = ''click_button''"
| "action_type_value DownloadFile = ''download_file''"
| "action_type_value SubmitForm = ''submit_form''"
| "action_type_value ChangePlan = ''change_plan''"
| "action_type_value CancelSubscription = ''cancel_subscription''"
| "action_type_value InviteUser = ''invite_user''"
| "action_type_value ChangeBillingDetails = ''change_billing_details''"
| "action_type_value MakePurchase = ''make_purchase''"
| "action_type_value CredentialInjection = ''credential_injection''"

definition ACTION_TYPES :: "action_type list" where
  "ACTION_TYPES =
    [OpenPage, ReadPage, FillForm, ClickButton, DownloadFile, SubmitForm, ChangePlan,
     CancelSubscription, InviteUser, ChangeBillingDetails, MakePurchase,
     CredentialInjection]"

lemma set_ACTION_TYPES [simp]: "set ACTION_TYPES = UNIV"
proof -
  have "x \<in> set ACTION_TYPES" for x by (cases x) (simp_all add: ACTION_TYPES_def)
  then show ?thesis by auto
qed

lemma action_type_value_inject [simp]: "action_type_value x = action_type_value y \<longleftrightarrow> x = y"
  by (cases x; cases y) simp_all

datatype policy_decision =
    Decide_Allow | Decide_Deny | Decide_RequireApproval | Decide_RequireStepUpAuth |
    Decide_PauseAgent

primrec policy_decision_value :: "policy_decision \<Rightarrow> string" where
  "policy_decision_value Decide_Allow = ''allow''"
| "policy_decision_value Decide_Deny = ''deny''"
| "policy_decision_value Decide_RequireApproval = ''require_approval''"
| "policy_decision_value Decide_RequireStepUpAuth = ''require_step_up_auth''"
| "policy_decision_value Decide_PauseAgent = ''pause_agent''"

definition POLICY_DECISIONS :: "policy_decision list" where
  "POLICY_DECISIONS =
    [Decide_Allow, Decide_Deny, Decide_RequireApproval, Decide_RequireStepUpAuth,
     Decide_PauseAgent]"

lemma set_POLICY_DECISIONS [simp]: "set POLICY_DECISIONS = UNIV"
proof -
  have "x \<in> set POLICY_DECISIONS" for x by (cases x) (simp_all add: POLICY_DECISIONS_def)
  then show ?thesis by auto
qed

lemma policy_decision_value_inject [simp]: "policy_decision_value x = policy_decision_value y \<longleftrightarrow> x = y"
  by (cases x; cases y) simp_all

datatype risk_level =
    Risk_Low | Risk_Medium | Risk_High | Risk_Critical

primrec risk_level_value :: "risk_level \<Rightarrow> string" where
  "risk_level_value Risk_Low = ''low''"
| "risk_level_value Risk_Medium = ''medium''"
| "risk_level_value Risk_High = ''high''"
| "risk_level_value Risk_Critical = ''critical''"

definition RISK_LEVELS :: "risk_level list" where
  "RISK_LEVELS =
    [Risk_Low, Risk_Medium, Risk_High, Risk_Critical]"

lemma set_RISK_LEVELS [simp]: "set RISK_LEVELS = UNIV"
proof -
  have "x \<in> set RISK_LEVELS" for x by (cases x) (simp_all add: RISK_LEVELS_def)
  then show ?thesis by auto
qed

lemma risk_level_value_inject [simp]: "risk_level_value x = risk_level_value y \<longleftrightarrow> x = y"
  by (cases x; cases y) simp_all

datatype approval_status =
    Approval_Pending | Approval_Approved | Approval_Rejected | Approval_Expired |
    Approval_AutoApproved | Approval_Escalated

primrec approval_status_value :: "approval_status \<Rightarrow> string" where
  "approval_status_value Approval_Pending = ''pending''"
| "approval_status_value Approval_Approved = ''approved''"
| "approval_status_value Approval_Rejected = ''rejected''"
| "approval_status_value Approval_Expired = ''expired''"
| "approval_status_value Approval_AutoApproved = ''auto_approved''"
| "approval_status_value Approval_Escalated = ''escalated''"

definition APPROVAL_STATUSES :: "approval_status list" where
  "APPROVAL_STATUSES =
    [Approval_Pending, Approval_Approved, Approval_Rejected, Approval_Expired,
     Approval_AutoApproved, Approval_Escalated]"

lemma set_APPROVAL_STATUSES [simp]: "set APPROVAL_STATUSES = UNIV"
proof -
  have "x \<in> set APPROVAL_STATUSES" for x by (cases x) (simp_all add: APPROVAL_STATUSES_def)
  then show ?thesis by auto
qed

lemma approval_status_value_inject [simp]: "approval_status_value x = approval_status_value y \<longleftrightarrow> x = y"
  by (cases x; cases y) simp_all

datatype audit_actor_type =
    Actor_User | Actor_Agent | Actor_Worker | Actor_System | Actor_Integration

primrec audit_actor_type_value :: "audit_actor_type \<Rightarrow> string" where
  "audit_actor_type_value Actor_User = ''user''"
| "audit_actor_type_value Actor_Agent = ''agent''"
| "audit_actor_type_value Actor_Worker = ''worker''"
| "audit_actor_type_value Actor_System = ''system''"
| "audit_actor_type_value Actor_Integration = ''integration''"

definition AUDIT_ACTOR_TYPES :: "audit_actor_type list" where
  "AUDIT_ACTOR_TYPES =
    [Actor_User, Actor_Agent, Actor_Worker, Actor_System, Actor_Integration]"

lemma set_AUDIT_ACTOR_TYPES [simp]: "set AUDIT_ACTOR_TYPES = UNIV"
proof -
  have "x \<in> set AUDIT_ACTOR_TYPES" for x by (cases x) (simp_all add: AUDIT_ACTOR_TYPES_def)
  then show ?thesis by auto
qed

lemma audit_actor_type_value_inject [simp]: "audit_actor_type_value x = audit_actor_type_value y \<longleftrightarrow> x = y"
  by (cases x; cases y) simp_all

datatype audit_event_type =
    Ev_OrganizationCreated | Ev_OrganizationUpdated | Ev_UserInvited |
    Ev_UserRegistered | Ev_UserLoginSucceeded | Ev_UserLoginFailed | Ev_UserLogout |
    Ev_TokenRefreshed | Ev_UserRoleChanged | Ev_UserDisabled | Ev_AgentCreated |
    Ev_AgentUpdated | Ev_AgentPaused | Ev_AgentResumed | Ev_AgentRevoked |
    Ev_VendorCreated | Ev_VendorUpdated | Ev_VendorDeleted | Ev_PolicyCreated |
    Ev_PolicyUpdated | Ev_PolicyEvaluated | Ev_CredentialCreated |
    Ev_CredentialUpdated | Ev_CredentialGrantedToAgent | Ev_CredentialGrantRevoked |
    Ev_CredentialRevoked | Ev_CredentialUsed | Ev_WorkflowCreated |
    Ev_WorkflowUpdated | Ev_WorkflowRunRequested | Ev_WorkflowRunCreated |
    Ev_WorkflowRunStarted | Ev_WorkflowStepStarted | Ev_WorkflowRunWaitingForApproval |
    Ev_WorkflowRunCompleted | Ev_WorkflowRunFailed | Ev_WorkflowRunCanceled |
    Ev_WorkflowRunDenied | Ev_BrowserPageOpened | Ev_BrowserElementClicked |
    Ev_FileDownloaded | Ev_ApprovalRequested | Ev_ApprovalApproved |
    Ev_ApprovalRejected | Ev_ApprovalExpired | Ev_ReceiptCreated

primrec audit_event_type_value :: "audit_event_type \<Rightarrow> string" where
  "audit_event_type_value Ev_OrganizationCreated = ''organization_created''"
| "audit_event_type_value Ev_OrganizationUpdated = ''organization_updated''"
| "audit_event_type_value Ev_UserInvited = ''user_invited''"
| "audit_event_type_value Ev_UserRegistered = ''user_registered''"
| "audit_event_type_value Ev_UserLoginSucceeded = ''user_login_succeeded''"
| "audit_event_type_value Ev_UserLoginFailed = ''user_login_failed''"
| "audit_event_type_value Ev_UserLogout = ''user_logout''"
| "audit_event_type_value Ev_TokenRefreshed = ''token_refreshed''"
| "audit_event_type_value Ev_UserRoleChanged = ''user_role_changed''"
| "audit_event_type_value Ev_UserDisabled = ''user_disabled''"
| "audit_event_type_value Ev_AgentCreated = ''agent_created''"
| "audit_event_type_value Ev_AgentUpdated = ''agent_updated''"
| "audit_event_type_value Ev_AgentPaused = ''agent_paused''"
| "audit_event_type_value Ev_AgentResumed = ''agent_resumed''"
| "audit_event_type_value Ev_AgentRevoked = ''agent_revoked''"
| "audit_event_type_value Ev_VendorCreated = ''vendor_created''"
| "audit_event_type_value Ev_VendorUpdated = ''vendor_updated''"
| "audit_event_type_value Ev_VendorDeleted = ''vendor_deleted''"
| "audit_event_type_value Ev_PolicyCreated = ''policy_created''"
| "audit_event_type_value Ev_PolicyUpdated = ''policy_updated''"
| "audit_event_type_value Ev_PolicyEvaluated = ''policy_evaluated''"
| "audit_event_type_value Ev_CredentialCreated = ''credential_created''"
| "audit_event_type_value Ev_CredentialUpdated = ''credential_updated''"
| "audit_event_type_value Ev_CredentialGrantedToAgent = ''credential_granted_to_agent''"
| "audit_event_type_value Ev_CredentialGrantRevoked = ''credential_grant_revoked''"
| "audit_event_type_value Ev_CredentialRevoked = ''credential_revoked''"
| "audit_event_type_value Ev_CredentialUsed = ''credential_used''"
| "audit_event_type_value Ev_WorkflowCreated = ''workflow_created''"
| "audit_event_type_value Ev_WorkflowUpdated = ''workflow_updated''"
| "audit_event_type_value Ev_WorkflowRunRequested = ''workflow_run_requested''"
| "audit_event_type_value Ev_WorkflowRunCreated = ''workflow_run_created''"
| "audit_event_type_value Ev_WorkflowRunStarted = ''workflow_run_started''"
| "audit_event_type_value Ev_WorkflowStepStarted = ''workflow_step_started''"
| "audit_event_type_value Ev_WorkflowRunWaitingForApproval = ''workflow_run_waiting_for_approval''"
| "audit_event_type_value Ev_WorkflowRunCompleted = ''workflow_run_completed''"
| "audit_event_type_value Ev_WorkflowRunFailed = ''workflow_run_failed''"
| "audit_event_type_value Ev_WorkflowRunCanceled = ''workflow_run_canceled''"
| "audit_event_type_value Ev_WorkflowRunDenied = ''workflow_run_denied''"
| "audit_event_type_value Ev_BrowserPageOpened = ''browser_page_opened''"
| "audit_event_type_value Ev_BrowserElementClicked = ''browser_element_clicked''"
| "audit_event_type_value Ev_FileDownloaded = ''file_downloaded''"
| "audit_event_type_value Ev_ApprovalRequested = ''approval_requested''"
| "audit_event_type_value Ev_ApprovalApproved = ''approval_approved''"
| "audit_event_type_value Ev_ApprovalRejected = ''approval_rejected''"
| "audit_event_type_value Ev_ApprovalExpired = ''approval_expired''"
| "audit_event_type_value Ev_ReceiptCreated = ''receipt_created''"

definition AUDIT_EVENT_TYPES :: "audit_event_type list" where
  "AUDIT_EVENT_TYPES =
    [Ev_OrganizationCreated, Ev_OrganizationUpdated, Ev_UserInvited, Ev_UserRegistered,
     Ev_UserLoginSucceeded, Ev_UserLoginFailed, Ev_UserLogout, Ev_TokenRefreshed,
     Ev_UserRoleChanged, Ev_UserDisabled, Ev_AgentCreated, Ev_AgentUpdated,
     Ev_AgentPaused, Ev_AgentResumed, Ev_AgentRevoked, Ev_VendorCreated,
     Ev_VendorUpdated, Ev_VendorDeleted, Ev_PolicyCreated, Ev_PolicyUpdated,
     Ev_PolicyEvaluated, Ev_CredentialCreated, Ev_CredentialUpdated,
     Ev_CredentialGrantedToAgent, Ev_CredentialGrantRevoked, Ev_CredentialRevoked,
     Ev_CredentialUsed, Ev_WorkflowCreated, Ev_WorkflowUpdated, Ev_WorkflowRunRequested,
     Ev_WorkflowRunCreated, Ev_WorkflowRunStarted, Ev_WorkflowStepStarted,
     Ev_WorkflowRunWaitingForApproval, Ev_WorkflowRunCompleted, Ev_WorkflowRunFailed,
     Ev_WorkflowRunCanceled, Ev_WorkflowRunDenied, Ev_BrowserPageOpened,
     Ev_BrowserElementClicked, Ev_FileDownloaded, Ev_ApprovalRequested,
     Ev_ApprovalApproved, Ev_ApprovalRejected, Ev_ApprovalExpired, Ev_ReceiptCreated]"

lemma set_AUDIT_EVENT_TYPES [simp]: "set AUDIT_EVENT_TYPES = UNIV"
proof -
  have "x \<in> set AUDIT_EVENT_TYPES" for x by (cases x) (simp_all add: AUDIT_EVENT_TYPES_def)
  then show ?thesis by auto
qed

datatype file_kind =
    File_Screenshot | File_Invoice | File_PlaywrightTrace | File_ReceiptExport |
    File_Download

primrec file_kind_value :: "file_kind \<Rightarrow> string" where
  "file_kind_value File_Screenshot = ''screenshot''"
| "file_kind_value File_Invoice = ''invoice''"
| "file_kind_value File_PlaywrightTrace = ''playwright_trace''"
| "file_kind_value File_ReceiptExport = ''receipt_export''"
| "file_kind_value File_Download = ''download''"

definition FILE_KINDS :: "file_kind list" where
  "FILE_KINDS =
    [File_Screenshot, File_Invoice, File_PlaywrightTrace, File_ReceiptExport,
     File_Download]"

lemma set_FILE_KINDS [simp]: "set FILE_KINDS = UNIV"
proof -
  have "x \<in> set FILE_KINDS" for x by (cases x) (simp_all add: FILE_KINDS_def)
  then show ?thesis by auto
qed

lemma file_kind_value_inject [simp]: "file_kind_value x = file_kind_value y \<longleftrightarrow> x = y"
  by (cases x; cases y) simp_all

datatype receipt_status =
    Receipt_Completed | Receipt_Failed | Receipt_Denied | Receipt_Canceled

primrec receipt_status_value :: "receipt_status \<Rightarrow> string" where
  "receipt_status_value Receipt_Completed = ''completed''"
| "receipt_status_value Receipt_Failed = ''failed''"
| "receipt_status_value Receipt_Denied = ''denied''"
| "receipt_status_value Receipt_Canceled = ''canceled''"

definition RECEIPT_STATUSES :: "receipt_status list" where
  "RECEIPT_STATUSES =
    [Receipt_Completed, Receipt_Failed, Receipt_Denied, Receipt_Canceled]"

lemma set_RECEIPT_STATUSES [simp]: "set RECEIPT_STATUSES = UNIV"
proof -
  have "x \<in> set RECEIPT_STATUSES" for x by (cases x) (simp_all add: RECEIPT_STATUSES_def)
  then show ?thesis by auto
qed

lemma receipt_status_value_inject [simp]: "receipt_status_value x = receipt_status_value y \<longleftrightarrow> x = y"
  by (cases x; cases y) simp_all

datatype domain_error_code =
    ValidationFailed | NotFound | PermissionDenied | OrganizationIsolationViolation |
    AgentNotActive | PolicyDenied | ApprovalRequired | CredentialUnavailable |
    WorkflowInvalidTransition | SecretLeakDetected | RateLimited | ManualMfaRequired |
    UnsupportedConnectorCapability | VendorPageStructureChanged

primrec domain_error_code_value :: "domain_error_code \<Rightarrow> string" where
  "domain_error_code_value ValidationFailed = ''VALIDATION_FAILED''"
| "domain_error_code_value NotFound = ''NOT_FOUND''"
| "domain_error_code_value PermissionDenied = ''PERMISSION_DENIED''"
| "domain_error_code_value OrganizationIsolationViolation = ''ORGANIZATION_ISOLATION_VIOLATION''"
| "domain_error_code_value AgentNotActive = ''AGENT_NOT_ACTIVE''"
| "domain_error_code_value PolicyDenied = ''POLICY_DENIED''"
| "domain_error_code_value ApprovalRequired = ''APPROVAL_REQUIRED''"
| "domain_error_code_value CredentialUnavailable = ''CREDENTIAL_UNAVAILABLE''"
| "domain_error_code_value WorkflowInvalidTransition = ''WORKFLOW_INVALID_TRANSITION''"
| "domain_error_code_value SecretLeakDetected = ''SECRET_LEAK_DETECTED''"
| "domain_error_code_value RateLimited = ''RATE_LIMITED''"
| "domain_error_code_value ManualMfaRequired = ''MANUAL_MFA_REQUIRED''"
| "domain_error_code_value UnsupportedConnectorCapability = ''UNSUPPORTED_CONNECTOR_CAPABILITY''"
| "domain_error_code_value VendorPageStructureChanged = ''VENDOR_PAGE_STRUCTURE_CHANGED''"

definition DOMAIN_ERROR_CODES :: "domain_error_code list" where
  "DOMAIN_ERROR_CODES =
    [ValidationFailed, NotFound, PermissionDenied, OrganizationIsolationViolation,
     AgentNotActive, PolicyDenied, ApprovalRequired, CredentialUnavailable,
     WorkflowInvalidTransition, SecretLeakDetected, RateLimited, ManualMfaRequired,
     UnsupportedConnectorCapability, VendorPageStructureChanged]"

lemma set_DOMAIN_ERROR_CODES [simp]: "set DOMAIN_ERROR_CODES = UNIV"
proof -
  have "x \<in> set DOMAIN_ERROR_CODES" for x by (cases x) (simp_all add: DOMAIN_ERROR_CODES_def)
  then show ?thesis by auto
qed

lemma domain_error_code_value_inject [simp]: "domain_error_code_value x = domain_error_code_value y \<longleftrightarrow> x = y"
  by (cases x; cases y) simp_all

datatype risk_signal =
    Sig_UnknownDomain | Sig_DestructiveKeyword | Sig_FinancialAmountPresent |
    Sig_CredentialUsed | Sig_NewVendor | Sig_FirstRunForAgent | Sig_SubmitButton |
    Sig_DownloadSensitiveFile | Sig_PlanChangeDetected | Sig_CancelDetected |
    Sig_PaymentDetected

primrec risk_signal_value :: "risk_signal \<Rightarrow> string" where
  "risk_signal_value Sig_UnknownDomain = ''unknown_domain''"
| "risk_signal_value Sig_DestructiveKeyword = ''destructive_keyword''"
| "risk_signal_value Sig_FinancialAmountPresent = ''financial_amount_present''"
| "risk_signal_value Sig_CredentialUsed = ''credential_used''"
| "risk_signal_value Sig_NewVendor = ''new_vendor''"
| "risk_signal_value Sig_FirstRunForAgent = ''first_run_for_agent''"
| "risk_signal_value Sig_SubmitButton = ''submit_button''"
| "risk_signal_value Sig_DownloadSensitiveFile = ''download_sensitive_file''"
| "risk_signal_value Sig_PlanChangeDetected = ''plan_change_detected''"
| "risk_signal_value Sig_CancelDetected = ''cancel_detected''"
| "risk_signal_value Sig_PaymentDetected = ''payment_detected''"

definition RISK_SIGNALS :: "risk_signal list" where
  "RISK_SIGNALS =
    [Sig_UnknownDomain, Sig_DestructiveKeyword, Sig_FinancialAmountPresent,
     Sig_CredentialUsed, Sig_NewVendor, Sig_FirstRunForAgent, Sig_SubmitButton,
     Sig_DownloadSensitiveFile, Sig_PlanChangeDetected, Sig_CancelDetected,
     Sig_PaymentDetected]"

lemma set_RISK_SIGNALS [simp]: "set RISK_SIGNALS = UNIV"
proof -
  have "x \<in> set RISK_SIGNALS" for x by (cases x) (simp_all add: RISK_SIGNALS_def)
  then show ?thesis by auto
qed

lemma risk_signal_value_inject [simp]: "risk_signal_value x = risk_signal_value y \<longleftrightarrow> x = y"
  by (cases x; cases y) simp_all

subsection \<open>Errors\<close>

text \<open>
  What a method can throw: a \<open>DomainError\<close> with its code and message, an error of the
  database client, or another JavaScript error with its \<open>name\<close> and \<open>message\<close>.
\<close>

datatype err =
    DomainError domain_error_code string
  | PrismaError string
  | JsError string string

definition isDomainError :: "err \<Rightarrow> bool" where
  "isDomainError e = (case e of DomainError _ _ \<Rightarrow> True | _ \<Rightarrow> False)"

primrec err_name :: "err \<Rightarrow> string" where
  "err_name (DomainError c m) = ''DomainError''"
| "err_name (PrismaError m) = ''PrismaClientKnownRequestError''"
| "err_name (JsError n m) = n"

primrec err_message :: "err \<Rightarrow> string" where
  "err_message (DomainError c m) = m"
| "err_message (PrismaError m) = m"
| "err_message (JsError n m) = m"

primrec has_code :: "domain_error_code \<Rightarrow> err \<Rightarrow> bool" where
  "has_code c (DomainError c' m) = (c' = c)"
| "has_code c (PrismaError m) = False"
| "has_code c (JsError n m) = False"

subsection \<open>Risk levels are ordered\<close>

primrec risk_rank :: "risk_level \<Rightarrow> nat" where
  "risk_rank Risk_Low = 0"
| "risk_rank Risk_Medium = 1"
| "risk_rank Risk_High = 2"
| "risk_rank Risk_Critical = 3"

lemma risk_rank_inject [simp]: "risk_rank x = risk_rank y \<longleftrightarrow> x = y"
  by (cases x; cases y) simp_all

instantiation risk_level :: linorder
begin

definition less_eq_risk_level :: "risk_level \<Rightarrow> risk_level \<Rightarrow> bool" where
  "less_eq_risk_level x y \<longleftrightarrow> risk_rank x \<le> risk_rank y"

definition less_risk_level :: "risk_level \<Rightarrow> risk_level \<Rightarrow> bool" where
  "less_risk_level x y \<longleftrightarrow> risk_rank x < risk_rank y"

instance
  by standard (auto simp: less_eq_risk_level_def less_risk_level_def)

end

lemmas risk_order = less_eq_risk_level_def less_risk_level_def

lemma Risk_Low_least [simp]: "Risk_Low \<le> r"
  by (simp add: risk_order)

lemma Risk_Critical_greatest [simp]: "r \<le> Risk_Critical"
  by (cases r) (simp_all add: risk_order)

text \<open>A member of an enumeration is found by its string value.\<close>

definition parse_enum :: "('e \<Rightarrow> string) \<Rightarrow> 'e list \<Rightarrow> string \<Rightarrow> 'e option" where
  "parse_enum value vs s = find (\<lambda>v. value v = s) vs"

lemma parse_enum_value:
  assumes "\<And>x y. value x = value y \<Longrightarrow> x = y" and "v \<in> set vs"
  shows "parse_enum value vs (value v) = Some v"
  using assms(2)
  unfolding parse_enum_def by (induction vs) (auto dest: assms(1))

lemma parse_enum_SomeD: "parse_enum value vs s = Some v \<Longrightarrow> value v = s \<and> v \<in> set vs"
  unfolding parse_enum_def by (auto dest: find_SomeD)

end
