(* ===== verification/Domain.thy ===== *)
theory Domain
  imports Enums
begin

section \<open>The domain library\<close>

text \<open>
  The pure tables and functions of \<open>libs/domain/src\<close>: role permissions
  (\<open>permissions.ts\<close>), connector capabilities (\<open>connectors.ts\<close>), policy records and
  defaults (\<open>policy.ts\<close>), workflow templates and the run transition table
  (\<open>workflows.ts\<close>), queue job ids (\<open>queue.ts\<close>), pagination (\<open>pagination.ts\<close>) and the
  secret field names (\<open>audit.ts\<close>).
\<close>

subsection \<open>Permissions\<close>

datatype permission =
    Perm_OrganizationRead | Perm_OrganizationUpdate | Perm_UserRead | Perm_UserInvite |
    Perm_AgentCreate | Perm_AgentRead | Perm_AgentUpdate | Perm_AgentPause |
    Perm_AgentRevoke | Perm_VendorCreate | Perm_VendorRead | Perm_VendorUpdate |
    Perm_PolicyCreate | Perm_PolicyRead | Perm_PolicyUpdate | Perm_CredentialCreate |
    Perm_CredentialRead | Perm_CredentialGrant | Perm_CredentialRevoke |
    Perm_WorkflowCreate | Perm_WorkflowRead | Perm_WorkflowRun | Perm_WorkflowCancel |
    Perm_ApprovalRead | Perm_ApprovalApprove | Perm_ReceiptRead | Perm_AuditRead |
    Perm_FileRead

primrec permission_value :: "permission \<Rightarrow> string" where
  "permission_value Perm_OrganizationRead = ''organization:read''"
| "permission_value Perm_OrganizationUpdate = ''organization:update''"
| "permission_value Perm_UserRead = ''user:read''"
| "permission_value Perm_UserInvite = ''user:invite''"
| "permission_value Perm_AgentCreate = ''agent:create''"
| "permission_value Perm_AgentRead = ''agent:read''"
| "permission_value Perm_AgentUpdate = ''agent:update''"
| "permission_value Perm_AgentPause = ''agent:pause''"
| "permission_value Perm_AgentRevoke = ''agent:revoke''"
| "permission_value Perm_VendorCreate = ''vendor:create''"
| "permission_value Perm_VendorRead = ''vendor:read''"
| "permission_value Perm_VendorUpdate = ''vendor:update''"
| "permission_value Perm_PolicyCreate = ''policy:create''"
| "permission_value Perm_PolicyRead = ''policy:read''"
| "permission_value Perm_PolicyUpdate = ''policy:update''"
| "permission_value Perm_CredentialCreate = ''credential:create''"
| "permission_value Perm_CredentialRead = ''credential:read''"
| "permission_value Perm_CredentialGrant = ''credential:grant''"
| "permission_value Perm_CredentialRevoke = ''credential:revoke''"
| "permission_value Perm_WorkflowCreate = ''workflow:create''"
| "permission_value Perm_WorkflowRead = ''workflow:read''"
| "permission_value Perm_WorkflowRun = ''workflow:run''"
| "permission_value Perm_WorkflowCancel = ''workflow:cancel''"
| "permission_value Perm_ApprovalRead = ''approval:read''"
| "permission_value Perm_ApprovalApprove = ''approval:approve''"
| "permission_value Perm_ReceiptRead = ''receipt:read''"
| "permission_value Perm_AuditRead = ''audit:read''"
| "permission_value Perm_FileRead = ''file:read''"

definition PERMISSIONS :: "permission list" where
  "PERMISSIONS =
    [Perm_OrganizationRead, Perm_OrganizationUpdate, Perm_UserRead, Perm_UserInvite,
     Perm_AgentCreate, Perm_AgentRead, Perm_AgentUpdate, Perm_AgentPause,
     Perm_AgentRevoke, Perm_VendorCreate, Perm_VendorRead, Perm_VendorUpdate,
     Perm_PolicyCreate, Perm_PolicyRead, Perm_PolicyUpdate, Perm_CredentialCreate,
     Perm_CredentialRead, Perm_CredentialGrant, Perm_CredentialRevoke,
     Perm_WorkflowCreate, Perm_WorkflowRead, Perm_WorkflowRun, Perm_WorkflowCancel,
     Perm_ApprovalRead, Perm_ApprovalApprove, Perm_ReceiptRead, Perm_AuditRead,
     Perm_FileRead]"

lemma set_PERMISSIONS [simp]: "set PERMISSIONS = UNIV"
proof -
  have "x \<in> set PERMISSIONS" for x by (cases x) (simp_all add: PERMISSIONS_def)
  then show ?thesis by auto
qed

definition readPermissions :: "permission list" where
  "readPermissions =
    [Perm_OrganizationRead, Perm_UserRead, Perm_AgentRead, Perm_VendorRead, Perm_PolicyRead,
     Perm_CredentialRead, Perm_WorkflowRead, Perm_ApprovalRead, Perm_ReceiptRead,
     Perm_AuditRead, Perm_FileRead]"

primrec ROLE_PERMISSIONS :: "user_role \<Rightarrow> permission list" where
  "ROLE_PERMISSIONS Role_Owner = PERMISSIONS"
| "ROLE_PERMISSIONS Role_Admin = PERMISSIONS"
| "ROLE_PERMISSIONS Role_Approver =
    [Perm_OrganizationRead, Perm_AgentRead, Perm_VendorRead, Perm_WorkflowRead,
     Perm_ApprovalRead, Perm_ApprovalApprove, Perm_ReceiptRead, Perm_FileRead]"
| "ROLE_PERMISSIONS Role_Auditor =
    [Perm_OrganizationRead, Perm_AgentRead, Perm_VendorRead, Perm_WorkflowRead,
     Perm_ApprovalRead, Perm_ReceiptRead, Perm_AuditRead, Perm_FileRead]"
| "ROLE_PERMISSIONS Role_Developer =
    readPermissions @ [Perm_WorkflowRun, Perm_WorkflowCancel]"

definition hasPermission :: "user_role \<Rightarrow> permission \<Rightarrow> bool" where
  "hasPermission role p \<longleftrightarrow> List.member (ROLE_PERMISSIONS role) p"

text \<open>The permissions that only read, by their \<open>:read\<close> suffix.\<close>

definition is_read_permission :: "permission \<Rightarrow> bool" where
  "is_read_permission p \<longleftrightarrow> ends_with (permission_value p) '':read''"

subsection \<open>Connectors\<close>

datatype connector_capability =
    Cap_Login | Cap_DownloadLatestInvoice | Cap_ReadRenewalInfo |
    Cap_PrepareDowngrade | Cap_SubmitDowngrade

primrec connector_capability_value :: "connector_capability \<Rightarrow> string" where
  "connector_capability_value Cap_Login = ''login''"
| "connector_capability_value Cap_DownloadLatestInvoice = ''download_latest_invoice''"
| "connector_capability_value Cap_ReadRenewalInfo = ''read_renewal_info''"
| "connector_capability_value Cap_PrepareDowngrade = ''prepare_downgrade''"
| "connector_capability_value Cap_SubmitDowngrade = ''submit_downgrade''"

definition CONNECTOR_CAPABILITIES :: "connector_capability list" where
  "CONNECTOR_CAPABILITIES =
    [Cap_Login, Cap_DownloadLatestInvoice, Cap_ReadRenewalInfo, Cap_PrepareDowngrade,
     Cap_SubmitDowngrade]"

lemma set_CONNECTOR_CAPABILITIES [simp]: "set CONNECTOR_CAPABILITIES = UNIV"
proof -
  have "x \<in> set CONNECTOR_CAPABILITIES" for x by (cases x) (simp_all add: CONNECTOR_CAPABILITIES_def)
  then show ?thesis by auto
qed

lemma connector_capability_value_inject [simp]: "connector_capability_value x = connector_capability_value y \<longleftrightarrow> x = y"
  by (cases x; cases y) simp_all

primrec CONNECTOR_CAPABILITY_MATRIX :: "connector_type \<Rightarrow> connector_capability list" where
  "CONNECTOR_CAPABILITY_MATRIX Connector_Sandbox =
    [Cap_Login, Cap_DownloadLatestInvoice, Cap_ReadRenewalInfo, Cap_PrepareDowngrade,
     Cap_SubmitDowngrade]"
| "CONNECTOR_CAPABILITY_MATRIX Connector_StripeBilling =
    [Cap_Login, Cap_DownloadLatestInvoice, Cap_ReadRenewalInfo, Cap_PrepareDowngrade,
     Cap_SubmitDowngrade]"
| "CONNECTOR_CAPABILITY_MATRIX Connector_Github =
    [Cap_Login, Cap_DownloadLatestInvoice, Cap_ReadRenewalInfo, Cap_PrepareDowngrade,
     Cap_SubmitDowngrade]"

text \<open>The table is indexed by a string, and other strings have no entry.\<close>

definition requiredCapabilityForTemplate :: "string \<Rightarrow> connector_capability option" where
  "requiredCapabilityForTemplate template =
    (if template = ''vendor_invoice_download'' then Some Cap_DownloadLatestInvoice
     else if template = ''saas_renewal_check'' then Some Cap_ReadRenewalInfo
     else if template = ''plan_downgrade_request'' then Some Cap_PrepareDowngrade
     else None)"

definition connectorSupports :: "connector_type \<Rightarrow> connector_capability \<Rightarrow> bool" where
  "connectorSupports ct cap \<longleftrightarrow> List.member (CONNECTOR_CAPABILITY_MATRIX ct) cap"

definition assertConnectorSupportsTemplate ::
  "connector_type \<Rightarrow> string \<Rightarrow> ('s, err, unit) sem" where
  "assertConnectorSupportsTemplate ct template =
    (case requiredCapabilityForTemplate template of
       None \<Rightarrow> ret ()
     | Some cap \<Rightarrow>
         if \<not> connectorSupports ct cap
         then throw (JsError ''Error''
           (''Connector '' @ connector_type_value ct @ '' does not support capability ''
            @ connector_capability_value cap @ '' required by template '' @ template @ ''.''))
         else ret ())"

subsection \<open>Policies\<close>

record business_hours =
  bh_enabled :: bool
  bh_timezone :: "string option"
  bh_weekdays :: "int list option"
  bh_startHour :: "int option"
  bh_endHour :: "int option"

record agent_policy =
  ap_allowedDomains :: "string list"
  ap_blockedDomains :: "string list"
  ap_allowedActions :: "action_type list"
  ap_deniedActions :: "action_type list"
  ap_approvalRequiredActions :: "action_type list"
  ap_autoApproveBelowCents :: int
  ap_approvalRequiredAboveCents :: int
  ap_denyAboveCents :: int
  ap_dangerKeywords :: "string list"
  ap_businessHours :: business_hours

record policy_input =
  pi_agentStatus :: agent_status
  pi_website :: string
  pi_actionType :: action_type
  pi_amountCents :: "int option"
  pi_riskSignals :: "risk_signal list"
  pi_policySnapshot :: agent_policy

record policy_result =
  pr_decision :: policy_decision
  pr_riskLevel :: risk_level
  pr_reason :: string
  pr_matchedRules :: "string list"

primrec ACTION_RISK_DEFAULTS :: "action_type \<Rightarrow> risk_level" where
  "ACTION_RISK_DEFAULTS OpenPage = Risk_Low"
| "ACTION_RISK_DEFAULTS ReadPage = Risk_Low"
| "ACTION_RISK_DEFAULTS FillForm = Risk_Medium"
| "ACTION_RISK_DEFAULTS ClickButton = Risk_Medium"
| "ACTION_RISK_DEFAULTS DownloadFile = Risk_Low"
| "ACTION_RISK_DEFAULTS SubmitForm = Risk_High"
| "ACTION_RISK_DEFAULTS ChangePlan = Risk_High"
| "ACTION_RISK_DEFAULTS CancelSubscription = Risk_Critical"
| "ACTION_RISK_DEFAULTS InviteUser = Risk_Critical"
| "ACTION_RISK_DEFAULTS ChangeBillingDetails = Risk_Critical"
| "ACTION_RISK_DEFAULTS MakePurchase = Risk_High"
| "ACTION_RISK_DEFAULTS CredentialInjection = Risk_Medium"

definition DEFAULT_AGENT_POLICY :: agent_policy where
  "DEFAULT_AGENT_POLICY = \<lparr>
     ap_allowedDomains = [],
     ap_blockedDomains = [],
     ap_allowedActions = [OpenPage, ReadPage],
     ap_deniedActions = [InviteUser, ChangeBillingDetails],
     ap_approvalRequiredActions = [SubmitForm, ChangePlan, CancelSubscription, MakePurchase],
     ap_autoApproveBelowCents = 0,
     ap_approvalRequiredAboveCents = 0,
     ap_denyAboveCents = 1,
     ap_dangerKeywords = [''delete'', ''cancel'', ''confirm'', ''wire'', ''bank'', ''admin'', ''owner''],
     ap_businessHours = \<lparr>bh_enabled = False, bh_timezone = None, bh_weekdays = None,
                       bh_startHour = None, bh_endHour = None\<rparr>\<rparr>"

subsection \<open>Workflow templates and run transitions\<close>

record workflow_input_definition =
  wi_name :: string
  wi_required :: bool
  wi_description :: string

record template_definition =
  td_template :: workflow_template
  td_displayName :: string
  td_requiredInputs :: "workflow_input_definition list"
  td_expectedActions :: "action_type list"
  td_producesReceipt :: bool

primrec WORKFLOW_TEMPLATE_DEFINITIONS :: "workflow_template \<Rightarrow> template_definition" where
  "WORKFLOW_TEMPLATE_DEFINITIONS Template_VendorInvoiceDownload = \<lparr>
     td_template = Template_VendorInvoiceDownload,
     td_displayName = ''Vendor invoice download'',
     td_requiredInputs =
       [\<lparr>wi_name = ''vendorId'', wi_required = True, wi_description = ''Vendor portal to use.''\<rparr>,
        \<lparr>wi_name = ''credentialId'', wi_required = True,
         wi_description = ''Credential granted to the selected agent.''\<rparr>],
     td_expectedActions = [OpenPage, CredentialInjection, ReadPage, DownloadFile],
     td_producesReceipt = True\<rparr>"
| "WORKFLOW_TEMPLATE_DEFINITIONS Template_SaasRenewalCheck = \<lparr>
     td_template = Template_SaasRenewalCheck,
     td_displayName = ''SaaS renewal check'',
     td_requiredInputs =
       [\<lparr>wi_name = ''vendorId'', wi_required = True,
         wi_description = ''Vendor whose renewal should be checked.''\<rparr>],
     td_expectedActions = [OpenPage, CredentialInjection, ReadPage],
     td_producesReceipt = True\<rparr>"
| "WORKFLOW_TEMPLATE_DEFINITIONS Template_PlanDowngradeRequest = \<lparr>
     td_template = Template_PlanDowngradeRequest,
     td_displayName = ''Plan downgrade request'',
     td_requiredInputs =
       [\<lparr>wi_name = ''vendorId'', wi_required = True,
         wi_description = ''Vendor whose plan should be changed.''\<rparr>,
        \<lparr>wi_name = ''targetPlan'', wi_required = True,
         wi_description = ''Plan the agent will propose.''\<rparr>],
     td_expectedActions = [OpenPage, CredentialInjection, ReadPage, ChangePlan, SubmitForm],
     td_producesReceipt = True\<rparr>"

primrec WORKFLOW_RUN_TRANSITIONS ::
  "workflow_run_status \<Rightarrow> workflow_run_status list" where
  "WORKFLOW_RUN_TRANSITIONS Run_Queued = [Run_Running, Run_Canceled]"
| "WORKFLOW_RUN_TRANSITIONS Run_Running =
    [Run_WaitingForApproval, Run_Completed, Run_Failed, Run_Canceled]"
| "WORKFLOW_RUN_TRANSITIONS Run_WaitingForApproval =
    [Run_Running, Run_Denied, Run_Failed, Run_Canceled]"
| "WORKFLOW_RUN_TRANSITIONS Run_Completed = []"
| "WORKFLOW_RUN_TRANSITIONS Run_Failed = []"
| "WORKFLOW_RUN_TRANSITIONS Run_Canceled = []"
| "WORKFLOW_RUN_TRANSITIONS Run_Denied = []"

definition canTransitionWorkflowRun ::
  "workflow_run_status \<Rightarrow> workflow_run_status \<Rightarrow> bool" where
  "canTransitionWorkflowRun from to \<longleftrightarrow> List.member (WORKFLOW_RUN_TRANSITIONS from) to"

subsection \<open>Queue job ids\<close>

definition workflowStartJobId :: "string \<Rightarrow> string" where
  "workflowStartJobId workflowRunId = ''start-'' @ workflowRunId"

definition workflowResumeJobId :: "string \<Rightarrow> string \<Rightarrow> string" where
  "workflowResumeJobId workflowRunId approvalRequestId =
     ''resume-'' @ workflowRunId @ ''-'' @ approvalRequestId"

definition workflowCancelJobId :: "string \<Rightarrow> string" where
  "workflowCancelJobId workflowRunId = ''cancel-'' @ workflowRunId"

subsection \<open>Pagination\<close>

record page_request =
  rq_page :: int
  rq_pageSize :: int

record page_meta =
  pm_page :: int
  pm_pageSize :: int
  pm_totalItems :: int
  pm_totalPages :: int

definition normalizePageRequest :: "rat option \<Rightarrow> rat option \<Rightarrow> page_request" where
  "normalizePageRequest page pageSize =
    (let p = max 1 \<lfloor>coalesce page 1\<rfloor>;
         requestedSize = max 1 \<lfloor>coalesce pageSize 25\<rfloor>
     in \<lparr>rq_page = p, rq_pageSize = min requestedSize 100\<rparr>)"

definition createPageMeta :: "page_request \<Rightarrow> int \<Rightarrow> page_meta" where
  "createPageMeta request totalItems = \<lparr>
     pm_page = rq_page request,
     pm_pageSize = rq_pageSize request,
     pm_totalItems = totalItems,
     pm_totalPages = max 1 \<lceil>(of_int totalItems :: rat) / of_int (rq_pageSize request)\<rceil>\<rparr>"

subsection \<open>Secret field names\<close>

definition SECRET_FIELD_PATTERNS :: "string list" where
  "SECRET_FIELD_PATTERNS =
    [''password'', ''token'', ''secret'', ''authorization'', ''cookie'', ''credential'',
     ''encrypted'', ''ciphertext'', ''auth_tag'', ''username'', ''responseText'']"

text \<open>A pattern \<open>/p/i\<close> tests for the literal anywhere in the name, ignoring case.\<close>

definition isSecretFieldName :: "string \<Rightarrow> bool" where
  "isSecretFieldName fieldName \<longleftrightarrow>
    list_ex (\<lambda>pattern. str_includes (to_lower fieldName) (to_lower pattern)) SECRET_FIELD_PATTERNS"

subsection \<open>Properties\<close>

text \<open>Least privilege: outside the owner and admin roles a role holds only reading
permissions, except approving for the approver and running or cancelling workflows for the
developer; and every permission that is not a reading one is held by the owner.\<close>

theorem role_least_privilege:
  "{(r, p). hasPermission r p \<and> \<not> is_read_permission p} =
   {(r, p). r \<in> {Role_Owner, Role_Admin} \<and> \<not> is_read_permission p}
   \<union> {(Role_Approver, Perm_ApprovalApprove), (Role_Developer, Perm_WorkflowRun),
       (Role_Developer, Perm_WorkflowCancel)}"
proof -
  have "hasPermission r p \<and> \<not> is_read_permission p \<longleftrightarrow>
      r \<in> {Role_Owner, Role_Admin} \<and> \<not> is_read_permission p
      \<or> (r, p) \<in> {(Role_Approver, Perm_ApprovalApprove), (Role_Developer, Perm_WorkflowRun),
                  (Role_Developer, Perm_WorkflowCancel)}" for r p
    by (cases r; cases p)
       (simp_all add: hasPermission_def List.member_iff readPermissions_def is_read_permission_def
          ends_with_def suffix_def Sublist.suffix_to_prefix)
  then show ?thesis by auto
qed

text \<open>The run statuses from which nothing leaves.\<close>

definition terminal_status :: "workflow_run_status \<Rightarrow> bool" where
  "terminal_status s \<longleftrightarrow> s \<in> {Run_Completed, Run_Failed, Run_Canceled, Run_Denied}"

inductive run_path :: "workflow_run_status \<Rightarrow> workflow_run_status list \<Rightarrow> workflow_run_status \<Rightarrow> bool" where
  here: "run_path s [] s"
| move: "canTransitionWorkflowRun s t \<Longrightarrow> run_path t ts u \<Longrightarrow> run_path s (t # ts) u"

inductive_cases run_path_NilE: "run_path s [] u"
inductive_cases run_path_ConsE: "run_path s (t # ts) u"

lemma canTransition_iff:
  "canTransitionWorkflowRun s t \<longleftrightarrow>
     (s, t) \<in> {(Run_Queued, Run_Running), (Run_Queued, Run_Canceled),
       (Run_Running, Run_WaitingForApproval), (Run_Running, Run_Completed),
       (Run_Running, Run_Failed), (Run_Running, Run_Canceled),
       (Run_WaitingForApproval, Run_Running), (Run_WaitingForApproval, Run_Denied),
       (Run_WaitingForApproval, Run_Failed), (Run_WaitingForApproval, Run_Canceled)}"
  by (cases s; cases t) (simp_all add: canTransitionWorkflowRun_def List.member_iff)

lemma terminal_no_transition: "terminal_status s \<Longrightarrow> \<not> canTransitionWorkflowRun s t"
  by (auto simp: terminal_status_def canTransition_iff)

lemma run_path_running:
  "run_path s ts u \<Longrightarrow> s \<noteq> Run_Completed \<Longrightarrow> u = Run_Completed \<Longrightarrow>
   s = Run_Running \<or> Run_Running \<in> set ts"
  by (induction rule: run_path.induct) (auto simp: canTransition_iff)

lemma run_path_waiting:
  "run_path s ts u \<Longrightarrow> s \<noteq> Run_Denied \<Longrightarrow> u = Run_Denied \<Longrightarrow>
   s = Run_WaitingForApproval \<or> Run_WaitingForApproval \<in> set ts"
  by (induction rule: run_path.induct) (auto simp: canTransition_iff)

text \<open>The transition table: a status has no successor exactly when it is terminal; every
run that ends completed was running, every run that ends denied waited for an approval, and
from every status a terminal one can be reached.\<close>

theorem run_transition_table:
  "((\<nexists>t. canTransitionWorkflowRun s t) \<longleftrightarrow> terminal_status s)
   \<and> (run_path Run_Queued ts Run_Completed \<longrightarrow> Run_Running \<in> set ts)
   \<and> (run_path Run_Queued ts Run_Denied \<longrightarrow> Run_WaitingForApproval \<in> set ts)
   \<and> (\<exists>us u. run_path s us u \<and> terminal_status u)"
proof (intro conjI impI)
  show "(\<nexists>t. canTransitionWorkflowRun s t) \<longleftrightarrow> terminal_status s"
    by (cases s) (auto simp: terminal_status_def canTransition_iff)
  show "Run_Running \<in> set ts" if "run_path Run_Queued ts Run_Completed"
    using run_path_running [OF that] by simp
  show "Run_WaitingForApproval \<in> set ts" if "run_path Run_Queued ts Run_Denied"
    using run_path_waiting [OF that] by simp
  show "\<exists>us u. run_path s us u \<and> terminal_status u"
  proof (cases "terminal_status s")
    case True
    then show ?thesis by (blast intro: run_path.here)
  next
    case False
    then have "canTransitionWorkflowRun s Run_Canceled"
      by (cases s) (auto simp: terminal_status_def canTransition_iff)
    then show ?thesis
      by (intro exI [of _ "[Run_Canceled]"] exI [of _ Run_Canceled])
         (auto simp: terminal_status_def intro: run_path.intros)
  qed
qed

theorem run_transition_table_witness:
  "Run_Running \<in> set [Run_Running, Run_Completed]
   \<and> Run_WaitingForApproval \<in> set [Run_Running, Run_WaitingForApproval, Run_Denied]"
proof
  have "run_path Run_Queued [Run_Running, Run_Completed] Run_Completed"
    by (intro run_path.intros) (simp_all add: canTransition_iff)
  then show "Run_Running \<in> set [Run_Running, Run_Completed]"
    using run_transition_table [of Run_Queued "[Run_Running, Run_Completed]"] by blast
  have "run_path Run_Queued [Run_Running, Run_WaitingForApproval, Run_Denied] Run_Denied"
    by (intro run_path.intros) (simp_all add: canTransition_iff)
  then show "Run_WaitingForApproval \<in> set [Run_Running, Run_WaitingForApproval, Run_Denied]"
    using run_transition_table [of Run_Queued "[Run_Running, Run_WaitingForApproval, Run_Denied]"] by blast
qed

text \<open>A page request is normalised to a page of at least one and a size between one and
the maximum, and the number of pages is the least that holds every item.\<close>

theorem pagination_bounds:
  assumes "rq = normalizePageRequest page pageSize" and "0 \<le> items"
  shows "1 \<le> rq_page rq \<and> 1 \<le> rq_pageSize rq \<and> rq_pageSize rq \<le> 100
    \<and> items \<le> pm_totalPages (createPageMeta rq items) * rq_pageSize rq
    \<and> (1 < pm_totalPages (createPageMeta rq items) \<longrightarrow>
         (pm_totalPages (createPageMeta rq items) - 1) * rq_pageSize rq < items)"
proof -
  let ?n = "rq_pageSize rq"
  let ?c = "\<lceil>(of_int items :: rat) / of_int ?n\<rceil>"
  have n: "1 \<le> ?n" "?n \<le> 100" and p: "1 \<le> rq_page rq"
    using assms(1) by (auto simp: normalizePageRequest_def Let_def)
  have pages: "pm_totalPages (createPageMeta rq items) = max 1 ?c"
    by (simp add: createPageMeta_def)
  have pos: "(0::rat) < of_int ?n" using n by simp
  have "(of_int items :: rat) / of_int ?n \<le> of_int ?c" by (rule le_of_int_ceiling)
  then have "(of_int items :: rat) \<le> of_int (?c * ?n)"
    unfolding pos_divide_le_eq [OF pos] by simp
  then have up: "items \<le> ?c * ?n" by (simp only: of_int_le_iff)
  have "of_int ?c - 1 < (of_int items :: rat) / of_int ?n"
    using ceiling_correct [of "(of_int items :: rat) / of_int ?n"] by simp
  then have "(of_int ((?c - 1) * ?n) :: rat) < of_int items"
    unfolding pos_less_divide_eq [OF pos] by simp
  then have low: "(?c - 1) * ?n < items" by (simp only: of_int_less_iff)
  have "?c * ?n \<le> max 1 ?c * ?n" using n by (intro mult_right_mono) auto
  with n p up low pages show ?thesis by (auto simp: max_def)
qed

theorem pagination_bounds_witness:
  "pm_totalPages (createPageMeta (normalizePageRequest None (Some 40)) 90) * 40 \<ge> (90::int)"
  using pagination_bounds [OF refl, of 90 None "Some 40"]
  by (simp add: normalizePageRequest_def createPageMeta_def)

end
