(* ===== verification/Json.thy ===== *)
theory Json
  imports Domain
begin

section \<open>JSON values\<close>

text \<open>
  The JSON columns of the database and the objects the handlers build. An object is the list
  of its own enumerable properties in order; a property whose value is \<open>undefined\<close> is absent.
  Property names that look like array indices, which JavaScript moves to the front, do not
  occur in the program's objects and are not treated specially. Numbers are rationals; the
  text of a number is the platform's, the parameter \<open>num_str\<close>.

  The theory holds object spread and the state merges built on it, redaction
  (\<open>audit-redaction.service.ts\<close> and \<open>libs/vault\<close>) and \<open>stableStringify\<close>
  (\<open>audit-hash.service.ts\<close>).
\<close>

datatype json =
    JNull
  | JBool bool
  | JNum rat
  | JStr string
  | JArr "json list"
  | JObj "(string \<times> json) list"

text \<open>\<open>x ?? null\<close> for a nullable string.\<close>

definition jopt :: "string option \<Rightarrow> json" where
  "jopt v = (case v of None \<Rightarrow> JNull | Some s \<Rightarrow> JStr s)"

definition jnum_opt :: "int option \<Rightarrow> json" where
  "jnum_opt v = (case v of None \<Rightarrow> JNull | Some n \<Rightarrow> JNum (of_int n))"

text \<open>A property written only when its value is defined.\<close>

definition opt_field :: "string \<Rightarrow> json option \<Rightarrow> (string \<times> json) list" where
  "opt_field k v = (case v of None \<Rightarrow> [] | Some j \<Rightarrow> [(k, j)])"

subsection \<open>Objects\<close>

fun obj_set :: "(string \<times> json) list \<Rightarrow> string \<Rightarrow> json \<Rightarrow> (string \<times> json) list" where
  "obj_set [] k v = [(k, v)]"
| "obj_set ((k', v') # o') k v =
     (if k' = k then (k, v) # o' else (k', v') # obj_set o' k v)"

text \<open>\<open>{ ...base, ...patch }\<close>.\<close>

definition spread :: "(string \<times> json) list \<Rightarrow> (string \<times> json) list \<Rightarrow> (string \<times> json) list" where
  "spread base patch = foldl (\<lambda>ob kv. obj_set ob (fst kv) (snd kv)) base patch"

text \<open>\<open>existing && typeof existing === 'object' && !Array.isArray(existing) ? existing : {}\<close>.\<close>

definition as_object :: "json \<Rightarrow> (string \<times> json) list" where
  "as_object j = (case j of JObj fs \<Rightarrow> fs | _ \<Rightarrow> [])"

definition is_json_object :: "json \<Rightarrow> bool" where
  "is_json_object j \<longleftrightarrow> (case j of JObj _ \<Rightarrow> True | _ \<Rightarrow> False)"

text \<open>\<open>Array.isArray(x) ? x : []\<close>, with \<open>x\<close> possibly undefined.\<close>

definition as_array :: "json option \<Rightarrow> json list" where
  "as_array j = (case j of Some (JArr xs) \<Rightarrow> xs | _ \<Rightarrow> [])"

lemma map_of_obj_set: "map_of (obj_set ob k v) = (map_of ob)(k \<mapsto> v)"
  by (induction ob k v rule: obj_set.induct) auto

lemma map_of_spread: "map_of (spread base patch) = map_of base ++ map_of (rev patch)"
  unfolding spread_def
  by (induction patch arbitrary: base) (simp_all add: map_of_obj_set map_add_def fun_eq_iff split: option.splits)

lemma keys_obj_set: "fst ` set (obj_set ob k v) = insert k (fst ` set ob)"
  by (induction ob k v rule: obj_set.induct) auto

lemma distinct_obj_set: "distinct (map fst ob) \<Longrightarrow> distinct (map fst (obj_set ob k v))"
  by (induction ob k v rule: obj_set.induct) (auto simp: keys_obj_set)

lemma distinct_spread: "distinct (map fst base) \<Longrightarrow> distinct (map fst (spread base patch))"
  unfolding spread_def by (induction patch arbitrary: base) (simp_all add: distinct_obj_set)

subsection \<open>Redaction\<close>

definition REDACTED :: json where
  "REDACTED = JStr ''[REDACTED]''"

fun redact :: "json \<Rightarrow> json" where
  "redact (JArr xs) = JArr (map redact xs)"
| "redact (JObj fs) =
     JObj (map (\<lambda>kv. (fst kv, if isSecretFieldName (fst kv) then REDACTED else redact (snd kv))) fs)"
| "redact j = j"

definition SECRET_KEY_PATTERN :: "string list" where
  "SECRET_KEY_PATTERN =
    [''password'', ''token'', ''secret'', ''authorization'', ''cookie'', ''credential'',
     ''encrypted'', ''ciphertext'', ''auth_tag'', ''username'', ''responseText'']"

definition secret_key_test :: "string \<Rightarrow> bool" where
  "secret_key_test k \<longleftrightarrow> 
    list_ex (\<lambda>p. str_includes (to_lower k) (to_lower p)) SECRET_KEY_PATTERN"

fun redactSecretLikeValues :: "json \<Rightarrow> json" where
  "redactSecretLikeValues (JArr xs) = JArr (map redactSecretLikeValues xs)"
| "redactSecretLikeValues (JObj fs) =
     JObj (map (\<lambda>kv. (fst kv,
       if secret_key_test (fst kv) then REDACTED else redactSecretLikeValues (snd kv))) fs)"
| "redactSecretLikeValues j = j"

text \<open>
  \<open>leak_free\<close>: below every property with a secret name there is the placeholder and
  nothing else. \<open>get_path\<close> reads through properties and array elements.
\<close>

fun leak_free :: "json \<Rightarrow> bool" where
  "leak_free (JArr xs) = list_all leak_free xs"
| "leak_free (JObj fs) =
     list_all (\<lambda>kv. if isSecretFieldName (fst kv) then snd kv = REDACTED else leak_free (snd kv)) fs"
| "leak_free j = True"

datatype path_step = Prop string | Elem nat

fun get_path :: "json \<Rightarrow> path_step list \<Rightarrow> json option" where
  "get_path j [] = Some j"
| "get_path (JObj fs) (Prop k # p) =
     (case map_of fs k of None \<Rightarrow> None | Some v \<Rightarrow> get_path v p)"
| "get_path (JArr xs) (Elem i # p) = (if i < length xs then get_path (xs ! i) p else None)"
| "get_path _ _ = None"

lemma redact_leak_free: "leak_free (redact j)"
  by (induction j rule: redact.induct) (auto simp: list_all_iff)

lemma redact_fixes_leak_free: "leak_free j \<Longrightarrow> redact j = j"
proof (induction j rule: redact.induct)
  case (1 xs)
  then show ?case by (auto simp: list_all_iff intro: map_idI)
next
  case (2 fs)
  have "map (\<lambda>kv. (fst kv, if isSecretFieldName (fst kv) then REDACTED else redact (snd kv))) fs = fs"
  proof (rule map_idI)
    fix kv assume kv: "kv \<in> set fs"
    then have "if isSecretFieldName (fst kv) then snd kv = REDACTED else leak_free (snd kv)"
      using "2.prems" by (auto simp: list_all_iff)
    then show "(fst kv, if isSecretFieldName (fst kv) then REDACTED else redact (snd kv)) = kv"
      using "2.IH" [OF kv] by (cases kv) (auto split: if_splits)
  qed
  then show ?case by simp
qed simp_all

lemma map_of_map_fields:
  "map_of (map (\<lambda>kv. (fst kv, g (fst kv) (snd kv))) fs) k = map_option (g k) (map_of fs k)"
  by (induction fs) auto

text \<open>Outside secret properties nothing is lost: the value read is the redaction of the value there.\<close>

lemma redact_get_path:
  assumes "\<forall>k. Prop k \<in> set p \<longrightarrow> \<not> isSecretFieldName k"
  shows "get_path (redact j) p = map_option redact (get_path j p)"
  using assms
proof (induction j p rule: get_path.induct)
  case (2 fs k p)
  then show ?case
    by (auto simp: map_of_map_fields [where g = "\<lambda>k v. if isSecretFieldName k then REDACTED else redact v"]
             split: option.splits)
qed auto

subsection \<open>JSON text\<close>

definition hex_digit :: "nat \<Rightarrow> char" where
  "hex_digit n = char_of (if n < 10 then n + 48 else n + 87)"

definition esc_char :: "char \<Rightarrow> string" where
  "esc_char c = (let n = of_char c :: nat in
     if n = 34 then [CHR 0x5C, c]
     else if n = 92 then [c, c]
     else if n = 8 then [CHR 0x5C, CHR ''b'']
     else if n = 12 then [CHR 0x5C, CHR ''f'']
     else if n = 10 then [CHR 0x5C, CHR ''n'']
     else if n = 13 then [CHR 0x5C, CHR ''r'']
     else if n = 9 then [CHR 0x5C, CHR ''t'']
     else if n < 32 then
       CHR 0x5C # CHR ''u'' # CHR ''0'' # CHR ''0'' # hex_digit (n div 16) # [hex_digit (n mod 16)]
     else [c])"

definition quote :: char where
  "quote = CHR 0x22"

definition json_string :: "string \<Rightarrow> string" where
  "json_string s = quote # concat (map esc_char s) @ [quote]"

text \<open>A stable sort by a comparison, as \<open>Array.prototype.sort\<close>.\<close>

fun insert_by :: "('a \<Rightarrow> 'a \<Rightarrow> bool) \<Rightarrow> 'a \<Rightarrow> 'a list \<Rightarrow> 'a list" where
  "insert_by le x [] = [x]"
| "insert_by le x (y # ys) = (if le x y then x # y # ys else y # insert_by le x ys)"

definition sort_by :: "('a \<Rightarrow> 'a \<Rightarrow> bool) \<Rightarrow> 'a list \<Rightarrow> 'a list" where
  "sort_by le xs = foldr (insert_by le) xs []"

lemma set_insert_by [simp]: "set (insert_by le x xs) = insert x (set xs)"
  by (induction xs) auto

lemma set_sort_by [simp]: "set (sort_by le xs) = set xs"
  by (induction xs) (simp_all add: sort_by_def)

lemma map_insert_by:
  "(\<And>y. le' (f x) (f y) = le x y) \<Longrightarrow> map f (insert_by le x xs) = insert_by le' (f x) (map f xs)"
  by (induction xs) auto

lemma map_sort_by:
  assumes "\<And>x y. le' (f x) (f y) = le x y"
  shows "map f (sort_by le xs) = sort_by le' (map f xs)"
proof (induction xs)
  case (Cons x xs)
  have "map f (insert_by le x (sort_by le xs)) = insert_by le' (f x) (map f (sort_by le xs))"
    by (rule map_insert_by) (rule assms)
  with Cons show ?case by (simp add: sort_by_def)
qed (simp add: sort_by_def)

text \<open>
  \<open>stableStringify\<close> sorts the properties of every object with \<open>localeCompare\<close>, whose
  order belongs to the platform: the parameter \<open>collate\<close>.
\<close>

function stableStringify ::
  "(string \<Rightarrow> string \<Rightarrow> bool) \<Rightarrow> (rat \<Rightarrow> string) \<Rightarrow> json \<Rightarrow> string" where
  "stableStringify collate num_str (JArr xs) =
     ''['' @ join_with '','' (map (stableStringify collate num_str) xs) @ '']''"
| "stableStringify collate num_str (JObj fs) =
     ''{'' @ join_with '',''
        (map (\<lambda>kv. json_string (fst kv) @ '':'' @ stableStringify collate num_str (snd kv))
           (sort_by (\<lambda>l r. collate (fst l) (fst r)) fs)) @ ''}''"
| "stableStringify collate num_str JNull = ''null''"
| "stableStringify collate num_str (JBool b) = (if b then ''true'' else ''false'')"
| "stableStringify collate num_str (JNum n) = num_str n"
| "stableStringify collate num_str (JStr s) = json_string s"
  by pat_completeness auto
termination
proof (relation "measure (\<lambda>(_, _, j). size j)", goal_cases)
  case (2 collate num_str xs x)
  then show ?case by (simp add: less_Suc_eq_le size_list_estimation')
next
  case (3 collate num_str fs kv)
  then have "kv \<in> set fs" by simp
  then have "size (snd kv) \<le> size_list (size_prod (\<lambda>_. 0) size) fs"
    by (rule size_list_estimation') (cases kv, simp)
  then show ?case by simp
qed simp

subsection \<open>Properties\<close>

lemma secret_key_test_eq: "secret_key_test = isSecretFieldName"
  by (simp add: fun_eq_iff secret_key_test_def isSecretFieldName_def SECRET_KEY_PATTERN_def
      SECRET_FIELD_PATTERNS_def)

text \<open>Redaction removes everything below a property with a secret name, keeps every other
value where it was, and changes nothing when applied again.\<close>

theorem redact_correct:
  "leak_free (redact j)
   \<and> redact (redact j) = redact j
   \<and> ((\<forall>k. Prop k \<in> set p \<longrightarrow> \<not> isSecretFieldName k) \<longrightarrow>
        get_path (redact j) p = map_option redact (get_path j p))"
  by (auto intro: redact_leak_free redact_fixes_leak_free redact_get_path)

theorem redact_correct_witness:
  "get_path (redact (JObj [(''a'', JObj [(''Password'', JStr ''x''), (''n'', JNum 1)])])) [Prop ''a'', Prop ''n'']
   = Some (JNum 1)"
proof -
  have names: "\<not> isSecretFieldName ''a''" "\<not> isSecretFieldName ''n''" by code_simp+
  let ?j = "JObj [(''a'', JObj [(''Password'', JStr ''x''), (''n'', JNum 1)])]"
  have "get_path (redact ?j) [Prop ''a'', Prop ''n''] = map_option redact (get_path ?j [Prop ''a'', Prop ''n''])"
    using redact_correct [of ?j "[Prop ''a'', Prop ''n'']"] names by auto
  then show ?thesis by simp
qed

text \<open>The vault's redaction and the audit log's redaction are the same function, so a
payload redacted by one holds nothing the other would remove.\<close>

theorem vault_redaction_equals_audit_redaction: "redactSecretLikeValues j = redact j"
  by (induction j rule: redact.induct)
     (auto simp: secret_key_test_eq)

end
