(* ===== verification/Json_Text.thy ===== *)
theory Json_Text
  imports Json
begin

section \<open>Stable text is injective\<close>

text \<open>
  \<open>stableStringify\<close> of \<open>audit-hash.service.ts\<close> feeds the hash of an audit event. This
  theory shows that the text determines the value up to the order of object properties, by
  reading strings, numbers, lists and objects back in one way.
\<close>

subsection \<open>The text determines the value\<close>

text \<open>
  \<open>normalise\<close> sorts the properties of every object; \<open>json_text\<close> prints without
  sorting. \<open>stableStringify\<close> is the text of the normal form, and the text can be read back in
  one way only, so two values have the same text only if they differ in the order of
  properties at most.
\<close>

function normalise :: "(string \<Rightarrow> string \<Rightarrow> bool) \<Rightarrow> json \<Rightarrow> json" where
  "normalise le (JArr xs) = JArr (map (normalise le) xs)"
| "normalise le (JObj fs) =
     JObj (map (\<lambda>kv. (fst kv, normalise le (snd kv))) (sort_by (\<lambda>l r. le (fst l) (fst r)) fs))"
| "normalise le JNull = JNull"
| "normalise le (JBool b) = JBool b"
| "normalise le (JNum n) = JNum n"
| "normalise le (JStr s) = JStr s"
  by pat_completeness auto
termination
proof (relation "measure (\<lambda>(_, j). size j)", goal_cases)
  case (2 le xs x)
  then show ?case by (simp add: less_Suc_eq_le size_list_estimation')
next
  case (3 le fs kv)
  then have "kv \<in> set fs" by simp
  then have "size (snd kv) \<le> size_list (size_prod (\<lambda>_. 0) size) fs"
    by (rule size_list_estimation') (cases kv, simp)
  then show ?case by simp
qed simp

fun json_text :: "(rat \<Rightarrow> string) \<Rightarrow> json \<Rightarrow> string" where
  "json_text ns (JArr xs) = ''['' @ join_with '','' (map (json_text ns) xs) @ '']''"
| "json_text ns (JObj fs) =
     ''{'' @ join_with '','' (map (\<lambda>kv. json_string (fst kv) @ '':'' @ json_text ns (snd kv)) fs) @ ''}''"
| "json_text ns JNull = ''null''"
| "json_text ns (JBool b) = (if b then ''true'' else ''false'')"
| "json_text ns (JNum n) = ns n"
| "json_text ns (JStr s) = json_string s"

lemma stableStringify_text: "stableStringify le ns j = json_text ns (normalise le j)"
proof (induction le ns j rule: stableStringify.induct)
  case (1 le ns xs)
  then show ?case by (simp cong: map_cong)
next
  case (2 le ns fs)
  let ?fs = "sort_by (\<lambda>l r. le (fst l) (fst r)) fs"
  have "map (\<lambda>kv. json_string (fst kv) @ '':'' @ stableStringify le ns (snd kv)) ?fs
      = map (\<lambda>kv. json_string (fst kv) @ '':'' @ json_text ns (normalise le (snd kv))) ?fs"
    by (rule map_cong) (simp_all add: 2)
  then show ?case
    unfolding stableStringify.simps normalise.simps json_text.simps map_map comp_def fst_conv snd_conv
    by (simp only:)
qed simp_all

text \<open>Reading one escaped character back.\<close>

definition unhex :: "char \<Rightarrow> nat" where
  "unhex c = (let n = of_char c in if n < 58 then n - 48 else n - 87)"

fun unescape :: "string \<Rightarrow> (char \<times> string) option" where
  "unescape (b # c # rest) =
     (if b \<noteq> CHR 0x5C then Some (b, c # rest)
      else if c = CHR ''b'' then Some (CHR 0x08, rest)
      else if c = CHR ''f'' then Some (CHR 0x0C, rest)
      else if c = CHR ''n'' then Some (CHR 0x0A, rest)
      else if c = CHR ''r'' then Some (CHR 0x0D, rest)
      else if c = CHR ''t'' then Some (CHR 0x09, rest)
      else if c = CHR ''u'' then
        (case rest of _ # _ # h # l # rest' \<Rightarrow> Some (char_of (16 * unhex h + unhex l), rest')
         | _ \<Rightarrow> None)
      else Some (c, rest))"
| "unescape s = (case s of [b] \<Rightarrow> Some (b, []) | _ \<Rightarrow> None)"

lemma of_char_hex_digit: "n < 16 \<Longrightarrow> of_char (hex_digit n) = (if n < 10 then n + 48 else n + 87 :: nat)"
  by (simp add: hex_digit_def)

lemma unhex_hex_digit: "n < 16 \<Longrightarrow> unhex (hex_digit n) = n"
  by (simp add: unhex_def of_char_hex_digit)

definition plain_char :: "char \<Rightarrow> bool" where
  "plain_char c \<longleftrightarrow> c \<notin> {CHR 0x22, CHR 0x5C, CHR 0x08, CHR 0x0C, CHR 0x0A, CHR 0x0D, CHR 0x09}"

lemma esc_char_plain:
  assumes "plain_char c"
  shows "esc_char c = (let n = of_char c :: nat in
    if n < 32 then CHR 0x5C # CHR ''u'' # CHR ''0'' # CHR ''0'' # hex_digit (n div 16) # [hex_digit (n mod 16)]
    else [c])"
proof -
  have ne: "of_char c \<noteq> (of_char d :: nat)" if "d \<in> {CHR 0x22, CHR 0x5C, CHR 0x08, CHR 0x0C, CHR 0x0A, CHR 0x0D, CHR 0x09}" for d
    using assms that by (auto simp: plain_char_def)
  show ?thesis
    using ne [of "CHR 0x22"] ne [of "CHR 0x5C"] ne [of "CHR 0x08"] ne [of "CHR 0x0C"]
      ne [of "CHR 0x0A"] ne [of "CHR 0x0D"] ne [of "CHR 0x09"]
    by (simp add: esc_char_def Let_def)
qed

lemma unescape_esc: "unescape (esc_char c @ rest) = Some (c, rest)"
proof (cases "plain_char c")
  case True
  let ?n = "of_char c :: nat"
  show ?thesis
  proof (cases "?n < 32")
    case small: True
    have "16 * (?n div 16) + ?n mod 16 = ?n" by simp
    then have "char_of (16 * unhex (hex_digit (?n div 16)) + unhex (hex_digit (?n mod 16))) = c"
      using small by (subst (1 2) unhex_hex_digit) auto
    with small show ?thesis by (simp add: esc_char_plain [OF True] Let_def)
  next
    case False
    with True show ?thesis
      by (cases rest) (simp_all add: esc_char_plain [OF True] Let_def plain_char_def)
  qed
next
  case False
  then consider "c = CHR 0x22" | "c = CHR 0x5C" | "c = CHR 0x08" | "c = CHR 0x0C" | "c = CHR 0x0A"
    | "c = CHR 0x0D" | "c = CHR 0x09"
    by (auto simp: plain_char_def)
  then show ?thesis by cases (simp_all add: esc_char_def)
qed

lemma esc_char_not_quote: "\<exists>b bs. esc_char c = b # bs \<and> b \<noteq> quote"
  by (cases "plain_char c") (auto simp: esc_char_plain Let_def plain_char_def quote_def esc_char_def)

lemma json_string_body_unique:
  "concat (map esc_char s) @ quote # a = concat (map esc_char s') @ quote # b \<Longrightarrow> s = s' \<and> a = b"
proof (induction s arbitrary: s')
  case Nil
  show ?case
  proof (cases s')
    case (Cons d ds)
    obtain x xs where "esc_char d = x # xs" "x \<noteq> quote" using esc_char_not_quote [of d] by blast
    with Nil Cons show ?thesis by simp
  qed (use Nil in simp)
next
  case (Cons c cs)
  show ?case
  proof (cases s')
    case Nil
    obtain x xs where "esc_char c = x # xs" "x \<noteq> quote" using esc_char_not_quote [of c] by blast
    with Nil Cons.prems show ?thesis by simp
  next
    case s': (Cons d ds)
    have "unescape (esc_char c @ concat (map esc_char cs) @ quote # a)
        = unescape (esc_char d @ concat (map esc_char ds) @ quote # b)"
      using Cons.prems by (simp add: s')
    then have "c = d" and "concat (map esc_char cs) @ quote # a = concat (map esc_char ds) @ quote # b"
      by (simp_all add: unescape_esc)
    then show ?thesis using Cons.IH [of ds] by (simp add: s')
  qed
qed

lemma json_string_unique: "json_string s @ a = json_string s' @ b \<Longrightarrow> s = s' \<and> a = b"
  using json_string_body_unique [of s a s' b] by (simp add: json_string_def)

text \<open>Number texts: injective, non-empty, over the characters JavaScript prints numbers with.\<close>

definition number_chars :: "char list" where
  "number_chars = ''0123456789+-.e''"

definition number_printer :: "(rat \<Rightarrow> string) \<Rightarrow> bool" where
  "number_printer ns \<longleftrightarrow> inj ns \<and> (\<forall>n. ns n \<noteq> [] \<and> set (ns n) \<subseteq> set number_chars \<and> hd (ns n) \<noteq> CHR ''e'')"

definition delimited :: "string \<Rightarrow> bool" where
  "delimited s \<longleftrightarrow> (case s of [] \<Rightarrow> True | c # _ \<Rightarrow> c \<in> {CHR '','', CHR '']'', CHR ''}''})"

lemma span_unique:
  assumes "xs @ s = ys @ t" and "set xs \<subseteq> A" and "set ys \<subseteq> A"
    and "s = [] \<or> hd s \<notin> A" and "t = [] \<or> hd t \<notin> A"
  shows "xs = ys \<and> s = t"
  using assms
proof (induction xs arbitrary: ys)
  case Nil
  then show ?case by (cases ys) auto
next
  case (Cons x xs)
  then show ?case by (cases ys) auto
qed

lemma delimited_not_number: "delimited s \<Longrightarrow> s = [] \<or> hd s \<notin> set number_chars"
  by (auto simp: delimited_def number_chars_def split: list.splits)

text \<open>The first character of a text tells the kind of value.\<close>

primrec kind_char :: "json \<Rightarrow> char set" where
  "kind_char JNull = {CHR ''n''}"
| "kind_char (JBool b) = {if b then CHR ''t'' else CHR ''f''}"
| "kind_char (JNum n) = set number_chars - {CHR ''e''}"
| "kind_char (JStr s) = {quote}"
| "kind_char (JArr xs) = {CHR ''[''}"
| "kind_char (JObj fs) = {CHR ''{''}"

lemma text_kind:
  assumes "number_printer ns"
  shows "json_text ns j \<noteq> [] \<and> hd (json_text ns j @ s) \<in> kind_char j"
proof (cases j)
  case (JNum n)
  have "ns n \<noteq> []" "set (ns n) \<subseteq> set number_chars" "hd (ns n) \<noteq> CHR ''e''"
    using assms by (auto simp: number_printer_def)
  then show ?thesis using JNum by (cases "ns n") auto
qed (auto simp: json_string_def)

lemma kind_not_closing: "kind_char j \<inter> {CHR '','', CHR '']'', CHR ''}''} = {}"
  by (cases j) (auto simp: number_chars_def quote_def)

primrec kind_of :: "json \<Rightarrow> nat" where
  "kind_of JNull = 0"
| "kind_of (JBool b) = (if b then 1 else 2)"
| "kind_of (JNum n) = 3"
| "kind_of (JStr s) = 4"
| "kind_of (JArr xs) = 5"
| "kind_of (JObj fs) = 6"

lemma kind_char_kind_of: "c \<in> kind_char j \<Longrightarrow> c \<in> kind_char k \<Longrightarrow> kind_of j = kind_of k"
proof -
  define f where "f c = (if c = CHR ''n'' then 0 else if c = CHR ''t'' then 1 else if c = CHR ''f'' then 2
     else if c = quote then 4 else if c = CHR ''['' then 5 else if c = CHR ''{'' then 6 else 3 :: nat)" for c
  have "c \<in> kind_char j \<Longrightarrow> kind_of j = f c" for j
    by (cases j) (auto simp: number_chars_def quote_def f_def split: if_splits)
  then show "c \<in> kind_char j \<Longrightarrow> c \<in> kind_char k \<Longrightarrow> kind_of j = kind_of k" by metis
qed


lemma join_with_Cons: "join_with sep (p # ps) = p @ (if ps = [] then [] else sep @ join_with sep ps)"
  by (cases ps) simp_all

text \<open>
  Items separated by commas and closed by a bracket: if every item can be read back in one
  way, so can the list. \<open>f\<close> prints an item of the first list and \<open>open\<close> is what an
  item's text starts with.
\<close>

lemma join_unique:
  assumes item: "\<And>x y a b. x \<in> set xs \<Longrightarrow> f x @ a = f y @ b \<Longrightarrow> delimited a \<Longrightarrow> delimited b \<Longrightarrow> x = y \<and> a = b"
    and start: "\<And>x. f x \<noteq> [] \<and> hd (f x) \<noteq> close"
    and close: "close \<in> {CHR '']'', CHR ''}''}"
    and eq: "join_with '','' (map f xs) @ close # a = join_with '','' (map f ys) @ close # b"
  shows "xs = ys \<and> a = b"
  using item eq
proof (induction xs arbitrary: ys)
  case Nil
  show ?case
  proof (cases ys)
    case (Cons y ys')
    obtain c cs where "f y = c # cs" "c \<noteq> close" using start [of y] by (cases "f y") auto
    with Nil Cons show ?thesis by (simp add: join_with_Cons)
  qed (use Nil in simp)
next
  case (Cons x xs)
  show ?case
  proof (cases ys)
    case Nil
    obtain c cs where "f x = c # cs" "c \<noteq> close" using start [of x] by (cases "f x") auto
    with Cons.prems Nil show ?thesis by (simp add: join_with_Cons)
  next
    case ys: (Cons y ys')
    define A where "A = (if xs = [] then [] else '','' @ join_with '','' (map f xs)) @ close # a"
    define B where "B = (if ys' = [] then [] else '','' @ join_with '','' (map f ys')) @ close # b"
    have delims: "delimited A" "delimited B"
      using close by (auto simp: A_def B_def delimited_def)
    have "f x @ A = f y @ B"
      using Cons.prems(2) by (simp add: ys join_with_Cons A_def B_def)
    with Cons.prems(1) [of x A y B] delims have "x = y" and AB: "A = B" by auto
    have "close \<noteq> CHR '',''" using close by auto
    with AB have "(xs = []) = (ys' = [])"
      and "join_with '','' (map f xs) @ close # a = join_with '','' (map f ys') @ close # b"
      by (auto simp: A_def B_def split: if_splits)
    then show ?thesis
      using Cons.IH [of ys'] Cons.prems(1) \<open>x = y\<close> ys by auto
  qed
qed

lemma json_text_unique:
  assumes ns: "number_printer ns"
  shows "json_text ns j @ a = json_text ns k @ b \<Longrightarrow> delimited a \<Longrightarrow> delimited b \<Longrightarrow> j = k \<and> a = b"
proof (induction j arbitrary: k a b)
  note start = text_kind [OF ns]
  have same_kind: "kind_of j = kind_of k" if "json_text ns j @ a = json_text ns k @ b" for j k a b
    using start [of j a] start [of k b] that by (auto intro: kind_char_kind_of)
  have starts: "json_text ns j \<noteq> [] \<and> hd (json_text ns j) \<noteq> CHR '']''" for j
    using start [of j "[]"] kind_not_closing [of j] by auto
  {
    case JNull
    then show ?case using same_kind [OF JNull.prems(1)] by (cases k) (auto split: if_splits)
  next
    case (JBool x)
    then show ?case using same_kind [OF JBool.prems(1)] by (cases k) (auto split: if_splits)
  next
    case (JNum n)
    obtain m where k: "k = JNum m"
      using same_kind [OF JNum.prems(1)] by (cases k) (auto split: if_splits)
    have "ns n = ns m \<and> a = b"
      using JNum.prems ns k by (intro span_unique [where A = "set number_chars"])
        (auto simp: number_printer_def dest: delimited_not_number)
    then show ?case using ns k by (auto simp: number_printer_def inj_eq)
  next
    case (JStr s)
    obtain t where k: "k = JStr t"
      using same_kind [OF JStr.prems(1)] by (cases k) (auto split: if_splits)
    then show ?case using JStr.prems(1) json_string_unique [of s a t b] by simp
  next
    case (JArr xs)
    obtain ys where k: "k = JArr ys"
      using same_kind [OF JArr.prems(1)] by (cases k) (auto split: if_splits)
    have "xs = ys \<and> a = b"
      by (rule join_unique [where f = "json_text ns" and close = "CHR '']''"])
         (use JArr starts k in auto)
    then show ?case by (simp add: k)
  next
    case (JObj fs)
    obtain gs where k: "k = JObj gs"
      using same_kind [OF JObj.prems(1)] by (cases k) (auto split: if_splits)
    have "fs = gs \<and> a = b"
    proof (rule join_unique [where f = "\<lambda>kv. json_string (fst kv) @ '':'' @ json_text ns (snd kv)" and close = "CHR ''}''"])
      fix x y c d
      assume x: "x \<in> set fs" and d: "delimited c" "delimited d"
        and eq: "(json_string (fst x) @ '':'' @ json_text ns (snd x)) @ c
               = (json_string (fst y) @ '':'' @ json_text ns (snd y)) @ d"
      have "fst x = fst y" and rest: "json_text ns (snd x) @ c = json_text ns (snd y) @ d"
        using json_string_unique [of "fst x" "'':'' @ json_text ns (snd x) @ c" "fst y"] eq by auto
      moreover have "snd x = snd y \<and> c = d"
        using JObj.IH [OF x _ rest d] by (cases x) auto
      ultimately show "x = y \<and> c = d" by (simp add: prod_eq_iff)
    qed (use JObj.prems k in \<open>auto simp: json_string_def quote_def\<close>)
    then show ?case by (simp add: k)
  }
qed

lemma stableStringify_normal:
  assumes "number_printer ns" and "stableStringify le ns j = stableStringify le ns k"
  shows "normalise le j = normalise le k"
  using json_text_unique [OF assms(1), of "normalise le j" "[]" "normalise le k" "[]"] assms(2)
  by (simp add: stableStringify_text delimited_def)



text \<open>A number printer: sign, numerator and denominator in unary.\<close>

definition unary_number :: "rat \<Rightarrow> string" where
  "unary_number n = (case quotient_of n of (p, q) \<Rightarrow>
     (if p < 0 then ''-'' else ''+'') @ replicate (nat \<bar>p\<bar>) (CHR ''1'') @ ''.'' @ replicate (nat q) (CHR ''1''))"

lemma unary_number_printer: "number_printer unary_number"
  unfolding number_printer_def
proof (intro conjI allI injI)
  fix x y :: rat
  assume eq: "unary_number x = unary_number y"
  obtain p q p' q' where q: "quotient_of x = (p, q)" "quotient_of y = (p', q')"
    by (metis surj_pair)
  have pos: "q > 0" "q' > 0" using q by (auto dest: quotient_of_denom_pos)
  have sign: "(p < 0) = (p' < 0)"
    using eq by (auto simp: unary_number_def q split: if_splits)
  have "replicate (nat \<bar>p\<bar>) (CHR ''1'') @ ''.'' @ replicate (nat q) (CHR ''1'')
      = replicate (nat \<bar>p'\<bar>) (CHR ''1'') @ ''.'' @ replicate (nat q') (CHR ''1'')"
    using eq sign by (auto simp: unary_number_def q split: if_splits)
  then have "replicate (nat \<bar>p\<bar>) (CHR ''1'') = replicate (nat \<bar>p'\<bar>) (CHR ''1'')
      \<and> ''.'' @ replicate (nat q) (CHR ''1'') = ''.'' @ replicate (nat q') (CHR ''1'')"
    by (rule span_unique [where A = "{CHR ''1''}"]) auto
  then have "nat \<bar>p\<bar> = nat \<bar>p'\<bar>" "nat q = nat q'" by (auto simp: replicate_eq_replicate)
  then have "p = p'" "q = q'" using sign pos by auto
  then show "x = y" using q by (metis quotient_of_div)
next
  fix n :: rat
  obtain p q where "quotient_of n = (p, q)" by (metis surj_pair)
  then show "unary_number n \<noteq> []" "set (unary_number n) \<subseteq> set number_chars"
    "hd (unary_number n) \<noteq> CHR ''e''"
    by (auto simp: unary_number_def number_chars_def)
qed


end
