(* ===== verification/Worker_Token.thy ===== *)
theory Worker_Token
  imports Domain
begin

section \<open>Worker run tokens\<close>

text \<open>
  \<open>libs/domain/src/worker-token.ts\<close>: tokens that let a worker act for one run of one
  organization. The keyed hash (HMAC-SHA-256 in base64url), and the encoding of the claims
  (JSON in base64url) with its decoding, belong to the platform and are the record
  \<open>token_codec\<close>; \<open>tc_decode\<close> is \<open>None\<close> where parsing throws. Byte-wise comparison in constant
  time is equality. Times are in milliseconds, claims in seconds.
\<close>

record claims =
  cl_organizationId :: string
  cl_workflowRunId :: string
  cl_issuedAt :: nat
  cl_expiresAt :: nat
  cl_scope :: string

record token_codec =
  tc_sign :: "string \<Rightarrow> string \<Rightarrow> string"
  tc_encode :: "claims \<Rightarrow> string"
  tc_decode :: "string \<Rightarrow> claims option"

definition VERSION :: string where
  "VERSION = ''wrk1''"

definition issueWorkerRunToken ::
  "token_codec \<Rightarrow> string \<Rightarrow> string \<Rightarrow> string \<Rightarrow> nat option \<Rightarrow> nat \<Rightarrow> string" where
  "issueWorkerRunToken tc secret organizationId workflowRunId ttlSeconds now =
    (let issuedAt = now div 1000;
         c = \<lparr>cl_organizationId = organizationId, cl_workflowRunId = workflowRunId,
              cl_issuedAt = issuedAt, cl_expiresAt = issuedAt + coalesce ttlSeconds (60 * 60),
              cl_scope = ''run''\<rparr>;
         payload = tc_encode tc c;
         signature = tc_sign tc secret payload
     in VERSION @ ''.'' @ payload @ ''.'' @ signature)"

text \<open>The fields of \<open>token.split('.')\<close> by position, missing ones undefined.\<close>

definition part :: "nat \<Rightarrow> string list \<Rightarrow> string option" where
  "part n ps = (if n < length ps then Some (ps ! n) else None)"

definition verifyWorkerRunToken ::
  "token_codec \<Rightarrow> string \<Rightarrow> string \<Rightarrow> string option \<Rightarrow> string option \<Rightarrow> nat \<Rightarrow> claims option" where
  "verifyWorkerRunToken tc secret token organizationId workflowRunId now_ms =
    (let ps = split_on (CHR ''.'') token;
         version = part 0 ps; payload = part 1 ps; signature = part 2 ps; extra = part 3 ps
     in
     if version \<noteq> Some VERSION \<or> \<not> truthy payload \<or> \<not> truthy signature \<or> truthy extra then None
     else if the signature \<noteq> tc_sign tc secret (the payload) then None
     else (case tc_decode tc (the payload) of
         None \<Rightarrow> None
       | Some c \<Rightarrow>
           let now = now_ms div 1000 in
           if cl_scope c \<noteq> ''run'' \<or> cl_expiresAt c \<le> now then None
           else if truthy organizationId \<and> Some (cl_organizationId c) \<noteq> organizationId then None
           else if truthy workflowRunId \<and> Some (cl_workflowRunId c) \<noteq> workflowRunId then None
           else Some c))"

subsection \<open>Properties\<close>

text \<open>What the platform's codec promises: decoding inverts encoding, and neither the encoded
claims nor a signature is empty or holds the separator.\<close>

definition codec_ok :: "token_codec \<Rightarrow> bool" where
  "codec_ok tc \<longleftrightarrow> (\<forall>c. tc_decode tc (tc_encode tc c) = Some c
     \<and> tc_encode tc c \<noteq> [] \<and> CHR ''.'' \<notin> set (tc_encode tc c))
   \<and> (\<forall>k p. tc_sign tc k p \<noteq> [] \<and> CHR ''.'' \<notin> set (tc_sign tc k p))"

lemma split_issued:
  assumes "codec_ok tc"
  shows "split_on (CHR ''.'') (VERSION @ ''.'' @ tc_encode tc c @ ''.'' @ tc_sign tc k p)
    = [VERSION, tc_encode tc c, tc_sign tc k p]"
proof -
  have enc: "CHR ''.'' \<notin> set (tc_encode tc c)" and sig: "CHR ''.'' \<notin> set (tc_sign tc k p)"
    using assms by (auto simp: codec_ok_def)
  have "CHR ''.'' \<notin> set VERSION" by (simp add: VERSION_def)
  then have "split_on (CHR ''.'') (VERSION @ CHR ''.'' # (tc_encode tc c @ CHR ''.'' # tc_sign tc k p))
     = VERSION # split_on (CHR ''.'') (tc_encode tc c @ CHR ''.'' # tc_sign tc k p)"
    by (rule split_on_append)
  also have "\<dots> = [VERSION, tc_encode tc c, tc_sign tc k p]"
    by (simp add: split_on_append [OF enc] split_on_absent [OF sig])
  finally show ?thesis by simp
qed

text \<open>C13. A token issued for a run is accepted for that run and organization until it expires,
with the claims it was issued with, and is refused for every other run or organization and
from its expiry on.\<close>

theorem issued_token_verifies:
  assumes "codec_ok tc" and "org \<noteq> []" and "run \<noteq> []"
  shows "verifyWorkerRunToken tc secret (issueWorkerRunToken tc secret org run ttl t)
      (Some org') (Some run') now
    = (if (org' = [] \<or> org' = org) \<and> (run' = [] \<or> run' = run)
          \<and> now div 1000 < t div 1000 + coalesce ttl 3600
       then Some \<lparr>cl_organizationId = org, cl_workflowRunId = run, cl_issuedAt = t div 1000,
                  cl_expiresAt = t div 1000 + coalesce ttl 3600, cl_scope = ''run''\<rparr>
       else None)"
proof -
  have dec: "tc_decode tc (tc_encode tc c) = Some c" "tc_encode tc c \<noteq> []" "tc_sign tc k p \<noteq> []" for c k p
    using assms(1) by (auto simp: codec_ok_def)
  show ?thesis
    unfolding verifyWorkerRunToken_def issueWorkerRunToken_def Let_def split_issued [OF assms(1)]
    by (auto simp: part_def truthy_def dec)
qed

text \<open>A concrete codec: characters as pairs of letters, numbers in unary, fields closed by \<open>-\<close>.\<close>

definition letter :: "nat \<Rightarrow> char" where
  "letter n = char_of (n + 97)"

fun pack :: "string \<Rightarrow> string" where
  "pack [] = []"
| "pack (c # cs) = letter (of_char c div 16) # letter (of_char c mod 16) # pack cs"

fun unpack :: "string \<Rightarrow> string" where
  "unpack (a # b # cs) = char_of (16 * (of_char a - 97) + (of_char b - 97 :: nat)) # unpack cs"
| "unpack _ = []"

definition demo_codec :: token_codec where
  "demo_codec = \<lparr>tc_sign = (\<lambda>k p. ''s'' @ pack k @ pack p),
     tc_encode = (\<lambda>c. pack (cl_organizationId c) @ ''-'' @ pack (cl_workflowRunId c) @ ''-''
        @ replicate (cl_issuedAt c) (CHR ''i'') @ ''-'' @ replicate (cl_expiresAt c) (CHR ''e'') @ ''-''
        @ pack (cl_scope c)),
     tc_decode = (\<lambda>s. case split_on (CHR ''-'') s of
         [o', r, i, e, sc] \<Rightarrow> Some \<lparr>cl_organizationId = unpack o', cl_workflowRunId = unpack r,
            cl_issuedAt = length i, cl_expiresAt = length e, cl_scope = unpack sc\<rparr>
       | _ \<Rightarrow> None)\<rparr>"

lemma of_char_letter: "n < 16 \<Longrightarrow> of_char (letter n) = n + 97"
  by (simp add: letter_def)

lemma unpack_pack: "unpack (pack s) = s"
proof (induction s)
  case (Cons c cs)
  have bounds: "of_char c div 16 < (16::nat)" "of_char c mod 16 < (16::nat)"
    by (simp_all add: less_mult_imp_div_less)
  have "16 * (of_char c div 16) + of_char c mod 16 = (of_char c :: nat)" by simp
  then show ?case
    using Cons by (simp add: of_char_letter [OF bounds(1)] of_char_letter [OF bounds(2)])
qed simp

lemma pack_letters: "set (pack s) \<subseteq> letter ` {..<16}"
  by (induction s) (auto simp: less_mult_imp_div_less)

lemma letter_clean: "n < 16 \<Longrightarrow> letter n \<noteq> CHR ''-'' \<and> letter n \<noteq> CHR ''.''"
  using of_char_letter [of n] by auto

lemma pack_clean: "CHR ''-'' \<notin> set (pack s)" "CHR ''.'' \<notin> set (pack s)"
  using pack_letters [of s] letter_clean by fastforce+

lemma demo_codec_ok: "codec_ok demo_codec"
  unfolding codec_ok_def
proof (intro conjI allI)
  fix c
  have "tc_decode demo_codec (tc_encode demo_codec c) = Some c"
    using pack_clean by (simp add: demo_codec_def split_on_append split_on_absent unpack_pack)
  then show "tc_decode demo_codec (tc_encode demo_codec c) = Some c" .
  show "tc_encode demo_codec c \<noteq> []" by (simp add: demo_codec_def)
  show "CHR ''.'' \<notin> set (tc_encode demo_codec c)"
    using pack_clean by (auto simp: demo_codec_def)
next
  fix k p
  show "tc_sign demo_codec k p \<noteq> []" "CHR ''.'' \<notin> set (tc_sign demo_codec k p)"
    using pack_clean by (auto simp: demo_codec_def)
qed

theorem issued_token_verifies_witness:
  "verifyWorkerRunToken demo_codec ''k'' (issueWorkerRunToken demo_codec ''k'' ''o'' ''r'' (Some 60) 5000)
      (Some ''o'') (Some ''r'') 9000
   = Some \<lparr>cl_organizationId = ''o'', cl_workflowRunId = ''r'', cl_issuedAt = 5, cl_expiresAt = 65, cl_scope = ''run''\<rparr>"
  using issued_token_verifies [OF demo_codec_ok, of "''o''" "''r''" "''k''" "Some 60" 5000 "''o''" "''r''" 9000]
  by simp

lemma verified_token:
  assumes "verifyWorkerRunToken tc secret token org run now = Some c"
  obtains payload rest where "token = VERSION @ ''.'' @ payload @ ''.'' @ tc_sign tc secret payload @ rest"
    and "rest = [] \<or> hd rest = CHR ''.''" and "tc_decode tc payload = Some c"
    and "cl_scope c = ''run''" and "now div 1000 < cl_expiresAt c"
    and "truthy org \<Longrightarrow> Some (cl_organizationId c) = org" and "truthy run \<Longrightarrow> Some (cl_workflowRunId c) = run"
proof -
  define ps where "ps = split_on (CHR ''.'') token"
  have parts: "part 0 ps = Some VERSION" "truthy (part 1 ps)" "part 2 ps = Some (tc_sign tc secret (the (part 1 ps)))"
    and dec: "tc_decode tc (the (part 1 ps)) = Some c"
    and c: "cl_scope c = ''run''" "now div 1000 < cl_expiresAt c"
      "truthy org \<Longrightarrow> Some (cl_organizationId c) = org" "truthy run \<Longrightarrow> Some (cl_workflowRunId c) = run"
    using assms unfolding verifyWorkerRunToken_def ps_def [symmetric]
    by (auto simp: Let_def truthy_def split: if_splits option.splits)
  then obtain p rest where ps: "ps = VERSION # p # tc_sign tc secret p # rest"
    by (cases ps; cases "tl ps"; cases "tl (tl ps)") (auto simp: part_def truthy_def split: if_splits)
  then have p: "the (part 1 ps) = p" by (simp add: part_def)
  have "token = join_with [CHR ''.''] ps" by (simp add: ps_def)
  also have "\<dots> = VERSION @ ''.'' @ p @ ''.'' @ tc_sign tc secret p
      @ (if rest = [] then [] else CHR ''.'' # join_with [CHR ''.''] rest)"
    by (cases rest) (simp_all add: ps)
  finally show thesis
    using dec c p by (intro that [of p "if rest = [] then [] else CHR ''.'' # join_with [CHR ''.''] rest"]) auto
qed

text \<open>C14. Whatever token is accepted starts with the version, a payload and the keyed hash of
exactly that payload under the secret; its claims are the decoded payload, of scope \<open>run\<close>,
not expired, and for the organization and the run asked for.\<close>

theorem accepted_token_is_signed:
  assumes "verifyWorkerRunToken tc secret token (Some org) (Some run) now = Some c"
    and "org \<noteq> []" and "run \<noteq> []"
  shows "\<exists>payload rest. token = VERSION @ ''.'' @ payload @ ''.'' @ tc_sign tc secret payload @ rest
      \<and> (rest = [] \<or> hd rest = CHR ''.'')
      \<and> tc_decode tc payload = Some c
      \<and> cl_scope c = ''run'' \<and> now div 1000 < cl_expiresAt c
      \<and> cl_organizationId c = org \<and> cl_workflowRunId c = run"
  using verified_token [OF assms(1)] assms(2,3) by (simp add: truthy_def) metis

definition demo_token :: string where
  "demo_token = issueWorkerRunToken demo_codec ''k'' ''o'' ''r'' (Some 2) 1000"

definition demo_claims :: claims where
  "demo_claims = \<lparr>cl_organizationId = ''o'', cl_workflowRunId = ''r'', cl_issuedAt = 1,
     cl_expiresAt = 3, cl_scope = ''run''\<rparr>"

theorem accepted_token_is_signed_witness:
  "\<exists>payload rest. demo_token = VERSION @ ''.'' @ payload @ ''.'' @ tc_sign demo_codec ''k'' payload @ rest
      \<and> (rest = [] \<or> hd rest = CHR ''.'')
      \<and> tc_decode demo_codec payload = Some demo_claims
      \<and> cl_scope demo_claims = ''run'' \<and> 2000 div 1000 < cl_expiresAt demo_claims
      \<and> cl_organizationId demo_claims = ''o'' \<and> cl_workflowRunId demo_claims = ''r''"
proof (rule accepted_token_is_signed)
  have dec: "tc_decode demo_codec (tc_encode demo_codec c) = Some c"
    "tc_encode demo_codec c \<noteq> []" "tc_sign demo_codec k p \<noteq> []" for c k p
    using demo_codec_ok by (auto simp: codec_ok_def)
  show "verifyWorkerRunToken demo_codec ''k'' demo_token (Some ''o'') (Some ''r'') 2000 = Some demo_claims"
    unfolding demo_token_def verifyWorkerRunToken_def issueWorkerRunToken_def Let_def
      split_issued [OF demo_codec_ok]
    by (simp add: part_def truthy_def dec demo_claims_def)
qed simp_all

end
