(* ===== verification/World.thy ===== *)
theory World
  imports Json_Text Worker_Token
begin

section \<open>The database, the queues and the platform\<close>

text \<open>
  The rows of \<open>prisma/schema.prisma\<close> the services read and write, one record per model
  with the columns the code uses, and the world: the tables, the jobs of the queues and the
  platform. The platform (\<open>env\<close>) stands for what is not in the repository: the clock, the
  generator of row ids, SHA-256, the host's collation and number printing, date printing and
  parsing, the URL parser, the keyed hash and encoding of worker tokens with the configured
  secret, the mail transport and the configured addresses, the e-mail syntax check, the
  formatting of money, base64, UTF-8 and JSON decoding, the object store's bucket, its failures
  and signed addresses, the bodies of HTTP errors, the pages of the controlled browser with the
  popups they open, name resolution, the cipher, digest and random bytes of the vault, the syntax
  of row ids, failures of the network between the worker and the API, the resolution of relative
  addresses, one-time codes and their secrets, password hashing, keyed hashes and encodings of
  session tokens with their configured secrets, the reading of a text as a number. Each reading of the clock is a separate one (\<open>clock n\<close> is the
  time of the \<open>n\<close>-th reading) and each row id a fresh one (\<open>uuid n\<close>), so that properties that
  depend on their order state it.
\<close>

record email_message =
  em_from :: string
  em_to :: "(string option \<times> string) list"
  em_subject :: string
  em_text :: string
  em_html :: string

text \<open>What the controlled browser asks of its page.\<close>

datatype browser_request =
    Page_Launch
  | Page_Goto string
  | Page_Url
  | Page_Title
  | Page_Fill string string
  | Page_Click string
  | Page_Text string
  | Page_Count string
  | Page_MarkSecret string
  | Page_Mask
  | Page_WaitVisible string
  | Page_WaitLoaded
  | Page_Screenshot string
  | Page_Download string
  | Page_SaveDownload string

record env =
  clock :: "nat \<Rightarrow> nat"
  uuid :: "nat \<Rightarrow> string"
  sha256 :: "string \<Rightarrow> string"
  collate :: "string \<Rightarrow> string \<Rightarrow> bool"
  num_str :: "rat \<Rightarrow> string"
  iso :: "nat \<Rightarrow> string"
  parse_date :: "string \<Rightarrow> nat option"
  url_host :: "string \<Rightarrow> string option"
  codec :: token_codec
  worker_secret :: string
  mailFrom :: string
  dashboardBaseUrl :: string
  formatUsd :: "int \<Rightarrow> string"
  isEmail :: "string \<Rightarrow> bool"
  sendMail :: "email_message \<Rightarrow> err + string"
  base64_bytes :: "string \<Rightarrow> string"
  base64_text :: "string \<Rightarrow> string"
  utf8_text :: "string \<Rightarrow> string"
  parse_json :: "string \<Rightarrow> json option"
  s3_bucket :: string
  s3_fault :: "nat \<Rightarrow> err option"
  signedUrl :: "string \<Rightarrow> string \<Rightarrow> nat \<Rightarrow> string"
  production :: bool
  error_body :: "nat \<Rightarrow> err \<Rightarrow> string"
  page_answer :: "nat \<Rightarrow> browser_request \<Rightarrow> err + string"
  opened_popups :: "nat \<Rightarrow> string list"
  resolve_host :: "nat \<Rightarrow> string \<Rightarrow> err + string list"
  ip_version :: "string \<Rightarrow> nat"
  allowLocalProduction :: bool
  to_fixed :: "rat \<Rightarrow> string"
  vaultMasterKey :: string
  random_bytes :: "nat \<Rightarrow> string"
  digest :: "string \<Rightarrow> string"
  aes_seal :: "string \<Rightarrow> string \<Rightarrow> string option \<Rightarrow> string \<Rightarrow> string \<times> string"
  aes_open :: "string \<Rightarrow> string \<Rightarrow> string option \<Rightarrow> string \<Rightarrow> string \<Rightarrow> string option"
  isUuid :: "string \<Rightarrow> bool"
  api_fault :: "nat \<Rightarrow> err option"
  resolve_url :: "string \<Rightarrow> string \<Rightarrow> err + string"
  tmpdir :: string
  totp_code :: "nat \<Rightarrow> string \<Rightarrow> string"
  totp_valid :: "nat \<Rightarrow> string \<Rightarrow> string \<Rightarrow> bool"
  argon_hash :: "nat \<Rightarrow> string \<Rightarrow> string"
  argon_verify :: "string \<Rightarrow> string \<Rightarrow> bool"
  hmac_hex :: "string \<Rightarrow> string \<Rightarrow> string"
  hmac_url :: "string \<Rightarrow> string \<Rightarrow> string"
  base64url :: "string \<Rightarrow> string"
  base64url_text :: "string \<Rightarrow> string"
  hex_text :: "string \<Rightarrow> string"
  jwtAccessSecret :: string
  jwtRefreshSecret :: string
  mfaRequiredRoles :: "string list"
  encode_uri :: "string \<Rightarrow> string"
  number_of_text :: "string \<Rightarrow> rat option"
  otp_secret :: "nat \<Rightarrow> string"
  otpauth_uri :: "string \<Rightarrow> string \<Rightarrow> string"
  qr_code :: "string \<Rightarrow> string"
  url_parts :: "string \<Rightarrow> (string \<times> string) option"
  set_pathname :: "string \<Rightarrow> string \<Rightarrow> string"

subsection \<open>Rows\<close>

record organization_row =
  or_id :: string
  or_name :: string
  or_domain :: string
  or_plan :: string
  or_billingEmail :: "string option"
  or_stripeCustomer :: "string option"
  or_stripeSubscription :: "string option"
  or_stripeStatus :: "string option"
  or_stripePrice :: "string option"
  or_createdAt :: nat
  or_updatedAt :: nat

record user_row =
  us_id :: string
  us_org :: string
  us_email :: string
  us_name :: string
  us_role :: user_role
  us_passwordHash :: string
  us_status :: user_status
  us_createdAt :: nat
  us_updatedAt :: nat
  us_lastLoginAt :: "nat option"
  us_disabledAt :: "nat option"
  us_emailVerifiedAt :: "nat option"
  us_emailVerificationToken :: "string option"
  us_emailVerificationSentAt :: "nat option"
  us_passwordResetToken :: "string option"
  us_passwordResetExpiresAt :: "nat option"
  us_mfaSecret :: "string option"
  us_mfaEnabled :: bool
  us_mfaBackupCodes :: json

record preference_row =
  np_id :: string
  np_user :: string
  np_approvalRequests :: bool
  np_runCompletions :: bool
  np_failures :: bool
  np_slackWebhookUrl :: "string option"

record refresh_token_row =
  rt_id :: string
  rt_org :: string
  rt_user :: string
  rt_tokenHash :: string
  rt_expiresAt :: nat
  rt_revokedAt :: "nat option"
  rt_createdAt :: nat

record agent_row =
  ag_id :: string
  ag_org :: string
  ag_name :: string
  ag_identifier :: string
  ag_purpose :: string
  ag_status :: agent_status
  ag_createdBy :: string
  ag_createdAt :: nat
  ag_updatedAt :: nat
  ag_revokedAt :: "nat option"

record vendor_row =
  ve_id :: string
  ve_org :: string
  ve_name :: string
  ve_website :: string
  ve_category :: vendor_category
  ve_connectorType :: connector_type
  ve_metadata :: json
  ve_deletedAt :: "nat option"
  ve_renewalDate :: "nat option"
  ve_monthlyCostCents :: "int option"
  ve_owner :: "string option"
  ve_createdAt :: nat
  ve_updatedAt :: nat

record policy_row =
  po_id :: string
  po_org :: string
  po_agent :: "string option"
  po_name :: string
  po_type :: policy_type
  po_version :: nat
  po_status :: policy_status
  po_rules :: json
  po_createdBy :: string
  po_createdAt :: nat
  po_updatedAt :: nat

record credential_row =
  cr_id :: string
  cr_org :: string
  cr_vendor :: string
  cr_label :: string
  cr_type :: credential_type
  cr_payload :: json
  cr_encryptionVersion :: string
  cr_status :: credential_status
  cr_lastUsedAt :: "nat option"
  cr_createdBy :: string
  cr_createdAt :: nat
  cr_updatedAt :: nat
  cr_revokedAt :: "nat option"

record grant_row =
  gr_id :: string
  gr_credential :: string
  gr_agent :: string
  gr_scope :: string
  gr_createdBy :: string
  gr_createdAt :: nat
  gr_revokedAt :: "nat option"

record workflow_row =
  wf_id :: string
  wf_org :: string
  wf_agent :: string
  wf_vendor :: string
  wf_name :: string
  wf_template :: workflow_template
  wf_status :: workflow_status
  wf_config :: json
  wf_createdBy :: string
  wf_createdAt :: nat
  wf_updatedAt :: nat

record run_row =
  run_id :: string
  run_org :: string
  run_workflow :: string
  run_agent :: string
  run_vendor :: "string option"
  run_status :: workflow_run_status
  run_startedAt :: "nat option"
  run_completedAt :: "nat option"
  run_currentStep :: "string option"
  run_resultSummary :: "string option"
  run_errorMessage :: "string option"
  run_state :: json
  run_createdAt :: nat
  run_updatedAt :: nat

record attempt_row =
  at_id :: string
  at_org :: string
  at_run :: string
  at_agent :: string
  at_vendor :: "string option"
  at_website :: string
  at_actionType :: action_type
  at_riskLevel :: risk_level
  at_policyDecision :: policy_decision
  at_policyReason :: "string option"
  at_inputSummary :: "string option"
  at_outputSummary :: "string option"
  at_amountCents :: "int option"
  at_metadata :: json
  at_createdAt :: nat
  at_completedAt :: "nat option"

record approval_row =
  apr_id :: string
  apr_org :: string
  apr_run :: string
  apr_attempt :: string
  apr_status :: approval_status
  apr_requestedBy :: string
  apr_approver :: "string option"
  apr_summary :: string
  apr_riskLevel :: risk_level
  apr_amountCents :: "int option"
  apr_screenshot :: "string option"
  apr_policyTriggered :: json
  apr_expiresAt :: "nat option"
  apr_approvedAt :: "nat option"
  apr_rejectedAt :: "nat option"
  apr_comment :: "string option"
  apr_createdAt :: nat
  apr_updatedAt :: nat

record audit_row =
  au_id :: string
  au_org :: string
  au_run :: "string option"
  au_agent :: "string option"
  au_actorType :: audit_actor_type
  au_actorId :: "string option"
  au_eventType :: audit_event_type
  au_data :: json
  au_prevHash :: "string option"
  au_hash :: string
  au_createdAt :: nat

record file_row =
  fi_id :: string
  fi_org :: string
  fi_run :: "string option"
  fi_kind :: file_kind
  fi_bucket :: string
  fi_objectKey :: string
  fi_mimeType :: string
  fi_size :: nat
  fi_sha256 :: string
  fi_createdAt :: nat

record receipt_row =
  re_id :: string
  re_org :: string
  re_run :: string
  re_agent :: string
  re_finalStatus :: receipt_status
  re_summary :: string
  re_timeline :: json
  re_screenshots :: json
  re_files :: json
  re_policyDecisions :: json
  re_approvalDetails :: json
  re_createdAt :: nat

subsection \<open>Queue jobs\<close>

datatype queue_name = Queue_runs | Queue_resume | Queue_maintenance

primrec queue_name_value :: "queue_name \<Rightarrow> string" where
  "queue_name_value Queue_runs = ''workflow-runs''"
| "queue_name_value Queue_resume = ''workflow-resume''"
| "queue_name_value Queue_maintenance = ''workflow-maintenance''"

datatype job_mode = Mode_start | Mode_resume | Mode_cancel

primrec job_mode_value :: "job_mode \<Rightarrow> string" where
  "job_mode_value Mode_start = ''start''"
| "job_mode_value Mode_resume = ''resume''"
| "job_mode_value Mode_cancel = ''cancel''"

primrec WORKFLOW_QUEUE_JOB_NAMES :: "job_mode \<Rightarrow> string" where
  "WORKFLOW_QUEUE_JOB_NAMES Mode_start = ''workflow.run.start''"
| "WORKFLOW_QUEUE_JOB_NAMES Mode_resume = ''workflow.run.resume''"
| "WORKFLOW_QUEUE_JOB_NAMES Mode_cancel = ''workflow.run.cancel''"

record job_data =
  jd_run :: string
  jd_org :: string
  jd_mode :: job_mode
  jd_approval :: "string option"
  jd_attempt :: nat
  jd_requestedAt :: string
  jd_workflow :: "string option"
  jd_agent :: "string option"
  jd_vendor :: "string option"
  jd_template :: "string option"
  jd_reason :: "string option"
  jd_workerRunToken :: "string option"

text \<open>The options of a job: the attempts, the delay of the exponential back-off if any, and how
many finished jobs are kept.\<close>

record job_options =
  jo_attempts :: nat
  jo_backoff :: "nat option"
  jo_removeOnComplete :: nat
  jo_removeOnFail :: nat

text \<open>A job in a queue, with the state the queue reports and the options it was added with.\<close>

record job =
  jb_queue :: queue_name
  jb_name :: string
  jb_id :: string
  jb_data :: job_data
  jb_state :: string
  jb_options :: job_options
  jb_attemptsMade :: nat
  jb_failedReason :: "string option"
  jb_timestamp :: "nat option"
  jb_processedOn :: "nat option"
  jb_finishedOn :: "nat option"

subsection \<open>The world\<close>

text \<open>The controlled browser context of the execution under way.\<close>

record browser_context =
  bc_allowedDomains :: "string list"
  bc_artifactDir :: string
  bc_allowPrivateNetwork :: bool
  bc_blockedPopups :: "string list"
  bc_closed :: bool

text \<open>The settings \<open>ComplianceService\<close> keeps per organization.\<close>

record compliance_settings =
  cs_auditRetentionDays :: int
  cs_fileRetentionDays :: int
  cs_legalHoldEnabled :: bool

text \<open>The tables, the object store, the jobs of the queues, the e-mails sent and the metrics:
the labels the run counter was incremented with, the gauge of each queue's depth, whether
an expiry sweep is under way, the run token the worker's API client holds, the worker's browser
context, the files of its temporary directories, the metrics of the vault, the access tokens
revoked before their end, the counters of the rate limiter and the compliance settings, which live in
the memory of the process.\<close>

record world =
  w_env :: env
  reads :: nat
  ids :: nat
  organizations :: "organization_row list"
  users :: "user_row list"
  preferences :: "preference_row list"
  refresh_tokens :: "refresh_token_row list"
  agents :: "agent_row list"
  vendors :: "vendor_row list"
  policies :: "policy_row list"
  credentials :: "credential_row list"
  grants :: "grant_row list"
  workflows :: "workflow_row list"
  runs :: "run_row list"
  attempts :: "attempt_row list"
  approvals :: "approval_row list"
  audits :: "audit_row list"
  files :: "file_row list"
  receipts :: "receipt_row list"
  buckets :: "string list"
  bucket_ready :: bool
  objects :: "(string \<times> string) \<rightharpoonup> string"
  jobs :: "job list"
  notices :: "email_message list"
  run_counter :: "(string \<times> string) list"
  queue_depth :: "queue_name \<Rightarrow> nat option"
  sweeping :: bool
  run_token :: "string option"
  browser :: "browser_context option"
  disk :: "string \<rightharpoonup> string"
  decrypt_counter :: "string list"
  grant_counter :: "string list"
  revoked_jtis :: "(string \<times> nat) list"
  rate_buckets :: "(string \<times> nat \<times> nat) list"
  compliance :: "(string \<times> compliance_settings) list"

type_synonym 'a action = "(world, err, 'a) sem"

definition organization_t :: "(world, organization_row) table" where
  "organization_t = \<lparr>tget = organizations, tput = (\<lambda>rs w. w\<lparr>organizations := rs\<rparr>), tkey = or_id\<rparr>"
definition user_t :: "(world, user_row) table" where
  "user_t = \<lparr>tget = users, tput = (\<lambda>rs w. w\<lparr>users := rs\<rparr>), tkey = us_id\<rparr>"
definition preference_t :: "(world, preference_row) table" where
  "preference_t = \<lparr>tget = preferences, tput = (\<lambda>rs w. w\<lparr>preferences := rs\<rparr>), tkey = np_id\<rparr>"
definition refresh_token_t :: "(world, refresh_token_row) table" where
  "refresh_token_t = \<lparr>tget = refresh_tokens, tput = (\<lambda>rs w. w\<lparr>refresh_tokens := rs\<rparr>), tkey = rt_id\<rparr>"
definition agent_t :: "(world, agent_row) table" where
  "agent_t = \<lparr>tget = agents, tput = (\<lambda>rs w. w\<lparr>agents := rs\<rparr>), tkey = ag_id\<rparr>"
definition vendor_t :: "(world, vendor_row) table" where
  "vendor_t = \<lparr>tget = vendors, tput = (\<lambda>rs w. w\<lparr>vendors := rs\<rparr>), tkey = ve_id\<rparr>"
definition policy_t :: "(world, policy_row) table" where
  "policy_t = \<lparr>tget = policies, tput = (\<lambda>rs w. w\<lparr>policies := rs\<rparr>), tkey = po_id\<rparr>"
definition credential_t :: "(world, credential_row) table" where
  "credential_t = \<lparr>tget = credentials, tput = (\<lambda>rs w. w\<lparr>credentials := rs\<rparr>), tkey = cr_id\<rparr>"
definition grant_t :: "(world, grant_row) table" where
  "grant_t = \<lparr>tget = grants, tput = (\<lambda>rs w. w\<lparr>grants := rs\<rparr>), tkey = gr_id\<rparr>"
definition workflow_t :: "(world, workflow_row) table" where
  "workflow_t = \<lparr>tget = workflows, tput = (\<lambda>rs w. w\<lparr>workflows := rs\<rparr>), tkey = wf_id\<rparr>"
definition run_t :: "(world, run_row) table" where
  "run_t = \<lparr>tget = runs, tput = (\<lambda>rs w. w\<lparr>runs := rs\<rparr>), tkey = run_id\<rparr>"
definition attempt_t :: "(world, attempt_row) table" where
  "attempt_t = \<lparr>tget = attempts, tput = (\<lambda>rs w. w\<lparr>attempts := rs\<rparr>), tkey = at_id\<rparr>"
definition approval_t :: "(world, approval_row) table" where
  "approval_t = \<lparr>tget = approvals, tput = (\<lambda>rs w. w\<lparr>approvals := rs\<rparr>), tkey = apr_id\<rparr>"
definition audit_t :: "(world, audit_row) table" where
  "audit_t = \<lparr>tget = audits, tput = (\<lambda>rs w. w\<lparr>audits := rs\<rparr>), tkey = au_id\<rparr>"
definition file_t :: "(world, file_row) table" where
  "file_t = \<lparr>tget = files, tput = (\<lambda>rs w. w\<lparr>files := rs\<rparr>), tkey = fi_id\<rparr>"
definition receipt_t :: "(world, receipt_row) table" where
  "receipt_t = \<lparr>tget = receipts, tput = (\<lambda>rs w. w\<lparr>receipts := rs\<rparr>), tkey = re_id\<rparr>"

lemmas table_defs = organization_t_def user_t_def preference_t_def refresh_token_t_def agent_t_def vendor_t_def policy_t_def credential_t_def grant_t_def
  workflow_t_def run_t_def attempt_t_def approval_t_def audit_t_def file_t_def receipt_t_def

declare table_defs [run_simps]

interpretation organization_tbl: table_laws organization_t by unfold_locales (simp_all add: table_defs)
interpretation user_tbl: table_laws user_t by unfold_locales (simp_all add: table_defs)
interpretation preference_tbl: table_laws preference_t by unfold_locales (simp_all add: table_defs)
interpretation refresh_token_tbl: table_laws refresh_token_t by unfold_locales (simp_all add: table_defs)
interpretation agent_tbl: table_laws agent_t by unfold_locales (simp_all add: table_defs)
interpretation vendor_tbl: table_laws vendor_t by unfold_locales (simp_all add: table_defs)
interpretation policy_tbl: table_laws policy_t by unfold_locales (simp_all add: table_defs)
interpretation credential_tbl: table_laws credential_t by unfold_locales (simp_all add: table_defs)
interpretation grant_tbl: table_laws grant_t by unfold_locales (simp_all add: table_defs)
interpretation workflow_tbl: table_laws workflow_t by unfold_locales (simp_all add: table_defs)
interpretation run_tbl: table_laws run_t by unfold_locales (simp_all add: table_defs)
interpretation attempt_tbl: table_laws attempt_t by unfold_locales (simp_all add: table_defs)
interpretation approval_tbl: table_laws approval_t by unfold_locales (simp_all add: table_defs)
interpretation audit_tbl: table_laws audit_t by unfold_locales (simp_all add: table_defs)
interpretation file_tbl: table_laws file_t by unfold_locales (simp_all add: table_defs)
interpretation receipt_tbl: table_laws receipt_t by unfold_locales (simp_all add: table_defs)

subsection \<open>The clock and fresh ids\<close>

text \<open>\<open>new Date()\<close>, and the database's \<open>now()\<close> default.\<close>

definition new_date :: "nat action" where
  "new_date = (\<lambda>w. (Inr (clock (w_env w) (reads w)), w\<lparr>reads := Suc (reads w)\<rparr>))"

definition fresh_id :: "string action" where
  "fresh_id = (\<lambda>w. (Inr (uuid (w_env w) (ids w)), w\<lparr>ids := Suc (ids w)\<rparr>))"

definition iso_of :: "nat \<Rightarrow> string action" where
  "iso_of n = gets (\<lambda>w. iso (w_env w) n)"

definition iso_opt :: "env \<Rightarrow> nat option \<Rightarrow> json" where
  "iso_opt e v = (case v of None \<Rightarrow> JNull | Some n \<Rightarrow> JStr (iso e n))"

declare new_date_def [run_simps] fresh_id_def [run_simps] iso_of_def [run_simps]

lemma bnd_new_date [step_simps]:
  "bnd new_date f w = f (clock (w_env w) (reads w)) (w\<lparr>reads := Suc (reads w)\<rparr>)"
  by (simp add: bnd_def new_date_def)

lemma bnd_fresh_id [step_simps]:
  "bnd fresh_id f w = f (uuid (w_env w) (ids w)) (w\<lparr>ids := Suc (ids w)\<rparr>)"
  by (simp add: bnd_def fresh_id_def)

lemma bnd_iso_of [step_simps]: "bnd (iso_of n) f w = f (iso (w_env w) n) w"
  by (simp add: bnd_def iso_of_def gets_def)

lemma bnd_new_dateE:
  "bnd new_date f w = (Inr y, w') \<Longrightarrow>
   (f (clock (w_env w) (reads w)) (w\<lparr>reads := Suc (reads w)\<rparr>) = (Inr y, w') \<Longrightarrow> thesis) \<Longrightarrow> thesis"
  by (unfold bnd_new_date, blast)

lemma bnd_fresh_idE:
  "bnd fresh_id f w = (Inr y, w') \<Longrightarrow>
   (f (uuid (w_env w) (ids w)) (w\<lparr>ids := Suc (ids w)\<rparr>) = (Inr y, w') \<Longrightarrow> thesis) \<Longrightarrow> thesis"
  by (unfold bnd_fresh_id, blast)

lemma bnd_iso_ofE:
  "bnd (iso_of n) f w = (Inr y, w') \<Longrightarrow> (f (iso (w_env w) n) w = (Inr y, w') \<Longrightarrow> thesis) \<Longrightarrow> thesis"
  by (unfold bnd_iso_of, blast)

text \<open>The same with the operations on tables, the clock and fresh ids run on the way.\<close>

lemmas world_elims = bnd_new_dateE bnd_fresh_idE bnd_iso_ofE bnd_find_firstE bnd_find_manyE bnd_create_rowE step_elims

text \<open>The error of the database client when the row of an update does not exist.\<close>

definition record_not_found :: err where
  "record_not_found = PrismaError ''An operation failed because it depends on one or more records that were required but not found.''"

text \<open>Updates of a row stamp its \<open>updated_at\<close> column.\<close>

definition update_run :: "string \<Rightarrow> (run_row \<Rightarrow> run_row) \<Rightarrow> run_row action" where
  "update_run k f = bnd new_date (\<lambda>now.
     update_row run_t record_not_found k (\<lambda>r. (f r)\<lparr>run_updatedAt := now\<rparr>))"

definition update_approval :: "string \<Rightarrow> (approval_row \<Rightarrow> approval_row) \<Rightarrow> approval_row action" where
  "update_approval k f = bnd new_date (\<lambda>now.
     update_row approval_t record_not_found k (\<lambda>r. (f r)\<lparr>apr_updatedAt := now\<rparr>))"

definition find_run :: "string \<Rightarrow> string \<Rightarrow> run_row option action" where
  "find_run k org = find_first run_t (\<lambda>r. run_id r = k \<and> run_org r = org)"

declare update_run_def [run_simps] update_approval_def [run_simps] find_run_def [run_simps]

text \<open>\<open>orderBy: [{ createdAt }, { id }]\<close>, ascending and descending.\<close>

definition order_asc :: "('r \<Rightarrow> nat) \<Rightarrow> ('r \<Rightarrow> string) \<Rightarrow> 'r list \<Rightarrow> 'r list" where
  "order_asc created k rs = sort_key (\<lambda>r. (created r, k r)) rs"

definition order_desc :: "('r \<Rightarrow> nat) \<Rightarrow> ('r \<Rightarrow> string) \<Rightarrow> 'r list \<Rightarrow> 'r list" where
  "order_desc created k rs = rev (order_asc created k rs)"

lemma set_order_asc [simp]: "set (order_asc created k rs) = set rs"
  by (simp add: order_asc_def)

lemma set_order_desc [simp]: "set (order_desc created k rs) = set rs"
  by (simp add: order_desc_def)

subsection \<open>The signed-in user\<close>

record context_user =
  cu_id :: string
  cu_org :: string
  cu_role :: user_role
  cu_email :: string

definition organization_required :: err where
  "organization_required = DomainError PermissionDenied ''Organization context is required.''"

definition authentication_required :: err where
  "authentication_required = DomainError PermissionDenied ''Authentication required.''"

text \<open>\<open>if (!organizationId) throw\<close>.\<close>

definition require_org :: "string option \<Rightarrow> string action" where
  "require_org v = (if truthy v then ret (the v) else throw organization_required)"

definition require_user :: "context_user option \<Rightarrow> context_user action" where
  "require_user v = require_some v authentication_required"

declare require_org_def [run_simps] require_user_def [run_simps]

text \<open>Merges of a transition entry into the \<open>state_json\<close> column: the shared part.\<close>

definition append_to :: "string \<Rightarrow> json \<Rightarrow> json \<Rightarrow> (string \<times> json) list" where
  "append_to field existing entry =
     spread (as_object existing)
       [(field, JArr (as_array (map_of (as_object existing) field) @ [entry]))]"

lemma map_of_append_to:
  "map_of (append_to f ex en) =
   (map_of (as_object ex))(f \<mapsto> JArr (as_array (map_of (as_object ex) f) @ [en]))"
  by (simp add: append_to_def map_of_spread)

subsection \<open>Values as text and as numbers\<close>

text \<open>A value inside a template literal.\<close>

fun js_text :: "env \<Rightarrow> json \<Rightarrow> string" where
  "js_text e JNull = ''null''"
| "js_text e (JBool b) = (if b then ''true'' else ''false'')"
| "js_text e (JNum q) = num_str e q"
| "js_text e (JStr s) = s"
| "js_text e (JArr vs) = join_with '','' (map (\<lambda>v. if v = JNull then [] else js_text e v) vs)"
| "js_text e (JObj fs) = ''[object Object]''"

text \<open>\<open>Number(value)\<close>, with \<open>None\<close> for \<open>NaN\<close>.\<close>

definition js_number :: "env \<Rightarrow> json \<Rightarrow> rat option" where
  "js_number e v = (case v of
     JNull \<Rightarrow> Some 0
   | JBool b \<Rightarrow> Some (if b then 1 else 0)
   | JNum q \<Rightarrow> Some q
   | _ \<Rightarrow> number_of_text e (js_text e v))"

end
