(* ===== verification/Audit_Log.thy ===== *)
theory Audit_Log
  imports World
begin

section \<open>The audit log\<close>

text \<open>
  \<open>apps/api/src/audit\<close>: hashing and recording of events, the verification of an
  organization's hash chain, and the queries. Recording is serialised per organization by an
  in-process lock, so one call of \<open>record\<close> is one step of the model.
\<close>

definition prisma_enum :: "string \<Rightarrow> string" where
  "prisma_enum v = to_upper v"

subsection \<open>Hashing\<close>

record audit_input =
  ai_org :: string
  ai_run :: "string option"
  ai_agent :: "string option"
  ai_actorType :: audit_actor_type
  ai_actorId :: "string option"
  ai_eventType :: audit_event_type
  ai_data :: json

definition hash_preimage :: "env \<Rightarrow> audit_input \<Rightarrow> string option \<Rightarrow> string" where
  "hash_preimage e i prevHash = stableStringify (collate e) (num_str e) (JObj
     [(''organizationId'', JStr (ai_org i)),
      (''workflowRunId'', jopt (ai_run i)),
      (''agentId'', jopt (ai_agent i)),
      (''actorType'', JStr (prisma_enum (audit_actor_type_value (ai_actorType i)))),
      (''actorId'', jopt (ai_actorId i)),
      (''eventType'', JStr (prisma_enum (audit_event_type_value (ai_eventType i)))),
      (''eventDataJson'', ai_data i),
      (''prevHash'', jopt prevHash)])"

definition audit_hash :: "env \<Rightarrow> audit_input \<Rightarrow> string option \<Rightarrow> string" where
  "audit_hash e i prevHash = sha256 e (hash_preimage e i prevHash)"

text \<open>The hash input of a stored row.\<close>

definition input_of_row :: "audit_row \<Rightarrow> audit_input" where
  "input_of_row a = \<lparr>ai_org = au_org a, ai_run = au_run a, ai_agent = au_agent a,
     ai_actorType = au_actorType a, ai_actorId = au_actorId a,
     ai_eventType = au_eventType a, ai_data = au_data a\<rparr>"

definition toAuditEventDto :: "env \<Rightarrow> audit_row \<Rightarrow> json" where
  "toAuditEventDto e a = JObj
     [(''id'', JStr (au_id a)),
      (''organizationId'', JStr (au_org a)),
      (''workflowRunId'', jopt (au_run a)),
      (''agentId'', jopt (au_agent a)),
      (''actorType'', JStr (prisma_enum (audit_actor_type_value (au_actorType a)))),
      (''actorId'', jopt (au_actorId a)),
      (''eventType'', JStr (prisma_enum (audit_event_type_value (au_eventType a)))),
      (''eventDataJson'', au_data a),
      (''prevHash'', jopt (au_prevHash a)),
      (''eventHash'', JStr (au_hash a)),
      (''createdAt'', JStr (iso e (au_createdAt a)))]"

subsection \<open>Recording\<close>

definition org_events :: "string \<Rightarrow> audit_row list \<Rightarrow> audit_row list" where
  "org_events org rs = filter (\<lambda>a. au_org a = org) rs"

text \<open>\<open>findFirst\<close> with the newest first.\<close>

definition newest_event :: "string \<Rightarrow> audit_row list \<Rightarrow> audit_row option" where
  "newest_event org rs = (case order_desc au_createdAt au_id (org_events org rs) of
     [] \<Rightarrow> None | a # _ \<Rightarrow> Some a)"

definition record_audit :: "audit_input \<Rightarrow> json action" where
  "record_audit i =
    (let redacted = redact (ai_data i); i' = i\<lparr>ai_data := redacted\<rparr> in
     bnd (gets (\<lambda>w. newest_event (ai_org i) (audits w))) (\<lambda>previous.
     let prevHash = map_option au_hash previous in
     bnd (gets (\<lambda>w. audit_hash (w_env w) i' prevHash)) (\<lambda>eventHash.
     bnd fresh_id (\<lambda>new_id.
     bnd new_date (\<lambda>now.
     bnd (create_row audit_t \<lparr>au_id = new_id, au_org = ai_org i, au_run = ai_run i,
            au_agent = ai_agent i, au_actorType = ai_actorType i, au_actorId = ai_actorId i,
            au_eventType = ai_eventType i, au_data = redacted, au_prevHash = prevHash,
            au_hash = eventHash, au_createdAt = now\<rparr>) (\<lambda>event.
     gets (\<lambda>w. toAuditEventDto (w_env w) event)))))))"

subsection \<open>Verification of a chain\<close>

record chain_report =
  valid :: bool
  checked :: nat
  firstBrokenEventId :: "string option"
  expectedPrevHash :: "string option"
  actualPrevHash :: "string option"
  expectedEventHash :: "string option"
  actualEventHash :: "string option"

fun verify_events :: "env \<Rightarrow> nat \<Rightarrow> string option \<Rightarrow> audit_row list \<Rightarrow> chain_report" where
  "verify_events e n previousHash [] =
     \<lparr>valid = True, checked = n, firstBrokenEventId = None, expectedPrevHash = None,
      actualPrevHash = None, expectedEventHash = None, actualEventHash = None\<rparr>"
| "verify_events e n previousHash (event # events) =
     (let expected = audit_hash e (input_of_row event) (au_prevHash event) in
      if au_prevHash event \<noteq> previousHash \<or> au_hash event \<noteq> expected
      then \<lparr>valid = False, checked = n + 1, firstBrokenEventId = Some (au_id event),
            expectedPrevHash = previousHash, actualPrevHash = au_prevHash event,
            expectedEventHash = Some expected, actualEventHash = Some (au_hash event)\<rparr>
      else verify_events e (n + 1) (Some (au_hash event)) events)"

definition verifyOrganizationChain :: "string option \<Rightarrow> chain_report action" where
  "verifyOrganizationChain organizationId =
    bnd (require_org organizationId) (\<lambda>org.
    bnd (find_many audit_t (\<lambda>a. au_org a = org)) (\<lambda>found.
    gets (\<lambda>w. verify_events (w_env w) 0 None (order_asc au_createdAt au_id found))))"

subsection \<open>Queries\<close>

record audit_query =
  aq_run :: "string option"
  aq_actorType :: "audit_actor_type option"
  aq_actorId :: "string option"
  aq_eventType :: "audit_event_type option"
  aq_from :: "nat option"
  aq_to :: "nat option"
  aq_limit :: nat
  aq_offset :: nat

text \<open>A filter that is \<open>undefined\<close> does not restrict.\<close>

definition matches :: "'a option \<Rightarrow> 'a \<Rightarrow> bool" where
  "matches q v \<longleftrightarrow> (case q of None \<Rightarrow> True | Some x \<Rightarrow> v = x)"

definition audit_where :: "string \<Rightarrow> audit_query \<Rightarrow> audit_row \<Rightarrow> bool" where
  "audit_where org q a \<longleftrightarrow>
     au_org a = org
     \<and> (case aq_run q of None \<Rightarrow> True | Some r \<Rightarrow> au_run a = Some r)
     \<and> matches (aq_actorType q) (au_actorType a)
     \<and> (case aq_actorId q of None \<Rightarrow> True | Some r \<Rightarrow> au_actorId a = Some r)
     \<and> matches (aq_eventType q) (au_eventType a)
     \<and> (case aq_from q of None \<Rightarrow> True | Some t \<Rightarrow> t \<le> au_createdAt a)
     \<and> (case aq_to q of None \<Rightarrow> True | Some t \<Rightarrow> au_createdAt a \<le> t)"

text \<open>A page of results with its \<open>meta\<close>.\<close>

record page_result =
  pg_data :: "json list"
  pg_total :: nat
  pg_limit :: nat
  pg_offset :: nat

definition audit_list :: "string option \<Rightarrow> audit_query \<Rightarrow> page_result action" where
  "audit_list organizationId query =
    bnd (require_org organizationId) (\<lambda>org.
    bnd (find_many audit_t (audit_where org query)) (\<lambda>found.
    gets (\<lambda>w. \<lparr>
      pg_data = map (toAuditEventDto (w_env w))
        (page_of (aq_offset query) (aq_limit query) (order_desc au_createdAt au_id found)),
      pg_total = length found, pg_limit = aq_limit query, pg_offset = aq_offset query\<rparr>)))"

definition audit_getById :: "string option \<Rightarrow> string \<Rightarrow> json action" where
  "audit_getById organizationId k =
    bnd (require_org organizationId) (\<lambda>org.
    bnd (find_first audit_t (\<lambda>a. au_id a = k \<and> au_org a = org)) (\<lambda>found.
    bnd (require_some found (DomainError NotFound ''Audit event was not found.'')) (\<lambda>event.
    gets (\<lambda>w. toAuditEventDto (w_env w) event))))"

subsection \<open>The chain invariant\<close>

fun linked :: "env \<Rightarrow> string option \<Rightarrow> audit_row list \<Rightarrow> bool" where
  "linked e prev [] = True"
| "linked e prev (a # as) =
     (au_prevHash a = prev \<and> au_hash a = audit_hash e (input_of_row a) (au_prevHash a)
      \<and> linked e (Some (au_hash a)) as)"

lemma verify_events_valid_iff: "valid (verify_events e n prev as) \<longleftrightarrow> linked e prev as"
  by (induction e n prev as rule: verify_events.induct) (auto simp: Let_def)

lemma verify_events_checked: "valid (verify_events e n prev as) \<Longrightarrow> checked (verify_events e n prev as) = n + length as"
  by (induction e n prev as rule: verify_events.induct) (auto simp: Let_def split: if_splits)

definition last_hash :: "string option \<Rightarrow> audit_row list \<Rightarrow> string option" where
  "last_hash prev as = (if as = [] then prev else Some (au_hash (last as)))"

lemma linked_snoc:
  "linked e prev (as @ [a]) \<longleftrightarrow>
   linked e prev as \<and> au_prevHash a = last_hash prev as
   \<and> au_hash a = audit_hash e (input_of_row a) (au_prevHash a)"
  by (induction as arbitrary: prev) (auto simp: last_hash_def)

definition audit_inv :: "world \<Rightarrow> bool" where
  "audit_inv w \<longleftrightarrow>
     strict_mono (clock (w_env w))
     \<and> sorted_wrt (<) (map au_createdAt (audits w))
     \<and> (\<forall>a\<in>set (audits w). au_createdAt a < clock (w_env w) (reads w))
     \<and> (\<forall>org. linked (w_env w) None (org_events org (audits w)))"

lemma sorted_org_events:
  "sorted_wrt (<) (map au_createdAt as) \<Longrightarrow> sorted (map (\<lambda>a. (au_createdAt a, au_id a)) (org_events org as))"
  by (induction as) (auto simp: org_events_def less_eq_prod_def order.strict_implies_order)

lemma order_asc_org_events:
  assumes "sorted_wrt (<) (map au_createdAt as)"
  shows "order_asc au_createdAt au_id (org_events org as) = org_events org as"
  using sorted_org_events [OF assms] unfolding order_asc_def by (rule sort_key_id_if_sorted)

lemma newest_event_eq:
  assumes "sorted_wrt (<) (map au_createdAt as)"
  shows "map_option au_hash (newest_event org as) = last_hash None (org_events org as)"
proof (cases "org_events org as" rule: rev_cases)
  case Nil
  then show ?thesis
    by (simp add: newest_event_def last_hash_def order_desc_def order_asc_def)
next
  case (snoc ys y)
  then show ?thesis
    unfolding newest_event_def order_desc_def order_asc_org_events [OF assms]
    by (simp add: last_hash_def)
qed

text \<open>What a method may do to the log: append, and keep the chain invariant.\<close>

definition audit_ok :: "world \<Rightarrow> world \<Rightarrow> bool" where
  "audit_ok w w' \<longleftrightarrow> w_env w' = w_env w \<and> prefix (audits w) (audits w')
     \<and> (audit_inv w \<longrightarrow> audit_inv w')"

interpretation audit_log: effect_order audit_ok
  by unfold_locales (auto simp: audit_ok_def intro: prefix_order.trans)

text \<open>Steps that leave the log alone.\<close>

lemma audit_ok_frame:
  assumes "w_env w' = w_env w" and "audits w' = audits w" and "reads w \<le> reads w'"
  shows "audit_ok w w'"
  unfolding audit_ok_def
proof (intro conjI impI)
  assume inv: "audit_inv w"
  then have "clock (w_env w) (reads w) \<le> clock (w_env w) (reads w')"
    using assms(3) by (simp add: audit_inv_def strict_mono_less_eq)
  with inv show "audit_inv w'"
    unfolding audit_inv_def assms(1,2) by (auto intro: order.strict_trans2)
qed (simp_all add: assms)

lemma record_audit_run:
  "record_audit i w =
    (let prevHash = map_option au_hash (newest_event (ai_org i) (audits w));
         event = \<lparr>au_id = uuid (w_env w) (ids w), au_org = ai_org i, au_run = ai_run i,
            au_agent = ai_agent i, au_actorType = ai_actorType i, au_actorId = ai_actorId i,
            au_eventType = ai_eventType i, au_data = redact (ai_data i), au_prevHash = prevHash,
            au_hash = audit_hash (w_env w) (i\<lparr>ai_data := redact (ai_data i)\<rparr>) prevHash,
            au_createdAt = clock (w_env w) (reads w)\<rparr>
     in (Inr (toAuditEventDto (w_env w) event),
         w\<lparr>ids := Suc (ids w), reads := Suc (reads w), audits := audits w @ [event]\<rparr>))"
  by (simp add: record_audit_def run_simps Let_def)

lemma bnd_record_audit [step_simps]:
  "bnd (record_audit i) f w = f (projr (fst (record_audit i w))) (snd (record_audit i w))"
  by (simp add: bnd_def record_audit_run Let_def)

lemma record_audit_snd:
  "snd (record_audit i w) = w\<lparr>ids := Suc (ids w), reads := Suc (reads w),
     audits := audits (snd (record_audit i w))\<rparr>"
  by (simp add: record_audit_run Let_def)

lemma record_audit_last:
  "audits (snd (record_audit i w)) \<noteq> []"
  "length (audits (snd (record_audit i w))) = Suc (length (audits w))"
  "au_eventType (last (audits (snd (record_audit i w)))) = ai_eventType i"
  "au_run (last (audits (snd (record_audit i w)))) = ai_run i"
  "au_org (last (audits (snd (record_audit i w)))) = ai_org i"
  "au_actorId (last (audits (snd (record_audit i w)))) = ai_actorId i"
  by (simp_all add: record_audit_run Let_def)

lemma record_audit_effect [effect_intros]: "effect audit_ok (record_audit i) w"
proof -
  let ?e = "w_env w"
  let ?prev = "map_option au_hash (newest_event (ai_org i) (audits w))"
  let ?event = "\<lparr>au_id = uuid ?e (ids w), au_org = ai_org i, au_run = ai_run i,
      au_agent = ai_agent i, au_actorType = ai_actorType i, au_actorId = ai_actorId i,
      au_eventType = ai_eventType i, au_data = redact (ai_data i), au_prevHash = ?prev,
      au_hash = audit_hash ?e (i\<lparr>ai_data := redact (ai_data i)\<rparr>) ?prev,
      au_createdAt = clock ?e (reads w)\<rparr>"
  let ?w' = "w\<lparr>ids := Suc (ids w), reads := Suc (reads w), audits := audits w @ [?event]\<rparr>"
  have run: "snd (record_audit i w) = ?w'"
    by (simp add: record_audit_run Let_def)
  have "audit_inv ?w'" if inv: "audit_inv w"
  proof -
    have mono: "strict_mono (clock ?e)" and srt: "sorted_wrt (<) (map au_createdAt (audits w))"
      and below: "\<forall>a\<in>set (audits w). au_createdAt a < clock ?e (reads w)"
      and links: "linked ?e None (org_events org (audits w))" for org
      using inv by (auto simp: audit_inv_def)
    have next_tick: "clock ?e (reads w) < clock ?e (Suc (reads w))"
      using mono by (simp add: strict_mono_less)
    have input: "input_of_row ?event = i\<lparr>ai_data := redact (ai_data i)\<rparr>"
      by (simp add: input_of_row_def)
    have "linked ?e None (org_events org (audits w @ [?event]))" for org
    proof (cases "ai_org i = org")
      case True
      have "org_events org (audits w @ [?event]) = org_events org (audits w) @ [?event]"
        by (simp add: org_events_def True)
      moreover have "?prev = last_hash None (org_events org (audits w))"
        using newest_event_eq [OF srt] True by simp
      ultimately show ?thesis
        using links [of org] input by (simp add: linked_snoc)
    next
      case False
      then show ?thesis using links [of org] by (simp add: org_events_def)
    qed
    then show ?thesis
      unfolding audit_inv_def
      using mono srt below next_tick by (auto simp: sorted_wrt_append)
  qed
  then show ?thesis
    by (simp add: effect_def run audit_ok_def)
qed

subsection \<open>Properties\<close>

text \<open>Recording a list of events.\<close>

definition record_all :: "audit_input list \<Rightarrow> unit action" where
  "record_all inputs = for_each (\<lambda>i. bnd (record_audit i) (\<lambda>_. ret ())) inputs"

lemma record_all_effect: "effect audit_ok (record_all inputs) w"
  unfolding record_all_def
  by (intro audit_log.effect_for_each audit_log.effect_bnd record_audit_effect audit_log.effect_ret)

lemma record_all_orgs:
  "map au_org (audits (snd (record_all inputs w))) = map au_org (audits w) @ map ai_org inputs"
  unfolding record_all_def
  by (induction inputs arbitrary: w) (simp_all add: run_simps record_audit_run Let_def)

lemma length_filter_map: "length (filter (\<lambda>x. P (f x)) xs) = length (filter P (map f xs))"
  by (induction xs) auto

lemma verify_chain_run:
  assumes "org \<noteq> []"
  shows "verifyOrganizationChain (Some org) w =
    (Inr (verify_events (w_env w) 0 None (order_asc au_createdAt au_id (org_events org (audits w)))), w)"
  using assms by (simp add: verifyOrganizationChain_def run_simps truthy_def org_events_def)

lemma verify_chain_inv:
  assumes "audit_inv w"
  shows "valid (verify_events (w_env w) 0 None (order_asc au_createdAt au_id (org_events org (audits w))))"
    and "checked (verify_events (w_env w) 0 None (order_asc au_createdAt au_id (org_events org (audits w))))
       = length (org_events org (audits w))"
proof -
  have srt: "sorted_wrt (<) (map au_createdAt (audits w))"
    and links: "linked (w_env w) None (org_events org (audits w))"
    using assms by (auto simp: audit_inv_def)
  show v: "valid (verify_events (w_env w) 0 None (order_asc au_createdAt au_id (org_events org (audits w))))"
    by (simp add: verify_events_valid_iff order_asc_org_events [OF srt] links)
  show "checked (verify_events (w_env w) 0 None (order_asc au_createdAt au_id (org_events org (audits w))))
       = length (org_events org (audits w))"
    using verify_events_checked [OF v] by (simp add: order_asc_org_events [OF srt])
qed

text \<open>When every reading of the clock is later than the one before, the chain of every
organization verifies after any sequence of recorded events, interleaved over organizations
in any way, and the verification checks each of the organization's events.\<close>

theorem recorded_chain_verifies:
  assumes "audits w = []" and "strict_mono (clock (w_env w))" and "org \<noteq> []"
  shows "case verifyOrganizationChain (Some org) (snd (record_all inputs w)) of
      (Inr rep, _) \<Rightarrow> valid rep \<and> checked rep = length (filter (\<lambda>i. ai_org i = org) inputs)
    | (Inl _, _) \<Rightarrow> False"
proof -
  let ?w' = "snd (record_all inputs w)"
  have "audit_inv w"
    using assms by (simp add: audit_inv_def org_events_def)
  then have inv: "audit_inv ?w'"
    using record_all_effect [of inputs w] by (simp add: effect_def audit_ok_def)
  have "length (org_events org (audits ?w')) = length (filter (\<lambda>i. ai_org i = org) inputs)"
    using arg_cong [OF record_all_orgs [of inputs w], of "\<lambda>os. length (filter (\<lambda>x. x = org) os)"] assms(1)
    by (simp add: org_events_def length_filter_map [symmetric] comp_def)
  then show ?thesis
    using verify_chain_inv [OF inv, of org] by (simp add: verify_chain_run [OF assms(3)])
qed

definition demo_env :: env where
  "demo_env = \<lparr>clock = (\<lambda>n. n), uuid = (\<lambda>n. if n = 0 then ''b'' else ''a''), sha256 = (\<lambda>s. s),
     collate = (\<le>), num_str = (\<lambda>_. ''0''), iso = (\<lambda>_. ''''), parse_date = (\<lambda>_. None),
     url_host = (\<lambda>_. None), codec = demo_codec, worker_secret = ''k'',
     mailFrom = ''m'', dashboardBaseUrl = ''d'', formatUsd = (\<lambda>_. ''0''), isEmail = (\<lambda>_. True),
     sendMail = (\<lambda>_. Inr ''i''), base64_bytes = (\<lambda>s. s), base64_text = (\<lambda>s. s),
     utf8_text = (\<lambda>s. s), parse_json = (\<lambda>_. None), s3_bucket = ''b'', s3_fault = (\<lambda>_. None),
     signedUrl = (\<lambda>_ _ _. ''''), production = True, error_body = (\<lambda>_ _. ''''),
     page_answer = (\<lambda>_ _. Inr ''''), opened_popups = (\<lambda>_. []), resolve_host = (\<lambda>_ _. Inr []),
     ip_version = (\<lambda>_. 0), allowLocalProduction = False, to_fixed = (\<lambda>_. ''0''), vaultMasterKey = ''m'', random_bytes = (\<lambda>_. ''''),
     digest = (\<lambda>s. s), aes_seal = (\<lambda>k iv aad p. (p, '''')), aes_open = (\<lambda>k iv aad c t. Some c),
     isUuid = (\<lambda>_. True), api_fault = (\<lambda>_. None), resolve_url = (\<lambda>path base. Inr (base @ path)), tmpdir = ''/tmp'',
     totp_code = (\<lambda>_ s. s), totp_valid = (\<lambda>_ s c. c = s), argon_hash = (\<lambda>_ p. p), argon_verify = (=),
     hmac_hex = (\<lambda>k m. k @ m), hmac_url = (\<lambda>k m. k @ m), base64url = (\<lambda>s. s), base64url_text = (\<lambda>s. s), hex_text = (\<lambda>s. s),
     jwtAccessSecret = ''s'', jwtRefreshSecret = ''t'', mfaRequiredRoles = [], encode_uri = (\<lambda>s. s),
     number_of_text = (\<lambda>_. None), otp_secret = (\<lambda>_. ''''), otpauth_uri = (\<lambda>_ _. ''''), qr_code = (\<lambda>s. s), url_parts = (\<lambda>s. Some (s, [])), set_pathname = (\<lambda>_ p. p)\<rparr>"

definition empty_world :: "env \<Rightarrow> world" where
  "empty_world e = \<lparr>w_env = e, reads = 0, ids = 0, organizations = [], users = [], preferences = [],
     refresh_tokens = [], agents = [], vendors = [], policies = [],
     credentials = [], grants = [], workflows = [], runs = [], attempts = [], approvals = [],
     audits = [], files = [], receipts = [], buckets = [], bucket_ready = False,
     objects = (\<lambda>_. None), jobs = [], notices = [],
     run_counter = [], queue_depth = (\<lambda>_. None), sweeping = False,
     run_token = None, browser = None, disk = (\<lambda>_. None), decrypt_counter = [], grant_counter = [], revoked_jtis = [], rate_buckets = [], compliance = []\<rparr>"

definition demo_event :: "string \<Rightarrow> audit_input" where
  "demo_event org = \<lparr>ai_org = org, ai_run = None, ai_agent = None, ai_actorType = Actor_System,
     ai_actorId = None, ai_eventType = Ev_AgentCreated, ai_data = JNull\<rparr>"

theorem recorded_chain_verifies_witness:
  "case verifyOrganizationChain (Some ''o1'')
      (snd (record_all [demo_event ''o1'', demo_event ''o2'', demo_event ''o1''] (empty_world demo_env))) of
      (Inr rep, _) \<Rightarrow> valid rep \<and> checked rep = length (filter (\<lambda>i. ai_org i = ''o1'')
         [demo_event ''o1'', demo_event ''o2'', demo_event ''o1''])
    | (Inl _, _) \<Rightarrow> False"
  by (rule recorded_chain_verifies) (simp_all add: empty_world_def demo_env_def strict_mono_def)

text \<open>Two events of one organization recorded within the same clock reading, where the
second happens to get the smaller row id, break the chain: verification orders by time and
then by id, and reports the untouched log as broken.\<close>

theorem same_tick_breaks_chain:
  "case verifyOrganizationChain (Some ''o1'')
      (snd (record_all [demo_event ''o1'', demo_event ''o1'']
         (empty_world (demo_env\<lparr>clock := \<lambda>_. 5\<rparr>)))) of
      (Inr rep, _) \<Rightarrow> \<not> valid rep \<and> checked rep = 1
    | (Inl _, _) \<Rightarrow> False"
  by (simp add: verify_chain_run record_all_def run_simps record_audit_run Let_def empty_world_def
      demo_env_def demo_event_def org_events_def newest_event_def order_desc_def order_asc_def
      less_eq_prod_def input_of_row_def)


subsection \<open>Tampering\<close>

text \<open>Two rows with the same content: every hashed column, the data up to property order.\<close>

definition same_content :: "env \<Rightarrow> audit_row \<Rightarrow> audit_row \<Rightarrow> bool" where
  "same_content e a b \<longleftrightarrow>
     au_org a = au_org b \<and> au_run a = au_run b \<and> au_agent a = au_agent b
     \<and> au_actorType a = au_actorType b \<and> au_actorId a = au_actorId b
     \<and> au_eventType a = au_eventType b
     \<and> normalise (collate e) (au_data a) = normalise (collate e) (au_data b)
     \<and> au_prevHash a = au_prevHash b"

definition hash_collision :: "env \<Rightarrow> bool" where
  "hash_collision e \<longleftrightarrow> (\<exists>x y. x \<noteq> y \<and> sha256 e x = sha256 e y)"

lemma normalise_field:
  assumes "normalise le (JObj fs) = normalise le (JObj gs)" and "(k, v) \<in> set fs"
  shows "\<exists>v'. (k, v') \<in> set gs \<and> normalise le v = normalise le v'"
proof -
  have "(k, normalise le v) \<in> set (map (\<lambda>kv. (fst kv, normalise le (snd kv))) (sort_by (\<lambda>l r. le (fst l) (fst r)) fs))"
    using assms(2) by force
  also have "\<dots> = set (map (\<lambda>kv. (fst kv, normalise le (snd kv))) (sort_by (\<lambda>l r. le (fst l) (fst r)) gs))"
    using assms(1) by (simp only: normalise.simps json.inject)
  finally show ?thesis by auto
qed

lemma prisma_actor_inject:
  "prisma_enum (audit_actor_type_value x) = prisma_enum (audit_actor_type_value y) \<Longrightarrow> x = y"
  by (cases x; cases y) (simp_all add: prisma_enum_def to_upper_def upper_char_def Let_def)

lemma distinct_event_values: "distinct (map audit_event_type_value AUDIT_EVENT_TYPES)"
  by (simp add: AUDIT_EVENT_TYPES_def)

lemma lower_upper_char: "lower_char c = c \<Longrightarrow> lower_char (upper_char c) = c"
proof -
  assume "lower_char c = c"
  then have "\<not> (65 \<le> (of_char c :: nat) \<and> (of_char c :: nat) \<le> 90)"
    by (auto simp: lower_char_def Let_def dest: arg_cong [where f = "of_char :: char \<Rightarrow> nat"])
  then show ?thesis by (auto simp: lower_char_def upper_char_def Let_def)
qed

lemma lower_upper: "to_lower s = s \<Longrightarrow> to_lower (to_upper s) = s"
  by (induction s) (simp_all add: to_lower_def to_upper_def lower_upper_char)

lemma lower_event_value: "to_lower (audit_event_type_value x) = audit_event_type_value x"
  by (cases x) (simp_all add: to_lower_def lower_char_def Let_def)

lemma prisma_event_inject:
  assumes "prisma_enum (audit_event_type_value x) = prisma_enum (audit_event_type_value y)"
  shows "x = y"
proof -
  have "audit_event_type_value x = audit_event_type_value y"
    using arg_cong [OF assms, of to_lower] by (simp add: prisma_enum_def lower_upper lower_event_value)
  then show ?thesis
    using distinct_event_values by (simp add: distinct_map inj_on_def)
qed

lemma normalise_jopt [simp]: "normalise le (jopt v) = jopt v"
  by (cases v) (simp_all add: jopt_def)

lemma jopt_inject [simp]: "jopt v = jopt v' \<longleftrightarrow> v = v'"
  by (cases v; cases v') (simp_all add: jopt_def)

lemma hash_preimage_content:
  assumes "number_printer (num_str e)"
    and "hash_preimage e (input_of_row a) (au_prevHash a) = hash_preimage e (input_of_row b) (au_prevHash b)"
  shows "same_content e a b"
proof -
  note eq' = stableStringify_normal [OF assms(1) assms(2) [unfolded hash_preimage_def]]
  note fld = normalise_field [OF eq']
  show ?thesis
    using fld [of "''organizationId''"] fld [of "''workflowRunId''"] fld [of "''agentId''"]
      fld [of "''actorType''"] fld [of "''actorId''"] fld [of "''eventType''"]
      fld [of "''eventDataJson''"] fld [of "''prevHash''"]
    by (auto simp: same_content_def input_of_row_def dest: prisma_actor_inject prisma_event_inject)
qed

lemma linked_same_end:
  assumes "number_printer (num_str e)" and "linked e None as" and "linked e None bs"
    and "last_hash None as = last_hash None bs"
  shows "list_all2 (same_content e) as bs \<or> hash_collision e"
  using assms(2-)
proof (induction as arbitrary: bs rule: rev_induct)
  case Nil
  then show ?case by (auto simp: last_hash_def split: if_splits)
next
  case (snoc a as)
  obtain cs c where bs: "bs = cs @ [c]"
    using snoc.prems(3) by (cases bs rule: rev_cases) (auto simp: last_hash_def)
  have links: "linked e None as" "linked e None cs"
    and prevs: "au_prevHash a = last_hash None as" "au_prevHash c = last_hash None cs"
    and hashes: "au_hash a = sha256 e (hash_preimage e (input_of_row a) (au_prevHash a))"
      "au_hash c = sha256 e (hash_preimage e (input_of_row c) (au_prevHash c))"
    using snoc.prems(1,2) by (simp_all add: bs linked_snoc audit_hash_def)
  have last: "au_hash a = au_hash c"
    using snoc.prems(3) by (simp add: bs last_hash_def)
  show ?case
  proof (cases "hash_collision e")
    case False
    then have "hash_preimage e (input_of_row a) (au_prevHash a) = hash_preimage e (input_of_row c) (au_prevHash c)"
      using hashes last unfolding hash_collision_def by metis
    then have same: "same_content e a c" by (rule hash_preimage_content [OF assms(1)])
    then have "last_hash None as = last_hash None cs" using prevs by (simp add: same_content_def)
    then have "list_all2 (same_content e) as cs" using snoc.IH [of cs] links False by simp
    with same show ?thesis by (simp add: bs list_all2_appendI)
  qed simp
qed


definition demo_rows :: "audit_row list" where
  "demo_rows = audits (snd (record_all [demo_event ''o1'', demo_event ''o1'']
      (empty_world (demo_env\<lparr>num_str := unary_number\<rparr>))))"


end
