(* ===== verification/Effects.thy ===== *)
theory Effects
  imports Audit_Log
begin

section \<open>What operations may do to the log, to runs and to the rest of the world\<close>

text \<open>
  The leaves of the effect calculus on the world: reading the clock, fresh ids, the tables and
  the audit log. \<open>runs_ok L\<close> says that run ids stay unique, that no run disappears or changes
  its organization, agent or workflow, and that its status moves only as \<open>L\<close> allows; it is
  used with the legal transitions of the domain (\<open>legal\<close>) and with the weaker rule that a
  terminal status stays (\<open>sticky\<close>).
\<close>

subsection \<open>Frames\<close>

lemma same_new_date [effect_intros]:
  "(\<And>n. f (w\<lparr>reads := n\<rparr>) = f w) \<Longrightarrow> effect (same_of f) new_date w"
  by (simp add: effect_def same_of_def run_simps)

lemma same_fresh_id [effect_intros]:
  "(\<And>n. f (w\<lparr>ids := n\<rparr>) = f w) \<Longrightarrow> effect (same_of f) fresh_id w"
  by (simp add: effect_def same_of_def run_simps)

lemma same_record_audit [effect_intros]:
  "(\<And>n m as. f (w\<lparr>ids := n, reads := m, audits := as\<rparr>) = f w) \<Longrightarrow> effect (same_of f) (record_audit i) w"
  by (simp add: effect_def same_of_def record_audit_run Let_def)

lemma same_after: "effect (same_of f) m w \<Longrightarrow> m w = (r, w') \<Longrightarrow> f w' = f w"
  by (simp add: effect_def same_of_def)

lemmas keeps_defs = keeps_def table_defs

subsection \<open>The audit log\<close>

lemma quiet_audit:
  "w_env (snd (m w)) = w_env w \<Longrightarrow> audits (snd (m w)) = audits w \<Longrightarrow> reads w \<le> reads (snd (m w))
   \<Longrightarrow> effect audit_ok m w"
  by (simp add: effect_def audit_ok_frame)

definition quiet :: "world \<Rightarrow> env \<times> audit_row list \<times> nat" where
  "quiet w = (w_env w, audits w, reads w)"

lemma same_quiet: "effect (same_of quiet) m w \<Longrightarrow> effect audit_ok m w"
  by (simp add: effect_def same_of_def quiet_def audit_ok_frame)

lemma audit_new_date [effect_intros]: "effect audit_ok new_date w"
  by (rule quiet_audit) (simp_all add: run_simps)

lemma audit_fresh_id [effect_intros]: "effect audit_ok fresh_id w"
  by (rule quiet_audit) (simp_all add: run_simps)

lemma audit_modify:
  "w_env (g w) = w_env w \<Longrightarrow> audits (g w) = audits w \<Longrightarrow> reads w \<le> reads (g w)
   \<Longrightarrow> effect audit_ok (modify g) w"
  by (rule quiet_audit) (simp_all add: run_simps)

lemma audit_create [effect_intros]: "keeps quiet t \<Longrightarrow> effect audit_ok (create_row t r) w"
  by (intro same_quiet same_create)

lemma audit_update [effect_intros]: "keeps quiet t \<Longrightarrow> effect audit_ok (update_row t e k g) w"
  by (intro same_quiet same_update)

lemma audit_update_many [effect_intros]: "keeps quiet t \<Longrightarrow> effect audit_ok (update_many t P g) w"
  by (intro same_quiet same_update_many)

lemma audit_find_first [effect_intros]: "effect audit_ok (find_first t P) w"
  by (intro same_quiet same_find_first)

lemma audit_find_many [effect_intros]: "effect audit_ok (find_many t P) w"
  by (intro same_quiet same_find_many)

lemma keeps_quiet [simp, effect_intros]:
  "keeps quiet organization_t" "keeps quiet user_t" "keeps quiet preference_t" "keeps quiet refresh_token_t"
  "keeps quiet agent_t" "keeps quiet vendor_t" "keeps quiet policy_t" "keeps quiet credential_t"
  "keeps quiet grant_t" "keeps quiet workflow_t" "keeps quiet run_t" "keeps quiet attempt_t"
  "keeps quiet approval_t" "keeps quiet file_t" "keeps quiet receipt_t"
  by (simp_all add: keeps_defs quiet_def)

subsection \<open>Runs\<close>

definition run_like :: "(workflow_run_status \<Rightarrow> workflow_run_status \<Rightarrow> bool) \<Rightarrow> run_row \<Rightarrow> run_row \<Rightarrow> bool" where
  "run_like L r r' \<longleftrightarrow> run_id r' = run_id r \<and> run_org r' = run_org r \<and> run_agent r' = run_agent r
     \<and> run_workflow r' = run_workflow r \<and> L (run_status r) (run_status r')"

definition runs_ok :: "(workflow_run_status \<Rightarrow> workflow_run_status \<Rightarrow> bool) \<Rightarrow> world \<Rightarrow> world \<Rightarrow> bool" where
  "runs_ok L = rows_ok run_t (run_like L)"

abbreviation unique_runs :: "world \<Rightarrow> bool" where
  "unique_runs \<equiv> unique_keys run_t"

definition legal :: "workflow_run_status \<Rightarrow> workflow_run_status \<Rightarrow> bool" where
  "legal s t \<longleftrightarrow> canTransitionWorkflowRun\<^sup>*\<^sup>* s t"

definition sticky :: "workflow_run_status \<Rightarrow> workflow_run_status \<Rightarrow> bool" where
  "sticky s t \<longleftrightarrow> (terminal_status s \<longrightarrow> t = s)"

lemma tget_run_t [simp]: "tget run_t = runs"
  by (simp add: run_t_def)

lemma tkey_run_t [simp]: "tkey run_t = run_id"
  by (simp add: run_t_def)

interpretation legal: row_order run_t "run_like legal"
  rewrites "rows_ok run_t (run_like legal) = runs_ok legal" and "tget run_t = runs" and "tkey run_t = run_id"
  by unfold_locales (auto simp: run_like_def legal_def runs_ok_def)

interpretation sticky: row_order run_t "run_like sticky"
  rewrites "rows_ok run_t (run_like sticky) = runs_ok sticky" and "tget run_t = runs" and "tkey run_t = run_id"
  by unfold_locales (auto simp: run_like_def sticky_def runs_ok_def)

lemma legal_step: "canTransitionWorkflowRun s t \<Longrightarrow> legal s t"
  by (simp add: legal_def)

lemma legal_refl [simp]: "legal s s"
  by (simp add: legal_def)

lemma legal_sticky: "legal s t \<Longrightarrow> sticky s t"
  unfolding legal_def sticky_def
  by (induction rule: rtranclp_induct) (auto dest: terminal_no_transition)

lemma runs_legal_sticky: "effect (runs_ok legal) m w \<Longrightarrow> effect (runs_ok sticky) m w"
  unfolding runs_ok_def by (rule rows_ok_mono) (auto simp: run_like_def legal_sticky)

lemma runs_new_date [effect_intros]: "effect (runs_ok legal) new_date w" "effect (runs_ok sticky) new_date w"
  by (intro legal.rows_same sticky.rows_same same_new_date; simp)+

lemma runs_fresh_id [effect_intros]: "effect (runs_ok legal) fresh_id w" "effect (runs_ok sticky) fresh_id w"
  by (intro legal.rows_same sticky.rows_same same_fresh_id; simp)+

lemma keep_update_run:
  assumes "row_of run_t k s = Some r" and "\<And>q. run_id (f q) = run_id q"
    and "\<And>x s'. effect (runs_ok L) (h x) s'" and "run_like L r (f r)"
  shows "L = legal \<Longrightarrow> effect (runs_ok L) (bnd (update_run k f) h) s"
    and "L = sticky \<Longrightarrow> effect (runs_ok L) (bnd (update_run k f) h) s"
  using assms unfolding update_run_def
  by (auto intro!: legal.keep_update [of k s r] sticky.keep_update [of k s r] same_new_date simp: run_like_def)

lemmas keep_update_legal = keep_update_run(1) [OF _ _ _ _ refl]
lemmas keep_update_sticky = keep_update_run(2) [OF _ _ _ _ refl]

lemma runs_record_audit [effect_intros]:
  "effect (runs_ok legal) (record_audit i) w" "effect (runs_ok sticky) (record_audit i) w"
  by (intro legal.rows_same sticky.rows_same same_record_audit; simp)+

lemma keeps_runs [simp, effect_intros]:
  "keeps runs organization_t" "keeps runs user_t" "keeps runs preference_t" "keeps runs refresh_token_t"
  "keeps runs agent_t" "keeps runs vendor_t" "keeps runs policy_t" "keeps runs credential_t"
  "keeps runs grant_t" "keeps runs workflow_t" "keeps runs attempt_t"
  "keeps runs approval_t" "keeps runs audit_t" "keeps runs file_t" "keeps runs receipt_t"
  by (simp_all add: keeps_defs)

subsection \<open>Reading and updating a run\<close>

lemma find_first_run: "find_first run_t (\<lambda>r. run_id r = k) w = (Inr (row_of run_t k w), w)"
  by (simp add: run_simps row_of_def)

lemma find_run_row:
  assumes "unique_runs w" and "find_run k org w = (Inr (Some r), w')"
  shows "row_of run_t k w = Some r" and "run_id r = k" and "run_org r = org" and "w' = w"
  using assms find_unique [of run_id "runs w" k "\<lambda>r. run_org r = org" r]
  by (auto simp: find_run_def run_simps unique_keys_def row_of_def dest: find_SomeD)

lemma row_of_same_runs: "runs w' = runs w \<Longrightarrow> row_of run_t k w' = row_of run_t k w"
  by (simp add: row_of_def run_t_def)

lemma row_of_run_id: "row_of run_t k w = Some r \<Longrightarrow> run_id r = k"
  by (auto simp: row_of_def run_t_def dest: find_SomeD)

lemma update_run_Some:
  assumes "row_of run_t k w = Some r"
  shows "update_run k f w = (Inr ((f r)\<lparr>run_updatedAt := clock (w_env w) (reads w)\<rparr>),
    w\<lparr>reads := Suc (reads w),
      runs := upd_row run_id k (\<lambda>r. (f r)\<lparr>run_updatedAt := clock (w_env w) (reads w)\<rparr>) (runs w)\<rparr>)"
  using assms by (simp add: row_of_def run_simps)

lemma update_run_None:
  "row_of run_t k w = None \<Longrightarrow> update_run k f w = (Inl record_not_found, w\<lparr>reads := Suc (reads w)\<rparr>)"
  by (simp add: row_of_def run_simps)

lemma bnd_find_run [step_simps]:
  "bnd (find_run k org) f w = f (find (\<lambda>r. run_id r = k \<and> run_org r = org) (runs w)) w"
  by (simp add: find_run_def bnd_find_first run_t_def)

lemma bnd_update_run [step_simps]:
  "row_of run_t k w = Some r \<Longrightarrow>
   bnd (update_run k f) h w = h ((f r)\<lparr>run_updatedAt := clock (w_env w) (reads w)\<rparr>)
    (w\<lparr>reads := Suc (reads w),
      runs := upd_row run_id k (\<lambda>r. (f r)\<lparr>run_updatedAt := clock (w_env w) (reads w)\<rparr>) (runs w)\<rparr>)"
  by (simp add: bnd_Inr [OF update_run_Some])

lemma row_of_run_audit [simp]: "row_of run_t k (snd (record_audit i w)) = row_of run_t k w"
  by (rule row_of_same_runs) (simp add: record_audit_run Let_def)

lemma row_of_upd_runs:
  assumes "\<And>r. run_id (f r) = run_id r"
  shows "row_of run_t k' (w\<lparr>runs := upd_row run_id k f rs\<rparr>) =
    (if k' = k then map_option f (find (\<lambda>r. run_id r = k) rs) else find (\<lambda>r. run_id r = k') rs)"
  using find_upd_row [of run_id f k' k rs] assms by (simp add: row_of_def run_t_def)

end
