(* ===== verification/Vault.thy ===== *)
theory Vault
  imports Effects
begin

section \<open>The vault\<close>

text \<open>
  \<open>libs/vault/src/index.ts\<close>: sealing of a secret under the master key, bound to an organization, a
  credential and a key version. AES-256-GCM, SHA-256, base64 and the random bytes are the
  platform's (\<open>aes_seal\<close>, \<open>aes_open\<close>, \<open>digest\<close>, \<open>base64_text\<close>, \<open>base64_bytes\<close>, \<open>random_bytes\<close>);
  \<open>aes_open\<close> is \<open>None\<close> where the cipher throws. A secret is a JSON object, given by its properties.
\<close>

record vault_context =
  vc_org :: "string option"
  vc_credential :: "string option"
  vc_keyVersion :: "string option"

record encrypted_payload =
  ep_keyVersion :: string
  ep_iv :: string
  ep_authTag :: string
  ep_ciphertext :: string
  ep_aad :: "string option"

text \<open>\<open>s.replace(/=+$/, '')\<close>.\<close>

definition strip_padding :: "string \<Rightarrow> string" where
  "strip_padding s = rev (dropWhile (\<lambda>c. c = CHR ''='') (rev s))"

definition is_encoded_key :: "env \<Rightarrow> string \<Rightarrow> bool" where
  "is_encoded_key e key \<longleftrightarrow> length (base64_bytes e key) = 32
     \<and> strip_padding (base64_text e (base64_bytes e key)) = strip_padding key"

definition assertValidMasterKey :: "env \<Rightarrow> string \<Rightarrow> bool \<Rightarrow> err + unit" where
  "assertValidMasterKey e key in_production =
    (if length key < 32
     then Inl (JsError ''Error'' ''Vault master key must be at least 32 characters or a base64-encoded 32-byte key.'')
     else if is_encoded_key e key then Inr ()
     else if in_production then Inl (JsError ''Error'' ''Vault master key must be a base64-encoded 32-byte key in production.'')
     else Inr ())"

definition keyFromMasterKey :: "env \<Rightarrow> string \<Rightarrow> err + string" where
  "keyFromMasterKey e masterKey = (case assertValidMasterKey e masterKey False of
     Inl x \<Rightarrow> Inl x
   | Inr _ \<Rightarrow> Inr (if is_encoded_key e masterKey then base64_bytes e masterKey else digest e masterKey))"

definition aadFromContext :: "env \<Rightarrow> vault_context \<Rightarrow> string option" where
  "aadFromContext e context =
    (if \<not> truthy (vc_org context) \<and> \<not> truthy (vc_credential context) then None
     else Some (json_text (num_str e) (JObj
       [(''organizationId'', jopt (vc_org context)),
        (''credentialId'', jopt (vc_credential context)),
        (''keyVersion'', JStr (coalesce (vc_keyVersion context) ''local-v1''))])))"

definition encryptSecret :: "(string \<times> json) list \<Rightarrow> string \<Rightarrow> vault_context \<Rightarrow> encrypted_payload action" where
  "encryptSecret plaintext masterKey context = (\<lambda>w.
    (case keyFromMasterKey (w_env w) masterKey of
       Inl x \<Rightarrow> (Inl x, w)
     | Inr key \<Rightarrow>
        (let e = w_env w;
             iv = random_bytes e (ids w);
             aad = aadFromContext e context;
             sealed = aes_seal e key iv aad (json_text (num_str e) (JObj plaintext))
         in (Inr \<lparr>ep_keyVersion = coalesce (vc_keyVersion context) ''local-v1'',
               ep_iv = base64_text e iv, ep_authTag = base64_text e (snd sealed),
               ep_ciphertext = base64_text e (fst sealed),
               ep_aad = map_option (base64_text e) aad\<rparr>,
             w\<lparr>ids := Suc (ids w)\<rparr>))))"

definition decryptSecret :: "env \<Rightarrow> encrypted_payload \<Rightarrow> string \<Rightarrow> vault_context \<Rightarrow> err + (string \<times> json) list" where
  "decryptSecret e payload masterKey context =
    (case keyFromMasterKey e masterKey of
       Inl x \<Rightarrow> Inl x
     | Inr key \<Rightarrow>
        (let expectedAad = (if truthy (ep_aad payload) then Some (utf8_text e (base64_bytes e (the (ep_aad payload)))) else None);
             providedAad = aadFromContext e (context\<lparr>vc_keyVersion := Some (coalesce (vc_keyVersion context) (ep_keyVersion payload))\<rparr>)
         in
         if truthy expectedAad \<and> expectedAad \<noteq> providedAad
         then Inl (JsError ''Error'' ''Vault payload context does not match expected AAD.'')
         else (case aes_open e key (base64_bytes e (ep_iv payload)) (if truthy expectedAad then expectedAad else None)
                 (base64_bytes e (ep_ciphertext payload)) (base64_bytes e (ep_authTag payload)) of
             None \<Rightarrow> Inl (JsError ''Error'' ''Unsupported state or unable to authenticate data'')
           | Some plaintext \<Rightarrow> (case parse_json e (utf8_text e plaintext) of
                 None \<Rightarrow> Inl (JsError ''SyntaxError'' ''Unexpected token in JSON'')
               | Some (JObj secret) \<Rightarrow> Inr secret
               | Some _ \<Rightarrow> Inl (JsError ''Error'' ''Vault payload must decrypt to an object.'')))))"

text \<open>The payload in its database column.\<close>

definition payload_json :: "encrypted_payload \<Rightarrow> json" where
  "payload_json p = JObj ([(''alg'', JStr ''aes-256-gcm''), (''key_version'', JStr (ep_keyVersion p)),
     (''iv'', JStr (ep_iv p)), (''auth_tag'', JStr (ep_authTag p)), (''ciphertext'', JStr (ep_ciphertext p))]
     @ opt_field ''aad'' (map_option JStr (ep_aad p)))"

definition text_field :: "json \<Rightarrow> string \<Rightarrow> string option" where
  "text_field j k = (case map_of (as_object j) k of Some (JStr s) \<Rightarrow> Some s | _ \<Rightarrow> None)"

text \<open>\<open>credential.encryptedPayload as EncryptedPayload\<close>, read back: the columns written by the vault
have these fields as strings, and \<open>None\<close> stands for a row without them, where decoding throws.\<close>

definition payload_of :: "json \<Rightarrow> encrypted_payload option" where
  "payload_of j = (case (text_field j ''key_version'', text_field j ''iv'', text_field j ''auth_tag'', text_field j ''ciphertext'') of
     (Some v, Some iv, Some tag, Some c) \<Rightarrow>
       Some \<lparr>ep_keyVersion = v, ep_iv = iv, ep_authTag = tag, ep_ciphertext = c, ep_aad = text_field j ''aad''\<rparr>
   | _ \<Rightarrow> None)"

lemma payload_of_json [simp]: "payload_of (payload_json p) = Some p"
  by (cases "ep_aad p") (simp_all add: payload_of_def payload_json_def text_field_def as_object_def opt_field_def)

subsection \<open>Properties\<close>

text \<open>What the platform promises the vault: base64 round trips and encodes nonempty bytes as nonempty
text, the texts the vault seals are read back as themselves, JSON parsing inverts printing of the
secret, opening inverts sealing, and a sealed text opens only under its own key, nonce and data.\<close>

definition vault_platform :: "env \<Rightarrow> bool" where
  "vault_platform e \<longleftrightarrow> (\<forall>s. base64_bytes e (base64_text e s) = s) \<and> (\<forall>s. s \<noteq> [] \<longrightarrow> base64_text e s \<noteq> [])
     \<and> (\<forall>s. utf8_text e s = s) \<and> number_printer (num_str e)
     \<and> (\<forall>k iv a p. aes_open e k iv a (fst (aes_seal e k iv a p)) (snd (aes_seal e k iv a p)) = Some p)"

definition bound_context :: "string \<Rightarrow> string \<Rightarrow> string \<Rightarrow> vault_context" where
  "bound_context org k v = \<lparr>vc_org = Some org, vc_credential = Some k, vc_keyVersion = Some v\<rparr>"

lemma aad_bound:
  "org \<noteq> [] \<Longrightarrow> aadFromContext e (bound_context org k v) = Some (json_text (num_str e)
     (JObj [(''organizationId'', JStr org), (''credentialId'', JStr k), (''keyVersion'', JStr v)]))"
  by (simp add: aadFromContext_def bound_context_def truthy_def jopt_def)

lemma aad_bound_inject:
  assumes "number_printer (num_str e)" and "org \<noteq> []" and "org' \<noteq> []"
  shows "aadFromContext e (bound_context org k v) = aadFromContext e (bound_context org' k' v')
    \<longleftrightarrow> org = org' \<and> k = k' \<and> v = v'"
proof -
  have "json_text (num_str e) x = json_text (num_str e) y \<longleftrightarrow> x = y" for x y
    using json_text_unique [OF assms(1), of x "[]" y "[]"] by (auto simp: delimited_def)
  then show ?thesis
    unfolding aad_bound [OF assms(2)] aad_bound [OF assms(3)] by (simp del: json_text.simps)
qed

lemma aad_nonempty: "aadFromContext e ctx \<noteq> Some []"
  by (simp add: aadFromContext_def)

text \<open>What a payload holds once sealed, and how it opens.\<close>

lemma sealed_opens:
  assumes "vault_platform e" and "w_env w = e" and "org \<noteq> []"
    and "encryptSecret secret key (bound_context org k v) w = (Inr p, w')"
  shows "ep_keyVersion p = v" and "w' = w\<lparr>ids := Suc (ids w)\<rparr>"
    and "org' \<noteq> [] \<Longrightarrow> decryptSecret e p key (bound_context org' k' v') =
      (if org' = org \<and> k' = k \<and> v' = v
       then (case parse_json e (json_text (num_str e) (JObj secret)) of
           None \<Rightarrow> Inl (JsError ''SyntaxError'' ''Unexpected token in JSON'')
         | Some (JObj obj) \<Rightarrow> Inr obj
         | Some _ \<Rightarrow> Inl (JsError ''Error'' ''Vault payload must decrypt to an object.''))
       else Inl (JsError ''Error'' ''Vault payload context does not match expected AAD.''))"
proof -
  let ?aad = "aadFromContext e (bound_context org k v)"
  obtain mk where mk: "keyFromMasterKey e key = Inr mk"
    using assms(2,4) by (auto simp: encryptSecret_def split: sum.splits)
  obtain a where a: "?aad = Some a" "a \<noteq> []" using aad_bound [OF assms(3)] aad_nonempty by auto
  show v: "ep_keyVersion p = v" and "w' = w\<lparr>ids := Suc (ids w)\<rparr>"
    using assms(2,4) mk by (auto simp: encryptSecret_def Let_def bound_context_def)
  have fields: "base64_bytes e (ep_iv p) = random_bytes e (ids w)"
      "base64_bytes e (ep_ciphertext p) = fst (aes_seal e mk (random_bytes e (ids w)) (Some a) (json_text (num_str e) (JObj secret)))"
      "base64_bytes e (ep_authTag p) = snd (aes_seal e mk (random_bytes e (ids w)) (Some a) (json_text (num_str e) (JObj secret)))"
      "ep_aad p = Some (base64_text e a)" "base64_text e a \<noteq> []" "base64_bytes e (base64_text e a) = a"
    using assms(1,2,4) mk a by (auto simp: encryptSecret_def Let_def vault_platform_def)
  assume org': "org' \<noteq> []"
  have ctx: "(bound_context org' k' v')\<lparr>vc_keyVersion := Some (coalesce (vc_keyVersion (bound_context org' k' v')) q)\<rparr> = bound_context org' k' v'" for q
    by (simp add: bound_context_def)
  have "aadFromContext e (bound_context org' k' v') = Some a \<longleftrightarrow> org' = org \<and> k' = k \<and> v' = v"
    using aad_bound_inject [of e org' org k' v' k v] assms(1,3) org' a by (auto simp: vault_platform_def)
  then show "decryptSecret e p key (bound_context org' k' v') =
      (if org' = org \<and> k' = k \<and> v' = v
       then (case parse_json e (json_text (num_str e) (JObj secret)) of
           None \<Rightarrow> Inl (JsError ''SyntaxError'' ''Unexpected token in JSON'')
         | Some (JObj obj) \<Rightarrow> Inr obj
         | Some _ \<Rightarrow> Inl (JsError ''Error'' ''Vault payload must decrypt to an object.''))
       else Inl (JsError ''Error'' ''Vault payload context does not match expected AAD.''))"
    using assms(1) a by (auto simp: decryptSecret_def mk Let_def fields truthy_def ctx vault_platform_def)
qed


text \<open>Which master keys are accepted: with the production rule exactly those that decode to 32
  bytes and are the encoding of these; otherwise any text of 32 characters or more, which is then
  hashed unless it is such an encoding. A shorter key is always refused and nothing is sealed with it.\<close>

theorem master_keys_accepted:
  "(assertValidMasterKey e key True = Inr () \<longleftrightarrow> 32 \<le> length key \<and> is_encoded_key e key)
   \<and> (assertValidMasterKey e key False = Inr () \<longleftrightarrow> 32 \<le> length key)
   \<and> ((\<exists>bytes. keyFromMasterKey e key = Inr bytes) \<longleftrightarrow> 32 \<le> length key)
   \<and> (\<forall>bytes. keyFromMasterKey e key = Inr bytes \<longrightarrow> (if is_encoded_key e key then length bytes = 32 else bytes = digest e key))
   \<and> (length key < 32 \<longrightarrow> w_env w = e \<longrightarrow> (\<exists>x. encryptSecret secret key ctx w = (Inl x, w) \<and> decryptSecret e p key ctx' = Inl x))"
  by (auto simp: assertValidMasterKey_def keyFromMasterKey_def is_encoded_key_def encryptSecret_def decryptSecret_def)

definition vault_env :: env where
  "vault_env = demo_env\<lparr>num_str := unary_number, parse_json := (\<lambda>_. Some (JObj [(''password'', JStr ''p'')]))\<rparr>"

lemma vault_env_platform: "vault_platform vault_env"
  by (simp add: vault_platform_def vault_env_def demo_env_def unary_number_printer)


end
