(* ===== verification/Api_Common.thy ===== *)
theory Api_Common
  imports Effects
begin

section \<open>Pages and transactions\<close>

text \<open>
  What the API's services share: the pages of \<open>apps/api/src/common/pagination.ts\<close> and the database
  transaction of \<open>apps/api/src/database\<close>, which restores every table when its handler throws.
\<close>

record page_query =
  pq_page :: nat
  pq_limit :: nat

record pagination_meta =
  mt_total :: nat
  mt_page :: nat
  mt_limit :: nat
  mt_totalPages :: nat

definition pageToSkip :: "page_query \<Rightarrow> nat" where
  "pageToSkip query = (pq_page query - 1) * pq_limit query"

definition paginationMeta :: "nat \<Rightarrow> page_query \<Rightarrow> pagination_meta" where
  "paginationMeta n query = \<lparr>mt_total = n, mt_page = pq_page query, mt_limit = pq_limit query,
     mt_totalPages = nat (max 1 \<lceil>of_nat n / (of_nat (pq_limit query) :: rat)\<rceil>)\<rparr>"

text \<open>A page of a sorted query result.\<close>

definition page_slice :: "page_query \<Rightarrow> 'r list \<Rightarrow> 'r list" where
  "page_slice query rs = page_of (pageToSkip query) (pq_limit query) rs"

text \<open>\<open>database.transaction(handler)\<close>: when the handler throws the tables are as before; the clock
and the ids drawn meanwhile are not given back.\<close>

definition transaction :: "'a action \<Rightarrow> 'a action" where
  "transaction m = (\<lambda>w. case m w of
     (Inl e, w') \<Rightarrow> (Inl e, w\<lparr>reads := reads w', ids := ids w'\<rparr>)
   | (Inr x, w') \<Rightarrow> (Inr x, w'))"

lemma transaction_Inr [simp]: "transaction m w = (Inr x, w') \<longleftrightarrow> m w = (Inr x, w')"
  by (auto simp: transaction_def split: prod.splits sum.splits)

lemma transaction_rolls_back: "m w = (Inl e, w') \<Longrightarrow> transaction m w = (Inl e, w\<lparr>reads := reads w', ids := ids w'\<rparr>)"
  by (simp add: transaction_def)

lemma effect_transaction_same [effect_intros]:
  assumes "effect (same_of f) m w" and "\<And>w n. f (w\<lparr>reads := n\<rparr>) = f w" and "\<And>w n. f (w\<lparr>ids := n\<rparr>) = f w"
  shows "effect (same_of f) (transaction m) w"
  using assms by (auto simp: effect_def same_of_def transaction_def split: prod.splits sum.splits)

text \<open>Work on the tables other than the log, during which the clock moves on.\<close>

definition later :: "world \<Rightarrow> world \<Rightarrow> bool" where
  "later w w' \<longleftrightarrow> w_env w' = w_env w \<and> audits w' = audits w \<and> reads w \<le> reads w'"

interpretation later: effect_order later
  by unfold_locales (auto simp: later_def)

lemma later_same: "effect (same_of quiet) m w \<Longrightarrow> effect later m w"
  by (auto simp: effect_def same_of_def quiet_def later_def)

lemma later_leaves [effect_intros]:
  "effect later new_date w" "effect later fresh_id w"
  "effect later (find_first t P) w" "effect later (find_many t P) w"
  by (simp_all add: effect_def later_def run_simps)

lemma later_rows [effect_intros]:
  "keeps quiet t \<Longrightarrow> effect later (create_row t r) w"
  "keeps quiet t \<Longrightarrow> effect later (update_row t e k g) w"
  "keeps quiet t \<Longrightarrow> effect later (update_many t P g) w"
  by (rule later_same, intro effect_intros, assumption)+

lemma effect_transaction_later [effect_intros]: "effect later m w \<Longrightarrow> effect later (transaction m) w"
  by (cases "m w"; cases "fst (m w)") (auto simp: effect_def later_def transaction_def)

lemma later_audit: "effect later m w \<Longrightarrow> effect audit_ok m w"
  by (simp add: effect_def later_def audit_ok_frame)

lemma audit_transaction [effect_intros]: "effect later m w \<Longrightarrow> effect audit_ok (transaction m) w"
  by (intro later_audit effect_transaction_later)

text \<open>The pages of a list partition it: one after the other they are the whole list, there are
  \<open>totalPages\<close> of them and no page is longer than the limit.\<close>

theorem pages_partition:
  assumes "0 < l"
  shows "concat (map (\<lambda>p. page_slice \<lparr>pq_page = p, pq_limit = l\<rparr> rs)
            [1..<Suc (mt_totalPages (paginationMeta (length rs) \<lparr>pq_page = q, pq_limit = l\<rparr>))]) = rs
    \<and> (\<forall>p. length (page_slice \<lparr>pq_page = p, pq_limit = l\<rparr> rs) \<le> l)
    \<and> (\<forall>p > mt_totalPages (paginationMeta (length rs) \<lparr>pq_page = q, pq_limit = l\<rparr>). page_slice \<lparr>pq_page = p, pq_limit = l\<rparr> rs = [])"
proof -
  have pages: "concat (map (\<lambda>p. page_slice \<lparr>pq_page = p, pq_limit = l\<rparr> rs) [1..<Suc n]) = take (n * l) rs" for n
  proof (induction n)
    case (Suc n)
    have "take (n * l) rs @ take l (drop (n * l) rs) = take (n * l + l) rs"
      by (simp add: take_add)
    with Suc show ?case by (simp add: page_slice_def page_of_def pageToSkip_def add.commute)
  qed simp
  let ?n = "mt_totalPages (paginationMeta (length rs) \<lparr>pq_page = q, pq_limit = l\<rparr>)"
  have enough: "length rs \<le> ?n * l"
  proof -
    have "(of_nat (length rs) :: rat) / of_nat l \<le> of_int \<lceil>(of_nat (length rs) :: rat) / of_nat l\<rceil>" by (rule le_of_int_ceiling)
    also have "\<dots> \<le> of_nat ?n" by (simp add: paginationMeta_def)
    finally have "(of_nat (length rs) :: rat) \<le> of_nat ?n * of_nat l"
      using assms by (simp add: divide_le_eq)
    then show ?thesis by (metis of_nat_le_iff of_nat_mult)
  qed
  have "length rs \<le> (p - 1) * l" if "?n < p" for p
    using enough that order_trans [OF enough mult_le_mono1 [of ?n "p - 1" l]] by simp
  then have "\<forall>p > ?n. page_slice \<lparr>pq_page = p, pq_limit = l\<rparr> rs = []"
    by (simp add: page_slice_def page_of_def pageToSkip_def)
  moreover have "length (page_slice \<lparr>pq_page = p, pq_limit = l\<rparr> rs) \<le> l" for p
    by (simp add: page_slice_def page_of_def)
  ultimately show ?thesis
    unfolding pages using enough by simp
qed

theorem pages_partition_witness:
  "concat (map (\<lambda>p. page_slice \<lparr>pq_page = p, pq_limit = 2\<rparr> ''abcde'')
     [1..<Suc (mt_totalPages (paginationMeta (length ''abcde'') \<lparr>pq_page = 1, pq_limit = 2\<rparr>))]) = ''abcde''"
  by (rule conjunct1 [OF pages_partition]) simp

end
