(* ===== verification/Queue.thy ===== *)
theory Queue
  imports Effects
begin

section \<open>The workflow queues\<close>

text \<open>
  \<open>apps/api/src/queue/workflow-queue.service.ts\<close> and \<open>approval-resume.service.ts\<close>: jobs with
  ids derived from the run, added at most once while a job of that id is in the queue, their
  removal and diagnostics, and the permanent failure of a run. The queue server itself is
  not part of the repository: \<open>jobs\<close> holds what it reports of each job.
\<close>

definition retryableJobOptions :: job_options where
  "retryableJobOptions = \<lparr>jo_attempts = 3, jo_backoff = Some 1000, jo_removeOnComplete = 100,
     jo_removeOnFail = 500\<rparr>"

definition signalJobOptions :: job_options where
  "signalJobOptions = \<lparr>jo_attempts = 1, jo_backoff = None, jo_removeOnComplete = 100,
     jo_removeOnFail = 500\<rparr>"

definition executableStatuses :: "workflow_run_status list" where
  "executableStatuses = [Run_Queued, Run_Running, Run_WaitingForApproval]"

record enqueue_result =
  eq_jobId :: string
  eq_queue :: queue_name
  eq_created :: bool

record job_diagnostics =
  dg_queue :: queue_name
  dg_jobId :: string
  dg_state :: "string option"
  dg_attemptsMade :: "nat option"
  dg_failedReason :: "string option"
  dg_timestamp :: "nat option"
  dg_processedOn :: "nat option"
  dg_finishedOn :: "nat option"

record run_diagnostics =
  rd_run :: string
  rd_org :: string
  rd_start :: job_diagnostics
  rd_cancel :: job_diagnostics
  rd_resume :: "job_diagnostics list"

subsection \<open>Jobs\<close>

definition has_job_id :: "queue_name \<Rightarrow> string \<Rightarrow> job \<Rightarrow> bool" where
  "has_job_id q k j \<longleftrightarrow> jb_queue j = q \<and> jb_id j = k"

definition get_job :: "queue_name \<Rightarrow> string \<Rightarrow> job option action" where
  "get_job q k = gets (\<lambda>w. find (has_job_id q k) (jobs w))"

text \<open>The states that count towards the depth of a queue, and in which a job may be removed.\<close>

definition is_pending_state :: "string \<Rightarrow> bool" where
  "is_pending_state s \<longleftrightarrow> s \<in> {''waiting'', ''delayed'', ''prioritized''}"

definition recordQueueDepth :: "queue_name \<Rightarrow> unit action" where
  "recordQueueDepth q = modify (\<lambda>w. w\<lparr>queue_depth := (queue_depth w)(q \<mapsto>
     length (filter (\<lambda>j. jb_queue j = q \<and> is_pending_state (jb_state j)) (jobs w)))\<rparr>)"

definition recordWorkflowRun :: "string \<Rightarrow> string \<Rightarrow> unit action" where
  "recordWorkflowRun status template =
     modify (\<lambda>w. w\<lparr>run_counter := run_counter w @ [(status, template)]\<rparr>)"

definition addIdempotent ::
  "queue_name \<Rightarrow> string \<Rightarrow> string \<Rightarrow> job_data \<Rightarrow> job_options \<Rightarrow> enqueue_result action" where
  "addIdempotent q name k d opts =
    bnd (get_job q k) (\<lambda>existing.
    case existing of
      Some j \<Rightarrow> ret \<lparr>eq_jobId = jb_id j, eq_queue = q, eq_created = False\<rparr>
    | None \<Rightarrow>
        bnd new_date (\<lambda>now.
        bnd (modify (\<lambda>w. w\<lparr>jobs := jobs w @ [\<lparr>jb_queue = q, jb_name = name, jb_id = k,
               jb_data = d, jb_state = ''waiting'', jb_options = opts, jb_attemptsMade = 0,
               jb_failedReason = None, jb_timestamp = Some now, jb_processedOn = None,
               jb_finishedOn = None\<rparr>]\<rparr>)) (\<lambda>_.
        bnd (recordWorkflowRun ''queued'' (case jd_template d of None \<Rightarrow> ''unknown'' | Some t \<Rightarrow> t)) (\<lambda>_.
        bnd (recordQueueDepth q) (\<lambda>_.
        ret \<lparr>eq_jobId = k, eq_queue = q, eq_created = True\<rparr>)))))"

definition issueRunToken :: "string \<Rightarrow> string \<Rightarrow> string action" where
  "issueRunToken organizationId workflowRunId =
    bnd new_date (\<lambda>now.
    gets (\<lambda>w. issueWorkerRunToken (codec (w_env w)) (worker_secret (w_env w))
      organizationId workflowRunId (Some (60 * 60 * 6)) now))"

text \<open>What the three kinds of job share: the time of the request and the run's token.\<close>

definition stamped :: "(string \<Rightarrow> string \<Rightarrow> job_data) \<Rightarrow> string \<Rightarrow> string \<Rightarrow> job_data action" where
  "stamped mk organizationId workflowRunId =
    bnd new_date (\<lambda>now.
    bnd (iso_of now) (\<lambda>requestedAt.
    bnd (issueRunToken organizationId workflowRunId) (\<lambda>token.
    ret (mk requestedAt token))))"

record start_input =
  si_run :: string
  si_workflow :: string
  si_org :: string
  si_agent :: string
  si_vendor :: "string option"
  si_template :: string

definition enqueueStart :: "start_input \<Rightarrow> enqueue_result action" where
  "enqueueStart i =
    bnd (stamped (\<lambda>requestedAt token. \<lparr>jd_run = si_run i, jd_org = si_org i, jd_mode = Mode_start,
       jd_approval = None, jd_attempt = 1, jd_requestedAt = requestedAt,
       jd_workflow = Some (si_workflow i), jd_agent = Some (si_agent i), jd_vendor = si_vendor i,
       jd_template = Some (si_template i), jd_reason = None, jd_workerRunToken = Some token\<rparr>)
       (si_org i) (si_run i)) (\<lambda>d.
    addIdempotent Queue_runs (WORKFLOW_QUEUE_JOB_NAMES Mode_start) (workflowStartJobId (si_run i)) d
      retryableJobOptions)"

definition enqueueResume :: "string \<Rightarrow> string \<Rightarrow> string \<Rightarrow> enqueue_result action" where
  "enqueueResume workflowRunId organizationId approvalRequestId =
    bnd (stamped (\<lambda>requestedAt token. \<lparr>jd_run = workflowRunId, jd_org = organizationId,
       jd_mode = Mode_resume, jd_approval = Some approvalRequestId, jd_attempt = 1,
       jd_requestedAt = requestedAt, jd_workflow = None, jd_agent = None, jd_vendor = None,
       jd_template = None, jd_reason = None, jd_workerRunToken = Some token\<rparr>)
       organizationId workflowRunId) (\<lambda>d.
    addIdempotent Queue_resume (WORKFLOW_QUEUE_JOB_NAMES Mode_resume)
      (workflowResumeJobId workflowRunId approvalRequestId) d retryableJobOptions)"

definition enqueueCancel :: "string \<Rightarrow> string \<Rightarrow> string \<Rightarrow> enqueue_result action" where
  "enqueueCancel workflowRunId organizationId reason =
    bnd (stamped (\<lambda>requestedAt token. \<lparr>jd_run = workflowRunId, jd_org = organizationId,
       jd_mode = Mode_cancel, jd_approval = None, jd_attempt = 1,
       jd_requestedAt = requestedAt, jd_workflow = None, jd_agent = None, jd_vendor = None,
       jd_template = None, jd_reason = Some reason, jd_workerRunToken = Some token\<rparr>)
       organizationId workflowRunId) (\<lambda>d.
    addIdempotent Queue_maintenance (WORKFLOW_QUEUE_JOB_NAMES Mode_cancel)
      (workflowCancelJobId workflowRunId) d signalJobOptions)"

text \<open>\<open>approval-resume.service.ts\<close>.\<close>

definition enqueueApprovalResume :: "approval_row \<Rightarrow> string action" where
  "enqueueApprovalResume approval =
    bnd (enqueueResume (apr_run approval) (apr_org approval) (apr_id approval)) (\<lambda>r. ret (eq_jobId r))"

definition removeStartJob :: "string \<Rightarrow> bool action" where
  "removeStartJob workflowRunId =
    bnd (get_job Queue_runs (workflowStartJobId workflowRunId)) (\<lambda>found.
    case found of
      None \<Rightarrow> ret False
    | Some j \<Rightarrow>
        if is_pending_state (jb_state j)
        then bnd (modify (\<lambda>w. w\<lparr>jobs := filter (\<lambda>j'. \<not> has_job_id Queue_runs (jb_id j) j') (jobs w)\<rparr>)) (\<lambda>_.
             bnd (recordQueueDepth Queue_runs) (\<lambda>_. ret True))
        else ret False)"

subsection \<open>Diagnostics\<close>

definition emptyDiagnostics :: "queue_name \<Rightarrow> string \<Rightarrow> job_diagnostics" where
  "emptyDiagnostics q k = \<lparr>dg_queue = q, dg_jobId = k, dg_state = None, dg_attemptsMade = None,
     dg_failedReason = None, dg_timestamp = None, dg_processedOn = None, dg_finishedOn = None\<rparr>"

definition toDiagnostics :: "queue_name \<Rightarrow> job \<Rightarrow> job_diagnostics" where
  "toDiagnostics q j = \<lparr>dg_queue = q, dg_jobId = jb_id j, dg_state = Some (jb_state j),
     dg_attemptsMade = Some (jb_attemptsMade j), dg_failedReason = jb_failedReason j,
     dg_timestamp = jb_timestamp j, dg_processedOn = jb_processedOn j,
     dg_finishedOn = jb_finishedOn j\<rparr>"

definition getJobState :: "queue_name \<Rightarrow> string \<Rightarrow> job_diagnostics action" where
  "getJobState q k = bnd (get_job q k) (\<lambda>found. ret (case found of
     None \<Rightarrow> emptyDiagnostics q k | Some j \<Rightarrow> toDiagnostics q j))"

fun getJobStates :: "queue_name \<Rightarrow> string list \<Rightarrow> job_diagnostics list action" where
  "getJobStates q [] = ret []"
| "getJobStates q (k # ks) = bnd (getJobState q k) (\<lambda>d. bnd (getJobStates q ks) (\<lambda>ds. ret (d # ds)))"

definition run_not_found :: err where
  "run_not_found = DomainError NotFound ''Workflow run was not found.''"

definition getRunDiagnostics :: "string option \<Rightarrow> string \<Rightarrow> run_diagnostics action" where
  "getRunDiagnostics organizationId workflowRunId =
    bnd (require_org organizationId) (\<lambda>org.
    bnd (find_run workflowRunId org) (\<lambda>found.
    bnd (require_some found run_not_found) (\<lambda>_.
    bnd (find_many approval_t (\<lambda>a. apr_run a = workflowRunId \<and> apr_org a = org)) (\<lambda>unordered.
    bnd (getJobState Queue_runs (workflowStartJobId workflowRunId)) (\<lambda>start.
    bnd (getJobState Queue_maintenance (workflowCancelJobId workflowRunId)) (\<lambda>cancel.
    bnd (getJobStates Queue_resume (map (\<lambda>a. workflowResumeJobId workflowRunId (apr_id a))
           (order_asc apr_createdAt apr_id unordered))) (\<lambda>resume.
    ret \<lparr>rd_run = workflowRunId, rd_org = org, rd_start = start, rd_cancel = cancel,
         rd_resume = resume\<rparr>)))))))"

subsection \<open>Permanent failure\<close>

definition shouldProcessRun :: "string \<Rightarrow> bool action" where
  "shouldProcessRun workflowRunId =
    bnd (find_first run_t (\<lambda>r. run_id r = workflowRunId)) (\<lambda>run.
    ret (case run of None \<Rightarrow> False | Some r \<Rightarrow> List.member executableStatuses (run_status r)))"

text \<open>Statuses are written to JSON with the names of the database's enumeration.\<close>

definition prisma_status :: "workflow_run_status \<Rightarrow> json" where
  "prisma_status s = JStr (prisma_enum (workflow_run_status_value s))"

definition nextFailureState :: "env \<Rightarrow> json \<Rightarrow> workflow_run_status \<Rightarrow> string \<Rightarrow> nat \<Rightarrow> json" where
  "nextFailureState e existing previousStatus errorMessage failedAt =
    (let base = as_object existing; at_time = JStr (iso e failedAt) in
     JObj (spread base
       [(''permanentFailure'', JBool True),
        (''failureReason'', JStr errorMessage),
        (''failedAt'', at_time),
        (''transitions'', JArr (as_array (map_of base ''transitions'') @
           [JObj [(''from'', prisma_status previousStatus), (''to'', prisma_status Run_Failed),
              (''reason'', JStr errorMessage), (''permanent'', JBool True), (''at'', at_time)]]))]))"

definition markPermanentFailure :: "string \<Rightarrow> string \<Rightarrow> bool action" where
  "markPermanentFailure workflowRunId errorMessage =
    bnd (find_first run_t (\<lambda>r. run_id r = workflowRunId)) (\<lambda>found.
    bnd (require_some found run_not_found) (\<lambda>existing.
    if \<not> List.member executableStatuses (run_status existing) then ret False
    else
      bnd new_date (\<lambda>failedAt.
      bnd (gets (\<lambda>w. nextFailureState (w_env w) (run_state existing) (run_status existing)
             errorMessage failedAt)) (\<lambda>state.
      bnd (update_run workflowRunId (\<lambda>r. r\<lparr>run_status := Run_Failed,
             run_completedAt := (case run_completedAt existing of None \<Rightarrow> Some failedAt | Some t \<Rightarrow> Some t),
             run_errorMessage := Some errorMessage, run_state := state\<rparr>)) (\<lambda>run.
      bnd (record_audit \<lparr>ai_org = run_org run, ai_run = Some (run_id run),
             ai_agent = Some (run_agent run), ai_actorType = Actor_Worker, ai_actorId = None,
             ai_eventType = Ev_WorkflowRunFailed,
             ai_data = JObj [(''workflowRunId'', JStr (run_id run)),
               (''workflowId'', JStr (run_workflow run)),
               (''previousStatus'', prisma_status (run_status existing)),
               (''errorMessage'', JStr errorMessage), (''permanent'', JBool True)]\<rparr>) (\<lambda>_.
      ret True))))))"


subsection \<open>Effects\<close>

lemmas wrap_defs = require_org_def require_user_def find_run_def iso_of_def

text \<open>The queue operations touch the jobs, the metrics and the clock only.\<close>

definition queue_free :: "(world \<Rightarrow> 'x) \<Rightarrow> bool" where
  "queue_free f \<longleftrightarrow> (\<forall>w n. f (w\<lparr>reads := n\<rparr>) = f w) \<and> (\<forall>w v. f (w\<lparr>jobs := v\<rparr>) = f w)
     \<and> (\<forall>w v. f (w\<lparr>run_counter := v\<rparr>) = f w) \<and> (\<forall>w v. f (w\<lparr>queue_depth := v\<rparr>) = f w)"

lemma queue_freeD:
  assumes "queue_free f"
  shows "f (w\<lparr>reads := n\<rparr>) = f w" "f (w\<lparr>jobs := js\<rparr>) = f w"
    "f (w\<lparr>run_counter := c\<rparr>) = f w" "f (w\<lparr>queue_depth := d\<rparr>) = f w"
  using assms by (simp_all add: queue_free_def)

lemmas queue_op_defs = enqueueApprovalResume_def enqueueStart_def enqueueResume_def enqueueCancel_def
  removeStartJob_def stamped_def issueRunToken_def addIdempotent_def get_job_def
  recordWorkflowRun_def recordQueueDepth_def

lemma same_queue_ops [effect_intros]:
  assumes "queue_free f"
  shows "effect (same_of f) (addIdempotent q n k d opts) w"
    and "effect (same_of f) (enqueueStart i) w"
    and "effect (same_of f) (enqueueResume run org a) w"
    and "effect (same_of f) (enqueueCancel run org reason) w"
    and "effect (same_of f) (enqueueApprovalResume a') w"
    and "effect (same_of f) (removeStartJob run) w"
  unfolding queue_op_defs wrap_defs
  by (intro effect_intros queue_freeD [OF assms])+

lemma audit_queue_ops [effect_intros]:
  "effect audit_ok (addIdempotent q n k d opts) w"
  "effect audit_ok (enqueueStart i) w"
  "effect audit_ok (enqueueResume run org a) w"
  "effect audit_ok (enqueueCancel run org reason) w"
  "effect audit_ok (enqueueApprovalResume a') w"
  "effect audit_ok (removeStartJob run) w"
  unfolding queue_op_defs wrap_defs
  by (intro effect_intros audit_modify; simp)+

subsection \<open>At most one job per id\<close>

definition unique_jobs :: "world \<Rightarrow> bool" where
  "unique_jobs w \<longleftrightarrow> distinct (map (\<lambda>j. (jb_queue j, jb_id j)) (jobs w))"

lemma unique_jobs_same: "effect (same_of jobs) m w \<Longrightarrow> effect (preserves unique_jobs) m w"
  by (simp add: effect_def same_of_def preserves_def unique_jobs_def)

lemma no_job_iff: "find (has_job_id q k) js = None \<longleftrightarrow> (q, k) \<notin> (\<lambda>j. (jb_queue j, jb_id j)) ` set js"
  by (auto simp: find_None_iff has_job_id_def)

lemma addIdempotent_new:
  assumes "find (has_job_id q k) (jobs w) = None"
  shows "fst (addIdempotent q n k d opts w) = Inr \<lparr>eq_jobId = k, eq_queue = q, eq_created = True\<rparr>"
    and "jobs (snd (addIdempotent q n k d opts w)) = jobs w @ [\<lparr>jb_queue = q, jb_name = n,
      jb_id = k, jb_data = d, jb_state = ''waiting'', jb_options = opts, jb_attemptsMade = 0,
      jb_failedReason = None, jb_timestamp = Some (clock (w_env w) (reads w)),
      jb_processedOn = None, jb_finishedOn = None\<rparr>]"
  using assms by (simp_all add: addIdempotent_def get_job_def run_simps recordWorkflowRun_def recordQueueDepth_def)

lemma addIdempotent_old:
  assumes "find (has_job_id q k) (jobs w) = Some j"
  shows "addIdempotent q n k d opts w = (Inr \<lparr>eq_jobId = k, eq_queue = q, eq_created = False\<rparr>, w)"
  using assms find_SomeD [OF assms]
  by (simp add: addIdempotent_def get_job_def run_simps has_job_id_def)

lemma addIdempotent_unique [effect_intros]: "effect (preserves unique_jobs) (addIdempotent q n k d opts) w"
proof (cases "find (has_job_id q k) (jobs w)")
  case None
  then show ?thesis
    by (simp add: effect_def preserves_def unique_jobs_def addIdempotent_new no_job_iff)
next
  case (Some j)
  then show ?thesis
    by (simp add: effect_def preserves_def addIdempotent_old)
qed

lemma enqueue_unique [effect_intros]:
  "effect (preserves unique_jobs) (enqueueStart i) w"
  "effect (preserves unique_jobs) (enqueueResume run org a) w"
  "effect (preserves unique_jobs) (enqueueCancel run org reason) w"
  unfolding enqueueStart_def enqueueResume_def enqueueCancel_def
  by (rule maintained.effect_bnd, rule unique_jobs_same,
      (unfold stamped_def issueRunToken_def iso_of_def, intro effect_intros, simp_all)[1],
      rule addIdempotent_unique)+

text \<open>A job is in its queue at most once: adding a job under an id keeps every earlier job,
adds one exactly when none of that id is there and says so in the result, and afterwards
there is exactly one job of that id.\<close>

theorem enqueue_at_most_once:
  assumes "unique_jobs w"
  shows "case addIdempotent q name k d opts w of (r, w') \<Rightarrow>
     r = Inr \<lparr>eq_jobId = k, eq_queue = q, eq_created = (\<not> list_ex (has_job_id q k) (jobs w))\<rparr>
     \<and> unique_jobs w' \<and> length (filter (has_job_id q k) (jobs w')) = 1
     \<and> (if list_ex (has_job_id q k) (jobs w) then w' = w
        else butlast (jobs w') = jobs w \<and> jb_data (last (jobs w')) = d
          \<and> jb_options (last (jobs w')) = opts \<and> jb_state (last (jobs w')) = ''waiting'')"
proof (cases "find (has_job_id q k) (jobs w)")
  case None
  then have absent: "\<not> list_ex (has_job_id q k) (jobs w)" "filter (has_job_id q k) (jobs w) = []"
    by (auto simp: find_None_iff list_ex_iff filter_empty_conv)
  have "unique_jobs (snd (addIdempotent q name k d opts w))"
    using addIdempotent_unique assms by (simp add: effect_def preserves_def)
  then show ?thesis
    using addIdempotent_new [OF None, of name d opts] absent
    by (simp add: case_prod_beta has_job_id_def prod_eq_iff)
next
  case (Some j)
  then have present: "list_ex (has_job_id q k) (jobs w)"
    by (auto simp: list_ex_iff dest: find_SomeD)
  have "length (filter (has_job_id q k) js) = 1"
    if "distinct (map (\<lambda>j. (jb_queue j, jb_id j)) js)" "list_ex (has_job_id q k) js" for js
    using that
  proof (induction js)
    case (Cons x js)
    then show ?case
      by (cases "has_job_id q k x")
         (auto simp: has_job_id_def filter_empty_conv image_iff)
  qed simp
  then show ?thesis
    using assms present by (simp add: addIdempotent_old [OF Some] unique_jobs_def)
qed

definition demo_job_data :: job_data where
  "demo_job_data = \<lparr>jd_run = ''r'', jd_org = ''o'', jd_mode = Mode_cancel, jd_approval = None,
     jd_attempt = 1, jd_requestedAt = '''', jd_workflow = None, jd_agent = None, jd_vendor = None,
     jd_template = None, jd_reason = None, jd_workerRunToken = None\<rparr>"

theorem enqueue_at_most_once_witness:
  "case addIdempotent Queue_maintenance ''n'' ''k'' demo_job_data signalJobOptions (empty_world demo_env) of (r, w') \<Rightarrow>
     r = Inr \<lparr>eq_jobId = ''k'', eq_queue = Queue_maintenance,
        eq_created = (\<not> list_ex (has_job_id Queue_maintenance ''k'') (jobs (empty_world demo_env)))\<rparr>
     \<and> unique_jobs w' \<and> length (filter (has_job_id Queue_maintenance ''k'') (jobs w')) = 1
     \<and> (if list_ex (has_job_id Queue_maintenance ''k'') (jobs (empty_world demo_env)) then w' = empty_world demo_env
        else butlast (jobs w') = jobs (empty_world demo_env) \<and> jb_data (last (jobs w')) = demo_job_data
          \<and> jb_options (last (jobs w')) = signalJobOptions \<and> jb_state (last (jobs w')) = ''waiting'')"
  by (rule enqueue_at_most_once) (simp add: unique_jobs_def empty_world_def)

subsection \<open>The token of a job\<close>

text \<open>The token put into a newly queued start job is accepted by the worker API for that
run and organization for six hours from its issue, and refused for another run or
organization and afterwards.\<close>

theorem start_job_token:
  assumes "codec_ok (codec (w_env w))" and "si_org i \<noteq> []" and "si_run i \<noteq> []"
    and "find (has_job_id Queue_runs (workflowStartJobId (si_run i))) (jobs w) = None"
    and "org \<noteq> []" and "run \<noteq> []"
  shows "\<exists>w' token. enqueueStart i w = (Inr \<lparr>eq_jobId = workflowStartJobId (si_run i), eq_queue = Queue_runs, eq_created = True\<rparr>, w')
     \<and> jd_workerRunToken (jb_data (last (jobs w'))) = Some token
     \<and> (verifyWorkerRunToken (codec (w_env w)) (worker_secret (w_env w)) token (Some org) (Some run) now \<noteq> None
        \<longleftrightarrow> org = si_org i \<and> run = si_run i
            \<and> now div 1000 < clock (w_env w) (Suc (reads w)) div 1000 + 21600)"
proof -
  let ?e = "w_env w"
  let ?w = "w\<lparr>reads := Suc (Suc (reads w))\<rparr>"
  define token where "token = issueWorkerRunToken (codec ?e) (worker_secret ?e) (si_org i) (si_run i) (Some 21600) (clock ?e (Suc (reads w)))"
  have none: "find (has_job_id Queue_runs (workflowStartJobId (si_run i))) (jobs ?w) = None"
    using assms(4) by simp
  obtain d where d: "jd_workerRunToken d = Some token"
    and run: "enqueueStart i w = addIdempotent Queue_runs (WORKFLOW_QUEUE_JOB_NAMES Mode_start)
        (workflowStartJobId (si_run i)) d retryableJobOptions ?w"
    by (simp add: enqueueStart_def stamped_def issueRunToken_def run_simps token_def)
       (metis job_data.select_convs(12))
  have res: "fst (enqueueStart i w) = Inr \<lparr>eq_jobId = workflowStartJobId (si_run i), eq_queue = Queue_runs, eq_created = True\<rparr>"
    unfolding run by (rule addIdempotent_new(1) [OF none])
  have tok: "jd_workerRunToken (jb_data (last (jobs (snd (enqueueStart i w))))) = Some token"
    unfolding run addIdempotent_new(2) [OF none] by (simp add: d)
  show ?thesis
    using issued_token_verifies [OF assms(1-3), of "worker_secret ?e" "Some 21600" "clock ?e (Suc (reads w))" org run now] assms(5,6)
    by (intro exI [of _ "snd (enqueueStart i w)"] exI [of _ token] conjI tok)
       (simp_all add: prod_eq_iff res token_def [symmetric])
qed

definition demo_start :: start_input where
  "demo_start = \<lparr>si_run = ''r'', si_workflow = ''w'', si_org = ''o'', si_agent = ''a'',
     si_vendor = None, si_template = ''t''\<rparr>"

theorem start_job_token_witness:
  "\<exists>w' token. enqueueStart demo_start (empty_world demo_env) =
       (Inr \<lparr>eq_jobId = workflowStartJobId (si_run demo_start), eq_queue = Queue_runs, eq_created = True\<rparr>, w')
     \<and> jd_workerRunToken (jb_data (last (jobs w'))) = Some token
     \<and> (verifyWorkerRunToken (codec (w_env (empty_world demo_env))) (worker_secret (w_env (empty_world demo_env)))
           token (Some ''o'') (Some ''x'') 0 \<noteq> None
        \<longleftrightarrow> ''o'' = si_org demo_start \<and> ''x'' = si_run demo_start
            \<and> 0 div 1000 < clock (w_env (empty_world demo_env)) (Suc (reads (empty_world demo_env))) div 1000 + 21600)"
  by (rule start_job_token) (simp_all add: empty_world_def demo_env_def demo_codec_ok demo_start_def)

subsection \<open>Removal and permanent failure\<close>

text \<open>Only a job that no worker has taken is removed: the start job disappears and every other
job stays when it is waiting, delayed or prioritised, and nothing changes otherwise.\<close>

lemma removeStartJob_eq:
  "removeStartJob k w =
    (case find (has_job_id Queue_runs (workflowStartJobId k)) (jobs w) of
       Some j \<Rightarrow> if is_pending_state (jb_state j)
         then (Inr True, snd (recordQueueDepth Queue_runs
            (w\<lparr>jobs := filter (\<lambda>j. \<not> (jb_queue j = Queue_runs \<and> jb_id j = workflowStartJobId k)) (jobs w)\<rparr>)))
         else (Inr False, w)
     | None \<Rightarrow> (Inr False, w))"
  by (auto simp: removeStartJob_def get_job_def run_simps recordQueueDepth_def has_job_id_def
      split: option.splits dest!: find_SomeD)

text \<open>Permanent failure of a run: an unknown run is an error and a run that has ended is left
alone; any other run becomes failed, keeps the completion time it may have, gets the message
and one more transition, no other run changes, and one failure event is recorded.\<close>

theorem markPermanentFailure_correct:
  "case row_of run_t k w of
     None \<Rightarrow> markPermanentFailure k msg w = (Inl run_not_found, w)
   | Some r \<Rightarrow>
       if terminal_status (run_status r) then markPermanentFailure k msg w = (Inr False, w)
       else \<exists>w' r'. markPermanentFailure k msg w = (Inr True, w')
         \<and> (\<forall>k'. row_of run_t k' w' = (if k' = k then Some r' else row_of run_t k' w))
         \<and> run_status r' = Run_Failed \<and> run_errorMessage r' = Some msg
         \<and> run_completedAt r' = Some (case run_completedAt r of None \<Rightarrow> clock (w_env w) (reads w) | Some t \<Rightarrow> t)
         \<and> run_state r' = nextFailureState (w_env w) (run_state r) (run_status r) msg (clock (w_env w) (reads w))
         \<and> length (audits w') = Suc (length (audits w))
         \<and> au_eventType (last (audits w')) = Ev_WorkflowRunFailed \<and> au_run (last (audits w')) = Some k"
proof (cases "row_of run_t k w")
  case None
  then show ?thesis
    by (simp add: markPermanentFailure_def bnd_def find_first_run require_some_def throw_def)
next
  case (Some r)
  have exec: "s \<in> set executableStatuses \<longleftrightarrow> \<not> terminal_status s" for s
    by (cases s) (simp_all add: executableStatuses_def terminal_status_def)
  let ?w = "w\<lparr>reads := Suc (reads w)\<rparr>"
  have row: "row_of run_t k ?w = Some r"
    using Some by (simp add: row_of_def run_t_def)
  show ?thesis
  proof (cases "terminal_status (run_status r)")
    case True
    with Some show ?thesis
      by (simp add: markPermanentFailure_def bnd_def find_first_run require_some_def ret_def exec)
  next
    case False
    define f where "f = (\<lambda>q :: run_row. q\<lparr>run_status := Run_Failed,
       run_completedAt := (case run_completedAt r of None \<Rightarrow> Some (clock (w_env w) (reads w)) | Some t \<Rightarrow> Some t),
       run_errorMessage := Some msg, run_state := nextFailureState (w_env w) (run_state r) (run_status r) msg (clock (w_env w) (reads w))\<rparr>)"
    define g where "g = (\<lambda>q. (f q)\<lparr>run_updatedAt := clock (w_env w) (Suc (reads w))\<rparr>)"
    have keys: "run_id (g q) = run_id q" for q by (simp add: g_def f_def)
    define w2 where "w2 = w\<lparr>reads := Suc (Suc (reads w)), runs := upd_row run_id k g (runs w)\<rparr>"
    have upd: "update_run k f ?w = (Inr (g r), w2)"
      using update_run_Some [OF row, of f] by (simp add: g_def w2_def)
    have rows: "row_of run_t k' w2 = (if k' = k then Some (g r) else row_of run_t k' w)" for k'
      using row_of_upd_runs [of g k' k "runs w" "w\<lparr>reads := Suc (Suc (reads w))\<rparr>"] keys Some
      by (simp add: w2_def row_of_def run_t_def)
    define event where "event = (\<lambda>run :: run_row. \<lparr>ai_org = run_org run, ai_run = Some (run_id run),
       ai_agent = Some (run_agent run), ai_actorType = Actor_Worker, ai_actorId = None,
       ai_eventType = Ev_WorkflowRunFailed,
       ai_data = JObj [(''workflowRunId'', JStr (run_id run)), (''workflowId'', JStr (run_workflow run)),
         (''previousStatus'', prisma_status (run_status r)), (''errorMessage'', JStr msg),
         (''permanent'', JBool True)]\<rparr>)"
    have run: "markPermanentFailure k msg w = (Inr True, snd (record_audit (event (g r)) w2))"
      using False Some exec [of "run_status r"]
      unfolding markPermanentFailure_def
      by (simp add: step_simps bnd_Inr [OF find_first_run] row event_def g_def f_def w2_def ret_def)
    have g: "run_status (g r) = Run_Failed" "run_errorMessage (g r) = Some msg" "run_id (g r) = k"
      "run_completedAt (g r) = Some (case run_completedAt r of None \<Rightarrow> clock (w_env w) (reads w) | Some t \<Rightarrow> t)"
      "run_state (g r) = nextFailureState (w_env w) (run_state r) (run_status r) msg (clock (w_env w) (reads w))"
      using row_of_run_id [OF Some] by (simp_all add: g_def f_def split: option.split)
    have rows': "row_of run_t k' (snd (record_audit i w2)) = row_of run_t k' w2" for k' i
      by (rule row_of_same_runs) (simp add: record_audit_run Let_def)
    have audit: "length (audits (snd (record_audit (event (g r)) w2))) = Suc (length (audits w))"
      "au_eventType (last (audits (snd (record_audit (event (g r)) w2)))) = Ev_WorkflowRunFailed"
      "au_run (last (audits (snd (record_audit (event (g r)) w2)))) = Some k"
      by (simp_all add: record_audit_run Let_def event_def w2_def g(3))
    show ?thesis
      using False Some by (simp add: run rows' rows audit g) 
  qed
qed

lemma queue_free_runs [effect_intros]: "queue_free runs"
  by (simp add: queue_free_def)

text \<open>Reads of the clock and of the run keep the row that was read.\<close>

lemma find_first_run_row:
  "find_first run_t (\<lambda>r. run_id r = k) w = (Inr (Some r), w') \<Longrightarrow> row_of run_t k w' = Some r"
  by (auto simp: find_first_run)

lemma markPermanentFailure_runs [effect_intros]: "effect (runs_ok sticky) (markPermanentFailure k msg) w"
  unfolding markPermanentFailure_def
proof (rule sticky.ord.effect_bnd, intro effect_intros, rule sticky.ord.effect_bnd, intro effect_intros, goal_cases)
  case (1 found w1 r w2)
  then have "row_of run_t k w2 = Some r"
    by (auto intro: find_first_run_row)
  then show ?case
    by (rule_tac sticky.ord.effect_if, (intro effect_intros)[1])
       ((erule sticky.keep_bnd, (intro effect_intros; simp; fail)[1])+,
        erule keep_update_sticky, auto simp: run_like_def sticky_def executableStatuses_def
          terminal_status_def intro: effect_intros)
qed

end
