(* ===== verification/Runs.thy ===== *)
theory Runs
  imports Queue
begin

section \<open>Workflow runs\<close>

text \<open>
  \<open>apps/api/src/workflow-runs\<close>: the state machine of runs, the view of a run with its
  related rows, the queries and cancellation.
\<close>

subsection \<open>The state machine\<close>

definition invalid_transition :: "workflow_run_status \<Rightarrow> workflow_run_status \<Rightarrow> err" where
  "invalid_transition from to = DomainError WorkflowInvalidTransition
     (''Workflow run cannot transition from '' @ workflow_run_status_value from @ '' to ''
      @ workflow_run_status_value to @ ''.'')"

definition assertCanTransition :: "workflow_run_status \<Rightarrow> workflow_run_status \<Rightarrow> unit action" where
  "assertCanTransition from to =
     require (canTransitionWorkflowRun from to) (invalid_transition from to)"

definition terminalStatuses :: "workflow_run_status list" where
  "terminalStatuses = [Run_Completed, Run_Failed, Run_Canceled, Run_Denied]"

definition isTerminal :: "workflow_run_status \<Rightarrow> bool" where
  "isTerminal s \<longleftrightarrow> List.member terminalStatuses s"

primrec allowedDomainTransitions :: "workflow_run_status \<Rightarrow> workflow_run_status list" where
  "allowedDomainTransitions Run_Queued = [Run_Running, Run_Canceled]"
| "allowedDomainTransitions Run_Running =
    [Run_WaitingForApproval, Run_Completed, Run_Failed, Run_Canceled]"
| "allowedDomainTransitions Run_WaitingForApproval =
    [Run_Running, Run_Denied, Run_Failed, Run_Canceled]"
| "allowedDomainTransitions Run_Completed = []"
| "allowedDomainTransitions Run_Failed = []"
| "allowedDomainTransitions Run_Canceled = []"
| "allowedDomainTransitions Run_Denied = []"

lemma isTerminal_iff: "isTerminal s \<longleftrightarrow> terminal_status s"
  by (cases s) (simp_all add: isTerminal_def terminalStatuses_def terminal_status_def)

subsection \<open>The view of a run\<close>

definition toWorkflowRunDto :: "env \<Rightarrow> run_row \<Rightarrow> json" where
  "toWorkflowRunDto e r = JObj
     [(''id'', JStr (run_id r)),
      (''organizationId'', JStr (run_org r)),
      (''workflowId'', JStr (run_workflow r)),
      (''agentId'', JStr (run_agent r)),
      (''vendorId'', jopt (run_vendor r)),
      (''status'', JStr (workflow_run_status_value (run_status r))),
      (''startedAt'', iso_opt e (run_startedAt r)),
      (''completedAt'', iso_opt e (run_completedAt r)),
      (''currentStep'', jopt (run_currentStep r)),
      (''resultSummary'', jopt (run_resultSummary r)),
      (''errorMessage'', jopt (run_errorMessage r)),
      (''stateJson'', run_state r),
      (''createdAt'', JStr (iso e (run_createdAt r))),
      (''updatedAt'', JStr (iso e (run_updatedAt r)))]"

text \<open>\<open>enumToDomain\<close> of a member of a database enumeration.\<close>

definition enumToDomain :: "string \<Rightarrow> json" where
  "enumToDomain v = JStr (to_lower (prisma_enum v))"

record run_detail =
  rdt_run :: run_row
  rdt_workflow :: workflow_row
  rdt_agent :: agent_row
  rdt_vendor :: "vendor_row option"
  rdt_attempts :: "attempt_row list"
  rdt_files :: "file_row list"
  rdt_approvals :: "approval_row list"
  rdt_receipt :: "receipt_row option"

definition toWorkflowRunSummaryDto :: "env \<Rightarrow> run_detail \<Rightarrow> json" where
  "toWorkflowRunSummaryDto e d = JObj (spread (as_object (toWorkflowRunDto e (rdt_run d)))
     [(''workflow'', JObj [(''id'', JStr (wf_id (rdt_workflow d))),
         (''name'', JStr (wf_name (rdt_workflow d))),
         (''template'', JStr (workflow_template_value (wf_template (rdt_workflow d))))]),
      (''agent'', JObj [(''id'', JStr (ag_id (rdt_agent d))), (''name'', JStr (ag_name (rdt_agent d))),
         (''identifier'', JStr (ag_identifier (rdt_agent d)))]),
      (''vendor'', case rdt_vendor d of None \<Rightarrow> JNull | Some v \<Rightarrow>
         JObj [(''id'', JStr (ve_id v)), (''name'', JStr (ve_name v)), (''website'', JStr (ve_website v))])])"

definition detail_attempt :: "env \<Rightarrow> attempt_row \<Rightarrow> json" where
  "detail_attempt e a = JObj
     [(''id'', JStr (at_id a)), (''website'', JStr (at_website a)),
      (''actionType'', enumToDomain (action_type_value (at_actionType a))),
      (''riskLevel'', enumToDomain (risk_level_value (at_riskLevel a))),
      (''policyDecision'', enumToDomain (policy_decision_value (at_policyDecision a))),
      (''policyReason'', jopt (at_policyReason a)),
      (''inputSummary'', jopt (at_inputSummary a)),
      (''outputSummary'', jopt (at_outputSummary a)),
      (''amountCents'', jnum_opt (at_amountCents a)),
      (''metadataJson'', at_metadata a),
      (''createdAt'', JStr (iso e (at_createdAt a))),
      (''completedAt'', iso_opt e (at_completedAt a))]"

definition detail_file :: "env \<Rightarrow> file_row \<Rightarrow> json" where
  "detail_file e f = JObj
     [(''id'', JStr (fi_id f)), (''kind'', enumToDomain (file_kind_value (fi_kind f))),
      (''mimeType'', JStr (fi_mimeType f)), (''sizeBytes'', JNum (of_nat (fi_size f))),
      (''sha256'', JStr (fi_sha256 f)), (''createdAt'', JStr (iso e (fi_createdAt f)))]"

definition detail_approval :: "env \<Rightarrow> approval_row \<Rightarrow> json" where
  "detail_approval e a = JObj
     [(''id'', JStr (apr_id a)), (''status'', enumToDomain (approval_status_value (apr_status a))),
      (''summary'', JStr (apr_summary a)),
      (''riskLevel'', enumToDomain (risk_level_value (apr_riskLevel a))),
      (''amountCents'', jnum_opt (apr_amountCents a)),
      (''expiresAt'', iso_opt e (apr_expiresAt a)),
      (''approvedAt'', iso_opt e (apr_approvedAt a)),
      (''rejectedAt'', iso_opt e (apr_rejectedAt a)),
      (''createdAt'', JStr (iso e (apr_createdAt a)))]"

definition toWorkflowRunDetailDto :: "env \<Rightarrow> run_detail \<Rightarrow> json" where
  "toWorkflowRunDetailDto e d = JObj (spread (as_object (toWorkflowRunSummaryDto e d))
     [(''actionAttempts'', JArr (map (detail_attempt e) (rdt_attempts d))),
      (''files'', JArr (map (detail_file e) (rdt_files d))),
      (''approvalRequests'', JArr (map (detail_approval e) (rdt_approvals d))),
      (''receipt'', case rdt_receipt d of None \<Rightarrow> JNull | Some r \<Rightarrow>
         JObj [(''id'', JStr (re_id r)),
           (''finalStatus'', enumToDomain (receipt_status_value (re_finalStatus r))),
           (''summary'', JStr (re_summary r)),
           (''createdAt'', JStr (iso e (re_createdAt r)))])])"

subsection \<open>Queries\<close>

text \<open>The related rows of a run: the newest of each kind. A required relation without its row is
an error of the database client.\<close>

definition newest :: "('r \<Rightarrow> nat) \<Rightarrow> nat \<Rightarrow> 'r list \<Rightarrow> 'r list" where
  "newest created n rs = take n (rev (sort_key created rs))"

definition missing_relation :: "string \<Rightarrow> err" where
  "missing_relation field = PrismaError (''Inconsistent query result: Field '' @ field
     @ '' is required to return data, got `null` instead.'')"

definition include_detail :: "nat \<Rightarrow> nat \<Rightarrow> nat \<Rightarrow> run_row \<Rightarrow> run_detail action" where
  "include_detail n_attempts n_files n_approvals r =
    bnd (find_first workflow_t (\<lambda>x. wf_id x = run_workflow r)) (\<lambda>workflow.
    bnd (require_some workflow (missing_relation ''workflow'')) (\<lambda>workflow.
    bnd (find_first agent_t (\<lambda>x. ag_id x = run_agent r)) (\<lambda>agent.
    bnd (require_some agent (missing_relation ''agent'')) (\<lambda>agent.
    bnd (find_first vendor_t (\<lambda>x. run_vendor r = Some (ve_id x))) (\<lambda>vendor.
    bnd (find_many attempt_t (\<lambda>x. at_run x = run_id r)) (\<lambda>as.
    bnd (find_many file_t (\<lambda>x. fi_run x = Some (run_id r))) (\<lambda>fs.
    bnd (find_many approval_t (\<lambda>x. apr_run x = run_id r)) (\<lambda>ps.
    bnd (find_first receipt_t (\<lambda>x. re_run x = run_id r)) (\<lambda>receipt.
    ret \<lparr>rdt_run = r, rdt_workflow = workflow, rdt_agent = agent, rdt_vendor = vendor,
         rdt_attempts = newest at_createdAt n_attempts as,
         rdt_files = newest fi_createdAt n_files fs,
         rdt_approvals = newest apr_createdAt n_approvals ps, rdt_receipt = receipt\<rparr>)))))))))"

fun include_details :: "run_row list \<Rightarrow> run_detail list action" where
  "include_details [] = ret []"
| "include_details (r # rs) =
     bnd (include_detail 1 5 1 r) (\<lambda>d. bnd (include_details rs) (\<lambda>ds. ret (d # ds)))"

record run_query =
  rq_workflow :: "string option"
  rq_agent :: "string option"
  rq_vendor :: "string option"
  rq_status :: "workflow_run_status option"
  rq_limit :: nat
  rq_offset :: nat

definition run_where :: "string \<Rightarrow> run_query \<Rightarrow> run_row \<Rightarrow> bool" where
  "run_where org q r \<longleftrightarrow> run_org r = org
     \<and> matches (rq_workflow q) (run_workflow r) \<and> matches (rq_agent q) (run_agent r)
     \<and> (case rq_vendor q of None \<Rightarrow> True | Some v \<Rightarrow> run_vendor r = Some v)
     \<and> matches (rq_status q) (run_status r)"

definition run_list :: "string option \<Rightarrow> run_query \<Rightarrow> page_result action" where
  "run_list organizationId query =
    bnd (require_org organizationId) (\<lambda>org.
    bnd (find_many run_t (run_where org query)) (\<lambda>found.
    bnd (include_details (page_of (rq_offset query) (rq_limit query)
           (order_desc run_createdAt run_id found))) (\<lambda>ds.
    gets (\<lambda>w. \<lparr>pg_data = map (toWorkflowRunDetailDto (w_env w)) ds, pg_total = length found,
      pg_limit = rq_limit query, pg_offset = rq_offset query\<rparr>))))"

definition findRunInOrganization :: "string option \<Rightarrow> string \<Rightarrow> run_row action" where
  "findRunInOrganization organizationId k =
    bnd (require_org organizationId) (\<lambda>org.
    bnd (find_run k org) (\<lambda>run. require_some run run_not_found))"

definition findRunDetail :: "string option \<Rightarrow> string \<Rightarrow> run_detail action" where
  "findRunDetail organizationId k =
    bnd (require_org organizationId) (\<lambda>org.
    bnd (find_run k org) (\<lambda>run.
    bnd (require_some run run_not_found) (\<lambda>run.
    include_detail 10 10 5 run)))"

definition run_get :: "string option \<Rightarrow> string \<Rightarrow> json action" where
  "run_get organizationId k =
    bnd (findRunDetail organizationId k) (\<lambda>d. gets (\<lambda>w. toWorkflowRunDetailDto (w_env w) d))"

definition run_events :: "string option \<Rightarrow> string \<Rightarrow> json list action" where
  "run_events organizationId k =
    bnd (findRunInOrganization organizationId k) (\<lambda>_.
    bnd (find_many audit_t (\<lambda>a. Some (au_org a) = organizationId \<and> au_run a = Some k)) (\<lambda>found.
    gets (\<lambda>w. map (toAuditEventDto (w_env w)) (order_asc au_createdAt au_id found))))"

subsection \<open>Cancellation\<close>

definition cancel_nextState :: "json \<Rightarrow> (string \<times> json) list \<Rightarrow> json action" where
  "cancel_nextState existing transition =
    bnd new_date (\<lambda>canceled. bnd (iso_of canceled) (\<lambda>canceledAt.
    bnd new_date (\<lambda>now. bnd (iso_of now) (\<lambda>at_time.
    ret (JObj (spread (as_object existing)
      [(''transitionReason'', the (map_of transition ''reason'')),
       (''canceledAt'', JStr canceledAt),
       (''transitions'', JArr (as_array (map_of (as_object existing) ''transitions'')
          @ [JObj (spread transition [(''at'', JStr at_time)])]))]))))))"

definition now_unless :: "nat option \<Rightarrow> nat option action" where
  "now_unless v = (case v of Some t \<Rightarrow> ret (Some t) | None \<Rightarrow> bnd new_date (\<lambda>t. ret (Some t)))"

definition cancel :: "context_user option \<Rightarrow> string \<Rightarrow> string \<Rightarrow> json action" where
  "cancel currentUser k reason =
    bnd (require_some currentUser authentication_required) (\<lambda>user.
    bnd (findRunInOrganization (Some (cu_org user)) k) (\<lambda>existing.
    bnd (assertCanTransition (run_status existing) Run_Canceled) (\<lambda>_.
    bnd (if run_status existing = Run_Queued then removeStartJob k else ret False) (\<lambda>removedQueuedJob.
    bnd (if run_status existing = Run_Running \<or> run_status existing = Run_WaitingForApproval
         then bnd (enqueueCancel k (cu_org user) reason) (\<lambda>r. ret (Some (eq_jobId r)))
         else ret None) (\<lambda>cancelJobId.
    bnd (now_unless (run_completedAt existing)) (\<lambda>completedAt.
    bnd (cancel_nextState (run_state existing)
          [(''from'', prisma_status (run_status existing)), (''to'', prisma_status Run_Canceled),
           (''reason'', JStr reason), (''requestedByUserId'', JStr (cu_id user)),
           (''removedQueuedJob'', JBool removedQueuedJob), (''cancelJobId'', jopt cancelJobId)]) (\<lambda>state.
    bnd (update_run (run_id existing) (\<lambda>r. r\<lparr>run_status := Run_Canceled,
           run_completedAt := completedAt, run_errorMessage := Some reason, run_state := state\<rparr>)) (\<lambda>run.
    bnd (record_audit \<lparr>ai_org = cu_org user, ai_run = Some (run_id run),
           ai_agent = Some (run_agent run), ai_actorType = Actor_User, ai_actorId = Some (cu_id user),
           ai_eventType = Ev_WorkflowRunCanceled,
           ai_data = JObj [(''workflowRunId'', JStr (run_id run)),
             (''workflowId'', JStr (run_workflow run)), (''reason'', JStr reason),
             (''previousStatus'', prisma_status (run_status existing)),
             (''removedQueuedJob'', JBool removedQueuedJob),
             (''cancelJobId'', jopt cancelJobId)]\<rparr>) (\<lambda>_.
    gets (\<lambda>w. toWorkflowRunDto (w_env w) run))))))))))"

subsection \<open>Effects\<close>

lemma same_now_unless [effect_intros]:
  "(\<And>n. f (w\<lparr>reads := n\<rparr>) = f w) \<Longrightarrow> effect (same_of f) (now_unless v) w"
  by (cases v) (simp_all add: now_unless_def effect_def same_of_def run_simps)

lemma audit_now_unless [effect_intros]: "effect audit_ok (now_unless v) w"
  unfolding now_unless_def by (cases v) (simp_all, (intro effect_intros)+)

lemma audit_update_run [effect_intros]: "effect audit_ok (update_run k f) w"
  unfolding update_run_def by (intro effect_intros)

lemma audit_update_approval [effect_intros]: "effect audit_ok (update_approval k f) w"
  unfolding update_approval_def by (intro effect_intros)

lemma audit_assertCanTransition [effect_intros]: "effect audit_ok (assertCanTransition s t) w"
  unfolding assertCanTransition_def by (intro effect_intros)

lemma same_assertCanTransition [effect_intros]: "effect (same_of f) (assertCanTransition s t) w"
  unfolding assertCanTransition_def by (intro effect_intros)

lemma assertCanTransition_Inr [simp]:
  "assertCanTransition s t w = (Inr x, w') \<longleftrightarrow> canTransitionWorkflowRun s t \<and> w' = w"
  by (simp add: assertCanTransition_def)

lemma same_findRunInOrganization [effect_intros]: "effect (same_of f) (findRunInOrganization org k) w"
  unfolding findRunInOrganization_def wrap_defs by (intro effect_intros)

lemma audit_findRunInOrganization [effect_intros]: "effect audit_ok (findRunInOrganization org k) w"
  unfolding findRunInOrganization_def wrap_defs by (intro effect_intros)

lemma same_cancel_nextState [effect_intros]:
  "(\<And>w n. f (w\<lparr>reads := n\<rparr>) = f w) \<Longrightarrow> effect (same_of f) (cancel_nextState j tr) w"
  unfolding cancel_nextState_def wrap_defs by (intro effect_intros)

lemma audit_cancel_nextState [effect_intros]: "effect audit_ok (cancel_nextState j tr) w"
  unfolding cancel_nextState_def wrap_defs by (intro effect_intros)

lemma audit_cancel [effect_intros]: "effect audit_ok (cancel u k reason) w"
  unfolding cancel_def by (intro effect_intros)

lemma findRunInOrganization_row:
  assumes "unique_runs w" and "findRunInOrganization org k w = (Inr r, w')"
  shows "row_of run_t k w = Some r" and "run_id r = k" and "Some (run_org r) = org" and "w' = w"
proof -
  have "findRunInOrganization org k w = (case org of None \<Rightarrow> throw organization_required w
    | Some g \<Rightarrow> if g = [] then throw organization_required w
        else bnd (find_run k g) (\<lambda>run. require_some run run_not_found) w)"
    by (simp add: findRunInOrganization_def require_org_def truthy_def step_simps split: option.split)
  then obtain g where org: "org = Some g"
    and "bnd (find_run k g) (\<lambda>run. require_some run run_not_found) w = (Inr r, w')"
    using assms(2) by (auto simp: throw_def split: option.splits if_splits)
  then obtain w1 where "find_run k g w = (Inr (Some r), w1)" and "w' = w1"
    by (auto elim!: bnd_InrE)
  then show "row_of run_t k w = Some r" "run_id r = k" "Some (run_org r) = org" "w' = w"
    using find_run_row [OF assms(1)] org by auto
qed

text \<open>A canceled run was queued, running or waiting: cancellation moves a run only along the
transitions of the domain.\<close>

lemma cancel_runs [effect_intros]: "effect (runs_ok legal) (cancel u k reason) w"
proof (rule legal.rows_unique)
  assume unique: "unique_runs w"
  show "effect (runs_ok legal) (cancel u k reason) w"
    unfolding cancel_def
  proof (rule legal.ord.effect_bnd, intro effect_intros, rule legal.ord.effect_bnd,
      intro legal.rows_same effect_intros, goal_cases)
    case (1 user w1 existing w2)
    then have "row_of run_t (run_id existing) w2 = Some existing"
      using findRunInOrganization_row [of w1 "Some (cu_org user)" k existing w2] unique by auto
    then show ?case
      by (rule legal.keep_bnd, intro effect_intros)
         ((erule legal.keep_bnd, (intro effect_intros; simp; fail)[1])+,
          erule keep_update_legal, auto simp: run_like_def legal_step intro: effect_intros)
  qed
qed

subsection \<open>Properties\<close>

text \<open>The table the state machine keeps for itself and the domain's transition table are the
same, \<open>isTerminal\<close> is exactly the absence of successors, and the assertion throws, leaving
the world alone, exactly on the pairs that are not in the table.\<close>

theorem state_machine_agrees:
  "allowedDomainTransitions s = WORKFLOW_RUN_TRANSITIONS s
   \<and> (isTerminal s \<longleftrightarrow> WORKFLOW_RUN_TRANSITIONS s = [])
   \<and> assertCanTransition s t w =
       (if t \<in> set (WORKFLOW_RUN_TRANSITIONS s) then Inr () else Inl (invalid_transition s t), w)"
  by (cases s) (simp_all add: isTerminal_def terminalStatuses_def assertCanTransition_def
      canTransitionWorkflowRun_def run_simps)

lemma now_unless_run:
  "now_unless v w = (Inr (Some (coalesce v (clock (w_env w) (reads w)))),
     if v = None then w\<lparr>reads := Suc (reads w)\<rparr> else w)"
  by (cases v) (simp_all add: now_unless_def run_simps)

lemma cancel_nextState_run:
  "\<exists>state. cancel_nextState ex tr w = (Inr state, w\<lparr>reads := Suc (Suc (reads w))\<rparr>)"
  by (simp add: cancel_nextState_def step_simps ret_def)

lemma removeStartJob_run:
  assumes "unique_jobs w"
  obtains b w' where "removeStartJob k w = (Inr b, w')" and "runs w' = runs w" and "w_env w' = w_env w"
    and "\<not> (\<exists>j\<in>set (jobs w'). has_job_id Queue_runs (workflowStartJobId k) j \<and> is_pending_state (jb_state j))"
proof (cases "find (has_job_id Queue_runs (workflowStartJobId k)) (jobs w)")
  case None
  then show ?thesis
    by (intro that [of False w]) (simp_all add: removeStartJob_eq None, use None in \<open>auto simp: find_None_iff\<close>)
next
  case (Some j)
  show ?thesis
  proof (cases "is_pending_state (jb_state j)")
    case True
    show ?thesis
      by (rule that [of True "snd (removeStartJob k w)"])
         (simp_all add: removeStartJob_eq Some True recordQueueDepth_def run_simps has_job_id_def)
  next
    case False
    have "j' = j" if "j' \<in> set (jobs w)" "has_job_id Queue_runs (workflowStartJobId k) j'" for j'
      using assms find_SomeD [OF Some] that
      by (intro inj_onD [of "\<lambda>j. (jb_queue j, jb_id j)" "set (jobs w)"])
         (auto simp: unique_jobs_def distinct_map has_job_id_def)
    then show ?thesis
      using that [of False w] False by (auto simp: removeStartJob_eq Some)
  qed
qed

lemma enqueueCancel_run:
  obtains r w' where "enqueueCancel k org reason w = (Inr r, w')" and "runs w' = runs w" and "w_env w' = w_env w"
    and "\<exists>j\<in>set (jobs w'). has_job_id Queue_maintenance (workflowCancelJobId k) j"
    and "eq_jobId r = workflowCancelJobId k"
proof -
  have free: "queue_free runs" "queue_free w_env" by (simp_all add: queue_free_def)
  obtain d where run: "enqueueCancel k org reason w
      = addIdempotent Queue_maintenance (WORKFLOW_QUEUE_JOB_NAMES Mode_cancel) (workflowCancelJobId k) d
          signalJobOptions (w\<lparr>reads := Suc (Suc (reads w))\<rparr>)"
    by (simp add: enqueueCancel_def stamped_def issueRunToken_def bnd_assoc step_simps)
  let ?add = "addIdempotent Queue_maintenance (WORKFLOW_QUEUE_JOB_NAMES Mode_cancel) (workflowCancelJobId k) d
          signalJobOptions" and ?w = "w\<lparr>reads := Suc (Suc (reads w))\<rparr>"
  have same: "runs (snd (?add ?w)) = runs w" "w_env (snd (?add ?w)) = w_env w"
    using same_queue_ops(1) [OF free(1)] same_queue_ops(1) [OF free(2)]
    by (simp_all add: effect_def same_of_def)
  show ?thesis
  proof (cases "find (has_job_id Queue_maintenance (workflowCancelJobId k)) (jobs ?w)")
    case None
    show ?thesis
      by (rule that [of "\<lparr>eq_jobId = workflowCancelJobId k, eq_queue = Queue_maintenance, eq_created = True\<rparr>" "snd (?add ?w)"])
         (use addIdempotent_new [OF None] same in \<open>simp_all add: run prod_eq_iff has_job_id_def\<close>)
  next
    case (Some j)
    show ?thesis
      by (rule that [of _ ?w])
         (use find_SomeD [OF Some] in \<open>auto simp: run addIdempotent_old [OF Some]\<close>)
  qed
qed

text \<open>The signals of a cancellation: the start job is taken out of its queue, or a cancel job is added.\<close>

lemma cancel_signals:
  assumes "unique_jobs w" and "\<not> terminal_status s"
  obtains b w1 c w2 where "(if s = Run_Queued then removeStartJob k else ret False) w = (Inr b, w1)"
    and "(if s = Run_Running \<or> s = Run_WaitingForApproval
         then bnd (enqueueCancel k g reason) (\<lambda>r. ret (Some (eq_jobId r))) else ret None) w1 = (Inr c, w2)"
    and "runs w2 = runs w" and "w_env w2 = w_env w"
    and "if s = Run_Queued
      then \<not> (\<exists>j\<in>set (jobs w2). has_job_id Queue_runs (workflowStartJobId k) j \<and> is_pending_state (jb_state j))
      else \<exists>j\<in>set (jobs w2). has_job_id Queue_maintenance (workflowCancelJobId k) j"
proof (cases "s = Run_Queued")
  case True
  obtain b w1 where "removeStartJob k w = (Inr b, w1)" "runs w1 = runs w" "w_env w1 = w_env w"
    "\<not> (\<exists>j\<in>set (jobs w1). has_job_id Queue_runs (workflowStartJobId k) j \<and> is_pending_state (jb_state j))"
    using removeStartJob_run [OF assms(1), of k] by blast
  with True show ?thesis by (intro that [of b w1 None w1]) (simp_all add: ret_def)
next
  case False
  then have s: "s = Run_Running \<or> s = Run_WaitingForApproval"
    using assms(2) by (cases s) (simp_all add: terminal_status_def)
  obtain q w' where "enqueueCancel k g reason w = (Inr q, w')"
    "runs w' = runs w" "w_env w' = w_env w" "\<exists>j\<in>set (jobs w'). has_job_id Queue_maintenance (workflowCancelJobId k) j"
    by (rule enqueueCancel_run)
  with s False show ?thesis
    by (intro that [of False w "Some (eq_jobId q)" w']) (auto simp: bnd_def ret_def)
qed

lemma cancel_run:
  assumes "unique_runs w" and "unique_jobs w" and "cu_org user \<noteq> []"
    and found: "find (\<lambda>r. run_id r = k \<and> run_org r = cu_org user) (runs w) = Some r"
    and "\<not> terminal_status (run_status r)"
  shows "\<exists>j w' r'. cancel (Some user) k reason w = (Inr j, w') \<and> row_of run_t k w' = Some r'
          \<and> run_status r' = Run_Canceled \<and> run_errorMessage r' = Some reason
          \<and> run_completedAt r' \<noteq> None \<and> (run_completedAt r \<noteq> None \<longrightarrow> run_completedAt r' = run_completedAt r)
          \<and> (if run_status r = Run_Queued
             then \<not> (\<exists>j\<in>set (jobs w'). has_job_id Queue_runs (workflowStartJobId k) j \<and> is_pending_state (jb_state j))
             else \<exists>j\<in>set (jobs w'). has_job_id Queue_maintenance (workflowCancelJobId k) j)
          \<and> au_eventType (last (audits w')) = Ev_WorkflowRunCanceled \<and> au_run (last (audits w')) = Some k
          \<and> au_actorId (last (audits w')) = Some (cu_id user)"
proof -
  have row: "row_of run_t k w = Some r" and k: "run_id r = k" "run_org r = cu_org user"
    using find_unique [OF assms(1) [unfolded unique_keys_def tkey_run_t tget_run_t] found] find_SomeD [OF found]
    by (auto simp: row_of_def run_t_def)
  have can: "canTransitionWorkflowRun (run_status r) Run_Canceled"
    using assms(5) by (cases "run_status r") (simp_all add: canTransition_iff terminal_status_def)
  define m1 where "m1 = (if run_status r = Run_Queued then removeStartJob k else ret False)"
  define m2 where "m2 = (if run_status r = Run_Running \<or> run_status r = Run_WaitingForApproval
       then bnd (enqueueCancel k (cu_org user) reason) (\<lambda>r. ret (Some (eq_jobId r))) else ret None)"
  obtain b w1 c w2 where m1: "m1 w = (Inr b, w1)" and m2: "m2 w1 = (Inr c, w2)"
    and w2: "runs w2 = runs w" "w_env w2 = w_env w"
    and signals: "if run_status r = Run_Queued
      then \<not> (\<exists>j\<in>set (jobs w2). has_job_id Queue_runs (workflowStartJobId k) j \<and> is_pending_state (jb_state j))
      else \<exists>j\<in>set (jobs w2). has_job_id Queue_maintenance (workflowCancelJobId k) j"
    unfolding m1_def m2_def by (rule cancel_signals [OF assms(2,5)])
  define w3 where "w3 = (if run_completedAt r = None then w2\<lparr>reads := Suc (reads w2)\<rparr> else w2)"
  define ct where "ct = coalesce (run_completedAt r) (clock (w_env w2) (reads w2))"
  define w4 where "w4 = w3\<lparr>reads := Suc (Suc (reads w3))\<rparr>"
  obtain state where state: "cancel_nextState (run_state r)
        [(''from'', prisma_status (run_status r)), (''to'', prisma_status Run_Canceled),
         (''reason'', JStr reason), (''requestedByUserId'', JStr (cu_id user)),
         (''removedQueuedJob'', JBool b), (''cancelJobId'', jopt c)] w3 = (Inr state, w4)"
    using cancel_nextState_run unfolding w4_def by metis
  have runs4: "runs w4 = runs w" "jobs w4 = jobs w2"
    by (simp_all add: w4_def w3_def w2)
  then have row4: "row_of run_t k w4 = Some r"
    using row by (simp add: row_of_def run_t_def)
  define f where "f = (\<lambda>q :: run_row. q\<lparr>run_status := Run_Canceled, run_completedAt := Some ct,
     run_errorMessage := Some reason, run_state := state,
     run_updatedAt := clock (w_env w4) (reads w4)\<rparr>)"
  define w5 where "w5 = w4\<lparr>reads := Suc (reads w4), runs := upd_row run_id k f (runs w4)\<rparr>"
  define ev where "ev = \<lparr>ai_org = cu_org user, ai_run = Some k,
         ai_agent = Some (run_agent (f r)), ai_actorType = Actor_User, ai_actorId = Some (cu_id user),
         ai_eventType = Ev_WorkflowRunCanceled,
         ai_data = JObj [(''workflowRunId'', JStr k), (''workflowId'', JStr (run_workflow (f r))),
           (''reason'', JStr reason), (''previousStatus'', prisma_status (run_status r)),
           (''removedQueuedJob'', JBool b), (''cancelJobId'', jopt c)]\<rparr>"
  have run: "cancel (Some user) k reason w
      = (Inr (toWorkflowRunDto (w_env (snd (record_audit ev w5))) (f r)), snd (record_audit ev w5))"
    using can
    by (simp add: cancel_def findRunInOrganization_def require_org_def truthy_def assms(3) bnd_assoc
        step_simps found assertCanTransition_def m1_def [symmetric] m2_def [symmetric]
        bnd_Inr [where m = m1, OF m1] bnd_Inr [where m = m2, OF m2] k
        bnd_Inr [where m = "now_unless v" for v, OF now_unless_run] w3_def [symmetric] ct_def [symmetric]
        bnd_Inr [where m = "cancel_nextState a c" for a c, OF state] row4 gets_def)
       (simp add: f_def w5_def ev_def k)
  have "row_of run_t k w5 = Some (f r)"
    using row_of_upd_runs [of f k k "runs w4" "w4\<lparr>reads := Suc (reads w4)\<rparr>"] row4
    by (simp add: w5_def f_def row_of_def run_t_def)
  moreover have "jobs (snd (record_audit ev w5)) = jobs w2"
    by (simp add: record_audit_run Let_def w5_def runs4)
  ultimately show ?thesis
    using signals by (auto simp: run record_audit_last ev_def f_def ct_def split: option.splits)
qed

text \<open>C5. Cancellation by a signed-in user of the run's organization: a run that has not ended
becomes canceled with the reason and a completion time, it keeps the time it had, no job that
would still start it remains when it was queued, a cancel signal is in the maintenance queue
when it was running or waiting, and one event naming the user is recorded. A run that has
ended, an unknown run or a run of another organization is refused with nothing changed.\<close>

theorem cancel_correct:
  assumes "unique_runs w" and "unique_jobs w" and "cu_org user \<noteq> []"
  shows "case find (\<lambda>r. run_id r = k \<and> run_org r = cu_org user) (runs w) of
      None \<Rightarrow> cancel (Some user) k reason w = (Inl run_not_found, w)
    | Some r \<Rightarrow>
        if terminal_status (run_status r)
        then cancel (Some user) k reason w = (Inl (invalid_transition (run_status r) Run_Canceled), w)
        else \<exists>j w' r'. cancel (Some user) k reason w = (Inr j, w') \<and> row_of run_t k w' = Some r'
          \<and> run_status r' = Run_Canceled \<and> run_errorMessage r' = Some reason
          \<and> run_completedAt r' \<noteq> None \<and> (run_completedAt r \<noteq> None \<longrightarrow> run_completedAt r' = run_completedAt r)
          \<and> (if run_status r = Run_Queued
             then \<not> (\<exists>j\<in>set (jobs w'). has_job_id Queue_runs (workflowStartJobId k) j \<and> is_pending_state (jb_state j))
             else \<exists>j\<in>set (jobs w'). has_job_id Queue_maintenance (workflowCancelJobId k) j)
          \<and> au_eventType (last (audits w')) = Ev_WorkflowRunCanceled \<and> au_run (last (audits w')) = Some k
          \<and> au_actorId (last (audits w')) = Some (cu_id user)"
proof (cases "find (\<lambda>r. run_id r = k \<and> run_org r = cu_org user) (runs w)")
  case None
  then show ?thesis
    by (simp add: cancel_def findRunInOrganization_def require_org_def truthy_def assms(3) step_simps bnd_assoc throw_def)
next
  case (Some r)
  show ?thesis
  proof (cases "terminal_status (run_status r)")
    case True
    then have "\<not> canTransitionWorkflowRun (run_status r) Run_Canceled"
      by (cases "run_status r") (simp_all add: canTransition_iff terminal_status_def)
    then show ?thesis
      using True by (simp add: Some cancel_def findRunInOrganization_def require_org_def truthy_def assms(3)
          step_simps bnd_assoc assertCanTransition_def throw_def)
  next
    case False
    with cancel_run [OF assms Some False] show ?thesis by (simp add: Some)
  qed
qed

definition demo_run :: "workflow_run_status \<Rightarrow> run_row" where
  "demo_run s = \<lparr>run_id = ''r'', run_org = ''o'', run_workflow = ''w'', run_agent = ''a'',
     run_vendor = None, run_status = s, run_startedAt = None, run_completedAt = None,
     run_currentStep = None, run_resultSummary = None, run_errorMessage = None,
     run_state = JObj [], run_createdAt = 0, run_updatedAt = 0\<rparr>"

definition demo_world :: "workflow_run_status \<Rightarrow> world" where
  "demo_world s = (empty_world demo_env)\<lparr>runs := [demo_run s]\<rparr>"

definition demo_user :: context_user where
  "demo_user = \<lparr>cu_id = ''u'', cu_org = ''o'', cu_role = Role_Owner, cu_email = ''''\<rparr>"

lemma demo_unique: "unique_runs (demo_world s)" "unique_jobs (demo_world s)"
  by (simp_all add: unique_keys_def unique_jobs_def demo_world_def empty_world_def)

lemma demo_runs [simp]: "runs (demo_world s) = [demo_run s]"
  by (simp add: demo_world_def)

theorem cancel_correct_witness:
  "\<exists>j w' r'. cancel (Some demo_user) ''r'' ''why'' (demo_world Run_Running) = (Inr j, w')
     \<and> row_of run_t ''r'' w' = Some r' \<and> run_status r' = Run_Canceled
     \<and> (\<exists>j\<in>set (jobs w'). has_job_id Queue_maintenance (workflowCancelJobId ''r'') j)"
  using cancel_correct [OF demo_unique(1) [of Run_Running] demo_unique(2), where user = demo_user and k = "''r''" and reason = "''why''"]
  by (auto simp: demo_user_def demo_run_def terminal_status_def)

end
