(* ===== verification/Files.thy ===== *)
theory Files
  imports Runs
begin

section \<open>Stored files\<close>

text \<open>
  \<open>apps/api/src/files\<close>: the object store (\<open>file-storage.service.ts\<close>) and the records of its
  objects (\<open>files.service.ts\<close>). Bytes are strings of characters. The store's answer to a
  request is the platform's: a request may fail (\<open>s3_fault\<close>), otherwise it acts on \<open>buckets\<close>
  and \<open>objects\<close>.
\<close>

subsection \<open>The object store\<close>

definition s3_send :: "unit action" where
  "s3_send = bnd (gets (\<lambda>w. s3_fault (w_env w) (reads w))) (\<lambda>fault.
     bnd (modify (\<lambda>w. w\<lparr>reads := Suc (reads w)\<rparr>)) (\<lambda>_.
     case fault of None \<Rightarrow> ret () | Some e \<Rightarrow> throw e))"

definition isMissingBucket :: "err \<Rightarrow> bool" where
  "isMissingBucket e \<longleftrightarrow> err_name e = ''NotFound'' \<or> err_name e = ''NoSuchBucket''"

definition isMissingObject :: "err \<Rightarrow> bool" where
  "isMissingObject e \<longleftrightarrow> err_name e = ''NoSuchKey'' \<or> err_name e = ''NotFound''"

definition head_bucket :: "unit action" where
  "head_bucket = bnd s3_send (\<lambda>_.
     bnd (gets (\<lambda>w. List.member (buckets w) (s3_bucket (w_env w)))) (\<lambda>found.
     require found (JsError ''NotFound'' ''UnknownError'')))"

definition ensureBucket :: "unit action" where
  "ensureBucket =
    bnd (gets bucket_ready) (\<lambda>ready.
    if ready then ret ()
    else
      bnd (try_catch head_bucket (\<lambda>e.
             if \<not> isMissingBucket e then throw e
             else bnd s3_send (\<lambda>_. modify (\<lambda>w. w\<lparr>buckets := buckets w @ [s3_bucket (w_env w)]\<rparr>)))) (\<lambda>_.
      modify (\<lambda>w. w\<lparr>bucket_ready := True\<rparr>)))"

definition putObject :: "string \<Rightarrow> string \<Rightarrow> unit action" where
  "putObject objectKey bytes =
    bnd ensureBucket (\<lambda>_.
    bnd s3_send (\<lambda>_.
    modify (\<lambda>w. w\<lparr>objects := (objects w)((s3_bucket (w_env w), objectKey) \<mapsto> bytes)\<rparr>)))"

definition head_object :: "string \<Rightarrow> string \<Rightarrow> bool action" where
  "head_object bucket objectKey = bnd s3_send (\<lambda>_.
     bnd (gets (\<lambda>w. objects w (bucket, objectKey))) (\<lambda>found.
     bnd (require (found \<noteq> None) (JsError ''NotFound'' ''UnknownError'')) (\<lambda>_. ret True)))"

definition objectExists :: "string \<Rightarrow> string \<Rightarrow> bool action" where
  "objectExists bucket objectKey =
    try_catch (head_object bucket objectKey) (\<lambda>e. if isMissingObject e then ret False else throw e)"

definition object_not_found :: err where
  "object_not_found = DomainError NotFound ''File object was not found in storage.''"

definition getObject :: "string \<Rightarrow> string \<Rightarrow> string action" where
  "getObject bucket objectKey =
    try_catch
      (bnd s3_send (\<lambda>_.
       bnd (gets (\<lambda>w. objects w (bucket, objectKey))) (\<lambda>found.
       require_some found (JsError ''NoSuchKey'' ''The specified key does not exist.''))))
      (\<lambda>e. if isMissingObject e then throw object_not_found else throw e)"

definition signedReadUrl :: "string \<Rightarrow> string \<Rightarrow> nat \<Rightarrow> string action" where
  "signedReadUrl bucket objectKey expiresInSeconds =
    bnd (objectExists bucket objectKey) (\<lambda>found.
    bnd (require found object_not_found) (\<lambda>_.
    gets (\<lambda>w. signedUrl (w_env w) bucket objectKey expiresInSeconds)))"

subsection \<open>What may be stored\<close>

definition MAX_FILE_SIZE_BYTES :: nat where
  "MAX_FILE_SIZE_BYTES = 10 * 1024 * 1024"

definition assertFileSize :: "string \<Rightarrow> unit action" where
  "assertFileSize buffer = require (length buffer \<le> MAX_FILE_SIZE_BYTES)
     (DomainError ValidationFailed ''File is too large.'')"

text \<open>\<open>buffer.subarray(a, b).toString('ascii')\<close> clears the top bit of every byte.\<close>

definition ascii :: "string \<Rightarrow> string" where
  "ascii bytes = map (\<lambda>c. char_of (of_char c mod 128 :: nat)) bytes"

definition subarray :: "nat \<Rightarrow> nat \<Rightarrow> string \<Rightarrow> string" where
  "subarray a b bytes = drop a (take b bytes)"

definition bytes_of :: "nat list \<Rightarrow> string" where
  "bytes_of ns = map char_of ns"

definition looksLikeJson :: "env \<Rightarrow> string \<Rightarrow> bool" where
  "looksLikeJson e buffer =
    (let text = trim (utf8_text e buffer) in text \<noteq> [] \<and> parse_json e text \<noteq> None)"

definition magic_ok :: "env \<Rightarrow> string \<Rightarrow> string \<Rightarrow> bool" where
  "magic_ok e buffer mimeType =
    (let mime = to_lower mimeType in
     if mime = ''image/png'' then subarray 0 8 buffer = bytes_of [0x89, 0x50, 0x4E, 0x47, 0x0D, 0x0A, 0x1A, 0x0A]
     else if mime = ''image/jpeg'' then 3 \<le> length buffer \<and> take 3 buffer = bytes_of [0xFF, 0xD8, 0xFF]
     else if mime = ''image/webp'' then ascii (subarray 0 4 buffer) = ''RIFF'' \<and> ascii (subarray 8 12 buffer) = ''WEBP''
     else if mime = ''application/pdf'' then ascii (subarray 0 5 buffer) = ''%PDF-''
     else if mime = ''application/json'' then looksLikeJson e buffer
     else if mime = ''application/zip'' then subarray 0 4 buffer = bytes_of [0x50, 0x4B, 0x03, 0x04]
     else mime = ''text/csv'' \<or> mime = ''text/plain'' \<or> mime = ''application/octet-stream'')"

definition assertMagicBytes :: "string \<Rightarrow> string \<Rightarrow> unit action" where
  "assertMagicBytes buffer mimeType =
    bnd (gets (\<lambda>w. magic_ok (w_env w) buffer mimeType)) (\<lambda>ok.
    require ok (DomainError ValidationFailed ''File content does not match declared MIME type.''))"

definition assertKnownKind :: "file_kind \<Rightarrow> unit action" where
  "assertKnownKind kind = require (List.member FILE_KINDS kind)
     (DomainError ValidationFailed ''File kind must be known.'')"

definition safe_char :: "char \<Rightarrow> bool" where
  "safe_char c \<longleftrightarrow> (CHR ''a'' \<le> c \<and> c \<le> CHR ''z'') \<or> (CHR ''A'' \<le> c \<and> c \<le> CHR ''Z'')
     \<or> (CHR ''0'' \<le> c \<and> c \<le> CHR ''9'') \<or> c = CHR ''.'' \<or> c = CHR ''_'' \<or> c = CHR ''-''"

definition sanitizeFilename :: "string \<Rightarrow> string" where
  "sanitizeFilename filename =
    (let slashed = map (\<lambda>c. if c = CHR 0x5C then CHR ''/'' else c) filename;
         sanitized = map (\<lambda>c. if safe_char c then c else CHR ''_'') (last (split_on (CHR ''/'') slashed))
     in if sanitized \<noteq> [] then sanitized else ''artifact.bin'')"

definition buildObjectKey :: "string \<Rightarrow> string option \<Rightarrow> string \<Rightarrow> string \<Rightarrow> string" where
  "buildObjectKey organizationId workflowRunId fileId filename =
    (let runPrefix = (if truthy workflowRunId then ''workflow-runs/'' @ the workflowRunId else ''unscoped'')
     in ''organizations/'' @ organizationId @ ''/'' @ runPrefix @ ''/'' @ fileId @ ''/'' @ sanitizeFilename filename)"

subsection \<open>File records\<close>

record upload_input =
  ub_org :: string
  ub_run :: "string option"
  ub_kind :: file_kind
  ub_filename :: string
  ub_mimeType :: string
  ub_buffer :: string

record file_input =
  fc_org :: string
  fc_run :: "string option"
  fc_kind :: file_kind
  fc_bucket :: string
  fc_objectKey :: string
  fc_mimeType :: string
  fc_size :: nat
  fc_sha256 :: string

record file_dto =
  fd_id :: string
  fd_org :: string
  fd_run :: "string option"
  fd_kind :: file_kind
  fd_mimeType :: string
  fd_size :: nat
  fd_sha256 :: string
  fd_createdAt :: string

definition toFileDto :: "env \<Rightarrow> file_row \<Rightarrow> file_dto" where
  "toFileDto e f = \<lparr>fd_id = fi_id f, fd_org = fi_org f, fd_run = fi_run f, fd_kind = fi_kind f,
     fd_mimeType = fi_mimeType f, fd_size = fi_size f, fd_sha256 = fi_sha256 f,
     fd_createdAt = iso e (fi_createdAt f)\<rparr>"

definition calculateSha256 :: "string \<Rightarrow> string action" where
  "calculateSha256 bytes = gets (\<lambda>w. sha256 (w_env w) bytes)"

definition assertRunInOrganization :: "string \<Rightarrow> string \<Rightarrow> unit action" where
  "assertRunInOrganization organizationId workflowRunId =
    bnd (find_run workflowRunId organizationId) (\<lambda>run.
    require (run \<noteq> None) (DomainError OrganizationIsolationViolation ''Workflow run belongs to another organization.''))"

definition createFileRecord :: "file_input \<Rightarrow> string \<Rightarrow> file_dto action" where
  "createFileRecord i k =
    bnd (assertKnownKind (fc_kind i)) (\<lambda>_.
    bnd (objectExists (fc_bucket i) (fc_objectKey i)) (\<lambda>found.
    bnd (require found (DomainError NotFound ''Cannot create file record for a missing storage object.'')) (\<lambda>_.
    bnd (run_if (truthy (fc_run i)) (assertRunInOrganization (fc_org i) (the (fc_run i)))) (\<lambda>_.
    bnd new_date (\<lambda>now.
    bnd (create_row file_t \<lparr>fi_id = k, fi_org = fc_org i, fi_run = fc_run i, fi_kind = fc_kind i,
      fi_bucket = fc_bucket i, fi_objectKey = fc_objectKey i, fi_mimeType = fc_mimeType i,
      fi_size = fc_size i, fi_sha256 = fc_sha256 i, fi_createdAt = now\<rparr>) (\<lambda>f.
    gets (\<lambda>w. toFileDto (w_env w) f)))))))"

definition uploadBuffer :: "upload_input \<Rightarrow> file_dto action" where
  "uploadBuffer i =
    bnd (assertKnownKind (ub_kind i)) (\<lambda>_.
    bnd (assertFileSize (ub_buffer i)) (\<lambda>_.
    bnd (assertMagicBytes (ub_buffer i) (ub_mimeType i)) (\<lambda>_.
    bnd (run_if (truthy (ub_run i)) (assertRunInOrganization (ub_org i) (the (ub_run i)))) (\<lambda>_.
    bnd fresh_id (\<lambda>fileId.
    bnd (calculateSha256 (ub_buffer i)) (\<lambda>hash.
    bnd (putObject (buildObjectKey (ub_org i) (ub_run i) fileId (ub_filename i)) (ub_buffer i)) (\<lambda>_.
    bnd (gets (\<lambda>w. s3_bucket (w_env w))) (\<lambda>bucket.
    createFileRecord \<lparr>fc_org = ub_org i, fc_run = ub_run i, fc_kind = ub_kind i, fc_bucket = bucket,
      fc_objectKey = buildObjectKey (ub_org i) (ub_run i) fileId (ub_filename i),
      fc_mimeType = ub_mimeType i, fc_size = length (ub_buffer i), fc_sha256 = hash\<rparr> fileId))))))))"

text \<open>The chunks of a stream are collected first.\<close>

definition uploadStream :: "upload_input \<Rightarrow> string list \<Rightarrow> file_dto action" where
  "uploadStream i chunks = uploadBuffer (i\<lparr>ub_buffer := concat chunks\<rparr>)"

definition findFileForOrganization :: "string option \<Rightarrow> string \<Rightarrow> file_row action" where
  "findFileForOrganization organizationId k =
    bnd (require_org organizationId) (\<lambda>org.
    bnd (find_first file_t (\<lambda>f. fi_id f = k \<and> fi_org f = org)) (\<lambda>found.
    require_some found (DomainError NotFound ''File was not found.'')))"

definition getFileForOrganization :: "string option \<Rightarrow> string \<Rightarrow> file_dto action" where
  "getFileForOrganization organizationId k =
    bnd (findFileForOrganization organizationId k) (\<lambda>f. gets (\<lambda>w. toFileDto (w_env w) f))"

definition downloadForOrganization :: "string option \<Rightarrow> string \<Rightarrow> (file_dto \<times> string) action" where
  "downloadForOrganization organizationId k =
    bnd (findFileForOrganization organizationId k) (\<lambda>f.
    bnd (getObject (fi_bucket f) (fi_objectKey f)) (\<lambda>bytes.
    bnd (calculateSha256 bytes) (\<lambda>hash.
    bnd (require (hash = fi_sha256 f) (DomainError ValidationFailed ''Downloaded file failed integrity verification.'')) (\<lambda>_.
    gets (\<lambda>w. (toFileDto (w_env w) f, bytes))))))"

definition getSignedReadUrl :: "string option \<Rightarrow> string \<Rightarrow> nat option \<Rightarrow> string action" where
  "getSignedReadUrl organizationId k expiresInSeconds =
    bnd (findFileForOrganization organizationId k) (\<lambda>f.
    signedReadUrl (fi_bucket f) (fi_objectKey f) (coalesce expiresInSeconds 300))"

subsection \<open>Effects\<close>

text \<open>The store operations touch the bucket, the objects and the clock only.\<close>

definition store_free :: "(world \<Rightarrow> 'x) \<Rightarrow> bool" where
  "store_free f \<longleftrightarrow> (\<forall>w n. f (w\<lparr>reads := n\<rparr>) = f w) \<and> (\<forall>w v. f (w\<lparr>buckets := v\<rparr>) = f w)
     \<and> (\<forall>w v. f (w\<lparr>bucket_ready := v\<rparr>) = f w) \<and> (\<forall>w v. f (w\<lparr>objects := v\<rparr>) = f w)"

lemma store_freeD:
  assumes "store_free f"
  shows "f (w\<lparr>reads := n\<rparr>) = f w" "f (w\<lparr>buckets := bs\<rparr>) = f w"
    "f (w\<lparr>bucket_ready := r\<rparr>) = f w" "f (w\<lparr>objects := os\<rparr>) = f w"
  using assms by (simp_all add: store_free_def)

lemmas store_defs = ensureBucket_def putObject_def head_bucket_def head_object_def objectExists_def
  getObject_def signedReadUrl_def s3_send_def

lemma same_store_ops [effect_intros]:
  assumes "store_free f"
  shows "effect (same_of f) s3_send w"
    and "effect (same_of f) (putObject k b) w"
    and "effect (same_of f) (objectExists bu k) w"
    and "effect (same_of f) (getObject bu k) w"
    and "effect (same_of f) (signedReadUrl bu k n) w"
  unfolding store_defs by (intro effect_intros store_freeD [OF assms])+

lemma audit_store_ops [effect_intros]:
  "effect audit_ok s3_send w" "effect audit_ok (putObject k b) w" "effect audit_ok (objectExists bu k) w"
  "effect audit_ok (getObject bu k) w" "effect audit_ok (signedReadUrl bu k n) w"
  unfolding store_defs by (intro effect_intros audit_modify; simp)+

lemmas file_op_defs = assertKnownKind_def assertFileSize_def assertMagicBytes_def calculateSha256_def
  assertRunInOrganization_def findFileForOrganization_def

lemma same_file_ops [effect_intros]:
  assumes "store_free f" and "\<And>w n. f (w\<lparr>ids := n\<rparr>) = f w" and "keeps f file_t"
  shows "effect (same_of f) (createFileRecord ci k) w"
    and "effect (same_of f) (uploadBuffer i) w"
  unfolding createFileRecord_def uploadBuffer_def file_op_defs wrap_defs
  by (intro effect_intros assms store_freeD [OF assms(1)])+

lemma same_download [effect_intros]:
  assumes "store_free f"
  shows "effect (same_of f) (downloadForOrganization org k) w" "effect (same_of f) (getSignedReadUrl org k n) w"
  unfolding downloadForOrganization_def getSignedReadUrl_def file_op_defs wrap_defs
  by (intro effect_intros assms store_freeD [OF assms])+

lemma audit_file_ops [effect_intros]:
  "effect audit_ok (createFileRecord ci k) w" "effect audit_ok (uploadBuffer i) w"
  "effect audit_ok (downloadForOrganization org k) w"
  unfolding createFileRecord_def uploadBuffer_def downloadForOrganization_def file_op_defs wrap_defs
  by (intro effect_intros; simp)+

lemma store_free_runs [effect_intros, simp]: "store_free runs" "store_free approvals" "store_free audits" "store_free files" "store_free w_env"
  by (simp_all add: store_free_def)

subsection \<open>Storing and reading back\<close>

lemma s3_send_Inr:
  "s3_send w = (Inr x, w') \<longleftrightarrow> s3_fault (w_env w) (reads w) = None \<and> w' = w\<lparr>reads := Suc (reads w)\<rparr>"
  by (cases "s3_fault (w_env w) (reads w)") (auto simp: s3_send_def step_simps)

lemma putObject_Inr:
  assumes "putObject k b w = (Inr x, w')"
  shows "objects w' (s3_bucket (w_env w), k) = Some b" and "w_env w' = w_env w" and "files w' = files w" and "ids w' = ids w"
proof -
  have e: "effect (same_of f) (putObject k b) w" if "store_free f" for f :: "world \<Rightarrow> 'z"
    by (intro effect_intros that)
  show "w_env w' = w_env w" by (rule same_after [OF e assms]) simp
  show "files w' = files w" by (rule same_after [OF e assms]) simp
  show "ids w' = ids w" by (rule same_after [OF e assms]) (simp add: store_free_def)
  have "effect (same_of w_env) ensureBucket w"
    unfolding store_defs by (intro effect_intros; simp)
  note env = same_after [OF this]
  from assms obtain y w1 z w2 where ensure: "ensureBucket w = (Inr y, w1)" and send: "s3_send w1 = (Inr z, w2)"
    and w': "w' = w2\<lparr>objects := (objects w2)((s3_bucket (w_env w2), k) \<mapsto> b)\<rparr>"
    unfolding putObject_def by (elim bnd_InrE modifyE) (rule that)
  from env [OF ensure] send show "objects w' (s3_bucket (w_env w), k) = Some b"
    by (simp add: s3_send_Inr w')
qed

lemma run_check_Inr:
  assumes "run_if (truthy v) (assertRunInOrganization org (the v)) w = (Inr u, w')"
  shows "w' = w" and "truthy v \<Longrightarrow> \<exists>r\<in>set (runs w). run_id r = the v \<and> run_org r = org"
proof -
  have "w' = w \<and> (truthy v \<longrightarrow> find (\<lambda>r. run_id r = the v \<and> run_org r = org) (runs w) \<noteq> None)"
    using assms
    by (auto simp: run_if_def assertRunInOrganization_def find_run_def find_first_def run_t_def
        split: if_splits elim!: bnd_InrE)
  then show "w' = w" and "truthy v \<Longrightarrow> \<exists>r\<in>set (runs w). run_id r = the v \<and> run_org r = org"
    by (auto simp: find_None_iff)
qed

text \<open>The row a successful upload leaves.\<close>

definition file_of :: "file_input \<Rightarrow> string \<Rightarrow> nat \<Rightarrow> file_row" where
  "file_of ci k t = \<lparr>fi_id = k, fi_org = fc_org ci, fi_run = fc_run ci, fi_kind = fc_kind ci,
      fi_bucket = fc_bucket ci, fi_objectKey = fc_objectKey ci, fi_mimeType = fc_mimeType ci,
      fi_size = fc_size ci, fi_sha256 = fc_sha256 ci, fi_createdAt = t\<rparr>"

lemma createFileRecord_Inr:
  assumes "createFileRecord ci k w = (Inr d, w')"
  obtains t where "files w' = files w @ [file_of ci k t]"
    and "d = toFileDto (w_env w) (file_of ci k t)"
    and "w_env w' = w_env w" and "objects w' = objects w"
proof -
  from assms obtain found u w1 w2
    where ex: "objectExists (fc_bucket ci) (fc_objectKey ci) w = (Inr found, w1)"
    and chk: "run_if (truthy (fc_run ci)) (assertRunInOrganization (fc_org ci) (the (fc_run ci))) w1 = (Inr u, w2)"
    and d: "d = toFileDto (w_env w2) (file_of ci k (clock (w_env w2) (reads w2)))"
    and w': "w' = w2\<lparr>reads := Suc (reads w2), files := files w2 @ [file_of ci k (clock (w_env w2) (reads w2))]\<rparr>"
    unfolding createFileRecord_def assertKnownKind_def file_of_def [symmetric]
    by (elim world_elims) (rule that; simp add: file_t_def)
  have e: "effect (same_of f) (objectExists (fc_bucket ci) (fc_objectKey ci)) w"
    if "\<And>w n. f (w\<lparr>reads := n\<rparr>) = f w" for f :: "world \<Rightarrow> 'z"
    unfolding store_defs by (intro effect_intros that)
  have w1: "files w1 = files w" "w_env w1 = w_env w" "objects w1 = objects w"
    by (rule same_after [OF e ex]; simp)+
  have "w2 = w1" by (rule run_check_Inr [OF chk])
  with w1 d w' show thesis
    by (intro that [of "clock (w_env w2) (reads w2)"]) simp_all
qed

definition uploaded :: "env \<Rightarrow> upload_input \<Rightarrow> string \<Rightarrow> nat \<Rightarrow> file_row" where
  "uploaded e i k t = \<lparr>fi_id = k, fi_org = ub_org i, fi_run = ub_run i, fi_kind = ub_kind i,
     fi_bucket = s3_bucket e, fi_objectKey = buildObjectKey (ub_org i) (ub_run i) k (ub_filename i),
     fi_mimeType = ub_mimeType i, fi_size = length (ub_buffer i), fi_sha256 = sha256 e (ub_buffer i),
     fi_createdAt = t\<rparr>"

lemma uploadBuffer_Inr:
  assumes "uploadBuffer i w = (Inr d, w')"
  obtains t where "files w' = files w @ [uploaded (w_env w) i (uuid (w_env w) (ids w)) t]"
    and "d = toFileDto (w_env w) (uploaded (w_env w) i (uuid (w_env w) (ids w)) t)"
    and "objects w' (s3_bucket (w_env w), buildObjectKey (ub_org i) (ub_run i) (uuid (w_env w) (ids w)) (ub_filename i)) = Some (ub_buffer i)"
    and "w_env w' = w_env w" and "length (ub_buffer i) \<le> MAX_FILE_SIZE_BYTES"
    and "magic_ok (w_env w) (ub_buffer i) (ub_mimeType i)"
    and "truthy (ub_run i) \<Longrightarrow> \<exists>r\<in>set (runs w). run_id r = the (ub_run i) \<and> run_org r = ub_org i"
proof -
  let ?k = "\<lambda>w. uuid (w_env w) (ids w)"
  let ?key = "\<lambda>w. buildObjectKey (ub_org i) (ub_run i) (?k w) (ub_filename i)"
  from assms obtain w0 u v w2 where size: "length (ub_buffer i) \<le> MAX_FILE_SIZE_BYTES"
    and magic: "magic_ok (w_env w) (ub_buffer i) (ub_mimeType i)"
    and chk: "run_if (truthy (ub_run i)) (assertRunInOrganization (ub_org i) (the (ub_run i))) w = (Inr u, w0)"
    and put: "putObject (?key w0) (ub_buffer i) (w0\<lparr>ids := Suc (ids w0)\<rparr>) = (Inr v, w2)"
    and create: "createFileRecord \<lparr>fc_org = ub_org i, fc_run = ub_run i, fc_kind = ub_kind i, fc_bucket = s3_bucket (w_env w2),
        fc_objectKey = ?key w0, fc_mimeType = ub_mimeType i, fc_size = length (ub_buffer i),
        fc_sha256 = sha256 (w_env (w0\<lparr>ids := Suc (ids w0)\<rparr>)) (ub_buffer i)\<rparr> (?k w0) w2 = (Inr d, w')"
    unfolding uploadBuffer_def assertKnownKind_def assertFileSize_def assertMagicBytes_def calculateSha256_def
      bnd_assoc
    by (elim world_elims) (rule that)
  note run = run_check_Inr [OF chk]
  note w2 = putObject_Inr [OF put [unfolded run(1)]]
  show thesis
    by (rule createFileRecord_Inr [OF create]; rule that)
       (use w2 size magic run in \<open>simp_all add: file_of_def uploaded_def\<close>)
qed

subsection \<open>Round trip, integrity and names of stored files\<close>

lemma find_file:
  assumes "f \<in> set (files w)" and "\<And>g. g \<in> set (files w) \<Longrightarrow> fi_id g = fi_id f \<Longrightarrow> g = f"
  shows "find (\<lambda>g. fi_id g = fi_id f \<and> fi_org g = org) (files w) = (if fi_org f = org then Some f else None)"
proof (cases "find (\<lambda>g. fi_id g = fi_id f \<and> fi_org g = org) (files w)")
  case None
  then show ?thesis using assms by (auto simp: find_None_iff)
next
  case (Some g)
  then show ?thesis using assms(2) [of g] by (auto dest: find_SomeD)
qed

lemma findFile_run:
  assumes "f \<in> set (files w)" and "\<And>g. g \<in> set (files w) \<Longrightarrow> fi_id g = fi_id f \<Longrightarrow> g = f" and "org \<noteq> []"
  shows "findFileForOrganization (Some org) (fi_id f) w =
    (if fi_org f = org then (Inr f, w) else (Inl (DomainError NotFound ''File was not found.''), w))"
  using find_file [OF assms(1,2)] assms(3)
  by (simp add: findFileForOrganization_def require_org_def truthy_def step_simps file_t_def require_some_def)

lemma getObject_eq:
  "getObject bu k w = ((case s3_fault (w_env w) (reads w) of
       Some e \<Rightarrow> Inl (if isMissingObject e then object_not_found else e)
     | None \<Rightarrow> (case objects w (bu, k) of None \<Rightarrow> Inl object_not_found | Some b \<Rightarrow> Inr b)),
     w\<lparr>reads := Suc (reads w)\<rparr>)"
  by (auto simp: getObject_def try_catch_def s3_send_def bnd_assoc step_simps require_some_def
      isMissingObject_def split: option.splits)

text \<open>A store that answers every request.\<close>

definition store_up :: "world \<Rightarrow> bool" where
  "store_up w \<longleftrightarrow> (\<forall>n. s3_fault (w_env w) n = None)"

lemma s3_send_up: "store_up w \<Longrightarrow> s3_send w = (Inr (), w\<lparr>reads := Suc (reads w)\<rparr>)"
  by (simp add: store_up_def s3_send_def step_simps)

lemma objectExists_up:
  "store_up w \<Longrightarrow> objects w (bu, k) \<noteq> None \<Longrightarrow> objectExists bu k w = (Inr True, w\<lparr>reads := Suc (reads w)\<rparr>)"
  by (simp add: objectExists_def head_object_def try_catch_def bnd_Inr [where m = s3_send, OF s3_send_up] step_simps)

lemma ensureBucket_up: "store_up w \<Longrightarrow> \<exists>w'. ensureBucket w = (Inr (), w') \<and> w_env w' = w_env w"
proof -
  assume up: "store_up w"
  let ?w1 = "w\<lparr>reads := Suc (reads w)\<rparr>"
  have "store_up ?w1" using up by (simp add: store_up_def)
  note create = s3_send_up [OF this]
  have "head_bucket w = (if s3_bucket (w_env w) \<in> set (buckets w) then Inr () else Inl (JsError ''NotFound'' ''UnknownError''), ?w1)"
    by (simp add: head_bucket_def bnd_Inr [where m = s3_send, OF s3_send_up [OF up]] step_simps require_def)
  then show ?thesis
    using create by (simp add: ensureBucket_def run_simps isMissingBucket_def)
qed

lemma putObject_up:
  assumes "store_up w" shows "\<exists>w'. putObject k b w = (Inr (), w')"
proof -
  obtain w1 where w1: "ensureBucket w = (Inr (), w1)" "w_env w1 = w_env w" using ensureBucket_up [OF assms] by blast
  then have "s3_send w1 = (Inr (), w1\<lparr>reads := Suc (reads w1)\<rparr>)" using assms by (intro s3_send_up) (simp add: store_up_def)
  then show ?thesis
    unfolding putObject_def
    by (simp add: bnd_Inr [where m = ensureBucket, OF w1(1)] bnd_def [of s3_send] step_simps)
qed

definition acceptable :: "upload_input \<Rightarrow> world \<Rightarrow> bool" where
  "acceptable i w \<longleftrightarrow> length (ub_buffer i) \<le> MAX_FILE_SIZE_BYTES \<and> magic_ok (w_env w) (ub_buffer i) (ub_mimeType i)
     \<and> (truthy (ub_run i) \<longrightarrow> (\<exists>r\<in>set (runs w). run_id r = the (ub_run i) \<and> run_org r = ub_org i))"

lemma known_kind [simp]: "assertKnownKind k = ret ()"
  by (simp add: assertKnownKind_def require_def List.member_iff)

lemma run_check_ok:
  assumes "truthy v \<longrightarrow> (\<exists>r\<in>set (runs w). run_id r = the v \<and> run_org r = org)"
  shows "run_if (truthy v) (assertRunInOrganization org (the v)) w = (Inr (), w)"
proof -
  have "truthy v \<Longrightarrow> find (\<lambda>r. run_id r = the v \<and> run_org r = org) (runs w) \<noteq> None"
    using assms by (auto simp: find_None_iff)
  then show ?thesis
    by (simp add: run_if_def assertRunInOrganization_def bnd_find_run require_def step_simps)
qed

lemma uploadBuffer_up:
  assumes "acceptable i w" and "store_up w"
  shows "\<exists>d w'. uploadBuffer i w = (Inr d, w')"
proof -
  let ?w1 = "w\<lparr>ids := Suc (ids w)\<rparr>" and ?k = "uuid (w_env w) (ids w)"
  let ?key = "buildObjectKey (ub_org i) (ub_run i) ?k (ub_filename i)"
  have up: "store_up ?w1" using assms(2) by (simp add: store_up_def)
  obtain w2 where put: "putObject ?key (ub_buffer i) ?w1 = (Inr (), w2)" using putObject_up [OF up] by blast
  note w2 = putObject_Inr [OF put]
  have runs2: "runs w2 = runs w"
    using same_after [OF same_store_ops(2) put, of runs] by simp
  let ?w3 = "w2\<lparr>reads := Suc (reads w2)\<rparr>"
  have up2: "store_up w2" using up w2(2) by (simp add: store_up_def)
  have ex: "objectExists (s3_bucket (w_env w2)) ?key w2 = (Inr True, ?w3)"
    using w2 by (intro objectExists_up [OF up2]) simp
  have chk: "run_if (truthy (ub_run i)) (assertRunInOrganization (ub_org i) (the (ub_run i))) w = (Inr (), w)"
    and chk3: "run_if (truthy (ub_run i)) (assertRunInOrganization (ub_org i) (the (ub_run i))) ?w3 = (Inr (), ?w3)"
    using assms(1) runs2 by (auto intro!: run_check_ok simp: acceptable_def)
  note run = bnd_Inr [where m = "run_if a b" for a b]
  have "\<exists>d w'. createFileRecord \<lparr>fc_org = ub_org i, fc_run = ub_run i, fc_kind = ub_kind i,
      fc_bucket = s3_bucket (w_env w2), fc_objectKey = ?key, fc_mimeType = ub_mimeType i,
      fc_size = length (ub_buffer i), fc_sha256 = sha256 (w_env w) (ub_buffer i)\<rparr> ?k w2 = (Inr d, w')"
    unfolding createFileRecord_def
    by (simp add: bnd_ret bnd_Inr [where m = "objectExists a b" for a b, OF ex] bnd_require run [OF chk3]
      bnd_new_date bnd_create_row gets_def)
  then show ?thesis
    unfolding uploadBuffer_def
    using assms(1)
    by (simp add: acceptable_def assertFileSize_def assertMagicBytes_def calculateSha256_def bnd_assoc bnd_ret bnd_gets
      bnd_require run [OF chk] bnd_fresh_id bnd_Inr [where m = "putObject a b" for a b, OF put])
qed

text \<open>C31. What was uploaded is what is downloaded. An upload within the size limit, with content
  of its declared type, for no run or for a run of the organization, is stored; its description
  names the organization, the size and the digest of the bytes; and afterwards the same organization
  downloads those very bytes with that description, while any other organization is told that there
  is no such file.\<close>

theorem upload_download_roundtrip:
  assumes "acceptable i w" and "store_up w" and "uuid (w_env w) (ids w) \<notin> fi_id ` set (files w)"
    and "ub_org i \<noteq> []" and "org \<noteq> []"
  shows "\<exists>d w'. uploadBuffer i w = (Inr d, w') \<and> fd_org d = ub_org i \<and> fd_size d = length (ub_buffer i)
    \<and> fd_sha256 d = sha256 (w_env w) (ub_buffer i)
    \<and> downloadForOrganization (Some org) (fd_id d) w' =
      (if org = ub_org i then (Inr (d, ub_buffer i), w'\<lparr>reads := Suc (reads w')\<rparr>)
       else (Inl (DomainError NotFound ''File was not found.''), w'))"
proof -
  obtain d w' where run: "uploadBuffer i w = (Inr d, w')" using uploadBuffer_up [OF assms(1,2)] by blast
  then obtain t where up: "files w' = files w @ [uploaded (w_env w) i (uuid (w_env w) (ids w)) t]"
      "d = toFileDto (w_env w) (uploaded (w_env w) i (uuid (w_env w) (ids w)) t)"
      "objects w' (s3_bucket (w_env w), buildObjectKey (ub_org i) (ub_run i) (uuid (w_env w) (ids w)) (ub_filename i)) = Some (ub_buffer i)"
      "w_env w' = w_env w"
    by (rule uploadBuffer_Inr)
  let ?f = "uploaded (w_env w) i (uuid (w_env w) (ids w)) t"
  have f: "?f \<in> set (files w')" and u: "\<And>g. g \<in> set (files w') \<Longrightarrow> fi_id g = fi_id ?f \<Longrightarrow> g = ?f"
    using up(1) assms(3) by (auto simp: uploaded_def image_iff)
  have k: "fd_id d = fi_id ?f" by (simp add: up(2) toFileDto_def)
  have org: "fi_org ?f = ub_org i" by (simp add: uploaded_def)
  note found = findFile_run [OF f u assms(5), unfolded org]
  have bytes: "getObject (fi_bucket ?f) (fi_objectKey ?f) w' = (Inr (ub_buffer i), w'\<lparr>reads := Suc (reads w')\<rparr>)"
    using up(3,4) assms(2) by (simp add: getObject_eq uploaded_def store_up_def)
  have "downloadForOrganization (Some org) (fd_id d) w' =
    (if org = ub_org i then (Inr (d, ub_buffer i), w'\<lparr>reads := Suc (reads w')\<rparr>)
     else (Inl (DomainError NotFound ''File was not found.''), w'))"
    unfolding downloadForOrganization_def k
    using found by (simp add: bnd_Inr [where m = "getObject a b" for a b, OF bytes]
        bnd_def [of "findFileForOrganization a b" for a b])
      (simp add: calculateSha256_def step_simps up uploaded_def)
  then show ?thesis using run by (auto simp: up(2) toFileDto_def uploaded_def)
qed

definition demo_upload :: upload_input where
  "demo_upload = \<lparr>ub_org = ''o'', ub_run = None, ub_kind = File_Download, ub_filename = ''a.txt'', ub_mimeType = ''text/plain'', ub_buffer = ''hello''\<rparr>"

lemma demo_acceptable: "acceptable demo_upload (empty_world demo_env)" "store_up (empty_world demo_env)"
  by (simp_all add: acceptable_def demo_upload_def MAX_FILE_SIZE_BYTES_def magic_ok_def to_lower_def lower_char_def
      truthy_def store_up_def empty_world_def demo_env_def)

lemma upload_download_roundtrip_witness:
  "\<exists>d w'. uploadBuffer demo_upload (empty_world demo_env) = (Inr d, w') \<and> fd_org d = ''o'' \<and> fd_size d = length ''hello''
    \<and> fd_sha256 d = ''hello''
    \<and> downloadForOrganization (Some ''other'') (fd_id d) w' = (Inl (DomainError NotFound ''File was not found.''), w')"
proof -
  have "uuid (w_env (empty_world demo_env)) (ids (empty_world demo_env)) \<notin> fi_id ` set (files (empty_world demo_env))"
    and env: "sha256 (w_env (empty_world demo_env)) s = s" for s
    by (simp_all add: empty_world_def demo_env_def)
  moreover have up: "ub_org demo_upload = ''o''" "ub_buffer demo_upload = ''hello''"
    by (simp_all add: demo_upload_def)
  ultimately show ?thesis
    using upload_download_roundtrip [OF demo_acceptable, of "''other''"] by (simp add: up env)
qed

text \<open>Whatever the store returns, a download that succeeds is of a file of the asking
  organization and its bytes have the digest recorded at upload; it changes no table.\<close>

theorem download_integrity:
  assumes "downloadForOrganization org k w = (Inr (d, b), w')"
  shows "\<exists>f \<in> set (files w). org = Some (fi_org f) \<and> fi_id f = k \<and> d = toFileDto (w_env w) f
           \<and> sha256 (w_env w) b = fi_sha256 f \<and> objects w (fi_bucket f, fi_objectKey f) = Some b
           \<and> w' = w\<lparr>reads := Suc (reads w)\<rparr>"
proof -
  from assms obtain v f w1 where org: "truthy org" and f: "find (\<lambda>f. fi_id f = k \<and> fi_org f = the org) (files w) = Some f"
    and get: "getObject (fi_bucket f) (fi_objectKey f) w = (Inr b, w1)" and hash: "sha256 (w_env w1) b = fi_sha256 f"
    and d: "d = toFileDto (w_env w1) f" "w' = w1"
    unfolding downloadForOrganization_def findFileForOrganization_def require_org_def calculateSha256_def bnd_assoc
    by (auto simp: step_simps file_t_def split: if_splits elim!: world_elims bnd_InrE)
  have "w1 = w\<lparr>reads := Suc (reads w)\<rparr> \<and> objects w (fi_bucket f, fi_objectKey f) = Some b"
    using get by (auto simp: getObject_eq split: option.splits if_splits)
  with org f hash d show ?thesis
    by (auto dest!: find_SomeD simp: truthy_def split: option.splits)
qed

lemma sanitize_chars: "c \<in> set (sanitizeFilename n) \<Longrightarrow> safe_char c"
proof -
  assume c: "c \<in> set (sanitizeFilename n)"
  have "safe_char (CHR ''_'')" by (simp add: safe_char_def)
  moreover have "list_all safe_char ''artifact.bin''" by (simp add: safe_char_def)
  ultimately show ?thesis using c by (auto simp: sanitizeFilename_def Let_def list_all_iff split: if_splits)
qed

lemma slash_unsafe [simp]: "\<not> safe_char (CHR ''/'')"
  by (simp add: safe_char_def)

definition key_parts :: "string \<Rightarrow> string option \<Rightarrow> string \<Rightarrow> string \<Rightarrow> string list" where
  "key_parts org run k n = [''organizations'', org] @ (if truthy run then [''workflow-runs'', the run] else [''unscoped'']) @ [k, sanitizeFilename n]"

lemma split_key:
  assumes "CHR ''/'' \<notin> set org" "truthy run \<longrightarrow> CHR ''/'' \<notin> set (the run)" "CHR ''/'' \<notin> set k"
  shows "split_on (CHR ''/'') (buildObjectKey org run k n) = key_parts org run k n"
proof -
  have "CHR ''/'' \<notin> set (sanitizeFilename n)" using sanitize_chars slash_unsafe by blast
  note parts = split_on_append [where sep = "CHR ''/''"] split_on_absent [OF this] assms
  have o: "split_on (CHR ''/'') (''organizations/'' @ cs) = ''organizations'' # split_on (CHR ''/'') cs" for cs
    using parts(1) [of "''organizations''" cs] by simp
  have r: "split_on (CHR ''/'') (''workflow-runs/'' @ cs) = ''workflow-runs'' # split_on (CHR ''/'') cs" for cs
    using parts(1) [of "''workflow-runs''" cs] by simp
  have u: "split_on (CHR ''/'') (''unscoped/'' @ cs) = ''unscoped'' # split_on (CHR ''/'') cs" for cs
    using parts(1) [of "''unscoped''" cs] by simp
  show ?thesis
    using parts o r u by (cases "truthy run") (simp_all del: split_on.simps add: buildObjectKey_def key_parts_def Let_def)
qed

text \<open>Object keys cannot be steered by a file name: for ids without a slash, the key splits into
  exactly its folders, and two keys are equal only for the same organization, run, file and
  cleaned name; the cleaned name is never empty and has letters, digits, dots, underscores and
  hyphens only.\<close>

theorem object_keys_separate:
  assumes "CHR ''/'' \<notin> set org" "CHR ''/'' \<notin> set (coalesce run [])" "CHR ''/'' \<notin> set k"
    and "CHR ''/'' \<notin> set org'" "CHR ''/'' \<notin> set (coalesce run' [])" "CHR ''/'' \<notin> set k'"
  shows "(buildObjectKey org run k n = buildObjectKey org' run' k' n' \<longleftrightarrow>
      org = org' \<and> coalesce run [] = coalesce run' [] \<and> k = k' \<and> sanitizeFilename n = sanitizeFilename n')
    \<and> sanitizeFilename n \<noteq> [] \<and> list_all safe_char (sanitizeFilename n)"
proof -
  have run: "truthy v \<Longrightarrow> the v = coalesce v []" "truthy v \<longleftrightarrow> coalesce v [] \<noteq> []" for v
    by (cases v; simp add: truthy_def)+
  have ks: "buildObjectKey org run k n = buildObjectKey org' run' k' n' \<longleftrightarrow> key_parts org run k n = key_parts org' run' k' n'"
  proof
    assume "key_parts org run k n = key_parts org' run' k' n'"
    then show "buildObjectKey org run k n = buildObjectKey org' run' k' n'"
      by (auto simp: key_parts_def buildObjectKey_def split: if_splits)
  next
    assume "buildObjectKey org run k n = buildObjectKey org' run' k' n'"
    then show "key_parts org run k n = key_parts org' run' k' n'"
      using split_key [of org run k n] split_key [of org' run' k' n'] assms run by metis
  qed
  have "key_parts org run k n = key_parts org' run' k' n' \<longleftrightarrow>
      org = org' \<and> coalesce run [] = coalesce run' [] \<and> k = k' \<and> sanitizeFilename n = sanitizeFilename n'"
    unfolding key_parts_def using run by auto
  moreover have "sanitizeFilename n \<noteq> []" by (simp add: sanitizeFilename_def Let_def)
  moreover have "list_all safe_char (sanitizeFilename n)" using sanitize_chars by (simp add: list_all_iff)
  ultimately show ?thesis unfolding ks by blast
qed

lemma object_keys_separate_witness:
  "buildObjectKey ''acme'' (Some ''r1'') ''f1'' ''../a b.pdf'' = ''organizations/acme/workflow-runs/r1/f1/a_b.pdf'' \<and>
   buildObjectKey ''acme'' (Some ''r1'') ''f1'' ''../a b.pdf'' \<noteq> buildObjectKey ''acme'' None ''r1'' ''f1''"
  using object_keys_separate (1) [where org = "''acme''" and run = "Some ''r1''" and k = "''f1''" and org' = "''acme''" and run' = None
      and k' = "''r1''" and n = "''../a b.pdf''" and n' = "''f1''"]
  by code_simp

lemma download_integrity_witness:
  "\<exists>d b w' f. downloadForOrganization (Some ''o'') ''k''
      ((empty_world demo_env)\<lparr>files := [uploaded demo_env demo_upload ''k'' 0], objects := (\<lambda>_. Some ''hello'')\<rparr>) = (Inr (d, b), w')
    \<and> sha256 demo_env b = fi_sha256 (f :: file_row)"
proof -
  let ?w = "(empty_world demo_env)\<lparr>files := [uploaded demo_env demo_upload ''k'' 0], objects := (\<lambda>_. Some ''hello'')\<rparr>"
  have "\<exists>d b w'. downloadForOrganization (Some ''o'') ''k'' ?w = (Inr (d, b), w')"
    by (simp add: downloadForOrganization_def findFileForOrganization_def require_org_def truthy_def uploaded_def demo_upload_def
        run_simps getObject_eq empty_world_def demo_env_def calculateSha256_def)
  then obtain d b w' where d: "downloadForOrganization (Some ''o'') ''k'' ?w = (Inr (d, b), w')" by blast
  have env: "w_env ?w = demo_env" by (simp add: empty_world_def)
  from download_integrity [OF d] obtain f :: file_row where "sha256 demo_env b = fi_sha256 f" unfolding env by blast
  with d show ?thesis by blast
qed

end
