(* ===== verification/Internal_Worker.thy ===== *)
theory Internal_Worker
  imports Files
begin

section \<open>The API the worker calls\<close>

text \<open>
  \<open>apps/api/src/authorization/internal-worker.guard.ts\<close>, the guard of every internal route, and
  \<open>apps/api/src/internal-worker/internal-worker.service.ts\<close>, what a worker may do to its run: record
  events, upload artifacts, complete it and fail it; \<open>apps/api/src/errors\<close> gives the status of
  the answer when a handler throws.
\<close>

subsection \<open>The guard of the internal routes\<close>

record http_request =
  hr_url :: "string option"
  hr_workerToken :: "string option"
  hr_bearer :: "string option"
  hr_bodyRun :: "string option"

text \<open>\<open>url.match(/\/runs\/([^/?]+)/)?.[1]\<close>: the leftmost match.\<close>

definition run_id_char :: "char \<Rightarrow> bool" where
  "run_id_char c \<longleftrightarrow> c \<noteq> CHR ''/'' \<and> c \<noteq> CHR ''?''"

fun match_run_id :: "string \<Rightarrow> string option" where
  "match_run_id [] = None"
| "match_run_id (c # cs) =
    (let found = takeWhile run_id_char (drop (length ''/runs/'') (c # cs)) in
     if starts_with (c # cs) ''/runs/'' \<and> found \<noteq> [] then Some found else match_run_id cs)"

definition readRunIdFromRequest :: "string option \<Rightarrow> string option" where
  "readRunIdFromRequest url = (if truthy url then match_run_id (the url) else None)"

definition or_else :: "'a option \<Rightarrow> 'a option \<Rightarrow> 'a option" where
  "or_else v u = (case v of None \<Rightarrow> u | Some x \<Rightarrow> Some x)"

definition valid_token_required :: err where
  "valid_token_required = DomainError PermissionDenied ''Valid worker token is required.''"

definition canActivate :: "http_request \<Rightarrow> claims option action" where
  "canActivate request =
    (let providedToken = or_else (hr_workerToken request) (hr_bearer request);
         workflowRunId = or_else (readRunIdFromRequest (hr_url request)) (hr_bodyRun request)
     in bnd (require (truthy providedToken) valid_token_required) (\<lambda>_.
        bnd new_date (\<lambda>now.
        bnd (gets (\<lambda>w. verifyWorkerRunToken (codec (w_env w)) (worker_secret (w_env w)) (the providedToken) None workflowRunId now)) (\<lambda>scoped.
        bnd (gets (\<lambda>w. \<not> production (w_env w) \<and> providedToken = Some (worker_secret (w_env w)))) (\<lambda>master.
        case scoped of Some c \<Rightarrow> ret (Some c)
        | None \<Rightarrow> if master then ret None else throw valid_token_required)))))"

text \<open>The check of a request's body in a controller.\<close>

definition check_body :: "(env \<Rightarrow> bool) \<Rightarrow> string \<Rightarrow> unit action" where
  "check_body ok message = bnd (gets (\<lambda>w. ok (w_env w))) (\<lambda>b. require b (DomainError ValidationFailed message))"

subsection \<open>Uploads\<close>

definition MAX_WORKER_UPLOAD_BYTES :: nat where
  "MAX_WORKER_UPLOAD_BYTES = 10 * 1024 * 1024"

definition MAX_RUN_UPLOAD_BYTES :: nat where
  "MAX_RUN_UPLOAD_BYTES = 50 * 1024 * 1024"

definition MAX_ORG_UPLOAD_BYTES :: nat where
  "MAX_ORG_UPLOAD_BYTES = 1024 * 1024 * 1024"

primrec allowedMimeByKind :: "file_kind \<Rightarrow> string list" where
  "allowedMimeByKind File_Screenshot = [''image/png'', ''image/jpeg'', ''image/webp'']"
| "allowedMimeByKind File_Invoice = [''application/pdf'', ''image/png'', ''image/jpeg'']"
| "allowedMimeByKind File_PlaywrightTrace = [''application/zip'', ''application/octet-stream'']"
| "allowedMimeByKind File_ReceiptExport = [''application/json'']"
| "allowedMimeByKind File_Download = [''application/pdf'', ''application/json'', ''text/csv'', ''text/plain'',
     ''image/png'', ''image/jpeg'']"

definition estimatedBase64Bytes :: "string \<Rightarrow> nat" where
  "estimatedBase64Bytes value = length value * 3 div 4"

definition assertAllowedMime :: "file_kind \<Rightarrow> string \<Rightarrow> unit action" where
  "assertAllowedMime kind mimeType =
    require (List.member (allowedMimeByKind kind) (to_lower mimeType))
      (DomainError ValidationFailed ''File MIME type is not allowed for this file kind.'')"

definition upload_too_large :: err where
  "upload_too_large = DomainError ValidationFailed ''Worker upload is too large.''"

definition decodeUpload :: "string \<Rightarrow> string \<Rightarrow> file_kind \<Rightarrow> string action" where
  "decodeUpload value mimeType kind =
    bnd (assertAllowedMime kind mimeType) (\<lambda>_.
    bnd (require (estimatedBase64Bytes value \<le> MAX_WORKER_UPLOAD_BYTES) upload_too_large) (\<lambda>_.
    bnd (gets (\<lambda>w. base64_bytes (w_env w) value)) (\<lambda>buffer.
    bnd (require (length buffer \<le> MAX_WORKER_UPLOAD_BYTES) upload_too_large) (\<lambda>_.
    ret buffer))))"

definition assertUploadWithinQuota :: "string \<Rightarrow> string \<Rightarrow> nat \<Rightarrow> unit action" where
  "assertUploadWithinQuota organizationId workflowRunId nextBytes =
    bnd (find_many file_t (\<lambda>f. fi_org f = organizationId \<and> fi_run f = Some workflowRunId)) (\<lambda>runUsage.
    bnd (find_many file_t (\<lambda>f. fi_org f = organizationId)) (\<lambda>orgUsage.
    bnd (require (sum_list (map fi_size runUsage) + nextBytes \<le> MAX_RUN_UPLOAD_BYTES)
      (DomainError ValidationFailed ''Workflow run file quota exceeded.'')) (\<lambda>_.
    require (sum_list (map fi_size orgUsage) + nextBytes \<le> MAX_ORG_UPLOAD_BYTES)
      (DomainError ValidationFailed ''Organization file quota exceeded.''))))"

text \<open>A call of an asynchronous method without \<open>await\<close>: its rejection does not reach the caller.\<close>

definition not_awaited :: "'a action \<Rightarrow> unit action" where
  "not_awaited m = (\<lambda>w. (Inr (), snd (m w)))"

definition findRunForWorker :: "string \<Rightarrow> string \<Rightarrow> run_row action" where
  "findRunForWorker runId organizationId =
    bnd (find_run runId organizationId) (\<lambda>run.
    require_some run (DomainError OrganizationIsolationViolation ''Workflow run belongs to another organization.''))"

definition nextWorkerState :: "json \<Rightarrow> (string \<times> json) list \<Rightarrow> json" where
  "nextWorkerState existing entry = JObj (append_to ''workerTransitions'' existing (JObj entry))"

definition recordEvent :: "string \<Rightarrow> string \<Rightarrow> audit_event_type \<Rightarrow> (string \<times> json) list option \<Rightarrow> json action" where
  "recordEvent runId organizationId eventType eventData =
    bnd (findRunForWorker runId organizationId) (\<lambda>run.
    record_audit \<lparr>ai_org = run_org run, ai_run = Some (run_id run), ai_agent = Some (run_agent run),
      ai_actorType = Actor_Worker, ai_actorId = Some ''internal-worker'', ai_eventType = eventType,
      ai_data = JObj (spread [(''workflowRunId'', JStr (run_id run))] (coalesce eventData []))\<rparr>)"

definition uploadFile :: "string \<Rightarrow> string \<Rightarrow> file_kind \<Rightarrow> string \<Rightarrow> string \<Rightarrow> string \<Rightarrow> file_dto action" where
  "uploadFile runId organizationId kind filename mimeType bufferBase64 =
    bnd (findRunForWorker runId organizationId) (\<lambda>run.
    bnd (not_awaited (assertUploadWithinQuota (run_org run) (run_id run) (estimatedBase64Bytes bufferBase64))) (\<lambda>_.
    bnd (decodeUpload bufferBase64 mimeType kind) (\<lambda>buffer.
    uploadBuffer \<lparr>ub_org = run_org run, ub_run = Some (run_id run), ub_kind = kind,
      ub_filename = filename, ub_mimeType = mimeType, ub_buffer = buffer\<rparr>)))"

definition uploadScreenshot :: "string \<Rightarrow> string \<Rightarrow> string \<Rightarrow> string \<Rightarrow> string \<Rightarrow> file_dto action" where
  "uploadScreenshot runId organizationId filename mimeType bufferBase64 =
    bnd (findRunForWorker runId organizationId) (\<lambda>run.
    bnd (not_awaited (assertUploadWithinQuota (run_org run) (run_id run) (estimatedBase64Bytes bufferBase64))) (\<lambda>_.
    bnd (decodeUpload bufferBase64 mimeType File_Screenshot) (\<lambda>buffer.
    uploadBuffer \<lparr>ub_org = run_org run, ub_run = Some (run_id run), ub_kind = File_Screenshot,
      ub_filename = filename, ub_mimeType = mimeType, ub_buffer = buffer\<rparr>)))"

subsection \<open>Completing and failing a run\<close>

record worker_complete =
  wc_resultSummary :: "string option"
  wc_currentStep :: "string option"
  wc_state :: "(string \<times> json) list option"

record worker_fail =
  wx_errorMessage :: string
  wx_currentStep :: "string option"
  wx_state :: "(string \<times> json) list option"

text \<open>An undefined value of an update leaves its column alone.\<close>

definition completeRun :: "string \<Rightarrow> string \<Rightarrow> worker_complete \<Rightarrow> json action" where
  "completeRun runId organizationId i =
    bnd (findRunForWorker runId organizationId) (\<lambda>run.
    bnd (require (run_status run = Run_Running)
      (DomainError WorkflowInvalidTransition ''Only running workflow runs can be completed.'')) (\<lambda>_.
    bnd new_date (\<lambda>completedAt.
    bnd (iso_of completedAt) (\<lambda>at_time.
    bnd (update_run (run_id run) (\<lambda>r. r\<lparr>run_status := Run_Completed, run_completedAt := Some completedAt,
        run_currentStep := Some (coalesce (wc_currentStep i) ''completed''),
        run_resultSummary := or_else (wc_resultSummary i) (run_resultSummary r),
        run_state := nextWorkerState (run_state run) (spread (coalesce (wc_state i) [])
          [(''from'', prisma_status (run_status run)), (''to'', prisma_status Run_Completed), (''at'', JStr at_time)])\<rparr>)) (\<lambda>completed.
    bnd (record_audit \<lparr>ai_org = run_org completed, ai_run = Some (run_id completed), ai_agent = Some (run_agent completed),
      ai_actorType = Actor_Worker, ai_actorId = Some ''internal-worker'', ai_eventType = Ev_WorkflowRunCompleted,
      ai_data = JObj [(''workflowRunId'', JStr (run_id completed)), (''workflowId'', JStr (run_workflow completed)),
        (''resultSummary'', jopt (run_resultSummary completed))]\<rparr>) (\<lambda>_.
    gets (\<lambda>w. toWorkflowRunDto (w_env w) completed)))))))"

definition failRun :: "string \<Rightarrow> string \<Rightarrow> worker_fail \<Rightarrow> json action" where
  "failRun runId organizationId i =
    bnd (findRunForWorker runId organizationId) (\<lambda>run.
    bnd (require (\<not> isTerminal (run_status run))
      (DomainError WorkflowInvalidTransition ''Terminal workflow runs cannot be failed again.'')) (\<lambda>_.
    bnd new_date (\<lambda>failedAt.
    bnd (iso_of failedAt) (\<lambda>at_time.
    bnd (update_run (run_id run) (\<lambda>r. r\<lparr>run_status := Run_Failed,
        run_completedAt := Some (coalesce (run_completedAt run) failedAt),
        run_currentStep := Some (coalesce (wx_currentStep i) ''failed''),
        run_errorMessage := Some (wx_errorMessage i),
        run_state := nextWorkerState (run_state run) (spread (coalesce (wx_state i) [])
          [(''from'', prisma_status (run_status run)), (''to'', prisma_status Run_Failed),
           (''errorMessage'', JStr (wx_errorMessage i)), (''at'', JStr at_time)])\<rparr>)) (\<lambda>failed.
    bnd (record_audit \<lparr>ai_org = run_org failed, ai_run = Some (run_id failed), ai_agent = Some (run_agent failed),
      ai_actorType = Actor_Worker, ai_actorId = Some ''internal-worker'', ai_eventType = Ev_WorkflowRunFailed,
      ai_data = JObj [(''workflowRunId'', JStr (run_id failed)), (''workflowId'', JStr (run_workflow failed)),
        (''errorMessage'', JStr (wx_errorMessage i))]\<rparr>) (\<lambda>_.
    gets (\<lambda>w. toWorkflowRunDto (w_env w) failed)))))))"

subsection \<open>The status of an error\<close>

definition statusForDomainError :: "domain_error_code \<Rightarrow> nat" where
  "statusForDomainError code = (case code of
     NotFound \<Rightarrow> 404
   | PermissionDenied \<Rightarrow> 403
   | OrganizationIsolationViolation \<Rightarrow> 403
   | ValidationFailed \<Rightarrow> 400
   | RateLimited \<Rightarrow> 429
   | ApprovalRequired \<Rightarrow> 409
   | _ \<Rightarrow> 422)"

text \<open>What the filter answers with; handlers throw no other errors than these.\<close>

definition error_status :: "err \<Rightarrow> nat" where
  "error_status e = (case e of DomainError c _ \<Rightarrow> statusForDomainError c | _ \<Rightarrow> 500)"

subsection \<open>Effects\<close>

lemma same_findRunForWorker [effect_intros]: "effect (same_of f) (findRunForWorker k org) w"
  unfolding findRunForWorker_def find_run_def by (intro effect_intros)

lemma findRunForWorker_row:
  assumes "unique_runs w" and "findRunForWorker k org w = (Inr r, w')"
  shows "row_of run_t k w = Some r" and "run_id r = k" and "run_org r = org" and "w' = w"
proof -
  obtain w1 where "find_run k org w = (Inr (Some r), w1)" and "w' = w1"
    using assms(2) unfolding findRunForWorker_def by (elim bnd_InrE) auto
  then show "row_of run_t k w = Some r" "run_id r = k" "run_org r = org" "w' = w"
    using find_run_row [OF assms(1)] by auto
qed

lemma audit_worker_ops [effect_intros]:
  "effect audit_ok (findRunForWorker k org) w"
  "effect audit_ok (recordEvent k org t d) w"
  "effect audit_ok (completeRun k org c) w"
  "effect audit_ok (failRun k org x) w"
  unfolding recordEvent_def completeRun_def failRun_def findRunForWorker_def wrap_defs
  by (intro effect_intros; simp)+

lemma same_check_body [effect_intros]: "effect (same_of f) (check_body ok m) w"
  unfolding check_body_def by (intro effect_intros)

lemma same_not_awaited [effect_intros]: "effect R m w \<Longrightarrow> effect R (not_awaited m) w"
  by (simp add: effect_def not_awaited_def)

lemma same_quota [effect_intros]: "effect (same_of f) (assertUploadWithinQuota org k n) w"
  unfolding assertUploadWithinQuota_def by (intro effect_intros)

lemma same_decodeUpload [effect_intros]: "effect (same_of f) (decodeUpload b m kind) w"
  unfolding decodeUpload_def assertAllowedMime_def by (intro effect_intros)

lemma same_uploads [effect_intros]:
  assumes "store_free f" and "\<And>w n. f (w\<lparr>ids := n\<rparr>) = f w" and "keeps f file_t"
  shows "effect (same_of f) (uploadFile k org kind n m b) w"
    and "effect (same_of f) (uploadScreenshot k org n m b) w"
  unfolding uploadFile_def uploadScreenshot_def by (intro effect_intros assms)+

lemma audit_checks [effect_intros]:
  "effect audit_ok (assertUploadWithinQuota org k n) w" "effect audit_ok (decodeUpload b m kind) w"
  by (rule same_quiet, intro effect_intros)+

lemma audit_uploads [effect_intros]:
  "effect audit_ok (uploadFile k org kind n m b) w" "effect audit_ok (uploadScreenshot k org n m b) w"
  unfolding uploadFile_def uploadScreenshot_def by (intro effect_intros)+

lemma legal_worker:
  "legal Run_Running Run_Completed"
  "\<not> isTerminal s \<Longrightarrow> legal s Run_Failed"
proof -
  show "legal Run_Running Run_Completed"
    by (simp add: legal_step canTransition_iff)
  have "legal Run_Running Run_Failed" "legal Run_WaitingForApproval Run_Failed" "legal Run_Queued Run_Running"
    by (simp_all add: legal_step canTransition_iff)
  then show "\<not> isTerminal s \<Longrightarrow> legal s Run_Failed"
    by (cases s) (auto simp: isTerminal_def terminalStatuses_def legal_def)
qed

lemma worker_update:
  assumes "\<And>r. P r \<Longrightarrow> legal (run_status r) s"
    and same: "\<And>r t a q. run_id (f r t a q) = run_id q \<and> run_org (f r t a q) = run_org q \<and> run_agent (f r t a q) = run_agent q
        \<and> run_workflow (f r t a q) = run_workflow q \<and> run_status (f r t a q) = s"
    and "\<And>x w. effect (runs_ok legal) (h x) w"
  shows "effect (runs_ok legal) (bnd (findRunForWorker k org) (\<lambda>r. bnd (require (P r) e) (\<lambda>_. bnd new_date (\<lambda>t.
     bnd (iso_of t) (\<lambda>a. bnd (update_run (run_id r) (f r t a)) h))))) w"
proof (rule legal.rows_unique, rule legal.ord.effect_bnd)
  show "effect (runs_ok legal) (findRunForWorker k org) w" by (intro legal.rows_same effect_intros)
  fix r w1 assume "unique_runs w" "findRunForWorker k org w = (Inr r, w1)"
  from findRunForWorker_row [OF this] have row: "row_of run_t (run_id r) w1 = Some r" by simp
  show "effect (runs_ok legal) (bnd (require (P r) e) (\<lambda>_. bnd new_date (\<lambda>t.
     bnd (iso_of t) (\<lambda>a. bnd (update_run (run_id r) (f r t a)) h)))) w1"
  proof (rule legal.ord.effect_bnd, (intro effect_intros; fail))
    fix x w2 assume "require (P r) e w1 = (Inr x, w2)"
    then have P: "P r" and row: "row_of run_t (run_id r) w2 = Some r" using row by auto
    show "effect (runs_ok legal) (bnd new_date (\<lambda>t. bnd (iso_of t) (\<lambda>a. bnd (update_run (run_id r) (f r t a)) h))) w2"
      using row assms(1) [OF P] unfolding iso_of_def
      by - ((erule legal.keep_bnd, (intro effect_intros; simp; fail)[1])+,
        erule keep_update_legal, auto simp: run_like_def same assms(3))
  qed
qed

lemma worker_runs [effect_intros]:
  "effect (runs_ok legal) (completeRun k org c) w"
  "effect (runs_ok legal) (failRun k org x) w"
  unfolding completeRun_def failRun_def
  by (rule worker_update [where s = Run_Completed], auto simp: legal_worker intro: effect_intros)
     (rule worker_update [where s = Run_Failed], auto simp: legal_worker intro: effect_intros)

subsection \<open>Properties\<close>

lemma findRunForWorker_run:
  "findRunForWorker k org w = (case find (\<lambda>r. run_id r = k \<and> run_org r = org) (runs w) of
     None \<Rightarrow> (Inl (DomainError OrganizationIsolationViolation ''Workflow run belongs to another organization.''), w)
   | Some r \<Rightarrow> (Inr r, w))"
  by (simp add: findRunForWorker_def step_simps require_some_def split: option.splits)

text \<open>What a worker's report leaves: the row as the report says, one event of the worker, no other run changed.\<close>

definition reported :: "string \<Rightarrow> run_row \<Rightarrow> audit_event_type \<Rightarrow> world \<Rightarrow> world \<Rightarrow> bool" where
  "reported k r' ev w w' \<longleftrightarrow> row_of run_t k w' = Some r' \<and> (\<forall>q. q \<noteq> k \<longrightarrow> row_of run_t q w' = row_of run_t q w)
     \<and> length (audits w') = Suc (length (audits w)) \<and> au_eventType (last (audits w')) = ev
     \<and> au_run (last (audits w')) = Some k \<and> au_org (last (audits w')) = run_org r'
     \<and> au_actorType (last (audits w')) = Actor_Worker"

definition report_event :: "audit_event_type \<Rightarrow> (run_row \<Rightarrow> json) \<Rightarrow> run_row \<Rightarrow> audit_input" where
  "report_event ev d r = \<lparr>ai_org = run_org r, ai_run = Some (run_id r), ai_agent = Some (run_agent r),
     ai_actorType = Actor_Worker, ai_actorId = Some ''internal-worker'', ai_eventType = ev, ai_data = d r\<rparr>"

lemma report_step:
  assumes "row_of run_t k w = Some r" and "\<And>q. run_id (f q) = run_id q" and "run_org (f r) = run_org r"
  obtains j w' where "bnd (update_run k f) (\<lambda>q. bnd (record_audit (report_event ev d q)) (\<lambda>_. gets (h q))) w = (Inr j, w')"
    and "reported k ((f r)\<lparr>run_updatedAt := clock (w_env w) (reads w)\<rparr>) ev w w'"
proof -
  let ?f = "\<lambda>q. (f q)\<lparr>run_updatedAt := clock (w_env w) (reads w)\<rparr>"
  let ?w2 = "w\<lparr>reads := Suc (reads w), runs := upd_row run_id k ?f (runs w)\<rparr>"
  let ?w3 = "snd (record_audit (report_event ev d (?f r)) ?w2)"
  have "run_id r = k" using assms(1) by (rule row_of_run_id)
  then have "reported k (?f r) ev w ?w3"
    using row_of_upd_runs [of ?f] assms
    by (auto simp: reported_def record_audit_run Let_def row_of_def run_t_def report_event_def)
  moreover have "bnd (update_run k f) (\<lambda>q. bnd (record_audit (report_event ev d q)) (\<lambda>_. gets (h q))) w = (Inr (h (?f r) ?w3), ?w3)"
    unfolding bnd_update_run [OF assms(1)] by (simp add: bnd_def gets_def record_audit_run Let_def)
  ultimately show thesis by (rule that [rotated])
qed

lemma found_row:
  assumes "unique_runs w" and "find (\<lambda>r. run_id r = k \<and> run_org r = org) (runs w) = Some r"
  shows "row_of run_t k w = Some r" "run_id r = k" "run_org r = org"
  using find_unique [OF assms(1) [unfolded unique_keys_def tkey_run_t tget_run_t] assms(2)] find_SomeD [OF assms(2)]
  by (auto simp: row_of_def run_t_def)

text \<open>A worker completes a run of the organization it names exactly when the run is running:
  then the run is completed now, with the step and summary reported (or those it had), the report
  is added to the worker's transitions, every other run is as before and one event of the worker
  is recorded. Otherwise nothing changes and the error says why.\<close>

theorem completeRun_correct:
  assumes "unique_runs w"
  shows "case find (\<lambda>r. run_id r = k \<and> run_org r = org) (runs w) of
      None \<Rightarrow> completeRun k org i w =
        (Inl (DomainError OrganizationIsolationViolation ''Workflow run belongs to another organization.''), w)
    | Some r \<Rightarrow>
        if run_status r \<noteq> Run_Running
        then completeRun k org i w = (Inl (DomainError WorkflowInvalidTransition ''Only running workflow runs can be completed.''), w)
        else \<exists>j w' r'. completeRun k org i w = (Inr j, w') \<and> reported k r' Ev_WorkflowRunCompleted w w'
          \<and> run_status r' = Run_Completed \<and> run_completedAt r' = Some (clock (w_env w) (reads w))
          \<and> run_currentStep r' = Some (coalesce (wc_currentStep i) ''completed'')
          \<and> run_resultSummary r' = or_else (wc_resultSummary i) (run_resultSummary r)
          \<and> run_errorMessage r' = run_errorMessage r \<and> run_startedAt r' = run_startedAt r
          \<and> length (as_array (map_of (as_object (run_state r')) ''workerTransitions''))
              = Suc (length (as_array (map_of (as_object (run_state r)) ''workerTransitions'')))"
proof (cases "find (\<lambda>r. run_id r = k \<and> run_org r = org) (runs w)")
  case None
  then show ?thesis
    by (simp add: completeRun_def findRunForWorker_run bnd_def [of "findRunForWorker a b" for a b])
next
  case (Some r)
  note row = found_row [OF assms Some]
  show ?thesis
  proof (cases "run_status r = Run_Running")
    case False
    then show ?thesis
      by (simp add: Some completeRun_def findRunForWorker_run bnd_def [of "findRunForWorker a b" for a b] step_simps)
  next
    case True
    let ?c = "clock (w_env w) (reads w)"
    define f where "f = (\<lambda>q :: run_row. q\<lparr>run_status := Run_Completed, run_completedAt := Some ?c,
        run_currentStep := Some (coalesce (wc_currentStep i) ''completed''),
        run_resultSummary := or_else (wc_resultSummary i) (run_resultSummary q),
        run_state := nextWorkerState (run_state r) (spread (coalesce (wc_state i) [])
          [(''from'', prisma_status (run_status r)), (''to'', prisma_status Run_Completed), (''at'', JStr (iso (w_env w) ?c))])\<rparr>)"
    define d where "d = (\<lambda>q :: run_row. JObj [(''workflowRunId'', JStr (run_id q)), (''workflowId'', JStr (run_workflow q)),
        (''resultSummary'', jopt (run_resultSummary q))])"
    let ?w1 = "w\<lparr>reads := Suc (reads w)\<rparr>"
    have eq: "completeRun k org i w = bnd (update_run k f) (\<lambda>q. bnd (record_audit (report_event Ev_WorkflowRunCompleted d q))
        (\<lambda>_. gets (\<lambda>w. toWorkflowRunDto (w_env w) q))) ?w1"
      using row by (simp add: completeRun_def findRunForWorker_run Some bnd_def [of "findRunForWorker a b" for a b] True
          bnd_require bnd_new_date bnd_iso_of f_def report_event_def d_def)
    have "row_of run_t k ?w1 = Some r" using row(1) by (simp add: row_of_def run_t_def)
    moreover have "run_id (f q) = run_id q" "run_org (f r) = run_org r" for q by (simp_all add: f_def)
    ultimately obtain j w' where run: "completeRun k org i w = (Inr j, w')"
      and rep: "reported k ((f r)\<lparr>run_updatedAt := clock (w_env ?w1) (reads ?w1)\<rparr>) Ev_WorkflowRunCompleted ?w1 w'"
      unfolding eq by (rule report_step)
    have "reported k ((f r)\<lparr>run_updatedAt := clock (w_env ?w1) (reads ?w1)\<rparr>) Ev_WorkflowRunCompleted w w'"
      using rep by (simp add: reported_def row_of_def run_t_def)
    then show ?thesis
      by (simp add: Some True run) (intro exI conjI, assumption, simp_all add: f_def nextWorkerState_def map_of_append_to as_object_def as_array_def)
  qed
qed

text \<open>A worker fails a run of the organization it names exactly when the run has not ended,
  a queued run included although the domain's state machine has no transition from queued to
  failed: then the run is failed with the error, at the time it had or now, every other run is as
  before and one event of the worker is recorded. Otherwise nothing changes.\<close>

theorem failRun_correct:
  assumes "unique_runs w"
  shows "case find (\<lambda>r. run_id r = k \<and> run_org r = org) (runs w) of
      None \<Rightarrow> failRun k org i w =
        (Inl (DomainError OrganizationIsolationViolation ''Workflow run belongs to another organization.''), w)
    | Some r \<Rightarrow>
        if terminal_status (run_status r)
        then failRun k org i w = (Inl (DomainError WorkflowInvalidTransition ''Terminal workflow runs cannot be failed again.''), w)
        else \<exists>j w' r'. failRun k org i w = (Inr j, w') \<and> reported k r' Ev_WorkflowRunFailed w w'
          \<and> run_status r' = Run_Failed \<and> run_errorMessage r' = Some (wx_errorMessage i)
          \<and> run_completedAt r' = Some (coalesce (run_completedAt r) (clock (w_env w) (reads w)))
          \<and> run_currentStep r' = Some (coalesce (wx_currentStep i) ''failed'')
          \<and> run_resultSummary r' = run_resultSummary r \<and> run_startedAt r' = run_startedAt r"
proof (cases "find (\<lambda>r. run_id r = k \<and> run_org r = org) (runs w)")
  case None
  then show ?thesis
    by (simp add: failRun_def findRunForWorker_run bnd_def [of "findRunForWorker a b" for a b])
next
  case (Some r)
  note row = found_row [OF assms Some]
  show ?thesis
  proof (cases "terminal_status (run_status r)")
    case True
    then show ?thesis
      by (simp add: Some failRun_def findRunForWorker_run isTerminal_iff bnd_def [of "findRunForWorker a b" for a b] step_simps)
  next
    case False
    let ?c = "clock (w_env w) (reads w)"
    define f where "f = (\<lambda>q :: run_row. q\<lparr>run_status := Run_Failed, run_completedAt := Some (coalesce (run_completedAt r) ?c),
        run_currentStep := Some (coalesce (wx_currentStep i) ''failed''), run_errorMessage := Some (wx_errorMessage i),
        run_state := nextWorkerState (run_state r) (spread (coalesce (wx_state i) [])
          [(''from'', prisma_status (run_status r)), (''to'', prisma_status Run_Failed),
           (''errorMessage'', JStr (wx_errorMessage i)), (''at'', JStr (iso (w_env w) ?c))])\<rparr>)"
    define d where "d = (\<lambda>q :: run_row. JObj [(''workflowRunId'', JStr (run_id q)), (''workflowId'', JStr (run_workflow q)),
        (''errorMessage'', JStr (wx_errorMessage i))])"
    let ?w1 = "w\<lparr>reads := Suc (reads w)\<rparr>"
    have eq: "failRun k org i w = bnd (update_run k f) (\<lambda>q. bnd (record_audit (report_event Ev_WorkflowRunFailed d q))
        (\<lambda>_. gets (\<lambda>w. toWorkflowRunDto (w_env w) q))) ?w1"
      using row False by (simp add: failRun_def findRunForWorker_run Some bnd_def [of "findRunForWorker a b" for a b] isTerminal_iff
          bnd_require bnd_new_date bnd_iso_of f_def report_event_def d_def)
    have "row_of run_t k ?w1 = Some r" using row(1) by (simp add: row_of_def run_t_def)
    moreover have "run_id (f q) = run_id q" "run_org (f r) = run_org r" for q by (simp_all add: f_def)
    ultimately obtain j w' where run: "failRun k org i w = (Inr j, w')"
      and rep: "reported k ((f r)\<lparr>run_updatedAt := clock (w_env ?w1) (reads ?w1)\<rparr>) Ev_WorkflowRunFailed ?w1 w'"
      unfolding eq by (rule report_step)
    have "reported k ((f r)\<lparr>run_updatedAt := clock (w_env ?w1) (reads ?w1)\<rparr>) Ev_WorkflowRunFailed w w'"
      using rep by (simp add: reported_def row_of_def run_t_def)
    then show ?thesis
      by (simp add: Some False run) (intro exI conjI, assumption, simp_all add: f_def nextWorkerState_def map_of_append_to as_object_def as_array_def)
  qed
qed

definition demo_complete :: worker_complete where
  "demo_complete = \<lparr>wc_resultSummary = Some ''done'', wc_currentStep = None, wc_state = None\<rparr>"

definition demo_fail :: worker_fail where
  "demo_fail = \<lparr>wx_errorMessage = ''why'', wx_currentStep = None, wx_state = None\<rparr>"

lemma demo_run_sel: "run_id (demo_run s) = ''r''" "run_org (demo_run s) = ''o''" "run_status (demo_run s) = s"
  by (simp_all add: demo_run_def)

theorem completeRun_correct_witness:
  "\<exists>j w' r'. completeRun ''r'' ''o'' demo_complete (demo_world Run_Running) = (Inr j, w')
     \<and> row_of run_t ''r'' w' = Some r' \<and> run_status r' = Run_Completed \<and> run_resultSummary r' = Some ''done''"
  using completeRun_correct [OF demo_unique(1) [of Run_Running], where k = "''r''" and org = "''o''" and i = demo_complete]
  by (auto simp: demo_run_sel demo_complete_def reported_def or_else_def)

theorem failRun_correct_witness:
  "\<exists>j w' r'. failRun ''r'' ''o'' demo_fail (demo_world Run_Queued) = (Inr j, w')
     \<and> row_of run_t ''r'' w' = Some r' \<and> run_status r' = Run_Failed \<and> \<not> canTransitionWorkflowRun Run_Queued Run_Failed"
  using failRun_correct [OF demo_unique(1) [of Run_Queued], where k = "''r''" and org = "''o''" and i = demo_fail]
  by (auto simp: demo_run_sel reported_def terminal_status_def canTransition_iff)

text \<open>The upload quotas are not enforced: the check is started but not waited for, so an
  upload of acceptable content succeeds also when the check fails, whatever the run and the
  organization have already stored.\<close>

theorem upload_quota_not_enforced:
  assumes "find (\<lambda>r. run_id r = k \<and> run_org r = org) (runs w) = Some r"
    and "assertUploadWithinQuota org k (estimatedBase64Bytes b64) w = (Inl e, w1)"
    and "decodeUpload b64 mime kind w = (Inr buffer, w2)"
    and "magic_ok (w_env w) buffer mime" and "store_up w"
  shows "\<exists>d w'. uploadFile k org kind name mime b64 w = (Inr d, w') \<and> fd_size d = length buffer
    \<and> (kind = File_Screenshot \<longrightarrow> uploadScreenshot k org name mime b64 w = (Inr d, w'))"
proof -
  have r: "r \<in> set (runs w)" "run_id r = k" "run_org r = org" using find_SomeD [OF assms(1)] by auto
  have "effect (same_of id) (decodeUpload b64 mime kind) w" "effect (same_of id) (not_awaited (assertUploadWithinQuota org k n)) w" for n
    by (intro effect_intros)+
  then have w2: "w2 = w" and q: "not_awaited (assertUploadWithinQuota org k n) w = (Inr (), w)" for n
    using assms(3) by (auto simp: effect_def same_of_def not_awaited_def)
  have size: "length buffer \<le> MAX_WORKER_UPLOAD_BYTES"
    using assms(3) unfolding decodeUpload_def assertAllowedMime_def by (elim step_elims) simp
  let ?i = "\<lparr>ub_org = org, ub_run = Some k, ub_kind = kind, ub_filename = name, ub_mimeType = mime, ub_buffer = buffer\<rparr>"
  have "acceptable ?i w"
    using r size assms(4) by (auto simp: acceptable_def MAX_WORKER_UPLOAD_BYTES_def MAX_FILE_SIZE_BYTES_def)
  from uploadBuffer_up [OF this assms(5)] obtain d w' where up: "uploadBuffer ?i w = (Inr d, w')" by blast
  then have "fd_size d = length buffer"
    by (rule uploadBuffer_Inr) (simp add: toFileDto_def uploaded_def)
  with up show ?thesis
    using r assms(1,3)
    by (cases "kind = File_Screenshot"; clarsimp simp: uploadFile_def uploadScreenshot_def findRunForWorker_run w2
        bnd_def [of "findRunForWorker a b" for a b] bnd_Inr [where m = "not_awaited x" for x, OF q]
        bnd_def [of "decodeUpload x y z" for x y z])
qed

definition full_run :: world where
  "full_run = (demo_world Run_Running)\<lparr>files := [\<lparr>fi_id = ''f'', fi_org = ''o'', fi_run = Some ''r'', fi_kind = File_Download,
     fi_bucket = ''b'', fi_objectKey = ''k'', fi_mimeType = ''text/plain'', fi_size = MAX_RUN_UPLOAD_BYTES, fi_sha256 = '''', fi_createdAt = 0\<rparr>]\<rparr>"

theorem upload_quota_not_enforced_witness:
  "(\<exists>e w1. assertUploadWithinQuota ''o'' ''r'' (estimatedBase64Bytes ''hello'') full_run = (Inl e, w1))
   \<and> (\<exists>d w'. uploadFile ''r'' ''o'' File_Download ''a.txt'' ''text/plain'' ''hello'' full_run = (Inr d, w') \<and> fd_size d = length ''hello'')"
proof -
  have found: "find (\<lambda>r. run_id r = ''r'' \<and> run_org r = ''o'') (runs full_run) = Some (demo_run Run_Running)"
    by (simp add: full_run_def demo_run_def)
  have "\<exists>e w1. assertUploadWithinQuota ''o'' ''r'' (estimatedBase64Bytes ''hello'') full_run = (Inl e, w1)"
    by (simp add: assertUploadWithinQuota_def step_simps full_run_def file_t_def estimatedBase64Bytes_def)
  then obtain e w1 where quota: "assertUploadWithinQuota ''o'' ''r'' (estimatedBase64Bytes ''hello'') full_run = (Inl e, w1)" by blast
  have env: "w_env full_run = demo_env" by (simp add: full_run_def demo_world_def empty_world_def)
  have "to_lower ''text/plain'' = ''text/plain''" by (simp add: to_lower_def lower_char_def)
  then have dec: "decodeUpload ''hello'' ''text/plain'' File_Download full_run = (Inr ''hello'', full_run)"
    by (simp add: decodeUpload_def assertAllowedMime_def step_simps env demo_env_def estimatedBase64Bytes_def MAX_WORKER_UPLOAD_BYTES_def)
  have "magic_ok (w_env full_run) ''hello'' ''text/plain''" "store_up full_run"
    by (simp_all add: magic_ok_def to_lower_def lower_char_def store_up_def env demo_env_def)
  from upload_quota_not_enforced [OF found quota dec this, of "''a.txt''"] quota show ?thesis by blast
qed

lemma match_run_id_nonempty: "match_run_id s \<noteq> Some []"
  by (induction s rule: match_run_id.induct) (auto simp: Let_def)

text \<open>C28. The guard of the internal routes: in production a request is let through only with a
  token that carries the keyed hash of its own payload and has not expired, and when the address
  names a run, by its first \<open>/runs/\<close>, the token is for that very run.\<close>

theorem guard_admits_signed_run_tokens:
  assumes "production (w_env w)" and "canActivate request w = (Inr granted, w')"
  shows "\<exists>token payload rest c. granted = Some c \<and> or_else (hr_workerToken request) (hr_bearer request) = Some token
      \<and> token = VERSION @ ''.'' @ payload @ ''.'' @ tc_sign (codec (w_env w)) (worker_secret (w_env w)) payload @ rest
      \<and> tc_decode (codec (w_env w)) payload = Some c \<and> cl_scope c = ''run''
      \<and> clock (w_env w) (reads w) div 1000 < cl_expiresAt c
      \<and> (\<forall>k. readRunIdFromRequest (hr_url request) = Some k \<longrightarrow> cl_workflowRunId c = k)
      \<and> w' = w\<lparr>reads := Suc (reads w)\<rparr>"
proof -
  let ?run = "or_else (readRunIdFromRequest (hr_url request)) (hr_bodyRun request)"
  let ?token = "or_else (hr_workerToken request) (hr_bearer request)"
  from assms obtain c where c: "granted = Some c" and w': "w' = w\<lparr>reads := Suc (reads w)\<rparr>"
    and token: "truthy ?token"
    and v: "verifyWorkerRunToken (codec (w_env w)) (worker_secret (w_env w)) (the ?token) None ?run (clock (w_env w) (reads w)) = Some c"
    unfolding canActivate_def Let_def
    by (elim world_elims) (auto simp: step_simps split: option.splits dest: sym)
  from token obtain t where t: "?token = Some t" by (auto simp: truthy_def split: option.splits)
  from v obtain payload rest where p: "the ?token = VERSION @ ''.'' @ payload @ ''.'' @ tc_sign (codec (w_env w)) (worker_secret (w_env w)) payload @ rest"
    "tc_decode (codec (w_env w)) payload = Some c" "cl_scope c = ''run''" "clock (w_env w) (reads w) div 1000 < cl_expiresAt c"
    "truthy ?run \<Longrightarrow> Some (cl_workflowRunId c) = ?run"
    by (elim verified_token) (rule that)
  have "cl_workflowRunId c = k" if "readRunIdFromRequest (hr_url request) = Some k" for k
    using p(5) match_run_id_nonempty that by (auto simp: readRunIdFromRequest_def truthy_def or_else_def split: if_splits)
  then show ?thesis
    using c w' t p(1-4) by (intro exI [of _ t] exI [of _ payload] exI [of _ rest] exI [of _ c]) simp
qed

definition demo_request :: http_request where
  "demo_request = \<lparr>hr_url = Some ''/internal/workers/runs/r/fail'', hr_workerToken = Some demo_token, hr_bearer = None, hr_bodyRun = None\<rparr>"

lemma demo_token_verifies:
  "verifyWorkerRunToken demo_codec ''k'' demo_token None (Some ''r'') n =
     (if n div 1000 < 3 then Some demo_claims else None)"
proof -
  have dec: "tc_decode demo_codec (tc_encode demo_codec c) = Some c"
    "tc_encode demo_codec c \<noteq> []" "tc_sign demo_codec k p \<noteq> []" for c k p
    using demo_codec_ok by (auto simp: codec_ok_def)
  show ?thesis
    unfolding demo_token_def verifyWorkerRunToken_def issueWorkerRunToken_def Let_def split_issued [OF demo_codec_ok]
    by (simp add: part_def truthy_def dec demo_claims_def)
qed

theorem guard_admits_signed_run_tokens_witness:
  "canActivate demo_request (empty_world demo_env) = (Inr (Some demo_claims), (empty_world demo_env)\<lparr>reads := 1\<rparr>)
   \<and> cl_workflowRunId demo_claims = ''r''"
proof -
  have prod: "production (w_env (empty_world demo_env))" by (simp add: empty_world_def demo_env_def)
  have "match_run_id ''/internal/workers/runs/r/fail'' = Some ''r''" by code_simp
  then have run: "readRunIdFromRequest (hr_url demo_request) = Some ''r''"
    by (simp add: demo_request_def readRunIdFromRequest_def truthy_def)
  have env: "codec demo_env = demo_codec" "worker_secret demo_env = ''k''" "clock demo_env n = n" for n
    by (simp_all add: demo_env_def)
  have token: "hr_workerToken demo_request = Some demo_token" "demo_token \<noteq> []"
    by (simp_all add: demo_request_def demo_token_def issueWorkerRunToken_def VERSION_def Let_def)
  have act: "canActivate demo_request (empty_world demo_env) = (Inr (Some demo_claims), (empty_world demo_env)\<lparr>reads := 1\<rparr>)"
    by (simp add: canActivate_def run token or_else_def truthy_def step_simps empty_world_def env demo_token_verifies Let_def)
  from guard_admits_signed_run_tokens [OF prod act] run act show ?thesis by auto
qed

end
