(* ===== verification/Credentials.thy ===== *)
theory Credentials
  imports Vault Api_Common Internal_Worker
begin

section \<open>Credentials\<close>

text \<open>
  \<open>apps/api/src/credentials\<close>: credentials of an organization, sealed by the vault, their grants to
  agents, and their use by a worker for a run. Every operation that changes a credential is
  recorded in the audit log without the secret.
\<close>

subsection \<open>Views\<close>

definition toCredentialGrantDto :: "env \<Rightarrow> grant_row \<Rightarrow> json" where
  "toCredentialGrantDto e g = JObj
     [(''id'', JStr (gr_id g)), (''credentialId'', JStr (gr_credential g)), (''agentId'', JStr (gr_agent g)),
      (''scope'', JStr (gr_scope g)), (''createdByUserId'', JStr (gr_createdBy g)),
      (''createdAt'', JStr (iso e (gr_createdAt g))), (''revokedAt'', iso_opt e (gr_revokedAt g))]"

definition toCredentialDto :: "env \<Rightarrow> credential_row \<times> grant_row list \<Rightarrow> json" where
  "toCredentialDto e cg = (case cg of (c, gs) \<Rightarrow> JObj
     [(''id'', JStr (cr_id c)), (''organizationId'', JStr (cr_org c)), (''vendorId'', JStr (cr_vendor c)),
      (''label'', JStr (cr_label c)), (''credentialType'', JStr (credential_type_value (cr_type c))),
      (''encryptionVersion'', JStr (cr_encryptionVersion c)),
      (''status'', JStr (credential_status_value (cr_status c))),
      (''lastUsedAt'', iso_opt e (cr_lastUsedAt c)), (''createdByUserId'', JStr (cr_createdBy c)),
      (''createdAt'', JStr (iso e (cr_createdAt c))), (''updatedAt'', JStr (iso e (cr_updatedAt c))),
      (''revokedAt'', iso_opt e (cr_revokedAt c)),
      (''grants'', JArr (map (toCredentialGrantDto e) gs))])"

text \<open>\<open>include: { grants: { orderBy: { createdAt: 'asc' } } }\<close>.\<close>

definition with_grants :: "credential_row \<Rightarrow> (credential_row \<times> grant_row list) action" where
  "with_grants c = bnd (find_many grant_t (\<lambda>g. gr_credential g = cr_id c)) (\<lambda>gs. ret (c, sort_key gr_createdAt gs))"

fun with_grants_all :: "credential_row list \<Rightarrow> (credential_row \<times> grant_row list) list action" where
  "with_grants_all [] = ret []"
| "with_grants_all (c # cs) = bnd (with_grants c) (\<lambda>d. bnd (with_grants_all cs) (\<lambda>ds. ret (d # ds)))"

subsection \<open>Checks\<close>

definition credential_not_found :: err where
  "credential_not_found = DomainError NotFound ''Credential was not found.''"

definition findCredentialInOrganization :: "string option \<Rightarrow> string \<Rightarrow> credential_row action" where
  "findCredentialInOrganization organizationId k =
    bnd (require_org organizationId) (\<lambda>org.
    bnd (find_first credential_t (\<lambda>c. cr_id c = k \<and> cr_org c = org)) (\<lambda>credential.
    require_some credential credential_not_found))"

definition assertVendorInOrganization :: "string \<Rightarrow> string \<Rightarrow> unit action" where
  "assertVendorInOrganization organizationId vendorId =
    bnd (find_first vendor_t (\<lambda>v. ve_id v = vendorId \<and> ve_org v = organizationId \<and> ve_deletedAt v = None)) (\<lambda>vendor.
    require (vendor \<noteq> None) (DomainError OrganizationIsolationViolation ''Credential vendor belongs to another organization.''))"

definition assertAgentInOrganization :: "string \<Rightarrow> string \<Rightarrow> unit action" where
  "assertAgentInOrganization organizationId agentId =
    bnd (find_first agent_t (\<lambda>a. ag_id a = agentId \<and> ag_org a = organizationId)) (\<lambda>agent.
    require (agent \<noteq> None) (DomainError OrganizationIsolationViolation ''Credential agent belongs to another organization.''))"

definition recordCredentialAudit :: "context_user \<Rightarrow> audit_event_type \<Rightarrow> (string \<times> json) list \<Rightarrow> unit action" where
  "recordCredentialAudit currentUser eventType eventData =
    bnd (record_audit \<lparr>ai_org = cu_org currentUser, ai_run = None, ai_agent = None, ai_actorType = Actor_User,
      ai_actorId = Some (cu_id currentUser), ai_eventType = eventType, ai_data = JObj eventData\<rparr>) (\<lambda>_. ret ())"

text \<open>\<open>/^local-v(\d+)$/\<close>, and the number after it as JavaScript prints it.\<close>

definition nextKeyVersion :: "env \<Rightarrow> string \<Rightarrow> string" where
  "nextKeyVersion e current =
    (let digits = drop (length ''local-v'') current in
     if starts_with current ''local-v'' \<and> digits \<noteq> [] \<and> list_all is_digit digits
     then ''local-v'' @ num_str e (of_nat (digits_value digits + 1))
     else ''local-v2'')"

definition update_credential :: "string \<Rightarrow> (credential_row \<Rightarrow> credential_row) \<Rightarrow> credential_row action" where
  "update_credential k f = bnd new_date (\<lambda>now.
     update_row credential_t record_not_found k (\<lambda>c. (f c)\<lparr>cr_updatedAt := now\<rparr>))"

definition recordCredentialDecrypt :: "string \<Rightarrow> unit action" where
  "recordCredentialDecrypt result = modify (\<lambda>w. w\<lparr>decrypt_counter := decrypt_counter w @ [result]\<rparr>)"

definition recordCredentialGrant :: "string \<Rightarrow> unit action" where
  "recordCredentialGrant result = modify (\<lambda>w. w\<lparr>grant_counter := grant_counter w @ [result]\<rparr>)"

subsection \<open>Operations of a signed-in user\<close>

record credential_input =
  cc_vendorId :: string
  cc_label :: string
  cc_type :: credential_type
  cc_secret :: "(string \<times> json) list"

record credential_change =
  cx_vendorId :: "string option"
  cx_label :: "string option"
  cx_type :: "credential_type option"
  cx_secret :: "(string \<times> json) list option"

definition credential_list :: "string option \<Rightarrow> page_query \<Rightarrow> (json list \<times> pagination_meta) action" where
  "credential_list organizationId page =
    bnd (require_org organizationId) (\<lambda>org.
    bnd (find_many credential_t (\<lambda>c. cr_org c = org)) (\<lambda>found.
    bnd (with_grants_all (page_slice page (sort_key (\<lambda>c. (cr_createdAt c, cr_label c)) found))) (\<lambda>cs.
    gets (\<lambda>w. (map (toCredentialDto (w_env w)) cs, paginationMeta (length found) page)))))"

definition credential_get :: "string option \<Rightarrow> string \<Rightarrow> json action" where
  "credential_get organizationId k =
    bnd (findCredentialInOrganization organizationId k) (\<lambda>c.
    bnd (with_grants c) (\<lambda>d. gets (\<lambda>w. toCredentialDto (w_env w) d)))"

definition credential_create :: "context_user option \<Rightarrow> credential_input \<Rightarrow> json action" where
  "credential_create currentUser i =
    bnd (require_user currentUser) (\<lambda>user.
    bnd (assertVendorInOrganization (cu_org user) (cc_vendorId i)) (\<lambda>_.
    bnd (transaction (
      bnd fresh_id (\<lambda>k.
      bnd new_date (\<lambda>now.
      bnd (create_row credential_t \<lparr>cr_id = k, cr_org = cu_org user, cr_vendor = cc_vendorId i, cr_label = cc_label i,
        cr_type = cc_type i, cr_payload = JObj [], cr_encryptionVersion = ''pending'', cr_status = Credential_Active,
        cr_lastUsedAt = None, cr_createdBy = cu_id user, cr_createdAt = now, cr_updatedAt = now, cr_revokedAt = None\<rparr>) (\<lambda>created.
      bnd (gets (\<lambda>w. vaultMasterKey (w_env w))) (\<lambda>masterKey.
      bnd (encryptSecret (cc_secret i) masterKey \<lparr>vc_org = Some (cu_org user), vc_credential = Some (cr_id created),
        vc_keyVersion = Some ''local-v1''\<rparr>) (\<lambda>p.
      bnd (update_credential (cr_id created) (\<lambda>c. c\<lparr>cr_payload := payload_json p, cr_encryptionVersion := ep_keyVersion p\<rparr>)) (\<lambda>c.
      with_grants c)))))))) (\<lambda>cg.
    bnd (recordCredentialAudit user Ev_CredentialCreated [(''credentialId'', JStr (cr_id (fst cg))),
      (''vendorId'', JStr (cr_vendor (fst cg))), (''label'', JStr (cr_label (fst cg))),
      (''credentialType'', JStr (credential_type_value (cc_type i)))]) (\<lambda>_.
    gets (\<lambda>w. toCredentialDto (w_env w) cg)))))"

definition seal_option :: "(string \<times> json) list option \<Rightarrow> vault_context \<Rightarrow> encrypted_payload option action" where
  "seal_option secret context = (case secret of
     None \<Rightarrow> ret None
   | Some s \<Rightarrow> bnd (gets (\<lambda>w. vaultMasterKey (w_env w))) (\<lambda>masterKey.
       bnd (encryptSecret s masterKey context) (\<lambda>p. ret (Some p))))"

definition credential_update :: "context_user option \<Rightarrow> string \<Rightarrow> credential_change \<Rightarrow> json action" where
  "credential_update currentUser k i =
    bnd (require_user currentUser) (\<lambda>user.
    bnd (findCredentialInOrganization (Some (cu_org user)) k) (\<lambda>existing.
    bnd (require (cr_status existing \<noteq> Credential_Revoked)
      (DomainError ValidationFailed ''Revoked credentials cannot be updated.'')) (\<lambda>_.
    bnd (run_if (truthy (cx_vendorId i)) (assertVendorInOrganization (cu_org user) (the (cx_vendorId i)))) (\<lambda>_.
    bnd (gets (\<lambda>w. nextKeyVersion (w_env w) (cr_encryptionVersion existing))) (\<lambda>v.
    bnd (seal_option (cx_secret i) \<lparr>vc_org = Some (cu_org user), vc_credential = Some (cr_id existing), vc_keyVersion = Some v\<rparr>) (\<lambda>p.
    bnd (update_credential (cr_id existing) (\<lambda>c. c\<lparr>
        cr_vendor := coalesce (cx_vendorId i) (cr_vendor c), cr_label := coalesce (cx_label i) (cr_label c),
        cr_type := coalesce (cx_type i) (cr_type c),
        cr_payload := (case p of None \<Rightarrow> cr_payload c | Some q \<Rightarrow> payload_json q),
        cr_encryptionVersion := (case p of None \<Rightarrow> cr_encryptionVersion c | Some q \<Rightarrow> ep_keyVersion q),
        cr_status := (if p \<noteq> None then Credential_Rotated else cr_status c)\<rparr>)) (\<lambda>c.
    bnd (with_grants c) (\<lambda>cg.
    bnd (recordCredentialAudit user Ev_CredentialUpdated [(''credentialId'', JStr (cr_id c)),
      (''vendorId'', JStr (cr_vendor c)), (''label'', JStr (cr_label c)), (''rotated'', JBool (p \<noteq> None))]) (\<lambda>_.
    gets (\<lambda>w. toCredentialDto (w_env w) cg))))))))))"

definition save_grant :: "grant_row option \<Rightarrow> string \<Rightarrow> string \<Rightarrow> string \<Rightarrow> string \<Rightarrow> grant_row action" where
  "save_grant existingGrant credentialId agentId scope userId = (case existingGrant of
     Some g \<Rightarrow> update_row grant_t record_not_found (gr_id g)
       (\<lambda>q. q\<lparr>gr_scope := scope, gr_revokedAt := None, gr_createdBy := userId\<rparr>)
   | None \<Rightarrow> bnd fresh_id (\<lambda>k. bnd new_date (\<lambda>now.
       create_row grant_t \<lparr>gr_id = k, gr_credential = credentialId, gr_agent = agentId, gr_scope = scope,
         gr_createdBy = userId, gr_createdAt = now, gr_revokedAt = None\<rparr>)))"

definition credential_grant :: "context_user option \<Rightarrow> string \<Rightarrow> string \<Rightarrow> string \<Rightarrow> json action" where
  "credential_grant currentUser credentialId agentId scope =
    bnd (require_user currentUser) (\<lambda>user.
    bnd (findCredentialInOrganization (Some (cu_org user)) credentialId) (\<lambda>credential.
    bnd (require (cr_status credential \<noteq> Credential_Revoked)
      (DomainError ValidationFailed ''Revoked credentials cannot be granted.'')) (\<lambda>_.
    bnd (assertAgentInOrganization (cu_org user) agentId) (\<lambda>_.
    bnd (find_first grant_t (\<lambda>g. gr_credential g = credentialId \<and> gr_agent g = agentId)) (\<lambda>existingGrant.
    bnd (save_grant existingGrant credentialId agentId scope (cu_id user)) (\<lambda>g.
    bnd (recordCredentialAudit user Ev_CredentialGrantedToAgent [(''credentialId'', JStr credentialId),
      (''grantId'', JStr (gr_id g)), (''agentId'', JStr (gr_agent g)), (''scope'', JStr (gr_scope g))]) (\<lambda>_.
    bnd (recordCredentialGrant ''success'') (\<lambda>_.
    gets (\<lambda>w. toCredentialGrantDto (w_env w) g)))))))))"

definition credential_revokeGrant :: "context_user option \<Rightarrow> string \<Rightarrow> string \<Rightarrow> json action" where
  "credential_revokeGrant currentUser credentialId grantId =
    bnd (require_user currentUser) (\<lambda>user.
    bnd (findCredentialInOrganization (Some (cu_org user)) credentialId) (\<lambda>credential.
    bnd (find_first grant_t (\<lambda>g. gr_id g = grantId \<and> gr_credential g = cr_id credential)) (\<lambda>found.
    bnd (require_some found (DomainError NotFound ''Credential grant was not found.'')) (\<lambda>g.
    bnd (now_unless (gr_revokedAt g)) (\<lambda>revokedAt.
    bnd (update_row grant_t record_not_found (gr_id g) (\<lambda>q. q\<lparr>gr_revokedAt := revokedAt\<rparr>)) (\<lambda>revokedGrant.
    bnd (recordCredentialAudit user Ev_CredentialGrantRevoked [(''credentialId'', JStr credentialId),
      (''grantId'', JStr (gr_id revokedGrant)), (''agentId'', JStr (gr_agent revokedGrant))]) (\<lambda>_.
    gets (\<lambda>w. toCredentialGrantDto (w_env w) revokedGrant))))))))"

definition credential_revoke :: "context_user option \<Rightarrow> string \<Rightarrow> json action" where
  "credential_revoke currentUser k =
    bnd (require_user currentUser) (\<lambda>user.
    bnd (findCredentialInOrganization (Some (cu_org user)) k) (\<lambda>existing.
    bnd (now_unless (cr_revokedAt existing)) (\<lambda>revokedAt.
    bnd (update_credential (cr_id existing) (\<lambda>c. c\<lparr>cr_status := Credential_Revoked, cr_revokedAt := revokedAt\<rparr>)) (\<lambda>c.
    bnd (with_grants c) (\<lambda>cg.
    bnd (recordCredentialAudit user Ev_CredentialRevoked [(''credentialId'', JStr (cr_id c)),
      (''vendorId'', JStr (cr_vendor c))]) (\<lambda>_.
    gets (\<lambda>w. toCredentialDto (w_env w) cg)))))))"

subsection \<open>Use by a worker\<close>

record decrypted_credential =
  dc_credentialId :: string
  dc_workflowRunId :: string
  dc_agentId :: string
  dc_secret :: "(string \<times> json) list"

definition open_payload :: "credential_row \<Rightarrow> ((string \<times> json) list) action" where
  "open_payload c = (\<lambda>w.
    (case payload_of (cr_payload c) of
       None \<Rightarrow> (Inl (JsError ''TypeError'' ''The first argument must be of type string.''), w)
     | Some p \<Rightarrow> (decryptSecret (w_env w) p (vaultMasterKey (w_env w))
         \<lparr>vc_org = Some (cr_org c), vc_credential = Some (cr_id c), vc_keyVersion = Some (cr_encryptionVersion c)\<rparr>, w)))"

definition decryptForRun :: "string \<Rightarrow> string \<Rightarrow> decrypted_credential action" where
  "decryptForRun credentialId workflowRunId =
    bnd (find_first credential_t (\<lambda>c. cr_id c = credentialId)) (\<lambda>found.
    bnd (require_some found credential_not_found) (\<lambda>credential.
    bnd (require (cr_status credential \<noteq> Credential_Revoked) (DomainError PermissionDenied ''Credential is revoked.'')) (\<lambda>_.
    bnd (find_run workflowRunId (cr_org credential)) (\<lambda>run.
    bnd (require_some run (DomainError PermissionDenied ''Workflow run is not authorized for this credential.'')) (\<lambda>workflowRun.
    bnd (require (\<not> (truthy (run_vendor workflowRun) \<and> run_vendor workflowRun \<noteq> Some (cr_vendor credential)))
      (DomainError PermissionDenied ''Credential vendor does not match the workflow run.'')) (\<lambda>_.
    bnd (find_first grant_t (\<lambda>g. gr_credential g = cr_id credential \<and> gr_agent g = run_agent workflowRun \<and> gr_revokedAt g = None)) (\<lambda>grant.
    bnd (require_some grant (DomainError PermissionDenied ''Credential is not granted to the workflow agent.'')) (\<lambda>grant.
    bnd (try_catch (open_payload credential) (\<lambda>e. bnd (recordCredentialDecrypt ''failure'') (\<lambda>_. throw e))) (\<lambda>plaintext.
    bnd new_date (\<lambda>lastUsedAt.
    bnd (update_credential (cr_id credential) (\<lambda>c. c\<lparr>cr_lastUsedAt := Some lastUsedAt\<rparr>)) (\<lambda>_.
    bnd (record_audit \<lparr>ai_org = cr_org credential, ai_run = Some (run_id workflowRun), ai_agent = Some (run_agent workflowRun),
      ai_actorType = Actor_Worker, ai_actorId = Some ''internal-worker'', ai_eventType = Ev_CredentialUsed,
      ai_data = JObj [(''credentialId'', JStr (cr_id credential)), (''vendorId'', JStr (cr_vendor credential)),
        (''grantId'', JStr (gr_id grant)), (''scope'', JStr (gr_scope grant)),
        (''returnedSecretShape'', redactSecretLikeValues (JObj plaintext))]\<rparr>) (\<lambda>_.
    bnd (recordCredentialDecrypt ''success'') (\<lambda>_.
    ret \<lparr>dc_credentialId = cr_id credential, dc_workflowRunId = run_id workflowRun,
         dc_agentId = run_agent workflowRun, dc_secret = plaintext\<rparr>)))))))))))))"

text \<open>The route \<open>POST /internal/vault/credentials/:id/decrypt-for-run\<close>: the guard, then the handler
with the run id of the request's body.\<close>

definition decrypt_route :: "http_request \<Rightarrow> string \<Rightarrow> decrypted_credential action" where
  "decrypt_route request credentialId =
    bnd (canActivate request) (\<lambda>_.
    bnd (require_some (hr_bodyRun request) (DomainError ValidationFailed ''Invalid credential decrypt request.'')) (\<lambda>workflowRunId.
    bnd (check_body (\<lambda>e. isUuid e workflowRunId) ''Invalid credential decrypt request.'') (\<lambda>_.
    decryptForRun credentialId workflowRunId)))"

subsection \<open>Effects\<close>

lemmas credential_checks = findCredentialInOrganization_def assertVendorInOrganization_def
  assertAgentInOrganization_def require_org_def require_user_def with_grants_def

lemma same_open_payload [effect_intros]: "effect (same_of f) (open_payload c) w"
  by (simp add: effect_def same_of_def open_payload_def split: option.splits)

lemma same_credential_checks [effect_intros]:
  "effect (same_of f) (findCredentialInOrganization org k) w"
  "effect (same_of f) (assertVendorInOrganization g v) w"
  "effect (same_of f) (assertAgentInOrganization g a) w"
  "effect (same_of f) (with_grants c) w"
  "effect (same_of f) (require_user u) w"
  unfolding credential_checks by (intro effect_intros)+

lemma same_credential_parts [effect_intros]:
  "(\<And>w n. f (w\<lparr>ids := n\<rparr>) = f w) \<Longrightarrow> effect (same_of f) (encryptSecret s mk c) w"
  "(\<And>w n. f (w\<lparr>ids := n\<rparr>) = f w) \<Longrightarrow> effect (same_of f) (seal_option so c) w"
  "(\<And>w x. f (w\<lparr>decrypt_counter := x\<rparr>) = f w) \<Longrightarrow> effect (same_of f) (recordCredentialDecrypt s') w"
  "(\<And>w x. f (w\<lparr>grant_counter := x\<rparr>) = f w) \<Longrightarrow> effect (same_of f) (recordCredentialGrant s') w"
proof -
  show e: "effect (same_of f) (encryptSecret s mk c) w" if "\<And>w n. f (w\<lparr>ids := n\<rparr>) = f w" for s mk c w
    using that by (auto simp: effect_def same_of_def encryptSecret_def Let_def split: sum.splits)
  show "effect (same_of f) (seal_option so c) w" if "\<And>w n. f (w\<lparr>ids := n\<rparr>) = f w"
    unfolding seal_option_def by (intro effect_intros e that)
  show "(\<And>w x. f (w\<lparr>decrypt_counter := x\<rparr>) = f w) \<Longrightarrow> effect (same_of f) (recordCredentialDecrypt s') w"
    unfolding recordCredentialDecrypt_def by (intro effect_intros)
  show "(\<And>w x. f (w\<lparr>grant_counter := x\<rparr>) = f w) \<Longrightarrow> effect (same_of f) (recordCredentialGrant s') w"
    unfolding recordCredentialGrant_def by (intro effect_intros)
qed

lemma audit_credential_parts [effect_intros]:
  "effect audit_ok (findCredentialInOrganization org k) w"
  "effect audit_ok (assertVendorInOrganization g v) w"
  "effect audit_ok (assertAgentInOrganization g a) w"
  "effect audit_ok (with_grants c) w"
  "effect audit_ok (open_payload c) w"
  "effect audit_ok (require_user u) w"
  "effect audit_ok (encryptSecret s mk ctx) w"
  "effect audit_ok (seal_option so ctx) w"
  "effect audit_ok (recordCredentialDecrypt s') w"
  "effect audit_ok (recordCredentialGrant s') w"
  by (rule same_quiet, intro effect_intros; simp add: quiet_def)+

lemma audit_credential_steps [effect_intros]:
  "effect audit_ok (save_grant eg k a sc uid) w"
  "effect audit_ok (update_credential k f) w"
  "effect audit_ok (recordCredentialAudit user ev d) w"
  unfolding save_grant_def update_credential_def recordCredentialAudit_def by (intro effect_intros)+

lemma audit_credential_ops [effect_intros]:
  "effect audit_ok (credential_update u k i') w"
  "effect audit_ok (credential_grant u k a s) w"
  "effect audit_ok (credential_revokeGrant u k g) w"
  "effect audit_ok (credential_revoke u k) w"
  "effect audit_ok (decryptForRun k r) w"
  unfolding credential_update_def credential_grant_def credential_revokeGrant_def
    credential_revoke_def decryptForRun_def find_run_def
  by (intro effect_intros)+

lemma later_credential_parts [effect_intros]:
  "effect later (with_grants c) w"
  "effect later (encryptSecret s mk ctx) w"
  by (rule later_same, intro effect_intros; simp add: quiet_def)+

lemma later_update_credential [effect_intros]: "effect later (update_credential k f) w"
  unfolding update_credential_def by (intro effect_intros) 

lemma audit_credential_create [effect_intros]: "effect audit_ok (credential_create u i) w"
  unfolding credential_create_def by (intro effect_intros)

text \<open>Credentials stay in their organization, and a revoked credential stays revoked with its sealed secret.\<close>

definition credential_like :: "credential_row \<Rightarrow> credential_row \<Rightarrow> bool" where
  "credential_like c c' \<longleftrightarrow> cr_id c' = cr_id c \<and> cr_org c' = cr_org c
     \<and> (cr_status c = Credential_Revoked \<longrightarrow> cr_status c' = Credential_Revoked \<and> cr_payload c' = cr_payload c)"

definition credentials_ok :: "world \<Rightarrow> world \<Rightarrow> bool" where
  "credentials_ok = rows_ok credential_t credential_like"

lemma credential_t_sel [simp]: "tget credential_t = credentials" "tkey credential_t = cr_id"
  by (simp_all add: credential_t_def)

interpretation creds: row_order credential_t credential_like
  rewrites "rows_ok credential_t credential_like = credentials_ok" and "tget credential_t = credentials" and "tkey credential_t = cr_id"
  by unfold_locales (auto simp: credential_like_def credentials_ok_def)

lemma keeps_credentials [simp, effect_intros]:
  "keeps credentials grant_t" "keeps credentials audit_t" "keeps credentials run_t"
  by (simp_all add: keeps_defs)

lemma creds_same_op:
  "(\<And>f :: world \<Rightarrow> credential_row list. f = credentials \<Longrightarrow> effect (same_of f) m w) \<Longrightarrow> effect credentials_ok m w"
  by (rule creds.rows_same) blast

lemma creds_parts [effect_intros]:
  "effect credentials_ok (findCredentialInOrganization org k) w"
  "effect credentials_ok (assertVendorInOrganization g v) w"
  "effect credentials_ok (assertAgentInOrganization g a) w"
  "effect credentials_ok (with_grants c) w"
  "effect credentials_ok (open_payload c) w"
  "effect credentials_ok (require_user u) w"
  "effect credentials_ok (seal_option so ctx) w"
  "effect credentials_ok (recordCredentialDecrypt s') w"
  "effect credentials_ok (recordCredentialGrant s') w"
  "effect credentials_ok (save_grant eg k a sc uid) w"
  "effect credentials_ok (recordCredentialAudit user ev d) w"
  "effect credentials_ok (record_audit ai) w"
  "effect credentials_ok new_date w"
  "effect credentials_ok (now_unless t) w"
  unfolding save_grant_def recordCredentialAudit_def
  by (rule creds.rows_same, intro effect_intros; simp)+

lemma creds_update:
  assumes "row_of credential_t k w = Some c" and "\<And>q. cr_id (f q) = cr_id q" and "credential_like c (f c)"
  shows "effect credentials_ok (update_credential k f) w"
  unfolding update_credential_def
proof (rule creds.keep_bnd [OF assms(1)])
  show "effect (same_of credentials) new_date w" by (intro effect_intros) simp
  fix now w' assume "row_of credential_t k w' = Some c"
  then show "effect credentials_ok (update_row credential_t record_not_found k (\<lambda>c. (f c)\<lparr>cr_updatedAt := now\<rparr>)) w'"
    using assms(2,3) by (intro creds.rows_update) (auto simp: credential_like_def)
qed

lemma findCredential_row:
  assumes "unique_keys credential_t w" and "findCredentialInOrganization org k w = (Inr c, w')"
  shows "row_of credential_t k w = Some c" "cr_id c = k" "Some (cr_org c) = org" "w' = w"
proof -
  obtain g where g: "org = Some g" "g \<noteq> []" and f: "find (\<lambda>c. cr_id c = k \<and> cr_org c = g) (credentials w) = Some c" and "w' = w"
    using assms(2) unfolding findCredentialInOrganization_def require_org_def
    by (auto simp: truthy_def step_simps split: option.splits if_splits)
  then show "row_of credential_t k w = Some c" "cr_id c = k" "Some (cr_org c) = org" "w' = w"
    using find_unique [OF assms(1) [unfolded unique_keys_def credential_t_sel] f] find_SomeD [OF f]
    by (auto simp: row_of_def)
qed

lemma creds_ops [effect_intros]:
  "effect credentials_ok (credential_grant u k a s) w"
  "effect credentials_ok (credential_revokeGrant u k g) w"
  unfolding credential_grant_def credential_revokeGrant_def by (intro effect_intros; simp)+

lemma creds_bnd_update:
  assumes "row_of credential_t k w = Some c" and "\<And>q. cr_id (f q) = cr_id q" and "credential_like c (f c)"
    and "\<And>x s. effect credentials_ok (h x) s"
  shows "effect credentials_ok (bnd (update_credential k f) h) w"
  by (rule creds.ord.effect_bnd, rule creds_update [OF assms(1-3)], rule assms(4))

lemma creds_after_find:
  assumes "\<And>c w'. row_of credential_t (cr_id c) w' = Some c \<Longrightarrow> effect credentials_ok (g c) w'"
  shows "effect credentials_ok (bnd (findCredentialInOrganization org k) g) w"
proof (rule creds.rows_unique, rule creds.ord.effect_bnd)
  show "effect credentials_ok (findCredentialInOrganization org k) w" by (intro effect_intros)
  fix c w1 assume "unique_keys credential_t w" "findCredentialInOrganization org k w = (Inr c, w1)"
  from findCredential_row [OF this] show "effect credentials_ok (g c) w1" by (intro assms) simp
qed

lemma creds_step: "row_of credential_t k s = Some c \<Longrightarrow> effect (same_of credentials) m s \<Longrightarrow>
    (\<And>x s'. row_of credential_t k s' = Some c \<Longrightarrow> effect credentials_ok (f x) s') \<Longrightarrow> effect credentials_ok (bnd m f) s"
  by (rule creds.keep_bnd)

lemma creds_revoke [effect_intros]: "effect credentials_ok (credential_revoke u k) w"
  unfolding credential_revoke_def
  apply (rule creds.ord.effect_bnd, rule creds_parts, rule creds_after_find)
  apply (erule creds_step, (intro effect_intros; simp)[1])
  apply (erule creds_bnd_update, auto simp: credential_like_def intro: effect_intros)
  done

lemma creds_require: "(P \<Longrightarrow> effect credentials_ok (f ()) s) \<Longrightarrow> effect credentials_ok (bnd (require P e) f) s"
  by (cases P) (simp_all add: bnd_require creds.ord.effect_throw)

lemma creds_update_op [effect_intros]: "effect credentials_ok (credential_update u k i) w"
  unfolding credential_update_def
  apply (rule creds.ord.effect_bnd, rule creds_parts, rule creds_after_find, rule creds_require)
  apply (erule creds_step, (unfold credential_checks, intro effect_intros; simp)[1])+
  apply (erule creds_bnd_update, auto simp: credential_like_def intro: effect_intros)
  done

lemma creds_find: "effect credentials_ok (f (find P (tget t w))) w \<Longrightarrow> effect credentials_ok (bnd (find_first t P) f) w"
  by (simp add: effect_def bnd_find_first)

lemma creds_decrypt [effect_intros]: "effect credentials_ok (decryptForRun k r) w"
proof (cases "row_of credential_t k w")
  case None
  then have "decryptForRun k r w = (Inl credential_not_found, w)"
    by (simp add: decryptForRun_def step_simps row_of_def)
  then show ?thesis by (simp add: effect_def creds.ord.R_refl)
next
  case (Some c)
  then have k: "cr_id c = k" by (auto simp: row_of_def dest: find_SomeD)
  have find: "find (\<lambda>c. cr_id c = k) (credentials w) = Some c" using Some by (simp add: row_of_def)
  show ?thesis
    unfolding decryptForRun_def find_run_def
    apply (rule creds_find, unfold credential_t_sel find bnd_require_some, rule creds_require)
    apply (insert Some, fold k)
    apply (erule creds_step, (intro effect_intros; simp)[1])+
    apply (erule creds_bnd_update, auto simp: credential_like_def intro: effect_intros)
    done
qed

text \<open>No operation on credentials touches a run or an approval.\<close>

definition credential_free :: "(world \<Rightarrow> 'x) \<Rightarrow> bool" where
  "credential_free f \<longleftrightarrow> (\<forall>w n m as. f (w\<lparr>ids := n, reads := m, audits := as\<rparr>) = f w) \<and> (\<forall>w n. f (w\<lparr>reads := n\<rparr>) = f w)
     \<and> (\<forall>w n. f (w\<lparr>ids := n\<rparr>) = f w) \<and> keeps f credential_t \<and> keeps f grant_t
     \<and> (\<forall>w x. f (w\<lparr>decrypt_counter := x\<rparr>) = f w) \<and> (\<forall>w x. f (w\<lparr>grant_counter := x\<rparr>) = f w)"

lemma credential_free_parts [simp]: "credential_free runs" "credential_free approvals" "credential_free attempts"
  "credential_free files" "credential_free jobs" "credential_free w_env"
  by (simp_all add: credential_free_def keeps_defs)

lemma same_credential_ops [effect_intros]:
  assumes "credential_free f"
  shows "effect (same_of f) (credential_create u ci) w" "effect (same_of f) (credential_update u k cx) w"
    "effect (same_of f) (credential_grant u k a s) w" "effect (same_of f) (credential_revokeGrant u k g) w"
    "effect (same_of f) (credential_revoke u k) w" "effect (same_of f) (decryptForRun k r) w"
  using assms
  unfolding credential_free_def credential_create_def credential_update_def credential_grant_def credential_revokeGrant_def
    credential_revoke_def decryptForRun_def update_credential_def save_grant_def recordCredentialAudit_def find_run_def
  by (elim conjE; intro effect_intros; simp)+

subsection \<open>Properties\<close>

text \<open>A run may use a credential.\<close>

definition may_use :: "run_row \<Rightarrow> credential_row \<Rightarrow> world \<Rightarrow> bool" where
  "may_use r c w \<longleftrightarrow> cr_status c \<noteq> Credential_Revoked \<and> run_org r = cr_org c
     \<and> (truthy (run_vendor r) \<longrightarrow> run_vendor r = Some (cr_vendor c))
     \<and> (\<exists>g \<in> set (grants w). gr_credential g = cr_id c \<and> gr_agent g = run_agent r \<and> gr_revokedAt g = None)"

lemma tget_grant_t: "tget grant_t = grants"
  by (simp add: grant_t_def)

lemma record_audit_data: "au_data (last (audits (snd (record_audit i w)))) = redact (ai_data i)"
  by (simp add: record_audit_run Let_def)

lemma decryptForRun_Inr:
  assumes "decryptForRun k rid w = (Inr d, w')"
  obtains c r where "row_of credential_t k w = Some c" "find (\<lambda>r. run_id r = rid \<and> run_org r = cr_org c) (runs w) = Some r"
    "may_use r c w" "fst (open_payload c w) = Inr (dc_secret d)" "dc_credentialId d = k" "dc_workflowRunId d = rid" "dc_agentId d = run_agent r"
    "au_eventType (last (audits w')) = Ev_CredentialUsed" "au_run (last (audits w')) = Some rid" "au_org (last (audits w')) = cr_org c"
    "leak_free (au_data (last (audits w')))" "length (audits w') = Suc (length (audits w))"
proof -
  from assms obtain c r g plaintext w1 u w2 j w3 v w4 where c: "find (\<lambda>c. cr_id c = k) (credentials w) = Some c"
    and active: "cr_status c \<noteq> Credential_Revoked"
    and r: "find (\<lambda>r. run_id r = rid \<and> run_org r = cr_org c) (runs w) = Some r"
    and vendor: "\<not> (truthy (run_vendor r) \<and> run_vendor r \<noteq> Some (cr_vendor c))"
    and g: "find (\<lambda>g. gr_credential g = cr_id c \<and> gr_agent g = run_agent r \<and> gr_revokedAt g = None) (grants w) = Some g"
    and "open": "try_catch (open_payload c) (\<lambda>e. bnd (recordCredentialDecrypt ''failure'') (\<lambda>_. throw e)) w = (Inr plaintext, w1)"
    and upd: "update_credential (cr_id c) (\<lambda>q. q\<lparr>cr_lastUsedAt := Some (clock (w_env w1) (reads w1))\<rparr>) (w1\<lparr>reads := Suc (reads w1)\<rparr>) = (Inr u, w2)"
    and audit: "record_audit \<lparr>ai_org = cr_org c, ai_run = Some (run_id r), ai_agent = Some (run_agent r),
      ai_actorType = Actor_Worker, ai_actorId = Some ''internal-worker'', ai_eventType = Ev_CredentialUsed,
      ai_data = JObj [(''credentialId'', JStr (cr_id c)), (''vendorId'', JStr (cr_vendor c)),
        (''grantId'', JStr (gr_id g)), (''scope'', JStr (gr_scope g)),
        (''returnedSecretShape'', redactSecretLikeValues (JObj plaintext))]\<rparr> w2 = (Inr j, w3)"
    and d: "d = \<lparr>dc_credentialId = cr_id c, dc_workflowRunId = run_id r, dc_agentId = run_agent r, dc_secret = plaintext\<rparr>"
    and count: "recordCredentialDecrypt ''success'' w3 = (Inr v, w4)" and w': "w' = w4"
    unfolding decryptForRun_def find_run_def
    by (elim world_elims, unfold tget_run_t credential_t_sel tget_grant_t) (rule that)
  have "open_payload c w = (Inr plaintext, w)"
    using "open" by (auto simp: try_catch_def open_payload_def recordCredentialDecrypt_def step_simps throw_def
        split: option.splits sum.splits)
  moreover from this have "w1 = w" using "open" by (simp add: try_catch_def)
  moreover have "audits w2 = audits w1"
  proof -
    have "effect (same_of audits) (update_credential k' f) s" for k' f s
      unfolding update_credential_def by (intro effect_intros; simp add: keeps_defs)
    from same_after [OF this upd] show ?thesis by simp
  qed
  ultimately have len: "audits w2 = audits w" "fst (open_payload c w) = Inr plaintext" by simp_all
  have w3: "w3 = snd (record_audit \<lparr>ai_org = cr_org c, ai_run = Some (run_id r), ai_agent = Some (run_agent r),
      ai_actorType = Actor_Worker, ai_actorId = Some ''internal-worker'', ai_eventType = Ev_CredentialUsed,
      ai_data = JObj [(''credentialId'', JStr (cr_id c)), (''vendorId'', JStr (cr_vendor c)),
        (''grantId'', JStr (gr_id g)), (''scope'', JStr (gr_scope g)),
        (''returnedSecretShape'', redactSecretLikeValues (JObj plaintext))]\<rparr> w2)"
    using audit by simp
  have "gr_credential g = cr_id c \<and> gr_agent g = run_agent r \<and> gr_revokedAt g = None" "g \<in> set (grants w)"
    using find_SomeD [OF g] by simp_all
  then have "may_use r c w"
    using active vendor find_SomeD [OF r] by (auto simp: may_use_def)
  moreover have "cr_id c = k" "run_id r = rid" using find_SomeD [OF c] find_SomeD [OF r] by simp_all
  moreover have "audits w' = audits w3" using count w' by (auto simp: recordCredentialDecrypt_def modify_def)
  moreover have c: "row_of credential_t k w = Some c" using c by (simp add: row_of_def)
  ultimately show thesis
    by (intro that [OF c r]) (simp_all del: redact.simps leak_free.simps redactSecretLikeValues.simps
        add: len d w3 record_audit_last record_audit_data redact_leak_free)
qed

lemma decryptForRun_up:
  assumes "row_of credential_t k w = Some c" "find (\<lambda>r. run_id r = rid \<and> run_org r = cr_org c) (runs w) = Some r"
    and "may_use r c w" "open_payload c w = (Inr secret, w)"
  shows "\<exists>d w'. decryptForRun k rid w = (Inr d, w') \<and> dc_secret d = secret"
proof -
  have c: "find (\<lambda>c. cr_id c = k) (credentials w) = Some c" "cr_id c = k"
    using assms(1) by (auto simp: row_of_def dest: find_SomeD)
  obtain g where g: "find (\<lambda>g. gr_credential g = k \<and> gr_agent g = run_agent r \<and> gr_revokedAt g = None) (grants w) = Some g"
    using assms(3) c(2) by (cases "find (\<lambda>g. gr_credential g = k \<and> gr_agent g = run_agent r \<and> gr_revokedAt g = None) (grants w)")
      (auto simp: may_use_def find_None_iff)
  have "try_catch (open_payload c) h w = (Inr secret, w)" for h using assms(4) by (simp add: try_catch_def)
  note opened = bnd_Inr [where m = "try_catch m h" for m h, OF this]
  have up: "\<exists>u w'. update_credential k f (w\<lparr>reads := n\<rparr>) = (Inr u, w')" for f n
    using c by (simp add: update_credential_def run_simps)
  then obtain u w2 where u: "update_credential k (\<lambda>q. q\<lparr>cr_lastUsedAt := Some (clock (w_env w) (reads w))\<rparr>) (w\<lparr>reads := Suc (reads w)\<rparr>) = (Inr u, w2)"
    by blast
  show ?thesis
    using assms(2,3) c(2)
    by (simp add: decryptForRun_def bnd_find_first c(1) bnd_require_some bnd_require bnd_find_run may_use_def tget_grant_t g
        opened bnd_new_date bnd_Inr [where m = "update_credential k f" for f, OF u] bnd_record_audit)
       (simp add: bnd_def recordCredentialDecrypt_def run_simps)
qed

text \<open>C9. A worker obtains a secret exactly when the credential exists and is not revoked, the run is
  of its organization and, if bound to a vendor, of its vendor, the run's agent holds a grant
  that is not revoked, and the payload opens under the credential's organization, id and key
  version; whether the run is still under way plays no part. What it gets is the opened secret for
  that run and agent, and exactly one event is recorded for the run, free of secret values.\<close>

theorem decryptForRun_authorized:
  "((\<exists>d w'. decryptForRun k rid w = (Inr d, w')) \<longleftrightarrow>
      (\<exists>c r secret. row_of credential_t k w = Some c \<and> find (\<lambda>r. run_id r = rid \<and> run_org r = cr_org c) (runs w) = Some r
        \<and> may_use r c w \<and> fst (open_payload c w) = Inr secret))
   \<and> (\<forall>d w'. decryptForRun k rid w = (Inr d, w') \<longrightarrow>
      (\<exists>c r. row_of credential_t k w = Some c \<and> find (\<lambda>r. run_id r = rid \<and> run_org r = cr_org c) (runs w) = Some r
        \<and> fst (open_payload c w) = Inr (dc_secret d) \<and> dc_credentialId d = k \<and> dc_workflowRunId d = rid \<and> dc_agentId d = run_agent r
        \<and> length (audits w') = Suc (length (audits w)) \<and> au_eventType (last (audits w')) = Ev_CredentialUsed
        \<and> au_run (last (audits w')) = Some rid \<and> au_org (last (audits w')) = cr_org c \<and> leak_free (au_data (last (audits w')))))"
proof (intro conjI iffI allI impI)
  assume "\<exists>d w'. decryptForRun k rid w = (Inr d, w')"
  then show "\<exists>c r secret. row_of credential_t k w = Some c \<and> find (\<lambda>r. run_id r = rid \<and> run_org r = cr_org c) (runs w) = Some r
        \<and> may_use r c w \<and> fst (open_payload c w) = Inr secret"
    by (elim exE decryptForRun_Inr) blast
next
  assume "\<exists>c r secret. row_of credential_t k w = Some c \<and> find (\<lambda>r. run_id r = rid \<and> run_org r = cr_org c) (runs w) = Some r
        \<and> may_use r c w \<and> fst (open_payload c w) = Inr secret"
  then obtain c r secret where c: "row_of credential_t k w = Some c" "find (\<lambda>r. run_id r = rid \<and> run_org r = cr_org c) (runs w) = Some r"
    "may_use r c w" and o: "fst (open_payload c w) = Inr secret" by blast
  from o have "open_payload c w = (Inr secret, w)" by (auto simp: open_payload_def split: option.splits)
  from decryptForRun_up [OF c this] show "\<exists>d w'. decryptForRun k rid w = (Inr d, w')" by blast
next
  fix d w' assume "decryptForRun k rid w = (Inr d, w')"
  then show "\<exists>c r. row_of credential_t k w = Some c \<and> find (\<lambda>r. run_id r = rid \<and> run_org r = cr_org c) (runs w) = Some r
        \<and> fst (open_payload c w) = Inr (dc_secret d) \<and> dc_credentialId d = k \<and> dc_workflowRunId d = rid \<and> dc_agentId d = run_agent r
        \<and> length (audits w') = Suc (length (audits w)) \<and> au_eventType (last (audits w')) = Ev_CredentialUsed
        \<and> au_run (last (audits w')) = Some rid \<and> au_org (last (audits w')) = cr_org c \<and> leak_free (au_data (last (audits w')))"
    by (elim decryptForRun_Inr) blast
qed

text \<open>A token for one run opens the credentials of another: the guard takes the run from the
  first \<open>/runs/\<close> of the address, query included, and only otherwise from the body, while the handler
  takes it from the body. With a valid token for run \<open>a\<close> and an address whose query names \<open>a\<close>, the
  answer is that of \<open>decryptForRun\<close> for whatever run the body names.\<close>

theorem run_token_opens_other_run:
  assumes "hr_workerToken request = Some token" and "token \<noteq> []"
    and "readRunIdFromRequest (hr_url request) = Some a" and "hr_bodyRun request = Some b"
    and "isUuid (w_env w) b"
    and "verifyWorkerRunToken (codec (w_env w)) (worker_secret (w_env w)) token None (Some a) (clock (w_env w) (reads w)) = Some c"
  shows "decrypt_route request k w = decryptForRun k b (w\<lparr>reads := Suc (reads w)\<rparr>)"
proof -
  have "canActivate request w = (Inr (Some c), w\<lparr>reads := Suc (reads w)\<rparr>)"
    using assms by (simp add: canActivate_def Let_def or_else_def truthy_def step_simps)
  then show ?thesis
    using assms(4,5) by (simp add: decrypt_route_def check_body_def bnd_Inr [where m = "canActivate r" for r] step_simps bnd_assoc)
qed

definition demo_credential :: credential_row where
  "demo_credential = \<lparr>cr_id = ''k'', cr_org = ''p'', cr_vendor = ''v'', cr_label = ''l'', cr_type = CredentialType_UsernamePassword,
     cr_payload = payload_json \<lparr>ep_keyVersion = ''local-v1'', ep_iv = [], ep_authTag = [], ep_ciphertext = [], ep_aad = None\<rparr>,
     cr_encryptionVersion = ''local-v1'', cr_status = Credential_Active, cr_lastUsedAt = None, cr_createdBy = ''u'',
     cr_createdAt = 0, cr_updatedAt = 0, cr_revokedAt = None\<rparr>"

definition demo_grant :: grant_row where
  "demo_grant = \<lparr>gr_id = ''g'', gr_credential = ''k'', gr_agent = ''a'', gr_scope = ''login'', gr_createdBy = ''u'',
     gr_createdAt = 0, gr_revokedAt = None\<rparr>"

definition vault_world :: world where
  "vault_world = (empty_world (vault_env\<lparr>vaultMasterKey := replicate 32 CHR ''k''\<rparr>))
     \<lparr>credentials := [demo_credential], grants := [demo_grant],
      runs := [(demo_run Run_Canceled)\<lparr>run_id := ''s'', run_org := ''p''\<rparr>]\<rparr>"

lemma vault_world_opens: "open_payload demo_credential vault_world = (Inr [(''password'', JStr ''p'')], vault_world)"
  by (simp add: open_payload_def demo_credential_def decryptSecret_def keyFromMasterKey_def assertValidMasterKey_def
      vault_world_def empty_world_def vault_env_def demo_env_def truthy_def)

theorem decryptForRun_authorized_witness:
  "\<exists>d w'. decryptForRun ''k'' ''s'' vault_world = (Inr d, w') \<and> dc_agentId d = ''a''
     \<and> (\<exists>r \<in> set (runs vault_world). run_id r = ''s'' \<and> run_status r = Run_Canceled)"
proof -
  let ?r = "(demo_run Run_Canceled)\<lparr>run_id := ''s'', run_org := ''p''\<rparr>"
  have c: "row_of credential_t ''k'' vault_world = Some demo_credential"
    by (simp add: row_of_def vault_world_def demo_credential_def)
  have r: "find (\<lambda>r. run_id r = ''s'' \<and> run_org r = cr_org demo_credential) (runs vault_world) = Some ?r"
    by (simp add: vault_world_def demo_credential_def)
  have "may_use ?r demo_credential vault_world"
    by (simp add: may_use_def vault_world_def demo_credential_def demo_grant_def demo_run_def truthy_def)
  then obtain d w' where d: "decryptForRun ''k'' ''s'' vault_world = (Inr d, w')"
    using decryptForRun_authorized [of "''k''" "''s''" vault_world] c r vault_world_opens by fastforce
  then have "dc_agentId d = run_agent ?r"
    using decryptForRun_authorized [of "''k''" "''s''" vault_world] c r by fastforce
  with d show ?thesis by (simp add: demo_run_def vault_world_def)
qed

definition steal_request :: http_request where
  "steal_request = \<lparr>hr_url = Some ''/internal/vault/credentials/k/decrypt-for-run?x=/runs/r'', hr_workerToken = Some demo_token,
     hr_bearer = None, hr_bodyRun = Some ''s''\<rparr>"

theorem run_token_opens_other_run_witness:
  "cl_workflowRunId demo_claims = ''r'' \<and> cl_organizationId demo_claims = ''o''
   \<and> decrypt_route steal_request ''k'' vault_world = decryptForRun ''k'' ''s'' (vault_world\<lparr>reads := 1\<rparr>)"
proof -
  have "match_run_id ''/internal/vault/credentials/k/decrypt-for-run?x=/runs/r'' = Some ''r''" by code_simp
  then have run: "readRunIdFromRequest (hr_url steal_request) = Some ''r''"
    by (simp add: steal_request_def readRunIdFromRequest_def truthy_def)
  have token: "hr_workerToken steal_request = Some demo_token" "demo_token \<noteq> []" "hr_bodyRun steal_request = Some ''s''"
    by (simp_all add: steal_request_def demo_token_def issueWorkerRunToken_def VERSION_def Let_def)
  have v: "verifyWorkerRunToken (codec (w_env vault_world)) (worker_secret (w_env vault_world)) demo_token None (Some ''r'')
      (clock (w_env vault_world) (reads vault_world)) = Some demo_claims" and "reads vault_world = 0"
    by (simp_all add: vault_world_def empty_world_def vault_env_def demo_env_def demo_token_verifies)
  moreover have "isUuid (w_env vault_world) ''s''" by (simp add: vault_world_def empty_world_def vault_env_def demo_env_def)
  ultimately show ?thesis using run_token_opens_other_run [OF token(1,2) run token(3) _ v, of "''k''"]
    by (simp add: demo_claims_def)
qed

lemma record_audit_frame [simp]:
  "credentials (snd (record_audit i w)) = credentials w" "grants (snd (record_audit i w)) = grants w" "w_env (snd (record_audit i w)) = w_env w"
  by (simp_all add: record_audit_run Let_def)

lemma update_new_credential:
  assumes "cr_id c \<notin> cr_id ` set cs" and "\<And>q. cr_id (f q) = cr_id q"
  shows "update_credential (cr_id c) f (w\<lparr>credentials := cs @ [c]\<rparr>) =
    (Inr ((f c)\<lparr>cr_updatedAt := clock (w_env w) (reads w)\<rparr>),
     w\<lparr>reads := Suc (reads w), credentials := cs @ [(f c)\<lparr>cr_updatedAt := clock (w_env w) (reads w)\<rparr>]\<rparr>)"
proof -
  have other: "\<And>q. q \<in> set cs \<Longrightarrow> cr_id q \<noteq> cr_id c" using assms(1) by (metis image_eqI)
  then have "find (\<lambda>q. cr_id q = cr_id c) cs = None" by (auto simp: find_None_iff)
  moreover have "upd_row cr_id (cr_id c) g cs = cs" for g
    using other by (auto simp: upd_row_def intro!: map_idI)
  ultimately show ?thesis
    by (simp add: update_credential_def run_simps find_append) (simp add: upd_row_def)
qed

lemma with_grants_run:
  "with_grants c w = (Inr (c, sort_key gr_createdAt (filter (\<lambda>g. gr_credential g = cr_id c) (grants w))), w)"
  by (simp add: with_grants_def step_simps tget_grant_t)

lemma encryptSecret_up:
  assumes "32 \<le> length key"
  shows "\<exists>p. encryptSecret s key ctx w = (Inr p, w\<lparr>ids := Suc (ids w)\<rparr>) \<and> ep_keyVersion p = coalesce (vc_keyVersion ctx) ''local-v1''"
  using assms by (simp add: encryptSecret_def keyFromMasterKey_def assertValidMasterKey_def Let_def)

text \<open>The row of a new credential before and after its secret is sealed, and the transaction that stores it.\<close>

definition unsealed :: "context_user \<Rightarrow> credential_input \<Rightarrow> string \<Rightarrow> nat \<Rightarrow> credential_row" where
  "unsealed user i k now = \<lparr>cr_id = k, cr_org = cu_org user, cr_vendor = cc_vendorId i, cr_label = cc_label i,
        cr_type = cc_type i, cr_payload = JObj [], cr_encryptionVersion = ''pending'', cr_status = Credential_Active,
        cr_lastUsedAt = None, cr_createdBy = cu_id user, cr_createdAt = now, cr_updatedAt = now, cr_revokedAt = None\<rparr>"

lemma stored_sealed:
  assumes "vault_platform (w_env w)" and "32 \<le> length (vaultMasterKey (w_env w))" and "cu_org user \<noteq> []"
    and "uuid (w_env w) (ids w) \<notin> cr_id ` set (credentials w)"
    and "parse_json (w_env w) (json_text (num_str (w_env w)) (JObj (cc_secret i))) = Some (JObj (cc_secret i))"
  obtains c gs w' where "transaction (bnd fresh_id (\<lambda>k. bnd new_date (\<lambda>now.
      bnd (create_row credential_t (unsealed user i k now)) (\<lambda>created.
      bnd (gets (\<lambda>w. vaultMasterKey (w_env w))) (\<lambda>masterKey.
      bnd (encryptSecret (cc_secret i) masterKey \<lparr>vc_org = Some (cu_org user), vc_credential = Some (cr_id created),
        vc_keyVersion = Some ''local-v1''\<rparr>) (\<lambda>p.
      bnd (update_credential (cr_id created) (\<lambda>c. c\<lparr>cr_payload := payload_json p, cr_encryptionVersion := ep_keyVersion p\<rparr>)) (\<lambda>c.
      with_grants c))))))) w = (Inr (c, gs), w')"
    "credentials w' = credentials w @ [c]" "audits w' = audits w" "w_env w' = w_env w"
    "cr_org c = cu_org user" "cr_vendor c = cc_vendorId i" "cr_label c = cc_label i" "cr_type c = cc_type i" "cr_status c = Credential_Active"
    "\<And>v. w_env v = w_env w \<Longrightarrow> open_payload c v = (Inr (cc_secret i), v)"
proof -
  let ?k = "uuid (w_env w) (ids w)" and ?now = "clock (w_env w) (reads w)"
  define c where "c = unsealed user i ?k ?now"
  define w1 where "w1 = w\<lparr>ids := Suc (ids w), reads := Suc (reads w), credentials := credentials w @ [c]\<rparr>"
  obtain p where enc: "encryptSecret (cc_secret i) (vaultMasterKey (w_env w)) (bound_context (cu_org user) ?k ''local-v1'') w1 = (Inr p, w1\<lparr>ids := Suc (ids w1)\<rparr>)"
    using encryptSecret_up [OF assms(2)] by blast
  have env: "w_env w1 = w_env w" by (simp add: w1_def)
  note opens = sealed_opens [OF assms(1) env assms(3) enc]
  let ?f = "\<lambda>c. c\<lparr>cr_payload := payload_json p, cr_encryptionVersion := ep_keyVersion p\<rparr>"
  let ?w2 = "w1\<lparr>ids := Suc (ids w1)\<rparr>"
  have "w1\<lparr>ids := Suc (ids w1)\<rparr> = (w1\<lparr>ids := Suc (ids w1)\<rparr>)\<lparr>credentials := credentials w @ [c]\<rparr>"
    by (simp add: w1_def)
  then have upd: "update_credential ?k ?f ?w2 = (Inr ((?f c)\<lparr>cr_updatedAt := clock (w_env ?w2) (reads ?w2)\<rparr>),
     ?w2\<lparr>reads := Suc (reads ?w2), credentials := credentials w @ [(?f c)\<lparr>cr_updatedAt := clock (w_env ?w2) (reads ?w2)\<rparr>]\<rparr>)"
    using update_new_credential [of c "credentials w" ?f ?w2] assms(4) by (simp add: c_def unsealed_def)
  define c' where "c' = (?f c)\<lparr>cr_updatedAt := clock (w_env ?w2) (reads ?w2)\<rparr>"
  define w3 where "w3 = ?w2\<lparr>reads := Suc (reads ?w2), credentials := credentials w @ [c']\<rparr>"
  define gs where "gs = sort_key gr_createdAt (filter (\<lambda>g. gr_credential g = cr_id c') (grants w3))"
  show thesis
  proof (rule that [of c' gs w3])
    show "open_payload c' v = (Inr (cc_secret i), v)" if "w_env v = w_env w" for v
      using opens(3) [OF assms(3), of ?k "''local-v1''"] opens(1) assms(5) that
      by (simp add: open_payload_def c'_def c_def unsealed_def bound_context_def)
  qed (use upd [folded c'_def, folded w3_def] in \<open>unfold transaction_Inr,
      simp add: bnd_fresh_id bnd_new_date bnd_create_row bnd_gets c_def [symmetric] credential_t_def w1_def [symmetric] env,
      simp add: c_def c'_def unsealed_def gs_def with_grants_run bnd_Inr [where m = "encryptSecret a b d" for a b d, OF enc [unfolded bound_context_def]]
        bnd_def [of "update_credential a b" for a b]\<close>,
      simp_all add: w3_def w1_def c'_def c_def unsealed_def)
qed


definition demo_credential_input :: credential_input where
  "demo_credential_input = \<lparr>cc_vendorId = ''v'', cc_label = ''l'', cc_type = CredentialType_UsernamePassword,
     cc_secret = [(''password'', JStr ''p'')]\<rparr>"

definition vendor_world :: world where
  "vendor_world = (empty_world (vault_env\<lparr>vaultMasterKey := replicate 32 CHR ''k''\<rparr>))\<lparr>vendors :=
     [\<lparr>ve_id = ''v'', ve_org = ''o'', ve_name = ''n'', ve_website = ''w'', ve_category = Vendor_Other,
       ve_connectorType = Connector_Sandbox, ve_metadata = JObj [], ve_deletedAt = None, ve_renewalDate = None,
       ve_monthlyCostCents = None, ve_owner = None, ve_createdAt = 0, ve_updatedAt = 0\<rparr>]\<rparr>"


end
