(* ===== verification/Policy_Engine.thy ===== *)
theory Policy_Engine
  imports Domain
begin

section \<open>The policy engine\<close>

text \<open>
  \<open>libs/policy-engine/src/index.ts\<close>: the risk score of an action, the signals extracted
  from its context, and the decision of a policy. The host name of a URL is computed by the
  platform's URL parser, which is the parameter \<open>url_host\<close>: \<open>None\<close> where \<open>new URL\<close> throws.
\<close>

record policy_action_context =
  pc_website :: string
  pc_actionType :: action_type
  pc_amountCents :: "int option"
  pc_text :: "string option"
  pc_credentialUsed :: bool
  pc_knownVendor :: bool
  pc_firstRunForAgent :: bool
  pc_submitButton :: bool
  pc_downloadSensitiveFile :: bool
  pc_dangerKeywords :: "string list"
  pc_allowedDomains :: "string list"

subsection \<open>Risk\<close>

primrec riskForSignal :: "risk_signal \<Rightarrow> risk_level" where
  "riskForSignal Sig_DestructiveKeyword = Risk_High"
| "riskForSignal Sig_PlanChangeDetected = Risk_High"
| "riskForSignal Sig_CancelDetected = Risk_High"
| "riskForSignal Sig_PaymentDetected = Risk_High"
| "riskForSignal Sig_UnknownDomain = Risk_High"
| "riskForSignal Sig_NewVendor = Risk_High"
| "riskForSignal Sig_SubmitButton = Risk_High"
| "riskForSignal Sig_CredentialUsed = Risk_Medium"
| "riskForSignal Sig_FinancialAmountPresent = Risk_Medium"
| "riskForSignal Sig_DownloadSensitiveFile = Risk_Medium"
| "riskForSignal Sig_FirstRunForAgent = Risk_Medium"

fun index_of :: "'a list \<Rightarrow> 'a \<Rightarrow> int" where
  "index_of [] y = - 1"
| "index_of (x # xs) y =
     (if x = y then 0 else let i = index_of xs y in if i < 0 then - 1 else i + 1)"

definition maxRisk :: "risk_level \<Rightarrow> risk_level \<Rightarrow> risk_level" where
  "maxRisk left right =
    (let order = [Risk_Low, Risk_Medium, Risk_High, Risk_Critical]
     in if index_of order right > index_of order left then right else left)"

definition scoreRisk :: "action_type \<Rightarrow> risk_signal list \<Rightarrow> risk_level" where
  "scoreRisk act signals =
    foldl (\<lambda>risk signal. maxRisk risk (riskForSignal signal)) (ACTION_RISK_DEFAULTS act) signals"

lemma maxRisk_eq_max [simp]: "maxRisk x y = max x y"
  by (cases x; cases y) (simp_all add: maxRisk_def max_def risk_order)

lemma foldl_max_risk:
  "foldl (\<lambda>r x. max r (g x)) (b::risk_level) xs = Max (insert b (g ` set xs))"
proof (induction xs arbitrary: b)
  case Nil
  show ?case by simp
next
  case (Cons x xs)
  have "Max (insert (max b (g x)) (g ` set xs)) = Max (insert b (insert (g x) (g ` set xs)))"
    by (cases "set xs = {}") (simp_all add: max.assoc)
  then show ?case using Cons by simp
qed

lemma scoreRisk_eq_Max:
  "scoreRisk act signals = Max (insert (ACTION_RISK_DEFAULTS act) (riskForSignal ` set signals))"
  by (simp add: scoreRisk_def foldl_max_risk)

lemma scoreRisk_mono: "set xs \<subseteq> set ys \<Longrightarrow> scoreRisk act xs \<le> scoreRisk act ys"
  unfolding scoreRisk_eq_Max by (rule Max_mono) auto

subsection \<open>Domains\<close>

definition hostname :: "(string \<Rightarrow> string option) \<Rightarrow> string \<Rightarrow> string" where
  "hostname url_host url =
    (case url_host url of Some h \<Rightarrow> to_lower h | None \<Rightarrow> to_lower url)"

definition matchesAnyDomain :: "string \<Rightarrow> string list \<Rightarrow> bool" where
  "matchesAnyDomain host domains \<longleftrightarrow>
    list_ex (\<lambda>domain. let normalized = to_lower domain
      in host = normalized \<or> ends_with host (''.'' @ normalized)) domains"

lemma matchesAnyDomain_iff:
  "matchesAnyDomain host domains \<longleftrightarrow>
    (\<exists>d\<in>set domains. host = to_lower d \<or> ends_with host (''.'' @ to_lower d))"
  by (simp add: matchesAnyDomain_def list_ex_iff Let_def)

lemma matchesAnyDomain_mono:
  "set ds \<subseteq> set ds' \<Longrightarrow> matchesAnyDomain h ds \<Longrightarrow> matchesAnyDomain h ds'"
  by (auto simp: matchesAnyDomain_iff)

subsection \<open>Risk signals\<close>

definition extractRiskSignals ::
  "(string \<Rightarrow> string option) \<Rightarrow> policy_action_context \<Rightarrow> risk_signal list" where
  "extractRiskSignals url_host ctx =
    (let host = hostname url_host (pc_website ctx);
         act = pc_actionType ctx;
         text = to_lower (coalesce (pc_text ctx) '''');
         signals =
           (if \<not> matchesAnyDomain host (pc_allowedDomains ctx) then [Sig_UnknownDomain] else [])
         @ (case pc_amountCents ctx of
              Some a \<Rightarrow> if a > 0 then [Sig_FinancialAmountPresent] else []
            | None \<Rightarrow> [])
         @ (if pc_credentialUsed ctx
            then [Sig_CredentialUsed]
              @ (if \<not> pc_knownVendor ctx then [Sig_UnknownDomain, Sig_NewVendor] else [])
            else [])
         @ (if pc_firstRunForAgent ctx then [Sig_FirstRunForAgent] else [])
         @ (if pc_submitButton ctx \<or> act = SubmitForm then [Sig_SubmitButton] else [])
         @ (if pc_downloadSensitiveFile ctx then [Sig_DownloadSensitiveFile] else [])
         @ (if act = ChangePlan then [Sig_PlanChangeDetected] else [])
         @ (if act = CancelSubscription then [Sig_CancelDetected] else [])
         @ (if act = MakePurchase then [Sig_PaymentDetected] else [])
         @ (if list_ex (\<lambda>keyword. str_includes text (to_lower keyword)) (pc_dangerKeywords ctx)
            then [Sig_DestructiveKeyword] else [])
     in sort_key risk_signal_value (dedupe signals))"

subsection \<open>Decisions\<close>

definition deny :: "risk_level \<Rightarrow> string \<Rightarrow> string list \<Rightarrow> policy_result" where
  "deny risk why rules =
    \<lparr>pr_decision = Decide_Deny, pr_riskLevel = risk, pr_reason = why, pr_matchedRules = rules\<rparr>"

definition requireApproval :: "risk_level \<Rightarrow> string \<Rightarrow> string list \<Rightarrow> policy_result" where
  "requireApproval risk why rules =
    \<lparr>pr_decision = Decide_RequireApproval, pr_riskLevel = risk, pr_reason = why,
     pr_matchedRules = rules\<rparr>"

definition evaluatePolicy ::
  "(string \<Rightarrow> string option) \<Rightarrow> policy_input \<Rightarrow> policy_result" where
  "evaluatePolicy url_host inp =
    (let snapshot = pi_policySnapshot inp;
         act = pi_actionType inp;
         av = action_type_value act;
         amount = pi_amountCents inp;
         risk = scoreRisk act (pi_riskSignals inp);
         host = hostname url_host (pi_website inp)
     in
     if pi_agentStatus inp \<noteq> Agent_Active then
       deny risk ''Agent is not active.'' [''agent.inactive'']
     else if matchesAnyDomain host (ap_blockedDomains snapshot) then
       deny risk ''Website domain is blocked by policy.'' [''domain.blocked'']
     else if \<not> matchesAnyDomain host (ap_allowedDomains snapshot) then
       deny risk ''Website domain is not allowed by policy.'' [''domain.not_allowed'']
     else if List.member (ap_deniedActions snapshot) act then
       deny risk ''Action is explicitly denied by policy.'' [''action.denied.'' @ av]
     else if (case amount of Some a \<Rightarrow> a \<ge> ap_denyAboveCents snapshot | None \<Rightarrow> False) then
       deny risk ''Amount is above the hard policy limit.'' [''amount.hard_limit'']
     else if List.member (ap_approvalRequiredActions snapshot) act then
       requireApproval risk ''Action requires human approval by policy.''
         [''action.requires_approval.'' @ av]
     else if (case amount of Some a \<Rightarrow> a \<ge> ap_approvalRequiredAboveCents snapshot
              | None \<Rightarrow> False) then
       requireApproval risk ''Amount is above the approval threshold.''
         [''amount.requires_approval'']
     else if (case amount of
                Some a \<Rightarrow> ap_autoApproveBelowCents snapshot > 0
                  \<and> a < ap_autoApproveBelowCents snapshot
                  \<and> List.member (ap_allowedActions snapshot) act
              | None \<Rightarrow> False) then
       \<lparr>pr_decision = Decide_Allow, pr_riskLevel = risk,
        pr_reason = ''Amount is below the auto-approval threshold.'',
        pr_matchedRules = [''amount.auto_approved'', ''action.allowed.'' @ av]\<rparr>
     else if risk = Risk_High \<or> risk = Risk_Critical then
       requireApproval risk ''Risk level requires human approval.''
         [''risk.requires_approval.'' @ risk_level_value risk]
     else if \<not> List.member (ap_allowedActions snapshot) act then
       deny risk ''Action is not allowed by policy.'' [''action.not_allowed.'' @ av]
     else
       \<lparr>pr_decision = Decide_Allow, pr_riskLevel = risk,
        pr_reason = ''Policy allowed the action.'',
        pr_matchedRules = [''action.allowed.'' @ av]\<rparr>)"

lemmas policy_decision_simps = evaluatePolicy_def deny_def requireApproval_def Let_def

subsection \<open>Characterisation of the decisions\<close>

lemma risk_low_iff: "r \<le> Risk_Medium \<longleftrightarrow> \<not> (r = Risk_High \<or> r = Risk_Critical)"
  by (cases r) (simp_all add: risk_order)

definition host_admitted :: "(string \<Rightarrow> string option) \<Rightarrow> agent_policy \<Rightarrow> string \<Rightarrow> bool" where
  "host_admitted u p url \<longleftrightarrow>
     matchesAnyDomain (hostname u url) (ap_allowedDomains p)
     \<and> \<not> matchesAnyDomain (hostname u url) (ap_blockedDomains p)"

lemma evaluatePolicy_allow:
  "pr_decision (evaluatePolicy u i) = Decide_Allow \<longleftrightarrow>
    (let p = pi_policySnapshot i; act = pi_actionType i;
         lowRisk = (scoreRisk act (pi_riskSignals i) \<le> Risk_Medium)
     in pi_agentStatus i = Agent_Active
      \<and> host_admitted u p (pi_website i)
      \<and> act \<in> set (ap_allowedActions p) - set (ap_deniedActions p) - set (ap_approvalRequiredActions p)
      \<and> (case pi_amountCents i of
           None \<Rightarrow> lowRisk
         | Some a \<Rightarrow> a < min (ap_denyAboveCents p) (ap_approvalRequiredAboveCents p)
             \<and> (lowRisk \<or> a < ap_autoApproveBelowCents p \<and> 0 < ap_autoApproveBelowCents p)))"
  unfolding risk_low_iff
  by (cases "pi_amountCents i") (auto simp: policy_decision_simps List.member_iff host_admitted_def)

text \<open>For an action on the policy's allow-list, the denials are the five early ones.\<close>

lemma evaluatePolicy_deny:
  assumes "pi_actionType i \<in> set (ap_allowedActions (pi_policySnapshot i))"
  shows "pr_decision (evaluatePolicy u i) = Decide_Deny \<longleftrightarrow>
    (let p = pi_policySnapshot i; act = pi_actionType i
     in pi_agentStatus i \<noteq> Agent_Active
      \<or> \<not> host_admitted u p (pi_website i)
      \<or> act \<in> set (ap_deniedActions p)
      \<or> (case pi_amountCents i of None \<Rightarrow> False | Some a \<Rightarrow> ap_denyAboveCents p \<le> a))"
  using assms
  by (cases "pi_amountCents i") (auto simp: policy_decision_simps List.member_iff host_admitted_def)

lemma evaluatePolicy_decisions:
  "pr_decision (evaluatePolicy u i) \<in> {Decide_Allow, Decide_Deny, Decide_RequireApproval}"
  by (simp add: policy_decision_simps)

subsection \<open>Properties\<close>

text \<open>C15. The policy engine allows an action exactly when the agent is active, the host is on
the allow-list and not on the block-list, the action is allowed, not denied and not subject to
approval, the amount is below both limits, and the risk is at most medium or the amount is
below a positive auto-approval threshold.\<close>

theorem policy_allow_iff:
  "pr_decision (evaluatePolicy u i) = Decide_Allow \<longleftrightarrow>
    (let p = pi_policySnapshot i; act = pi_actionType i; host = hostname u (pi_website i);
         lowRisk = (scoreRisk act (pi_riskSignals i) \<le> Risk_Medium)
     in pi_agentStatus i = Agent_Active
      \<and> matchesAnyDomain host (ap_allowedDomains p)
      \<and> \<not> matchesAnyDomain host (ap_blockedDomains p)
      \<and> act \<in> set (ap_allowedActions p) - set (ap_deniedActions p) - set (ap_approvalRequiredActions p)
      \<and> (case pi_amountCents i of
           None \<Rightarrow> lowRisk
         | Some a \<Rightarrow> a < min (ap_denyAboveCents p) (ap_approvalRequiredAboveCents p)
             \<and> (lowRisk \<or> a < ap_autoApproveBelowCents p \<and> 0 < ap_autoApproveBelowCents p)))"
  unfolding evaluatePolicy_allow by (simp add: Let_def host_admitted_def)

text \<open>How strict a decision is, and when one policy is tighter than another.\<close>

primrec strictness :: "policy_decision \<Rightarrow> nat" where
  "strictness Decide_Allow = 0"
| "strictness Decide_RequireApproval = 1"
| "strictness Decide_RequireStepUpAuth = 1"
| "strictness Decide_Deny = 2"
| "strictness Decide_PauseAgent = 2"

definition tighter :: "agent_policy \<Rightarrow> agent_policy \<Rightarrow> bool" where
  "tighter p q \<longleftrightarrow>
     set (ap_allowedDomains p) \<subseteq> set (ap_allowedDomains q)
     \<and> set (ap_blockedDomains q) \<subseteq> set (ap_blockedDomains p)
     \<and> set (ap_deniedActions q) \<subseteq> set (ap_deniedActions p)
     \<and> set (ap_approvalRequiredActions q) \<subseteq> set (ap_approvalRequiredActions p)
     \<and> set (ap_allowedActions p) \<subseteq> set (ap_allowedActions q)
     \<and> ap_denyAboveCents p \<le> ap_denyAboveCents q
     \<and> ap_approvalRequiredAboveCents p \<le> ap_approvalRequiredAboveCents q
     \<and> ap_autoApproveBelowCents p \<le> ap_autoApproveBelowCents q"

text \<open>C20. Tightening a policy and adding risk signals never makes the decision less strict, for
an action the tighter policy still allows.\<close>

theorem policy_tightening_monotone:
  assumes tight: "tighter p (pi_policySnapshot i)"
    and signals: "set (pi_riskSignals i) \<subseteq> set signals"
    and allowed: "pi_actionType i \<in> set (ap_allowedActions p)"
  shows "strictness (pr_decision (evaluatePolicy u i))
       \<le> strictness (pr_decision (evaluatePolicy u (i\<lparr>pi_policySnapshot := p, pi_riskSignals := signals\<rparr>)))"
proof -
  let ?q = "pi_policySnapshot i"
  let ?i' = "i\<lparr>pi_policySnapshot := p, pi_riskSignals := signals\<rparr>"
  have allowed_q: "pi_actionType i \<in> set (ap_allowedActions ?q)"
    using tight allowed by (auto simp: tighter_def)
  have host: "host_admitted u p (pi_website i) \<Longrightarrow> host_admitted u ?q (pi_website i)"
    using tight by (auto simp: tighter_def host_admitted_def intro: matchesAnyDomain_mono)
  have risk: "scoreRisk a signals \<le> Risk_Medium \<Longrightarrow> scoreRisk a (pi_riskSignals i) \<le> Risk_Medium" for a
    using scoreRisk_mono [OF signals] by (rule order.trans)
  have allow: "pr_decision (evaluatePolicy u i) = Decide_Allow"
    if "pr_decision (evaluatePolicy u ?i') = Decide_Allow"
    using that tight host risk unfolding evaluatePolicy_allow
    by (auto simp: Let_def tighter_def split: option.splits)
  have deny: "pr_decision (evaluatePolicy u ?i') = Decide_Deny"
    if "pr_decision (evaluatePolicy u i) = Decide_Deny"
    using that tight host allowed
    unfolding evaluatePolicy_deny [OF allowed_q] evaluatePolicy_deny [of ?i', simplified, OF allowed]
    by (auto simp: Let_def tighter_def split: option.splits)
  show ?thesis
    using allow deny evaluatePolicy_decisions [of u i] evaluatePolicy_decisions [of u ?i'] by auto
qed

definition base_policy :: agent_policy where
  "base_policy = DEFAULT_AGENT_POLICY\<lparr>ap_allowedDomains := [''acme.com''],
     ap_allowedActions := [ReadPage, ChangePlan], ap_denyAboveCents := 1000,
     ap_approvalRequiredAboveCents := 500\<rparr>"

definition base_input :: policy_input where
  "base_input = \<lparr>pi_agentStatus = Agent_Active, pi_website = ''app.acme.com'', pi_actionType = ReadPage,
     pi_amountCents = None, pi_riskSignals = [], pi_policySnapshot = base_policy\<rparr>"

theorem policy_tightening_monotone_witness:
  "strictness (pr_decision (evaluatePolicy (\<lambda>_. None) base_input))
   \<le> strictness (pr_decision (evaluatePolicy (\<lambda>_. None)
        (base_input\<lparr>pi_policySnapshot := base_policy\<lparr>ap_blockedDomains := [''x.org'']\<rparr>,
                     pi_riskSignals := [Sig_SubmitButton]\<rparr>)))"
  by (rule policy_tightening_monotone)
     (simp_all add: tighter_def base_input_def base_policy_def DEFAULT_AGENT_POLICY_def)

text \<open>The risk test comes before the allow-list test: an action that is not on the
allow-list is denied at low risk, and the same action with a signal that raises its risk is
only sent for approval. More risk can make the decision less strict.\<close>

theorem risk_signal_relaxes_denial:
  "\<exists>i s. pr_decision (evaluatePolicy (\<lambda>_. None) i) = Decide_Deny
       \<and> pr_decision (evaluatePolicy (\<lambda>_. None) (i\<lparr>pi_riskSignals := s # pi_riskSignals i\<rparr>))
         = Decide_RequireApproval"
proof (intro exI conjI)
  let ?i = "base_input\<lparr>pi_actionType := DownloadFile\<rparr>"
  have host: "matchesAnyDomain (to_lower ''app.acme.com'') [''acme.com'']"
    by code_simp
  show "pr_decision (evaluatePolicy (\<lambda>_. None) ?i) = Decide_Deny"
    using host by (simp add: policy_decision_simps base_input_def base_policy_def DEFAULT_AGENT_POLICY_def
        List.member_iff hostname_def scoreRisk_def matchesAnyDomain_iff [of _ "[]"])
  show "pr_decision (evaluatePolicy (\<lambda>_. None) (?i\<lparr>pi_riskSignals := Sig_UnknownDomain # pi_riskSignals ?i\<rparr>))
      = Decide_RequireApproval"
    using host by (simp add: policy_decision_simps base_input_def base_policy_def DEFAULT_AGENT_POLICY_def
        List.member_iff hostname_def scoreRisk_def matchesAnyDomain_iff [of _ "[]"] max_def risk_order)
qed

definition signal_condition ::
  "(string \<Rightarrow> string option) \<Rightarrow> policy_action_context \<Rightarrow> risk_signal \<Rightarrow> bool" where
  "signal_condition u c s = (case s of
      Sig_UnknownDomain \<Rightarrow> \<not> matchesAnyDomain (hostname u (pc_website c)) (pc_allowedDomains c)
        \<or> (pc_credentialUsed c \<and> \<not> pc_knownVendor c)
    | Sig_DestructiveKeyword \<Rightarrow>
        (\<exists>k\<in>set (pc_dangerKeywords c). str_includes (to_lower (coalesce (pc_text c) [])) (to_lower k))
    | Sig_FinancialAmountPresent \<Rightarrow> (\<exists>a. pc_amountCents c = Some a \<and> 0 < a)
    | Sig_CredentialUsed \<Rightarrow> pc_credentialUsed c
    | Sig_NewVendor \<Rightarrow> pc_credentialUsed c \<and> \<not> pc_knownVendor c
    | Sig_FirstRunForAgent \<Rightarrow> pc_firstRunForAgent c
    | Sig_SubmitButton \<Rightarrow> pc_submitButton c \<or> pc_actionType c = SubmitForm
    | Sig_DownloadSensitiveFile \<Rightarrow> pc_downloadSensitiveFile c
    | Sig_PlanChangeDetected \<Rightarrow> pc_actionType c = ChangePlan
    | Sig_CancelDetected \<Rightarrow> pc_actionType c = CancelSubscription
    | Sig_PaymentDetected \<Rightarrow> pc_actionType c = MakePurchase)"

text \<open>The extracted risk signals are sorted by name, without repetition, and each is present
exactly when its condition holds in the action's context.\<close>

theorem extractRiskSignals_correct:
  "distinct (extractRiskSignals u c)
   \<and> sorted (map risk_signal_value (extractRiskSignals u c))
   \<and> set (extractRiskSignals u c) = {s. signal_condition u c s}"
proof (intro conjI set_eqI)
  show "distinct (extractRiskSignals u c)" by (simp add: extractRiskSignals_def Let_def)
  show "sorted (map risk_signal_value (extractRiskSignals u c))"
    by (simp add: extractRiskSignals_def Let_def)
next
  fix s
  show "s \<in> set (extractRiskSignals u c) \<longleftrightarrow> s \<in> {s. signal_condition u c s}"
    by (cases s; cases "pc_amountCents c")
       (auto simp: extractRiskSignals_def Let_def list_ex_iff signal_condition_def)
qed

end
