(* ===== verification/Notifications.thy ===== *)
theory Notifications
  imports Runs Policy_Engine
begin

section \<open>Notification of approvals by e-mail\<close>

text \<open>
  \<open>apps/api/src/notifications\<close>: who is told of an approval request, the text and HTML of the
  message, the checks of the mail adapter and what the caller gets back. The transport is
  \<open>sendMail\<close> of the platform; a message it accepts is kept in \<open>notices\<close>.
\<close>

subsection \<open>The message\<close>

definition replace_char :: "char \<Rightarrow> string \<Rightarrow> string \<Rightarrow> string" where
  "replace_char c by s = concat (map (\<lambda>x. if x = c then by else [x]) s)"

definition escapeHtml :: "string \<Rightarrow> string" where
  "escapeHtml s = replace_char (CHR 0x27) ''&#39;'' (replace_char (CHR 0x22) ''&quot;''
     (replace_char (CHR ''>'') ''&gt;'' (replace_char (CHR ''<'') ''&lt;''
       (replace_char (CHR ''&'') ''&amp;'' s))))"

definition domainLabel :: "string \<Rightarrow> string" where
  "domainLabel v = replace_char (CHR ''_'') '' '' (to_lower v)"

definition toHtml :: "string list \<Rightarrow> string" where
  "toHtml lines = ''<h1>AgentPass approval request</h1>'' @
     concat (map (\<lambda>l. if l = [] then [] else ''<p>'' @ escapeHtml l @ ''</p>'') (drop 2 lines))"

definition strip_slash :: "string \<Rightarrow> string" where
  "strip_slash s = (if s \<noteq> [] \<and> last s = CHR ''/'' then butlast s else s)"

definition approvalUrl :: "env \<Rightarrow> string \<Rightarrow> string" where
  "approvalUrl e k = strip_slash (dashboardBaseUrl e) @ ''/app/approvals/'' @ k"

definition string_items :: "json list \<Rightarrow> string list" where
  "string_items js = concat (map (\<lambda>j. case j of JStr s \<Rightarrow> [s] | _ \<Rightarrow> []) js)"

definition is_string :: "json \<Rightarrow> bool" where
  "is_string j \<longleftrightarrow> (case j of JStr _ \<Rightarrow> True | _ \<Rightarrow> False)"

definition extractMatchedRules :: "json \<Rightarrow> string list" where
  "extractMatchedRules v = (case v of
     JObj fs \<Rightarrow> (case map_of fs ''matchedRules'' of
         Some (JArr rules) \<Rightarrow> filter (\<lambda>r. \<not> isSecretFieldName r) (string_items rules)
       | _ \<Rightarrow> map fst (filter (\<lambda>kv. \<not> isSecretFieldName (fst kv) \<and> is_string (snd kv)) fs))
   | _ \<Rightarrow> [])"

record approval_context =
  cx_approval :: approval_row
  cx_agent :: agent_row
  cx_workflow :: workflow_row
  cx_vendor :: "vendor_row option"
  cx_attempt :: attempt_row

definition approval_lines :: "env \<Rightarrow> approval_context \<Rightarrow> string list" where
  "approval_lines e cx =
    (let a = cx_approval cx;
         amount = (case apr_amountCents a of None \<Rightarrow> at_amountCents (cx_attempt cx) | Some n \<Rightarrow> Some n);
         matchedRules = extractMatchedRules (apr_policyTriggered a);
         dashboard = ''Dashboard: '' @ approvalUrl e (apr_id a);
         lines =
          [''AgentPass approval request'',
           [],
           ''Summary: '' @ apr_summary a,
           ''Workflow: '' @ wf_name (cx_workflow cx),
           ''Agent: '' @ ag_name (cx_agent cx) @ '' ('' @ ag_identifier (cx_agent cx) @ '')'',
           ''Vendor: '' @ (case cx_vendor cx of None \<Rightarrow> ''Unknown vendor'' | Some v \<Rightarrow> ve_name v),
           ''Action: '' @ domainLabel (prisma_enum (action_type_value (at_actionType (cx_attempt cx)))),
           ''Risk: '' @ domainLabel (prisma_enum (risk_level_value (apr_riskLevel a))),
           ''Amount: '' @ (case amount of None \<Rightarrow> ''Not provided'' | Some n \<Rightarrow> formatUsd e n),
           ''Policy reason: '' @ (case at_policyReason (cx_attempt cx) of
              None \<Rightarrow> ''Policy requires human approval.'' | Some r \<Rightarrow> r),
           ''Expires: '' @ (case apr_expiresAt a of None \<Rightarrow> ''No expiration set'' | Some t \<Rightarrow> iso e t)]
     in lines
        @ (if matchedRules \<noteq> [] then [''Matched rules: '' @ join_with '', '' matchedRules] else [])
        @ [dashboard])"

definition build_email :: "env \<Rightarrow> approval_context \<Rightarrow> (string option \<times> string) list \<Rightarrow> email_message" where
  "build_email e cx recipients = \<lparr>em_from = mailFrom e, em_to = recipients,
     em_subject = ''Approval required: '' @ apr_summary (cx_approval cx),
     em_text = join_with [CHR 0x0A] (approval_lines e cx), em_html = toHtml (approval_lines e cx)\<rparr>"

subsection \<open>The mail adapter\<close>

definition has_break :: "string \<Rightarrow> bool" where
  "has_break s \<longleftrightarrow> CHR 0x0D \<in> set s \<or> CHR 0x0A \<in> set s"

definition js_error :: "string \<Rightarrow> err" where
  "js_error m = JsError ''Error'' m"

definition assertNoHeaderBreaks :: "string \<Rightarrow> string \<Rightarrow> unit action" where
  "assertNoHeaderBreaks v field = require (\<not> has_break v)
     (js_error (''Email '' @ field @ '' must not contain header line breaks.''))"

definition safeEmail :: "string \<Rightarrow> string action" where
  "safeEmail email =
    bnd (assertNoHeaderBreaks email ''email'') (\<lambda>_.
    bnd (gets (\<lambda>w. isEmail (w_env w) email)) (\<lambda>ok.
    bnd (require ok (js_error ''Email address is invalid.'')) (\<lambda>_. ret email)))"

text \<open>The first \<open><([^>]+)>\<close> of an address.\<close>

fun angle_address :: "string \<Rightarrow> string option" where
  "angle_address [] = None"
| "angle_address (c # cs) =
     (let inner = takeWhile (\<lambda>x. x \<noteq> CHR ''>'') cs in
      if c = CHR ''<'' \<and> inner \<noteq> [] \<and> dropWhile (\<lambda>x. x \<noteq> CHR ''>'') cs \<noteq> [] then Some inner
      else angle_address cs)"

definition safeFrom :: "string \<Rightarrow> string action" where
  "safeFrom address =
    bnd (assertNoHeaderBreaks address ''from'') (\<lambda>_.
    bnd (safeEmail (case angle_address address of Some a \<Rightarrow> a | None \<Rightarrow> address)) (\<lambda>_. ret address))"

definition safeDisplayName :: "string \<Rightarrow> string action" where
  "safeDisplayName nm =
    bnd (assertNoHeaderBreaks nm ''display name'') (\<lambda>_.
    ret ([CHR 0x22] @ replace_char (CHR 0x22) [CHR 0x5C, CHR 0x22] nm @ [CHR 0x22]))"

definition formatAddress :: "string option \<times> string \<Rightarrow> string action" where
  "formatAddress r =
    bnd (safeEmail (snd r)) (\<lambda>email.
    if truthy (fst r)
    then bnd (safeDisplayName (the (fst r))) (\<lambda>nm. ret (nm @ '' <'' @ email @ ''>''))
    else ret email)"

definition assertSafeMessage :: "email_message \<Rightarrow> unit action" where
  "assertSafeMessage m =
    bnd (safeFrom (em_from m)) (\<lambda>_.
    bnd (assertNoHeaderBreaks (em_subject m) ''subject'') (\<lambda>_.
    for_each (\<lambda>r. bnd (formatAddress r) (\<lambda>_. ret ())) (em_to m)))"

definition send_email :: "email_message \<Rightarrow> string action" where
  "send_email m =
    bnd (require (em_to m \<noteq> []) (js_error ''Email requires at least one recipient.'')) (\<lambda>_.
    bnd (assertSafeMessage m) (\<lambda>_.
    bnd (gets (\<lambda>w. sendMail (w_env w) m)) (\<lambda>outcome.
    case outcome of
      Inl e \<Rightarrow> throw e
    | Inr messageId \<Rightarrow> bnd (modify (\<lambda>w. w\<lparr>notices := notices w @ [m]\<rparr>)) (\<lambda>_. ret messageId))))"

subsection \<open>Recipients and outcome\<close>

definition approval_not_found :: err where
  "approval_not_found = DomainError NotFound ''Approval request was not found.''"

definition getApprovalContext :: "string \<Rightarrow> approval_context action" where
  "getApprovalContext k =
    bnd (find_first approval_t (\<lambda>a. apr_id a = k)) (\<lambda>found.
    bnd (require_some found approval_not_found) (\<lambda>a.
    bnd (find_first agent_t (\<lambda>x. ag_id x = apr_requestedBy a)) (\<lambda>agent.
    bnd (require_some agent (missing_relation ''requestedByAgent'')) (\<lambda>agent.
    bnd (find_first run_t (\<lambda>x. run_id x = apr_run a)) (\<lambda>run.
    bnd (require_some run (missing_relation ''workflowRun'')) (\<lambda>run.
    bnd (find_first workflow_t (\<lambda>x. wf_id x = run_workflow run)) (\<lambda>workflow.
    bnd (require_some workflow (missing_relation ''workflow'')) (\<lambda>workflow.
    bnd (find_first vendor_t (\<lambda>x. run_vendor run = Some (ve_id x))) (\<lambda>vendor.
    bnd (find_first attempt_t (\<lambda>x. at_id x = apr_attempt a)) (\<lambda>attempt.
    bnd (require_some attempt (missing_relation ''actionAttempt'')) (\<lambda>attempt.
    ret \<lparr>cx_approval = a, cx_agent = agent, cx_workflow = workflow, cx_vendor = vendor,
         cx_attempt = attempt\<rparr>)))))))))))"

definition wants_approvals :: "preference_row list \<Rightarrow> user_row \<Rightarrow> bool" where
  "wants_approvals ps u \<longleftrightarrow> (case find (\<lambda>p. np_user p = us_id u) ps of
     None \<Rightarrow> True | Some p \<Rightarrow> np_approvalRequests p)"

definition recipient_order :: "env \<Rightarrow> user_row \<Rightarrow> user_row \<Rightarrow> bool" where
  "recipient_order e a b \<longleftrightarrow>
     index_of USER_ROLES (us_role a) < index_of USER_ROLES (us_role b)
     \<or> us_role a = us_role b \<and> collate e (us_email a) (us_email b)"

definition getApprovalRecipients :: "string \<Rightarrow> (string option \<times> string) list action" where
  "getApprovalRecipients org =
    bnd (find_many user_t (\<lambda>u. us_org u = org \<and> us_status u = User_Active
           \<and> us_role u \<in> {Role_Owner, Role_Approver})) (\<lambda>found.
    gets (\<lambda>w. map (\<lambda>u. (Some (us_name u), us_email u))
      (filter (wants_approvals (preferences w)) (sort_by (recipient_order (w_env w)) found))))"

definition notifyApprovalRequested :: "approval_row \<Rightarrow> json action" where
  "notifyApprovalRequested approval =
    bnd (getApprovalContext (apr_id approval)) (\<lambda>cx.
    bnd (getApprovalRecipients (apr_org (cx_approval cx))) (\<lambda>recipients.
    bnd (gets (\<lambda>w. approvalUrl (w_env w) (apr_id (cx_approval cx)))) (\<lambda>dashboardUrl.
    let base = (\<lambda>delivered to.
          [(''channel'', JStr ''email''), (''delivered'', JBool delivered),
           (''approvalRequestId'', JStr (apr_id (cx_approval cx))),
           (''recipients'', JArr (map JStr to))]) in
    if recipients = [] then
      ret (JObj (base False []
        @ [(''dashboardUrl'', JStr dashboardUrl),
           (''warning'', JStr ''No active owner or approver users were available for approval notification.'')]))
    else
      bnd (gets (\<lambda>w. build_email (w_env w) cx recipients)) (\<lambda>email.
      try_catch
        (bnd (send_email email) (\<lambda>messageId.
         ret (JObj (base True (map snd recipients)
           @ [(''subject'', JStr (em_subject email)), (''messageId'', JStr messageId),
              (''dashboardUrl'', JStr dashboardUrl)]))))
        (\<lambda>e. ret (JObj (base False (map snd recipients)
           @ [(''subject'', JStr (em_subject email)), (''dashboardUrl'', JStr dashboardUrl),
              (''warning'', JStr (err_message e))])))))))"

subsection \<open>Effects\<close>

lemmas mail_defs = notifyApprovalRequested_def getApprovalRecipients_def getApprovalContext_def
  send_email_def assertSafeMessage_def formatAddress_def safeDisplayName_def safeFrom_def
  safeEmail_def assertNoHeaderBreaks_def

lemma same_notify [effect_intros]:
  "(\<And>w ns. f (w\<lparr>notices := ns\<rparr>) = f w) \<Longrightarrow> effect (same_of f) (notifyApprovalRequested a) w"
  unfolding mail_defs by (intro effect_intros) simp_all

lemma audit_notify [effect_intros]: "effect audit_ok (notifyApprovalRequested a) w"
  by (intro same_quiet same_notify) (simp add: quiet_def)

subsection \<open>Properties\<close>

lemma set_replace_char: "c \<in> set (replace_char d by s) \<longleftrightarrow> (c \<in> set s \<and> c \<noteq> d) \<or> (c \<in> set by \<and> d \<in> set s)"
  by (auto simp: replace_char_def split: if_splits)

text \<open>What the text of a message cannot do to its HTML: no character of markup or of an
attribute's end survives the escaping.\<close>

lemma escapeHtml_chars: "set (escapeHtml s) \<inter> {CHR ''<'', CHR ''>'', CHR 0x22, CHR 0x27} = {}"
  by (auto simp: escapeHtml_def set_replace_char)

definition safe_message :: "email_message \<Rightarrow> bool" where
  "safe_message m \<longleftrightarrow> em_to m \<noteq> [] \<and> \<not> has_break (em_from m) \<and> \<not> has_break (em_subject m)
     \<and> list_all (\<lambda>r. \<not> has_break (snd r) \<and> \<not> (truthy (fst r) \<and> has_break (the (fst r)))) (em_to m)"

definition mail_ok :: "world \<Rightarrow> world \<Rightarrow> bool" where
  "mail_ok w w' \<longleftrightarrow> (\<exists>new. notices w' = notices w @ new \<and> list_all safe_message new)"

interpretation mail: effect_order mail_ok
proof
  show "mail_ok w w" for w by (simp add: mail_ok_def)
  show "mail_ok w t \<Longrightarrow> mail_ok t u \<Longrightarrow> mail_ok w u" for w t u
    by (auto simp: mail_ok_def)
qed

lemma mail_same: "effect (same_of notices) m w \<Longrightarrow> effect mail_ok m w"
  by (simp add: effect_def same_of_def mail_ok_def)

lemma for_each_Inr:
  assumes "for_each f xs s = (Inr (), s')" and "x \<in> set xs"
  shows "\<exists>t t'. f x t = (Inr (), t')"
  using assms by (induction xs arbitrary: s) (auto elim!: bnd_InrE, blast)

lemma assertSafeMessage_safe:
  assumes "assertSafeMessage m w = (Inr (), w')" and "em_to m \<noteq> []"
  shows "safe_message m"
proof -
  obtain t t' where loop: "for_each (\<lambda>r. bnd (formatAddress r) (\<lambda>_. ret ())) (em_to m) t = (Inr (), t')"
    and "\<not> has_break (em_from m)" "\<not> has_break (em_subject m)"
    using assms(1) by (auto simp: assertSafeMessage_def safeFrom_def assertNoHeaderBreaks_def elim!: bnd_InrE)
  moreover have "\<not> has_break (snd r) \<and> \<not> (truthy (fst r) \<and> has_break (the (fst r)))" if "r \<in> set (em_to m)" for r
    using for_each_Inr [OF loop that]
    by (auto simp: formatAddress_def safeEmail_def safeDisplayName_def assertNoHeaderBreaks_def elim!: bnd_InrE split: if_splits)
  ultimately show ?thesis
    using assms(2) by (simp add: safe_message_def list_all_iff)
qed

lemma mail_send_email [effect_intros]: "effect mail_ok (send_email m) w"
proof -
  have quiet: "effect (same_of notices) (assertSafeMessage m) w'" for w'
    unfolding mail_defs by (intro effect_intros)
  show ?thesis
    unfolding send_email_def
    by (intro effect_intros mail_same [OF quiet] mail.effect_modify)
       (auto simp: mail_ok_def dest: assertSafeMessage_safe)
qed


text \<open>The people told: active owners and approvers of the organization who did not opt out.\<close>

lemma recipients_run:
  "getApprovalRecipients org w = (Inr (map (\<lambda>u. (Some (us_name u), us_email u))
     (filter (wants_approvals (preferences w)) (sort_by (recipient_order (w_env w))
       (filter (\<lambda>u. us_org u = org \<and> us_status u = User_Active \<and> us_role u \<in> {Role_Owner, Role_Approver}) (users w))))), w)"
  by (simp add: getApprovalRecipients_def step_simps gets_def user_t_def)

text \<open>An approval notification reaches only active owners and approvers of the requesting
organization who have not switched these mails off, and every one of them.\<close>

theorem approval_recipients_exact:
  "\<exists>rs. getApprovalRecipients org w = (Inr rs, w)
    \<and> set rs = {(Some (us_name u), us_email u) | u. u \<in> set (users w) \<and> us_org u = org
        \<and> us_status u = User_Active \<and> us_role u \<in> {Role_Owner, Role_Approver}
        \<and> \<not> (\<exists>p. find (\<lambda>p. np_user p = us_id u) (preferences w) = Some p \<and> \<not> np_approvalRequests p)}"
  by (auto simp: recipients_run wants_approvals_def split: option.splits)

text \<open>A failing mail transport does not fail the request: the notification of an approval
whose rows are present returns normally, and reports as undelivered with the transport's
message whatever the transport refuses, leaving the world alone.\<close>

theorem notification_failure_contained:
  assumes "getApprovalContext (apr_id a) w = (Inr cx, w)"
    and "\<And>m. sendMail (w_env w) m = Inl e"
  shows "\<exists>j fs. notifyApprovalRequested a w = (Inr (JObj fs), w)
     \<and> map_of fs ''delivered'' = Some (JBool False) \<and> map_of fs ''warning'' = Some (JStr j)"
proof -
  have quiet: "assertSafeMessage m w = (fst (assertSafeMessage m w), w)" for m
  proof -
    have "effect (same_of (\<lambda>w. w)) (assertSafeMessage m) w"
      unfolding mail_defs by (intro effect_intros)
    then show ?thesis by (simp add: effect_def same_of_def prod_eq_iff)
  qed
  have send: "\<exists>e. send_email m w = (Inl e, w)" for m
    using quiet [of m] assms(2)
    by (cases "fst (assertSafeMessage m w)") (auto simp: send_email_def bnd_def gets_def require_def ret_def throw_def)
  show ?thesis
  proof (cases "fst (getApprovalRecipients (apr_org (cx_approval cx)) w) = Inr []")
    case True
    then show ?thesis
      by (simp add: notifyApprovalRequested_def bnd_Inr [where m = "getApprovalContext k" for k, OF assms(1)]
          bnd_Inr [where m = "getApprovalRecipients k" for k, OF recipients_run] recipients_run step_simps Let_def ret_def)
  next
    case False
    obtain e' where e': "send_email (build_email (w_env w) cx
         (projr (fst (getApprovalRecipients (apr_org (cx_approval cx)) w)))) w = (Inl e', w)"
      using send by blast
    then show ?thesis
      using False
      by (simp add: notifyApprovalRequested_def bnd_Inr [where m = "getApprovalContext k" for k, OF assms(1)]
          bnd_Inr [where m = "getApprovalRecipients k" for k, OF recipients_run] recipients_run step_simps Let_def ret_def
          try_catch_def bnd_def [of "send_email k" for k])
  qed
qed

definition demo_agent :: agent_row where
  "demo_agent = \<lparr>ag_id = ''a'', ag_org = ''o'', ag_name = ''agent'', ag_identifier = ''ident'',
     ag_purpose = ''p'', ag_status = Agent_Active, ag_createdBy = ''u'', ag_createdAt = 0,
     ag_updatedAt = 0, ag_revokedAt = None\<rparr>"

definition demo_workflow :: workflow_row where
  "demo_workflow = \<lparr>wf_id = ''w'', wf_org = ''o'', wf_agent = ''a'', wf_vendor = ''v'',
     wf_name = ''flow'', wf_template = Template_PlanDowngradeRequest, wf_status = Workflow_Active,
     wf_config = JObj [], wf_createdBy = ''u'', wf_createdAt = 0, wf_updatedAt = 0\<rparr>"

definition demo_attempt :: attempt_row where
  "demo_attempt = \<lparr>at_id = ''t'', at_org = ''o'', at_run = ''r'', at_agent = ''a'', at_vendor = None,
     at_website = ''s'', at_actionType = ChangePlan, at_riskLevel = Risk_High,
     at_policyDecision = Decide_RequireApproval, at_policyReason = None, at_inputSummary = None,
     at_outputSummary = None, at_amountCents = None, at_metadata = JObj [], at_createdAt = 0,
     at_completedAt = None\<rparr>"

definition demo_approval :: approval_row where
  "demo_approval = \<lparr>apr_id = ''p'', apr_org = ''o'', apr_run = ''r'', apr_attempt = ''t'',
     apr_status = Approval_Pending, apr_requestedBy = ''a'', apr_approver = None,
     apr_summary = ''Downgrade'', apr_riskLevel = Risk_High, apr_amountCents = None,
     apr_screenshot = None, apr_policyTriggered = JObj [], apr_expiresAt = None,
     apr_approvedAt = None, apr_rejectedAt = None, apr_comment = None, apr_createdAt = 0,
     apr_updatedAt = 0\<rparr>"

definition demo_owner :: user_row where
  "demo_owner = \<lparr>us_id = ''u'', us_org = ''o'', us_email = ''e'', us_name = ''n'', us_role = Role_Owner,
     us_passwordHash = ''h'', us_status = User_Active, us_createdAt = 0, us_updatedAt = 0,
     us_lastLoginAt = None, us_disabledAt = None, us_emailVerifiedAt = None,
     us_emailVerificationToken = None, us_emailVerificationSentAt = None,
     us_passwordResetToken = None, us_passwordResetExpiresAt = None, us_mfaSecret = None,
     us_mfaEnabled = False, us_mfaBackupCodes = JNull\<rparr>"

text \<open>A run waiting for the decision on one pending request.\<close>

definition waiting_world :: "env \<Rightarrow> world" where
  "waiting_world e = (empty_world e)\<lparr>users := [demo_owner], agents := [demo_agent],
     workflows := [demo_workflow], runs := [demo_run Run_WaitingForApproval],
     attempts := [demo_attempt], approvals := [demo_approval]\<rparr>"

theorem notification_failure_contained_witness:
  "\<exists>j fs. notifyApprovalRequested demo_approval
       (waiting_world (demo_env\<lparr>sendMail := \<lambda>_. Inl (js_error ''down'')\<rparr>))
       = (Inr (JObj fs), waiting_world (demo_env\<lparr>sendMail := \<lambda>_. Inl (js_error ''down'')\<rparr>))
     \<and> map_of fs ''delivered'' = Some (JBool False) \<and> map_of fs ''warning'' = Some (JStr j)"
  by (rule notification_failure_contained
      [where cx = "\<lparr>cx_approval = demo_approval, cx_agent = demo_agent, cx_workflow = demo_workflow,
         cx_vendor = None, cx_attempt = demo_attempt\<rparr>" and e = "js_error ''down''"])
     (simp_all add: getApprovalContext_def step_simps ret_def table_defs waiting_world_def
       demo_approval_def demo_agent_def demo_run_def demo_workflow_def demo_attempt_def empty_world_def)

end
