(* ===== verification/Sessions.thy ===== *)
theory Sessions
  imports Credentials Notifications
begin

section \<open>Passwords, tokens and sessions\<close>

text \<open>
  \<open>apps/api/src/auth\<close>: passwords, the refresh tokens that stand for sessions, the access tokens of
  the dashboard, the signed challenges of a login and of a step-up, and the audit events of
  signing in. Password hashing, keyed hashes, encodings and random bytes are the platform's.
  Texts signed with a key are kept as texts: what a token says is read back from it as the code
  reads it.
\<close>

subsection \<open>Random texts and keyed hashes\<close>

definition randomToken :: "string action" where
  "randomToken = (\<lambda>w. (Inr (base64url (w_env w) (random_bytes (w_env w) (ids w))), w\<lparr>ids := Suc (ids w)\<rparr>))"

definition hashActionToken :: "string \<Rightarrow> string action" where
  "hashActionToken token = gets (\<lambda>w. hmac_hex (w_env w) (jwtRefreshSecret (w_env w)) token)"

definition sign_access :: "env \<Rightarrow> string \<Rightarrow> string" where
  "sign_access e v = hmac_url e (jwtAccessSecret e) v"

definition epoch_seconds :: "nat action" where
  "epoch_seconds = bnd new_date (\<lambda>t. ret (t div 1000))"

subsection \<open>Passwords\<close>

text \<open>The salt is random; a verification that throws counts as a mismatch.\<close>

definition hashPassword :: "string \<Rightarrow> string action" where
  "hashPassword password = (\<lambda>w. (Inr (argon_hash (w_env w) (ids w) password), w\<lparr>ids := Suc (ids w)\<rparr>))"

definition verifyPassword :: "string \<Rightarrow> string \<Rightarrow> bool action" where
  "verifyPassword hash password = gets (\<lambda>w. argon_verify (w_env w) hash password)"

definition DUMMY_PASSWORD :: string where
  "DUMMY_PASSWORD = ''aegisweb-missing-user-password-equalizer''"

definition verifyPasswordForMissingUser :: "string \<Rightarrow> bool action" where
  "verifyPasswordForMissingUser password =
    bnd (hashPassword DUMMY_PASSWORD) (\<lambda>hash. verifyPassword hash password)"

subsection \<open>Refresh tokens\<close>

definition refresh_ttl_seconds :: nat where
  "refresh_ttl_seconds = 30 * 24 * 60 * 60"

definition invalid_refresh_token :: err where
  "invalid_refresh_token = DomainError PermissionDenied ''Refresh token is invalid or expired.''"

definition refresh_issue :: "string \<Rightarrow> string \<Rightarrow> string action" where
  "refresh_issue userId organizationId =
    bnd randomToken (\<lambda>token.
    bnd (hashActionToken token) (\<lambda>tokenHash.
    bnd new_date (\<lambda>t.
    bnd fresh_id (\<lambda>new_id. bnd new_date (\<lambda>now.
    bnd (create_row refresh_token_t \<lparr>rt_id = new_id, rt_org = organizationId, rt_user = userId, rt_tokenHash = tokenHash,
      rt_expiresAt = t + refresh_ttl_seconds * 1000, rt_revokedAt = None, rt_createdAt = now\<rparr>) (\<lambda>_.
    ret token))))))"

definition refresh_consume :: "string \<Rightarrow> refresh_token_row action" where
  "refresh_consume token =
    bnd (hashActionToken token) (\<lambda>tokenHash.
    bnd new_date (\<lambda>now.
    transaction
      (bnd (find_first refresh_token_t (\<lambda>t. rt_tokenHash t = tokenHash \<and> rt_revokedAt t = None \<and> now < rt_expiresAt t)) (\<lambda>found.
       bnd (require_some found invalid_refresh_token) (\<lambda>stored.
       bnd (update_many refresh_token_t (\<lambda>t. rt_id t = rt_id stored \<and> rt_revokedAt t = None) (\<lambda>t. t\<lparr>rt_revokedAt := Some now\<rparr>)) (\<lambda>count.
       bnd (require (count = 1) invalid_refresh_token) (\<lambda>_.
       ret (stored\<lparr>rt_revokedAt := Some now\<rparr>))))))))"

definition revoke_tokens :: "(refresh_token_row \<Rightarrow> bool) \<Rightarrow> unit action" where
  "revoke_tokens P =
    bnd new_date (\<lambda>now.
    bnd (update_many refresh_token_t (\<lambda>t. P t \<and> rt_revokedAt t = None) (\<lambda>t. t\<lparr>rt_revokedAt := Some now\<rparr>)) (\<lambda>_. ret ()))"

definition refresh_revoke :: "string \<Rightarrow> unit action" where
  "refresh_revoke token = bnd (hashActionToken token) (\<lambda>tokenHash. revoke_tokens (\<lambda>t. rt_tokenHash t = tokenHash))"

definition refresh_revokeAllForUser :: "string \<Rightarrow> unit action" where
  "refresh_revokeAllForUser userId = revoke_tokens (\<lambda>t. rt_user t = userId)"

definition refresh_revokeForUser :: "string \<Rightarrow> string \<Rightarrow> unit action" where
  "refresh_revokeForUser userId k = revoke_tokens (\<lambda>t. rt_id t = k \<and> rt_user t = userId)"

definition refresh_listActiveForUser :: "string \<Rightarrow> refresh_token_row list action" where
  "refresh_listActiveForUser userId =
    bnd new_date (\<lambda>now.
    bnd (find_many refresh_token_t (\<lambda>t. rt_user t = userId \<and> rt_revokedAt t = None \<and> now < rt_expiresAt t)) (\<lambda>ts.
    ret (rev (sort_key rt_createdAt ts))))"

subsection \<open>Access tokens\<close>

definition access_ttl_seconds :: nat where
  "access_ttl_seconds = 15 * 60"

definition issuer :: string where
  "issuer = ''aegisweb-api''"

definition audience :: string where
  "audience = ''aegisweb-dashboard''"

definition json_url :: "env \<Rightarrow> json \<Rightarrow> string" where
  "json_url e j = base64url e (json_text (num_str e) j)"

text \<open>What the payload of a token says; a text that is none of the expected kind is no value.\<close>

definition payload_text :: "(string \<times> json) list \<Rightarrow> string \<Rightarrow> string option" where
  "payload_text fs k = (case map_of fs k of Some (JStr s) \<Rightarrow> Some s | _ \<Rightarrow> None)"

text \<open>\<open>payload.exp <= now\<close>: a comparison with no number is false.\<close>

definition expired :: "env \<Rightarrow> (string \<times> json) list \<Rightarrow> nat \<Rightarrow> bool" where
  "expired e fs now = (case map_of fs ''exp'' of
     None \<Rightarrow> False
   | Some v \<Rightarrow> (case js_number e v of None \<Rightarrow> False | Some q \<Rightarrow> q \<le> of_nat now))"

definition access_header :: json where
  "access_header = JObj [(''alg'', JStr ''HS256''), (''typ'', JStr ''JWT'')]"

definition access_payload :: "user_row \<Rightarrow> nat \<Rightarrow> string \<Rightarrow> (string \<times> json) list" where
  "access_payload user issuedAt jti =
    [(''sub'', JStr (us_id user)), (''userId'', JStr (us_id user)), (''organizationId'', JStr (us_org user)),
     (''role'', JStr (prisma_enum (user_role_value (us_role user)))), (''email'', JStr (us_email user)),
     (''iss'', JStr issuer), (''aud'', JStr audience), (''jti'', JStr jti), (''typ'', JStr ''access''),
     (''iat'', JNum (of_nat issuedAt)), (''exp'', JNum (of_nat (issuedAt + access_ttl_seconds)))]"

text \<open>\<open>sign\<close>: header, payload and signature, separated by dots.\<close>

definition sign_token :: "env \<Rightarrow> (string \<times> json) list \<Rightarrow> string" where
  "sign_token e payload = (let encodedHeader = json_url e access_header; encodedPayload = json_url e (JObj payload) in
     encodedHeader @ ''.'' @ encodedPayload @ ''.'' @ sign_access e (encodedHeader @ ''.'' @ encodedPayload))"

definition signAccessToken :: "user_row \<Rightarrow> string action" where
  "signAccessToken user =
    bnd epoch_seconds (\<lambda>issuedAt.
    bnd fresh_id (\<lambda>jti.
    gets (\<lambda>w. sign_token (w_env w) (access_payload user issuedAt jti))))"

text \<open>The parsed part of a token: an object, with \<open>null\<close> a value without properties to read.\<close>

definition parse_part :: "string \<Rightarrow> (string \<times> json) list action" where
  "parse_part encoded =
    bnd (gets (\<lambda>w. parse_json (w_env w) (utf8_text (w_env w) (base64url_text (w_env w) encoded)))) (\<lambda>parsed.
    bnd (require_some parsed authentication_required) (\<lambda>v.
    bnd (require (v \<noteq> JNull) (JsError ''TypeError'' ''Cannot read properties of null'')) (\<lambda>_.
    ret (as_object v))))"

definition deleteExpiredRevocations :: "unit action" where
  "deleteExpiredRevocations =
    bnd epoch_seconds (\<lambda>now.
    modify (\<lambda>w. w\<lparr>revoked_jtis := filter (\<lambda>(j, expiresAt). now < expiresAt) (revoked_jtis w)\<rparr>))"

definition jti_of :: "env \<Rightarrow> (string \<times> json) list \<Rightarrow> string" where
  "jti_of e fs = (case map_of fs ''jti'' of None \<Rightarrow> ''undefined'' | Some v \<Rightarrow> js_text e v)"

definition verifyAccessToken :: "string \<Rightarrow> (string \<times> json) list action" where
  "verifyAccessToken token =
    (let segments = split_on (CHR ''.'') token in
     bnd (require (length segments = 3 \<and> segments ! 0 \<noteq> [] \<and> segments ! 1 \<noteq> [] \<and> segments ! 2 \<noteq> []) authentication_required) (\<lambda>_.
     bnd (parse_part (segments ! 0)) (\<lambda>header.
     bnd (require (payload_text header ''alg'' = Some ''HS256'' \<and> payload_text header ''typ'' = Some ''JWT''
       \<and> map_of header ''kid'' = None) authentication_required) (\<lambda>_.
     bnd (gets (\<lambda>w. sign_access (w_env w) (segments ! 0 @ ''.'' @ segments ! 1))) (\<lambda>expectedSignature.
     bnd (require (segments ! 2 = expectedSignature) authentication_required) (\<lambda>_.
     bnd (parse_part (segments ! 1)) (\<lambda>payload.
     bnd (require (payload_text payload ''typ'' = Some ''access'' \<and> payload_text payload ''iss'' = Some issuer
       \<and> payload_text payload ''aud'' = Some audience) authentication_required) (\<lambda>_.
     bnd epoch_seconds (\<lambda>now.
     bnd (gets (\<lambda>w. expired (w_env w) payload now)) (\<lambda>over.
     bnd (require (\<not> over) authentication_required) (\<lambda>_.
     bnd deleteExpiredRevocations (\<lambda>_.
     bnd (gets (\<lambda>w. list_ex (\<lambda>(j, _). j = jti_of (w_env w) payload) (revoked_jtis w))) (\<lambda>revoked.
     bnd (require (\<not> revoked) authentication_required) (\<lambda>_.
     ret payload))))))))))))))"

text \<open>\<open>map.set(key, value)\<close>.\<close>

definition map_set :: "('k \<times> 'v) list \<Rightarrow> 'k \<Rightarrow> 'v \<Rightarrow> ('k \<times> 'v) list" where
  "map_set m k v = (if map_of m k = None then m @ [(k, v)] else map (\<lambda>(k', v'). if k' = k then (k, v) else (k', v')) m)"

definition claim_exp :: "(string \<times> json) list \<Rightarrow> nat" where
  "claim_exp fs = (case map_of fs ''exp'' of Some (JNum q) \<Rightarrow> nat \<lfloor>q\<rfloor> | _ \<Rightarrow> 0)"

definition revokeAccessToken :: "string \<Rightarrow> unit action" where
  "revokeAccessToken token =
    bnd (verifyAccessToken token) (\<lambda>payload.
    bnd (modify (\<lambda>w. w\<lparr>revoked_jtis := map_set (revoked_jtis w) (jti_of (w_env w) payload) (claim_exp payload)\<rparr>)) (\<lambda>_.
    deleteExpiredRevocations))"

subsection \<open>Signed challenges\<close>

text \<open>The token of a pending login and the token of a step-up are a payload and its signature;
parts after the second are ignored, and a payload that is no JSON throws.\<close>

definition sign_payload :: "(string \<times> json) list \<Rightarrow> string action" where
  "sign_payload payload = gets (\<lambda>w. let encoded = json_url (w_env w) (JObj payload) in encoded @ ''.'' @ sign_access (w_env w) encoded)"

definition open_payload_part :: "string \<Rightarrow> (string \<times> json) list action" where
  "open_payload_part encoded =
    bnd (gets (\<lambda>w. parse_json (w_env w) (utf8_text (w_env w) (base64url_text (w_env w) encoded)))) (\<lambda>parsed.
    bnd (require_some parsed (JsError ''SyntaxError'' ''Unexpected token in JSON'')) (\<lambda>v.
    bnd (require (v \<noteq> JNull) (JsError ''TypeError'' ''Cannot read properties of null'')) (\<lambda>_.
    ret (as_object v))))"

definition open_signed :: "string \<Rightarrow> err \<Rightarrow> (string \<times> json) list action" where
  "open_signed token refused =
    (let parts = split_on (CHR ''.'') token; encoded = part 0 parts; mac = part 1 parts in
     bnd (gets (\<lambda>w. truthy encoded \<and> truthy mac \<and> the mac = sign_access (w_env w) (the encoded))) (\<lambda>ok.
     bnd (require ok refused) (\<lambda>_.
     open_payload_part (the encoded))))"

definition challenge_ttl_seconds :: nat where
  "challenge_ttl_seconds = 5 * 60"

definition invalid_challenge :: err where
  "invalid_challenge = DomainError PermissionDenied ''MFA challenge is invalid or expired.''"

definition signLoginChallenge :: "string \<Rightarrow> string action" where
  "signLoginChallenge userId =
    bnd epoch_seconds (\<lambda>now.
    sign_payload [(''userId'', JStr userId), (''purpose'', JStr ''mfa-login''), (''exp'', JNum (of_nat (now + challenge_ttl_seconds)))])"

definition verifyLoginChallenge :: "string \<Rightarrow> (string \<times> json) list action" where
  "verifyLoginChallenge token =
    bnd (open_signed token invalid_challenge) (\<lambda>payload.
    bnd (require (payload_text payload ''purpose'' = Some ''mfa-login'') invalid_challenge) (\<lambda>_.
    bnd epoch_seconds (\<lambda>now.
    bnd (gets (\<lambda>w. expired (w_env w) payload now)) (\<lambda>over.
    bnd (require (\<not> over) invalid_challenge) (\<lambda>_.
    ret payload)))))"

definition step_up_required :: err where
  "step_up_required = DomainError PermissionDenied ''Step-up authentication is required.''"

definition step_up_sign :: "user_row \<Rightarrow> string action" where
  "step_up_sign user =
    bnd epoch_seconds (\<lambda>now.
    sign_payload [(''userId'', JStr (us_id user)), (''organizationId'', JStr (us_org user)), (''purpose'', JStr ''step-up''),
      (''exp'', JNum (of_nat (now + challenge_ttl_seconds)))])"

definition step_up_verify :: "string option \<Rightarrow> context_user option \<Rightarrow> unit action" where
  "step_up_verify token currentUser =
    bnd (require (truthy token \<and> currentUser \<noteq> None) step_up_required) (\<lambda>_.
    bnd (open_signed (the token) step_up_required) (\<lambda>payload.
    bnd (require (payload_text payload ''purpose'' = Some ''step-up'') step_up_required) (\<lambda>_.
    bnd epoch_seconds (\<lambda>now.
    bnd (gets (\<lambda>w. expired (w_env w) payload now)) (\<lambda>over.
    require (\<not> over \<and> payload_text payload ''userId'' = Some (cu_id (the currentUser))
      \<and> payload_text payload ''organizationId'' = Some (cu_org (the currentUser))) step_up_required)))))"

subsection \<open>Audit events of sessions\<close>

text \<open>This service has its own hash: of the text of the object as written, of the newest event by
time alone, and of the data as given.\<close>

definition session_preimage :: "env \<Rightarrow> audit_input \<Rightarrow> string option \<Rightarrow> string" where
  "session_preimage e i prevHash = json_text (num_str e) (JObj
     [(''organizationId'', JStr (ai_org i)),
      (''workflowRunId'', JNull),
      (''agentId'', JNull),
      (''actorType'', JStr (prisma_enum (audit_actor_type_value (ai_actorType i)))),
      (''actorId'', jopt (ai_actorId i)),
      (''eventType'', JStr (prisma_enum (audit_event_type_value (ai_eventType i)))),
      (''eventDataJson'', ai_data i),
      (''prevHash'', jopt prevHash)])"

definition newest_by_time :: "string \<Rightarrow> audit_row list \<Rightarrow> audit_row option" where
  "newest_by_time org rs = (case rev (sort_key au_createdAt (org_events org rs)) of [] \<Rightarrow> None | a # _ \<Rightarrow> Some a)"

definition session_record :: "audit_input \<Rightarrow> unit action" where
  "session_record i =
    bnd (gets (\<lambda>w. newest_by_time (ai_org i) (audits w))) (\<lambda>previous.
    bnd (ret (map_option au_hash previous)) (\<lambda>prevHash.
    bnd (gets (\<lambda>w. sha256 (w_env w) (session_preimage (w_env w) i prevHash))) (\<lambda>eventHash.
    bnd fresh_id (\<lambda>new_id.
    bnd new_date (\<lambda>now.
    bnd (create_row audit_t \<lparr>au_id = new_id, au_org = ai_org i, au_run = None, au_agent = None,
      au_actorType = ai_actorType i, au_actorId = ai_actorId i, au_eventType = ai_eventType i, au_data = ai_data i,
      au_prevHash = prevHash, au_hash = eventHash, au_createdAt = now\<rparr>) (\<lambda>_.
    ret ()))))))"

subsection \<open>Session events in the log\<close>

lemma session_record_run:
  "snd (session_record i w) =
    (let prevHash = map_option au_hash (newest_by_time (ai_org i) (audits w)) in
     w\<lparr>ids := Suc (ids w), reads := Suc (reads w), audits := audits w @ [\<lparr>au_id = uuid (w_env w) (ids w),
       au_org = ai_org i, au_run = None, au_agent = None, au_actorType = ai_actorType i, au_actorId = ai_actorId i,
       au_eventType = ai_eventType i, au_data = ai_data i, au_prevHash = prevHash,
       au_hash = sha256 (w_env w) (session_preimage (w_env w) i prevHash), au_createdAt = clock (w_env w) (reads w)\<rparr>]\<rparr>)"
  by (simp add: session_record_def run_simps Let_def)

lemma hd_sort_by_min:
  assumes "x \<in> set xs" and "distinct xs" and "\<And>y. y \<in> set xs \<Longrightarrow> y \<noteq> x \<Longrightarrow> le x y \<and> \<not> le y x"
  shows "hd (sort_by le xs) = x"
  using assms
proof (induction xs)
  case (Cons a xs)
  show ?case
  proof (cases "a = x")
    case True
    have "\<forall>y \<in> set (sort_by le xs). le x y" using Cons.prems True by auto
    then have "hd (insert_by le x (sort_by le xs)) = x" by (cases "sort_by le xs") auto
    with True show ?thesis by (simp add: sort_by_def)
  next
    case False
    with Cons have "hd (sort_by le xs) = x" and "x \<in> set (sort_by le xs)" by auto
    then obtain ys where "sort_by le xs = x # ys" by (cases "sort_by le xs") auto
    moreover have "\<not> le a x" using Cons.prems False by auto
    ultimately show ?thesis by (simp add: sort_by_def)
  qed
qed simp

lemma session_text_not_stable:
  assumes "number_printer (num_str e)"
    and "\<And>k. k \<in> set [''organizationId'', ''workflowRunId'', ''agentId'', ''actorType'', ''eventType'', ''eventDataJson'', ''prevHash'']
      \<Longrightarrow> collate e ''actorId'' k \<and> \<not> collate e k ''actorId''"
  shows "hash_preimage e i p \<noteq> session_preimage e i q"
proof
  let ?fs = "[(''organizationId'', JStr (ai_org i)), (''workflowRunId'', jopt (ai_run i)), (''agentId'', jopt (ai_agent i)),
      (''actorType'', JStr (prisma_enum (audit_actor_type_value (ai_actorType i)))), (''actorId'', jopt (ai_actorId i)),
      (''eventType'', JStr (prisma_enum (audit_event_type_value (ai_eventType i)))), (''eventDataJson'', ai_data i),
      (''prevHash'', jopt p)]"
  let ?le = "\<lambda>l r. collate e (fst l) (fst r)"
  have "hd (sort_by ?le ?fs) = (''actorId'', jopt (ai_actorId i))"
  proof (rule hd_sort_by_min)
    fix y assume "y \<in> set ?fs" and "y \<noteq> (''actorId'', jopt (ai_actorId i))"
    then have "fst y \<in> set [''organizationId'', ''workflowRunId'', ''agentId'', ''actorType'', ''eventType'', ''eventDataJson'', ''prevHash'']"
      by auto
    then show "collate e (fst (''actorId'', jopt (ai_actorId i))) (fst y) \<and> \<not> collate e (fst y) (fst (''actorId'', jopt (ai_actorId i)))"
      using assms(2) by simp
  qed simp_all
  moreover obtain l ls where sorted: "sort_by ?le ?fs = l # ls"
    using set_sort_by [of ?le ?fs] by (cases "sort_by ?le ?fs") auto
  ultimately have l: "fst l = ''actorId''" by simp
  assume "hash_preimage e i p = session_preimage e i q"
  then obtain gs where "json_text (num_str e) (normalise (collate e) (JObj ?fs)) = json_text (num_str e) (JObj ((''organizationId'', JStr (ai_org i)) # gs))"
    unfolding hash_preimage_def session_preimage_def stableStringify_text by blast
  then have "normalise (collate e) (JObj ?fs) = JObj ((''organizationId'', JStr (ai_org i)) # gs)"
    using json_text_unique [OF assms(1), of _ "[]" _ "[]"] by (simp add: delimited_def del: json_text.simps normalise.simps)
  then have "fst l = ''organizationId''"
    by (simp only: normalise.simps sorted list.map json.inject list.inject fst_conv prod.inject)
  with l show False by simp
qed

lemma verify_events_prefix:
  "linked e prev as \<Longrightarrow> verify_events e n prev (as @ bs) = verify_events e (n + length as) (last_hash prev as) bs"
  by (induction as arbitrary: n prev) (auto simp: Let_def last_hash_def)


definition demo_order :: "string \<Rightarrow> string \<Rightarrow> bool" where
  "demo_order a b \<longleftrightarrow> (if a = ''actorId'' then True else if b = ''actorId'' then False else a \<le> b)"


subsection \<open>Sessions as a map\<close>

text \<open>
  What the table of refresh tokens promises: a map from token hashes to the user signed in and the
  end of the session. Issuing adds an entry, using or revoking a token removes it, and revoking a
  user's sessions removes all of that user. The operations on the table implement this map as long
  as row ids and token hashes are distinct.
\<close>

type_synonym sessions = "string \<rightharpoonup> string \<times> nat"

definition session_map :: "world \<Rightarrow> sessions" where
  "session_map w h = map_option (\<lambda>t. (rt_user t, rt_expiresAt t))
     (find (\<lambda>t. rt_tokenHash t = h \<and> rt_revokedAt t = None) (refresh_tokens w))"

definition sessions_inv :: "world \<Rightarrow> bool" where
  "sessions_inv w \<longleftrightarrow> distinct (map rt_id (refresh_tokens w)) \<and> distinct (map rt_tokenHash (refresh_tokens w))"

definition use_session :: "string \<Rightarrow> nat \<Rightarrow> sessions \<Rightarrow> string option \<times> sessions" where
  "use_session h now m = (case m h of
     None \<Rightarrow> (None, m)
   | Some (user, expiresAt) \<Rightarrow> if now < expiresAt then (Some user, m(h := None)) else (None, m))"

definition drop_user :: "string \<Rightarrow> sessions \<Rightarrow> sessions" where
  "drop_user user m = (\<lambda>h. case m h of None \<Rightarrow> None | Some (u, expiresAt) \<Rightarrow> if u = user then None else Some (u, expiresAt))"

lemma find_map_same:
  assumes "\<And>x. x \<in> set xs \<Longrightarrow> P (f x) \<longleftrightarrow> Q x"
  shows "find P (map f xs) = map_option f (find Q xs)"
  using assms by (induction xs) auto

lemma find_none: "(\<And>x. x \<in> set xs \<Longrightarrow> \<not> P x) \<Longrightarrow> find P xs = None"
  by (simp add: find_None_iff)

text \<open>Revoking the rows of a predicate removes the entries with such a row.\<close>

lemma find_revoked:
  assumes "\<And>t. t \<in> set ts \<Longrightarrow> rt_tokenHash t = h \<Longrightarrow> P t \<longleftrightarrow> S"
  shows "find (\<lambda>t. rt_tokenHash t = h \<and> rt_revokedAt t = None)
      (map (\<lambda>t. if P t \<and> rt_revokedAt t = None then t\<lparr>rt_revokedAt := Some now\<rparr> else t) ts)
    = (if S then None else find (\<lambda>t. rt_tokenHash t = h \<and> rt_revokedAt t = None) ts)"
  using assms by (induction ts) auto

lemma distinct_hash_same:
  "distinct (map f ts) \<Longrightarrow> s \<in> set ts \<Longrightarrow> t \<in> set ts \<Longrightarrow> f s = f t \<longleftrightarrow> s = t"
  by (auto simp: distinct_map inj_on_def)

lemma sessions_inv_revoke:
  "sessions_inv (w\<lparr>reads := n, refresh_tokens := map (\<lambda>t. if P t then t\<lparr>rt_revokedAt := v\<rparr> else t) (refresh_tokens w)\<rparr>) \<longleftrightarrow> sessions_inv w"
proof -
  have "f \<circ> (\<lambda>t. if P t then t\<lparr>rt_revokedAt := v\<rparr> else t) = f"
    if "\<And>t v. f (t\<lparr>rt_revokedAt := v\<rparr>) = f t" for f :: "refresh_token_row \<Rightarrow> string"
    using that by (auto simp: fun_eq_iff)
  from this [of rt_id] this [of rt_tokenHash] show ?thesis by (simp add: sessions_inv_def)
qed

lemma revoke_tokens_run:
  "revoke_tokens P w = (Inr (), w\<lparr>reads := Suc (reads w), refresh_tokens := map (\<lambda>t. if P t \<and> rt_revokedAt t = None
     then t\<lparr>rt_revokedAt := Some (clock (w_env w) (reads w))\<rparr> else t) (refresh_tokens w)\<rparr>)"
  by (simp add: revoke_tokens_def run_simps)

lemma revoke_hash_refined:
  "session_map (snd (revoke_tokens (\<lambda>t. rt_tokenHash t = h) w)) = (session_map w)(h := None)"
proof
  fix x
  show "session_map (snd (revoke_tokens (\<lambda>t. rt_tokenHash t = h) w)) x = ((session_map w)(h := None)) x"
    by (simp add: session_map_def revoke_tokens_run find_revoked [where P = "\<lambda>t. rt_tokenHash t = h" and h = x and S = "x = h"])
qed

lemma revoke_user_refined:
  assumes "sessions_inv w"
  shows "session_map (snd (revoke_tokens (\<lambda>t. rt_user t = user) w)) = drop_user user (session_map w)"
proof
  fix h
  show "session_map (snd (revoke_tokens (\<lambda>t. rt_user t = user) w)) h = drop_user user (session_map w) h"
  proof (cases "find (\<lambda>t. rt_tokenHash t = h \<and> rt_revokedAt t = None) (refresh_tokens w)")
    case None
    then have "find (\<lambda>t. rt_tokenHash t = h \<and> rt_revokedAt t = None) (refresh_tokens (snd (revoke_tokens (\<lambda>t. rt_user t = user) w))) = None"
      by (auto simp: revoke_tokens_run find_None_iff)
    with None show ?thesis by (simp add: session_map_def drop_user_def)
  next
    case (Some t)
    then have t: "rt_tokenHash t = h" "t \<in> set (refresh_tokens w)" by (auto dest: find_SomeD)
    have "rt_user s = user \<longleftrightarrow> rt_user t = user" if "s \<in> set (refresh_tokens w)" "rt_tokenHash s = h" for s
      using distinct_hash_same [of rt_tokenHash "refresh_tokens w" s t] assms that t by (auto simp: sessions_inv_def)
    then show ?thesis
      using Some by (simp add: session_map_def drop_user_def revoke_tokens_run find_revoked [where S = "rt_user t = user"])
  qed
qed

definition token_hash :: "world \<Rightarrow> string \<Rightarrow> string" where
  "token_hash w token = hmac_hex (w_env w) (jwtRefreshSecret (w_env w)) token"

lemma refresh_consume_refused:
  assumes "find (\<lambda>t. rt_tokenHash t = token_hash w token \<and> rt_revokedAt t = None \<and> clock (w_env w) (reads w) < rt_expiresAt t) (refresh_tokens w) = None"
  shows "refresh_consume token w = (Inl invalid_refresh_token, w\<lparr>reads := Suc (reads w)\<rparr>)"
  using assms by (simp add: refresh_consume_def hashActionToken_def token_hash_def transaction_def step_simps refresh_token_t_def)

lemma unique_match:
  "distinct (map f ts) \<Longrightarrow> t \<in> set ts \<Longrightarrow> P t \<Longrightarrow> filter (\<lambda>s. f s = f t \<and> P s) ts = [t]"
  by (induction ts) (auto simp: filter_empty_conv rev_image_eqI)

lemma refresh_consume_used:
  assumes "sessions_inv w" and found: "find (\<lambda>t. rt_tokenHash t = token_hash w token \<and> rt_revokedAt t = None
      \<and> clock (w_env w) (reads w) < rt_expiresAt t) (refresh_tokens w) = Some t"
  shows "refresh_consume token w = (Inr (t\<lparr>rt_revokedAt := Some (clock (w_env w) (reads w))\<rparr>),
    snd (revoke_tokens (\<lambda>s. rt_tokenHash s = token_hash w token) w))"
proof -
  have t: "t \<in> set (refresh_tokens w)" "rt_tokenHash t = token_hash w token" "rt_revokedAt t = None"
    using found by (auto dest: find_SomeD)
  have same: "rt_id s = rt_id t \<longleftrightarrow> rt_tokenHash s = token_hash w token" if "s \<in> set (refresh_tokens w)" for s
    using assms(1) that t distinct_hash_same [of rt_id "refresh_tokens w" s t] distinct_hash_same [of rt_tokenHash "refresh_tokens w" s t]
    by (simp add: sessions_inv_def)
  have "length (filter (\<lambda>s. rt_id s = rt_id t \<and> rt_revokedAt s = None) (refresh_tokens w)) = 1"
    using assms(1) t by (subst unique_match) (simp_all add: sessions_inv_def)
  then show ?thesis
    using found same
    by (simp add: refresh_consume_def hashActionToken_def token_hash_def transaction_def run_simps revoke_tokens_run)
qed

lemma session_expiry:
  assumes "sessions_inv w"
  shows "find (\<lambda>t. rt_tokenHash t = h \<and> rt_revokedAt t = None \<and> now < rt_expiresAt t) (refresh_tokens w)
    = (case find (\<lambda>t. rt_tokenHash t = h \<and> rt_revokedAt t = None) (refresh_tokens w) of
        None \<Rightarrow> None | Some t \<Rightarrow> if now < rt_expiresAt t then Some t else None)"
proof -
  have "distinct (map rt_tokenHash ts) \<Longrightarrow>
    find (\<lambda>t. rt_tokenHash t = h \<and> rt_revokedAt t = None \<and> now < rt_expiresAt t) ts
    = (case find (\<lambda>t. rt_tokenHash t = h \<and> rt_revokedAt t = None) ts of
        None \<Rightarrow> None | Some t \<Rightarrow> if now < rt_expiresAt t then Some t else None)" for ts
    by (induction ts) (auto simp: find_None_iff image_iff split: option.splits dest!: find_SomeD)
  from this [of "refresh_tokens w"] assms show ?thesis unfolding sessions_inv_def by blast
qed

lemma consume_refined:
  assumes "sessions_inv w"
  shows "(case fst (refresh_consume token w) of Inl _ \<Rightarrow> None | Inr t \<Rightarrow> Some (rt_user t), session_map (snd (refresh_consume token w)))
    = use_session (token_hash w token) (clock (w_env w) (reads w)) (session_map w)"
proof (cases "find (\<lambda>t. rt_tokenHash t = token_hash w token \<and> rt_revokedAt t = None \<and> clock (w_env w) (reads w) < rt_expiresAt t) (refresh_tokens w)")
  case None
  have "session_map (w\<lparr>reads := Suc (reads w)\<rparr>) = session_map w" by (simp add: session_map_def fun_eq_iff)
  then show ?thesis
    using None session_expiry [OF assms, of "token_hash w token" "clock (w_env w) (reads w)"]
    by (auto simp: refresh_consume_refused [OF None] use_session_def session_map_def split: option.splits if_splits)
next
  case (Some t)
  then show ?thesis
    using session_expiry [OF assms, of "token_hash w token" "clock (w_env w) (reads w)"]
    by (auto simp: refresh_consume_used [OF assms Some] revoke_hash_refined use_session_def session_map_def split: option.splits if_splits)
qed

lemma refresh_issue_run:
  "refresh_issue user org w = (let token = base64url (w_env w) (random_bytes (w_env w) (ids w)) in
    (Inr token, w\<lparr>ids := Suc (Suc (ids w)), reads := Suc (Suc (reads w)), refresh_tokens := refresh_tokens w @
      [\<lparr>rt_id = uuid (w_env w) (Suc (ids w)), rt_org = org, rt_user = user, rt_tokenHash = token_hash w token,
        rt_expiresAt = clock (w_env w) (reads w) + refresh_ttl_seconds * 1000, rt_revokedAt = None,
        rt_createdAt = clock (w_env w) (Suc (reads w))\<rparr>]\<rparr>))"
  by (simp add: refresh_issue_def randomToken_def hashActionToken_def token_hash_def run_simps Let_def)

text \<open>C17. The refresh tokens implement a map of sessions: issuing a token adds its entry for thirty
days, presenting one returns its user and removes it when it is there and not yet over and changes
nothing otherwise, signing out removes the entry of that token alone, and revoking a user's
sessions removes exactly that user's. Each operation keeps row ids and token hashes distinct.\<close>

theorem sessions_refined:
  assumes "sessions_inv w"
    and "uuid (w_env w) (Suc (ids w)) \<notin> rt_id ` set (refresh_tokens w)"
    and "token_hash w (base64url (w_env w) (random_bytes (w_env w) (ids w))) \<notin> rt_tokenHash ` set (refresh_tokens w)"
  shows "(case refresh_issue user org w of
        (Inr issued, w') \<Rightarrow> sessions_inv w' \<and> session_map w' = (session_map w)(token_hash w issued \<mapsto> (user, clock (w_env w) (reads w) + 30 * 24 * 60 * 60 * 1000))
      | (Inl _, _) \<Rightarrow> False)
    \<and> (case refresh_consume token w of (r, w') \<Rightarrow> sessions_inv w'
        \<and> (case r of Inl _ \<Rightarrow> None | Inr t \<Rightarrow> Some (rt_user t), session_map w') = use_session (token_hash w token) (clock (w_env w) (reads w)) (session_map w))
    \<and> (case refresh_revoke token w of (_, w') \<Rightarrow> sessions_inv w' \<and> session_map w' = (session_map w)(token_hash w token := None))
    \<and> (case refresh_revokeAllForUser user w of (_, w') \<Rightarrow> sessions_inv w' \<and> session_map w' = drop_user user (session_map w))"
proof (intro conjI)
  let ?token = "base64url (w_env w) (random_bytes (w_env w) (ids w))"
  have inv: "sessions_inv (snd (revoke_tokens P w))" for P
    using assms(1) by (simp add: revoke_tokens_run sessions_inv_revoke)
  have none: "find (\<lambda>t. rt_tokenHash t = token_hash w ?token \<and> rt_revokedAt t = None) (refresh_tokens w) = None"
    using assms(3) by (auto simp: find_None_iff image_iff)
  show "case refresh_issue user org w of
        (Inr issued, w') \<Rightarrow> sessions_inv w' \<and> session_map w' = (session_map w)(token_hash w issued \<mapsto> (user, clock (w_env w) (reads w) + 30 * 24 * 60 * 60 * 1000))
      | (Inl _, _) \<Rightarrow> False"
    using assms none
    by (auto simp: refresh_issue_run Let_def sessions_inv_def session_map_def fun_eq_iff find_append refresh_ttl_seconds_def split: option.splits)
  show "case refresh_consume token w of (r, w') \<Rightarrow> sessions_inv w'
        \<and> (case r of Inl _ \<Rightarrow> None | Inr t \<Rightarrow> Some (rt_user t), session_map w') = use_session (token_hash w token) (clock (w_env w) (reads w)) (session_map w)"
  proof -
    have "sessions_inv (snd (refresh_consume token w))"
      using assms(1) refresh_consume_used [OF assms(1)] refresh_consume_refused [of w token] inv
      by (cases "find (\<lambda>t. rt_tokenHash t = token_hash w token \<and> rt_revokedAt t = None \<and> clock (w_env w) (reads w) < rt_expiresAt t) (refresh_tokens w)")
         (auto simp: sessions_inv_def)
    then show ?thesis
      using consume_refined [OF assms(1), of token] by (simp add: case_prod_beta)
  qed
  have revoke: "refresh_revoke token w = revoke_tokens (\<lambda>t. rt_tokenHash t = token_hash w token) w"
    by (simp add: refresh_revoke_def hashActionToken_def step_simps token_hash_def)
  show "case refresh_revoke token w of (_, w') \<Rightarrow> sessions_inv w' \<and> session_map w' = (session_map w)(token_hash w token := None)"
    by (simp add: revoke case_prod_beta inv revoke_hash_refined)
  show "case refresh_revokeAllForUser user w of (_, w') \<Rightarrow> sessions_inv w' \<and> session_map w' = drop_user user (session_map w)"
    by (simp add: refresh_revokeAllForUser_def case_prod_beta inv revoke_user_refined [OF assms(1)])
qed

theorem sessions_refined_witness:
  "session_map (snd (refresh_revoke ''x'' (empty_world demo_env))) = (session_map (empty_world demo_env))(token_hash (empty_world demo_env) ''x'' := None)"
  using sessions_refined [of "empty_world demo_env" "''u''" "''o''" "''x''"]
  by (simp add: sessions_inv_def empty_world_def case_prod_beta)

subsection \<open>Reading a token back\<close>

text \<open>What the platform's encodings promise for one text: it can be read back and is no empty text,
and neither it nor a signature contains a dot.\<close>

definition reads_back :: "env \<Rightarrow> json \<Rightarrow> bool" where
  "reads_back e j \<longleftrightarrow> parse_json e (utf8_text e (base64url_text e (json_url e j))) = Some j
     \<and> json_url e j \<noteq> [] \<and> CHR ''.'' \<notin> set (json_url e j)"

definition signs :: "env \<Rightarrow> string \<Rightarrow> bool" where
  "signs e v \<longleftrightarrow> sign_access e v \<noteq> [] \<and> CHR ''.'' \<notin> set (sign_access e v)"

definition token_ok :: "env \<Rightarrow> (string \<times> json) list \<Rightarrow> bool" where
  "token_ok e payload \<longleftrightarrow> reads_back e access_header \<and> reads_back e (JObj payload)
     \<and> signs e (json_url e access_header @ ''.'' @ json_url e (JObj payload))"

lemma epoch_seconds_run: "epoch_seconds w = (Inr (clock (w_env w) (reads w) div 1000), w\<lparr>reads := Suc (reads w)\<rparr>)"
  by (simp add: epoch_seconds_def run_simps)

lemma split_signed:
  assumes "token_ok e payload"
  shows "split_on (CHR ''.'') (sign_token e payload) = [json_url e access_header, json_url e (JObj payload),
    sign_access e (json_url e access_header @ ''.'' @ json_url e (JObj payload))]"
proof -
  have "split_on (CHR ''.'') (a @ ''.'' @ b @ ''.'' @ c) = [a, b, c]"
    if "CHR ''.'' \<notin> set a" "CHR ''.'' \<notin> set b" "CHR ''.'' \<notin> set c" for a b c
    using that by (simp add: split_on_append split_on_absent)
  then show ?thesis
    using assms by (simp add: sign_token_def Let_def token_ok_def reads_back_def signs_def)
qed

lemma parse_part_reads:
  assumes "reads_back (w_env w) (JObj fs)"
  shows "parse_part (json_url (w_env w) (JObj fs)) w = (Inr fs, w)"
  using assms by (simp add: parse_part_def reads_back_def step_simps as_object_def)

definition revoked_at :: "world \<Rightarrow> nat \<Rightarrow> string \<Rightarrow> bool" where
  "revoked_at w now jti \<longleftrightarrow> (\<exists>t. (jti, t) \<in> set (revoked_jtis w) \<and> now < t)"

lemma deleteExpired_run:
  "deleteExpiredRevocations w = (Inr (), w\<lparr>reads := Suc (reads w),
    revoked_jtis := filter (\<lambda>(j, t). clock (w_env w) (reads w) div 1000 < t) (revoked_jtis w)\<rparr>)"
  by (simp add: deleteExpiredRevocations_def epoch_seconds_def run_simps)

lemma payload_facts:
  "payload_text (access_payload user n jti) ''typ'' = Some ''access''"
  "payload_text (access_payload user n jti) ''iss'' = Some issuer"
  "payload_text (access_payload user n jti) ''aud'' = Some audience"
  "payload_text (access_payload user n jti) ''userId'' = Some (us_id user)"
  "payload_text (access_payload user n jti) ''organizationId'' = Some (us_org user)"
  "jti_of e (access_payload user n jti) = jti"
  "claim_exp (access_payload user n jti) = n + access_ttl_seconds"
  "expired e (access_payload user n jti) now \<longleftrightarrow> n + access_ttl_seconds \<le> now"
  by (simp_all add: access_payload_def payload_text_def jti_of_def claim_exp_def expired_def js_number_def del: of_nat_add)

lemma verify_signed:
  assumes "token_ok (w_env v) (access_payload user n jti)"
  defines "e \<equiv> w_env v"
  shows "verifyAccessToken (sign_token e (access_payload user n jti)) v =
    (if clock e (reads v) div 1000 < n + access_ttl_seconds
     then (if revoked_at v (clock e (Suc (reads v)) div 1000) jti then Inl authentication_required else Inr (access_payload user n jti),
       snd (deleteExpiredRevocations (v\<lparr>reads := Suc (reads v)\<rparr>)))
     else (Inl authentication_required, v\<lparr>reads := Suc (reads v)\<rparr>))"
proof -
  let ?p = "access_payload user n jti"
  have ok: "reads_back e access_header" "reads_back e (JObj ?p)" "json_url e access_header \<noteq> []" "json_url e (JObj ?p) \<noteq> []"
      "sign_access e (json_url e access_header @ ''.'' @ json_url e (JObj ?p)) \<noteq> []"
    using assms by (auto simp: token_ok_def reads_back_def signs_def)
  have header: "parse_part (json_url e access_header) v = (Inr [(''alg'', JStr ''HS256''), (''typ'', JStr ''JWT'')], v)"
    using parse_part_reads [of v] ok(1) by (simp add: e_def access_header_def)
  note payload = parse_part_reads [of v ?p, folded e_def, OF ok(2)]
  have facts: "payload_text [(''alg'', JStr ''HS256''), (''typ'', JStr ''JWT'')] ''alg'' = Some ''HS256''"
    "payload_text [(''alg'', JStr ''HS256''), (''typ'', JStr ''JWT'')] ''typ'' = Some ''JWT''"
    by (simp_all add: payload_text_def)
  have revoked: "list_ex (\<lambda>(j, _). j = jti) (filter (\<lambda>(j, t). now < t) (revoked_jtis v)) \<longleftrightarrow> revoked_at v now jti" for now
    by (auto simp: list_ex_iff revoked_at_def)
  show ?thesis
    unfolding verifyAccessToken_def split_signed [OF assms(1), folded e_def] Let_def
    using ok(3-) header payload
    by (simp add: bnd_Inr [of "parse_part s" for s, OF header] bnd_Inr [of "parse_part s" for s, OF payload]
        bnd_Inr [of epoch_seconds, OF epoch_seconds_run] bnd_Inr [of deleteExpiredRevocations, OF deleteExpired_run]
        deleteExpired_run step_simps facts payload_facts e_def [symmetric] revoked)
qed

text \<open>An access token that was issued is accepted, and read back as what was signed, for fifteen
minutes from its issue unless it was revoked; otherwise it is refused as unauthenticated.\<close>

theorem access_token_roundtrip:
  assumes "signAccessToken user w = (Inr token, w')" and "w_env v = w_env w"
    and "token_ok (w_env w) (access_payload user (clock (w_env w) (reads w) div 1000) (uuid (w_env w) (ids w)))"
  shows "fst (verifyAccessToken token v) =
    (if clock (w_env v) (reads v) div 1000 < clock (w_env w) (reads w) div 1000 + 15 * 60
        \<and> \<not> revoked_at v (clock (w_env v) (Suc (reads v)) div 1000) (uuid (w_env w) (ids w))
     then Inr (access_payload user (clock (w_env w) (reads w) div 1000) (uuid (w_env w) (ids w)))
     else Inl authentication_required)"
proof -
  have "token = sign_token (w_env v) (access_payload user (clock (w_env w) (reads w) div 1000) (uuid (w_env w) (ids w)))"
    using assms(1,2) by (simp add: signAccessToken_def bnd_Inr [of epoch_seconds, OF epoch_seconds_run] step_simps)
  then show ?thesis
    using verify_signed [of v user] assms(2,3) by (auto simp: access_ttl_seconds_def)
qed

definition token_env :: "(string \<times> json) list \<Rightarrow> env" where
  "token_env payload = demo_env\<lparr>hmac_url := \<lambda>_ _. ''s'',
     parse_json := \<lambda>s. if s = json_text (\<lambda>_. ''0'') access_header then Some access_header
       else if s = json_text (\<lambda>_. ''0'') (JObj payload) then Some (JObj payload) else None\<rparr>"

definition demo_member :: user_row where
  "demo_member = \<lparr>us_id = ''u'', us_org = ''o'', us_email = ''e'', us_name = ''n'', us_role = Role_Owner,
     us_passwordHash = ''pw'', us_status = User_Active, us_createdAt = 0, us_updatedAt = 0,
     us_lastLoginAt = None, us_disabledAt = None, us_emailVerifiedAt = None, us_emailVerificationToken = None,
     us_emailVerificationSentAt = None, us_passwordResetToken = None, us_passwordResetExpiresAt = None,
     us_mfaSecret = None, us_mfaEnabled = False, us_mfaBackupCodes = JNull\<rparr>"

definition demo_payload :: "(string \<times> json) list" where
  "demo_payload = access_payload demo_member 0 ''b''"

lemma owner_value: "prisma_enum (user_role_value Role_Owner) = ''OWNER''"
  by code_simp

lemma demo_token_ok: "token_ok (token_env demo_payload) demo_payload"
  by (simp add: owner_value token_ok_def reads_back_def signs_def token_env_def demo_env_def json_url_def sign_access_def access_header_def
      demo_payload_def access_payload_def demo_member_def json_string_def esc_char_def quote_def issuer_def audience_def
      del: user_role_value.simps)

definition token_world :: world where
  "token_world = empty_world (token_env demo_payload)"

lemma token_world_facts:
  "w_env token_world = token_env demo_payload" "reads token_world = 0" "ids token_world = 0" "revoked_jtis token_world = []"
  "clock (token_env demo_payload) n = n" "uuid (token_env demo_payload) 0 = ''b''"
  by (simp_all add: token_world_def empty_world_def token_env_def demo_env_def)

theorem access_token_roundtrip_witness:
  "fst (verifyAccessToken (sign_token (token_env demo_payload) demo_payload) token_world) = Inr demo_payload"
proof -
  obtain w' where run: "signAccessToken demo_member token_world = (Inr (sign_token (token_env demo_payload) demo_payload), w')"
    by (simp add: signAccessToken_def bnd_Inr [of epoch_seconds, OF epoch_seconds_run] step_simps token_world_facts demo_payload_def [symmetric])
  show ?thesis
    using access_token_roundtrip [OF run, of token_world] demo_token_ok
    by (simp add: token_world_facts revoked_at_def demo_payload_def [symmetric])
qed

lemma map_set_entry: "(k, v) \<in> set (map_set m k v)"
proof (cases "map_of m k")
  case (Some v')
  then have "(k, v') \<in> set m" by (rule map_of_SomeD)
  then have "(k, v) \<in> (\<lambda>(k', v'). if k' = k then (k, v) else (k', v')) ` set m" by force
  with Some show ?thesis by (simp add: map_set_def)
qed (simp add: map_set_def)

text \<open>An access token revoked at logout is refused from then on: until its end it stays in the
list of revoked tokens, and from its end on it is refused as expired. Only when its last second
ends between the two readings of the clock of one verification can it pass.\<close>

theorem revoked_token_refused:
  assumes "token_ok (w_env v) (access_payload user n jti)" and "mono (clock (w_env v))"
    and "revokeAccessToken (sign_token (w_env v) (access_payload user n jti)) v = (Inr (), v')"
    and "w_env u = w_env v" and "revoked_jtis u = revoked_jtis v'" and "reads v' \<le> reads u"
    and "clock (w_env u) (Suc (reads u)) div 1000 < n + 15 * 60 \<or> n + 15 * 60 \<le> clock (w_env u) (reads u) div 1000"
  shows "fst (verifyAccessToken (sign_token (w_env v) (access_payload user n jti)) u) = Inl authentication_required"
proof (cases "n + 15 * 60 \<le> clock (w_env u) (reads u) div 1000")
  case True
  then show ?thesis using verify_signed [of u user n jti] assms(1,4) by (simp add: access_ttl_seconds_def)
next
  case False
  let ?e = "w_env v" and ?p = "access_payload user n jti"
  from assms(3) obtain p s where run: "verifyAccessToken (sign_token ?e ?p) v = (Inr p, s)"
    and rest: "v' = snd (deleteExpiredRevocations (s\<lparr>revoked_jtis := map_set (revoked_jtis s) (jti_of (w_env s) p) (claim_exp p)\<rparr>))"
    unfolding revokeAccessToken_def by (auto elim!: bnd_InrE simp: modify_def)
  have p: "p = ?p" "w_env s = ?e"
    using run verify_signed [OF assms(1)] by (auto simp: deleteExpired_run split: if_splits)
  have v': "(jti, n + access_ttl_seconds) \<in> set (revoked_jtis v')
      \<longleftrightarrow> clock ?e (reads s) div 1000 < n + access_ttl_seconds" "reads v' = Suc (reads s)"
    using map_set_entry [of jti "n + access_ttl_seconds" "revoked_jtis s"] by (auto simp: rest p deleteExpired_run payload_facts)
  have now: "clock ?e (Suc (reads u)) div 1000 < n + access_ttl_seconds"
    using assms(4,7) False by (simp add: access_ttl_seconds_def)
  moreover have "clock ?e (reads s) div 1000 \<le> clock ?e (Suc (reads u)) div 1000"
    using assms(2,6) v'(2) by (intro div_le_mono monoD [OF assms(2)]) simp
  ultimately have "revoked_at u (clock ?e (Suc (reads u)) div 1000) jti"
    using v'(1) assms(5) by (auto simp: revoked_at_def)
  then show ?thesis using verify_signed [of u user n jti] assms(1,4) by simp
qed

theorem revoked_token_refused_witness:
  "fst (verifyAccessToken (sign_token (token_env demo_payload) demo_payload)
     (snd (revokeAccessToken (sign_token (token_env demo_payload) demo_payload) token_world))) = Inl authentication_required"
proof -
  let ?t = "sign_token (w_env token_world) (access_payload demo_member 0 ''b'')"
  have ok: "token_ok (w_env token_world) (access_payload demo_member 0 ''b'')"
    using demo_token_ok by (simp add: token_world_facts demo_payload_def [symmetric])
  have run: "revokeAccessToken ?t token_world = (Inr (), snd (revokeAccessToken ?t token_world))"
    and w': "w_env (snd (revokeAccessToken ?t token_world)) = token_env demo_payload" "reads (snd (revokeAccessToken ?t token_world)) = 3"
    using verify_signed [OF ok]
    by (simp_all add: revokeAccessToken_def bnd_def run_simps deleteExpired_run token_world_facts revoked_at_def access_ttl_seconds_def)
  show ?thesis
    using revoked_token_refused [OF ok _ run, of "snd (revokeAccessToken ?t token_world)"] w'
    by (simp add: token_world_facts mono_def demo_payload_def [symmetric])
qed

end
