(* ===== verification/Auth.thy ===== *)
theory Auth
  imports Sessions
begin

section \<open>Signing in\<close>

text \<open>
  \<open>apps/api/src/auth\<close>: registration, login with a second factor, refresh and logout, password
  reset and address verification (\<open>auth.service.ts\<close>), enrolling and disabling the second factor
  (\<open>mfa.service.ts\<close>) and step-up (\<open>step-up.service.ts\<close>); and \<open>apps/api/src/authorization\<close>, the
  guards every request of the dashboard passes.
\<close>

subsection \<open>Users\<close>

definition find_user :: "string \<Rightarrow> user_row option action" where
  "find_user k = find_first user_t (\<lambda>u. us_id u = k)"

definition find_user_by_email :: "string \<Rightarrow> user_row option action" where
  "find_user_by_email email = find_first user_t (\<lambda>u. us_email u = email)"

definition update_user :: "string \<Rightarrow> (user_row \<Rightarrow> user_row) \<Rightarrow> user_row action" where
  "update_user k f = bnd new_date (\<lambda>now. update_row user_t record_not_found k (\<lambda>u. (f u)\<lparr>us_updatedAt := now\<rparr>))"

text \<open>The user named by a token; a payload without one makes the client refuse the query.\<close>

definition payload_user :: "(string \<times> json) list \<Rightarrow> user_row option action" where
  "payload_user payload =
    bnd (require_some (payload_text payload ''userId'') (PrismaError ''Argument where: invalid value.'')) (\<lambda>k. find_user k)"

definition organization_of :: "user_row \<Rightarrow> organization_row action" where
  "organization_of user =
    bnd (find_first organization_t (\<lambda>g. or_id g = us_org user)) (\<lambda>found. require_some found (missing_relation ''organization''))"

text \<open>A user found with its organization.\<close>

definition with_organization :: "user_row option \<Rightarrow> unit action" where
  "with_organization found = (case found of None \<Rightarrow> ret () | Some user \<Rightarrow> bnd (organization_of user) (\<lambda>_. ret ()))"

definition prisma_role :: "user_row \<Rightarrow> string" where
  "prisma_role user = prisma_enum (user_role_value (us_role user))"

definition toAuthUser :: "env \<Rightarrow> user_row \<Rightarrow> organization_row \<Rightarrow> json" where
  "toAuthUser e user organization = JObj
    [(''id'', JStr (us_id user)), (''organizationId'', JStr (us_org user)),
     (''organizationName'', JStr (or_name organization)), (''organizationDomain'', JStr (or_domain organization)),
     (''email'', JStr (us_email user)), (''name'', JStr (us_name user)), (''role'', JStr (prisma_role user)),
     (''status'', JStr (prisma_enum (user_status_value (us_status user)))),
     (''emailVerifiedAt'', iso_opt e (us_emailVerifiedAt user)), (''mfaEnabled'', JBool (us_mfaEnabled user)),
     (''mfaRequired'', JBool (List.member (mfaRequiredRoles e) (prisma_role user) \<and> \<not> us_mfaEnabled user))]"

subsection \<open>Messages\<close>

definition auth_escapeHtml :: "string \<Rightarrow> string" where
  "auth_escapeHtml s = concat (map (\<lambda>c. if c = CHR ''&'' then ''&amp;'' else if c = CHR ''<'' then ''&lt;''
     else if c = CHR ''>'' then ''&gt;'' else if c = CHR 0x22 then ''&quot;'' else [c]) s)"

definition sendBestEffortEmail :: "(env \<Rightarrow> email_message) \<Rightarrow> unit action" where
  "sendBestEffortEmail message =
    bnd (gets (\<lambda>w. message (w_env w))) (\<lambda>m.
    try_catch (bnd (send_email m) (\<lambda>_. ret ())) (\<lambda>_. ret ()))"

definition sendVerificationEmail :: "string \<Rightarrow> string \<Rightarrow> string \<Rightarrow> unit action" where
  "sendVerificationEmail email name token = sendBestEffortEmail (\<lambda>e.
    let url = dashboardBaseUrl e @ ''/verify-email?token='' @ encode_uri e token in
    \<lparr>em_from = mailFrom e, em_to = [(Some name, email)], em_subject = ''Verify your AegisWeb email'',
     em_text = ''Verify your AegisWeb email by opening this link: '' @ url,
     em_html = ''<p>Verify your AegisWeb email by opening this link:</p><p><a href=\"'' @ auth_escapeHtml url
       @ ''\">Verify email</a></p>''\<rparr>)"

definition sendPasswordResetEmail :: "string \<Rightarrow> string \<Rightarrow> string \<Rightarrow> unit action" where
  "sendPasswordResetEmail email name token = sendBestEffortEmail (\<lambda>e.
    let url = dashboardBaseUrl e @ ''/reset-password?token='' @ encode_uri e token in
    \<lparr>em_from = mailFrom e, em_to = [(Some name, email)], em_subject = ''Reset your AegisWeb password'',
     em_text = ''Reset your AegisWeb password within 30 minutes: '' @ url,
     em_html = ''<p>Reset your AegisWeb password within 30 minutes:</p><p><a href=\"'' @ auth_escapeHtml url
       @ ''\">Reset password</a></p>''\<rparr>)"

subsection \<open>Results\<close>

record auth_result =
  ares_accessToken :: string
  ares_user :: json
  ares_refreshToken :: string

datatype login_result =
    Signed_In auth_result
  | Mfa_Required string

definition createAuthResult :: "user_row \<Rightarrow> auth_result action" where
  "createAuthResult user =
    bnd (signAccessToken user) (\<lambda>accessToken.
    bnd (refresh_issue (us_id user) (us_org user)) (\<lambda>refreshToken.
    bnd (organization_of user) (\<lambda>organization.
    gets (\<lambda>w. \<lparr>ares_accessToken = accessToken, ares_user = toAuthUser (w_env w) user organization,
      ares_refreshToken = refreshToken\<rparr>))))"

definition user_event :: "string \<Rightarrow> string \<Rightarrow> audit_event_type \<Rightarrow> (string \<times> json) list \<Rightarrow> audit_input" where
  "user_event org userId eventType data = \<lparr>ai_org = org, ai_run = None, ai_agent = None, ai_actorType = Actor_User,
     ai_actorId = Some userId, ai_eventType = eventType, ai_data = JObj data\<rparr>"

definition recordLoginSuccess :: "user_row \<Rightarrow> unit action" where
  "recordLoginSuccess user =
    bnd new_date (\<lambda>now.
    bnd (update_user (us_id user) (\<lambda>u. u\<lparr>us_lastLoginAt := Some now\<rparr>)) (\<lambda>_.
    session_record (user_event (us_org user) (us_id user) Ev_UserLoginSucceeded [(''email'', JStr (us_email user))])))"

subsection \<open>Registration\<close>

record register_input =
  rg_email :: string
  rg_name :: string
  rg_password :: string
  rg_organizationName :: string
  rg_organizationDomain :: string

definition registration_failed :: err where
  "registration_failed = DomainError ValidationFailed ''Registration failed.''"

definition new_user :: "string \<Rightarrow> string \<Rightarrow> string \<Rightarrow> string \<Rightarrow> user_role \<Rightarrow> user_status \<Rightarrow> string \<Rightarrow> nat \<Rightarrow> user_row" where
  "new_user k org email name role status passwordHash now = \<lparr>us_id = k, us_org = org, us_email = email, us_name = name,
     us_role = role, us_passwordHash = passwordHash, us_status = status, us_createdAt = now, us_updatedAt = now,
     us_lastLoginAt = None, us_disabledAt = None, us_emailVerifiedAt = None, us_emailVerificationToken = None,
     us_emailVerificationSentAt = None, us_passwordResetToken = None, us_passwordResetExpiresAt = None,
     us_mfaSecret = None, us_mfaEnabled = False, us_mfaBackupCodes = JNull\<rparr>"

definition register :: "register_input \<Rightarrow> auth_result action" where
  "register dto =
    bnd (hashPassword (rg_password dto)) (\<lambda>passwordHash.
    bnd randomToken (\<lambda>verificationToken.
    bnd (transaction
      (bnd (find_first organization_t (\<lambda>g. or_domain g = rg_organizationDomain dto)) (\<lambda>organizationExists.
       bnd (require (organizationExists = None) registration_failed) (\<lambda>_.
       bnd (find_user_by_email (rg_email dto)) (\<lambda>emailExists.
       bnd (require (emailExists = None) registration_failed) (\<lambda>_.
       bnd fresh_id (\<lambda>org_id. bnd new_date (\<lambda>t.
       bnd (create_row organization_t \<lparr>or_id = org_id, or_name = rg_organizationName dto, or_domain = rg_organizationDomain dto,
         or_plan = ''local'', or_billingEmail = None, or_stripeCustomer = None, or_stripeSubscription = None,
         or_stripeStatus = None, or_stripePrice = None, or_createdAt = t, or_updatedAt = t\<rparr>) (\<lambda>organization.
       bnd (hashActionToken verificationToken) (\<lambda>tokenHash.
       bnd new_date (\<lambda>sentAt.
       bnd fresh_id (\<lambda>user_id. bnd new_date (\<lambda>now.
       create_row user_t ((new_user user_id (or_id organization) (rg_email dto) (rg_name dto) Role_Owner User_Active passwordHash now)
         \<lparr>us_emailVerificationToken := Some tokenHash, us_emailVerificationSentAt := Some sentAt\<rparr>)))))))))))))) (\<lambda>user.
    bnd (session_record (user_event (us_org user) (us_id user) Ev_UserRegistered
      [(''email'', JStr (us_email user)), (''role'', JStr (prisma_role user))])) (\<lambda>_.
    bnd (sendVerificationEmail (us_email user) (us_name user) verificationToken) (\<lambda>_.
    createAuthResult user)))))"

subsection \<open>Passwords and addresses\<close>

definition forgotPassword :: "string \<Rightarrow> unit action" where
  "forgotPassword email =
    bnd (find_user_by_email email) (\<lambda>found.
    if map_option (\<lambda>u. us_status u \<noteq> User_Disabled) found \<noteq> Some True
    then bnd (verifyPasswordForMissingUser ''forgot-password-normalizer'') (\<lambda>_. ret ())
    else
      bnd (ret (the found)) (\<lambda>user.
      bnd randomToken (\<lambda>token.
      bnd (hashActionToken token) (\<lambda>tokenHash.
      bnd new_date (\<lambda>now.
      bnd (update_user (us_id user) (\<lambda>u. u\<lparr>us_passwordResetToken := Some tokenHash,
        us_passwordResetExpiresAt := Some (now + 30 * 60 * 1000)\<rparr>)) (\<lambda>_.
      sendPasswordResetEmail (us_email user) (us_name user) token))))))"

definition resetPassword :: "string \<Rightarrow> string \<Rightarrow> unit action" where
  "resetPassword token password =
    bnd new_date (\<lambda>now.
    bnd (hashActionToken token) (\<lambda>tokenHash.
    bnd (find_first user_t (\<lambda>u. us_passwordResetToken u = Some tokenHash
      \<and> (case us_passwordResetExpiresAt u of None \<Rightarrow> False | Some t \<Rightarrow> now < t) \<and> us_status u \<noteq> User_Disabled)) (\<lambda>found.
    bnd (require_some found (DomainError PermissionDenied ''Password reset link is invalid or expired.'')) (\<lambda>user.
    bnd (hashPassword password) (\<lambda>passwordHash.
    bnd (update_user (us_id user) (\<lambda>u. u\<lparr>us_passwordHash := passwordHash, us_status := User_Active,
      us_emailVerifiedAt := Some (coalesce (us_emailVerifiedAt user) now),
      us_passwordResetToken := None, us_passwordResetExpiresAt := None\<rparr>)) (\<lambda>_.
    refresh_revokeAllForUser (us_id user)))))))"

definition verifyEmail :: "string \<Rightarrow> unit action" where
  "verifyEmail token =
    bnd (hashActionToken token) (\<lambda>tokenHash.
    bnd (find_first user_t (\<lambda>u. us_emailVerificationToken u = Some tokenHash \<and> us_status u \<noteq> User_Disabled)) (\<lambda>found.
    bnd (require_some found (DomainError PermissionDenied ''Email verification link is invalid or expired.'')) (\<lambda>user.
    bnd (case us_emailVerifiedAt user of Some t \<Rightarrow> ret t | None \<Rightarrow> new_date) (\<lambda>verifiedAt.
    bnd (update_user (us_id user) (\<lambda>u. u\<lparr>us_emailVerifiedAt := Some verifiedAt, us_emailVerificationToken := None,
      us_emailVerificationSentAt := None\<rparr>)) (\<lambda>_. ret ())))))"

definition requirePayload :: "string option \<Rightarrow> (string \<times> json) list action" where
  "requirePayload accessToken =
    bnd (require (truthy accessToken) authentication_required) (\<lambda>_. verifyAccessToken (the accessToken))"

definition resendVerification :: "string option \<Rightarrow> unit action" where
  "resendVerification accessToken =
    bnd (requirePayload accessToken) (\<lambda>payload.
    bnd (payload_user payload) (\<lambda>found.
    bnd (require (map_option us_status found = Some User_Active) authentication_required) (\<lambda>_.
    bnd (ret (the found)) (\<lambda>user.
    if us_emailVerifiedAt user \<noteq> None then ret ()
    else
      bnd (case us_emailVerificationSentAt user of
          None \<Rightarrow> ret ()
        | Some t \<Rightarrow> bnd new_date (\<lambda>now. require (\<not> int now - int t < 60 * 1000)
            (DomainError ValidationFailed ''Verification email was sent recently. Try again shortly.''))) (\<lambda>_.
      bnd randomToken (\<lambda>token.
      bnd (hashActionToken token) (\<lambda>tokenHash.
      bnd new_date (\<lambda>sentAt.
      bnd (update_user (us_id user) (\<lambda>u. u\<lparr>us_emailVerificationToken := Some tokenHash,
        us_emailVerificationSentAt := Some sentAt\<rparr>)) (\<lambda>_.
      sendVerificationEmail (us_email user) (us_name user) token)))))))))"

subsection \<open>The second factor\<close>

definition remove_spaces :: "string \<Rightarrow> string" where
  "remove_spaces code = filter (\<lambda>c. c \<noteq> CHR '' '') code"

definition verifyTotp :: "string \<Rightarrow> string \<Rightarrow> bool action" where
  "verifyTotp secret code = bnd new_date (\<lambda>now. gets (\<lambda>w. totp_valid (w_env w) now secret (remove_spaces code)))"

definition invalid_code :: err where
  "invalid_code = DomainError PermissionDenied ''Invalid multi-factor code.''"

definition mfa_requireUser :: "context_user option \<Rightarrow> user_row action" where
  "mfa_requireUser currentUser =
    bnd (require_some currentUser authentication_required) (\<lambda>cu.
    bnd (find_user (cu_id cu)) (\<lambda>found. require_some found authentication_required))"

record mfa_enrollment =
  me_secret :: string
  me_otpauthUrl :: string
  me_qrCode :: string

definition mfa_enroll :: "context_user option \<Rightarrow> mfa_enrollment action" where
  "mfa_enroll currentUser =
    bnd (mfa_requireUser currentUser) (\<lambda>user.
    bnd (\<lambda>w. (Inr (otp_secret (w_env w) (ids w)), w\<lparr>ids := Suc (ids w)\<rparr>)) (\<lambda>secret.
    bnd (update_user (us_id user) (\<lambda>u. u\<lparr>us_mfaSecret := Some secret, us_mfaEnabled := False, us_mfaBackupCodes := JNull\<rparr>)) (\<lambda>_.
    gets (\<lambda>w. \<lparr>me_secret = secret, me_otpauthUrl = otpauth_uri (w_env w) (us_email user) secret,
      me_qrCode = qr_code (w_env w) (otpauth_uri (w_env w) (us_email user) secret)\<rparr>))))"

text \<open>Eight codes of five random bytes each, in hexadecimal.\<close>

definition backup_code :: "string action" where
  "backup_code = (\<lambda>w. (Inr (to_upper (hex_text (w_env w) (random_bytes (w_env w) (ids w)))), w\<lparr>ids := Suc (ids w)\<rparr>))"

fun collect :: "'a action list \<Rightarrow> 'a list action" where
  "collect [] = ret []"
| "collect (m # ms) = bnd m (\<lambda>x. bnd (collect ms) (\<lambda>xs. ret (x # xs)))"

definition generateBackupCodes :: "string list action" where
  "generateBackupCodes = collect (replicate 8 backup_code)"

definition mfa_verifyEnrollment :: "context_user option \<Rightarrow> string \<Rightarrow> string list action" where
  "mfa_verifyEnrollment currentUser code =
    bnd (mfa_requireUser currentUser) (\<lambda>user.
    bnd (require (truthy (us_mfaSecret user)) invalid_code) (\<lambda>_.
    bnd (verifyTotp (the (us_mfaSecret user)) code) (\<lambda>valid.
    bnd (require valid invalid_code) (\<lambda>_.
    bnd generateBackupCodes (\<lambda>backupCodes.
    bnd (collect (map hashPassword backupCodes)) (\<lambda>hashed.
    bnd (update_user (us_id user) (\<lambda>u. u\<lparr>us_mfaEnabled := True, us_mfaBackupCodes := JArr (map JStr hashed)\<rparr>)) (\<lambda>_.
    ret backupCodes)))))))"

definition mfa_disable :: "context_user option \<Rightarrow> string \<Rightarrow> unit action" where
  "mfa_disable currentUser code =
    bnd (mfa_requireUser currentUser) (\<lambda>user.
    bnd (require (truthy (us_mfaSecret user) \<and> us_mfaEnabled user) invalid_code) (\<lambda>_.
    bnd (verifyTotp (the (us_mfaSecret user)) code) (\<lambda>valid.
    bnd (require valid invalid_code) (\<lambda>_.
    bnd (update_user (us_id user) (\<lambda>u. u\<lparr>us_mfaSecret := None, us_mfaEnabled := False, us_mfaBackupCodes := JNull\<rparr>)) (\<lambda>_. ret ())))))"

definition stored_hashes :: "json \<Rightarrow> string list" where
  "stored_hashes v = (case v of JArr js \<Rightarrow> string_items js | _ \<Rightarrow> [])"

definition consumeBackupCode :: "string \<Rightarrow> string \<Rightarrow> bool action" where
  "consumeBackupCode userId code =
    bnd (find_user userId) (\<lambda>found.
    bnd (ret (case found of None \<Rightarrow> [] | Some u \<Rightarrow> stored_hashes (us_mfaBackupCodes u))) (\<lambda>hashes.
    bnd (gets (\<lambda>w. find (\<lambda>h. argon_verify (w_env w) h code) hashes)) (\<lambda>hit.
    case hit of
      None \<Rightarrow> ret False
    | Some h \<Rightarrow>
        bnd (update_user userId (\<lambda>u. u\<lparr>us_mfaBackupCodes := JArr (map JStr (filter (\<lambda>s. s \<noteq> h) hashes))\<rparr>)) (\<lambda>_.
        ret True))))"

subsection \<open>Login\<close>

definition login_checked :: "string \<Rightarrow> user_row \<Rightarrow> bool \<Rightarrow> login_result action" where
  "login_checked email user validPassword =
    (if \<not> validPassword \<or> us_status user \<noteq> User_Active
     then bnd (session_record (user_event (us_org user) (us_id user) Ev_UserLoginFailed
            [(''email'', JStr email), (''reason'', JStr (if us_status user \<noteq> User_Active then ''user_disabled'' else ''invalid_credentials''))])) (\<lambda>_.
          throw (DomainError PermissionDenied ''Invalid email or password.''))
     else if us_mfaEnabled user
     then bnd (signLoginChallenge (us_id user)) (\<lambda>tempToken. ret (Mfa_Required tempToken))
     else bnd (recordLoginSuccess user) (\<lambda>_. bnd (createAuthResult user) (\<lambda>r. ret (Signed_In r))))"

definition login :: "string \<Rightarrow> string \<Rightarrow> login_result action" where
  "login email password =
    bnd (find_user_by_email email) (\<lambda>found.
    bnd (with_organization found) (\<lambda>_.
    bnd (case found of Some user \<Rightarrow> verifyPassword (us_passwordHash user) password
         | None \<Rightarrow> verifyPasswordForMissingUser password) (\<lambda>validPassword.
    case found of
      None \<Rightarrow> throw (DomainError PermissionDenied ''Invalid email or password.'')
    | Some user \<Rightarrow> login_checked email user validPassword)))"

definition completeMfaChallenge :: "string \<Rightarrow> string \<Rightarrow> auth_result action" where
  "completeMfaChallenge tempToken code =
    bnd (verifyLoginChallenge tempToken) (\<lambda>challenge.
    bnd (payload_user challenge) (\<lambda>found.
    bnd (with_organization found) (\<lambda>_.
    bnd (require (case found of None \<Rightarrow> False | Some u \<Rightarrow> us_status u = User_Active \<and> truthy (us_mfaSecret u) \<and> us_mfaEnabled u)
      invalid_code) (\<lambda>_.
    bnd (ret (the found)) (\<lambda>user.
    bnd (verifyTotp (the (us_mfaSecret user)) code) (\<lambda>valid.
    bnd (require valid invalid_code) (\<lambda>_.
    bnd (recordLoginSuccess user) (\<lambda>_.
    createAuthResult user))))))))"

definition invalid_backup_code :: err where
  "invalid_backup_code = DomainError PermissionDenied ''Invalid backup code.''"

definition completeMfaRecovery :: "string \<Rightarrow> string \<Rightarrow> auth_result action" where
  "completeMfaRecovery tempToken backupCode =
    bnd (verifyLoginChallenge tempToken) (\<lambda>challenge.
    bnd (payload_user challenge) (\<lambda>found.
    bnd (with_organization found) (\<lambda>_.
    bnd (require (case found of None \<Rightarrow> False | Some u \<Rightarrow> us_status u = User_Active \<and> us_mfaEnabled u) invalid_backup_code) (\<lambda>_.
    bnd (ret (the found)) (\<lambda>user.
    bnd (consumeBackupCode (us_id user) backupCode) (\<lambda>consumed.
    bnd (require consumed invalid_backup_code) (\<lambda>_.
    bnd (recordLoginSuccess user) (\<lambda>_.
    createAuthResult user))))))))"

definition refresh :: "string \<Rightarrow> auth_result action" where
  "refresh refreshToken =
    bnd (refresh_consume refreshToken) (\<lambda>consumed.
    bnd (find_user (rt_user consumed)) (\<lambda>found.
    bnd (with_organization found) (\<lambda>_.
    bnd (require (map_option us_status found = Some User_Active) invalid_refresh_token) (\<lambda>_.
    bnd (ret (the found)) (\<lambda>user.
    bnd (session_record (user_event (us_org user) (us_id user) Ev_TokenRefreshed [(''email'', JStr (us_email user))])) (\<lambda>_.
    createAuthResult user))))))"

definition payload_string :: "(string \<times> json) list \<Rightarrow> string \<Rightarrow> string" where
  "payload_string payload k = coalesce (payload_text payload k) []"

definition logout :: "string option \<Rightarrow> string option \<Rightarrow> unit action" where
  "logout refreshToken accessToken =
    bnd (run_if (truthy refreshToken) (refresh_revoke (the refreshToken))) (\<lambda>_.
    bnd (if truthy accessToken
         then try_catch (bnd (verifyAccessToken (the accessToken)) (\<lambda>p. ret (Some p))) (\<lambda>_. ret None)
         else ret None) (\<lambda>payload.
    case payload of
      None \<Rightarrow> ret ()
    | Some p \<Rightarrow>
        bnd (revokeAccessToken (the accessToken)) (\<lambda>_.
        session_record (user_event (payload_string p ''organizationId'') (payload_string p ''userId'') Ev_UserLogout
          [(''email'', JStr (payload_string p ''email''))]))))"

definition me :: "string option \<Rightarrow> json action" where
  "me accessToken =
    bnd (requirePayload accessToken) (\<lambda>payload.
    bnd (payload_user payload) (\<lambda>found.
    bnd (with_organization found) (\<lambda>_.
    bnd (require (map_option us_status found = Some User_Active) authentication_required) (\<lambda>_.
    bnd (organization_of (the found)) (\<lambda>organization.
    gets (\<lambda>w. toAuthUser (w_env w) (the found) organization))))))"

definition listSessions :: "string option \<Rightarrow> json action" where
  "listSessions accessToken =
    bnd (requirePayload accessToken) (\<lambda>payload.
    bnd (require_some (payload_text payload ''userId'') (PrismaError ''Argument where: invalid value.'')) (\<lambda>userId.
    bnd (refresh_listActiveForUser userId) (\<lambda>ts.
    gets (\<lambda>w. JArr (map (\<lambda>t. JObj [(''id'', JStr (rt_id t)), (''createdAt'', JStr (iso (w_env w) (rt_createdAt t))),
      (''expiresAt'', JStr (iso (w_env w) (rt_expiresAt t)))]) ts)))))"

definition revokeSession :: "string option \<Rightarrow> string \<Rightarrow> unit action" where
  "revokeSession accessToken k =
    bnd (requirePayload accessToken) (\<lambda>payload.
    bnd (require_some (payload_text payload ''userId'') (PrismaError ''Argument where: invalid value.'')) (\<lambda>userId.
    refresh_revokeForUser userId k))"

subsection \<open>Step-up\<close>

definition step_up_issue :: "context_user option \<Rightarrow> string option \<Rightarrow> string option \<Rightarrow> string action" where
  "step_up_issue currentUser password totpCode =
    bnd (require_some currentUser authentication_required) (\<lambda>cu.
    bnd (find_user (cu_id cu)) (\<lambda>found.
    bnd (require (map_option us_status found = Some User_Active) authentication_required) (\<lambda>_.
    bnd (ret (the found)) (\<lambda>user.
    bnd (if truthy password then verifyPassword (us_passwordHash user) (the password) else ret False) (\<lambda>passwordOk.
    bnd (if truthy totpCode \<and> us_mfaEnabled user \<and> truthy (us_mfaSecret user)
         then verifyTotp (the (us_mfaSecret user)) (the totpCode) else ret False) (\<lambda>totpOk.
    bnd (require (passwordOk \<or> totpOk) (DomainError PermissionDenied ''Step-up authentication failed.'')) (\<lambda>_.
    step_up_sign user)))))))"

subsection \<open>The guards\<close>

record route =
  ro_public :: bool
  ro_internal :: bool
  ro_roles :: "user_role list"
  ro_permissions :: "permission list"
  ro_stepUp :: bool

record api_request =
  hq_url :: string
  hq_bearer :: "string option"
  hq_stepUpToken :: "string option"

definition isDocumentationRoute :: "string \<Rightarrow> bool" where
  "isDocumentationRoute url = (let path = hd (split_on (CHR ''?'') url) in
     path = ''/docs'' \<or> path = ''/docs-json'' \<or> starts_with path ''/docs/'')"

definition context_of :: "user_row \<Rightarrow> context_user" where
  "context_of user = \<lparr>cu_id = us_id user, cu_org = us_org user, cu_role = us_role user, cu_email = us_email user\<rparr>"

definition jwt_guard :: "route \<Rightarrow> api_request \<Rightarrow> context_user option action" where
  "jwt_guard r request =
    (if ro_public r \<or> ro_internal r \<or> isDocumentationRoute (hq_url request) then ret None
     else
       bnd (require (truthy (hq_bearer request)) authentication_required) (\<lambda>_.
       bnd (verifyAccessToken (the (hq_bearer request))) (\<lambda>payload.
       bnd (payload_user payload) (\<lambda>found.
       bnd (require (case found of None \<Rightarrow> False | Some u \<Rightarrow> us_status u = User_Active
         \<and> payload_text payload ''organizationId'' = Some (us_org u)) authentication_required) (\<lambda>_.
       ret (Some (context_of (the found))))))))"

definition roles_guard :: "route \<Rightarrow> context_user option \<Rightarrow> unit action" where
  "roles_guard r user =
    (if ro_public r \<or> ro_internal r \<or> ro_roles r = [] then ret ()
     else require (case user of None \<Rightarrow> False | Some u \<Rightarrow> List.member (ro_roles r) (cu_role u))
       (DomainError PermissionDenied ''Required role is missing.''))"

definition permissions_guard :: "route \<Rightarrow> context_user option \<Rightarrow> unit action" where
  "permissions_guard r user =
    (if ro_public r \<or> ro_internal r \<or> ro_permissions r = [] then ret ()
     else require (case user of None \<Rightarrow> False | Some u \<Rightarrow> list_all (hasPermission (cu_role u)) (ro_permissions r))
       (DomainError PermissionDenied ''Required permission is missing.''))"

definition step_up_guard :: "route \<Rightarrow> api_request \<Rightarrow> context_user option \<Rightarrow> unit action" where
  "step_up_guard r request user =
    (if \<not> ro_stepUp r then ret ()
     else bnd (gets (\<lambda>w. production (w_env w))) (\<lambda>prod.
       if \<not> truthy (hq_stepUpToken request) \<and> \<not> prod then ret ()
       else step_up_verify (hq_stepUpToken request) user))"

text \<open>The guards in the order they are provided.\<close>

definition api_guards :: "route \<Rightarrow> api_request \<Rightarrow> context_user option action" where
  "api_guards r request =
    bnd (jwt_guard r request) (\<lambda>user.
    bnd (roles_guard r user) (\<lambda>_.
    bnd (permissions_guard r user) (\<lambda>_.
    bnd (step_up_guard r request user) (\<lambda>_.
    ret user))))"

text \<open>\<open>optional-auth.guard.ts\<close>: a request without a token passes without a user.\<close>

definition optional_guard :: "api_request \<Rightarrow> context_user option action" where
  "optional_guard request =
    (if \<not> truthy (hq_bearer request) then ret None
     else
       bnd (verifyAccessToken (the (hq_bearer request))) (\<lambda>payload.
       bnd (payload_user payload) (\<lambda>found.
       ret (case found of None \<Rightarrow> None | Some u \<Rightarrow> if us_status u = User_Active then Some (context_of u) else None))))"

definition assertSameOrganization :: "string option \<Rightarrow> string \<Rightarrow> unit action" where
  "assertSameOrganization authenticated resource =
    require (truthy authenticated \<and> the authenticated = resource)
      (DomainError OrganizationIsolationViolation ''Resource belongs to another organization.'')"

subsection \<open>What passing a guard shows\<close>

lemma verifyAccessToken_effect: "effect (same_of (\<lambda>w. (w_env w, users w, organizations w, refresh_tokens w))) (verifyAccessToken token) w"
  unfolding verifyAccessToken_def Let_def parse_part_def deleteExpiredRevocations_def epoch_seconds_def
  by (intro effect_intros; simp)+

lemma parse_part_Inr:
  "parse_part s w = (Inr fs, w') \<Longrightarrow> w' = w \<and> (\<exists>v. parse_json (w_env w) (utf8_text (w_env w) (base64url_text (w_env w) s)) = Some v \<and> fs = as_object v)"
  unfolding parse_part_def by (elim bnd_getsE bnd_require_someE bnd_requireE) auto

lemma verified_claims:
  assumes "verifyAccessToken token w = (Inr payload, w')"
  shows "\<exists>h p v. token = h @ ''.'' @ p @ ''.'' @ sign_access (w_env w) (h @ ''.'' @ p)
      \<and> parse_json (w_env w) (utf8_text (w_env w) (base64url_text (w_env w) p)) = Some v \<and> payload = as_object v
      \<and> \<not> expired (w_env w) (as_object v) (clock (w_env w) (reads w) div 1000)"
    and "users w' = users w" and "w_env w' = w_env w" and "organizations w' = organizations w" and "refresh_tokens w' = refresh_tokens w"
proof -
  let ?s = "split_on (CHR ''.'') token"
  have three: "length ?s = 3"
    using assms unfolding verifyAccessToken_def Let_def by (elim bnd_requireE) simp
  then obtain a b c where s: "?s = [a, b, c]"
    by (auto simp: numeral_3_eq_3 length_Suc_conv)
  have steps: "c = sign_access (w_env w) (a @ ''.'' @ b)
      \<and> (\<exists>v. parse_json (w_env w) (utf8_text (w_env w) (base64url_text (w_env w) b)) = Some v \<and> payload = as_object v)
      \<and> \<not> expired (w_env w) payload (clock (w_env w) (reads w) div 1000)"
    using assms unfolding verifyAccessToken_def Let_def s epoch_seconds_def
    by (elim bnd_requireE bnd_InrE) (auto dest!: parse_part_Inr elim!: world_elims simp: run_simps)
  moreover have "token = join_with ''.'' [a, b, c]" using join_split [of "CHR ''.''" token] unfolding s by simp
  ultimately show "\<exists>h p v. token = h @ ''.'' @ p @ ''.'' @ sign_access (w_env w) (h @ ''.'' @ p)
      \<and> parse_json (w_env w) (utf8_text (w_env w) (base64url_text (w_env w) p)) = Some v \<and> payload = as_object v
      \<and> \<not> expired (w_env w) (as_object v) (clock (w_env w) (reads w) div 1000)" by auto
  show "users w' = users w" "w_env w' = w_env w" "organizations w' = organizations w" "refresh_tokens w' = refresh_tokens w"
    using same_after [OF verifyAccessToken_effect assms] by simp_all
qed

lemma find_user_found: "find_user k w = (Inr (Some u), w') \<Longrightarrow> u \<in> set (users w) \<and> us_id u = k \<and> w' = w"
  by (auto simp: find_user_def run_simps dest: find_SomeD)

lemma payload_user_found:
  "payload_user payload w = (Inr (Some u), w') \<Longrightarrow> u \<in> set (users w) \<and> payload_text payload ''userId'' = Some (us_id u) \<and> w' = w"
  unfolding payload_user_def by (auto elim!: bnd_require_someE dest: find_user_found)

text \<open>A request acts for a user when it carries a signed, unexpired access token with the user's id and
organization, and the user is active.\<close>

definition acts_for :: "world \<Rightarrow> api_request \<Rightarrow> user_row \<Rightarrow> bool" where
  "acts_for w request u \<longleftrightarrow> u \<in> set (users w) \<and> us_status u = User_Active
     \<and> (\<exists>h p v. hq_bearer request = Some (h @ ''.'' @ p @ ''.'' @ sign_access (w_env w) (h @ ''.'' @ p))
        \<and> parse_json (w_env w) (utf8_text (w_env w) (base64url_text (w_env w) p)) = Some v
        \<and> payload_text (as_object v) ''userId'' = Some (us_id u)
        \<and> payload_text (as_object v) ''organizationId'' = Some (us_org u)
        \<and> \<not> expired (w_env w) (as_object v) (clock (w_env w) (reads w) div 1000))"

lemma jwt_acts:
  assumes "jwt_guard r request w = (Inr (Some user), w')"
  obtains u where "acts_for w request u" "user = context_of u" "users w' = users w" "w_env w' = w_env w"
proof -
  from assms have run: "bnd (require (truthy (hq_bearer request)) authentication_required) (\<lambda>_.
      bnd (verifyAccessToken (the (hq_bearer request))) (\<lambda>payload. bnd (payload_user payload) (\<lambda>found.
      bnd (require (case found of None \<Rightarrow> False | Some u \<Rightarrow> us_status u = User_Active
        \<and> payload_text payload ''organizationId'' = Some (us_org u)) authentication_required) (\<lambda>_.
      ret (Some (context_of (the found))))))) w = (Inr (Some user), w')"
    by (simp add: jwt_guard_def split: if_splits)
  then obtain payload v where b: "truthy (hq_bearer request)" and v: "verifyAccessToken (the (hq_bearer request)) w = (Inr payload, v)"
    and run: "bnd (payload_user payload) (\<lambda>found. bnd (require (case found of None \<Rightarrow> False | Some u \<Rightarrow> us_status u = User_Active
        \<and> payload_text payload ''organizationId'' = Some (us_org u)) authentication_required) (\<lambda>_.
      ret (Some (context_of (the found))))) v = (Inr (Some user), w')"
    by (rule bnd_requireE) (erule bnd_InrE, rule that)
  from run obtain found v2 where f: "payload_user payload v = (Inr found, v2)"
      and run: "bnd (require (case found of None \<Rightarrow> False | Some u \<Rightarrow> us_status u = User_Active
        \<and> payload_text payload ''organizationId'' = Some (us_org u)) authentication_required) (\<lambda>_.
      ret (Some (context_of (the found)))) v2 = (Inr (Some user), w')"
    by (rule bnd_InrE)
  from run have ok: "case found of None \<Rightarrow> False | Some u \<Rightarrow> us_status u = User_Active \<and> payload_text payload ''organizationId'' = Some (us_org u)"
    by (rule bnd_requireE)
  from run have "user = context_of (the found) \<and> v2 = w'"
    by (rule bnd_requireE) simp
  then have user: "user = context_of (the found)" and w': "v2 = w'" by simp_all
  obtain u where u: "found = Some u" "us_status u = User_Active" "payload_text payload ''organizationId'' = Some (us_org u)" using ok by (cases found) auto
  have "hq_bearer request = Some (the (hq_bearer request))" using b by (auto simp: truthy_def split: option.splits)
  moreover have "u \<in> set (users w)" "payload_text payload ''userId'' = Some (us_id u)" "users w' = users w" "w_env w' = w_env w"
    using payload_user_found [of payload v u w'] f u(1) w' verified_claims(2,3) [OF v] by simp_all
  moreover obtain h p x where x: "the (hq_bearer request) = h @ ''.'' @ p @ ''.'' @ sign_access (w_env w) (h @ ''.'' @ p)"
      "parse_json (w_env w) (utf8_text (w_env w) (base64url_text (w_env w) p)) = Some x" "payload = as_object x"
      "\<not> expired (w_env w) (as_object x) (clock (w_env w) (reads w) div 1000)"
    using verified_claims(1) [OF v] by blast
  ultimately have "acts_for w request u"
    unfolding acts_for_def by (intro conjI u(2) exI [of _ h] exI [of _ p] exI [of _ x]) (use u(3) in simp_all)
  with u(1) user \<open>users w' = users w\<close> \<open>w_env w' = w_env w\<close> show thesis by (intro that) simp_all
qed

text \<open>C10. A request that is let through to a route that is neither public nor internal carries a token with a
valid signature that has not expired, and acts as the user the token names: a user of the database who is active
and still in the token's organization, with the role the user has now, which is one of the roles and has every
permission the route asks for.\<close>

theorem guards_admit:
  assumes "api_guards r request w = (Inr user, w')" and "\<not> ro_public r" and "\<not> ro_internal r"
    and "\<not> isDocumentationRoute (hq_url request)"
  shows "\<exists>u. acts_for w request u \<and> user = Some (context_of u)
    \<and> (ro_roles r = [] \<or> us_role u \<in> set (ro_roles r))
    \<and> (\<forall>p \<in> set (ro_permissions r). hasPermission (us_role u) p)"
proof -
  from assms(1) obtain v v1 v2 where jwt: "jwt_guard r request w = (Inr user, v)"
    and roles: "roles_guard r user v = (Inr (), v1)" and permissions: "permissions_guard r user v1 = (Inr (), v2)"
    unfolding api_guards_def by (auto elim!: bnd_InrE)
  have "user \<noteq> None"
    using jwt assms(2-) unfolding jwt_guard_def by (simp, elim bnd_requireE bnd_InrE) simp
  then obtain cu where cu: "user = Some cu" by blast
  from jwt obtain u where u: "acts_for w request u" "cu = context_of u"
    unfolding cu by (rule jwt_acts)
  have role: "ro_roles r = [] \<or> us_role u \<in> set (ro_roles r)"
    using roles assms(2,3) by (auto simp: cu u(2) context_of_def roles_guard_def List.member_iff split: if_splits)
  have "\<forall>p \<in> set (ro_permissions r). hasPermission (us_role u) p"
    using permissions assms(2,3) by (auto simp: cu u(2) context_of_def permissions_guard_def list_all_iff split: if_splits)
  with role u cu show ?thesis by blast
qed

definition guarded_world :: world where
  "guarded_world = token_world\<lparr>users := [demo_member]\<rparr>"

definition demo_route :: route where
  "demo_route = \<lparr>ro_public = False, ro_internal = False, ro_roles = [Role_Owner], ro_permissions = [], ro_stepUp = False\<rparr>"

definition demo_signed_request :: api_request where
  "demo_signed_request = \<lparr>hq_url = ''/agents'', hq_bearer = Some (sign_token (token_env demo_payload) demo_payload), hq_stepUpToken = None\<rparr>"

lemma demo_guards_pass: "fst (api_guards demo_route demo_signed_request guarded_world) = Inr (Some (context_of demo_member))"
proof -
  have e: "w_env guarded_world = token_env demo_payload" "reads guarded_world = 0" "revoked_jtis guarded_world = []" "users guarded_world = [demo_member]"
    by (simp_all add: guarded_world_def token_world_facts)
  have ok: "token_ok (w_env guarded_world) (access_payload demo_member 0 ''b'')"
    using demo_token_ok by (simp add: e demo_payload_def [symmetric])
  have bearer: "truthy (hq_bearer demo_signed_request)" "the (hq_bearer demo_signed_request) = sign_token (w_env guarded_world) (access_payload demo_member 0 ''b'')"
    by (simp_all add: demo_signed_request_def truthy_def sign_token_def Let_def e demo_payload_def [symmetric])
  have path: "\<not> isDocumentationRoute (hq_url demo_signed_request)" by (simp add: demo_signed_request_def) code_simp
  obtain v where v: "verifyAccessToken (the (hq_bearer demo_signed_request)) guarded_world = (Inr (access_payload demo_member 0 ''b''), v)" "users v = [demo_member]"
    using verify_signed [OF ok] by (simp add: bearer e revoked_at_def access_ttl_seconds_def token_world_facts deleteExpired_run)
  have "us_status demo_member = User_Active" "us_role demo_member = Role_Owner" by (simp_all add: demo_member_def)
  then have jwt: "jwt_guard demo_route demo_signed_request guarded_world = (Inr (Some (context_of demo_member)), v)"
    using path bearer(1) unfolding jwt_guard_def
    by (simp add: demo_route_def bnd_Inr [of "verifyAccessToken s" for s, OF v(1)] step_simps payload_user_def payload_facts find_user_def
        bnd_find_first user_t_def v(2))
  have r: "ro_public demo_route = False" "ro_internal demo_route = False" "ro_roles demo_route = [Role_Owner]"
      "ro_permissions demo_route = []" "ro_stepUp demo_route = False"
    by (simp_all add: demo_route_def)
  show ?thesis
    using \<open>us_role demo_member = Role_Owner\<close>
    by (simp add: api_guards_def bnd_Inr [of "jwt_guard r q" for r q, OF jwt] roles_guard_def permissions_guard_def step_up_guard_def
        r step_simps context_of_def List.member_iff)
qed

theorem guards_admit_witness:
  "\<exists>u. acts_for guarded_world demo_signed_request u \<and> Some (context_of demo_member) = Some (context_of u)
    \<and> (ro_roles demo_route = [] \<or> us_role u \<in> set (ro_roles demo_route))
    \<and> (\<forall>p \<in> set (ro_permissions demo_route). hasPermission (us_role u) p)"
proof (rule guards_admit)
  show "api_guards demo_route demo_signed_request guarded_world = (Inr (Some (context_of demo_member)), snd (api_guards demo_route demo_signed_request guarded_world))"
    using demo_guards_pass by (simp add: prod_eq_iff)
  show "\<not> isDocumentationRoute (hq_url demo_signed_request)" by (simp add: demo_signed_request_def) code_simp
qed (simp_all add: demo_route_def)

text \<open>The tokens of a pending login and of a step-up are signed with the same key but are not
interchangeable: no text is accepted both as the one and as the other.\<close>

theorem challenge_purposes_apart:
  "isl (fst (verifyLoginChallenge token w)) \<or> isl (fst (step_up_verify (Some token) currentUser w))"
proof (rule ccontr)
  assume "\<not> (isl (fst (verifyLoginChallenge token w)) \<or> isl (fst (step_up_verify (Some token) currentUser w)))"
  then obtain p u w1 w2 where run: "verifyLoginChallenge token w = (Inr p, w1)" "step_up_verify (Some token) currentUser w = (Inr u, w2)"
    by (cases "verifyLoginChallenge token w"; cases "fst (verifyLoginChallenge token w)";
        cases "step_up_verify (Some token) currentUser w"; cases "fst (step_up_verify (Some token) currentUser w)") auto
  obtain v where p: "open_signed token invalid_challenge w = (Inr p, v)" "payload_text p ''purpose'' = Some ''mfa-login''"
    using run(1) unfolding verifyLoginChallenge_def by (elim bnd_InrE bnd_requireE bnd_getsE) simp
  obtain q v' where q: "open_signed token step_up_required w = (Inr q, v')" "payload_text q ''purpose'' = Some ''step-up''"
    using run(2) unfolding step_up_verify_def by (elim bnd_requireE bnd_InrE bnd_getsE) simp
  have "fst (open_signed token a w) = Inr p \<Longrightarrow> fst (open_signed token b w) = Inr p" for a b p
    by (auto simp: open_signed_def open_payload_part_def Let_def run_simps split: option.splits if_splits)
  from this [of invalid_challenge p step_up_required] have "p = q" using p q by simp
  with p q show False by simp
qed

subsection \<open>Signing in\<close>

lemma with_organization_still: "with_organization found w = (Inr x, w') \<Longrightarrow> w' = w"
  unfolding with_organization_def organization_of_def by (cases found) (auto elim!: world_elims simp: find_first_def)

lemma challenge_keeps_tokens: "signLoginChallenge k w = (Inr t, w') \<Longrightarrow> refresh_tokens w' = refresh_tokens w"
proof -
  have "effect (same_of refresh_tokens) (signLoginChallenge k) w"
    unfolding signLoginChallenge_def epoch_seconds_def sign_payload_def by (intro effect_intros; simp)+
  then show "signLoginChallenge k w = (Inr t, w') \<Longrightarrow> refresh_tokens w' = refresh_tokens w" by (rule same_after)
qed

lemma login_checked_Inr:
  assumes "login_checked email u validPassword w = (Inr r, w')"
  shows "validPassword \<and> us_status u = User_Active
    \<and> (case r of Signed_In _ \<Rightarrow> \<not> us_mfaEnabled u | Mfa_Required _ \<Rightarrow> us_mfaEnabled u \<and> refresh_tokens w' = refresh_tokens w)"
  using assms unfolding login_checked_def
  by (auto split: if_splits dest: challenge_keeps_tokens elim!: bnd_InrE)

lemma login_Inr:
  assumes "login email password w = (Inr r, w')"
  obtains u where "u \<in> set (users w)" "us_email u = email" "login_checked email u (argon_verify (w_env w) (us_passwordHash u) password) w = (Inr r, w')"
proof -
  have run: "(\<lambda>found. bnd (with_organization found) (\<lambda>_.
    bnd (case found of Some user \<Rightarrow> verifyPassword (us_passwordHash user) password
         | None \<Rightarrow> verifyPasswordForMissingUser password) (\<lambda>validPassword.
    case found of
      None \<Rightarrow> throw (DomainError PermissionDenied ''Invalid email or password.'')
    | Some user \<Rightarrow> login_checked email user validPassword))) (find (\<lambda>u. us_email u = email) (users w)) w = (Inr r, w')"
    using assms unfolding login_def find_user_by_email_def bnd_find_first by (simp add: user_t_def)
  then obtain u where f: "find (\<lambda>u. us_email u = email) (users w) = Some u"
    by (cases "find (\<lambda>u. us_email u = email) (users w)") (auto elim!: bnd_InrE)
  then have "login_checked email u (argon_verify (w_env w) (us_passwordHash u) password) w = (Inr r, w')"
    using run by (auto simp: verifyPassword_def elim!: bnd_InrE dest!: with_organization_still)
  with find_SomeD [OF f] show thesis by (intro that) auto
qed

lemma open_challenge_still: "verifyLoginChallenge token w = (Inr p, w') \<Longrightarrow> users w' = users w \<and> w_env w' = w_env w"
proof -
  have "effect (same_of (\<lambda>w. (users w, w_env w))) (verifyLoginChallenge token) w"
    unfolding verifyLoginChallenge_def open_signed_def open_payload_part_def epoch_seconds_def Let_def by (intro effect_intros; simp)+
  from same_after [OF this] show "verifyLoginChallenge token w = (Inr p, w') \<Longrightarrow> users w' = users w \<and> w_env w' = w_env w" by blast
qed

lemma payload_user_still: "payload_user payload w = (Inr found, w') \<Longrightarrow> w' = w \<and> (\<forall>u. found = Some u \<longrightarrow> u \<in> set (users w))"
  unfolding payload_user_def find_user_def
  by (cases "payload_text payload ''userId''") (auto simp: run_simps dest: find_SomeD)

lemma verifyTotp_valid: "verifyTotp secret code w = (Inr True, w') \<Longrightarrow> \<exists>t. totp_valid (w_env w) t secret (remove_spaces code)"
  by (auto simp: verifyTotp_def run_simps)

lemma challenge_completed:
  assumes "completeMfaChallenge tempToken code v = (Inr session, v')"
  shows "\<exists>u \<in> set (users v). us_status u = User_Active \<and> us_mfaEnabled u
      \<and> (\<exists>secret t. us_mfaSecret u = Some secret \<and> totp_valid (w_env v) t secret (remove_spaces code))"
proof -
  from assms obtain payload v1 found v2 x v3 valid v4 where "verifyLoginChallenge tempToken v = (Inr payload, v1)"
    and "payload_user payload v1 = (Inr found, v2)" and "with_organization found v2 = (Inr x, v3)"
    and ok: "case found of None \<Rightarrow> False | Some u \<Rightarrow> us_status u = User_Active \<and> truthy (us_mfaSecret u) \<and> us_mfaEnabled u"
    and totp: "verifyTotp (the (us_mfaSecret (the found))) code v3 = (Inr valid, v4)" and valid
    unfolding completeMfaChallenge_def bnd_ret by (elim bnd_InrE bnd_requireE) (rule that)
  then have still: "users v1 = users v" "w_env v3 = w_env v" "\<forall>u. found = Some u \<longrightarrow> u \<in> set (users v)"
    using open_challenge_still payload_user_still with_organization_still by metis+
  obtain u where u: "found = Some u" using ok by (cases found) auto
  then obtain secret where "us_mfaSecret u = Some secret" using ok by (auto simp: truthy_def split: option.splits)
  with ok u still totp \<open>valid\<close> show ?thesis using verifyTotp_valid [of secret code v3 v4] by auto
qed


definition demo_organization :: organization_row where
  "demo_organization = \<lparr>or_id = ''o'', or_name = ''O'', or_domain = ''d'', or_plan = ''local'', or_billingEmail = None, or_stripeCustomer = None,
     or_stripeSubscription = None, or_stripeStatus = None, or_stripePrice = None, or_createdAt = 0, or_updatedAt = 0\<rparr>"

definition login_world :: "user_row \<Rightarrow> world" where
  "login_world u = (empty_world (demo_env\<lparr>hmac_url := \<lambda>_ _. ''s'',
      parse_json := \<lambda>_. Some (JObj [(''purpose'', JStr ''mfa-login''), (''userId'', JStr ''u'')])\<rparr>))
    \<lparr>users := [u], organizations := [demo_organization]\<rparr>"

definition mfa_member :: user_row where
  "mfa_member = demo_member\<lparr>us_mfaSecret := Some ''x'', us_mfaEnabled := True\<rparr>"

lemma createAuthResult_runs:
  assumes "find (\<lambda>g. or_id g = us_org u) (organizations w) = Some g"
  shows "\<exists>r w'. createAuthResult u w = (Inr r, w')"
  using assms
  by (simp add: createAuthResult_def signAccessToken_def epoch_seconds_def refresh_issue_run organization_of_def run_simps Let_def)

lemma recordLoginSuccess_runs:
  assumes "row_of user_t (us_id u) w = Some u"
  obtains w' where "recordLoginSuccess u w = (Inr (), w')" "organizations w' = organizations w"
  using assms
  by (simp add: recordLoginSuccess_def update_user_def session_record_def run_simps row_of_def)

lemma demo_login: "\<exists>r w'. login ''e'' ''pw'' (login_world demo_member) = (Inr r, w')"
proof -
  let ?w = "login_world demo_member"
  have w: "users ?w = [demo_member]" "organizations ?w = [demo_organization]" "argon_verify (w_env ?w) = (=)"
    by (simp_all add: login_world_def empty_world_def demo_env_def)
  have u: "us_email demo_member = ''e''" "us_passwordHash demo_member = ''pw''" "us_status demo_member = User_Active" "\<not> us_mfaEnabled demo_member"
      "us_org demo_member = ''o''" "or_id demo_organization = ''o''"
    by (simp_all add: demo_member_def demo_organization_def)
  obtain w' where r: "recordLoginSuccess demo_member ?w = (Inr (), w')" "organizations w' = [demo_organization]"
    using recordLoginSuccess_runs [of demo_member ?w] by (auto simp: w row_of_def user_t_def)
  obtain a w2 where "createAuthResult demo_member w' = (Inr a, w2)"
    using createAuthResult_runs [of demo_member w' demo_organization] by (auto simp: r(2) u)
  then show ?thesis
    using r by (simp add: login_def login_checked_def find_user_by_email_def with_organization_def organization_of_def verifyPassword_def
        bnd_assoc bnd_find_first user_t_def organization_t_def w u step_simps bnd_Inr [of "recordLoginSuccess q" for q, OF r(1)] bnd_Inr [of "createAuthResult q" for q])
qed

lemma demo_challenge: "\<exists>r w'. completeMfaChallenge ''c.s'' ''x'' (login_world mfa_member) = (Inr r, w')"
proof -
  let ?w = "login_world mfa_member"
  let ?p = "[(''purpose'', JStr ''mfa-login''), (''userId'', JStr ''u'')]"
  have w: "users ?w = [mfa_member]" "organizations ?w = [demo_organization]" "sign_access (w_env ?w) s = ''s''"
      "parse_json (w_env ?w) s = Some (JObj ?p)" "totp_valid (w_env ?w) = (\<lambda>_ s c. c = s)" for s
    by (simp_all add: login_world_def empty_world_def demo_env_def sign_access_def)
  have u: "us_id mfa_member = ''u''" "us_mfaSecret mfa_member = Some ''x''" "us_status mfa_member = User_Active" "us_mfaEnabled mfa_member"
      "us_org mfa_member = ''o''" "or_id demo_organization = ''o''"
    by (simp_all add: demo_member_def mfa_member_def demo_organization_def)
  have p: "payload_text ?p ''purpose'' = Some ''mfa-login''" "payload_text ?p ''userId'' = Some ''u''" "\<not> expired e ?p n" for e n
    by (simp_all add: payload_text_def expired_def)
  have challenge: "verifyLoginChallenge ''c.s'' ?w = (Inr ?p, ?w\<lparr>reads := Suc (reads ?w)\<rparr>)"
    by (simp add: verifyLoginChallenge_def open_signed_def open_payload_part_def part_def truthy_def as_object_def
        bnd_assoc step_simps w p bnd_Inr [of epoch_seconds, OF epoch_seconds_run])
  define v where "v = ?w\<lparr>reads := Suc (Suc (reads ?w))\<rparr>"
  have v: "users v = [mfa_member]" "organizations v = [demo_organization]" by (simp_all add: v_def w)
  obtain w' where r: "recordLoginSuccess mfa_member v = (Inr (), w')" "organizations w' = [demo_organization]"
    using recordLoginSuccess_runs [of mfa_member v] by (auto simp: v row_of_def user_t_def)
  obtain a w2 where a: "createAuthResult mfa_member w' = (Inr a, w2)"
    using createAuthResult_runs [of mfa_member w' demo_organization] by (auto simp: r(2) u)
  have "completeMfaChallenge ''c.s'' ''x'' ?w = (Inr a, w2)"
    unfolding completeMfaChallenge_def bnd_Inr [of "verifyLoginChallenge q" for q, OF challenge]
    using r a by (simp add: payload_user_def find_user_def with_organization_def organization_of_def verifyTotp_def remove_spaces_def
        bnd_assoc bnd_find_first user_t_def organization_t_def w u p truthy_def step_simps v_def bnd_Inr [of "recordLoginSuccess q" for q])
  then show ?thesis by blast
qed


subsection \<open>Password reset and enrolment\<close>

lemma row_of_user_update:
  assumes "row_of user_t k w = Some u" and "\<And>q. us_id (f q) = us_id q"
  shows "update_user k f w = (Inr ((f u)\<lparr>us_updatedAt := clock (w_env w) (reads w)\<rparr>),
    w\<lparr>reads := Suc (reads w), users := upd_row us_id k (\<lambda>q. (f q)\<lparr>us_updatedAt := clock (w_env w) (reads w)\<rparr>) (users w)\<rparr>)"
  using assms(1) by (simp add: update_user_def row_of_def run_simps)

lemma find_by_key:
  assumes "distinct (map key rs)" and "r \<in> set rs"
  shows "find (\<lambda>q. key q = key r) rs = Some r"
  using assms by (induction rs) (auto simp: image_iff)

text \<open>C38. A password is reset only with the token last sent to an account that is not disabled, before
the token ends. It becomes the account's password, the token is used up, and every session of the
account is over.\<close>

theorem reset_needs_token_and_ends_sessions:
  assumes "resetPassword token password w = (Inr (), w')" and "distinct (map us_id (users w))"
  shows "\<exists>u u' t. u \<in> set (users w) \<and> us_passwordResetToken u = Some (token_hash w token)
    \<and> us_passwordResetExpiresAt u = Some t \<and> clock (w_env w) (reads w) < t \<and> us_status u \<noteq> User_Disabled
    \<and> row_of user_t (us_id u) w' = Some u' \<and> us_passwordHash u' = argon_hash (w_env w) (ids w) password
    \<and> us_passwordResetToken u' = None \<and> us_mfaEnabled u' = us_mfaEnabled u
    \<and> (\<forall>h expiresAt. session_map w' h \<noteq> Some (us_id u, expiresAt))"
proof -
  let ?P = "\<lambda>u. us_passwordResetToken u = Some (token_hash w token)
      \<and> (case us_passwordResetExpiresAt u of None \<Rightarrow> False | Some t \<Rightarrow> clock (w_env w) (reads w) < t) \<and> us_status u \<noteq> User_Disabled"
  obtain u where f: "find ?P (users w) = Some u"
    using assms(1) by (cases "find ?P (users w)")
      (simp_all add: resetPassword_def hashActionToken_def bnd_new_date bnd_gets bnd_find_first user_t_def token_hash_def bnd_require_some throw_def)
  from find_SomeD [OF f] obtain t where u: "u \<in> set (users w)" "?P u" "us_passwordResetExpiresAt u = Some t" "clock (w_env w) (reads w) < t"
    by (auto split: option.splits)
  have row: "find (\<lambda>q. us_id q = us_id u) (users w) = Some u"
    using assms(2) u(1) by (rule find_by_key)
  define n where "n = clock (w_env w) (reads w)"
  define g where "g = (\<lambda>q :: user_row. q\<lparr>us_passwordHash := argon_hash (w_env w) (ids w) password, us_status := User_Active,
      us_emailVerifiedAt := Some (coalesce (us_emailVerifiedAt u) n), us_passwordResetToken := None,
      us_passwordResetExpiresAt := None, us_updatedAt := clock (w_env w) (Suc (reads w))\<rparr>)"
  let ?v = "w\<lparr>ids := Suc (ids w), reads := Suc (Suc (reads w)), users := upd_row us_id (us_id u) g (users w)\<rparr>"
  have "refresh_revokeAllForUser (us_id u) ?v = (Inr (), w')"
    using assms(1) f row
    by (simp add: resetPassword_def hashActionToken_def hashPassword_def update_user_def run_simps token_hash_def g_def n_def)
  then have w': "w' = ?v\<lparr>reads := Suc (reads ?v), refresh_tokens := map (\<lambda>t. if rt_user t = us_id u \<and> rt_revokedAt t = None
     then t\<lparr>rt_revokedAt := Some (clock (w_env ?v) (reads ?v))\<rparr> else t) (refresh_tokens ?v)\<rparr>"
    unfolding refresh_revokeAllForUser_def revoke_tokens_run by simp
  have "row_of user_t (us_id u) w' = Some (g u)"
    using row find_upd_row [of us_id g "us_id u" "us_id u" "users w"] by (simp add: w' row_of_def user_t_def g_def)
  moreover have "session_map w' h \<noteq> Some (us_id u, x)" for h x
    by (auto simp: w' session_map_def split: if_splits dest!: find_SomeD)
  ultimately show ?thesis
    using u by (intro exI [of _ u] exI [of _ "g u"] exI [of _ t]) (simp add: g_def)
qed

definition forgetful_member :: user_row where
  "forgetful_member = demo_member\<lparr>us_passwordResetToken := Some ''tk'', us_passwordResetExpiresAt := Some 9\<rparr>"

theorem reset_needs_token_and_ends_sessions_witness:
  "\<exists>u'. row_of user_t ''u'' (snd (resetPassword ''k'' ''new'' (login_world forgetful_member))) = Some u'
     \<and> us_passwordResetToken u' = None"
proof -
  have run: "resetPassword ''k'' ''new'' (login_world forgetful_member) = (Inr (), snd (resetPassword ''k'' ''new'' (login_world forgetful_member)))"
    by (simp add: resetPassword_def hashActionToken_def hashPassword_def update_user_def refresh_revokeAllForUser_def revoke_tokens_run run_simps
        login_world_def empty_world_def demo_env_def demo_member_def forgetful_member_def)
  have users: "users (login_world forgetful_member) = [forgetful_member]" "us_id forgetful_member = ''u''"
    by (simp_all add: login_world_def forgetful_member_def demo_member_def)
  then have "distinct (map us_id (users (login_world forgetful_member)))" by simp
  from reset_needs_token_and_ends_sessions [OF run this] show ?thesis
    unfolding users by (auto simp: users)
qed

text \<open>Enrolling a second factor needs no code: it drops the factor that was enrolled before, and
until the new one is confirmed the password alone signs in.\<close>

theorem enrolling_drops_second_factor:
  assumes "distinct (map us_id (users w))" and "distinct (map us_email (users w))" and "u \<in> set (users w)" and "us_id u = cu_id cu"
  shows "case mfa_enroll (Some cu) w of
      (Inr _, w') \<Rightarrow> (\<forall>password tempToken w''. login (us_email u) password w' \<noteq> (Inr (Mfa_Required tempToken), w''))
    | (Inl _, _) \<Rightarrow> False"
proof -
  let ?g = "\<lambda>q. q\<lparr>us_mfaSecret := Some (otp_secret (w_env w) (ids w)), us_mfaEnabled := False, us_mfaBackupCodes := JNull,
      us_updatedAt := clock (w_env w) (reads w)\<rparr>"
  have row: "find (\<lambda>q. us_id q = cu_id cu) (users w) = Some u"
    using find_by_key [OF assms(1,3)] assms(4) by simp
  obtain en w' where run: "mfa_enroll (Some cu) w = (Inr en, w')" and users: "users w' = upd_row us_id (us_id u) ?g (users w)"
    using row assms(4) by (simp add: mfa_enroll_def mfa_requireUser_def find_user_def update_user_def run_simps)
  have off: "\<not> us_mfaEnabled q" if "q \<in> set (users w')" "us_email q = us_email u" for q
  proof -
    from that(1) obtain r where r: "r \<in> set (users w)" "q = (if us_id r = us_id u then ?g r else r)"
      by (auto simp: users upd_row_def)
    then have "us_email r = us_email u" using that(2) by (auto split: if_splits)
    then have "r = u" using assms(2,3) r(1) by (auto simp: distinct_map inj_on_def)
    with r(2) show ?thesis by simp
  qed
  have "login (us_email u) password w' \<noteq> (Inr (Mfa_Required tempToken), w'')" for password tempToken w''
  proof
    assume "login (us_email u) password w' = (Inr (Mfa_Required tempToken), w'')"
    then obtain q where "q \<in> set (users w')" "us_email q = us_email u"
        "login_checked (us_email u) q (argon_verify (w_env w') (us_passwordHash q) password) w' = (Inr (Mfa_Required tempToken), w'')"
      by (rule login_Inr)
    with off [of q] login_checked_Inr show False by fastforce
  qed
  then show ?thesis by (simp add: run)
qed

theorem enrolling_drops_second_factor_witness:
  "case mfa_enroll (Some (context_of mfa_member)) (login_world mfa_member) of
      (Inr _, w') \<Rightarrow> (\<forall>password tempToken w''. login (us_email mfa_member) password w' \<noteq> (Inr (Mfa_Required tempToken), w''))
    | (Inl _, _) \<Rightarrow> False"
  by (rule enrolling_drops_second_factor) (simp_all add: login_world_def context_of_def)

end
