(* ===== verification/Agents.thy ===== *)
theory Agents
  imports Auth Runs
begin

section \<open>Agents\<close>

text \<open>
  \<open>apps/api/src/agents\<close>: the agents of an organization, the identifiers they get, and the status
  that decides whether they may work. A revoked agent is revoked for good.
\<close>

subsection \<open>Identifiers\<close>

definition AGENT_IDENTIFIER_DOMAIN :: string where
  "AGENT_IDENTIFIER_DOMAIN = ''agentpass.local''"

definition slug_char :: "char \<Rightarrow> bool" where
  "slug_char c \<longleftrightarrow> (let n = of_char c :: nat in (97 \<le> n \<and> n \<le> 122) \<or> (48 \<le> n \<and> n \<le> 57))"

text \<open>\<open>replace(/[^a-z0-9]+/g, '-')\<close>: each run of other characters becomes one dash.\<close>

function dash_runs :: "string \<Rightarrow> string" where
  "dash_runs [] = []"
| "dash_runs (c # cs) = (if slug_char c then c # dash_runs cs else CHR ''-'' # dash_runs (dropWhile (\<lambda>d. \<not> slug_char d) cs))"
  by pat_completeness auto
termination
  by (relation "measure length") (auto simp: length_dropWhile_le less_Suc_eq_le)

definition strip_dashes :: "string \<Rightarrow> string" where
  "strip_dashes s = rev (dropWhile (\<lambda>c. c = CHR ''-'') (rev (dropWhile (\<lambda>c. c = CHR ''-'') s)))"

definition slugify :: "string \<Rightarrow> string" where
  "slugify v = (let slug = strip_dashes (dash_runs (to_lower (trim v))) in if slug = [] then ''agent'' else slug)"

text \<open>A whole number inside a template literal.\<close>

fun decimal_text :: "nat \<Rightarrow> string" where
  "decimal_text n = (if n < 10 then [char_of (48 + n)] else decimal_text (n div 10) @ [char_of (48 + n mod 10)])"

declare decimal_text.simps [simp del]

definition first_candidate :: "string \<Rightarrow> string" where
  "first_candidate base = base @ ''@'' @ AGENT_IDENTIFIER_DOMAIN"

definition numbered_candidate :: "string \<Rightarrow> nat \<Rightarrow> string" where
  "numbered_candidate base n = base @ ''-'' @ decimal_text n @ ''@'' @ AGENT_IDENTIFIER_DOMAIN"

definition identifier_exists :: "agent_row list \<Rightarrow> string \<Rightarrow> bool" where
  "identifier_exists rs identifier \<longleftrightarrow> 0 < length (filter (\<lambda>a. ag_identifier a = identifier) rs)"

text \<open>The candidates in the order they are tried; the loop ends because they differ and only
finitely many identifiers are taken.\<close>

definition candidate :: "string \<Rightarrow> nat \<Rightarrow> string" where
  "candidate base n = (if n < 2 then first_candidate base else numbered_candidate base n)"

lemma digits_value_snoc: "digits_value (s @ [c]) = 10 * digits_value s + (of_char c - 48)"
  by (simp add: digits_value_def)

lemma digits_decimal [simp]: "digits_value (decimal_text n) = n"
proof (induction n rule: decimal_text.induct)
  case (1 n)
  show ?case
  proof (cases "n < 10")
    case True
    then show ?thesis by (subst decimal_text.simps) (simp add: digits_value_def)
  next
    case False
    with 1 show ?thesis by (subst decimal_text.simps) (simp add: digits_value_snoc)
  qed
qed

lemma candidate_inj: "1 \<le> m \<Longrightarrow> 1 \<le> n \<Longrightarrow> candidate base m = candidate base n \<Longrightarrow> m = n"
proof -
  have "decimal_text a = decimal_text b \<Longrightarrow> a = b" for a b by (metis digits_decimal)
  moreover have "first_candidate base \<noteq> numbered_candidate base k" for k
    by (simp add: first_candidate_def numbered_candidate_def)
  ultimately show "1 \<le> m \<Longrightarrow> 1 \<le> n \<Longrightarrow> candidate base m = candidate base n \<Longrightarrow> m = n"
    by (auto simp: candidate_def numbered_candidate_def split: if_splits) (metis not_less_eq less_2_cases le_antisym not_less)+
qed

definition taken_from :: "agent_row list \<Rightarrow> string \<Rightarrow> nat \<Rightarrow> nat set" where
  "taken_from rs base n = {m. n \<le> m \<and> 1 \<le> m \<and> identifier_exists rs (candidate base m)}"

lemma finite_taken: "finite (taken_from rs base n)"
proof (rule finite_imageD)
  show "finite (candidate base ` taken_from rs base n)"
    by (rule finite_subset [of _ "ag_identifier ` set rs"])
       (auto simp: taken_from_def identifier_exists_def filter_empty_conv image_iff, metis)
  show "inj_on (candidate base) (taken_from rs base n)"
    by (auto simp: inj_on_def taken_from_def intro: candidate_inj)
qed

function next_identifier :: "agent_row list \<Rightarrow> string \<Rightarrow> nat \<Rightarrow> string" where
  "next_identifier rs base n =
     (if 1 \<le> n \<and> identifier_exists rs (candidate base n) then next_identifier rs base (Suc n) else candidate base n)"
  by pat_completeness auto
termination
proof (relation "measure (\<lambda>(rs, base, n). card (taken_from rs base n))", simp)
  fix rs base n
  assume "1 \<le> n \<and> identifier_exists rs (candidate base n)"
  then have "taken_from rs base (Suc n) \<subset> taken_from rs base n"
    by (auto simp: taken_from_def Suc_le_eq)
  then show "((rs, base, Suc n), (rs, base, n)) \<in> measure (\<lambda>(rs, base, n). card (taken_from rs base n))"
    using psubset_card_mono [OF finite_taken] by simp
qed

declare next_identifier.simps [simp del]

definition generate :: "string \<Rightarrow> string action" where
  "generate name = gets (\<lambda>w. next_identifier (agents w) (slugify name) 1)"

text \<open>\<open>/^[a-z0-9]+(?:-[a-z0-9]+)*@agentpass\.local$/\<close>.\<close>

definition identifier_isValid :: "string \<Rightarrow> bool" where
  "identifier_isValid s \<longleftrightarrow> ends_with s (''@'' @ AGENT_IDENTIFIER_DOMAIN)
     \<and> list_all (\<lambda>p. p \<noteq> [] \<and> list_all slug_char p)
         (split_on (CHR ''-'') (take (length s - length (''@'' @ AGENT_IDENTIFIER_DOMAIN)) s))"

subsection \<open>Status rules\<close>

definition assertCanPause :: "agent_row \<Rightarrow> unit action" where
  "assertCanPause agent = require (ag_status agent \<noteq> Agent_Revoked)
     (DomainError WorkflowInvalidTransition ''Revoked agents cannot be paused.'')"

definition assertCanResume :: "agent_row \<Rightarrow> unit action" where
  "assertCanResume agent =
    bnd (require (ag_status agent \<noteq> Agent_Revoked) (DomainError WorkflowInvalidTransition ''Revoked agents cannot be resumed.'')) (\<lambda>_.
    require (ag_status agent = Agent_Paused) (DomainError WorkflowInvalidTransition ''Only paused agents can be resumed.''))"

definition assertCanRevoke :: "agent_row \<Rightarrow> unit action" where
  "assertCanRevoke agent = require (ag_status agent \<noteq> Agent_Revoked)
     (DomainError WorkflowInvalidTransition ''Agent is already revoked.'')"

definition assertCanStartWorkflow :: "agent_row \<Rightarrow> unit action" where
  "assertCanStartWorkflow agent = require (ag_status agent = Agent_Active)
     (DomainError AgentNotActive ''Agent must be active to start workflow runs.'')"

subsection \<open>Views\<close>

definition agent_status_text :: "agent_row \<Rightarrow> json" where
  "agent_status_text a = JStr (prisma_enum (agent_status_value (ag_status a)))"

definition toAgentDto :: "env \<Rightarrow> agent_row \<Rightarrow> json" where
  "toAgentDto e a = JObj
     [(''id'', JStr (ag_id a)), (''organizationId'', JStr (ag_org a)), (''name'', JStr (ag_name a)),
      (''identifier'', JStr (ag_identifier a)), (''purpose'', JStr (ag_purpose a)), (''status'', agent_status_text a),
      (''createdByUserId'', JStr (ag_createdBy a)), (''createdAt'', JStr (iso e (ag_createdAt a))),
      (''updatedAt'', JStr (iso e (ag_updatedAt a))), (''revokedAt'', iso_opt e (ag_revokedAt a))]"

definition toAgentActivityDto :: "env \<Rightarrow> agent_row \<Rightarrow> audit_row list \<Rightarrow> run_row list \<Rightarrow> json" where
  "toAgentActivityDto e a auditEvents workflowRuns = JObj
     [(''agent'', toAgentDto e a),
      (''auditEvents'', JArr (map (toAuditEventDto e) auditEvents)),
      (''workflowRuns'', JArr (map (\<lambda>r. JObj
        [(''id'', JStr (run_id r)), (''workflowId'', JStr (run_workflow r)), (''vendorId'', jopt (run_vendor r)),
         (''status'', JStr (prisma_enum (workflow_run_status_value (run_status r)))), (''currentStep'', jopt (run_currentStep r)),
         (''resultSummary'', jopt (run_resultSummary r)), (''errorMessage'', jopt (run_errorMessage r)),
         (''createdAt'', JStr (iso e (run_createdAt r))), (''updatedAt'', JStr (iso e (run_updatedAt r)))]) workflowRuns))]"

subsection \<open>Operations\<close>

record agent_input =
  an_name :: string
  an_purpose :: string
  an_identifier :: "string option"

record agent_change =
  ac_name :: "string option"
  ac_purpose :: "string option"

definition agent_not_found :: err where
  "agent_not_found = DomainError NotFound ''Agent was not found.''"

definition findAgentInOrganization :: "string option \<Rightarrow> string \<Rightarrow> agent_row action" where
  "findAgentInOrganization organizationId k =
    bnd (require_org organizationId) (\<lambda>org.
    bnd (find_first agent_t (\<lambda>a. ag_id a = k \<and> ag_org a = org)) (\<lambda>agent.
    require_some agent agent_not_found))"

definition recordAgentAudit :: "context_user \<Rightarrow> string \<Rightarrow> audit_event_type \<Rightarrow> (string \<times> json) list \<Rightarrow> unit action" where
  "recordAgentAudit currentUser agentId eventType eventData =
    bnd (record_audit \<lparr>ai_org = cu_org currentUser, ai_run = None, ai_agent = Some agentId, ai_actorType = Actor_User,
      ai_actorId = Some (cu_id currentUser), ai_eventType = eventType, ai_data = JObj eventData\<rparr>) (\<lambda>_. ret ())"

definition update_agent :: "string \<Rightarrow> (agent_row \<Rightarrow> agent_row) \<Rightarrow> agent_row action" where
  "update_agent k f = bnd new_date (\<lambda>now. update_row agent_t record_not_found k (\<lambda>a. (f a)\<lparr>ag_updatedAt := now\<rparr>))"

definition agent_list :: "string option \<Rightarrow> page_query \<Rightarrow> (json list \<times> pagination_meta) action" where
  "agent_list organizationId page =
    bnd (require_org organizationId) (\<lambda>org.
    bnd (find_many agent_t (\<lambda>a. ag_org a = org)) (\<lambda>found.
    gets (\<lambda>w. (map (toAgentDto (w_env w)) (page_slice page (sort_key (\<lambda>a. (ag_createdAt a, ag_name a)) found)),
      paginationMeta (length found) page))))"

definition agent_get :: "string option \<Rightarrow> string \<Rightarrow> json action" where
  "agent_get organizationId k = bnd (findAgentInOrganization organizationId k) (\<lambda>a. gets (\<lambda>w. toAgentDto (w_env w) a))"

definition agent_create :: "context_user option \<Rightarrow> agent_input \<Rightarrow> json action" where
  "agent_create currentUser i =
    bnd (require_user currentUser) (\<lambda>user.
    bnd (case an_identifier i of Some identifier \<Rightarrow> ret identifier | None \<Rightarrow> generate (an_name i)) (\<lambda>identifier.
    bnd (require (identifier_isValid identifier)
      (DomainError ValidationFailed ''Agent identifier must use the agentpass.local format.'')) (\<lambda>_.
    bnd (find_first agent_t (\<lambda>a. ag_identifier a = identifier)) (\<lambda>duplicate.
    bnd (require (duplicate = None) (DomainError ValidationFailed ''Agent identifier already exists.'')) (\<lambda>_.
    bnd fresh_id (\<lambda>k. bnd new_date (\<lambda>now.
    bnd (create_row agent_t \<lparr>ag_id = k, ag_org = cu_org user, ag_name = an_name i, ag_identifier = identifier,
      ag_purpose = an_purpose i, ag_status = Agent_Active, ag_createdBy = cu_id user, ag_createdAt = now, ag_updatedAt = now,
      ag_revokedAt = None\<rparr>) (\<lambda>agent.
    bnd (recordAgentAudit user (ag_id agent) Ev_AgentCreated [(''name'', JStr (ag_name agent)),
      (''identifier'', JStr (ag_identifier agent)), (''purpose'', JStr (ag_purpose agent))]) (\<lambda>_.
    gets (\<lambda>w. toAgentDto (w_env w) agent))))))))))"

definition agent_update :: "context_user option \<Rightarrow> string \<Rightarrow> agent_change \<Rightarrow> json action" where
  "agent_update currentUser k i =
    bnd (require_user currentUser) (\<lambda>user.
    bnd (findAgentInOrganization (Some (cu_org user)) k) (\<lambda>existing.
    bnd (require (ag_status existing \<noteq> Agent_Revoked)
      (DomainError WorkflowInvalidTransition ''Revoked agents cannot be updated.'')) (\<lambda>_.
    bnd (update_agent (ag_id existing) (\<lambda>a. a\<lparr>ag_name := coalesce (ac_name i) (ag_name a),
      ag_purpose := coalesce (ac_purpose i) (ag_purpose a)\<rparr>)) (\<lambda>agent.
    bnd (recordAgentAudit user (ag_id agent) Ev_AgentUpdated [(''name'', JStr (ag_name agent)), (''purpose'', JStr (ag_purpose agent))]) (\<lambda>_.
    gets (\<lambda>w. toAgentDto (w_env w) agent))))))"

definition agent_pause :: "context_user option \<Rightarrow> string \<Rightarrow> json action" where
  "agent_pause currentUser k =
    bnd (require_user currentUser) (\<lambda>user.
    bnd (findAgentInOrganization (Some (cu_org user)) k) (\<lambda>existing.
    bnd (assertCanPause existing) (\<lambda>_.
    bnd (update_agent (ag_id existing) (\<lambda>a. a\<lparr>ag_status := Agent_Paused\<rparr>)) (\<lambda>agent.
    bnd (recordAgentAudit user (ag_id agent) Ev_AgentPaused [(''previousStatus'', agent_status_text existing),
      (''nextStatus'', agent_status_text agent)]) (\<lambda>_.
    gets (\<lambda>w. toAgentDto (w_env w) agent))))))"

definition agent_resume :: "context_user option \<Rightarrow> string \<Rightarrow> json action" where
  "agent_resume currentUser k =
    bnd (require_user currentUser) (\<lambda>user.
    bnd (findAgentInOrganization (Some (cu_org user)) k) (\<lambda>existing.
    bnd (assertCanResume existing) (\<lambda>_.
    bnd (update_agent (ag_id existing) (\<lambda>a. a\<lparr>ag_status := Agent_Active\<rparr>)) (\<lambda>agent.
    bnd (recordAgentAudit user (ag_id agent) Ev_AgentResumed [(''previousStatus'', agent_status_text existing),
      (''nextStatus'', agent_status_text agent)]) (\<lambda>_.
    gets (\<lambda>w. toAgentDto (w_env w) agent))))))"

definition agent_revoke :: "context_user option \<Rightarrow> string \<Rightarrow> json action" where
  "agent_revoke currentUser k =
    bnd (require_user currentUser) (\<lambda>user.
    bnd (findAgentInOrganization (Some (cu_org user)) k) (\<lambda>existing.
    bnd (assertCanRevoke existing) (\<lambda>_.
    bnd new_date (\<lambda>t.
    bnd (update_agent (ag_id existing) (\<lambda>a. a\<lparr>ag_status := Agent_Revoked, ag_revokedAt := Some t\<rparr>)) (\<lambda>agent.
    bnd (recordAgentAudit user (ag_id agent) Ev_AgentRevoked [(''previousStatus'', agent_status_text existing),
      (''nextStatus'', agent_status_text agent)]) (\<lambda>_.
    gets (\<lambda>w. toAgentDto (w_env w) agent)))))))"

definition assertAgentCanStartWorkflow :: "string \<Rightarrow> string \<Rightarrow> unit action" where
  "assertAgentCanStartWorkflow organizationId k =
    bnd (findAgentInOrganization (Some organizationId) k) assertCanStartWorkflow"

text \<open>The last 25 events and the last ten runs of an agent.\<close>

definition getActivity :: "string option \<Rightarrow> string \<Rightarrow> json action" where
  "getActivity organizationId agentId =
    bnd (require_org organizationId) (\<lambda>org.
    bnd (find_first agent_t (\<lambda>a. ag_id a = agentId \<and> ag_org a = org)) (\<lambda>found.
    bnd (require_some found agent_not_found) (\<lambda>agent.
    bnd (find_many audit_t (\<lambda>a. au_org a = org \<and> au_agent a = Some agentId)) (\<lambda>auditEvents.
    bnd (find_many run_t (\<lambda>r. run_org r = org \<and> run_agent r = agentId)) (\<lambda>workflowRuns.
    gets (\<lambda>w. toAgentActivityDto (w_env w) agent (take 25 (order_desc au_createdAt au_id auditEvents))
      (take 10 (order_desc run_createdAt run_id workflowRuns))))))))"

subsection \<open>The identifier that is generated\<close>

lemma next_identifier_search:
  assumes "1 \<le> n"
  shows "\<exists>m. n \<le> m \<and> m \<le> n + card (taken_from rs base n) \<and> next_identifier rs base n = candidate base m
    \<and> \<not> identifier_exists rs (candidate base m) \<and> (\<forall>l. n \<le> l \<and> l < m \<longrightarrow> identifier_exists rs (candidate base l))"
  using assms
proof (induction rs base n rule: next_identifier.induct)
  case (1 rs base n)
  show ?case
  proof (cases "identifier_exists rs (candidate base n)")
    case True
    have less: "card (taken_from rs base (Suc n)) < card (taken_from rs base n)"
      using True "1.prems" by (intro psubset_card_mono finite_taken) (auto simp: taken_from_def Suc_le_eq)
    from "1.IH" True "1.prems" obtain m where m: "Suc n \<le> m" "m \<le> Suc n + card (taken_from rs base (Suc n))"
      "next_identifier rs base (Suc n) = candidate base m" "\<not> identifier_exists rs (candidate base m)"
      "\<forall>l. Suc n \<le> l \<and> l < m \<longrightarrow> identifier_exists rs (candidate base l)" by auto
    moreover have "next_identifier rs base n = next_identifier rs base (Suc n)"
      using True "1.prems" by (subst next_identifier.simps) simp
    moreover have "\<forall>l. n \<le> l \<and> l < m \<longrightarrow> identifier_exists rs (candidate base l)"
      using m(5) True by (metis Suc_leI le_neq_implies_less)
    ultimately show ?thesis using less by (intro exI [of _ m]) auto
  next
    case False
    then have "next_identifier rs base n = candidate base n" by (subst next_identifier.simps) simp
    with False show ?thesis by (intro exI [of _ n]) auto
  qed
qed

lemma card_taken: "card (taken_from rs base 1) \<le> length rs"
proof -
  have "card (taken_from rs base 1) = card (candidate base ` taken_from rs base 1)"
    by (rule card_image [symmetric]) (auto simp: inj_on_def taken_from_def intro: candidate_inj)
  also have "\<dots> \<le> card (ag_identifier ` set rs)"
    by (rule card_mono) (auto simp: taken_from_def identifier_exists_def filter_empty_conv image_iff, metis)
  also have "\<dots> \<le> length rs" using card_image_le card_length le_trans by blast
  finally show ?thesis .
qed

text \<open>Slugs: no two dashes in a row, none at either end.\<close>

definition dash_free_pair :: "char \<Rightarrow> char \<Rightarrow> bool" where
  "dash_free_pair a b \<longleftrightarrow> \<not> (a = CHR ''-'' \<and> b = CHR ''-'')"

definition slug_parts :: "string \<Rightarrow> bool" where
  "slug_parts s \<longleftrightarrow> list_all (\<lambda>p. p \<noteq> [] \<and> list_all slug_char p) (split_on (CHR ''-'') s)"

lemma dash_no_slug [simp]: "\<not> slug_char (CHR ''-'')"
  by (simp add: slug_char_def)

lemma dash_runs_chars: "c \<in> set (dash_runs s) \<Longrightarrow> slug_char c \<or> c = CHR ''-''"
  by (induction s rule: dash_runs.induct) (auto split: if_splits)

lemma dash_runs_hd: "dash_runs (dropWhile (\<lambda>d. \<not> slug_char d) s) = [] \<or> slug_char (hd (dash_runs (dropWhile (\<lambda>d. \<not> slug_char d) s)))"
  by (induction s) auto

lemma dash_runs_pairs: "successively dash_free_pair (dash_runs s)"
proof (induction s rule: dash_runs.induct)
  case (2 c cs)
  then show ?case using dash_runs_hd [of cs] by (auto simp: successively_Cons dash_free_pair_def)
qed simp

lemma successively_dropWhile: "successively P xs \<Longrightarrow> successively P (dropWhile Q xs)"
  using successively_append_iff [of P "takeWhile Q xs" "dropWhile Q xs"] by simp

lemma slug_parts_iff:
  assumes "successively dash_free_pair s" and "\<And>c. c \<in> set s \<Longrightarrow> slug_char c \<or> c = CHR ''-''" and "s \<noteq> []" and "last s \<noteq> CHR ''-''"
  shows "(hd s \<noteq> CHR ''-'' \<longrightarrow> slug_parts s) \<and> (hd s = CHR ''-'' \<longrightarrow> slug_parts (tl s))"
  using assms
proof (induction s)
  case (Cons c cs)
  show ?case
  proof (cases cs)
    case Nil
    with Cons.prems show ?thesis by (auto simp: slug_parts_def)
  next
    case (Cons d ds)
    then have IH: "(d \<noteq> CHR ''-'' \<longrightarrow> slug_parts cs) \<and> (d = CHR ''-'' \<longrightarrow> slug_parts ds)"
      using Cons.IH Cons.prems by (auto simp: successively_Cons)
    obtain p ps where split: "split_on (CHR ''-'') cs = p # ps" by (cases "split_on (CHR ''-'') cs") auto
    show ?thesis
    proof (cases "c = CHR ''-''")
      case True
      then show ?thesis using IH Cons.prems(1) Cons by (auto simp: successively_Cons dash_free_pair_def)
    next
      case False
      then have "slug_char c" using Cons.prems(2) by auto
      moreover have "slug_parts (c # cs)"
      proof (cases "d = CHR ''-''")
        case True
        then show ?thesis using False \<open>slug_char c\<close> IH Cons by (simp add: slug_parts_def)
      next
        case False2: False
        then show ?thesis using False \<open>slug_char c\<close> IH split by (simp add: slug_parts_def)
      qed
      ultimately show ?thesis using False by simp
    qed
  qed
qed simp

lemma slugify_parts: "slug_parts (slugify v)"
proof -
  define s where "s = strip_dashes (dash_runs (to_lower (trim v)))"
  have "slug_parts s" if "s \<noteq> []"
  proof -
    define t where "t = dropWhile (\<lambda>c. c = CHR ''-'') (dash_runs (to_lower (trim v)))"
    have t: "successively dash_free_pair t" "\<And>c. c \<in> set t \<Longrightarrow> slug_char c \<or> c = CHR ''-''"
      unfolding t_def by (rule successively_dropWhile, rule dash_runs_pairs, rule dash_runs_chars, rule set_dropWhileD)
    have s: "s = rev (dropWhile (\<lambda>c. c = CHR ''-'') (rev t))" by (simp add: s_def strip_dashes_def t_def)
    have "successively (\<lambda>a b. dash_free_pair b a) (rev t)" using t(1) by (simp add: successively_rev)
    then have "successively dash_free_pair s"
      using successively_dropWhile [of "\<lambda>a b. dash_free_pair b a" "rev t"] by (simp add: s successively_rev)
    moreover have "slug_char c \<or> c = CHR ''-''" if "c \<in> set s" for c
      using t(2) [of c] that set_dropWhileD [of c "\<lambda>c. c = CHR ''-''" "rev t"] by (simp add: s)
    moreover have "last s \<noteq> CHR ''-''"
      using that hd_dropWhile [of "\<lambda>c. c = CHR ''-''" "rev t"] by (simp add: s last_rev)
    moreover have "hd s \<noteq> CHR ''-''"
    proof -
      have "t = s @ rev (takeWhile (\<lambda>c. c = CHR ''-'') (rev t))"
        using takeWhile_dropWhile_id [of "\<lambda>c. c = CHR ''-''" "rev t"] arg_cong [of _ _ rev] unfolding s by (metis rev_append rev_rev_ident)
      then have "hd t = hd s" "t \<noteq> []" using that by (metis hd_append2, metis Nil_is_append_conv)
      then show ?thesis using hd_dropWhile [of "\<lambda>c. c = CHR ''-''" "dash_runs (to_lower (trim v))"] by (simp add: t_def)
    qed
    ultimately show ?thesis using slug_parts_iff [of s] that by blast
  qed
  moreover have "slug_parts ''agent''" by code_simp
  ultimately show ?thesis by (auto simp: slugify_def s_def [symmetric] Let_def)
qed

lemma split_on_joined: "split_on sep (a @ sep # b) = split_on sep a @ split_on sep b"
  by (induction a) (auto split: list.splits)

lemma slug_parts_append: "slug_parts a \<Longrightarrow> slug_parts b \<Longrightarrow> slug_parts (a @ CHR ''-'' # b)"
  by (simp add: slug_parts_def split_on_joined)

lemma decimal_slug: "slug_parts (decimal_text n)"
proof -
  have digits: "decimal_text n \<noteq> [] \<and> list_all slug_char (decimal_text n)" for n
  proof (induction n rule: decimal_text.induct)
    case (1 n)
    have "slug_char (char_of (48 + k))" if "k < 10" for k :: nat
    proof -
      have "k \<in> {0, 1, 2, 3, 4, 5, 6, 7, 8, 9}" using that by auto
      then show ?thesis by (elim insertE) (simp_all add: slug_char_def)
    qed
    then show ?case using 1 by (subst (1 2) decimal_text.simps) auto
  qed
  have "CHR ''-'' \<notin> set (decimal_text n)" using digits [of n] dash_no_slug by (auto simp: list_all_iff)
  then show ?thesis using digits [of n] by (simp add: slug_parts_def split_on_absent)
qed

lemma candidate_valid:
  assumes "slug_parts base"
  shows "identifier_isValid (candidate base n)"
proof -
  have valid: "identifier_isValid (p @ ''@'' @ AGENT_IDENTIFIER_DOMAIN)" if "slug_parts p" for p
    using that by (simp add: identifier_isValid_def slug_parts_def ends_with_def suffix_def)
  show ?thesis
    using valid [OF assms] valid [OF slug_parts_append [OF assms decimal_slug [of n]]]
    by (simp add: candidate_def first_candidate_def numbered_candidate_def)
qed

text \<open>C30. The search for an identifier ends: after at most as many refused candidates as there are
agents it returns the first candidate nobody uses, which has the required format; nothing is
written.\<close>

theorem generate_terminates:
  "\<exists>m. 1 \<le> m \<and> m \<le> Suc (length (agents w))
    \<and> generate name w = (Inr (candidate (slugify name) m), w)
    \<and> \<not> identifier_exists (agents w) (candidate (slugify name) m)
    \<and> {l. 1 \<le> l \<and> l < m \<and> \<not> identifier_exists (agents w) (candidate (slugify name) l)} = {}
    \<and> identifier_isValid (candidate (slugify name) m)"
proof -
  obtain m where "1 \<le> m" "m \<le> 1 + card (taken_from (agents w) (slugify name) 1)"
    "next_identifier (agents w) (slugify name) 1 = candidate (slugify name) m"
    "\<not> identifier_exists (agents w) (candidate (slugify name) m)"
    "\<forall>l. 1 \<le> l \<and> l < m \<longrightarrow> identifier_exists (agents w) (candidate (slugify name) l)"
    using next_identifier_search [of 1 "agents w" "slugify name"] by auto
  moreover have "identifier_isValid (candidate (slugify name) m)" by (intro candidate_valid slugify_parts)
  ultimately show ?thesis
    using card_taken [of "agents w" "slugify name"] by (intro exI [of _ m]) (auto simp: generate_def gets_def)
qed

subsection \<open>What operations do to agents\<close>

definition agent_like :: "agent_row \<Rightarrow> agent_row \<Rightarrow> bool" where
  "agent_like a a' \<longleftrightarrow> ag_id a' = ag_id a \<and> ag_org a' = ag_org a \<and> ag_identifier a' = ag_identifier a
     \<and> (ag_status a = Agent_Revoked \<longrightarrow> a' = a)"

definition agents_ok :: "world \<Rightarrow> world \<Rightarrow> bool" where
  "agents_ok = rows_ok agent_t agent_like"

lemma agent_t_sel [simp]: "tget agent_t = agents" "tkey agent_t = ag_id"
  by (simp_all add: agent_t_def)

interpretation ags: row_order agent_t agent_like
  rewrites "rows_ok agent_t agent_like = agents_ok" and "tget agent_t = agents" and "tkey agent_t = ag_id"
  by unfold_locales (auto simp: agent_like_def agents_ok_def)

lemma keeps_agents [simp, effect_intros]: "keeps agents audit_t"
  by (simp add: keeps_defs)

lemmas agent_checks = findAgentInOrganization_def require_org_def require_user_def
  assertCanPause_def assertCanResume_def assertCanRevoke_def assertCanStartWorkflow_def

lemma same_agent_checks [effect_intros]:
  "effect (same_of f) (findAgentInOrganization org k) w"
  "effect (same_of f) (require_user u) w"
  "effect (same_of f) (assertCanPause a) w"
  "effect (same_of f) (assertCanResume a) w"
  "effect (same_of f) (assertCanRevoke a) w"
  "effect (same_of f) (assertCanStartWorkflow a) w"
  "effect (same_of f) (generate name) w"
  unfolding agent_checks generate_def by (intro effect_intros)+

lemma audit_agent_parts [effect_intros]:
  "effect audit_ok (findAgentInOrganization org k) w"
  "effect audit_ok (assertCanPause a) w"
  "effect audit_ok (assertCanResume a) w"
  "effect audit_ok (assertCanRevoke a) w"
  "effect audit_ok (assertCanStartWorkflow a) w"
  "effect audit_ok (generate name) w"
  by (rule same_quiet, intro effect_intros)+

lemma audit_agent_steps [effect_intros]:
  "effect audit_ok (update_agent k f) w"
  "effect audit_ok (recordAgentAudit user a ev d) w"
  unfolding update_agent_def recordAgentAudit_def by (intro effect_intros)+

lemma audit_agent_ops [effect_intros]:
  "effect audit_ok (agent_create u i) w"
  "effect audit_ok (agent_update u k c) w"
  "effect audit_ok (agent_pause u k) w"
  "effect audit_ok (agent_resume u k) w"
  "effect audit_ok (agent_revoke u k) w"
  unfolding agent_create_def agent_update_def agent_pause_def agent_resume_def agent_revoke_def
  by (intro effect_intros)+

lemma ags_parts [effect_intros]:
  "effect agents_ok (findAgentInOrganization org k) w"
  "effect agents_ok (require_user u) w"
  "effect agents_ok (recordAgentAudit user a ev d) w"
  "effect agents_ok (generate name) w"
  "effect agents_ok new_date w"
  "effect agents_ok fresh_id w"
  unfolding recordAgentAudit_def by (rule ags.rows_same, intro effect_intros; simp)+

lemma findAgent_row:
  assumes "unique_keys agent_t w" and "findAgentInOrganization org k w = (Inr a, w')"
  shows "row_of agent_t (ag_id a) w' = Some a"
proof -
  obtain g where f: "find (\<lambda>a. ag_id a = k \<and> ag_org a = g) (agents w) = Some a" and "w' = w"
    using assms(2) unfolding findAgentInOrganization_def require_org_def
    by (auto simp: step_simps split: option.splits if_splits)
  then show ?thesis
    using find_unique [OF assms(1) [unfolded unique_keys_def agent_t_sel] f] find_SomeD [OF f] by (auto simp: row_of_def)
qed

text \<open>The shape of every change: find the agent, check its status, update it, record the event.\<close>

lemma ags_change:
  assumes "\<And>a x s s'. chk a s = (Inr x, s') \<Longrightarrow> s' = s \<and> ag_status a \<noteq> Agent_Revoked"
    and "\<And>a w. effect (same_of agents) (chk a) w"
    and "\<And>a t. effect (same_of agents) pre t" and "\<And>t a. ag_id (f t a) = ag_id a \<and> ag_org (f t a) = ag_org a \<and> ag_identifier (f t a) = ag_identifier a"
    and "\<And>e a w. effect agents_ok (rest e a) w"
  shows "effect agents_ok (bnd (findAgentInOrganization org k) (\<lambda>e. bnd (chk e) (\<lambda>_. bnd pre (\<lambda>t. bnd (update_agent (ag_id e) (f t)) (rest e))))) w"
proof (rule ags.rows_unique, rule ags.ord.effect_bnd)
  show "effect agents_ok (findAgentInOrganization org k) w" by (intro effect_intros)
  fix e w1 assume uniq: "unique_keys agent_t w" and found: "findAgentInOrganization org k w = (Inr e, w1)"
  from findAgent_row [OF this] have row: "row_of agent_t (ag_id e) w1 = Some e" .
  show "effect agents_ok (bnd (chk e) (\<lambda>_. bnd pre (\<lambda>t. bnd (update_agent (ag_id e) (f t)) (rest e)))) w1"
  proof (rule ags.keep_bnd [OF row assms(2)])
    fix x s assume row: "row_of agent_t (ag_id e) s = Some e" and ok: "chk e w1 = (Inr x, s)"
    then have active: "ag_status e \<noteq> Agent_Revoked" using assms(1) by blast
    show "effect agents_ok (bnd pre (\<lambda>t. bnd (update_agent (ag_id e) (f t)) (rest e))) s"
    proof (rule ags.keep_bnd [OF row assms(3)])
      fix t s' assume "row_of agent_t (ag_id e) s' = Some e"
      then show "effect agents_ok (bnd (update_agent (ag_id e) (f t)) (rest e)) s'"
        unfolding update_agent_def
        by (rule ags.keep_update) (use assms(4,5) active in \<open>auto simp: agent_like_def intro: effect_intros\<close>)
    qed
  qed
qed

lemma resume_checked: "assertCanResume a s = (Inr x, s') \<Longrightarrow> s' = s \<and> ag_status a \<noteq> Agent_Revoked"
  unfolding assertCanResume_def by (auto elim!: bnd_requireE)

lemma ags_ops:
  "effect agents_ok (agent_update u k c) w"
  "effect agents_ok (agent_pause u k) w"
  "effect agents_ok (agent_resume u k) w"
  "effect agents_ok (agent_revoke u k) w"
proof -
  have plain: "effect agents_ok (bnd (findAgentInOrganization org k) (\<lambda>e. bnd (chk e) (\<lambda>_. bnd (update_agent (ag_id e) f) (rest e)))) w"
    if "\<And>a x s s'. chk a s = (Inr x, s') \<Longrightarrow> s' = s \<and> ag_status a \<noteq> Agent_Revoked"
      "\<And>a w. effect (same_of agents) (chk a) w" "\<And>a. ag_id (f a) = ag_id a \<and> ag_org (f a) = ag_org a \<and> ag_identifier (f a) = ag_identifier a"
      "\<And>e a w. effect agents_ok (rest e a) w" for chk f rest org w
    using ags_change [of chk "ret ()" "\<lambda>_. f" rest org k w] that by (simp add: bnd_ret same.effect_ret)
  show "effect agents_ok (agent_update u k c) w"
    unfolding agent_update_def
    by (rule ags.ord.effect_bnd, intro effect_intros, rule plain) (auto simp: same.effect_require intro!: effect_intros)
  show "effect agents_ok (agent_pause u k) w"
    unfolding agent_pause_def
    by (rule ags.ord.effect_bnd, intro effect_intros, rule plain) (auto simp: assertCanPause_def intro!: effect_intros)
  show "effect agents_ok (agent_resume u k) w"
    unfolding agent_resume_def
    by (rule ags.ord.effect_bnd, intro effect_intros, rule plain)
       (auto dest: resume_checked intro!: effect_intros)
  show "effect agents_ok (agent_revoke u k) w"
    unfolding agent_revoke_def
    by (rule ags.ord.effect_bnd, intro effect_intros, rule ags_change) (auto simp: assertCanRevoke_def intro!: effect_intros)
qed

text \<open>A row appended under a fresh key.\<close>

lemma rows_append:
  assumes "tget t w' = tget t w @ [r]" and "tkey t r \<notin> tkey t ` set (tget t w)" and "\<And>q. like q q"
  shows "rows_ok t like w w'"
  unfolding rows_ok_def
proof (intro impI conjI allI)
  assume "unique_keys t w"
  then show "unique_keys t w'" using assms(1,2) by (simp add: unique_keys_def)
next
  fix k q assume "row_of t k w = Some q"
  then have "row_of t k w' = Some q" by (simp add: row_of_def assms(1) find_append)
  then show "\<exists>q'. row_of t k w' = Some q' \<and> like q q'" using assms(3) by blast
qed

lemma agent_create_rows:
  "agents (snd (agent_create u i w)) = agents w
   \<or> (\<exists>a. agents (snd (agent_create u i w)) = agents w @ [a] \<and> ag_id a = uuid (w_env w) (ids w) \<and> ag_status a = Agent_Active
        \<and> identifier_isValid (ag_identifier a) \<and> ag_identifier a \<notin> ag_identifier ` set (agents w))"
proof (cases u)
  case None
  then show ?thesis by (simp add: agent_create_def require_user_def step_simps)
next
  case (Some user)
  define ident where "ident = (case an_identifier i of Some s \<Rightarrow> s | None \<Rightarrow> next_identifier (agents w) (slugify (an_name i)) 1)"
  have pick: "(case an_identifier i of Some s \<Rightarrow> ret s | None \<Rightarrow> generate (an_name i)) w = (Inr ident, w)"
    by (cases "an_identifier i") (simp_all add: ident_def generate_def step_simps)
  show ?thesis
    unfolding agent_create_def Some require_user_def bnd_require_some
      bnd_Inr [of "case an_identifier i of Some s \<Rightarrow> ret s | None \<Rightarrow> generate (an_name i)", OF pick]
    by (cases "find (\<lambda>a. ag_identifier a = ident) (agents w)")
       (auto simp: step_simps recordAgentAudit_def record_audit_run Let_def bnd_assoc agent_t_def find_None_iff)
qed

lemma ags_create:
  assumes "uuid (w_env w) (ids w) \<notin> ag_id ` set (agents w)"
  shows "effect agents_ok (agent_create u i) w"
  using agent_create_rows [of u i w]
proof
  assume "agents (snd (agent_create u i w)) = agents w"
  then show ?thesis by (intro ags.rows_same) (simp add: effect_def same_of_def)
next
  assume "\<exists>a. agents (snd (agent_create u i w)) = agents w @ [a] \<and> ag_id a = uuid (w_env w) (ids w) \<and> ag_status a = Agent_Active
        \<and> identifier_isValid (ag_identifier a) \<and> ag_identifier a \<notin> ag_identifier ` set (agents w)"
  then show ?thesis
    using assms unfolding effect_def agents_ok_def by (auto intro!: rows_append simp: agent_like_def)
qed

end
