(* ===== verification/Policies.thy ===== *)
theory Policies
  imports Agents Policy_Engine
begin

section \<open>Policies\<close>

text \<open>
  \<open>apps/api/src/policies\<close>: the validation that turns the JSON of a request into the rules of a
  policy, creating and updating policies with at most one active bundle per agent, and the
  evaluation of an action against a stored or a proposed policy.
\<close>

subsection \<open>Validation\<close>

definition policy_invalid :: "string \<Rightarrow> err" where
  "policy_invalid message = DomainError ValidationFailed message"

definition json_str :: "json \<Rightarrow> string option" where
  "json_str v = (case v of JStr s \<Rightarrow> Some s | _ \<Rightarrow> None)"

definition string_items_of :: "json option \<Rightarrow> string list option" where
  "string_items_of v = (case v of Some (JArr js) \<Rightarrow> those (map json_str js) | _ \<Rightarrow> None)"

definition stringArray :: "json option \<Rightarrow> string \<Rightarrow> string list action" where
  "stringArray v fld =
    bnd (require_some (string_items_of v) (policy_invalid (fld @ '' must be an array of strings.''))) (\<lambda>items.
    ret (dedupe (map (\<lambda>item. to_lower (trim item)) items)))"

definition enum_items :: "('e \<Rightarrow> string) \<Rightarrow> 'e list \<Rightarrow> json list \<Rightarrow> 'e list option" where
  "enum_items v known js = those (map (\<lambda>j. case json_str j of None \<Rightarrow> None | Some s \<Rightarrow> parse_enum v known s) js)"

definition actionArray :: "json option \<Rightarrow> string \<Rightarrow> action_type list action" where
  "actionArray v fld = (case v of
     Some (JArr js) \<Rightarrow>
       bnd (require_some (enum_items action_type_value ACTION_TYPES js) (policy_invalid (fld @ '' contains an unknown action type.''))) (\<lambda>items.
       ret (sort_key action_type_value (dedupe items)))
   | _ \<Rightarrow> throw (policy_invalid (fld @ '' must be an array of action types.'')))"

text \<open>\<open>Number.isInteger\<close>.\<close>

definition json_int :: "json option \<Rightarrow> int option" where
  "json_int v = (case v of Some (JNum q) \<Rightarrow> if q = of_int \<lfloor>q\<rfloor> then Some \<lfloor>q\<rfloor> else None | _ \<Rightarrow> None)"

definition money :: "json option \<Rightarrow> string \<Rightarrow> int action" where
  "money v fld = (case json_int v of
     Some n \<Rightarrow> if n < 0 then throw (policy_invalid (fld @ '' must be a non-negative integer.'')) else ret n
   | None \<Rightarrow> throw (policy_invalid (fld @ '' must be a non-negative integer.'')))"

definition timezone_of :: "json option \<Rightarrow> string option action" where
  "timezone_of v = (case v of
     None \<Rightarrow> ret None
   | Some (JStr s) \<Rightarrow> bnd (require (trim s \<noteq> []) (policy_invalid ''businessHours.timezone must be a non-empty string.'')) (\<lambda>_. ret (Some (trim s)))
   | Some _ \<Rightarrow> throw (policy_invalid ''businessHours.timezone must be a non-empty string.''))"

definition weekday :: "json \<Rightarrow> int option" where
  "weekday v = (case json_int (Some v) of Some d \<Rightarrow> if d < 0 \<or> 6 < d then None else Some d | None \<Rightarrow> None)"

definition weekdays_of :: "json option \<Rightarrow> int list option action" where
  "weekdays_of v = (case v of
     None \<Rightarrow> ret None
   | Some (JArr js) \<Rightarrow>
       bnd (require_some (those (map weekday js)) (policy_invalid ''businessHours.weekdays must contain integers from 0 to 6.'')) (\<lambda>days.
       ret (Some (sort (dedupe days))))
   | Some _ \<Rightarrow> throw (policy_invalid ''businessHours.weekdays must contain integers from 0 to 6.''))"

definition hours_of :: "json option \<Rightarrow> json option \<Rightarrow> (int option \<times> int option) action" where
  "hours_of startHour endHour =
    (if startHour = None \<and> endHour = None then ret (None, None)
     else case (json_int startHour, json_int endHour) of
       (Some s, Some t) \<Rightarrow>
         bnd (require (\<not> (s < 0 \<or> 23 < s \<or> t < 1 \<or> 24 < t \<or> s \<ge> t)) (policy_invalid ''businessHours start and end hours are invalid.'')) (\<lambda>_.
         ret (Some s, Some t))
     | _ \<Rightarrow> throw (policy_invalid ''businessHours start and end hours are invalid.''))"

definition json_bool :: "json option \<Rightarrow> bool option" where
  "json_bool v = (case v of Some (JBool b) \<Rightarrow> Some b | _ \<Rightarrow> None)"

definition businessHours :: "json \<Rightarrow> business_hours action" where
  "businessHours v =
    bnd (require_some (if is_json_object v then json_bool (map_of (as_object v) ''enabled'') else None)
      (policy_invalid ''businessHours.enabled must be boolean.'')) (\<lambda>enabled.
    bnd (timezone_of (map_of (as_object v) ''timezone'')) (\<lambda>timezone.
    bnd (weekdays_of (map_of (as_object v) ''weekdays'')) (\<lambda>weekdays.
    bnd (hours_of (map_of (as_object v) ''startHour'') (map_of (as_object v) ''endHour'')) (\<lambda>hours.
    ret \<lparr>bh_enabled = enabled, bh_timezone = timezone, bh_weekdays = weekdays,
      bh_startHour = fst hours, bh_endHour = snd hours\<rparr>))))"

text \<open>\<open>x ?? y\<close> on a property: \<open>null\<close> counts as missing.\<close>

definition nullish :: "json option \<Rightarrow> json \<Rightarrow> json" where
  "nullish v d = (case v of None \<Rightarrow> d | Some JNull \<Rightarrow> d | Some x \<Rightarrow> x)"

text \<open>The labels of a host name: \<open>/^(?:[a-z0-9](?:[a-z0-9-]{0,61}[a-z0-9])?\.)+[a-z]{2,63}$/\<close>.\<close>

definition host_label :: "string \<Rightarrow> bool" where
  "host_label l \<longleftrightarrow> l \<noteq> [] \<and> length l \<le> 63 \<and> slug_char (hd l) \<and> slug_char (last l)
     \<and> list_all (\<lambda>c. slug_char c \<or> c = CHR ''-'') l"

definition lower_letter :: "char \<Rightarrow> bool" where
  "lower_letter c \<longleftrightarrow> (let n = of_char c :: nat in 97 \<le> n \<and> n \<le> 122)"

definition top_label :: "string \<Rightarrow> bool" where
  "top_label l \<longleftrightarrow> 2 \<le> length l \<and> length l \<le> 63 \<and> list_all lower_letter l"

definition dotted_host :: "string \<Rightarrow> bool" where
  "dotted_host s \<longleftrightarrow> (let labels = split_on (CHR ''.'') s in
     2 \<le> length labels \<and> list_all host_label (butlast labels) \<and> top_label (last labels))"

definition port_ok :: "env \<Rightarrow> string \<Rightarrow> bool" where
  "port_ok e s \<longleftrightarrow> (case number_of_text e s of
     None \<Rightarrow> False
   | Some q \<Rightarrow> q = of_int \<lfloor>q\<rfloor> \<and> 1 \<le> \<lfloor>q\<rfloor> \<and> \<lfloor>q\<rfloor> \<le> 65535)"

definition isValidDomain :: "env \<Rightarrow> string \<Rightarrow> bool" where
  "isValidDomain e v \<longleftrightarrow>
     \<not> (v = [] \<or> str_includes v ''://'' \<or> str_includes v ''/'' \<or> str_includes v '' '' \<or> str_includes v ''@'')
     \<and> (str_includes v '':'' \<longrightarrow> port_ok e (split_on (CHR '':'') v ! 1))
     \<and> (let withoutPort = (if starts_with v ''['' then v else split_on (CHR '':'') v ! 0) in
        withoutPort = ''localhost'' \<or> dotted_host withoutPort)"

definition validateSnapshot :: "json option \<Rightarrow> agent_policy action" where
  "validateSnapshot v =
    bnd (require_some (case v of Some j \<Rightarrow> if is_json_object j then Some (as_object j) else None | None \<Rightarrow> None)
      (policy_invalid ''Policy rules must be an object.'')) (\<lambda>fs.
    bnd (stringArray (map_of fs ''allowedDomains'') ''allowedDomains'') (\<lambda>allowedDomains.
    bnd (stringArray (map_of fs ''blockedDomains'') ''blockedDomains'') (\<lambda>blockedDomains.
    bnd (actionArray (map_of fs ''allowedActions'') ''allowedActions'') (\<lambda>allowedActions.
    bnd (actionArray (map_of fs ''deniedActions'') ''deniedActions'') (\<lambda>deniedActions.
    bnd (actionArray (map_of fs ''approvalRequiredActions'') ''approvalRequiredActions'') (\<lambda>approvalRequiredActions.
    bnd (money (map_of fs ''autoApproveBelowCents'') ''autoApproveBelowCents'') (\<lambda>autoApproveBelowCents.
    bnd (money (map_of fs ''approvalRequiredAboveCents'') ''approvalRequiredAboveCents'') (\<lambda>approvalRequiredAboveCents.
    bnd (money (map_of fs ''denyAboveCents'') ''denyAboveCents'') (\<lambda>denyAboveCents.
    bnd (stringArray (Some (nullish (map_of fs ''dangerKeywords'') (JArr []))) ''dangerKeywords'') (\<lambda>dangerKeywords.
    bnd (businessHours (nullish (map_of fs ''businessHours'') (JObj [(''enabled'', JBool False)]))) (\<lambda>hours.
    bnd (gets (\<lambda>w. list_all (isValidDomain (w_env w)) (allowedDomains @ blockedDomains))) (\<lambda>valid_domains.
    bnd (require valid_domains (policy_invalid ''Policy domains must be hostnames without a URL scheme.'')) (\<lambda>_.
    bnd (require (allowedDomains \<noteq> []) (policy_invalid ''At least one allowed domain is required.'')) (\<lambda>_.
    bnd (require (autoApproveBelowCents \<le> approvalRequiredAboveCents)
      (policy_invalid ''Auto-approval threshold cannot exceed the approval threshold.'')) (\<lambda>_.
    bnd (require (approvalRequiredAboveCents \<le> denyAboveCents)
      (policy_invalid ''Approval threshold cannot exceed the hard denial threshold.'')) (\<lambda>_.
    bnd (require (\<not> list_ex (\<lambda>k. k = []) dangerKeywords) (policy_invalid ''Danger keywords cannot be empty.'')) (\<lambda>_.
    ret \<lparr>ap_allowedDomains = allowedDomains, ap_blockedDomains = blockedDomains, ap_allowedActions = allowedActions,
      ap_deniedActions = deniedActions, ap_approvalRequiredActions = approvalRequiredActions,
      ap_autoApproveBelowCents = autoApproveBelowCents, ap_approvalRequiredAboveCents = approvalRequiredAboveCents,
      ap_denyAboveCents = denyAboveCents, ap_dangerKeywords = dangerKeywords, ap_businessHours = hours\<rparr>)))))))))))))))))"

definition validateRiskSignals :: "json option \<Rightarrow> risk_signal list action" where
  "validateRiskSignals v = (case v of
     None \<Rightarrow> ret []
   | Some (JArr js) \<Rightarrow>
       bnd (require_some (enum_items risk_signal_value RISK_SIGNALS js) (policy_invalid ''Risk signals must be known values.'')) (\<lambda>signals.
       ret (sort_key risk_signal_value (dedupe signals)))
   | Some _ \<Rightarrow> throw (policy_invalid ''Risk signals must be an array.''))"

subsection \<open>The stored form\<close>

text \<open>The snapshot as it is stored in the \<open>rules_json\<close> column.\<close>

definition strings_json :: "string list \<Rightarrow> json" where
  "strings_json ss = JArr (map JStr ss)"

definition actions_json :: "action_type list \<Rightarrow> json" where
  "actions_json as = JArr (map (\<lambda>a. JStr (action_type_value a)) as)"

definition hours_json :: "business_hours \<Rightarrow> json" where
  "hours_json h = JObj ((''enabled'', JBool (bh_enabled h))
     # opt_field ''timezone'' (map_option JStr (bh_timezone h))
     @ opt_field ''weekdays'' (map_option (\<lambda>ds. JArr (map (\<lambda>d. JNum (of_int d)) ds)) (bh_weekdays h))
     @ opt_field ''startHour'' (map_option (\<lambda>n. JNum (of_int n)) (bh_startHour h))
     @ opt_field ''endHour'' (map_option (\<lambda>n. JNum (of_int n)) (bh_endHour h)))"

definition policy_json :: "agent_policy \<Rightarrow> json" where
  "policy_json p = JObj
     [(''allowedDomains'', strings_json (ap_allowedDomains p)), (''blockedDomains'', strings_json (ap_blockedDomains p)),
      (''allowedActions'', actions_json (ap_allowedActions p)), (''deniedActions'', actions_json (ap_deniedActions p)),
      (''approvalRequiredActions'', actions_json (ap_approvalRequiredActions p)),
      (''autoApproveBelowCents'', JNum (of_int (ap_autoApproveBelowCents p))),
      (''approvalRequiredAboveCents'', JNum (of_int (ap_approvalRequiredAboveCents p))),
      (''denyAboveCents'', JNum (of_int (ap_denyAboveCents p))),
      (''dangerKeywords'', strings_json (ap_dangerKeywords p)), (''businessHours'', hours_json (ap_businessHours p))]"

definition fromPolicy :: "policy_row \<Rightarrow> agent_policy action" where
  "fromPolicy policy = validateSnapshot (Some (po_rules policy))"

subsection \<open>Operations\<close>

definition toPolicyDto :: "env \<Rightarrow> policy_row \<Rightarrow> json" where
  "toPolicyDto e p = JObj
     [(''id'', JStr (po_id p)), (''organizationId'', JStr (po_org p)), (''agentId'', jopt (po_agent p)), (''name'', JStr (po_name p)),
      (''type'', JStr (policy_type_value (po_type p))), (''version'', JNum (of_nat (po_version p))),
      (''status'', JStr (policy_status_value (po_status p))), (''rulesJson'', po_rules p), (''createdByUserId'', JStr (po_createdBy p)),
      (''createdAt'', JStr (iso e (po_createdAt p))), (''updatedAt'', JStr (iso e (po_updatedAt p)))]"

record policy_create_input =
  pn_agentId :: "string option"
  pn_name :: string
  pn_type :: policy_type
  pn_status :: "policy_status option"
  pn_rules :: json

text \<open>An absent field and a field that is \<open>null\<close> differ: \<open>pu_agentId\<close> is \<open>Some None\<close> for \<open>null\<close>.\<close>

record policy_update_input =
  pu_agentId :: "string option option"
  pu_name :: "string option"
  pu_type :: "policy_type option"
  pu_status :: "policy_status option"
  pu_rules :: "json option"

definition policy_not_found :: err where
  "policy_not_found = DomainError NotFound ''Policy was not found.''"

definition findPolicyInOrganization :: "string option \<Rightarrow> string \<Rightarrow> policy_row action" where
  "findPolicyInOrganization organizationId k =
    bnd (require_org organizationId) (\<lambda>org.
    bnd (find_first policy_t (\<lambda>p. po_id p = k \<and> po_org p = org)) (\<lambda>policy.
    require_some policy policy_not_found))"

definition policy_assertAgent :: "string \<Rightarrow> string \<Rightarrow> unit action" where
  "policy_assertAgent organizationId agentId =
    bnd (find_first agent_t (\<lambda>a. ag_id a = agentId \<and> ag_org a = organizationId)) (\<lambda>agent.
    require (agent \<noteq> None) (DomainError OrganizationIsolationViolation ''Policy agent belongs to another organization.''))"

definition active_bundle :: "string \<Rightarrow> string \<Rightarrow> policy_row \<Rightarrow> bool" where
  "active_bundle organizationId agentId p \<longleftrightarrow> po_org p = organizationId \<and> po_agent p = Some agentId
     \<and> po_type p = PolicyType_AgentPolicyBundle \<and> po_status p = Policy_Active"

definition assertOneActiveBundle :: "string \<Rightarrow> string option \<Rightarrow> policy_type \<Rightarrow> policy_status \<Rightarrow> string option \<Rightarrow> unit action" where
  "assertOneActiveBundle organizationId agentId type status exceptPolicyId =
    (if \<not> truthy agentId \<or> type \<noteq> PolicyType_AgentPolicyBundle \<or> status \<noteq> Policy_Active then ret ()
     else
       bnd (find_first policy_t (\<lambda>p. active_bundle organizationId (the agentId) p
         \<and> (truthy exceptPolicyId \<longrightarrow> po_id p \<noteq> the exceptPolicyId))) (\<lambda>duplicate.
       require (duplicate = None) (policy_invalid ''Agent already has an active policy bundle.'')))"

definition recordPolicyAudit :: "context_user \<Rightarrow> policy_row \<Rightarrow> audit_event_type \<Rightarrow> (string \<times> json) list \<Rightarrow> unit action" where
  "recordPolicyAudit currentUser policy eventType eventData =
    bnd (record_audit \<lparr>ai_org = cu_org currentUser, ai_run = None, ai_agent = po_agent policy, ai_actorType = Actor_User,
      ai_actorId = Some (cu_id currentUser), ai_eventType = eventType, ai_data = JObj eventData\<rparr>) (\<lambda>_. ret ())"

definition policy_list :: "string option \<Rightarrow> page_query \<Rightarrow> (json list \<times> pagination_meta) action" where
  "policy_list organizationId page =
    bnd (require_org organizationId) (\<lambda>org.
    bnd (find_many policy_t (\<lambda>p. po_org p = org)) (\<lambda>found.
    gets (\<lambda>w. (map (toPolicyDto (w_env w)) (page_slice page (sort_key (\<lambda>p. (- int (po_updatedAt p), po_name p)) found)),
      paginationMeta (length found) page))))"

definition policy_get :: "string option \<Rightarrow> string \<Rightarrow> json action" where
  "policy_get organizationId k = bnd (findPolicyInOrganization organizationId k) (\<lambda>p. gets (\<lambda>w. toPolicyDto (w_env w) p))"

definition policy_create :: "context_user option \<Rightarrow> policy_create_input \<Rightarrow> json action" where
  "policy_create currentUser i =
    bnd (require_user currentUser) (\<lambda>user.
    bnd (validateSnapshot (Some (pn_rules i))) (\<lambda>rules.
    bnd (ret (coalesce (pn_status i) Policy_Active)) (\<lambda>status.
    bnd (run_if (truthy (pn_agentId i)) (policy_assertAgent (cu_org user) (the (pn_agentId i)))) (\<lambda>_.
    bnd (assertOneActiveBundle (cu_org user) (pn_agentId i) (pn_type i) status None) (\<lambda>_.
    bnd fresh_id (\<lambda>k. bnd new_date (\<lambda>now.
    bnd (create_row policy_t \<lparr>po_id = k, po_org = cu_org user, po_agent = pn_agentId i, po_name = pn_name i, po_type = pn_type i,
      po_version = 1, po_status = status, po_rules = policy_json rules, po_createdBy = cu_id user, po_createdAt = now, po_updatedAt = now\<rparr>) (\<lambda>policy.
    bnd (recordPolicyAudit user policy Ev_PolicyCreated [(''policyId'', JStr (po_id policy)), (''agentId'', jopt (po_agent policy)),
      (''name'', JStr (po_name policy)), (''type'', JStr (policy_type_value (pn_type i))), (''version'', JNum (of_nat (po_version policy))),
      (''status'', JStr (policy_status_value status))]) (\<lambda>_.
    gets (\<lambda>w. toPolicyDto (w_env w) policy))))))))))"

definition next_rules :: "json option \<Rightarrow> agent_policy option action" where
  "next_rules rules = (case rules of None \<Rightarrow> ret None | Some r \<Rightarrow> bnd (validateSnapshot (Some r)) (\<lambda>p. ret (Some p)))"

definition policy_update :: "context_user option \<Rightarrow> string \<Rightarrow> policy_update_input \<Rightarrow> json action" where
  "policy_update currentUser k i =
    bnd (require_user currentUser) (\<lambda>user.
    bnd (findPolicyInOrganization (Some (cu_org user)) k) (\<lambda>existing.
    bnd (next_rules (pu_rules i)) (\<lambda>nextRules.
    bnd (ret (coalesce (pu_type i) (po_type existing), coalesce (pu_status i) (po_status existing), coalesce (pu_agentId i) (po_agent existing)))
      (\<lambda>(nextType, nextStatus, nextAgentId).
    bnd (run_if (truthy nextAgentId) (policy_assertAgent (cu_org user) (the nextAgentId))) (\<lambda>_.
    bnd (assertOneActiveBundle (cu_org user) nextAgentId nextType nextStatus (Some (po_id existing))) (\<lambda>_.
    bnd new_date (\<lambda>now.
    bnd (update_row policy_t record_not_found (po_id existing) (\<lambda>p. p\<lparr>po_agent := nextAgentId, po_name := coalesce (pu_name i) (po_name p),
      po_type := (if pu_type i \<noteq> None then nextType else po_type p), po_status := (if pu_status i \<noteq> None then nextStatus else po_status p),
      po_rules := (case nextRules of None \<Rightarrow> po_rules p | Some r \<Rightarrow> policy_json r), po_version := po_version p + 1, po_updatedAt := now\<rparr>)) (\<lambda>policy.
    bnd (recordPolicyAudit user policy Ev_PolicyUpdated [(''policyId'', JStr (po_id policy)), (''agentId'', jopt (po_agent policy)),
      (''previousVersion'', JNum (of_nat (po_version existing))), (''version'', JNum (of_nat (po_version policy))),
      (''name'', JStr (po_name policy))]) (\<lambda>_.
    gets (\<lambda>w. toPolicyDto (w_env w) policy))))))))))"

subsection \<open>Evaluation\<close>

record evaluate_input =
  ev_policyId :: "string option"
  ev_agentId :: string
  ev_website :: string
  ev_actionType :: action_type
  ev_amountCents :: "int option"
  ev_riskSignals :: "risk_signal list option"
  ev_policySnapshot :: "json option"

record policy_evaluation =
  pe_policyId :: "string option"
  pe_policyVersion :: "nat option"
  pe_agentId :: string
  pe_result :: policy_result

definition evaluation_findPolicy :: "string \<Rightarrow> string \<Rightarrow> policy_row action" where
  "evaluation_findPolicy organizationId policyId =
    bnd (find_first policy_t (\<lambda>p. po_id p = policyId \<and> po_org p = organizationId)) (\<lambda>policy.
    require_some policy policy_not_found)"

definition jnat_opt :: "nat option \<Rightarrow> json" where
  "jnat_opt v = (case v of None \<Rightarrow> JNull | Some n \<Rightarrow> JNum (of_nat n))"

definition policy_evaluate :: "context_user option \<Rightarrow> evaluate_input \<Rightarrow> policy_evaluation action" where
  "policy_evaluate currentUser i =
    bnd (require_user currentUser) (\<lambda>user.
    bnd (find_first agent_t (\<lambda>a. ag_id a = ev_agentId i \<and> ag_org a = cu_org user)) (\<lambda>found.
    bnd (require_some found agent_not_found) (\<lambda>agent.
    bnd (if truthy (ev_policyId i) then bnd (evaluation_findPolicy (cu_org user) (the (ev_policyId i))) (\<lambda>p. ret (Some p)) else ret None) (\<lambda>policy.
    bnd (require (\<not> (case policy of None \<Rightarrow> False | Some p \<Rightarrow> truthy (po_agent p) \<and> po_agent p \<noteq> Some (ag_id agent)))
      (DomainError OrganizationIsolationViolation ''Policy belongs to another agent.'')) (\<lambda>_.
    bnd (case policy of Some p \<Rightarrow> fromPolicy p | None \<Rightarrow> validateSnapshot (ev_policySnapshot i)) (\<lambda>snapshot.
    bnd new_date (\<lambda>_.
    bnd (gets (\<lambda>w. evaluatePolicy (url_host (w_env w)) \<lparr>pi_agentStatus = ag_status agent, pi_website = ev_website i, pi_actionType = ev_actionType i,
      pi_amountCents = ev_amountCents i, pi_riskSignals = coalesce (ev_riskSignals i) [], pi_policySnapshot = snapshot\<rparr>)) (\<lambda>result.
    bnd (record_audit \<lparr>ai_org = cu_org user, ai_run = None, ai_agent = Some (ag_id agent), ai_actorType = Actor_User,
      ai_actorId = Some (cu_id user), ai_eventType = Ev_PolicyEvaluated, ai_data = JObj
       [(''policyId'', jopt (map_option po_id policy)), (''policyVersion'', jnat_opt (map_option po_version policy)),
        (''agentId'', JStr (ag_id agent)), (''actionType'', JStr (action_type_value (ev_actionType i))), (''website'', JStr (ev_website i)),
        (''amountCents'', jnum_opt (ev_amountCents i)), (''decision'', JStr (policy_decision_value (pr_decision result))),
        (''riskLevel'', JStr (risk_level_value (pr_riskLevel result))), (''reason'', JStr (pr_reason result)),
        (''matchedRules'', strings_json (pr_matchedRules result))]\<rparr>) (\<lambda>_.
    ret \<lparr>pe_policyId = map_option po_id policy, pe_policyVersion = map_option po_version policy, pe_agentId = ag_id agent,
      pe_result = result\<rparr>)))))))))"

subsection \<open>Validated rules\<close>

definition normal_text :: "string \<Rightarrow> bool" where
  "normal_text s \<longleftrightarrow> to_lower (trim s) = s"

definition normal_hours :: "business_hours \<Rightarrow> bool" where
  "normal_hours h \<longleftrightarrow>
     (case bh_timezone h of None \<Rightarrow> True | Some t \<Rightarrow> t \<noteq> [] \<and> trim t = t)
     \<and> (case bh_weekdays h of None \<Rightarrow> True | Some ds \<Rightarrow> sorted ds \<and> distinct ds \<and> list_all (\<lambda>d. 0 \<le> d \<and> d \<le> 6) ds)
     \<and> (case (bh_startHour h, bh_endHour h) of
          (None, None) \<Rightarrow> True
        | (Some s, Some t) \<Rightarrow> 0 \<le> s \<and> s < t \<and> t \<le> 24 \<and> s \<le> 23
        | _ \<Rightarrow> False)"

definition normal_actions :: "action_type list \<Rightarrow> bool" where
  "normal_actions as \<longleftrightarrow> distinct as \<and> sorted (map action_type_value as)"

definition normal_texts :: "string list \<Rightarrow> bool" where
  "normal_texts ss \<longleftrightarrow> distinct ss \<and> list_all normal_text ss"

definition well_formed_policy :: "env \<Rightarrow> agent_policy \<Rightarrow> bool" where
  "well_formed_policy e p \<longleftrightarrow>
     ap_allowedDomains p \<noteq> [] \<and> normal_texts (ap_allowedDomains p) \<and> normal_texts (ap_blockedDomains p)
     \<and> list_all (isValidDomain e) (ap_allowedDomains p @ ap_blockedDomains p)
     \<and> normal_actions (ap_allowedActions p) \<and> normal_actions (ap_deniedActions p) \<and> normal_actions (ap_approvalRequiredActions p)
     \<and> 0 \<le> ap_autoApproveBelowCents p \<and> ap_autoApproveBelowCents p \<le> ap_approvalRequiredAboveCents p
     \<and> ap_approvalRequiredAboveCents p \<le> ap_denyAboveCents p
     \<and> normal_texts (ap_dangerKeywords p) \<and> [] \<notin> set (ap_dangerKeywords p) \<and> normal_hours (ap_businessHours p)"

lemma dedupe_aux_distinct: "distinct xs \<Longrightarrow> set xs \<inter> set seen = {} \<Longrightarrow> dedupe_aux seen xs = xs"
  by (induction seen xs rule: dedupe_aux.induct) (auto simp: List.member_iff)

lemma dedupe_id: "distinct xs \<Longrightarrow> dedupe xs = xs"
  by (simp add: dedupe_def dedupe_aux_distinct)

lemma lower_space [simp]: "is_space (lower_char c) \<longleftrightarrow> is_space c"
proof -
  have "(of_char (lower_char c) :: nat) = (if 65 \<le> (of_char c :: nat) \<and> (of_char c :: nat) \<le> 90 then of_char c + 32 else of_char c)"
    by (simp add: lower_char_def Let_def)
  then show ?thesis by (auto simp: is_space_def Let_def)
qed

lemma trim_lower: "trim (to_lower s) = to_lower (trim s)"
proof -
  have "dropWhile is_space (map lower_char xs) = map lower_char (dropWhile is_space xs)" for xs
    by (induction xs) auto
  then show ?thesis by (simp add: trim_def to_lower_def rev_map)
qed

lemma dropWhile_twice: "dropWhile P (dropWhile P xs) = dropWhile P xs"
  by (induction xs) auto

lemma dropWhile_rev_end:
  assumes "dropWhile P xs = xs"
  shows "dropWhile P (rev (dropWhile P (rev xs))) = rev (dropWhile P (rev xs))"
proof (cases "rev (dropWhile P (rev xs))")
  case (Cons a as)
  have "xs = (a # as) @ rev (takeWhile P (rev xs))"
    unfolding Cons [symmetric] rev_append [symmetric] takeWhile_dropWhile_id by simp
  then obtain zs where "xs = a # zs" by (metis append_Cons)
  then have "\<not> P a" using assms by (metis dropWhile_eq_Cons_conv)
  with Cons show ?thesis by simp
next
  case Nil
  then show ?thesis by (simp only: dropWhile.simps)
qed

lemma trim_trim [simp]: "trim (trim s) = trim s"
  using dropWhile_rev_end [OF dropWhile_twice [of is_space s]] by (simp add: trim_def dropWhile_twice)

lemma normal_normalised: "normal_text (to_lower (trim s))"
  by (simp add: normal_text_def trim_lower)

lemma those_map: "those (map f xs) = Some ys \<longleftrightarrow> map f xs = map Some ys"
proof (induction xs arbitrary: ys)
  case (Cons x xs)
  then show ?case by (cases "f x"; cases ys) auto
qed auto

lemma stringArray_Inr: "stringArray v fld w = (Inr ss, w') \<Longrightarrow> normal_texts ss \<and> w' = w"
  unfolding stringArray_def
  by (auto elim!: bnd_require_someE simp: normal_texts_def list_all_iff normal_normalised)

lemma stringArray_normal:
  assumes "normal_texts ss"
  shows "stringArray (Some (strings_json ss)) fld = ret ss"
proof -
  have "those (map json_str (map JStr ss)) = Some ss" by (simp add: those_map json_str_def)
  moreover have "map (\<lambda>s. to_lower (trim s)) ss = ss"
    using assms by (intro map_idI) (auto simp: normal_texts_def normal_text_def list_all_iff)
  ultimately show ?thesis
    using assms by (simp add: stringArray_def string_items_of_def strings_json_def bnd_require_some normal_texts_def dedupe_id)
qed

lemma parse_action [simp]: "parse_enum action_type_value ACTION_TYPES (action_type_value a) = Some a"
  by (cases a) (simp_all add: parse_enum_def ACTION_TYPES_def)

lemma actionArray_Inr: "actionArray v fld w = (Inr as, w') \<Longrightarrow> normal_actions as \<and> w' = w"
  unfolding actionArray_def
  by (auto elim!: bnd_require_someE simp: normal_actions_def split: option.splits json.splits)

lemma actionArray_normal:
  assumes "normal_actions as"
  shows "actionArray (Some (actions_json as)) fld = ret as"
proof -
  have "enum_items action_type_value ACTION_TYPES (map (\<lambda>a. JStr (action_type_value a)) as) = Some as"
    by (simp add: enum_items_def those_map json_str_def)
  then show ?thesis
    using assms by (simp add: actionArray_def actions_json_def bnd_require_some normal_actions_def dedupe_id sort_key_id_if_sorted)
qed

lemma money_Inr: "money v fld w = (Inr n, w') \<Longrightarrow> 0 \<le> n \<and> w' = w"
  by (auto simp: money_def split: option.splits if_splits)

lemma json_int_of_int [simp]: "json_int (Some (JNum (of_int n))) = Some n"
  by (simp add: json_int_def)

lemma money_normal: "0 \<le> n \<Longrightarrow> money (Some (JNum (of_int n))) fld = ret n"
  by (simp add: money_def)

lemma hours_Inr: "hours_of s t w = (Inr (h, k), w') \<Longrightarrow> w' = w \<and> (case (h, k) of
    (None, None) \<Rightarrow> True | (Some a, Some b) \<Rightarrow> 0 \<le> a \<and> a < b \<and> b \<le> 24 \<and> a \<le> 23 | _ \<Rightarrow> False)"
  unfolding hours_of_def by (auto split: if_splits option.splits elim!: bnd_requireE)

lemma timezone_Inr: "timezone_of v w = (Inr z, w') \<Longrightarrow> w' = w \<and> (case z of None \<Rightarrow> True | Some t \<Rightarrow> t \<noteq> [] \<and> trim t = t)"
  unfolding timezone_of_def by (auto split: option.splits json.splits elim!: bnd_requireE)

lemma weekday_bounds: "weekday v = Some d \<Longrightarrow> 0 \<le> d \<and> d \<le> 6"
  by (auto simp: weekday_def split: option.splits if_splits)

lemma weekdays_Inr: "weekdays_of v w = (Inr z, w') \<Longrightarrow> w' = w \<and> (case z of None \<Rightarrow> True
    | Some ds \<Rightarrow> sorted ds \<and> distinct ds \<and> list_all (\<lambda>d. 0 \<le> d \<and> d \<le> 6) ds)"
proof -
  have "list_all (\<lambda>d. 0 \<le> d \<and> d \<le> 6) days" if "those (map weekday js) = Some days" for js days
  proof -
    have "map weekday js = map Some days" using that by (simp add: those_map)
    then have "\<forall>d \<in> set days. Some d \<in> weekday ` set js" by (metis image_eqI list.set_map)
    then show ?thesis by (auto simp: list_all_iff dest!: weekday_bounds [OF sym])
  qed
  then show "weekdays_of v w = (Inr z, w') \<Longrightarrow> w' = w \<and> (case z of None \<Rightarrow> True
    | Some ds \<Rightarrow> sorted ds \<and> distinct ds \<and> list_all (\<lambda>d. 0 \<le> d \<and> d \<le> 6) ds)"
    unfolding weekdays_of_def by (auto split: option.splits json.splits elim!: bnd_require_someE simp: list_all_iff)
qed

lemma businessHours_Inr: "businessHours v w = (Inr h, w') \<Longrightarrow> normal_hours h \<and> w' = w"
  unfolding businessHours_def
  by (elim bnd_require_someE bnd_InrE retE) (auto simp: normal_hours_def dest!: timezone_Inr weekdays_Inr hours_Inr split: option.splits)

lemma businessHours_normal:
  assumes "normal_hours h"
  shows "businessHours (hours_json h) = ret h"
proof -
  let ?fs = "as_object (hours_json h)"
  have enabled: "(if is_json_object (hours_json h) then json_bool (map_of ?fs ''enabled'') else None) = Some (bh_enabled h)"
    by (simp add: hours_json_def is_json_object_def json_bool_def as_object_def)
  have look: "map_of ?fs ''timezone'' = map_option JStr (bh_timezone h)"
    "map_of ?fs ''weekdays'' = map_option (\<lambda>ds. JArr (map (\<lambda>d. JNum (of_int d)) ds)) (bh_weekdays h)"
    "map_of ?fs ''startHour'' = map_option (\<lambda>n. JNum (of_int n)) (bh_startHour h)"
    "map_of ?fs ''endHour'' = map_option (\<lambda>n. JNum (of_int n)) (bh_endHour h)"
    by (cases "bh_timezone h"; cases "bh_weekdays h"; cases "bh_startHour h"; cases "bh_endHour h";
        simp add: hours_json_def as_object_def opt_field_def)+
  have zone: "timezone_of (map_option JStr (bh_timezone h)) = ret (bh_timezone h)"
    using assms by (cases "bh_timezone h") (auto simp: timezone_of_def normal_hours_def bnd_require)
  have days: "weekdays_of (map_option (\<lambda>ds. JArr (map (\<lambda>d. JNum (of_int d)) ds)) (bh_weekdays h)) = ret (bh_weekdays h)"
  proof (cases "bh_weekdays h")
    case (Some ds)
    then have ds: "sorted ds" "distinct ds" "list_all (\<lambda>d. 0 \<le> d \<and> d \<le> 6) ds" using assms by (auto simp: normal_hours_def)
    have "those (map weekday (map (\<lambda>d. JNum (of_int d)) ds)) = Some ds"
      using ds(3) by (auto simp: those_map weekday_def list_all_iff)
    then show ?thesis using ds Some by (simp add: weekdays_of_def bnd_require_some dedupe_id sorted_sort_id)
  qed (simp add: weekdays_of_def)
  have hours: "hours_of (map_option (\<lambda>n. JNum (of_int n)) (bh_startHour h)) (map_option (\<lambda>n. JNum (of_int n)) (bh_endHour h)) = ret (bh_startHour h, bh_endHour h)"
    using assms by (cases "bh_startHour h"; cases "bh_endHour h") (auto simp: hours_of_def normal_hours_def bnd_require)
  show ?thesis
    unfolding businessHours_def enabled look zone days hours by (cases h) (simp add: bnd_require_some bnd_ret)
qed

lemma validateSnapshot_Inr:
  assumes "validateSnapshot v w = (Inr p, w')"
  shows "well_formed_policy (w_env w) p \<and> w' = w"
  using assms unfolding validateSnapshot_def
  apply (elim bnd_require_someE bnd_InrE bnd_getsE bnd_requireE retE)
  apply (drule stringArray_Inr actionArray_Inr money_Inr businessHours_Inr)+
  apply (auto simp: well_formed_policy_def list_ex_iff)
  done

lemma validateSnapshot_normal:
  assumes "well_formed_policy (w_env w) p"
  shows "validateSnapshot (Some (policy_json p)) w = (Inr p, w)"
proof -
  let ?fs = "as_object (policy_json p)"
  have obj: "(case Some (policy_json p) of Some j \<Rightarrow> if is_json_object j then Some (as_object j) else None | None \<Rightarrow> None) = Some ?fs"
    by (simp add: policy_json_def is_json_object_def)
  have look: "map_of ?fs ''allowedDomains'' = Some (strings_json (ap_allowedDomains p))"
    "map_of ?fs ''blockedDomains'' = Some (strings_json (ap_blockedDomains p))"
    "map_of ?fs ''allowedActions'' = Some (actions_json (ap_allowedActions p))"
    "map_of ?fs ''deniedActions'' = Some (actions_json (ap_deniedActions p))"
    "map_of ?fs ''approvalRequiredActions'' = Some (actions_json (ap_approvalRequiredActions p))"
    "map_of ?fs ''autoApproveBelowCents'' = Some (JNum (of_int (ap_autoApproveBelowCents p)))"
    "map_of ?fs ''approvalRequiredAboveCents'' = Some (JNum (of_int (ap_approvalRequiredAboveCents p)))"
    "map_of ?fs ''denyAboveCents'' = Some (JNum (of_int (ap_denyAboveCents p)))"
    "nullish (map_of ?fs ''dangerKeywords'') (JArr []) = strings_json (ap_dangerKeywords p)"
    "nullish (map_of ?fs ''businessHours'') d = hours_json (ap_businessHours p)" for d
    by (simp_all add: policy_json_def as_object_def nullish_def strings_json_def hours_json_def)
  have parts: "normal_texts (ap_allowedDomains p)" "normal_texts (ap_blockedDomains p)" "normal_texts (ap_dangerKeywords p)"
    "normal_actions (ap_allowedActions p)" "normal_actions (ap_deniedActions p)" "normal_actions (ap_approvalRequiredActions p)"
    "0 \<le> ap_autoApproveBelowCents p" "0 \<le> ap_approvalRequiredAboveCents p" "0 \<le> ap_denyAboveCents p" "normal_hours (ap_businessHours p)"
    using assms by (auto simp: well_formed_policy_def)
  show ?thesis
    unfolding validateSnapshot_def obj bnd_require_some look
    using assms by (cases p) (simp add: stringArray_normal actionArray_normal money_normal businessHours_normal parts bnd_ret step_simps well_formed_policy_def list_ex_iff)
qed


definition demo_rules :: agent_policy where
  "demo_rules = \<lparr>ap_allowedDomains = [''a.io''], ap_blockedDomains = [], ap_allowedActions = [OpenPage], ap_deniedActions = [],
     ap_approvalRequiredActions = [], ap_autoApproveBelowCents = 0, ap_approvalRequiredAboveCents = 5, ap_denyAboveCents = 9,
     ap_dangerKeywords = [''wire''], ap_businessHours = \<lparr>bh_enabled = False, bh_timezone = None, bh_weekdays = None, bh_startHour = None, bh_endHour = None\<rparr>\<rparr>"

lemma demo_rules_ok: "well_formed_policy e demo_rules"
proof -
  have "normal_text ''a.io''" "normal_text ''wire''" by code_simp+
  moreover have "isValidDomain e ''a.io''"
  proof -
    have "\<not> (''a.io'' = [] \<or> str_includes ''a.io'' ''://'' \<or> str_includes ''a.io'' ''/'' \<or> str_includes ''a.io'' '' '' \<or> str_includes ''a.io'' ''@'')"
      "\<not> str_includes ''a.io'' '':''" "\<not> starts_with ''a.io'' ''[''" "split_on (CHR '':'') ''a.io'' ! 0 = ''a.io''" "dotted_host ''a.io''"
      by code_simp+
    then show ?thesis by (simp add: isValidDomain_def)
  qed
  ultimately show ?thesis
    by (simp add: demo_rules_def well_formed_policy_def normal_texts_def normal_actions_def normal_hours_def)
qed


subsection \<open>One active bundle per agent\<close>

definition one_bundle :: "world \<Rightarrow> bool" where
  "one_bundle w \<longleftrightarrow> (\<forall>p \<in> set (policies w). \<forall>q \<in> set (policies w). \<forall>org a.
     a \<noteq> [] \<and> active_bundle org a p \<and> active_bundle org a q \<longrightarrow> po_id p = po_id q)"

lemma validateSnapshot_still: "snd (validateSnapshot v w) = w"
proof -
  have parts: "effect (same_of (\<lambda>w. w)) (stringArray x f) w" "effect (same_of (\<lambda>w. w)) (actionArray x f) w" "effect (same_of (\<lambda>w. w)) (money x f) w"
      "effect (same_of (\<lambda>w. w)) (timezone_of x) w" "effect (same_of (\<lambda>w. w)) (weekdays_of x) w" "effect (same_of (\<lambda>w. w)) (hours_of x y) w" for x y f w
    by (auto simp: effect_def same_of_def stringArray_def actionArray_def money_def timezone_of_def weekdays_of_def hours_of_def run_simps
        split: option.splits json.splits)
  have "effect (same_of (\<lambda>w. w)) (businessHours x) w" for x w
    unfolding businessHours_def by (intro effect_intros parts)
  then have "effect (same_of (\<lambda>w. w)) (validateSnapshot v) w"
    unfolding validateSnapshot_def by (intro effect_intros parts)
  then show ?thesis by (simp add: effect_def same_of_def)
qed

lemma policy_t_sel [simp]: "tget policy_t = policies" "tkey policy_t = po_id"
  by (simp_all add: policy_t_def)

text \<open>A check that changes nothing, before the rest.\<close>

lemma check_bnd:
  assumes "snd (m w) = w" and "\<And>x. m w = (Inr x, w) \<Longrightarrow> effect (preserves I) (f x) w"
  shows "effect (preserves I) (bnd m f) w"
proof (rule maintained.effect_bnd)
  show "effect (preserves I) m w" using assms(1) by (simp add: effect_def preserves_def)
  fix x s assume "m w = (Inr x, s)"
  moreover from this have "s = w" using assms(1) by simp
  ultimately show "effect (preserves I) (f x) s" using assms(2) by simp
qed

lemma policy_checks_still:
  "snd (require_user u w) = w" "snd (findPolicyInOrganization o' k w) = w" "snd (run_if b (policy_assertAgent org a) w) = w"
  "snd (assertOneActiveBundle org a' t s except w) = w" "snd (next_rules rules w) = w"
proof -
  show "snd (next_rules rules w) = w"
  proof (cases rules)
    case (Some r)
    then show ?thesis
      using validateSnapshot_still [of "Some r" w] by (cases "validateSnapshot (Some r) w") (auto simp: next_rules_def run_simps split: sum.splits)
  qed (simp add: next_rules_def run_simps)
qed (auto simp: require_user_def require_some_def findPolicyInOrganization_def policy_assertAgent_def assertOneActiveBundle_def run_simps
    split: option.splits)

lemma bundle_free:
  assumes "assertOneActiveBundle org a t s except w = (Inr y, w)" and "truthy a" and "t = PolicyType_AgentPolicyBundle" and "s = Policy_Active"
    and "q \<in> set (policies w)" and "active_bundle org (the a) q"
  shows "truthy except \<and> po_id q = the except"
  using assms by (auto simp: assertOneActiveBundle_def run_simps policy_t_def find_None_iff split: if_splits)

lemma one_bundle_append:
  assumes "one_bundle w" and "policies w' = policies w @ [p]"
    and "\<And>org a q. a \<noteq> [] \<Longrightarrow> active_bundle org a p \<Longrightarrow> q \<in> set (policies w) \<Longrightarrow> \<not> active_bundle org a q"
  shows "one_bundle w'"
  using assms unfolding one_bundle_def by (metis (no_types, lifting) Un_iff empty_iff insert_iff list.set(1) list.set(2) set_append)

lemma one_bundle_create: "effect (preserves one_bundle) (policy_create u i) w"
  unfolding policy_create_def bnd_ret
proof (rule check_bnd [OF policy_checks_still(1)], rule check_bnd [OF validateSnapshot_still], rule check_bnd [OF policy_checks_still(3)],
    rule check_bnd [OF policy_checks_still(4)])
  fix user :: context_user and rules x y
  assume check: "assertOneActiveBundle (cu_org user) (pn_agentId i) (pn_type i) (coalesce (pn_status i) Policy_Active) None w = (Inr y, w)"
  show "effect (preserves one_bundle) (bnd fresh_id (\<lambda>k. bnd new_date (\<lambda>now.
    bnd (create_row policy_t \<lparr>po_id = k, po_org = cu_org user, po_agent = pn_agentId i, po_name = pn_name i, po_type = pn_type i,
      po_version = 1, po_status = coalesce (pn_status i) Policy_Active, po_rules = policy_json rules, po_createdBy = cu_id user, po_createdAt = now, po_updatedAt = now\<rparr>) (\<lambda>policy.
    bnd (recordPolicyAudit user policy Ev_PolicyCreated [(''policyId'', JStr (po_id policy)), (''agentId'', jopt (po_agent policy)),
      (''name'', JStr (po_name policy)), (''type'', JStr (policy_type_value (pn_type i))), (''version'', JNum (of_nat (po_version policy))),
      (''status'', JStr (policy_status_value (coalesce (pn_status i) Policy_Active)))]) (\<lambda>_.
    gets (\<lambda>w. toPolicyDto (w_env w) policy)))))) w"
    unfolding effect_def preserves_def
  proof (intro impI, erule one_bundle_append)
    fix org a q
    let ?p = "\<lparr>po_id = uuid (w_env w) (ids w), po_org = cu_org user, po_agent = pn_agentId i, po_name = pn_name i, po_type = pn_type i,
      po_version = 1, po_status = coalesce (pn_status i) Policy_Active, po_rules = policy_json rules, po_createdBy = cu_id user,
      po_createdAt = clock (w_env w) (reads w), po_updatedAt = clock (w_env w) (reads w)\<rparr>"
    assume "a \<noteq> []" "active_bundle org a ?p" "q \<in> set (policies w)"
    then show "\<not> active_bundle org a q"
      using bundle_free [OF check, of q] by (auto simp: active_bundle_def truthy_def)
  qed (simp add: run_simps recordPolicyAudit_def record_audit_run Let_def policy_t_def)
qed

lemma findPolicy_row:
  assumes "unique_keys policy_t w" and "findPolicyInOrganization org k w = (Inr p, w')"
  shows "find (\<lambda>q. po_id q = po_id p) (policies w) = Some p"
proof -
  obtain g where f: "find (\<lambda>p. po_id p = k \<and> po_org p = g) (policies w) = Some p"
    using assms(2) unfolding findPolicyInOrganization_def require_org_def
    by (auto simp: step_simps split: option.splits if_splits)
  then show ?thesis
    using find_unique [OF assms(1) [unfolded unique_keys_def policy_t_sel] f] find_SomeD [OF f] by auto
qed

lemma one_bundle_upd:
  assumes "one_bundle w" and "policies w' = upd_row po_id (po_id p) f (policies w)" and "\<And>q. po_id (f q) = po_id q"
    and "unique_keys policy_t w" and "p \<in> set (policies w)"
    and "\<And>org a q. a \<noteq> [] \<Longrightarrow> active_bundle org a (f p) \<Longrightarrow> q \<in> set (policies w) \<Longrightarrow> active_bundle org a q \<Longrightarrow> po_id q = po_id p"
  shows "one_bundle w'"
proof -
  have old: "\<exists>r \<in> set (policies w). q = (if r = p then f p else r)" if "q \<in> set (policies w')" for q
    using that assms(2,4,5) by (force simp: upd_row_def unique_keys_def distinct_map inj_on_def)
  show ?thesis
    unfolding one_bundle_def
  proof (intro ballI allI impI, elim conjE)
    fix q r org a
    assume qr: "q \<in> set (policies w')" "r \<in> set (policies w')" and a: "a \<noteq> []" "active_bundle org a q" "active_bundle org a r"
    obtain q0 where q0: "q0 \<in> set (policies w)" "q = (if q0 = p then f p else q0)" using old [OF qr(1)] by blast
    obtain r0 where r0: "r0 \<in> set (policies w)" "r = (if r0 = p then f p else r0)" using old [OF qr(2)] by blast
    have one: "active_bundle org a q0 \<Longrightarrow> active_bundle org a r0 \<Longrightarrow> po_id q0 = po_id r0"
      using assms(1) a(1) q0(1) r0(1) unfolding one_bundle_def by blast
    show "po_id q = po_id r"
    proof (cases "q0 = p")
      case True
      then show ?thesis
        using a q0(2) r0 assms(3) [of p] assms(6) [of a org r0] by (cases "r0 = p") simp_all
    next
      case False
      then show ?thesis
        using a q0 r0(2) assms(3) [of p] assms(6) [of a org q0] one by (cases "r0 = p") simp_all
    qed
  qed
qed

lemma one_bundle_update:
  assumes "unique_keys policy_t w"
  shows "effect (preserves one_bundle) (policy_update u k i) w"
  unfolding policy_update_def bnd_ret prod.case
proof (rule check_bnd [OF policy_checks_still(1)], rule check_bnd [OF policy_checks_still(2)], rule check_bnd [OF policy_checks_still(5)],
    rule check_bnd [OF policy_checks_still(3)], rule check_bnd [OF policy_checks_still(4)])
  fix user :: context_user and existing :: policy_row and nextRules x y
  let ?t = "coalesce (pu_type i) (po_type existing)" and ?s = "coalesce (pu_status i) (po_status existing)" and ?a = "coalesce (pu_agentId i) (po_agent existing)"
  assume found: "findPolicyInOrganization (Some (cu_org user)) k w = (Inr existing, w)"
    and check: "assertOneActiveBundle (cu_org user) ?a ?t ?s (Some (po_id existing)) w = (Inr y, w)"
  have row: "find (\<lambda>q. po_id q = po_id existing) (policies w) = Some existing" using assms found by (rule findPolicy_row)
  let ?f = "\<lambda>now p. p\<lparr>po_agent := ?a, po_name := coalesce (pu_name i) (po_name p),
      po_type := (if pu_type i \<noteq> None then ?t else po_type p), po_status := (if pu_status i \<noteq> None then ?s else po_status p),
      po_rules := (case nextRules of None \<Rightarrow> po_rules p | Some r \<Rightarrow> policy_json r), po_version := po_version p + 1, po_updatedAt := now\<rparr>"
  have kept: "po_type (?f now existing) = ?t" "po_status (?f now existing) = ?s" for now
    by (cases "pu_type i"; cases "pu_status i"; simp)+
  have org: "po_org existing = cu_org user"
    using found unfolding findPolicyInOrganization_def require_org_def
    by (auto simp: step_simps split: option.splits if_splits dest!: find_SomeD)
  show "effect (preserves one_bundle) (bnd new_date (\<lambda>now. bnd (update_row policy_t record_not_found (po_id existing) (?f now)) (\<lambda>policy.
    bnd (recordPolicyAudit user policy Ev_PolicyUpdated [(''policyId'', JStr (po_id policy)), (''agentId'', jopt (po_agent policy)),
      (''previousVersion'', JNum (of_nat (po_version existing))), (''version'', JNum (of_nat (po_version policy))),
      (''name'', JStr (po_name policy))]) (\<lambda>_. gets (\<lambda>w. toPolicyDto (w_env w) policy))))) w"
    unfolding effect_def preserves_def
  proof (intro impI, rule one_bundle_upd [of w _ existing "?f (clock (w_env w) (reads w))"])
    fix org a q
    assume "a \<noteq> []" "active_bundle org a (?f (clock (w_env w) (reads w)) existing)" "q \<in> set (policies w)" "active_bundle org a q"
    then show "po_id q = po_id existing"
      using bundle_free [OF check _ _ _ _, of q] kept [of "clock (w_env w) (reads w)"] org
      by (simp add: active_bundle_def truthy_def)
  next
    show "unique_keys policy_t w" by (rule assms)
    show "existing \<in> set (policies w)" using row by (simp add: find_SomeD)
  next
    show "policies (snd (bnd new_date (\<lambda>now. bnd (update_row policy_t record_not_found (po_id existing) (?f now)) (\<lambda>policy.
      bnd (recordPolicyAudit user policy Ev_PolicyUpdated [(''policyId'', JStr (po_id policy)), (''agentId'', jopt (po_agent policy)),
      (''previousVersion'', JNum (of_nat (po_version existing))), (''version'', JNum (of_nat (po_version policy))),
      (''name'', JStr (po_name policy))]) (\<lambda>_. gets (\<lambda>w. toPolicyDto (w_env w) policy)))) w))
      = upd_row po_id (po_id existing) (?f (clock (w_env w) (reads w))) (policies w)"
      using row by (simp add: run_simps recordPolicyAudit_def record_audit_run Let_def policy_t_def del: redact.simps)
  qed simp_all
qed

text \<open>C11. No agent is left with two active policy bundles: creating a policy keeps the invariant, and so
does updating one, where the policy itself is not counted against it.\<close>

theorem one_active_bundle:
  assumes "one_bundle w" and "unique_keys policy_t w"
  shows "one_bundle (snd (policy_create u i w)) \<and> one_bundle (snd (policy_update u k c w))"
  using one_bundle_create [of u i w] one_bundle_update [OF assms(2), of u k c] assms(1) by (simp add: effect_def preserves_def)

definition bundle_world :: world where
  "bundle_world = (empty_world demo_env)\<lparr>policies := [\<lparr>po_id = ''p'', po_org = ''o'', po_agent = Some ''g'', po_name = ''n'',
     po_type = PolicyType_AgentPolicyBundle, po_version = 1, po_status = Policy_Active, po_rules = policy_json demo_rules, po_createdBy = ''u'',
     po_createdAt = 0, po_updatedAt = 0\<rparr>]\<rparr>"

theorem one_active_bundle_witness:
  "one_bundle (snd (policy_create (Some demo_user) \<lparr>pn_agentId = Some ''g'', pn_name = ''m'', pn_type = PolicyType_AgentPolicyBundle,
      pn_status = None, pn_rules = policy_json demo_rules\<rparr> bundle_world))
   \<and> one_bundle (snd (policy_update (Some demo_user) ''p'' \<lparr>pu_agentId = None, pu_name = Some ''m'', pu_type = None, pu_status = None,
      pu_rules = None\<rparr> bundle_world))"
  by (rule one_active_bundle) (simp_all add: bundle_world_def one_bundle_def unique_keys_def policy_t_def)

end
