(* ===== verification/Workflows.thy ===== *)
theory Workflows
  imports Policies
begin

section \<open>Workflows\<close>

text \<open>
  Workflows and the start of their runs (\<open>workflows/workflows.service.ts\<close>,
  \<open>workflow-validation.service.ts\<close>, \<open>workflow-template.service.ts\<close>, \<open>workflows.types.ts\<close>): what a workflow
  has to satisfy when it is stored, and again when a run of it is started. A member of a database
  enumeration is upper case (\<open>prisma_enum\<close>).
\<close>

subsection \<open>Configurations\<close>

definition requiresLogin :: "workflow_template \<Rightarrow> bool" where
  "requiresLogin template \<longleftrightarrow> CredentialInjection \<in> set (td_expectedActions (WORKFLOW_TEMPLATE_DEFINITIONS template))"

definition workflow_invalid :: "string \<Rightarrow> err" where
  "workflow_invalid message = DomainError ValidationFailed message"

text \<open>\<open>value[name]\<close>: undefined on a value that is no object, a TypeError on \<open>null\<close>.\<close>

definition json_property :: "json \<Rightarrow> string \<Rightarrow> json option action" where
  "json_property v name =
    bnd (require (v \<noteq> JNull) (JsError ''TypeError'' ''Cannot read properties of null'')) (\<lambda>_.
    ret (map_of (as_object v) name))"

fun check_inputs :: "workflow_input_definition list \<Rightarrow> json \<Rightarrow> string \<Rightarrow> unit action" where
  "check_inputs [] configurationJson vendorId = ret ()"
| "check_inputs (i # is) configurationJson vendorId =
    (if wi_name i = ''vendorId'' then
       bnd (require (vendorId \<noteq> []) (workflow_invalid ''Workflow vendor is required.'')) (\<lambda>_.
       check_inputs is configurationJson vendorId)
     else
       bnd (json_property configurationJson (wi_name i)) (\<lambda>v.
       bnd (require (\<not> (wi_required i \<and> (v = None \<or> v = Some JNull \<or> v = Some (JStr []))))
         (workflow_invalid (''Workflow configuration requires '' @ wi_name i @ ''.''))) (\<lambda>_.
       check_inputs is configurationJson vendorId)))"

definition nonempty_text :: "json option \<Rightarrow> bool" where
  "nonempty_text v \<longleftrightarrow> (case v of Some (JStr s) \<Rightarrow> s \<noteq> [] | _ \<Rightarrow> False)"

definition nonblank_text :: "json option \<Rightarrow> bool" where
  "nonblank_text v \<longleftrightarrow> (case v of Some (JStr s) \<Rightarrow> trim s \<noteq> [] | _ \<Rightarrow> False)"

definition validateConfiguration :: "workflow_template \<Rightarrow> json \<Rightarrow> string \<Rightarrow> unit action" where
  "validateConfiguration template configurationJson vendorId =
    bnd (check_inputs (td_requiredInputs (WORKFLOW_TEMPLATE_DEFINITIONS template)) configurationJson vendorId) (\<lambda>_.
    bnd (run_if (requiresLogin template)
      (bnd (json_property configurationJson ''credentialId'') (\<lambda>credentialId.
       require (nonempty_text credentialId) (workflow_invalid ''Workflow configuration requires credentialId for login templates.'')))) (\<lambda>_.
    run_if (template = Template_PlanDowngradeRequest)
      (bnd (json_property configurationJson ''targetPlan'') (\<lambda>targetPlan.
       require (nonblank_text targetPlan) (workflow_invalid ''Workflow configuration requires targetPlan.'')))))"

subsection \<open>Views\<close>

definition template_text :: "workflow_template \<Rightarrow> json" where
  "template_text t = JStr (prisma_enum (workflow_template_value t))"

definition toWorkflowDto :: "env \<Rightarrow> workflow_row \<Rightarrow> json" where
  "toWorkflowDto e f = JObj
     [(''id'', JStr (wf_id f)), (''organizationId'', JStr (wf_org f)), (''agentId'', JStr (wf_agent f)),
      (''vendorId'', JStr (wf_vendor f)), (''name'', JStr (wf_name f)),
      (''template'', JStr (workflow_template_value (wf_template f))),
      (''status'', JStr (workflow_status_value (wf_status f))), (''configurationJson'', wf_config f),
      (''createdByUserId'', JStr (wf_createdBy f)), (''createdAt'', JStr (iso e (wf_createdAt f))),
      (''updatedAt'', JStr (iso e (wf_updatedAt f)))]"

subsection \<open>What a workflow needs\<close>

definition findWorkflowInOrganization :: "string option \<Rightarrow> string \<Rightarrow> workflow_row action" where
  "findWorkflowInOrganization organizationId k =
    bnd (require_org organizationId) (\<lambda>org.
    bnd (find_first workflow_t (\<lambda>f. wf_id f = k \<and> wf_org f = org)) (\<lambda>workflow.
    require_some workflow (DomainError NotFound ''Workflow was not found.'')))"

definition assertActiveAgent :: "string \<Rightarrow> string \<Rightarrow> unit action" where
  "assertActiveAgent organizationId agentId =
    bnd (find_first agent_t (\<lambda>a. ag_id a = agentId \<and> ag_org a = organizationId)) (\<lambda>found.
    bnd (require_some found (DomainError OrganizationIsolationViolation ''Workflow agent belongs to another organization.'')) (\<lambda>agent.
    require (ag_status agent = Agent_Active) (DomainError AgentNotActive ''Agent must be active to start workflow runs.'')))"

definition assertActiveVendor :: "string \<Rightarrow> string \<Rightarrow> unit action" where
  "assertActiveVendor organizationId vendorId =
    bnd (find_first vendor_t (\<lambda>v. ve_id v = vendorId \<and> ve_org v = organizationId)) (\<lambda>found.
    bnd (require_some found (DomainError OrganizationIsolationViolation ''Workflow vendor belongs to another organization.'')) (\<lambda>vendor.
    require (ve_deletedAt vendor = None) (workflow_invalid ''Deleted vendors cannot be used by workflows.'')))"

definition assertActivePolicy :: "string \<Rightarrow> string \<Rightarrow> unit action" where
  "assertActivePolicy organizationId agentId =
    bnd (find_first policy_t (active_bundle organizationId agentId)) (\<lambda>policy.
    require (policy \<noteq> None) (workflow_invalid ''Workflow agent requires an active policy bundle.''))"

definition assertCredentialGrantForConfig :: "string \<Rightarrow> string \<Rightarrow> string \<Rightarrow> json \<Rightarrow> unit action" where
  "assertCredentialGrantForConfig organizationId agentId vendorId configurationJson =
    bnd (require (is_json_object configurationJson) (workflow_invalid ''Workflow configuration must be an object.'')) (\<lambda>_.
    case map_of (as_object configurationJson) ''credentialId'' of
      Some (JStr credentialId) \<Rightarrow>
        bnd (find_first credential_t (\<lambda>c. cr_id c = credentialId \<and> cr_org c = organizationId \<and> cr_vendor c = vendorId
          \<and> cr_status c \<noteq> Credential_Revoked)) (\<lambda>credential.
        bnd (require (credential \<noteq> None)
          (workflow_invalid ''Workflow credential must be active and belong to the selected vendor.'')) (\<lambda>_.
        bnd (find_first grant_t (\<lambda>g. gr_credential g = credentialId \<and> gr_agent g = agentId \<and> gr_revokedAt g = None)) (\<lambda>grant.
        require (grant \<noteq> None) (DomainError PermissionDenied ''Workflow credential is not granted to the selected agent.''))))
    | _ \<Rightarrow> ret ())"

definition recordWorkflowAudit :: "context_user \<Rightarrow> workflow_row \<Rightarrow> audit_event_type \<Rightarrow> (string \<times> json) list \<Rightarrow> unit action" where
  "recordWorkflowAudit currentUser workflow eventType eventData =
    bnd (record_audit \<lparr>ai_org = cu_org currentUser, ai_run = None, ai_agent = Some (wf_agent workflow), ai_actorType = Actor_User,
      ai_actorId = Some (cu_id currentUser), ai_eventType = eventType, ai_data = JObj eventData\<rparr>) (\<lambda>_. ret ())"

subsection \<open>The operations\<close>

record workflow_input =
  wn_agentId :: string
  wn_vendorId :: string
  wn_name :: string
  wn_template :: workflow_template
  wn_config :: json

record workflow_change =
  wc_agentId :: "string option"
  wc_vendorId :: "string option"
  wc_name :: "string option"
  wc_template :: "workflow_template option"
  wc_config :: "json option"
  wc_status :: "workflow_status option"

definition workflow_list :: "string option \<Rightarrow> page_query \<Rightarrow> (json list \<times> pagination_meta) action" where
  "workflow_list organizationId page =
    bnd (require_org organizationId) (\<lambda>org.
    bnd (find_many workflow_t (\<lambda>f. wf_org f = org)) (\<lambda>found.
    gets (\<lambda>w. (map (toWorkflowDto (w_env w)) (page_slice page (sort_key (\<lambda>f. (wf_createdAt f, wf_name f)) found)),
      paginationMeta (length found) page))))"

definition workflow_get :: "string option \<Rightarrow> string \<Rightarrow> json action" where
  "workflow_get organizationId k = bnd (findWorkflowInOrganization organizationId k) (\<lambda>f. gets (\<lambda>w. toWorkflowDto (w_env w) f))"

definition workflow_create :: "context_user option \<Rightarrow> workflow_input \<Rightarrow> json action" where
  "workflow_create currentUser i =
    bnd (require_user currentUser) (\<lambda>user.
    bnd (assertActiveAgent (cu_org user) (wn_agentId i)) (\<lambda>_.
    bnd (assertActiveVendor (cu_org user) (wn_vendorId i)) (\<lambda>_.
    bnd (validateConfiguration (wn_template i) (wn_config i) (wn_vendorId i)) (\<lambda>_.
    bnd (assertCredentialGrantForConfig (cu_org user) (wn_agentId i) (wn_vendorId i) (wn_config i)) (\<lambda>_.
    bnd fresh_id (\<lambda>k. bnd new_date (\<lambda>now.
    bnd (create_row workflow_t \<lparr>wf_id = k, wf_org = cu_org user, wf_agent = wn_agentId i, wf_vendor = wn_vendorId i, wf_name = wn_name i,
      wf_template = wn_template i, wf_status = Workflow_Active, wf_config = wn_config i, wf_createdBy = cu_id user,
      wf_createdAt = now, wf_updatedAt = now\<rparr>) (\<lambda>workflow.
    bnd (recordWorkflowAudit user workflow Ev_WorkflowCreated [(''workflowId'', JStr (wf_id workflow)), (''agentId'', JStr (wf_agent workflow)),
      (''vendorId'', JStr (wf_vendor workflow)), (''template'', JStr (workflow_template_value (wn_template i))),
      (''name'', JStr (wf_name workflow))]) (\<lambda>_.
    gets (\<lambda>w. toWorkflowDto (w_env w) workflow))))))))))"

definition workflow_update :: "context_user option \<Rightarrow> string \<Rightarrow> workflow_change \<Rightarrow> json action" where
  "workflow_update currentUser k i =
    bnd (require_user currentUser) (\<lambda>user.
    bnd (findWorkflowInOrganization (Some (cu_org user)) k) (\<lambda>existing.
    bnd (ret (coalesce (wc_agentId i) (wf_agent existing), coalesce (wc_vendorId i) (wf_vendor existing),
      coalesce (wc_template i) (wf_template existing), coalesce (wc_config i) (wf_config existing)))
      (\<lambda>(agentId, vendorId, template, configurationJson).
    bnd (assertActiveAgent (cu_org user) agentId) (\<lambda>_.
    bnd (assertActiveVendor (cu_org user) vendorId) (\<lambda>_.
    bnd (validateConfiguration template configurationJson vendorId) (\<lambda>_.
    bnd (assertCredentialGrantForConfig (cu_org user) agentId vendorId configurationJson) (\<lambda>_.
    bnd new_date (\<lambda>now.
    bnd (update_row workflow_t record_not_found (wf_id existing) (\<lambda>f. f\<lparr>wf_agent := coalesce (wc_agentId i) (wf_agent f),
      wf_vendor := coalesce (wc_vendorId i) (wf_vendor f), wf_name := coalesce (wc_name i) (wf_name f),
      wf_template := coalesce (wc_template i) (wf_template f), wf_status := coalesce (wc_status i) (wf_status f),
      wf_config := coalesce (wc_config i) (wf_config f), wf_updatedAt := now\<rparr>)) (\<lambda>workflow.
    bnd (recordWorkflowAudit user workflow Ev_WorkflowUpdated [(''workflowId'', JStr (wf_id workflow)), (''agentId'', JStr (wf_agent workflow)),
      (''vendorId'', JStr (wf_vendor workflow)), (''template'', template_text (wf_template workflow)),
      (''name'', JStr (wf_name workflow))]) (\<lambda>_.
    gets (\<lambda>w. toWorkflowDto (w_env w) workflow)))))))))))"

record started_run =
  sr_run :: json
  sr_queueJobId :: string

definition start_state :: "context_user \<Rightarrow> workflow_row \<Rightarrow> json" where
  "start_state user workflow = JObj [(''requestedByUserId'', JStr (cu_id user)), (''template'', template_text (wf_template workflow)),
     (''configurationJson'', wf_config workflow)]"

definition startRun :: "context_user option \<Rightarrow> string \<Rightarrow> started_run action" where
  "startRun currentUser k =
    bnd (require_user currentUser) (\<lambda>user.
    bnd (findWorkflowInOrganization (Some (cu_org user)) k) (\<lambda>workflow.
    bnd (require (wf_status workflow = Workflow_Active) (workflow_invalid ''Only active workflows can be run.'')) (\<lambda>_.
    bnd (assertActiveAgent (cu_org user) (wf_agent workflow)) (\<lambda>_.
    bnd (assertActiveVendor (cu_org user) (wf_vendor workflow)) (\<lambda>_.
    bnd (assertActivePolicy (cu_org user) (wf_agent workflow)) (\<lambda>_.
    bnd (validateConfiguration (wf_template workflow) (wf_config workflow) (wf_vendor workflow)) (\<lambda>_.
    bnd (assertCredentialGrantForConfig (cu_org user) (wf_agent workflow) (wf_vendor workflow) (wf_config workflow)) (\<lambda>_.
    bnd fresh_id (\<lambda>runId. bnd new_date (\<lambda>now.
    bnd (create_row run_t \<lparr>run_id = runId, run_org = cu_org user, run_workflow = wf_id workflow, run_agent = wf_agent workflow,
      run_vendor = Some (wf_vendor workflow), run_status = Run_Queued, run_startedAt = None, run_completedAt = None, run_currentStep = None,
      run_resultSummary = None, run_errorMessage = None, run_state = start_state user workflow, run_createdAt = now, run_updatedAt = now\<rparr>) (\<lambda>run.
    bnd (record_audit \<lparr>ai_org = cu_org user, ai_run = Some (run_id run), ai_agent = Some (run_agent run), ai_actorType = Actor_User,
      ai_actorId = Some (cu_id user), ai_eventType = Ev_WorkflowRunCreated, ai_data = JObj [(''workflowId'', JStr (wf_id workflow)),
        (''workflowRunId'', JStr (run_id run)), (''status'', JStr (prisma_enum (workflow_run_status_value (run_status run)))),
        (''template'', template_text (wf_template workflow))]\<rparr>) (\<lambda>_.
    bnd (enqueueStart \<lparr>si_run = run_id run, si_workflow = wf_id workflow, si_org = cu_org user, si_agent = wf_agent workflow,
      si_vendor = Some (wf_vendor workflow), si_template = prisma_enum (workflow_template_value (wf_template workflow))\<rparr>) (\<lambda>queued.
    bnd (recordWorkflowAudit user workflow Ev_WorkflowRunRequested [(''workflowId'', JStr (wf_id workflow)),
      (''workflowRunId'', JStr (run_id run)), (''queueJobId'', JStr (eq_jobId queued)), (''template'', template_text (wf_template workflow))]) (\<lambda>_.
    gets (\<lambda>w. \<lparr>sr_run = toWorkflowRunDto (w_env w) run, sr_queueJobId = eq_jobId queued\<rparr>)))))))))))))))"

subsection \<open>What a check lets through\<close>

text \<open>A check changes nothing and succeeds exactly when its condition holds.\<close>

definition passes :: "unit action \<Rightarrow> world \<Rightarrow> bool \<Rightarrow> bool" where
  "passes m w C \<longleftrightarrow> snd (m w) = w \<and> (fst (m w) = Inr () \<longleftrightarrow> C)"

lemma passes_run: "passes m w C \<Longrightarrow> C \<Longrightarrow> bnd m f w = f () w"
  by (cases "m w") (simp add: passes_def bnd_def)

lemma passes_InrE: "bnd m f w = (Inr y, w') \<Longrightarrow> passes m w C \<Longrightarrow> (C \<Longrightarrow> f () w = (Inr y, w') \<Longrightarrow> thesis) \<Longrightarrow> thesis"
  by (cases "m w"; cases "fst (m w)") (auto simp: passes_def bnd_def)

lemma passes_stop: "passes m w C \<Longrightarrow> (C \<Longrightarrow> \<exists>e. f () w = (Inl e, w)) \<Longrightarrow> \<exists>e. bnd m f w = (Inl e, w)"
  by (cases "m w"; cases "fst (m w)") (auto simp: passes_def bnd_def)

lemma passes_require: "passes (require c e) w c"
  by (simp add: passes_def require_def ret_def throw_def)

lemma passes_ret: "passes (ret ()) w True"
  by (simp add: passes_def ret_def)

lemma passes_bnd: "passes m w C \<Longrightarrow> (C \<Longrightarrow> passes (f ()) w D) \<Longrightarrow> passes (bnd m f) w (C \<and> D)"
  by (cases "m w"; cases "fst (m w)") (auto simp: passes_def bnd_def)

lemma passes_after: "passes (f ()) w D \<Longrightarrow> passes (bnd (require c e) f) w (c \<and> D)"
  by (rule passes_bnd [OF passes_require])

lemma passes_require_ret: "passes (bnd (require c e) ret) w c"
  using passes_after [of ret, OF passes_ret] by simp

lemma passes_run_if: "(c \<Longrightarrow> passes m w C) \<Longrightarrow> passes (run_if c m) w (c \<longrightarrow> C)"
  by (cases c) (simp_all add: run_if_def passes_def ret_def)

lemma passes_json_property:
  assumes "\<And>v. v = map_of (as_object j) k \<Longrightarrow> passes (f v) w (C v)"
  shows "passes (bnd (json_property j k) f) w (j \<noteq> JNull \<and> C (map_of (as_object j) k))"
  using assms [OF refl] by (cases "j = JNull") (simp_all add: passes_def json_property_def bnd_def require_def throw_def ret_def)

lemma find_unique_iff:
  assumes "distinct (map key rs)"
  shows "(\<exists>x. find (\<lambda>r. key r = k \<and> P r) rs = Some x \<and> Q x) \<longleftrightarrow> (\<exists>x \<in> set rs. key x = k \<and> P x \<and> Q x)"
proof
  assume "\<exists>x \<in> set rs. key x = k \<and> P x \<and> Q x"
  then obtain x where x: "x \<in> set rs" "key x = k" "P x" "Q x" by blast
  then obtain y where y: "find (\<lambda>r. key r = k \<and> P r) rs = Some y"
    by (cases "find (\<lambda>r. key r = k \<and> P r) rs") (auto simp: find_None_iff)
  then have "y = x" using find_SomeD [OF y] x assms by (auto simp: distinct_map inj_on_def)
  with x y show "\<exists>x. find (\<lambda>r. key r = k \<and> P r) rs = Some x \<and> Q x" by blast
qed (auto dest: find_SomeD)

text \<open>The configuration a template asks for.\<close>

definition configured :: "workflow_template \<Rightarrow> json \<Rightarrow> string \<Rightarrow> bool" where
  "configured t c vendorId \<longleftrightarrow> vendorId \<noteq> [] \<and> nonempty_text (map_of (as_object c) ''credentialId'')
     \<and> (t = Template_PlanDowngradeRequest \<longrightarrow> nonblank_text (map_of (as_object c) ''targetPlan''))"

lemma nonempty_text_given: "nonempty_text v \<Longrightarrow> \<not> (v = None \<or> v = Some JNull \<or> v = Some (JStr []))"
  by (cases v) (auto simp: nonempty_text_def)

lemma nonblank_text_given: "nonblank_text v \<Longrightarrow> \<not> (v = None \<or> v = Some JNull \<or> v = Some (JStr []))"
  by (cases v) (auto simp: nonblank_text_def trim_def)

lemma nonempty_text_object: "nonempty_text (map_of (as_object j) k) \<Longrightarrow> j \<noteq> JNull"
  by (auto simp: nonempty_text_def as_object_def)

lemma passes_inputs:
  "passes (check_inputs is c v) w (\<forall>i \<in> set is. if wi_name i = ''vendorId'' then v \<noteq> [] else c \<noteq> JNull
     \<and> \<not> (wi_required i \<and> (map_of (as_object c) (wi_name i) = None \<or> map_of (as_object c) (wi_name i) = Some JNull
          \<or> map_of (as_object c) (wi_name i) = Some (JStr []))))"
proof (induction "is")
  case (Cons i "is")
  show ?case
    by (cases "wi_name i = ''vendorId''")
       (insert passes_bnd [OF passes_require Cons.IH]
          passes_json_property [OF passes_bnd [OF passes_require Cons.IH]], simp_all add: passes_def)
qed (simp add: passes_def ret_def)

lemma passes_validate: "passes (validateConfiguration t c v) w (configured t c v)"
proof -
  have "passes (validateConfiguration t c v) w
    ((\<forall>i \<in> set (td_requiredInputs (WORKFLOW_TEMPLATE_DEFINITIONS t)). if wi_name i = ''vendorId'' then v \<noteq> [] else c \<noteq> JNull
       \<and> \<not> (wi_required i \<and> (map_of (as_object c) (wi_name i) = None \<or> map_of (as_object c) (wi_name i) = Some JNull
          \<or> map_of (as_object c) (wi_name i) = Some (JStr []))))
     \<and> (requiresLogin t \<longrightarrow> c \<noteq> JNull \<and> nonempty_text (map_of (as_object c) ''credentialId''))
     \<and> (t = Template_PlanDowngradeRequest \<longrightarrow> c \<noteq> JNull \<and> nonblank_text (map_of (as_object c) ''targetPlan'')))"
    unfolding validateConfiguration_def
    by (intro passes_bnd passes_inputs passes_run_if passes_json_property passes_require)
  moreover have "requiresLogin t" by (cases t) (simp_all add: requiresLogin_def)
  ultimately show ?thesis
    by (cases t) (auto simp: configured_def passes_def dest: nonempty_text_object nonempty_text_given nonblank_text_given)
qed

definition agent_active :: "string \<Rightarrow> string \<Rightarrow> world \<Rightarrow> bool" where
  "agent_active org k w \<longleftrightarrow> (\<exists>a \<in> set (agents w). ag_id a = k \<and> ag_org a = org \<and> ag_status a = Agent_Active)"

definition vendor_active :: "string \<Rightarrow> string \<Rightarrow> world \<Rightarrow> bool" where
  "vendor_active org k w \<longleftrightarrow> (\<exists>v \<in> set (vendors w). ve_id v = k \<and> ve_org v = org \<and> ve_deletedAt v = None)"

definition bundle_active :: "string \<Rightarrow> string \<Rightarrow> world \<Rightarrow> bool" where
  "bundle_active org k w \<longleftrightarrow> (\<exists>p \<in> set (policies w). active_bundle org k p)"

definition credential_ready :: "string \<Rightarrow> string \<Rightarrow> string \<Rightarrow> json \<Rightarrow> world \<Rightarrow> bool" where
  "credential_ready org agent vendor c w \<longleftrightarrow> is_json_object c \<and>
     (\<forall>k. map_of (as_object c) ''credentialId'' = Some (JStr k) \<longrightarrow>
        (\<exists>q \<in> set (credentials w). cr_id q = k \<and> cr_org q = org \<and> cr_vendor q = vendor \<and> cr_status q \<noteq> Credential_Revoked)
        \<and> (\<exists>g \<in> set (grants w). gr_credential g = k \<and> gr_agent g = agent \<and> gr_revokedAt g = None))"

lemma passes_find_some:
  "passes (bnd (find_first t P) (\<lambda>found. bnd (require_some found e) (\<lambda>x. require (Q x) e'))) w
     (\<exists>x. find P (tget t w) = Some x \<and> Q x)"
  by (cases "find P (tget t w)")
    (auto simp: passes_def step_simps find_first_def gets_def bnd_def require_some_def require_def throw_def ret_def)

lemma passes_found:
  assumes "distinct (map key (tget t w))"
  shows "passes (bnd (find_first t (\<lambda>r. key r = k \<and> P r)) (\<lambda>found. bnd (require_some found e) (\<lambda>x. require (Q x) e'))) w
     (\<exists>x \<in> set (tget t w). key x = k \<and> P x \<and> Q x)"
  using passes_find_some [of t "\<lambda>r. key r = k \<and> P r" e Q e' w] find_unique_iff [OF assms, of k P Q] by simp

lemma passes_find_any:
  "passes (bnd (find_first t P) (\<lambda>found. require (found \<noteq> None) e)) w (\<exists>x \<in> set (tget t w). P x)"
  by (cases "find P (tget t w)")
    (auto simp: passes_def find_first_def gets_def bnd_def require_def throw_def ret_def find_None_iff dest: find_SomeD)

lemma passes_agent: "unique_keys agent_t w \<Longrightarrow> passes (assertActiveAgent org k) w (agent_active org k w)"
  unfolding assertActiveAgent_def agent_active_def
  using passes_found [of ag_id agent_t w k "\<lambda>a. ag_org a = org"] by (simp add: agent_t_def unique_keys_def)

lemma passes_vendor: "unique_keys vendor_t w \<Longrightarrow> passes (assertActiveVendor org k) w (vendor_active org k w)"
  unfolding assertActiveVendor_def vendor_active_def
  using passes_found [of ve_id vendor_t w k "\<lambda>v. ve_org v = org"] by (simp add: vendor_t_def unique_keys_def)

lemma passes_policy: "passes (assertActivePolicy org k) w (bundle_active org k w)"
  using passes_find_any [of policy_t "active_bundle org k"] by (simp add: assertActivePolicy_def bundle_active_def policy_t_def)

lemma passes_credential: "passes (assertCredentialGrantForConfig org a v c) w (credential_ready org a v c w)"
proof (cases "map_of (as_object c) ''credentialId''")
  case None
  then show ?thesis
    by (simp add: assertCredentialGrantForConfig_def credential_ready_def passes_require_ret)
next
  case (Some j)
  show ?thesis
  proof (cases j)
    case (JStr k)
    have "passes (bnd (find_first credential_t (\<lambda>q. cr_id q = k \<and> cr_org q = org \<and> cr_vendor q = v \<and> cr_status q \<noteq> Credential_Revoked)) (\<lambda>credential.
        bnd (require (credential \<noteq> None) e) (\<lambda>_.
        bnd (find_first grant_t (\<lambda>g. gr_credential g = k \<and> gr_agent g = a \<and> gr_revokedAt g = None)) (\<lambda>grant.
        require (grant \<noteq> None) e')))) w
      ((\<exists>q \<in> set (tget credential_t w). cr_id q = k \<and> cr_org q = org \<and> cr_vendor q = v \<and> cr_status q \<noteq> Credential_Revoked)
       \<and> (\<exists>g \<in> set (tget grant_t w). gr_credential g = k \<and> gr_agent g = a \<and> gr_revokedAt g = None))" for e e'
      by (subst bnd_assoc [symmetric]) (intro passes_bnd passes_find_any)
    from passes_bnd [OF passes_require this] show ?thesis
      by (simp add: assertCredentialGrantForConfig_def credential_ready_def Some JStr credential_t_def grant_t_def)
  qed (use Some in \<open>simp_all add: assertCredentialGrantForConfig_def credential_ready_def passes_require_ret\<close>)
qed

subsection \<open>Starting a run\<close>

definition cleared :: "workflow_row \<Rightarrow> world \<Rightarrow> bool" where
  "cleared f w \<longleftrightarrow> wf_status f = Workflow_Active \<and> agent_active (wf_org f) (wf_agent f) w \<and> vendor_active (wf_org f) (wf_vendor f) w
     \<and> bundle_active (wf_org f) (wf_agent f) w \<and> configured (wf_template f) (wf_config f) (wf_vendor f)
     \<and> credential_ready (wf_org f) (wf_agent f) (wf_vendor f) (wf_config f) w"

lemma enqueueStart_adds:
  obtains w' where "enqueueStart i w = (Inr \<lparr>eq_jobId = workflowStartJobId (si_run i), eq_queue = Queue_runs,
      eq_created = find (has_job_id Queue_runs (workflowStartJobId (si_run i))) (jobs w) = None\<rparr>, w')"
    and "\<exists>j \<in> set (jobs w'). has_job_id Queue_runs (workflowStartJobId (si_run i)) j"
    and "runs w' = runs w" and "audits w' = audits w" and "credentials w' = credentials w" and "grants w' = grants w"
proof -
  let ?w = "w\<lparr>reads := Suc (Suc (reads w))\<rparr>" and ?k = "workflowStartJobId (si_run i)"
  obtain d where run: "enqueueStart i w = addIdempotent Queue_runs (WORKFLOW_QUEUE_JOB_NAMES Mode_start) ?k d retryableJobOptions ?w"
    by (simp add: enqueueStart_def stamped_def issueRunToken_def run_simps)
  have kept: "runs (snd (enqueueStart i w)) = runs w" "audits (snd (enqueueStart i w)) = audits w"
      "credentials (snd (enqueueStart i w)) = credentials w" "grants (snd (enqueueStart i w)) = grants w"
    using same_queue_ops(2) [of runs i w] same_queue_ops(2) [of audits i w] same_queue_ops(2) [of credentials i w]
      same_queue_ops(2) [of grants i w] by (simp_all add: effect_def same_of_def queue_free_def)
  show ?thesis
  proof (cases "find (has_job_id Queue_runs ?k) (jobs w)")
    case None
    then have "find (has_job_id Queue_runs ?k) (jobs ?w) = None" by simp
    note new = addIdempotent_new [OF this, of "WORKFLOW_QUEUE_JOB_NAMES Mode_start" d retryableJobOptions, folded run]
    show ?thesis
      by (rule that [of "snd (enqueueStart i w)"]) (simp_all add: prod_eq_iff new kept None has_job_id_def)
  next
    case (Some j)
    then have "find (has_job_id Queue_runs ?k) (jobs ?w) = Some j" by simp
    note old = addIdempotent_old [OF this, of "WORKFLOW_QUEUE_JOB_NAMES Mode_start" d retryableJobOptions, folded run]
    show ?thesis
      by (rule that [of "snd (enqueueStart i w)"]) (use Some find_SomeD [OF Some] in \<open>auto simp: old kept\<close>)
  qed
qed

text \<open>A start that is cleared: the run, its job, the two events.\<close>

lemma found_workflow:
  assumes "find (\<lambda>f. wf_id f = k \<and> wf_org f = org) (workflows w) = Some f" and "org \<noteq> []"
  shows "bnd (findWorkflowInOrganization (Some org) k) g w = g f w"
  using assms by (intro bnd_Inr) (simp add: findWorkflowInOrganization_def truthy_def run_simps)

lemma chosen_credential:
  assumes "configured t c v" and "credential_ready org agent v c w"
  obtains q g where "map_of (as_object c) ''credentialId'' = Some (JStr (cr_id q))" "q \<in> set (credentials w)" "cr_org q = org" "cr_vendor q = v"
    "cr_status q \<noteq> Credential_Revoked" "g \<in> set (grants w)" "gr_credential g = cr_id q" "gr_agent g = agent" "gr_revokedAt g = None"
proof -
  obtain k where k: "map_of (as_object c) ''credentialId'' = Some (JStr k)"
    using assms(1) by (auto simp: configured_def nonempty_text_def split: option.splits json.splits)
  with assms(2) obtain q g where "q \<in> set (credentials w)" "cr_id q = k" "cr_org q = org" "cr_vendor q = v" "cr_status q \<noteq> Credential_Revoked"
      "g \<in> set (grants w)" "gr_credential g = k" "gr_agent g = agent" "gr_revokedAt g = None"
    unfolding credential_ready_def by blast
  with k show thesis by (intro that [of q g]) simp_all
qed

definition first_run :: "context_user \<Rightarrow> workflow_row \<Rightarrow> world \<Rightarrow> run_row" where
  "first_run u f w = \<lparr>run_id = uuid (w_env w) (ids w), run_org = cu_org u, run_workflow = wf_id f, run_agent = wf_agent f,
      run_vendor = Some (wf_vendor f), run_status = Run_Queued, run_startedAt = None, run_completedAt = None, run_currentStep = None,
      run_resultSummary = None, run_errorMessage = None, run_state = start_state u f, run_createdAt = clock (w_env w) (reads w),
      run_updatedAt = clock (w_env w) (reads w)\<rparr>"

lemma startRun_cleared:
  assumes "unique_keys agent_t w" and "unique_keys vendor_t w" and "cu_org u \<noteq> []"
    and "find (\<lambda>f. wf_id f = k \<and> wf_org f = cu_org u) (workflows w) = Some f" and "cleared f w"
  obtains r w' where "startRun (Some u) k w = (Inr r, w')" "runs w' = runs w @ [first_run u f w]" "credentials w' = credentials w"
    "grants w' = grants w" "\<exists>j \<in> set (jobs w'). has_job_id Queue_runs (workflowStartJobId (run_id (first_run u f w))) j"
    "sr_queueJobId r = workflowStartJobId (run_id (first_run u f w))" "length (audits w') = length (audits w) + 2"
proof -
  have f: "wf_id f = k" "wf_org f = cu_org u" using find_SomeD [OF assms(4)] by simp_all
  note checks = passes_require passes_agent [OF assms(1)] passes_vendor [OF assms(2)] passes_policy passes_validate passes_credential
  have c: "wf_status f = Workflow_Active" "agent_active (cu_org u) (wf_agent f) w" "vendor_active (cu_org u) (wf_vendor f) w"
    "bundle_active (cu_org u) (wf_agent f) w" "configured (wf_template f) (wf_config f) (wf_vendor f)"
    "credential_ready (cu_org u) (wf_agent f) (wf_vendor f) (wf_config f) w"
    using assms(5) by (simp_all add: cleared_def f(2))
  let ?run = "first_run u f w"
  let ?job = "\<lparr>si_run = run_id ?run, si_workflow = k, si_org = cu_org u, si_agent = wf_agent f,
      si_vendor = Some (wf_vendor f), si_template = prisma_enum (workflow_template_value (wf_template f))\<rparr>"
  define w1 where "w1 = snd (record_audit \<lparr>ai_org = cu_org u, ai_run = Some (run_id ?run), ai_agent = Some (wf_agent f), ai_actorType = Actor_User,
    ai_actorId = Some (cu_id u), ai_eventType = Ev_WorkflowRunCreated, ai_data = JObj [(''workflowId'', JStr k),
      (''workflowRunId'', JStr (run_id ?run)), (''status'', JStr (prisma_enum (workflow_run_status_value Run_Queued))),
      (''template'', template_text (wf_template f))]\<rparr> (w\<lparr>ids := Suc (ids w), reads := Suc (reads w), runs := runs w @ [?run]\<rparr>))"
  have w1: "runs w1 = runs w @ [?run]" "credentials w1 = credentials w" "grants w1 = grants w" "length (audits w1) = Suc (length (audits w))"
    by (simp_all add: w1_def record_audit_run Let_def)
  obtain w2 where w2: "enqueueStart ?job w1 = (Inr \<lparr>eq_jobId = workflowStartJobId (run_id ?run), eq_queue = Queue_runs, eq_created = find (has_job_id Queue_runs (workflowStartJobId (run_id ?run))) (jobs w1) = None\<rparr>, w2)"
      "\<exists>j \<in> set (jobs w2). has_job_id Queue_runs (workflowStartJobId (run_id ?run)) j"
      "runs w2 = runs w1" "audits w2 = audits w1" "credentials w2 = credentials w1" "grants w2 = grants w1"
    using enqueueStart_adds [of ?job w1] by auto
  obtain w3 d where w3: "record_audit \<lparr>ai_org = cu_org u, ai_run = None, ai_agent = Some (wf_agent f), ai_actorType = Actor_User,
    ai_actorId = Some (cu_id u), ai_eventType = Ev_WorkflowRunRequested, ai_data = JObj [(''workflowId'', JStr k),
    (''workflowRunId'', JStr (run_id ?run)), (''queueJobId'', JStr (workflowStartJobId (run_id ?run))), (''template'', template_text (wf_template f))]\<rparr> w2
    = (Inr d, w3)"
    "runs w3 = runs w2" "jobs w3 = jobs w2" "credentials w3 = credentials w2" "grants w3 = grants w2" "length (audits w3) = Suc (length (audits w2))"
    by (simp add: record_audit_run Let_def)
  have "startRun (Some u) k w = (Inr \<lparr>sr_run = toWorkflowRunDto (w_env w3) ?run, sr_queueJobId = workflowStartJobId (run_id ?run)\<rparr>, w3)"
    unfolding startRun_def require_user_def bnd_require_some found_workflow [OF assms(4,3)]
      passes_run [OF checks(1) c(1)] passes_run [OF checks(2) c(2)] passes_run [OF checks(3) c(3)] passes_run [OF checks(4) c(4)]
      passes_run [OF checks(5) c(5)] passes_run [OF checks(6) c(6)]
    using w2(1) w3(1) by (simp add: step_simps f(1) run_t_def recordWorkflowAudit_def bnd_assoc w1_def first_run_def, simp add: bnd_def)
  then show thesis by (rule that) (use w2(2) in \<open>simp_all add: w1 w2(3-) w3(2-)\<close>)
qed

lemma startRun_stopped:
  assumes "unique_keys agent_t w" and "unique_keys vendor_t w" and "cu_org u \<noteq> []"
    and "find (\<lambda>f. wf_id f = k \<and> wf_org f = cu_org u) (workflows w) = Some f" and "\<not> cleared f w"
  shows "\<exists>e. startRun (Some u) k w = (Inl e, w)"
proof -
  note checks = passes_require passes_agent [OF assms(1)] passes_vendor [OF assms(2)] passes_policy passes_validate passes_credential
  show ?thesis
    unfolding startRun_def require_user_def bnd_require_some found_workflow [OF assms(4,3)]
    by (rule passes_stop [OF checks(1)], rule passes_stop [OF checks(2)], rule passes_stop [OF checks(3)],
        rule passes_stop [OF checks(4)], rule passes_stop [OF checks(5)], rule passes_stop [OF checks(6)])
       (use assms(5) find_SomeD [OF assms(4)] in \<open>simp add: cleared_def\<close>)
qed

text \<open>C8. A run is started exactly when its workflow belongs to the user's organization and is active,
its agent is active, its vendor is not deleted, the agent has an active policy bundle, the
configuration is complete for the template and names a credential of that vendor that is not
revoked and is granted to the agent. Then one queued run is added, its start job is in the
queue, two events are recorded, and the worker may open the credential for this run. Otherwise
nothing changes.\<close>

theorem started_run_is_cleared:
  assumes "unique_keys agent_t w" and "unique_keys vendor_t w" and "unique_keys workflow_t w" and "cu_org u \<noteq> []"
  shows "case startRun (Some u) k w of
      (Inl e, w') \<Rightarrow> w' = w \<and> \<not> (\<exists>f \<in> set (workflows w). wf_id f = k \<and> wf_org f = cu_org u \<and> cleared f w)
    | (Inr r, w') \<Rightarrow> \<exists>f \<in> set (workflows w). wf_id f = k \<and> wf_org f = cu_org u \<and> cleared f w
        \<and> (\<exists>run c. runs w' = runs w @ [run] \<and> run_status run = Run_Queued \<and> run_workflow run = k
             \<and> run_agent run = wf_agent f \<and> run_vendor run = Some (wf_vendor f)
             \<and> map_of (as_object (wf_config f)) ''credentialId'' = Some (JStr (cr_id c)) \<and> c \<in> set (credentials w') \<and> may_use run c w'
             \<and> (\<exists>j \<in> set (jobs w'). has_job_id Queue_runs (workflowStartJobId (run_id run)) j)
             \<and> sr_queueJobId r = workflowStartJobId (run_id run) \<and> length (audits w') = length (audits w) + 2)"
proof (cases "find (\<lambda>f. wf_id f = k \<and> wf_org f = cu_org u) (workflows w)")
  case None
  then have "startRun (Some u) k w = (Inl (DomainError NotFound ''Workflow was not found.''), w)"
    using assms(4) by (simp add: startRun_def findWorkflowInOrganization_def require_org_def require_user_def truthy_def
        step_simps bnd_assoc workflow_t_def throw_def)
  with None show ?thesis by (auto simp: find_None_iff)
next
  case (Some f)
  have f: "f \<in> set (workflows w)" "wf_id f = k" "wf_org f = cu_org u" using find_SomeD [OF Some] by simp_all
  have only: "g = f" if "g \<in> set (workflows w)" "wf_id g = k" for g
    using that f assms(3) by (auto simp: unique_keys_def workflow_t_def distinct_map inj_on_def)
  show ?thesis
  proof (cases "cleared f w")
    case False
    then show ?thesis using startRun_stopped [OF assms(1,2,4) Some False] only by auto
  next
    case True
    obtain q g where q: "map_of (as_object (wf_config f)) ''credentialId'' = Some (JStr (cr_id q))" "q \<in> set (credentials w)"
      "cr_org q = cu_org u" "cr_vendor q = wf_vendor f" "cr_status q \<noteq> Credential_Revoked"
      "g \<in> set (grants w)" "gr_credential g = cr_id q" "gr_agent g = wf_agent f" "gr_revokedAt g = None"
      using True unfolding cleared_def f(3) by (elim conjE chosen_credential)
    from startRun_cleared [OF assms(1,2,4) Some True] obtain r w' where run: "startRun (Some u) k w = (Inr r, w')"
      and w': "runs w' = runs w @ [first_run u f w]" "credentials w' = credentials w" "grants w' = grants w"
        "\<exists>j \<in> set (jobs w'). has_job_id Queue_runs (workflowStartJobId (run_id (first_run u f w))) j"
        "sr_queueJobId r = workflowStartJobId (run_id (first_run u f w))" "length (audits w') = length (audits w) + 2" .
    have "may_use (first_run u f w) q w'" using q w'(3) by (auto simp: may_use_def first_run_def)
    then show ?thesis
      unfolding run using f True q(1,2) w'
      by (auto intro!: bexI [of _ f] exI [of _ "first_run u f w"] exI [of _ q] simp: first_run_def)
  qed
qed

definition start_world :: world where
  "start_world = (empty_world demo_env)\<lparr>
     agents := [\<lparr>ag_id = ''a'', ag_org = ''o'', ag_name = ''n'', ag_identifier = ''i'', ag_purpose = ''p'', ag_status = Agent_Active,
       ag_createdBy = ''u'', ag_createdAt = 0, ag_updatedAt = 0, ag_revokedAt = None\<rparr>],
     vendors := [\<lparr>ve_id = ''v'', ve_org = ''o'', ve_name = ''n'', ve_website = ''s'', ve_category = Vendor_Other, ve_connectorType = Connector_Sandbox,
       ve_metadata = JObj [], ve_deletedAt = None, ve_renewalDate = None, ve_monthlyCostCents = None, ve_owner = None, ve_createdAt = 0, ve_updatedAt = 0\<rparr>],
     policies := [\<lparr>po_id = ''p'', po_org = ''o'', po_agent = Some ''a'', po_name = ''n'',
       po_type = PolicyType_AgentPolicyBundle, po_version = 1, po_status = Policy_Active, po_rules = JObj [], po_createdBy = ''u'',
       po_createdAt = 0, po_updatedAt = 0\<rparr>],
     credentials := [demo_credential\<lparr>cr_org := ''o'', cr_vendor := ''v''\<rparr>], grants := [demo_grant],
     workflows := [\<lparr>wf_id = ''w'', wf_org = ''o'', wf_agent = ''a'', wf_vendor = ''v'', wf_name = ''n'', wf_template = Template_SaasRenewalCheck,
       wf_status = Workflow_Active, wf_config = JObj [(''credentialId'', JStr ''k'')], wf_createdBy = ''u'', wf_createdAt = 0, wf_updatedAt = 0\<rparr>]\<rparr>"

theorem started_run_is_cleared_witness:
  "case startRun (Some demo_user) ''w'' start_world of
      (Inl e, w') \<Rightarrow> False
    | (Inr r, w') \<Rightarrow> \<exists>run. runs w' = [run] \<and> run_status run = Run_Queued
        \<and> (\<exists>j \<in> set (jobs w'). has_job_id Queue_runs (workflowStartJobId (run_id run)) j)"
proof -
  let ?f = "hd (workflows start_world)"
  have keys: "unique_keys agent_t start_world" "unique_keys vendor_t start_world" "unique_keys workflow_t start_world" "cu_org demo_user \<noteq> []"
    by (simp_all add: unique_keys_def agent_t_def vendor_t_def workflow_t_def start_world_def demo_user_def)
  have f: "?f \<in> set (workflows start_world)" "wf_id ?f = ''w''" "wf_org ?f = cu_org demo_user"
    by (simp_all add: start_world_def demo_user_def)
  have "cleared ?f start_world"
    by (simp add: start_world_def cleared_def agent_active_def vendor_active_def bundle_active_def active_bundle_def configured_def
        nonempty_text_def credential_ready_def as_object_def is_json_object_def demo_credential_def demo_grant_def)
  moreover have "runs start_world = []" by (simp add: start_world_def empty_world_def)
  ultimately show ?thesis
    using started_run_is_cleared [OF keys, of "''w''"] f by (fastforce split: prod.splits sum.splits)
qed

end
