(* ===== verification/Vendors.thy ===== *)
theory Vendors
  imports Workflows
begin

section \<open>Vendors\<close>

text \<open>
  Vendors of an organization (\<open>vendors/vendors.service.ts\<close>, \<open>vendor-url.service.ts\<close>,
  \<open>vendor-risk-profile.service.ts\<close>, \<open>vendors.types.ts\<close>): the address a website is stored under, the
  risk shown with a vendor, and creating, changing and deleting vendors with the constraints that
  \<open>schema.prisma\<close> puts on the table: one row per organization and website, and no row removed
  while a credential or a workflow refers to it.
\<close>

subsection \<open>Websites\<close>

definition strip_slashes :: "string \<Rightarrow> string" where
  "strip_slashes s = rev (dropWhile (\<lambda>c. c = CHR ''/'') (rev s))"

definition invalid_website :: err where
  "invalid_website = DomainError ValidationFailed ''Vendor website must be a valid URL.''"

text \<open>\<open>url_parts\<close> gives the origin and the path of an address, \<open>set_pathname\<close> the path read back after it
was assigned.\<close>

definition normalize_website :: "env \<Rightarrow> string \<Rightarrow> string option" where
  "normalize_website e website =
    map_option (\<lambda>(origin, pathname).
      let stripped = strip_slashes pathname;
          path = set_pathname e (trim website) (if stripped = [] then ''/'' else stripped)
      in if path = ''/'' then origin else origin @ path)
    (url_parts e (trim website))"

definition normalize :: "string \<Rightarrow> string action" where
  "normalize website = bnd (gets (\<lambda>w. normalize_website (w_env w) website)) (\<lambda>v. require_some v invalid_website)"

definition vendor_hostname :: "string \<Rightarrow> string action" where
  "vendor_hostname website =
    bnd (gets (\<lambda>w. url_host (w_env w) website)) (\<lambda>host. bnd (require_some host invalid_website) (\<lambda>h. ret (to_lower h)))"

subsection \<open>Risk\<close>

definition readMetadataRisk :: "json \<Rightarrow> string option" where
  "readMetadataRisk metadata =
    (case map_of (as_object metadata) ''risk'' of
       Some (JStr s) \<Rightarrow> if s \<in> set [''low'', ''medium'', ''high'', ''blocked''] then Some s else None
     | _ \<Rightarrow> None)"

definition risk_profile :: "vendor_row \<Rightarrow> string \<times> string list" where
  "risk_profile v =
    (case readMetadataRisk (ve_metadata v) of
       Some risk \<Rightarrow> (risk, [''Metadata risk is '' @ risk @ ''.''])
     | None \<Rightarrow>
         if ve_category v = Vendor_Payroll then (''blocked'', [''Payroll vendors are blocked for MVP automation by default.''])
         else if coalesce (ve_monthlyCostCents v) 0 \<ge> 100000 then (''high'', [''Monthly spend is at least $1,000.''])
         else if coalesce (ve_monthlyCostCents v) 0 \<ge> 50000 then (''medium'', [''Monthly spend is at least $500.''])
         else (''low'', [''No elevated risk signals.'']))"

definition toVendorDto :: "env \<Rightarrow> vendor_row \<Rightarrow> string \<times> string list \<Rightarrow> json" where
  "toVendorDto e v risk = JObj
     [(''id'', JStr (ve_id v)), (''organizationId'', JStr (ve_org v)), (''name'', JStr (ve_name v)), (''website'', JStr (ve_website v)),
      (''category'', JStr (vendor_category_value (ve_category v))), (''connectorType'', JStr (connector_type_value (ve_connectorType v))),
      (''renewalDate'', jopt (map_option (\<lambda>d. take 10 (iso e d)) (ve_renewalDate v))),
      (''monthlyCostCents'', jnum_opt (ve_monthlyCostCents v)), (''ownerUserId'', jopt (ve_owner v)), (''metadataJson'', ve_metadata v),
      (''riskProfile'', JObj [(''level'', JStr (fst risk)), (''reasons'', JArr (map JStr (snd risk)))]),
      (''deletedAt'', iso_opt e (ve_deletedAt v)), (''createdAt'', JStr (iso e (ve_createdAt v))),
      (''updatedAt'', JStr (iso e (ve_updatedAt v)))]"

definition vendor_view :: "vendor_row \<Rightarrow> json action" where
  "vendor_view v = gets (\<lambda>w. toVendorDto (w_env w) v (risk_profile v))"

subsection \<open>The constraints of the table\<close>

definition unique_violation :: err where
  "unique_violation = PrismaError ''Unique constraint failed on the fields: (`organization_id`,`website`)''"

definition foreign_key_violation :: err where
  "foreign_key_violation = PrismaError ''Foreign key constraint violated''"

text \<open>\<open>@@unique([organizationId, website])\<close>, for a row with the given key: deleted rows count.\<close>

definition website_taken :: "string \<Rightarrow> string \<Rightarrow> string \<Rightarrow> vendor_row \<Rightarrow> bool" where
  "website_taken k org website v \<longleftrightarrow> ve_id v \<noteq> k \<and> ve_org v = org \<and> ve_website v = website"

definition check_website :: "string \<Rightarrow> string \<Rightarrow> string \<Rightarrow> unit action" where
  "check_website k org website =
    bnd (gets (\<lambda>w. list_ex (website_taken k org website) (vendors w))) (\<lambda>taken. require (\<not> taken) unique_violation)"

text \<open>The relations to a vendor: credentials and workflows keep it, runs and attempts lose the reference.\<close>

definition delete_vendor_row :: "string \<Rightarrow> unit action" where
  "delete_vendor_row k =
    bnd (gets (\<lambda>w. list_ex (\<lambda>c. cr_vendor c = k) (credentials w) \<or> list_ex (\<lambda>f. wf_vendor f = k) (workflows w))) (\<lambda>kept.
    bnd (require (\<not> kept) foreign_key_violation) (\<lambda>_.
    modify (\<lambda>w. w\<lparr>vendors := filter (\<lambda>v. ve_id v \<noteq> k) (vendors w),
      runs := map (\<lambda>r. if run_vendor r = Some k then r\<lparr>run_vendor := None\<rparr> else r) (runs w),
      attempts := map (\<lambda>a. if at_vendor a = Some k then a\<lparr>at_vendor := None\<rparr> else a) (attempts w)\<rparr>)))"

subsection \<open>The operations\<close>

record vendor_input =
  vn_name :: string
  vn_website :: string
  vn_category :: vendor_category
  vn_connectorType :: "connector_type option"
  vn_renewalDate :: "string option"
  vn_monthlyCostCents :: "int option"
  vn_owner :: "string option"
  vn_metadata :: "json option"

record vendor_change =
  vq_name :: "string option"
  vq_website :: "string option"
  vq_category :: "vendor_category option"
  vq_connectorType :: "connector_type option"
  vq_renewalDate :: "string option"
  vq_monthlyCostCents :: "int option"
  vq_owner :: "string option"
  vq_metadata :: "json option"

definition findVendorInOrganization :: "string option \<Rightarrow> string \<Rightarrow> vendor_row action" where
  "findVendorInOrganization organizationId k =
    bnd (require_org organizationId) (\<lambda>org.
    bnd (find_first vendor_t (\<lambda>v. ve_id v = k \<and> ve_org v = org \<and> ve_deletedAt v = None)) (\<lambda>vendor.
    require_some vendor (DomainError NotFound ''Vendor was not found.'')))"

definition assertNoActiveDuplicate :: "string \<Rightarrow> string \<Rightarrow> unit action" where
  "assertNoActiveDuplicate organizationId website =
    bnd (find_first vendor_t (\<lambda>v. ve_org v = organizationId \<and> ve_website v = website \<and> ve_deletedAt v = None)) (\<lambda>duplicate.
    require (duplicate = None) (DomainError ValidationFailed ''Active vendor website already exists.''))"

definition assertOwnerInOrganization :: "string \<Rightarrow> string option \<Rightarrow> unit action" where
  "assertOwnerInOrganization organizationId ownerUserId =
    run_if (truthy ownerUserId)
      (bnd (find_first user_t (\<lambda>u. us_id u = the ownerUserId \<and> us_org u = organizationId)) (\<lambda>owner.
       require (owner \<noteq> None) (DomainError OrganizationIsolationViolation ''Vendor owner belongs to another organization.'')))"

definition recordVendorAudit :: "context_user \<Rightarrow> audit_event_type \<Rightarrow> (string \<times> json) list \<Rightarrow> unit action" where
  "recordVendorAudit currentUser eventType eventData =
    bnd (record_audit \<lparr>ai_org = cu_org currentUser, ai_run = None, ai_agent = None, ai_actorType = Actor_User,
      ai_actorId = Some (cu_id currentUser), ai_eventType = eventType, ai_data = JObj eventData\<rparr>) (\<lambda>_. ret ())"

definition vendor_list :: "string option \<Rightarrow> page_query \<Rightarrow> (json list \<times> pagination_meta) action" where
  "vendor_list organizationId page =
    bnd (require_org organizationId) (\<lambda>org.
    bnd (find_many vendor_t (\<lambda>v. ve_org v = org \<and> ve_deletedAt v = None)) (\<lambda>found.
    gets (\<lambda>w. (map (\<lambda>v. toVendorDto (w_env w) v (risk_profile v)) (page_slice page (sort_key (\<lambda>v. (ve_name v, ve_createdAt v)) found)),
      paginationMeta (length found) page))))"

definition vendor_get :: "string option \<Rightarrow> string \<Rightarrow> json action" where
  "vendor_get organizationId k = bnd (findVendorInOrganization organizationId k) vendor_view"

text \<open>\<open>new Date(text)\<close> where a text is given, which the database client refuses when it is no date.\<close>

definition date_input :: "string option \<Rightarrow> nat option action" where
  "date_input v =
    (if truthy v then
       bnd (gets (\<lambda>w. parse_date (w_env w) (the v))) (\<lambda>d.
       bnd (require_some d (PrismaError ''Invalid value for argument `renewalDate`: Provided Date object is invalid.'')) (\<lambda>d.
       ret (Some d)))
     else ret None)"

definition vendor_create :: "context_user option \<Rightarrow> vendor_input \<Rightarrow> json action" where
  "vendor_create currentUser i =
    bnd (require_user currentUser) (\<lambda>user.
    bnd (assertOwnerInOrganization (cu_org user) (vn_owner i)) (\<lambda>_.
    bnd (normalize (vn_website i)) (\<lambda>website.
    bnd (assertNoActiveDuplicate (cu_org user) website) (\<lambda>_.
    bnd (date_input (vn_renewalDate i)) (\<lambda>renewalDate.
    bnd fresh_id (\<lambda>k. bnd new_date (\<lambda>now.
    bnd (check_website k (cu_org user) website) (\<lambda>_.
    bnd (create_row vendor_t \<lparr>ve_id = k, ve_org = cu_org user, ve_name = vn_name i, ve_website = website, ve_category = vn_category i,
      ve_connectorType = coalesce (vn_connectorType i) Connector_Sandbox, ve_metadata = coalesce (vn_metadata i) (JObj []),
      ve_deletedAt = None, ve_renewalDate = renewalDate, ve_monthlyCostCents = vn_monthlyCostCents i, ve_owner = vn_owner i,
      ve_createdAt = now, ve_updatedAt = now\<rparr>) (\<lambda>vendor.
    bnd (recordVendorAudit user Ev_VendorCreated [(''vendorId'', JStr (ve_id vendor)), (''name'', JStr (ve_name vendor)),
      (''website'', JStr (ve_website vendor)), (''category'', JStr (vendor_category_value (vn_category i)))]) (\<lambda>_.
    vendor_view vendor))))))))))"

definition next_website :: "string option \<Rightarrow> string option action" where
  "next_website website = (if truthy website then bnd (normalize (the website)) (\<lambda>s. ret (Some s)) else ret None)"

definition vendor_update :: "context_user option \<Rightarrow> string \<Rightarrow> vendor_change \<Rightarrow> json action" where
  "vendor_update currentUser k i =
    bnd (require_user currentUser) (\<lambda>user.
    bnd (findVendorInOrganization (Some (cu_org user)) k) (\<lambda>existing.
    bnd (assertOwnerInOrganization (cu_org user) (vq_owner i)) (\<lambda>_.
    bnd (next_website (vq_website i)) (\<lambda>nextWebsite.
    bnd (run_if (truthy nextWebsite \<and> nextWebsite \<noteq> Some (ve_website existing))
      (assertNoActiveDuplicate (cu_org user) (the nextWebsite))) (\<lambda>_.
    bnd (date_input (vq_renewalDate i)) (\<lambda>renewalDate.
    bnd new_date (\<lambda>now.
    bnd (check_website (ve_id existing) (ve_org existing) (coalesce nextWebsite (ve_website existing))) (\<lambda>_.
    bnd (update_row vendor_t record_not_found (ve_id existing) (\<lambda>v. v\<lparr>ve_name := coalesce (vq_name i) (ve_name v),
      ve_website := coalesce nextWebsite (ve_website v), ve_category := coalesce (vq_category i) (ve_category v),
      ve_connectorType := coalesce (vq_connectorType i) (ve_connectorType v),
      ve_metadata := coalesce (vq_metadata i) (ve_metadata v),
      ve_renewalDate := (if renewalDate = None then ve_renewalDate v else renewalDate),
      ve_monthlyCostCents := (if vq_monthlyCostCents i = None then ve_monthlyCostCents v else vq_monthlyCostCents i),
      ve_owner := (if vq_owner i = None then ve_owner v else vq_owner i), ve_updatedAt := now\<rparr>)) (\<lambda>vendor.
    bnd (recordVendorAudit user Ev_VendorUpdated [(''vendorId'', JStr (ve_id vendor)), (''name'', JStr (ve_name vendor)),
      (''website'', JStr (ve_website vendor))]) (\<lambda>_.
    vendor_view vendor))))))))))"

definition vendor_delete :: "context_user option \<Rightarrow> string \<Rightarrow> json action" where
  "vendor_delete currentUser k =
    bnd (require_user currentUser) (\<lambda>user.
    bnd (findVendorInOrganization (Some (cu_org user)) k) (\<lambda>existing.
    bnd (find_many workflow_t (\<lambda>f. wf_org f = cu_org user \<and> wf_vendor f = ve_id existing)) (\<lambda>used.
    if length used > 0 then
      bnd (now_unless (ve_deletedAt existing)) (\<lambda>deletedAt.
      bnd new_date (\<lambda>now.
      bnd (update_row vendor_t record_not_found (ve_id existing) (\<lambda>v. v\<lparr>ve_deletedAt := deletedAt, ve_updatedAt := now\<rparr>)) (\<lambda>vendor.
      bnd (recordVendorAudit user Ev_VendorDeleted [(''vendorId'', JStr (ve_id vendor)), (''name'', JStr (ve_name vendor)),
        (''softDeleted'', JBool True)]) (\<lambda>_.
      vendor_view vendor))))
    else
      bnd (delete_vendor_row (ve_id existing)) (\<lambda>_.
      bnd (recordVendorAudit user Ev_VendorDeleted [(''vendorId'', JStr (ve_id existing)), (''name'', JStr (ve_name existing)),
        (''softDeleted'', JBool False)]) (\<lambda>_.
      ret (JObj [(''id'', JStr (ve_id existing)), (''deleted'', JBool True), (''softDeleted'', JBool False)]))))))"

subsection \<open>Deleting\<close>

lemma findVendor_run:
  assumes "unique_keys vendor_t w" and "v \<in> set (vendors w)" and "ve_org v = org" and "ve_deletedAt v = None" and "org \<noteq> []"
  shows "findVendorInOrganization (Some org) (ve_id v) w = (Inr v, w)"
proof -
  have "\<exists>x. find (\<lambda>q. ve_id q = ve_id v \<and> (ve_org q = org \<and> ve_deletedAt q = None)) (vendors w) = Some x \<and> x = v"
    using assms find_unique_iff [of ve_id "vendors w" "ve_id v" "\<lambda>q. ve_org q = org \<and> ve_deletedAt q = None" "\<lambda>x. x = v"]
    by (auto simp: unique_keys_def vendor_t_def)
  then show ?thesis using assms(5) by (simp add: findVendorInOrganization_def run_simps truthy_def)
qed

lemma find_vendor_row: "unique_keys vendor_t w \<Longrightarrow> v \<in> set (vendors w) \<Longrightarrow> find (\<lambda>q. ve_id q = ve_id v) (vendors w) = Some v"
  using find_unique_iff [of ve_id "vendors w" "ve_id v" "\<lambda>_. True" "\<lambda>x. x = v"] by (auto simp: unique_keys_def vendor_t_def)

text \<open>Deleting a vendor hides it, with the time of the deletion, when a workflow of the organization uses
it. Otherwise its row is removed and runs lose the reference to it, unless a credential still refers to
it: then the database refuses, the request fails with an error that is not one of the program, and
nothing changes.\<close>

theorem vendor_delete_cases:
  assumes "unique_keys vendor_t w" and "v \<in> set (vendors w)" and "ve_org v = cu_org u" and "ve_deletedAt v = None" and "cu_org u \<noteq> []"
    and "\<And>f. f \<in> set (workflows w) \<Longrightarrow> wf_vendor f = ve_id v \<Longrightarrow> wf_org f = cu_org u"
  shows "case vendor_delete (Some u) (ve_id v) w of (r, w') \<Rightarrow>
    if \<exists>f \<in> set (workflows w). wf_vendor f = ve_id v
    then \<not> isl r \<and> vendors w' = upd_row ve_id (ve_id v) (\<lambda>v. v\<lparr>ve_deletedAt := Some (clock (w_env w) (reads w)), ve_updatedAt := clock (w_env w) (Suc (reads w))\<rparr>) (vendors w)
    else if \<exists>c \<in> set (credentials w). cr_vendor c = ve_id v
    then r = Inl foreign_key_violation \<and> w' = w
    else \<not> isl r \<and> ve_id v \<notin> ve_id ` set (vendors w') \<and> length (runs w') = length (runs w)
      \<and> (\<forall>r \<in> set (runs w'). run_vendor r \<noteq> Some (ve_id v)) \<and> credentials w' = credentials w"
proof -
  note start = vendor_delete_def require_user_def bnd_require_some
    bnd_Inr [of "findVendorInOrganization (Some (cu_org u)) (ve_id v)", OF findVendor_run [OF assms(1,2,3,4,5)]]
  have used: "filter (\<lambda>f. wf_org f = cu_org u \<and> wf_vendor f = ve_id v) (workflows w) = [] \<longleftrightarrow> \<not> (\<exists>f \<in> set (workflows w). wf_vendor f = ve_id v)"
    using assms(6) by (auto simp: filter_empty_conv)
  show ?thesis
  proof (cases "\<exists>f \<in> set (workflows w). wf_vendor f = ve_id v")
    case True
    with used show ?thesis
      using find_vendor_row [OF assms(1,2)] assms(4)
      by (simp add: start step_simps workflow_t_def, simp add: run_simps now_unless_def recordVendorAudit_def record_audit_run Let_def vendor_view_def
          del: redact.simps)
  next
    case False
    with used show ?thesis
      unfolding start
      by (cases "\<exists>c \<in> set (credentials w). cr_vendor c = ve_id v")
         (auto simp: run_simps delete_vendor_row_def list_ex_iff recordVendorAudit_def record_audit_run Let_def simp del: redact.simps)
  qed
qed

definition vendor_demo :: vendor_row where
  "vendor_demo = hd (vendors start_world)"

theorem vendor_delete_cases_witness:
  "vendor_delete (Some demo_user) ''v'' (start_world\<lparr>workflows := []\<rparr>) = (Inl foreign_key_violation, start_world\<lparr>workflows := []\<rparr>)"
  using vendor_delete_cases [of "start_world\<lparr>workflows := []\<rparr>" vendor_demo demo_user]
  by (auto simp: vendor_demo_def start_world_def unique_keys_def vendor_t_def demo_user_def demo_credential_def)

subsection \<open>A website once used\<close>

lemma filter_no_match: "find P xs = None \<longleftrightarrow> \<not> list_ex P xs"
  by (auto simp: find_None_iff list_ex_iff)

text \<open>The website of a deleted vendor stays taken: creating a vendor for it passes the check for an active
duplicate and then fails on the constraint of the table, for an owner and a date that are valid. No vendor is
added.\<close>

theorem deleted_website_stays_taken:
  assumes "normalize_website (w_env w) (vn_website i) = Some website"
    and "v \<in> set (vendors w)" and "ve_org v = cu_org u" and "ve_website v = website" and "ve_deletedAt v \<noteq> None"
    and "\<And>q. q \<in> set (vendors w) \<Longrightarrow> ve_org q = cu_org u \<Longrightarrow> ve_website q = website \<Longrightarrow> ve_deletedAt q \<noteq> None"
    and "vn_owner i = None" and "vn_renewalDate i = None" and "uuid (w_env w) (ids w) \<noteq> ve_id v"
  shows "fst (vendor_create (Some u) i w) = Inl unique_violation \<and> vendors (snd (vendor_create (Some u) i w)) = vendors w"
proof -
  have "find (\<lambda>q. ve_org q = cu_org u \<and> ve_website q = website \<and> ve_deletedAt q = None) (vendors w) = None"
    using assms(6) by (auto simp: find_None_iff)
  moreover have "list_ex (website_taken (uuid (w_env w) (ids w)) (cu_org u) website) (vendors w)"
    unfolding list_ex_iff website_taken_def using assms(2-4,9) by (intro bexI [of _ v]) auto
  ultimately show ?thesis
    using assms(1,7,8)
    by (simp add: vendor_create_def require_user_def assertOwnerInOrganization_def normalize_def assertNoActiveDuplicate_def date_input_def
        check_website_def truthy_def run_simps vendor_t_def)
qed

definition demo_vendor_input :: vendor_input where
  "demo_vendor_input = \<lparr>vn_name = ''n'', vn_website = ''s'', vn_category = Vendor_Other, vn_connectorType = None, vn_renewalDate = None,
     vn_monthlyCostCents = None, vn_owner = None, vn_metadata = None\<rparr>"

theorem deleted_website_stays_taken_witness:
  "fst (vendor_create (Some demo_user) demo_vendor_input (start_world\<lparr>vendors := [vendor_demo\<lparr>ve_deletedAt := Some 5\<rparr>]\<rparr>)) = Inl unique_violation"
  using deleted_website_stays_taken [of "start_world\<lparr>vendors := [vendor_demo\<lparr>ve_deletedAt := Some 5\<rparr>]\<rparr>" demo_vendor_input "''s''"
      "vendor_demo\<lparr>ve_deletedAt := Some 5\<rparr>" demo_user]
  by (simp add: vendor_demo_def start_world_def demo_user_def demo_vendor_input_def normalize_website_def strip_slashes_def
      empty_world_def demo_env_def trim_def is_space_def)

end
