(* ===== verification/Users.thy ===== *)
theory Users
  imports Vendors
begin

section \<open>Users\<close>

text \<open>
  The members of an organization (\<open>users/users.service.ts\<close>, \<open>users.types.ts\<close>): inviting, changing roles,
  disabling and enabling by owners and administrators, and a user's own profile and password. A
  role outside the enumeration has no counterpart in the datatype, so \<open>assertKnownRole\<close> always holds.
\<close>

definition toUserDto :: "env \<Rightarrow> user_row \<Rightarrow> (string \<times> json) list" where
  "toUserDto e u =
     [(''id'', JStr (us_id u)), (''organizationId'', JStr (us_org u)), (''email'', JStr (us_email u)), (''name'', JStr (us_name u)),
      (''role'', JStr (prisma_role u)), (''status'', JStr (prisma_enum (user_status_value (us_status u)))),
      (''createdAt'', JStr (iso e (us_createdAt u))), (''updatedAt'', JStr (iso e (us_updatedAt u))),
      (''lastLoginAt'', iso_opt e (us_lastLoginAt u)), (''disabledAt'', iso_opt e (us_disabledAt u)),
      (''emailVerifiedAt'', iso_opt e (us_emailVerifiedAt u))]"

definition user_view :: "user_row \<Rightarrow> json action" where
  "user_view u = gets (\<lambda>w. JObj (toUserDto (w_env w) u))"

subsection \<open>Checks\<close>

definition findUserInOrganization :: "string option \<Rightarrow> string \<Rightarrow> user_row action" where
  "findUserInOrganization organizationId k =
    bnd (require_org organizationId) (\<lambda>org.
    bnd (find_first user_t (\<lambda>u. us_id u = k \<and> us_org u = org)) (\<lambda>user.
    require_some user (DomainError NotFound ''User was not found.'')))"

definition assertOwnerOrAdmin :: "context_user option \<Rightarrow> string \<Rightarrow> context_user action" where
  "assertOwnerOrAdmin currentUser message =
    (case currentUser of
       None \<Rightarrow> throw (DomainError PermissionDenied message)
     | Some user \<Rightarrow> bnd (require (cu_role user = Role_Owner \<or> cu_role user = Role_Admin) (DomainError PermissionDenied message))
         (\<lambda>_. ret user))"

definition assertOwnerRoleBoundary :: "context_user \<Rightarrow> user_role \<Rightarrow> string \<Rightarrow> unit action" where
  "assertOwnerRoleBoundary currentUser role message =
    require (\<not> (role = Role_Owner \<and> cu_role currentUser \<noteq> Role_Owner)) (DomainError PermissionDenied message)"

definition assertNotLastOwner :: "string \<Rightarrow> string \<Rightarrow> string \<Rightarrow> unit action" where
  "assertNotLastOwner organizationId userId message =
    bnd (find_many user_t (\<lambda>u. us_org u = organizationId \<and> us_role u = Role_Owner \<and> us_status u \<noteq> User_Disabled \<and> us_id u \<noteq> userId)) (\<lambda>others.
    require (length others \<noteq> 0) (DomainError ValidationFailed message))"

definition recordUserEvent :: "context_user \<Rightarrow> audit_event_type \<Rightarrow> (string \<times> json) list \<Rightarrow> unit action" where
  "recordUserEvent currentUser eventType eventData =
    bnd (record_audit \<lparr>ai_org = cu_org currentUser, ai_run = None, ai_agent = None, ai_actorType = Actor_User,
      ai_actorId = Some (cu_id currentUser), ai_eventType = eventType, ai_data = JObj eventData\<rparr>) (\<lambda>_. ret ())"

subsection \<open>Reading\<close>

definition listUsers :: "string option \<Rightarrow> page_query \<Rightarrow> (json list \<times> pagination_meta) action" where
  "listUsers organizationId page =
    bnd (require_org organizationId) (\<lambda>org.
    bnd (find_many user_t (\<lambda>u. us_org u = org)) (\<lambda>found.
    gets (\<lambda>w. (map (\<lambda>u. JObj (toUserDto (w_env w) u)) (page_slice page (sort_key (\<lambda>u. (us_createdAt u, us_email u)) found)),
      paginationMeta (length found) page))))"

definition getUser :: "string option \<Rightarrow> string \<Rightarrow> json action" where
  "getUser organizationId k = bnd (findUserInOrganization organizationId k) user_view"

subsection \<open>Inviting\<close>

record invite_input =
  iv_email :: string
  iv_name :: string
  iv_role :: user_role

definition invite_message :: "env \<Rightarrow> string \<Rightarrow> string \<Rightarrow> string \<Rightarrow> email_message" where
  "invite_message e email name token =
    (let url = dashboardBaseUrl e @ ''/reset-password?token='' @ encode_uri e token in
     \<lparr>em_from = mailFrom e, em_to = [(Some name, email)], em_subject = ''You were invited to AegisWeb'',
      em_text = ''Set your AegisWeb password and accept the invitation: '' @ url,
      em_html = ''<p>Set your AegisWeb password and accept the invitation:</p><p><a href=\"'' @ auth_escapeHtml url
        @ ''\">Accept invitation</a></p>''\<rparr>)"

text \<open>Whether the message was delivered, and the warning if not.\<close>

definition sendInviteEmail :: "string \<Rightarrow> string \<Rightarrow> string \<Rightarrow> (bool \<times> string option) action" where
  "sendInviteEmail email name token =
    bnd (gets (\<lambda>w. invite_message (w_env w) email name token)) (\<lambda>m.
    try_catch (bnd (send_email m) (\<lambda>_. ret (True, None))) (\<lambda>e. ret (False, Some (err_message e))))"

definition email_violation :: err where
  "email_violation = PrismaError ''Unique constraint failed on the fields: (`email`)''"

definition inviteUser :: "context_user option \<Rightarrow> invite_input \<Rightarrow> json action" where
  "inviteUser currentUser i =
    bnd (assertOwnerOrAdmin currentUser ''Only owners and admins can invite users.'') (\<lambda>user.
    bnd (assertOwnerRoleBoundary user (iv_role i) ''Only owners can invite owner users.'') (\<lambda>_.
    bnd randomToken (\<lambda>inviteToken.
    bnd (hashActionToken inviteToken) (\<lambda>tokenHash.
    bnd new_date (\<lambda>expiry.
    bnd fresh_id (\<lambda>k. bnd new_date (\<lambda>now.
    bnd (gets (\<lambda>w. list_ex (\<lambda>u. us_email u = iv_email i) (users w))) (\<lambda>taken.
    bnd (require (\<not> taken) email_violation) (\<lambda>_.
    bnd (create_row user_t ((new_user k (cu_org user) (iv_email i) (iv_name i) (iv_role i) User_Invited ''local-invited-user-no-password'' now)
      \<lparr>us_passwordResetToken := Some tokenHash, us_passwordResetExpiresAt := Some (expiry + 7 * 24 * 60 * 60 * 1000)\<rparr>)) (\<lambda>created.
    bnd (recordUserEvent user Ev_UserInvited [(''invitedUserId'', JStr (us_id created)), (''email'', JStr (us_email created)),
      (''role'', JStr (user_role_value (us_role created)))]) (\<lambda>_.
    bnd (sendInviteEmail (us_email created) (us_name created) inviteToken) (\<lambda>(delivered, warning).
    gets (\<lambda>w. JObj (toUserDto (w_env w) created @ [(''inviteEmailDelivered'', JBool delivered),
      (''inviteEmailWarning'', jopt warning)]))))))))))))))"

subsection \<open>Roles and access\<close>

definition changeUserRole :: "context_user option \<Rightarrow> string \<Rightarrow> user_role \<Rightarrow> json action" where
  "changeUserRole currentUser k role =
    bnd (assertOwnerOrAdmin currentUser ''Only owners and admins can change user roles.'') (\<lambda>user.
    bnd (findUserInOrganization (Some (cu_org user)) k) (\<lambda>target.
    bnd (assertOwnerRoleBoundary user (us_role target) ''Only owners can change owner users.'') (\<lambda>_.
    bnd (assertOwnerRoleBoundary user role ''Only owners can assign owner role.'') (\<lambda>_.
    bnd (require (\<not> (us_id target = cu_id user \<and> role = Role_Owner))
      (DomainError ValidationFailed ''Users cannot change their own role to owner.'')) (\<lambda>_.
    bnd (run_if (us_role target = Role_Owner \<and> role \<noteq> Role_Owner)
      (assertNotLastOwner (us_org target) (us_id target) ''Last owner cannot be demoted.'')) (\<lambda>_.
    bnd (update_user (us_id target) (\<lambda>u. u\<lparr>us_role := role\<rparr>)) (\<lambda>updated.
    bnd (recordUserEvent user Ev_UserRoleChanged [(''userId'', JStr (us_id updated)),
      (''previousRole'', JStr (user_role_value (us_role target))), (''nextRole'', JStr (user_role_value (us_role updated)))]) (\<lambda>_.
    user_view updated))))))))"

definition disableUser :: "context_user option \<Rightarrow> string \<Rightarrow> json action" where
  "disableUser currentUser k =
    bnd (assertOwnerOrAdmin currentUser ''Only owners and admins can disable users.'') (\<lambda>user.
    bnd (findUserInOrganization (Some (cu_org user)) k) (\<lambda>target.
    bnd (assertOwnerRoleBoundary user (us_role target) ''Only owners can disable owner users.'') (\<lambda>_.
    bnd (run_if (us_role target = Role_Owner)
      (assertNotLastOwner (us_org target) (us_id target) ''Last owner cannot be disabled.'')) (\<lambda>_.
    bnd (now_unless (us_disabledAt target)) (\<lambda>disabledAt.
    bnd (update_user (us_id target) (\<lambda>u. u\<lparr>us_status := User_Disabled, us_disabledAt := disabledAt\<rparr>)) (\<lambda>disabled.
    bnd (recordUserEvent user Ev_UserDisabled [(''userId'', JStr (us_id disabled)), (''email'', JStr (us_email disabled)),
      (''role'', JStr (user_role_value (us_role disabled)))]) (\<lambda>_.
    user_view disabled)))))))"

definition enableUser :: "context_user option \<Rightarrow> string \<Rightarrow> json action" where
  "enableUser currentUser k =
    bnd (assertOwnerOrAdmin currentUser ''Only owners and admins can enable users.'') (\<lambda>user.
    bnd (findUserInOrganization (Some (cu_org user)) k) (\<lambda>target.
    bnd (assertOwnerRoleBoundary user (us_role target) ''Only owners can enable owner users.'') (\<lambda>_.
    bnd (update_user (us_id target) (\<lambda>u. u\<lparr>us_status := User_Active, us_disabledAt := None\<rparr>)) user_view)))"

subsection \<open>A user's own account\<close>

definition updateOwnProfile :: "context_user option \<Rightarrow> string \<Rightarrow> json action" where
  "updateOwnProfile currentUser name =
    bnd (require_user currentUser) (\<lambda>user.
    bnd (update_user (cu_id user) (\<lambda>u. u\<lparr>us_name := name\<rparr>)) user_view)"

definition changeOwnPassword :: "context_user option \<Rightarrow> string \<Rightarrow> string \<Rightarrow> unit action" where
  "changeOwnPassword currentUser currentPassword newPassword =
    bnd (require_user currentUser) (\<lambda>user.
    bnd (find_user (cu_id user)) (\<lambda>found.
    bnd (case found of None \<Rightarrow> ret False | Some u \<Rightarrow> verifyPassword (us_passwordHash u) currentPassword) (\<lambda>valid.
    bnd (require valid (DomainError PermissionDenied ''Current password is invalid.'')) (\<lambda>_.
    bnd (hashPassword newPassword) (\<lambda>passwordHash.
    bnd (update_user (cu_id user) (\<lambda>u. u\<lparr>us_passwordHash := passwordHash\<rparr>)) (\<lambda>_.
    refresh_revokeAllForUser (cu_id user)))))))"

subsection \<open>Who owns an organization\<close>

definition counted_owner :: "string \<Rightarrow> user_row \<Rightarrow> bool" where
  "counted_owner org u \<longleftrightarrow> us_org u = org \<and> us_role u = Role_Owner \<and> us_status u \<noteq> User_Disabled"

definition has_owner :: "string \<Rightarrow> world \<Rightarrow> bool" where
  "has_owner org w \<longleftrightarrow> (\<exists>u \<in> set (users w). counted_owner org u)"

definition owners_are :: "user_row list \<Rightarrow> world \<Rightarrow> bool" where
  "owners_are os w \<longleftrightarrow> filter (\<lambda>u. us_role u = Role_Owner) (users w) = os"

text \<open>Both depend on the table of users only.\<close>

definition of_users :: "(world \<Rightarrow> bool) \<Rightarrow> bool" where
  "of_users J \<longleftrightarrow> (\<forall>w w'. users w' = users w \<longrightarrow> J w \<longrightarrow> J w')"

lemma of_users_owner [simp]: "of_users (has_owner org)" "of_users (owners_are os)"
  by (auto simp: of_users_def has_owner_def owners_are_def)

lemma users_same: "of_users J \<Longrightarrow> effect (same_of users) m w \<Longrightarrow> effect (preserves J) m w"
  by (auto simp: effect_def same_of_def preserves_def of_users_def)

lemma users_update:
  assumes "of_users J"
    and "\<And>t w' now. find (\<lambda>u. us_id u = k) (users w) = Some t \<Longrightarrow> J w \<Longrightarrow>
      users w' = upd_row us_id k (\<lambda>u. (f u)\<lparr>us_updatedAt := now\<rparr>) (users w) \<Longrightarrow> J w'"
  shows "effect (preserves J) (update_user k f) w"
proof (cases "find (\<lambda>u. us_id u = k) (users w)")
  case None
  then have "users (snd (update_user k f w)) = users w" by (simp add: update_user_def run_simps)
  then show ?thesis using assms(1) by (auto simp: effect_def preserves_def of_users_def)
next
  case (Some t)
  then have "users (snd (update_user k f w)) = upd_row us_id k (\<lambda>u. (f u)\<lparr>us_updatedAt := clock (w_env w) (reads w)\<rparr>) (users w)"
    by (simp add: update_user_def run_simps)
  with assms(2) [OF Some] show ?thesis by (simp add: effect_def preserves_def)
qed

lemma users_then:
  assumes "of_users J" and "effect (preserves J) m w" and "\<And>x s. effect (same_of users) (f x) s"
  shows "effect (preserves J) (bnd m f) w"
  using assms by (intro maintained.effect_bnd) (auto intro: users_same)

lemma same_random [effect_intros]: "effect (same_of users) randomToken w" "effect (same_of users) (hashActionToken t) w"
  by (simp_all add: effect_def same_of_def randomToken_def hashActionToken_def gets_def)

lemma same_user_parts [effect_intros]:
  "effect (same_of users) (recordUserEvent u e d) w" "effect (same_of users) (user_view r) w"
  "effect (same_of users) (now_unless v) w" "effect (same_of users) (sendInviteEmail a b c) w"
  unfolding recordUserEvent_def user_view_def now_unless_def sendInviteEmail_def mail_defs
  by (intro effect_intros; simp)+

lemma owner_kept_upd:
  assumes "has_owner org w" and "users w' = upd_row us_id k f (users w)"
    and "\<And>t. t \<in> set (users w) \<Longrightarrow> us_id t = k \<Longrightarrow> counted_owner org t \<Longrightarrow>
      counted_owner org (f t) \<or> (\<exists>q \<in> set (users w). us_id q \<noteq> k \<and> counted_owner org q)"
  shows "has_owner org w'"
proof -
  obtain t where t: "t \<in> set (users w)" "counted_owner org t" using assms(1) by (auto simp: has_owner_def)
  obtain q where "q \<in> set (users w)" "if us_id q = k then counted_owner org (f q) else counted_owner org q"
    using assms(3) [OF t(1)] t by (cases "us_id t = k") auto
  then show ?thesis unfolding has_owner_def assms(2) upd_row_def by (cases "us_id q = k") force+
qed

lemma owners_kept_upd:
  assumes "owners_are os w" and "users w' = upd_row us_id k f (users w)" and "unique_keys user_t w"
    and "t \<in> set (users w)" and "us_id t = k" and "us_role t \<noteq> Role_Owner" and "us_role (f t) \<noteq> Role_Owner"
  shows "owners_are os w'"
proof -
  have only: "q = t" if "q \<in> set (users w)" "us_id q = k" for q
    using that assms(3-5) by (auto simp: unique_keys_def user_t_def distinct_map inj_on_def)
  have "filter (\<lambda>u. us_role u = Role_Owner) (map (\<lambda>q. if us_id q = k then f q else q) rs) = filter (\<lambda>u. us_role u = Role_Owner) rs"
    if "set rs \<subseteq> set (users w)" for rs
    using that only assms(6,7) by (induction rs) auto
  then show ?thesis using assms(1,2) by (simp add: owners_are_def upd_row_def)
qed

lemma users_create:
  "of_users J \<Longrightarrow> (\<And>w'. J w \<Longrightarrow> users w' = users w @ [r] \<Longrightarrow> J w') \<Longrightarrow> effect (preserves J) (create_row user_t r) w"
  by (simp add: effect_def preserves_def run_simps)

lemma user_checks_still:
  "snd (assertOwnerOrAdmin u m w) = w" "snd (findUserInOrganization o' k w) = w" "snd (assertOwnerRoleBoundary v r m w) = w"
  "snd (require c e w) = w" "snd (run_if b (assertNotLastOwner org a m) w) = w" "snd (gets g w) = w"
proof -
  show "snd (assertOwnerOrAdmin u m w) = w" by (cases u) (simp_all add: assertOwnerOrAdmin_def run_simps)
  show "snd (findUserInOrganization o' k w) = w" by (simp add: findUserInOrganization_def run_simps split: option.split)
qed (simp_all add: assertOwnerRoleBoundary_def assertNotLastOwner_def run_simps)

lemma admin_passed: "assertOwnerOrAdmin (Some u) m w = (Inr x, w) \<Longrightarrow> x = u"
  by (auto simp: assertOwnerOrAdmin_def run_simps split: if_splits)

lemma boundary_passed: "assertOwnerRoleBoundary v r m w = (Inr x, w) \<Longrightarrow> r = Role_Owner \<Longrightarrow> cu_role v = Role_Owner"
  by (auto simp: assertOwnerRoleBoundary_def run_simps split: if_splits)

lemma found_user:
  assumes "findUserInOrganization (Some org) k w = (Inr t, w')"
  shows "t \<in> set (users w)" "us_id t = k" "us_org t = org"
  using assms by (auto simp: findUserInOrganization_def run_simps split: option.splits if_splits dest!: find_SomeD)

lemma other_owner:
  assumes "run_if c (assertNotLastOwner org k m) w = (Inr x, w')" and "c"
  shows "\<exists>q \<in> set (users w). us_id q \<noteq> k \<and> counted_owner org q"
proof -
  have "filter (\<lambda>u. us_org u = org \<and> us_role u = Role_Owner \<and> us_status u \<noteq> User_Disabled \<and> us_id u \<noteq> k) (users w) \<noteq> []"
    using assms by (auto simp: assertNotLastOwner_def run_simps split: if_splits)
  then show ?thesis by (auto simp: filter_empty_conv counted_owner_def)
qed

text \<open>The same row, when ids are unique.\<close>

lemma same_user: "unique_keys user_t w \<Longrightarrow> t \<in> set (users w) \<Longrightarrow> q \<in> set (users w) \<Longrightarrow> us_id q = us_id t \<Longrightarrow> q = t"
  by (auto simp: unique_keys_def user_t_def distinct_map inj_on_def)

lemma owner_changeUserRole:
  assumes "unique_keys user_t w"
  shows "effect (preserves (has_owner org)) (changeUserRole u k role) w"
  unfolding changeUserRole_def
proof (rule check_bnd [OF user_checks_still(1)], rule check_bnd [OF user_checks_still(2)], rule check_bnd [OF user_checks_still(3)],
    rule check_bnd [OF user_checks_still(3)], rule check_bnd [OF user_checks_still(4)], rule check_bnd [OF user_checks_still(5)])
  fix user :: context_user and target :: user_row and x
  assume found: "findUserInOrganization (Some (cu_org user)) k w = (Inr target, w)"
    and last: "run_if (us_role target = Role_Owner \<and> role \<noteq> Role_Owner)
      (assertNotLastOwner (us_org target) (us_id target) ''Last owner cannot be demoted.'') w = (Inr x, w)"
  show "effect (preserves (has_owner org)) (bnd (update_user (us_id target) (\<lambda>u. u\<lparr>us_role := role\<rparr>)) (\<lambda>updated.
    bnd (recordUserEvent user Ev_UserRoleChanged [(''userId'', JStr (us_id updated)),
      (''previousRole'', JStr (user_role_value (us_role target))), (''nextRole'', JStr (user_role_value (us_role updated)))]) (\<lambda>_.
    user_view updated))) w"
  proof (intro users_then users_update of_users_owner)
    fix t and w' :: world and now
    assume J: "has_owner org w" and w': "users w' = upd_row us_id (us_id target) (\<lambda>u. u\<lparr>us_role := role\<rparr>\<lparr>us_updatedAt := now\<rparr>) (users w)"
    show "has_owner org w'"
    proof (rule owner_kept_upd [OF J w'])
      fix q assume q: "q \<in> set (users w)" "us_id q = us_id target" "counted_owner org q"
      then have "q = target" using same_user [OF assms] found_user(1) [OF found] by blast
      then show "counted_owner org (q\<lparr>us_role := role\<rparr>\<lparr>us_updatedAt := now\<rparr>) \<or> (\<exists>q \<in> set (users w). us_id q \<noteq> us_id target \<and> counted_owner org q)"
        using q(3) other_owner [OF last] by (cases "role = Role_Owner") (auto simp: counted_owner_def)
    qed
  qed (intro effect_intros)
qed

lemma owner_disableUser:
  assumes "unique_keys user_t w"
  shows "effect (preserves (has_owner org)) (disableUser u k) w"
  unfolding disableUser_def
proof (rule check_bnd [OF user_checks_still(1)], rule check_bnd [OF user_checks_still(2)], rule check_bnd [OF user_checks_still(3)],
    rule check_bnd [OF user_checks_still(5)])
  fix user :: context_user and target :: user_row and x
  assume found: "findUserInOrganization (Some (cu_org user)) k w = (Inr target, w)"
    and last: "run_if (us_role target = Role_Owner)
      (assertNotLastOwner (us_org target) (us_id target) ''Last owner cannot be disabled.'') w = (Inr x, w)"
  show "effect (preserves (has_owner org)) (bnd (now_unless (us_disabledAt target)) (\<lambda>disabledAt.
    bnd (update_user (us_id target) (\<lambda>u. u\<lparr>us_status := User_Disabled, us_disabledAt := disabledAt\<rparr>)) (\<lambda>disabled.
    bnd (recordUserEvent user Ev_UserDisabled [(''userId'', JStr (us_id disabled)), (''email'', JStr (us_email disabled)),
      (''role'', JStr (user_role_value (us_role disabled)))]) (\<lambda>_.
    user_view disabled)))) w"
  proof (rule maintained.effect_bnd)
    show "effect (preserves (has_owner org)) (now_unless (us_disabledAt target)) w" by (intro users_same effect_intros) simp
  next
    fix disabledAt s assume "now_unless (us_disabledAt target) w = (Inr disabledAt, s)"
    then have s: "users s = users w" by (auto simp: now_unless_def run_simps split: option.splits)
    show "effect (preserves (has_owner org)) (bnd (update_user (us_id target) (\<lambda>u. u\<lparr>us_status := User_Disabled, us_disabledAt := disabledAt\<rparr>)) (\<lambda>disabled.
      bnd (recordUserEvent user Ev_UserDisabled [(''userId'', JStr (us_id disabled)), (''email'', JStr (us_email disabled)),
        (''role'', JStr (user_role_value (us_role disabled)))]) (\<lambda>_. user_view disabled))) s"
    proof (intro users_then users_update of_users_owner)
      fix t and w' :: world and now
      assume J: "has_owner org s" and w': "users w' = upd_row us_id (us_id target)
        (\<lambda>u. u\<lparr>us_status := User_Disabled, us_disabledAt := disabledAt\<rparr>\<lparr>us_updatedAt := now\<rparr>) (users s)"
      show "has_owner org w'"
      proof (rule owner_kept_upd [OF J w'])
        fix q assume q: "q \<in> set (users s)" "us_id q = us_id target" "counted_owner org q"
        then have "q = target" using same_user [OF assms] found_user(1) [OF found] s by auto
        then show "counted_owner org (q\<lparr>us_status := User_Disabled, us_disabledAt := disabledAt\<rparr>\<lparr>us_updatedAt := now\<rparr>)
            \<or> (\<exists>q \<in> set (users s). us_id q \<noteq> us_id target \<and> counted_owner org q)"
          using q(3) other_owner [OF last] s by (auto simp: counted_owner_def)
      qed
    qed (intro effect_intros)
  qed
qed

lemma owner_plain_update:
  assumes "\<And>q now. counted_owner org q \<Longrightarrow> counted_owner org ((f q)\<lparr>us_updatedAt := now\<rparr>)" and "\<And>x s. effect (same_of users) (g x) s"
  shows "effect (preserves (has_owner org)) (bnd (update_user k f) g) w"
  by (intro users_then users_update of_users_owner assms(2)) (rule owner_kept_upd, assumption+, simp add: assms(1))

lemma owner_enableUser: "effect (preserves (has_owner org)) (enableUser u k) w"
  unfolding enableUser_def
  by (rule check_bnd [OF user_checks_still(1)], rule check_bnd [OF user_checks_still(2)], rule check_bnd [OF user_checks_still(3)],
      rule owner_plain_update) (simp add: counted_owner_def, intro effect_intros)

lemma users_first:
  assumes "of_users J" and "effect (same_of users) m w"
    and "\<And>x s. m w = (Inr x, s) \<Longrightarrow> users s = users w \<Longrightarrow> effect (preserves J) (f x) s"
  shows "effect (preserves J) (bnd m f) w"
proof (rule maintained.effect_bnd)
  show "effect (preserves J) m w" by (rule users_same) fact+
  fix x s assume "m w = (Inr x, s)"
  then show "effect (preserves J) (f x) s" using assms(2,3) by (metis effect_def same_of_def snd_conv)
qed

lemma same_password_parts [effect_intros]:
  "effect (same_of users) (find_user k) w" "effect (same_of users) (hashPassword p) w" "effect (same_of users) (verifyPassword h p) w"
  "effect (same_of users) (refresh_revokeAllForUser k) w"
  by (simp_all add: effect_def same_of_def find_user_def hashPassword_def verifyPassword_def refresh_revokeAllForUser_def revoke_tokens_def
      run_simps)

lemma same_verify: "effect (same_of users) (case found of None \<Rightarrow> ret False | Some u \<Rightarrow> verifyPassword (us_passwordHash u) p) w"
  by (cases found) (simp_all add: same_password_parts effect_def same_of_def ret_def verifyPassword_def gets_def)

lemma owner_own_account:
  "effect (preserves (has_owner org)) (updateOwnProfile u name) w" "effect (preserves (has_owner org)) (changeOwnPassword u a b) w"
proof -
  show "effect (preserves (has_owner org)) (updateOwnProfile u name) w"
    unfolding updateOwnProfile_def
    by (rule check_bnd [OF policy_checks_still(1)], rule owner_plain_update) (simp add: counted_owner_def, intro effect_intros)
  show "effect (preserves (has_owner org)) (changeOwnPassword u a b) w"
    unfolding changeOwnPassword_def
    by (rule check_bnd [OF policy_checks_still(1)], rule users_first [OF of_users_owner(1)], rule same_password_parts,
        rule users_first [OF of_users_owner(1)], rule same_verify, rule check_bnd [OF user_checks_still(4)],
        rule users_first [OF of_users_owner(1)], rule same_password_parts, rule owner_plain_update)
       (simp_all add: counted_owner_def same_password_parts)
qed

lemma invite_creates:
  assumes "of_users J" and "\<And>r s w' (user :: context_user). users s = users w \<Longrightarrow> assertOwnerRoleBoundary user (iv_role i) ''Only owners can invite owner users.'' w = (Inr (), w)
      \<Longrightarrow> assertOwnerOrAdmin u ''Only owners and admins can invite users.'' w = (Inr user, w) \<Longrightarrow> us_role r = iv_role i \<Longrightarrow> J s \<Longrightarrow> users w' = users s @ [r] \<Longrightarrow> J w'"
  shows "effect (preserves J) (inviteUser u i) w"
  unfolding inviteUser_def
proof (rule check_bnd [OF user_checks_still(1)], rule check_bnd [OF user_checks_still(3)],
    rule users_first [OF assms(1)], intro effect_intros, rule users_first [OF assms(1)], intro effect_intros, rule users_first [OF assms(1)],
    intro effect_intros, simp, rule users_first [OF assms(1)], intro effect_intros, simp, rule users_first [OF assms(1)], intro effect_intros, simp,
    rule users_first [OF assms(1)], intro effect_intros, rule users_first [OF assms(1)], intro effect_intros,
    rule users_then [OF assms(1) users_create [OF assms(1)]])
  fix user :: context_user and x tok hash expiry k now taken y and s1 s2 s3 s4 s5 s6 s7 w' :: world
  assume checks: "assertOwnerOrAdmin u ''Only owners and admins can invite users.'' w = (Inr user, w)"
      "assertOwnerRoleBoundary user (iv_role i) ''Only owners can invite owner users.'' w = (Inr x, w)"
    and chain: "users s1 = users w" "users s2 = users s1" "users s3 = users s2" "users s4 = users s3" "users s5 = users s4" "users s6 = users s5"
      "users s7 = users s6" and J: "J s7"
    and w': "users w' = users s7 @ [(new_user k (cu_org user) (iv_email i) (iv_name i) (iv_role i) User_Invited ''local-invited-user-no-password'' now)
      \<lparr>us_passwordResetToken := Some hash, us_passwordResetExpiresAt := Some (expiry + 7 * 24 * 60 * 60 * 1000)\<rparr>]"
  have "users s7 = users w" using chain by (simp only:)
  from assms(2) [OF this _ checks(1) _ J w'] checks(2) show "J w'" by (cases x) (simp add: new_user_def)
next
qed (simp add: split_def, intro effect_intros)

lemma owner_invite: "effect (preserves (has_owner org)) (inviteUser u i) w"
  by (rule invite_creates) (auto simp: has_owner_def)

text \<open>C12. An organization that has an owner keeps one: whatever users do to each other and to their own
accounts, an owner that is not disabled remains. (Invited owners count, so the one that remains may not have
accepted yet.)\<close>

theorem an_owner_remains:
  assumes "unique_keys user_t w" and "has_owner org w"
  shows "has_owner org (snd (inviteUser u i w)) \<and> has_owner org (snd (changeUserRole u k role w)) \<and> has_owner org (snd (disableUser u k w))
    \<and> has_owner org (snd (enableUser u k w)) \<and> has_owner org (snd (updateOwnProfile u name w)) \<and> has_owner org (snd (changeOwnPassword u p p' w))"
  using owner_invite [of org u i w] owner_changeUserRole [OF assms(1), of org u k role] owner_disableUser [OF assms(1), of org u k]
    owner_enableUser [of org u k w] owner_own_account(1) [of org u name w] owner_own_account(2) [of org u p p' w] assms(2)
  by (simp add: effect_def preserves_def)

definition two_users :: world where
  "two_users = (empty_world demo_env)\<lparr>users := [demo_member\<lparr>us_id := ''u'', us_org := ''o'', us_role := Role_Owner, us_status := User_Active\<rparr>,
     demo_member\<lparr>us_id := ''v'', us_org := ''o'', us_email := ''v'', us_role := Role_Admin, us_status := User_Active\<rparr>]\<rparr>"

lemma two_users_unique: "unique_keys user_t two_users"
  by (simp add: two_users_def unique_keys_def user_t_def)

theorem an_owner_remains_witness:
  "has_owner ''o'' (snd (disableUser (Some demo_user) ''u'' two_users)) \<and> has_owner ''o'' (snd (changeUserRole (Some demo_user) ''u'' Role_Admin two_users))"
  using an_owner_remains [OF two_users_unique, of "''o''" "Some demo_user" _ "''u''" Role_Admin]
  by (simp add: two_users_def has_owner_def counted_owner_def)

text \<open>An update that leaves a row no owner's.\<close>

lemma owners_update:
  assumes "unique_keys user_t w" and "users s = users w" and "t \<in> set (users w)" and "us_role t \<noteq> Role_Owner"
    and "\<And>now. us_role ((f t)\<lparr>us_updatedAt := now\<rparr>) \<noteq> Role_Owner" and "\<And>x s. effect (same_of users) (g x) s"
  shows "effect (preserves (owners_are os)) (bnd (update_user (us_id t) f) g) s"
proof (intro users_then users_update of_users_owner assms(6))
  fix q and w' :: world and now
  assume J: "owners_are os s" and w': "users w' = upd_row us_id (us_id t) (\<lambda>u. (f u)\<lparr>us_updatedAt := now\<rparr>) (users s)"
  have "unique_keys user_t s" using assms(1,2) by (simp add: unique_keys_def user_t_def)
  then show "owners_are os w'" by (rule owners_kept_upd [OF J w']) (use assms(2-5) in \<open>auto\<close>)
qed

lemma owners_steps:
  assumes "unique_keys user_t w" and "cu_role a \<noteq> Role_Owner"
  shows "effect (preserves (owners_are os)) (changeUserRole (Some a) k role) w"
    and "effect (preserves (owners_are os)) (enableUser (Some a) k) w"
    and "effect (preserves (owners_are os)) (disableUser (Some a) k) w"
proof -
  have plain: "us_role t \<noteq> Role_Owner" if "assertOwnerRoleBoundary user (us_role t) m w = (Inr x, w)"
      "assertOwnerOrAdmin (Some a) m' w = (Inr user, w)" for t :: user_row and user m m' x
    using boundary_passed [OF that(1)] admin_passed [OF that(2)] assms(2) by blast
  show "effect (preserves (owners_are os)) (changeUserRole (Some a) k role) w"
    unfolding changeUserRole_def
  proof (rule check_bnd [OF user_checks_still(1)], rule check_bnd [OF user_checks_still(2)], rule check_bnd [OF user_checks_still(3)],
      rule check_bnd [OF user_checks_still(3)], rule check_bnd [OF user_checks_still(4)], rule check_bnd [OF user_checks_still(5)])
    fix user :: context_user and t :: user_row and x y
    assume c: "assertOwnerOrAdmin (Some a) ''Only owners and admins can change user roles.'' w = (Inr user, w)"
      "findUserInOrganization (Some (cu_org user)) k w = (Inr t, w)"
      "assertOwnerRoleBoundary user (us_role t) ''Only owners can change owner users.'' w = (Inr x, w)"
      "assertOwnerRoleBoundary user role ''Only owners can assign owner role.'' w = (Inr y, w)"
    have "role \<noteq> Role_Owner" using boundary_passed [OF c(4)] admin_passed [OF c(1)] assms(2) by blast
    then show "effect (preserves (owners_are os)) (bnd (update_user (us_id t) (\<lambda>u. u\<lparr>us_role := role\<rparr>)) (\<lambda>updated.
      bnd (recordUserEvent user Ev_UserRoleChanged [(''userId'', JStr (us_id updated)),
        (''previousRole'', JStr (user_role_value (us_role t))), (''nextRole'', JStr (user_role_value (us_role updated)))]) (\<lambda>_.
      user_view updated))) w"
      using found_user(1) [OF c(2)] plain [OF c(3,1)]
      by (intro owners_update [OF assms(1) refl]) (simp_all, intro effect_intros)
  qed
  show "effect (preserves (owners_are os)) (enableUser (Some a) k) w"
    unfolding enableUser_def
  proof (rule check_bnd [OF user_checks_still(1)], rule check_bnd [OF user_checks_still(2)], rule check_bnd [OF user_checks_still(3)])
    fix user :: context_user and t :: user_row and x
    assume c: "assertOwnerOrAdmin (Some a) ''Only owners and admins can enable users.'' w = (Inr user, w)"
      "findUserInOrganization (Some (cu_org user)) k w = (Inr t, w)"
      "assertOwnerRoleBoundary user (us_role t) ''Only owners can enable owner users.'' w = (Inr x, w)"
    show "effect (preserves (owners_are os)) (bnd (update_user (us_id t) (\<lambda>u. u\<lparr>us_status := User_Active, us_disabledAt := None\<rparr>)) user_view) w"
      using found_user(1) [OF c(2)] plain [OF c(3,1)]
      by (intro owners_update [OF assms(1) refl]) (simp_all, intro effect_intros)
  qed
  show "effect (preserves (owners_are os)) (disableUser (Some a) k) w"
    unfolding disableUser_def
  proof (rule check_bnd [OF user_checks_still(1)], rule check_bnd [OF user_checks_still(2)], rule check_bnd [OF user_checks_still(3)],
      rule check_bnd [OF user_checks_still(5)], rule users_first [OF of_users_owner(2)], rule same_user_parts)
    fix user :: context_user and t :: user_row and x y disabledAt and s :: world
    assume c: "assertOwnerOrAdmin (Some a) ''Only owners and admins can disable users.'' w = (Inr user, w)"
      "findUserInOrganization (Some (cu_org user)) k w = (Inr t, w)"
      "assertOwnerRoleBoundary user (us_role t) ''Only owners can disable owner users.'' w = (Inr x, w)" and s: "users s = users w"
    show "effect (preserves (owners_are os)) (bnd (update_user (us_id t) (\<lambda>u. u\<lparr>us_status := User_Disabled, us_disabledAt := disabledAt\<rparr>)) (\<lambda>disabled.
      bnd (recordUserEvent user Ev_UserDisabled [(''userId'', JStr (us_id disabled)), (''email'', JStr (us_email disabled)),
        (''role'', JStr (user_role_value (us_role disabled)))]) (\<lambda>_. user_view disabled))) s"
      using found_user(1) [OF c(2)] plain [OF c(3,1)]
      by (intro owners_update [OF assms(1) s]) (simp_all, intro effect_intros)
  qed
qed

lemma owners_invite:
  assumes "cu_role a \<noteq> Role_Owner"
  shows "effect (preserves (owners_are os)) (inviteUser (Some a) i) w"
proof (rule invite_creates)
  fix r and s w' :: world and user :: context_user
  assume c: "assertOwnerRoleBoundary user (iv_role i) ''Only owners can invite owner users.'' w = (Inr (), w)"
    "assertOwnerOrAdmin (Some a) ''Only owners and admins can invite users.'' w = (Inr user, w)"
    and new: "us_role r = iv_role i" "owners_are os s" "users w' = users s @ [r]"
  have "iv_role i \<noteq> Role_Owner" using boundary_passed [OF c(1)] admin_passed [OF c(2)] assms by blast
  with new show "owners_are os w'" by (simp add: owners_are_def)
qed simp

text \<open>C29. Only owners make, change or disable owners: an administrator's invitations, role changes, disabling and
enabling leave the rows of the owners as they are and add none.\<close>

theorem owners_only_by_owners:
  assumes "unique_keys user_t w" and "cu_role a \<noteq> Role_Owner"
    and "m \<in> {inviteUser (Some a) i, changeUserRole (Some a) k role, disableUser (Some a) k, enableUser (Some a) k}"
  shows "filter (\<lambda>u. us_role u = Role_Owner) (users (snd (m w))) = filter (\<lambda>u. us_role u = Role_Owner) (users w)"
proof -
  have "effect (preserves (owners_are (filter (\<lambda>u. us_role u = Role_Owner) (users w)))) m w"
    using assms(3) owners_steps [OF assms(1,2)] owners_invite [OF assms(2)] by auto
  then show ?thesis by (simp add: effect_def preserves_def owners_are_def)
qed

theorem owners_only_by_owners_witness:
  "us_id (hd (filter (\<lambda>u. us_role u = Role_Owner) (users (snd (changeUserRole (Some (demo_user\<lparr>cu_id := ''v'', cu_role := Role_Admin\<rparr>)) ''u'' Role_Developer two_users))))) = ''u''"
  using owners_only_by_owners [OF two_users_unique, of "demo_user\<lparr>cu_id := ''v'', cu_role := Role_Admin\<rparr>"
      "changeUserRole (Some (demo_user\<lparr>cu_id := ''v'', cu_role := Role_Admin\<rparr>)) ''u'' Role_Developer" _ "''u''" Role_Developer]
  by (simp add: two_users_def)

end
