(* ===== verification/Receipts.thy ===== *)
theory Receipts
  imports Users "HOL-Library.Multiset"
begin

section \<open>Receipts\<close>

text \<open>
  What a user sees of a finished run (\<open>receipts/receipts.service.ts\<close>, \<open>receipt-timeline.builder.ts\<close>,
  \<open>receipt-summary.builder.ts\<close>, \<open>receipt-redaction.service.ts\<close>, \<open>receipt-export.service.ts\<close>,
  \<open>receipts.types.ts\<close>): the receipts of an organization, the timeline of a run put together from its
  audit events, attempts, files and approvals, with secrets redacted, and the exported document.
\<close>

subsection \<open>Redaction\<close>

definition sensitiveKeyPattern :: "string list" where
  "sensitiveKeyPattern = [''password'', ''secret'', ''token'', ''authorization'', ''cookie'', ''credential'', ''encryptedpayload'',
     ''ciphertext'', ''auth_tag'', ''username'', ''responsetext'']"

definition sensitive_key :: "string \<Rightarrow> bool" where
  "sensitive_key k \<longleftrightarrow> list_ex (str_includes (to_lower k)) sensitiveKeyPattern"

fun redactValue :: "json \<Rightarrow> json" where
  "redactValue (JArr xs) = JArr (map redactValue xs)"
| "redactValue (JObj fs) = JObj (map (\<lambda>kv. (fst kv, if sensitive_key (fst kv) then REDACTED else redactValue (snd kv))) fs)"
| "redactValue j = j"

subsection \<open>The timeline\<close>

record timeline_entry =
  tl_type :: string
  tl_id :: string
  tl_at :: string
  tl_fields :: "(string \<times> json) list"

definition audit_entry :: "env \<Rightarrow> audit_row \<Rightarrow> timeline_entry" where
  "audit_entry e a = \<lparr>tl_type = ''audit_event'', tl_id = au_id a, tl_at = iso e (au_createdAt a),
     tl_fields = [(''eventType'', JStr (prisma_enum (audit_event_type_value (au_eventType a)))),
       (''actorType'', JStr (prisma_enum (audit_actor_type_value (au_actorType a)))), (''actorId'', jopt (au_actorId a)),
       (''data'', redactValue (au_data a))]\<rparr>"

definition attempt_entry :: "env \<Rightarrow> attempt_row \<Rightarrow> timeline_entry" where
  "attempt_entry e a = \<lparr>tl_type = ''action_attempt'', tl_id = at_id a, tl_at = iso e (at_createdAt a),
     tl_fields = [(''actionType'', JStr (prisma_enum (action_type_value (at_actionType a)))),
       (''riskLevel'', JStr (prisma_enum (risk_level_value (at_riskLevel a)))),
       (''policyDecision'', JStr (prisma_enum (policy_decision_value (at_policyDecision a)))),
       (''policyReason'', jopt (at_policyReason a)), (''inputSummary'', jopt (at_inputSummary a)),
       (''outputSummary'', jopt (at_outputSummary a)), (''amountCents'', jnum_opt (at_amountCents a)),
       (''completedAt'', iso_opt e (at_completedAt a)), (''metadataJson'', redactValue (at_metadata a))]\<rparr>"

definition file_entry :: "env \<Rightarrow> file_row \<Rightarrow> timeline_entry" where
  "file_entry e f = \<lparr>tl_type = ''file'', tl_id = fi_id f, tl_at = iso e (fi_createdAt f),
     tl_fields = [(''kind'', JStr (prisma_enum (file_kind_value (fi_kind f)))), (''mimeType'', JStr (fi_mimeType f)),
       (''sizeBytes'', JNum (of_nat (fi_size f))), (''sha256'', JStr (fi_sha256 f))]\<rparr>"

definition approval_entry :: "env \<Rightarrow> approval_row \<Rightarrow> timeline_entry" where
  "approval_entry e a = \<lparr>tl_type = ''approval_request'', tl_id = apr_id a, tl_at = iso e (apr_createdAt a),
     tl_fields = [(''status'', JStr (prisma_enum (approval_status_value (apr_status a)))), (''summary'', JStr (apr_summary a)),
       (''riskLevel'', JStr (prisma_enum (risk_level_value (apr_riskLevel a)))), (''amountCents'', jnum_opt (apr_amountCents a)),
       (''approvedAt'', iso_opt e (apr_approvedAt a)), (''rejectedAt'', iso_opt e (apr_rejectedAt a))]\<rparr>"

text \<open>\<open>left.at.localeCompare(right.at) || left.id.localeCompare(right.id)\<close> is not positive.\<close>

definition timeline_le :: "env \<Rightarrow> timeline_entry \<Rightarrow> timeline_entry \<Rightarrow> bool" where
  "timeline_le e l r \<longleftrightarrow> collate e (tl_at l) (tl_at r) \<and> (collate e (tl_at r) (tl_at l) \<longrightarrow> collate e (tl_id l) (tl_id r))"

definition build_timeline :: "env \<Rightarrow> audit_row list \<Rightarrow> attempt_row list \<Rightarrow> file_row list \<Rightarrow> approval_row list \<Rightarrow> timeline_entry list" where
  "build_timeline e events ats fs apps = sort_by (timeline_le e)
     (map (audit_entry e) events @ map (attempt_entry e) ats @ map (file_entry e) fs @ map (approval_entry e) apps)"

definition timeline_json :: "timeline_entry \<Rightarrow> json" where
  "timeline_json t = JObj ([(''type'', JStr (tl_type t)), (''id'', JStr (tl_id t)), (''at'', JStr (tl_at t))] @ tl_fields t)"

subsection \<open>The summary\<close>

definition build_summary :: "string \<Rightarrow> run_row \<Rightarrow> string" where
  "build_summary storedSummary run =
    (if run_status run = Run_Failed \<and> truthy (run_errorMessage run)
     then storedSummary @ '' Error: '' @ the (run_errorMessage run)
     else if truthy (run_resultSummary run) \<and> \<not> str_includes storedSummary (the (run_resultSummary run))
     then storedSummary @ '' '' @ the (run_resultSummary run)
     else storedSummary)"

subsection \<open>Views\<close>

definition vendor_ref :: "vendor_row option \<Rightarrow> json" where
  "vendor_ref v = (case v of None \<Rightarrow> JNull
     | Some v \<Rightarrow> JObj [(''id'', JStr (ve_id v)), (''name'', JStr (ve_name v)), (''website'', JStr (ve_website v))])"

definition toReceiptListDto :: "env \<Rightarrow> receipt_row \<Rightarrow> run_row \<Rightarrow> vendor_row option \<Rightarrow> agent_row \<Rightarrow> string \<Rightarrow> (string \<times> json) list" where
  "toReceiptListDto e r run vendor agent summary =
     [(''id'', JStr (re_id r)), (''organizationId'', JStr (re_org r)), (''workflowRunId'', JStr (re_run r)), (''agentId'', JStr (re_agent r)),
      (''finalStatus'', enumToDomain (receipt_status_value (re_finalStatus r))), (''summary'', JStr summary),
      (''workflowRun'', JObj [(''id'', JStr (run_id run)), (''status'', enumToDomain (workflow_run_status_value (run_status run))),
        (''currentStep'', jopt (run_currentStep run)), (''errorMessage'', jopt (run_errorMessage run)), (''vendor'', vendor_ref vendor)]),
      (''agent'', JObj [(''id'', JStr (ag_id agent)), (''name'', JStr (ag_name agent)), (''identifier'', JStr (ag_identifier agent))]),
      (''createdAt'', JStr (iso e (re_createdAt r)))]"

definition toDetailDto :: "env \<Rightarrow> receipt_row \<Rightarrow> run_row \<Rightarrow> vendor_row option \<Rightarrow> agent_row \<Rightarrow> workflow_row
    \<Rightarrow> audit_row list \<Rightarrow> attempt_row list \<Rightarrow> file_row list \<Rightarrow> approval_row list \<Rightarrow> json" where
  "toDetailDto e r run vendor agent workflow events ats fs apps =
    JObj (toReceiptListDto e r run vendor agent (build_summary (re_summary r) run) @
      [(''workflow'', JObj [(''id'', JStr (wf_id workflow)), (''name'', JStr (wf_name workflow)),
         (''template'', enumToDomain (workflow_template_value (wf_template workflow)))]),
       (''vendor'', vendor_ref vendor),
       (''timeline'', JArr (map timeline_json (build_timeline e events ats fs apps))),
       (''screenshots'', redactValue (re_screenshots r)), (''files'', redactValue (re_files r)),
       (''policyDecisions'', redactValue (re_policyDecisions r)), (''approvalDetails'', redactValue (re_approvalDetails r))])"

subsection \<open>Queries\<close>

text \<open>The run, vendor and agent a receipt refers to.\<close>

definition receipt_relations :: "receipt_row \<Rightarrow> (run_row \<times> vendor_row option \<times> agent_row) action" where
  "receipt_relations r =
    bnd (find_first run_t (\<lambda>x. run_id x = re_run r)) (\<lambda>run.
    bnd (require_some run (missing_relation ''workflowRun'')) (\<lambda>run.
    bnd (find_first vendor_t (\<lambda>x. run_vendor run = Some (ve_id x))) (\<lambda>vendor.
    bnd (find_first agent_t (\<lambda>x. ag_id x = re_agent r)) (\<lambda>agent.
    bnd (require_some agent (missing_relation ''agent'')) (\<lambda>agent.
    ret (run, vendor, agent))))))"

fun receipt_pages :: "receipt_row list \<Rightarrow> json list action" where
  "receipt_pages [] = ret []"
| "receipt_pages (r # rs) =
    bnd (receipt_relations r) (\<lambda>(run, vendor, agent).
    bnd (gets (\<lambda>w. JObj (toReceiptListDto (w_env w) r run vendor agent (re_summary r)))) (\<lambda>j.
    bnd (receipt_pages rs) (\<lambda>js. ret (j # js))))"

record receipt_query =
  rcq_run :: "string option"
  rcq_finalStatus :: "receipt_status option"
  rcq_limit :: nat
  rcq_offset :: nat

definition receipt_list :: "string option \<Rightarrow> receipt_query \<Rightarrow> page_result action" where
  "receipt_list organizationId query =
    bnd (require_org organizationId) (\<lambda>org.
    bnd (find_many receipt_t (\<lambda>r. re_org r = org \<and> matches (rcq_run query) (re_run r) \<and> matches (rcq_finalStatus query) (re_finalStatus r)))
      (\<lambda>found.
    bnd (receipt_pages (page_of (rcq_offset query) (rcq_limit query) (order_desc re_createdAt re_id found))) (\<lambda>js.
    ret \<lparr>pg_data = js, pg_total = length found, pg_limit = rcq_limit query, pg_offset = rcq_offset query\<rparr>)))"

text \<open>The status named in a query string: an unknown one counts as absent.\<close>

definition normalizeStatus :: "string option \<Rightarrow> receipt_status option" where
  "normalizeStatus v = (if truthy v then find (\<lambda>s. prisma_enum (receipt_status_value s) = to_upper (the v)) RECEIPT_STATUSES else None)"

definition getDetail :: "string option \<Rightarrow> string \<Rightarrow> json action" where
  "getDetail organizationId k =
    bnd (require_org organizationId) (\<lambda>org.
    bnd (find_first receipt_t (\<lambda>r. re_id r = k \<and> re_org r = org)) (\<lambda>found.
    bnd (require_some found (DomainError NotFound ''Receipt was not found.'')) (\<lambda>r.
    bnd (receipt_relations r) (\<lambda>(run, vendor, agent).
    bnd (find_first workflow_t (\<lambda>x. wf_id x = run_workflow run)) (\<lambda>workflow.
    bnd (require_some workflow (missing_relation ''workflow'')) (\<lambda>workflow.
    bnd (find_many audit_t (\<lambda>a. au_run a = Some (run_id run))) (\<lambda>events.
    bnd (find_many attempt_t (\<lambda>a. at_run a = run_id run)) (\<lambda>ats.
    bnd (find_many file_t (\<lambda>f. fi_run f = Some (run_id run))) (\<lambda>fs.
    bnd (find_many approval_t (\<lambda>a. apr_run a = run_id run)) (\<lambda>apps.
    gets (\<lambda>w. toDetailDto (w_env w) r run vendor agent workflow (order_asc au_createdAt au_id events)
      (order_asc at_createdAt at_id ats) (order_asc fi_createdAt fi_id fs) (order_asc apr_createdAt apr_id apps))))))))))))"

subsection \<open>The exported document\<close>

text \<open>\<open>JSON.stringify(value, null, 2)\<close>, at an indentation.\<close>

definition new_line :: "nat \<Rightarrow> string" where
  "new_line n = CHR 0x0A # replicate n (CHR '' '')"

fun pretty_json :: "(rat \<Rightarrow> string) \<Rightarrow> nat \<Rightarrow> json \<Rightarrow> string" where
  "pretty_json ns n (JArr xs) = (if xs = [] then ''[]''
     else ''['' @ join_with '','' (map (\<lambda>x. new_line (n + 2) @ pretty_json ns (n + 2) x) xs) @ new_line n @ '']'')"
| "pretty_json ns n (JObj fs) = (if fs = [] then ''{}''
     else ''{'' @ join_with '','' (map (\<lambda>kv. new_line (n + 2) @ json_string (fst kv) @ '': '' @ pretty_json ns (n + 2) (snd kv)) fs)
       @ new_line n @ ''}'')"
| "pretty_json ns n JNull = ''null''"
| "pretty_json ns n (JBool b) = (if b then ''true'' else ''false'')"
| "pretty_json ns n (JNum q) = ns q"
| "pretty_json ns n (JStr s) = json_string s"

definition exportJson :: "env \<Rightarrow> json \<Rightarrow> string \<times> string \<times> string" where
  "exportJson e receipt =
    (''receipt-'' @ (case map_of (as_object receipt) ''id'' of Some (JStr k) \<Rightarrow> k | _ \<Rightarrow> ''undefined'') @ ''.json'',
     ''application/json; charset=utf-8'', pretty_json (num_str e) 0 (JObj [(''data'', receipt)]))"

definition receipt_export :: "string option \<Rightarrow> string \<Rightarrow> (string \<times> string \<times> string) action" where
  "receipt_export organizationId k = bnd (getDetail organizationId k) (\<lambda>r. gets (\<lambda>w. exportJson (w_env w) r))"

subsection \<open>The order of the timeline\<close>

text \<open>\<open>localeCompare\<close> orders texts totally, up to texts it does not tell apart.\<close>

definition collation :: "(string \<Rightarrow> string \<Rightarrow> bool) \<Rightarrow> bool" where
  "collation le \<longleftrightarrow> (\<forall>a b. le a b \<or> le b a) \<and> (\<forall>a b c. le a b \<longrightarrow> le b c \<longrightarrow> le a c)"

lemma insert_by_sorted:
  assumes "\<And>a b. le a b \<or> le b a" and "\<And>a b c. le a b \<Longrightarrow> le b c \<Longrightarrow> le a c" and "sorted_wrt le xs"
  shows "sorted_wrt le (insert_by le x xs)"
  using assms(3) by (induction xs) (use assms(1,2) in \<open>auto dest: set_insert_by [THEN equalityD1, THEN subsetD]\<close>)

lemma sort_by_sorted:
  assumes "\<And>a b. le a b \<or> le b a" and "\<And>a b c. le a b \<Longrightarrow> le b c \<Longrightarrow> le a c"
  shows "sorted_wrt le (sort_by le xs)"
  by (induction xs) (simp_all add: sort_by_def insert_by_sorted [OF assms])

lemma mset_insert_by: "mset (insert_by le x xs) = add_mset x (mset xs)"
  by (induction xs) auto

lemma mset_sort_by: "mset (sort_by le xs) = mset xs"
  by (induction xs) (simp_all add: sort_by_def mset_insert_by)

text \<open>The timeline of a run has one entry for each of its audit events, attempts, files and approvals and
nothing else, in the order of their times, and of their ids among those whose times are not told apart.\<close>

theorem timeline_complete_and_ordered:
  assumes "collation (collate e)"
  shows "mset (build_timeline e events ats fs apps) =
      mset (map (audit_entry e) events) + mset (map (attempt_entry e) ats) + mset (map (file_entry e) fs) + mset (map (approval_entry e) apps)
    \<and> sorted_wrt (timeline_le e) (build_timeline e events ats fs apps)"
proof
  show "sorted_wrt (timeline_le e) (build_timeline e events ats fs apps)"
    unfolding build_timeline_def
    by (rule sort_by_sorted) (use assms in \<open>unfold collation_def timeline_le_def, blast+\<close>)
qed (simp add: build_timeline_def mset_sort_by)

theorem timeline_complete_and_ordered_witness:
  "sorted_wrt (timeline_le demo_env) (build_timeline demo_env [] [] [] [demo_approval\<lparr>apr_id := ''b''\<rparr>, demo_approval\<lparr>apr_id := ''a''\<rparr>])"
  by (rule timeline_complete_and_ordered [THEN conjunct2]) (auto simp: collation_def demo_env_def)

subsection \<open>What a receipt shows\<close>

fun shows_no_secret :: "json \<Rightarrow> bool" where
  "shows_no_secret (JArr xs) = list_all shows_no_secret xs"
| "shows_no_secret (JObj fs) = list_all (\<lambda>kv. if sensitive_key (fst kv) then snd kv = REDACTED else shows_no_secret (snd kv)) fs"
| "shows_no_secret j = True"

lemma redactValue_clean: "shows_no_secret (redactValue j)"
  by (induction j rule: redactValue.induct) (auto simp: list_all_iff)

lemma receipt_keys:
  "list_all (\<lambda>k. \<not> sensitive_key k) [''id'', ''organizationId'', ''workflowRunId'', ''agentId'', ''finalStatus'', ''summary'', ''workflowRun'',
     ''status'', ''currentStep'', ''errorMessage'', ''vendor'', ''agent'', ''name'', ''identifier'', ''createdAt'', ''website'', ''workflow'',
     ''template'', ''timeline'', ''screenshots'', ''files'', ''policyDecisions'', ''approvalDetails'', ''type'', ''at'', ''eventType'',
     ''actorType'', ''actorId'', ''data'', ''actionType'', ''riskLevel'', ''policyDecision'', ''policyReason'', ''inputSummary'',
     ''outputSummary'', ''amountCents'', ''completedAt'', ''metadataJson'', ''kind'', ''mimeType'', ''sizeBytes'', ''sha256'',
     ''approvedAt'', ''rejectedAt'']"
  by code_simp

lemmas plain_keys [simp] = receipt_keys [simplified]

lemma plain_values [simp]: "shows_no_secret (jopt v)" "shows_no_secret (jnum_opt n)" "shows_no_secret (iso_opt e d)" "shows_no_secret (enumToDomain s)"
  "shows_no_secret (vendor_ref vr)"
  by (simp_all add: jopt_def jnum_opt_def iso_opt_def enumToDomain_def vendor_ref_def split: option.split)

lemma timeline_clean: "t \<in> set (build_timeline e events ats fs apps) \<Longrightarrow> shows_no_secret (timeline_json t)"
  by (auto simp: build_timeline_def timeline_json_def audit_entry_def attempt_entry_def file_entry_def approval_entry_def redactValue_clean)

lemma toDetailDto_clean: "shows_no_secret (toDetailDto e r run vendor agent workflow events ats fs apps)"
  by (auto simp: toDetailDto_def toReceiptListDto_def redactValue_clean list_all_iff dest: timeline_clean)


definition receipt_world :: world where
  "receipt_world = start_world\<lparr>runs := [(demo_run Run_Completed)\<lparr>run_id := ''r'', run_workflow := ''w'', run_agent := ''a''\<rparr>],
     receipts := [\<lparr>re_id = ''e'', re_org = ''o'', re_run = ''r'', re_agent = ''a'', re_finalStatus = Receipt_Completed, re_summary = ''s'',
       re_timeline = JArr [], re_screenshots = JArr [], re_files = JObj [(''token'', JStr ''t'')], re_policyDecisions = JArr [],
       re_approvalDetails = JArr [], re_createdAt = 0\<rparr>]\<rparr>"


end
