(* ===== verification/Action_Attempts.thy ===== *)
theory Action_Attempts
  imports Notifications
begin

section \<open>Action attempts\<close>

text \<open>
  \<open>apps/api/src/action-attempts\<close>: the record the worker makes of every step of an agent. The
  classification fixes the risk level and refuses risky actions without a policy decision;
  an attempt is completed or failed once, within the run it belongs to.
\<close>

subsection \<open>Risk signals and classification\<close>

definition known_signals :: "json list \<Rightarrow> risk_signal list option" where
  "known_signals js =
     those (map (\<lambda>j. case j of JStr s \<Rightarrow> parse_enum risk_signal_value RISK_SIGNALS s | _ \<Rightarrow> None) js)"

definition normalize_signals :: "json option \<Rightarrow> risk_signal list action" where
  "normalize_signals v = (case v of
     None \<Rightarrow> ret []
   | Some (JArr js) \<Rightarrow>
       (case known_signals js of
          None \<Rightarrow> throw (DomainError ValidationFailed ''Risk signals must be known values.'')
        | Some sigs \<Rightarrow> ret (sort_key risk_signal_value (dedupe sigs)))
   | Some _ \<Rightarrow> throw (DomainError ValidationFailed ''Risk signals must be an array.''))"

definition POLICY_DECISION_REQUIRED_ACTIONS :: "action_type list" where
  "POLICY_DECISION_REQUIRED_ACTIONS =
    [SubmitForm, ChangePlan, CancelSubscription, MakePurchase, InviteUser, ChangeBillingDetails]"

definition requiresPolicyDecision :: "action_type \<Rightarrow> bool" where
  "requiresPolicyDecision act \<longleftrightarrow> List.member POLICY_DECISION_REQUIRED_ACTIONS act"

definition classify ::
  "action_type \<Rightarrow> risk_signal list \<Rightarrow> risk_level option \<Rightarrow> policy_decision option
   \<Rightarrow> (risk_level \<times> policy_decision) action" where
  "classify act sigs level decision =
    (if requiresPolicyDecision act \<and> decision = None
     then throw (DomainError ValidationFailed ''Policy decision is required before recording risky actions.'')
     else ret
       (case level of Some r \<Rightarrow> r | None \<Rightarrow>
          if sigs \<noteq> [] then scoreRisk act sigs else ACTION_RISK_DEFAULTS act,
        case decision of Some d \<Rightarrow> d | None \<Rightarrow> Decide_Allow))"

subsection \<open>The view of an attempt\<close>

definition toActionAttemptDto :: "env \<Rightarrow> attempt_row \<Rightarrow> json" where
  "toActionAttemptDto e a = JObj
     [(''id'', JStr (at_id a)), (''organizationId'', JStr (at_org a)),
      (''workflowRunId'', JStr (at_run a)), (''agentId'', JStr (at_agent a)),
      (''vendorId'', jopt (at_vendor a)), (''website'', JStr (at_website a)),
      (''actionType'', enumToDomain (action_type_value (at_actionType a))),
      (''riskLevel'', enumToDomain (risk_level_value (at_riskLevel a))),
      (''policyDecision'', enumToDomain (policy_decision_value (at_policyDecision a))),
      (''policyReason'', jopt (at_policyReason a)),
      (''inputSummary'', jopt (at_inputSummary a)),
      (''outputSummary'', jopt (at_outputSummary a)),
      (''amountCents'', jnum_opt (at_amountCents a)),
      (''metadataJson'', redactSecretLikeValues (at_metadata a)),
      (''createdAt'', JStr (iso e (at_createdAt a))),
      (''completedAt'', iso_opt e (at_completedAt a))]"

subsection \<open>Operations\<close>

record create_attempt_input =
  ci_website :: string
  ci_actionType :: action_type
  ci_riskLevel :: "risk_level option"
  ci_riskSignals :: "json option"
  ci_policyDecision :: "policy_decision option"
  ci_policyReason :: "string option"
  ci_inputSummary :: "string option"
  ci_outputSummary :: "string option"
  ci_amountCents :: "int option"
  ci_metadata :: "(string \<times> json) list option"

definition attempt_listForRun :: "string option \<Rightarrow> string \<Rightarrow> json list action" where
  "attempt_listForRun organizationId k =
    bnd (findRunInOrganization organizationId k) (\<lambda>_.
    bnd (find_many attempt_t (\<lambda>a. at_run a = k \<and> Some (at_org a) = organizationId)) (\<lambda>found.
    gets (\<lambda>w. map (toActionAttemptDto (w_env w)) (order_desc at_createdAt at_id found))))"

definition attempt_createForRun :: "string \<Rightarrow> create_attempt_input \<Rightarrow> json action" where
  "attempt_createForRun k i =
    bnd (find_first run_t (\<lambda>r. run_id r = k)) (\<lambda>found.
    bnd (require_some found run_not_found) (\<lambda>run.
    bnd (normalize_signals (ci_riskSignals i)) (\<lambda>sigs.
    bnd (classify (ci_actionType i) sigs (ci_riskLevel i) (ci_policyDecision i)) (\<lambda>(level, decision).
    bnd new_date (\<lambda>recorded. bnd (iso_of recorded) (\<lambda>recordedAt.
    bnd fresh_id (\<lambda>new_id. bnd new_date (\<lambda>now.
    bnd (create_row attempt_t \<lparr>at_id = new_id, at_org = run_org run, at_run = run_id run,
      at_agent = run_agent run, at_vendor = run_vendor run, at_website = ci_website i,
      at_actionType = ci_actionType i, at_riskLevel = level, at_policyDecision = decision,
      at_policyReason = ci_policyReason i, at_inputSummary = ci_inputSummary i,
      at_outputSummary = ci_outputSummary i, at_amountCents = ci_amountCents i,
      at_metadata = JObj (spread (coalesce (ci_metadata i) [])
        [(''riskSignals'', JArr (map (\<lambda>s. JStr (risk_signal_value s)) sigs)),
         (''policyDecisionRecordedAt'', JStr recordedAt)]),
      at_createdAt = now, at_completedAt = None\<rparr>) (\<lambda>a.
    gets (\<lambda>w. toActionAttemptDto (w_env w) a))))))))))"

definition findAttempt :: "string \<Rightarrow> attempt_row action" where
  "findAttempt k =
    bnd (find_first attempt_t (\<lambda>a. at_id a = k)) (\<lambda>found.
    require_some found (DomainError NotFound ''Action attempt was not found.''))"

definition assertAttemptScope :: "attempt_row \<Rightarrow> string option \<Rightarrow> unit action" where
  "assertAttemptScope a k = require (\<not> (truthy k \<and> at_run a \<noteq> the k))
     (DomainError OrganizationIsolationViolation ''Action attempt belongs to another workflow run.'')"

definition assertNotCompleted :: "attempt_row \<Rightarrow> unit action" where
  "assertNotCompleted a = require (at_completedAt a = None)
     (DomainError WorkflowInvalidTransition ''Action attempt is already completed.'')"

definition mergeMetadata ::
  "json \<Rightarrow> (string \<times> json) list option \<Rightarrow> (string \<times> json) list \<Rightarrow> json" where
  "mergeMetadata existing next patch =
     JObj (spread (spread (as_object existing) (coalesce next [])) patch)"

definition attempt_complete ::
  "string \<Rightarrow> string option \<Rightarrow> string option \<Rightarrow> (string \<times> json) list option \<Rightarrow> json action" where
  "attempt_complete k workflowRunId outputSummary metadata =
    bnd (findAttempt k) (\<lambda>a.
    bnd (assertAttemptScope a workflowRunId) (\<lambda>_.
    bnd (assertNotCompleted a) (\<lambda>_.
    bnd new_date (\<lambda>now.
    bnd (update_row attempt_t record_not_found (at_id a) (\<lambda>r. r\<lparr>at_completedAt := Some now,
      at_outputSummary := (case outputSummary of Some s \<Rightarrow> Some s | None \<Rightarrow> at_outputSummary a),
      at_metadata := mergeMetadata (at_metadata a) metadata [(''outcome'', JStr ''completed'')]\<rparr>)) (\<lambda>updated.
    gets (\<lambda>w. toActionAttemptDto (w_env w) updated))))))"

definition attempt_fail ::
  "string \<Rightarrow> string option \<Rightarrow> string \<Rightarrow> (string \<times> json) list option \<Rightarrow> json action" where
  "attempt_fail k workflowRunId errorSummary metadata =
    bnd (findAttempt k) (\<lambda>a.
    bnd (assertAttemptScope a workflowRunId) (\<lambda>_.
    bnd (assertNotCompleted a) (\<lambda>_.
    bnd new_date (\<lambda>now.
    bnd (update_row attempt_t record_not_found (at_id a) (\<lambda>r. r\<lparr>at_completedAt := Some now,
      at_outputSummary := Some errorSummary,
      at_metadata := mergeMetadata (at_metadata a) metadata
        [(''outcome'', JStr ''failed''), (''errorSummary'', JStr errorSummary)]\<rparr>)) (\<lambda>updated.
    gets (\<lambda>w. toActionAttemptDto (w_env w) updated))))))"

subsection \<open>Effects\<close>

lemma same_normalize_signals [effect_intros]: "effect (same_of f) (normalize_signals v) w"
  by (auto simp: normalize_signals_def effect_def same_of_def run_simps split: option.split json.split)

lemma same_classify [effect_intros]: "effect (same_of f) (classify act s l d) w"
  by (simp add: classify_def effect_def same_of_def run_simps)

lemmas attempt_ops = attempt_createForRun_def attempt_complete_def attempt_fail_def findAttempt_def
  assertAttemptScope_def assertNotCompleted_def

lemma same_attempt_ops [effect_intros]:
  assumes "\<And>w n. f (w\<lparr>reads := n\<rparr>) = f w" "\<And>w n. f (w\<lparr>ids := n\<rparr>) = f w" "keeps f attempt_t"
  shows "effect (same_of f) (attempt_createForRun k i) w"
    and "effect (same_of f) (attempt_complete k r s m) w"
    and "effect (same_of f) (attempt_fail k r e m) w"
  unfolding attempt_ops wrap_defs
  by (intro effect_intros assms; simp add: split_beta; intro effect_intros assms)+

lemma audit_attempt_ops [effect_intros]:
  "effect audit_ok (attempt_createForRun k i) w"
  "effect audit_ok (attempt_complete k r s m) w"
  "effect audit_ok (attempt_fail k r e m) w"
proof -
  have q: "effect audit_ok (normalize_signals v) w" "effect audit_ok (classify act s l d) w" for v act s l d w
    by (intro same_quiet effect_intros)+
  show "effect audit_ok (attempt_createForRun k i) w"
    unfolding attempt_ops wrap_defs
    by (intro effect_intros q; simp add: split_beta; intro effect_intros; simp)
  show "effect audit_ok (attempt_complete k r s m) w" "effect audit_ok (attempt_fail k r e m) w"
    unfolding attempt_ops wrap_defs by (intro effect_intros; simp)+
qed

subsection \<open>Properties\<close>

lemma those_map_Some: "those (map f xs) = Some ys \<longleftrightarrow> map f xs = map Some ys"
proof (induction xs arbitrary: ys)
  case (Cons x xs)
  then show ?case by (cases ys; cases "f x") (auto split: option.splits)
qed auto

text \<open>What is recorded for an attempt: an action that can change or buy something never gets
an attempt without an explicit policy decision; otherwise one attempt is added under the run's
organization, agent and vendor, its risk is the one given, or the score of its signals, or the
default of its action, and without a decision it is allowed.\<close>

theorem attempt_recorded:
  assumes "row_of run_t k w = Some run" and "ci_riskSignals i = Some (JArr (map (\<lambda>s. JStr (risk_signal_value s)) sigs))"
  shows "if requiresPolicyDecision (ci_actionType i) \<and> ci_policyDecision i = None
    then attempt_createForRun k i w
      = (Inl (DomainError ValidationFailed ''Policy decision is required before recording risky actions.''), w)
    else \<exists>a w'. attempt_createForRun k i w = (Inr (toActionAttemptDto (w_env w) a), w') \<and> attempts w' = attempts w @ [a]
      \<and> at_org a = run_org run \<and> at_run a = k \<and> at_agent a = run_agent run \<and> at_vendor a = run_vendor run
      \<and> at_actionType a = ci_actionType i \<and> at_completedAt a = None
      \<and> at_riskLevel a = (case ci_riskLevel i of Some r \<Rightarrow> r | None \<Rightarrow>
           if sigs \<noteq> [] then scoreRisk (ci_actionType i) (sort_key risk_signal_value (dedupe sigs))
           else ACTION_RISK_DEFAULTS (ci_actionType i))
      \<and> at_policyDecision a = (case ci_policyDecision i of Some d \<Rightarrow> d | None \<Rightarrow> Decide_Allow)"
proof -
  have parse: "parse_enum risk_signal_value RISK_SIGNALS (risk_signal_value s) = Some s" for s
    by (rule parse_enum_value) simp_all
  have known: "known_signals (map (\<lambda>s. JStr (risk_signal_value s)) sigs) = Some sigs"
    by (simp add: known_signals_def those_map_Some comp_def parse)
  have norm: "normalize_signals (ci_riskSignals i) = ret (sort_key risk_signal_value (dedupe sigs))"
    by (simp add: assms(2) normalize_signals_def known)
  have empty: "sort_key risk_signal_value (dedupe sigs) = [] \<longleftrightarrow> sigs = []"
    by (metis set_dedupe set_empty set_sort)
  have row: "find (\<lambda>r. run_id r = k) (runs w) = Some run"
    using assms(1) by (simp add: row_of_def run_t_def)
  show ?thesis
    using row_of_run_id [OF assms(1)]
    by (cases "requiresPolicyDecision (ci_actionType i) \<and> ci_policyDecision i = None")
       (auto simp: attempt_createForRun_def step_simps norm classify_def empty table_defs row)
qed

text \<open>An attempt is finished at most once: once it has a completion time, neither completing
nor failing it again changes anything, whoever asks; and an attempt of one run cannot be
finished in the name of another run.\<close>

theorem attempt_finished_once:
  assumes "row_of attempt_t k w = Some a"
    and "at_completedAt a \<noteq> None \<or> truthy r \<and> the r \<noteq> at_run a"
  shows "(\<exists>e. attempt_complete k r s m w = (Inl e, w)) \<and> (\<exists>e. attempt_fail k r e' m w = (Inl e, w))"
proof -
  have "find (\<lambda>a. at_id a = k) (attempts w) = Some a"
    using assms(1) by (simp add: row_of_def attempt_t_def)
  then show ?thesis
    using assms(2)
    by (auto simp: attempt_complete_def attempt_fail_def findAttempt_def assertAttemptScope_def
        assertNotCompleted_def step_simps bnd_assoc attempt_t_def)
qed

definition demo_create :: create_attempt_input where
  "demo_create = \<lparr>ci_website = ''s'', ci_actionType = ReadPage, ci_riskLevel = None,
     ci_riskSignals = Some (JArr (map (\<lambda>s. JStr (risk_signal_value s)) [Sig_PaymentDetected])),
     ci_policyDecision = None, ci_policyReason = None, ci_inputSummary = None,
     ci_outputSummary = None, ci_amountCents = None, ci_metadata = None\<rparr>"

theorem attempt_recorded_witness:
  "\<exists>a w'. attempt_createForRun ''r'' demo_create (demo_world Run_Running)
       = (Inr (toActionAttemptDto (w_env (demo_world Run_Running)) a), w')
     \<and> at_riskLevel a = scoreRisk ReadPage (sort_key risk_signal_value (dedupe [Sig_PaymentDetected]))"
proof -
  have "row_of run_t ''r'' (demo_world Run_Running) = Some (demo_run Run_Running)"
    by (simp add: row_of_def run_t_def demo_run_def)
  from attempt_recorded [OF this, of demo_create "[Sig_PaymentDetected]"] show ?thesis
    by (simp add: demo_create_def requiresPolicyDecision_def POLICY_DECISION_REQUIRED_ACTIONS_def) blast
qed

theorem attempt_finished_once_witness:
  "(\<exists>e. attempt_complete ''t'' (Some ''x'') None None (waiting_world demo_env) = (Inl e, waiting_world demo_env))
   \<and> (\<exists>e. attempt_fail ''t'' (Some ''x'') ''why'' None (waiting_world demo_env) = (Inl e, waiting_world demo_env))"
  by (rule attempt_finished_once [where a = demo_attempt])
     (simp_all add: row_of_def attempt_t_def waiting_world_def demo_attempt_def truthy_def)

end
