(* ===== verification/Approvals.thy ===== *)
theory Approvals
  imports Action_Attempts
begin

section \<open>Approval requests\<close>

text \<open>
  \<open>apps/api/src/approvals\<close>: a worker asks for an approval of an action attempt, which puts its
  run into waiting; a user approves, which puts the run back to running and queues a resume
  job, or rejects, which ends the run as denied; a request past its expiry is expired and
  denies the run, when somebody reads or decides requests and in a periodic sweep.
\<close>

definition toApprovalRequestDto :: "env \<Rightarrow> approval_row \<Rightarrow> json" where
  "toApprovalRequestDto e a = JObj
     [(''id'', JStr (apr_id a)), (''organizationId'', JStr (apr_org a)),
      (''workflowRunId'', JStr (apr_run a)), (''actionAttemptId'', JStr (apr_attempt a)),
      (''status'', enumToDomain (approval_status_value (apr_status a))),
      (''requestedByAgentId'', JStr (apr_requestedBy a)),
      (''approverUserId'', jopt (apr_approver a)), (''summary'', JStr (apr_summary a)),
      (''riskLevel'', enumToDomain (risk_level_value (apr_riskLevel a))),
      (''amountCents'', jnum_opt (apr_amountCents a)),
      (''screenshotFileId'', jopt (apr_screenshot a)),
      (''policyTriggeredJson'', apr_policyTriggered a),
      (''expiresAt'', iso_opt e (apr_expiresAt a)), (''approvedAt'', iso_opt e (apr_approvedAt a)),
      (''rejectedAt'', iso_opt e (apr_rejectedAt a)), (''comment'', jopt (apr_comment a)),
      (''createdAt'', JStr (iso e (apr_createdAt a))), (''updatedAt'', JStr (iso e (apr_updatedAt a)))]"

text \<open>The merge of a transition into the state of a run.\<close>

definition nextRunState :: "json \<Rightarrow> (string \<times> json) list \<Rightarrow> json action" where
  "nextRunState existing transition =
    bnd new_date (\<lambda>now. bnd (iso_of now) (\<lambda>at_time.
    ret (JObj (spread (as_object existing)
      [(''transitionReason'', the (map_of transition ''reason'')),
       (''transitions'', JArr (as_array (map_of (as_object existing) ''transitions'')
          @ [JObj (spread transition [(''at'', JStr at_time)])]))]))))"

subsection \<open>Expiry\<close>

definition isExpired :: "approval_row \<Rightarrow> nat \<Rightarrow> bool" where
  "isExpired a now \<longleftrightarrow> apr_status a = Approval_Pending
     \<and> (case apr_expiresAt a of None \<Rightarrow> False | Some t \<Rightarrow> t \<le> now)"

text \<open>The run that waited for an expired request is denied.\<close>

definition deny_expired_run :: "run_row \<Rightarrow> unit action" where
  "deny_expired_run run =
    run_if (run_status run = Run_WaitingForApproval)
      (bnd (assertCanTransition (run_status run) Run_Denied) (\<lambda>_.
       bnd (now_unless (run_completedAt run)) (\<lambda>completedAt.
       bnd (update_run (run_id run) (\<lambda>q. q\<lparr>run_status := Run_Denied,
         run_completedAt := completedAt, run_currentStep := Some ''approval_expired'',
         run_errorMessage := Some ''Approval request expired before a decision was made.''\<rparr>)) (\<lambda>_.
       ret ()))))"

definition expireApproval :: "approval_row \<Rightarrow> approval_row action" where
  "expireApproval approval =
    (if apr_status approval \<noteq> Approval_Pending then ret approval
     else
      bnd (update_approval (apr_id approval) (\<lambda>a. a\<lparr>apr_status := Approval_Expired\<rparr>)) (\<lambda>expired.
      bnd (find_run (apr_run expired) (apr_org expired)) (\<lambda>run.
      bnd (case run of None \<Rightarrow> ret () | Some r \<Rightarrow> deny_expired_run r) (\<lambda>_.
      bnd (gets (\<lambda>w. iso_opt (w_env w) (apr_expiresAt expired))) (\<lambda>expiresAt.
      bnd (record_audit \<lparr>ai_org = apr_org expired, ai_run = Some (apr_run expired),
             ai_agent = Some (apr_requestedBy expired), ai_actorType = Actor_System, ai_actorId = None,
             ai_eventType = Ev_ApprovalExpired,
             ai_data = JObj [(''approvalRequestId'', JStr (apr_id expired)), (''expiresAt'', expiresAt)]\<rparr>) (\<lambda>_.
      ret expired))))))"

definition SWEEP_BATCH_SIZE :: nat where
  "SWEEP_BATCH_SIZE = 100"

definition due_approvals :: "nat \<Rightarrow> approval_row list \<Rightarrow> approval_row list" where
  "due_approvals now as = take SWEEP_BATCH_SIZE
     (order_asc (\<lambda>a. the (apr_expiresAt a)) apr_id
       (filter (\<lambda>a. apr_status a = Approval_Pending
          \<and> (case apr_expiresAt a of None \<Rightarrow> False | Some t \<Rightarrow> t \<le> now)) as))"

definition expireDue :: "nat action" where
  "expireDue =
    bnd new_date (\<lambda>now.
    bnd (gets (\<lambda>w. due_approvals now (approvals w))) (\<lambda>due.
    bnd (for_each (\<lambda>a. bnd (expireApproval a) (\<lambda>_. ret ())) due) (\<lambda>_.
    ret (length due))))"

definition sweepExpiredApprovals :: "unit action" where
  "sweepExpiredApprovals =
    bnd (gets sweeping) (\<lambda>busy.
    if busy then ret ()
    else
      bnd (modify (\<lambda>w. w\<lparr>sweeping := True\<rparr>)) (\<lambda>_.
      try_finally (bnd expireDue (\<lambda>_. ret ())) (modify (\<lambda>w. w\<lparr>sweeping := False\<rparr>))))"

subsection \<open>Queries\<close>

record approval_query =
  pq_status :: "approval_status option"
  pq_run :: "string option"
  pq_limit :: nat
  pq_offset :: nat

definition approval_list :: "string option \<Rightarrow> approval_query \<Rightarrow> page_result action" where
  "approval_list organizationId query =
    bnd (require_org organizationId) (\<lambda>org.
    bnd expireDue (\<lambda>_.
    bnd (find_many approval_t (\<lambda>a. apr_org a = org \<and> matches (pq_status query) (apr_status a)
           \<and> matches (pq_run query) (apr_run a))) (\<lambda>found.
    gets (\<lambda>w. \<lparr>pg_data = map (toApprovalRequestDto (w_env w))
        (page_of (pq_offset query) (pq_limit query) (order_desc apr_createdAt apr_id found)),
      pg_total = length found, pg_limit = pq_limit query, pg_offset = pq_offset query\<rparr>))))"

definition findApprovalInOrganization :: "string option \<Rightarrow> string \<Rightarrow> approval_row action" where
  "findApprovalInOrganization organizationId k =
    bnd (require_org organizationId) (\<lambda>org.
    bnd (find_first approval_t (\<lambda>a. apr_id a = k \<and> apr_org a = org)) (\<lambda>found.
    require_some found approval_not_found))"

definition approval_get :: "string option \<Rightarrow> string \<Rightarrow> json action" where
  "approval_get organizationId k =
    bnd (findApprovalInOrganization organizationId k) (\<lambda>a.
    gets (\<lambda>w. toApprovalRequestDto (w_env w) a))"

subsection \<open>Requesting an approval\<close>

record create_approval_input =
  ca_attempt :: string
  ca_summary :: string
  ca_riskLevel :: "risk_level option"
  ca_amountCents :: "int option"
  ca_screenshot :: "string option"
  ca_policyTriggered :: "json option"
  ca_expiresAt :: "string option"

definition assertScreenshotInRun :: "string \<Rightarrow> string \<Rightarrow> string \<Rightarrow> unit action" where
  "assertScreenshotInRun org run k =
    bnd (find_first file_t (\<lambda>f. fi_id f = k \<and> fi_org f = org \<and> fi_run f = Some run)) (\<lambda>found.
    require (found \<noteq> None) (DomainError OrganizationIsolationViolation
      ''Approval screenshot belongs to another workflow run.''))"

text \<open>\<open>new Date(text)\<close>: the client refuses an invalid date.\<close>

definition parsed_date :: "string option \<Rightarrow> nat option action" where
  "parsed_date v =
    (if truthy v
     then bnd (gets (\<lambda>w. parse_date (w_env w) (the v))) (\<lambda>t.
          bnd (require_some t (PrismaError ''Provided Date object is invalid. Expected Date.'')) (\<lambda>t.
          ret (Some t)))
     else ret None)"

text \<open>An approval is unique for its action attempt (\<open>@unique\<close> in the schema).\<close>

definition create_approval :: "approval_row \<Rightarrow> approval_row action" where
  "create_approval a =
    bnd (find_first approval_t (\<lambda>q. apr_attempt q = apr_attempt a)) (\<lambda>clash.
    bnd (require (clash = None) (PrismaError ''Unique constraint failed on the fields: (`action_attempt_id`)'')) (\<lambda>_.
    create_row approval_t a))"

definition worker_event :: "run_row \<Rightarrow> audit_event_type \<Rightarrow> (string \<times> json) list \<Rightarrow> audit_input" where
  "worker_event run ev fs = \<lparr>ai_org = run_org run, ai_run = Some (run_id run),
     ai_agent = Some (run_agent run), ai_actorType = Actor_Worker,
     ai_actorId = Some ''internal-worker'', ai_eventType = ev, ai_data = JObj fs\<rparr>"

definition start_waiting :: "run_row \<Rightarrow> string \<Rightarrow> unit action" where
  "start_waiting run attempt =
    bnd (assertCanTransition (run_status run) Run_WaitingForApproval) (\<lambda>_.
    bnd (nextRunState (run_state run)
      [(''from'', prisma_status (run_status run)), (''to'', prisma_status Run_WaitingForApproval),
       (''reason'', JStr ''Approval requested.''), (''actionAttemptId'', JStr attempt)]) (\<lambda>state.
    bnd (update_run (run_id run) (\<lambda>r. r\<lparr>run_status := Run_WaitingForApproval,
      run_currentStep := Some ''waiting_for_approval'', run_state := state\<rparr>)) (\<lambda>_. ret ())))"

definition approval_createForRun :: "string \<Rightarrow> create_approval_input \<Rightarrow> json action" where
  "approval_createForRun k i =
    bnd (find_first run_t (\<lambda>r. run_id r = k)) (\<lambda>found.
    bnd (require_some found run_not_found) (\<lambda>run.
    bnd (find_first attempt_t (\<lambda>a. at_id a = ca_attempt i \<and> at_run a = run_id run \<and> at_org a = run_org run)) (\<lambda>found.
    bnd (require_some found (DomainError NotFound ''Action attempt was not found.'')) (\<lambda>attempt.
    bnd (require (at_policyDecision attempt = Decide_RequireApproval) (DomainError ValidationFailed
      ''Approval requests require an action attempt with require_approval decision.'')) (\<lambda>_.
    bnd (run_if (truthy (ca_screenshot i))
      (assertScreenshotInRun (run_org run) (run_id run) (the (ca_screenshot i)))) (\<lambda>_.
    bnd (run_if (run_status run \<noteq> Run_WaitingForApproval) (start_waiting run (at_id attempt))) (\<lambda>_.
    bnd (parsed_date (ca_expiresAt i)) (\<lambda>expiresAt.
    bnd fresh_id (\<lambda>new_id. bnd new_date (\<lambda>now.
    bnd (create_approval \<lparr>apr_id = new_id, apr_org = run_org run, apr_run = run_id run,
      apr_attempt = at_id attempt, apr_status = Approval_Pending, apr_requestedBy = run_agent run,
      apr_approver = None, apr_summary = ca_summary i,
      apr_riskLevel = (case ca_riskLevel i of Some r \<Rightarrow> r | None \<Rightarrow> at_riskLevel attempt),
      apr_amountCents = (case ca_amountCents i of Some n \<Rightarrow> Some n | None \<Rightarrow> at_amountCents attempt),
      apr_screenshot = ca_screenshot i,
      apr_policyTriggered = (case ca_policyTriggered i of Some j \<Rightarrow> j | None \<Rightarrow> JObj []),
      apr_expiresAt = expiresAt, apr_approvedAt = None, apr_rejectedAt = None, apr_comment = None,
      apr_createdAt = now, apr_updatedAt = now\<rparr>) (\<lambda>approval.
    bnd (notifyApprovalRequested approval) (\<lambda>notification.
    bnd (record_audit (worker_event run Ev_ApprovalRequested
      [(''approvalRequestId'', JStr (apr_id approval)), (''actionAttemptId'', JStr (at_id attempt)),
       (''summary'', JStr (apr_summary approval)), (''notification'', notification)])) (\<lambda>_.
    bnd (record_audit (worker_event run Ev_WorkflowRunWaitingForApproval
      [(''workflowRunId'', JStr (run_id run)), (''approvalRequestId'', JStr (apr_id approval)),
       (''actionAttemptId'', JStr (at_id attempt))])) (\<lambda>_.
    gets (\<lambda>w. toApprovalRequestDto (w_env w) approval)))))))))))))))"

subsection \<open>Deciding\<close>

definition record_not_found_first :: err where
  "record_not_found_first = PrismaError ''No WorkflowRun found''"

definition assertPendingOrExpire :: "approval_row \<Rightarrow> unit action" where
  "assertPendingOrExpire a =
    bnd (require (apr_status a = Approval_Pending) (DomainError WorkflowInvalidTransition
      ''Approval request has already been decided.'')) (\<lambda>_.
    bnd new_date (\<lambda>now.
    run_if (isExpired a now)
      (bnd (expireApproval a) (\<lambda>_.
       throw (DomainError ValidationFailed ''Expired approvals cannot be decided.'')))))"

text \<open>An update writes the comment only when one is given.\<close>

definition with_comment :: "string option \<Rightarrow> approval_row \<Rightarrow> approval_row" where
  "with_comment v a = (case v of None \<Rightarrow> a | Some c \<Rightarrow> a\<lparr>apr_comment := Some c\<rparr>)"

definition user_event :: "context_user \<Rightarrow> run_row \<Rightarrow> audit_event_type \<Rightarrow> (string \<times> json) list \<Rightarrow> audit_input" where
  "user_event user run ev fs = \<lparr>ai_org = cu_org user, ai_run = Some (run_id run),
     ai_agent = Some (run_agent run), ai_actorType = Actor_User, ai_actorId = Some (cu_id user),
     ai_eventType = ev, ai_data = JObj fs\<rparr>"

text \<open>Up to the decision: what is read before anything is written.\<close>

definition decision_context ::
  "context_user option \<Rightarrow> string \<Rightarrow> workflow_run_status \<Rightarrow> (context_user \<times> approval_row \<times> run_row) action" where
  "decision_context currentUser k target =
    bnd (require_some currentUser authentication_required) (\<lambda>user.
    bnd (findApprovalInOrganization (Some (cu_org user)) k) (\<lambda>approval.
    bnd (assertPendingOrExpire approval) (\<lambda>_.
    bnd (find_run (apr_run approval) (cu_org user)) (\<lambda>found.
    bnd (require_some found record_not_found_first) (\<lambda>run.
    bnd (assertCanTransition (run_status run) target) (\<lambda>_.
    ret (user, approval, run)))))))"

text \<open>The first half of an approval, up to the queued resume job, and the second half, which
writes the run from what the first half read.\<close>

definition approve_decide :: "context_user \<times> approval_row \<times> run_row \<Rightarrow> string option \<Rightarrow> (approval_row \<times> string) action" where
  "approve_decide cx comment = (case cx of (user, approval, run) \<Rightarrow>
    bnd new_date (\<lambda>now.
    bnd (update_approval (apr_id approval) (\<lambda>a. with_comment comment
      (a\<lparr>apr_status := Approval_Approved, apr_approver := Some (cu_id user), apr_approvedAt := Some now\<rparr>))) (\<lambda>updated.
    bnd (enqueueApprovalResume updated) (\<lambda>resumeJobId.
    ret (updated, resumeJobId)))))"

definition approve_finish ::
  "context_user \<times> approval_row \<times> run_row \<Rightarrow> string option \<Rightarrow> approval_row \<times> string \<Rightarrow> json action" where
  "approve_finish cx comment decided = (case cx of (user, approval, run) \<Rightarrow> case decided of (updated, resumeJobId) \<Rightarrow>
    bnd (nextRunState (run_state run)
      [(''from'', prisma_status (run_status run)), (''to'', prisma_status Run_Running),
       (''reason'', JStr ''Approval approved.''), (''approvalRequestId'', JStr (apr_id approval)),
       (''resumeJobId'', JStr resumeJobId)]) (\<lambda>state.
    bnd (update_run (run_id run) (\<lambda>r. r\<lparr>run_status := Run_Running,
      run_currentStep := Some ''approval_approved'', run_state := state\<rparr>)) (\<lambda>_.
    bnd (record_audit (user_event user run Ev_ApprovalApproved
      [(''approvalRequestId'', JStr (apr_id approval)), (''workflowRunId'', JStr (run_id run)),
       (''comment'', jopt comment), (''resumeJobId'', JStr resumeJobId)])) (\<lambda>_.
    gets (\<lambda>w. JObj [(''approval'', toApprovalRequestDto (w_env w) updated),
      (''resumeJobId'', JStr resumeJobId)])))))"

definition approve :: "context_user option \<Rightarrow> string \<Rightarrow> string option \<Rightarrow> json action" where
  "approve currentUser k comment =
    bnd (decision_context currentUser k Run_Running) (\<lambda>cx.
    bnd (approve_decide cx comment) (\<lambda>decided.
    approve_finish cx comment decided))"

definition reject :: "context_user option \<Rightarrow> string \<Rightarrow> string option \<Rightarrow> json action" where
  "reject currentUser k comment =
    bnd (decision_context currentUser k Run_Denied) (\<lambda>(user, approval, run).
    bnd new_date (\<lambda>now.
    bnd (update_approval (apr_id approval) (\<lambda>a. with_comment comment
      (a\<lparr>apr_status := Approval_Rejected, apr_approver := Some (cu_id user), apr_rejectedAt := Some now\<rparr>))) (\<lambda>updated.
    bnd (now_unless (run_completedAt run)) (\<lambda>completedAt.
    bnd (nextRunState (run_state run)
      [(''from'', prisma_status (run_status run)), (''to'', prisma_status Run_Denied),
       (''reason'', JStr ''Approval rejected.''), (''approvalRequestId'', JStr (apr_id approval))]) (\<lambda>state.
    bnd (update_run (run_id run) (\<lambda>r. r\<lparr>run_status := Run_Denied, run_completedAt := completedAt,
      run_currentStep := Some ''approval_rejected'',
      run_errorMessage := Some (coalesce comment ''Approval rejected.''), run_state := state\<rparr>)) (\<lambda>_.
    bnd (record_audit (user_event user run Ev_ApprovalRejected
      [(''approvalRequestId'', JStr (apr_id approval)), (''workflowRunId'', JStr (run_id run)),
       (''comment'', jopt comment)])) (\<lambda>_.
    bnd (record_audit (user_event user run Ev_WorkflowRunDenied
      [(''workflowRunId'', JStr (run_id run)), (''approvalRequestId'', JStr (apr_id approval)),
       (''reason'', JStr (coalesce comment ''Approval rejected.''))])) (\<lambda>_.
    gets (\<lambda>w. toApprovalRequestDto (w_env w) updated)))))))))"

subsection \<open>Effects\<close>

definition approval_like :: "approval_row \<Rightarrow> approval_row \<Rightarrow> bool" where
  "approval_like a a' \<longleftrightarrow> apr_id a' = apr_id a \<and> apr_org a' = apr_org a \<and> apr_run a' = apr_run a
     \<and> apr_attempt a' = apr_attempt a
     \<and> (apr_status a \<noteq> Approval_Pending \<longrightarrow> apr_status a' = apr_status a \<and> apr_approver a' = apr_approver a)"

definition approvals_ok :: "world \<Rightarrow> world \<Rightarrow> bool" where
  "approvals_ok = rows_ok approval_t approval_like"

abbreviation unique_approvals :: "world \<Rightarrow> bool" where
  "unique_approvals \<equiv> unique_keys approval_t"

lemma tget_approval_t [simp]: "tget approval_t = approvals"
  by (simp add: approval_t_def)

lemma tkey_approval_t [simp]: "tkey approval_t = apr_id"
  by (simp add: approval_t_def)

interpretation decided: row_order approval_t approval_like
  rewrites "rows_ok approval_t approval_like = approvals_ok" and "tget approval_t = approvals"
    and "tkey approval_t = apr_id"
  by unfold_locales (auto simp: approval_like_def approvals_ok_def)

lemma keeps_approvals [simp, effect_intros]:
  "keeps approvals user_t" "keeps approvals agent_t" "keeps approvals vendor_t"
  "keeps approvals policy_t" "keeps approvals credential_t" "keeps approvals grant_t"
  "keeps approvals workflow_t" "keeps approvals run_t" "keeps approvals attempt_t"
  "keeps approvals audit_t" "keeps approvals file_t" "keeps approvals receipt_t"
  by (simp_all add: keeps_defs)

lemma queue_free_approvals [effect_intros]: "queue_free approvals"
  by (simp add: queue_free_def)

lemma approvals_leaves [effect_intros]:
  "effect approvals_ok new_date w" "effect approvals_ok fresh_id w" "effect approvals_ok (record_audit i) w"
  by (intro decided.rows_same same_new_date same_fresh_id same_record_audit; simp)+

lemma same_update_run [effect_intros]:
  "keeps f run_t \<Longrightarrow> (\<And>n. f (w\<lparr>reads := n\<rparr>) = f w) \<Longrightarrow> effect (same_of f) (update_run k g) w"
  unfolding update_run_def by (intro effect_intros)

lemma same_update_approval [effect_intros]:
  "keeps f approval_t \<Longrightarrow> (\<And>n. f (w\<lparr>reads := n\<rparr>) = f w) \<Longrightarrow> effect (same_of f) (update_approval k g) w"
  unfolding update_approval_def by (intro effect_intros)

lemma same_nextRunState [effect_intros]:
  "(\<And>w n. f (w\<lparr>reads := n\<rparr>) = f w) \<Longrightarrow> effect (same_of f) (nextRunState j tr) w"
  unfolding nextRunState_def wrap_defs by (intro effect_intros)

lemma audit_nextRunState [effect_intros]: "effect audit_ok (nextRunState j tr) w"
  unfolding nextRunState_def wrap_defs by (intro effect_intros)

lemma keep_update_approval:
  assumes "row_of approval_t k s = Some a" and "\<And>q. apr_id (f q) = apr_id q"
    and "\<And>x s'. effect approvals_ok (h x) s'" and "approval_like a (f a)"
  shows "effect approvals_ok (bnd (update_approval k f) h) s"
  using assms unfolding update_approval_def
  by (intro decided.keep_update [of k s a]) (auto intro!: same_new_date simp: approval_like_def)

text \<open>The log.\<close>

lemma audit_expireApproval [effect_intros]: "effect audit_ok (expireApproval a) w"
  unfolding expireApproval_def deny_expired_run_def wrap_defs by (intro effect_intros)

lemma audit_expireDue [effect_intros]: "effect audit_ok expireDue w"
  unfolding expireDue_def by (intro effect_intros)

lemma audit_sweep [effect_intros]: "effect audit_ok sweepExpiredApprovals w"
  unfolding sweepExpiredApprovals_def by (intro effect_intros audit_modify; simp)

lemma audit_decision_context [effect_intros]: "effect audit_ok (decision_context u k s) w"
  unfolding decision_context_def findApprovalInOrganization_def assertPendingOrExpire_def wrap_defs
  by (intro effect_intros)

lemma audit_approve [effect_intros]: "effect audit_ok (approve u k c) w"
  unfolding approve_def approve_decide_def approve_finish_def
  by (intro effect_intros; simp add: split_beta; intro effect_intros)

lemma audit_reject [effect_intros]: "effect audit_ok (reject u k c) w"
  unfolding reject_def by (intro effect_intros; simp add: split_beta; intro effect_intros)

lemma audit_approval_list [effect_intros]: "effect audit_ok (approval_list org q) w"
  unfolding approval_list_def wrap_defs by (intro effect_intros)

lemma audit_approval_createForRun [effect_intros]: "effect audit_ok (approval_createForRun k i) w"
  unfolding approval_createForRun_def start_waiting_def assertScreenshotInRun_def parsed_date_def create_approval_def
  by (intro effect_intros)

text \<open>Runs.\<close>

lemma find_run_known:
  assumes "unique_runs w" and "find_run k org w = (Inr (Some r), w')"
  shows "row_of run_t (run_id r) w' = Some r"
  using find_run_row [OF assms] by simp

lemma runs_deny_expired_run:
  assumes "row_of run_t (run_id r) w = Some r"
  shows "effect (runs_ok legal) (deny_expired_run r) w"
proof (cases "run_status r = Run_WaitingForApproval")
  case True
  with assms show ?thesis
    unfolding deny_expired_run_def run_if_def
    by simp ((erule legal.keep_bnd, (intro effect_intros; simp; fail)[1])+,
        erule keep_update_legal; ((intro effect_intros; fail) | simp add: run_like_def legal_step))
qed (auto simp: deny_expired_run_def run_if_def intro: effect_intros)

lemma runs_expireApproval [effect_intros]: "effect (runs_ok legal) (expireApproval a) w"
proof (rule legal.rows_unique)
  assume unique: "unique_runs w"
  show "effect (runs_ok legal) (expireApproval a) w"
    unfolding expireApproval_def
  proof (intro effect_intros legal.rows_same [OF same_update_approval] runs_deny_expired_run, goal_cases)
    case (3 expired w1 found w2 r)
    have "runs w1 = runs w"
      using same_after [OF same_update_approval [of runs] 3(2)] by simp
    then show ?case
      using find_run_known [of w1 _ _ r w2] 3 unique by (auto simp: unique_keys_def)
  qed (auto simp: find_run_def intro: effect_intros)
qed

lemma runs_expireDue [effect_intros]: "effect (runs_ok legal) expireDue w"
  unfolding expireDue_def by (intro effect_intros)

lemma runs_sweep [effect_intros]: "effect (runs_ok legal) sweepExpiredApprovals w"
  unfolding sweepExpiredApprovals_def by (intro effect_intros legal.rows_same [OF same_modify]; simp)

lemma runs_approval_list [effect_intros]: "effect (runs_ok legal) (approval_list org q) w"
  unfolding approval_list_def wrap_defs by (intro effect_intros)

lemma findApprovalInOrganization_row:
  assumes "findApprovalInOrganization org k w = (Inr a, w')"
  shows "find (\<lambda>a. apr_id a = k \<and> apr_org a = the org) (approvals w) = Some a" and "w' = w"
    and "unique_approvals w \<Longrightarrow> row_of approval_t k w = Some a" and "apr_id a = k" and "Some (apr_org a) = org"
proof -
  have "findApprovalInOrganization org k w = (case org of None \<Rightarrow> (Inl organization_required, w)
    | Some g \<Rightarrow> if g = [] then (Inl organization_required, w)
        else require_some (find (\<lambda>a. apr_id a = k \<and> apr_org a = g) (approvals w)) approval_not_found w)"
    by (simp add: findApprovalInOrganization_def require_org_def truthy_def step_simps split: option.split)
  then obtain g where org: "org = Some g"
    and found: "find (\<lambda>a. apr_id a = k \<and> apr_org a = g) (approvals w) = Some a" and w: "w' = w"
    using assms by (cases org) (simp_all split: if_splits)
  then show "find (\<lambda>a. apr_id a = k \<and> apr_org a = the org) (approvals w) = Some a" "w' = w"
    by simp_all
  show "apr_id a = k" "Some (apr_org a) = org"
    using find_SomeD [OF found] org by simp_all
  show "unique_approvals w \<Longrightarrow> row_of approval_t k w = Some a"
    using find_unique [of apr_id "approvals w" k "\<lambda>a. apr_org a = g"] found
    by (simp add: unique_keys_def row_of_def)
qed

lemma assertPendingOrExpire_Inr:
  assumes "assertPendingOrExpire a w = (Inr x, w')"
  shows "apr_status a = Approval_Pending" and "\<not> isExpired a (clock (w_env w) (reads w))"
    and "w' = w\<lparr>reads := Suc (reads w)\<rparr>"
  using assms
  by (auto simp: assertPendingOrExpire_def new_date_def run_if_def elim!: bnd_InrE split: if_splits)

lemma decision_context_Inr:
  assumes "decision_context u k target w = (Inr (user, a, r), w')"
  shows "u = Some user" and "w' = w\<lparr>reads := Suc (reads w)\<rparr>"
    and "unique_approvals w \<Longrightarrow> row_of approval_t (apr_id a) w' = Some a"
    and "unique_runs w \<Longrightarrow> row_of run_t (run_id r) w' = Some r"
    and "apr_status a = Approval_Pending" and "canTransitionWorkflowRun (run_status r) target"
    and "\<not> isExpired a (clock (w_env w) (reads w))"
    and "apr_id a = k" and "apr_org a = cu_org user" and "run_id r = apr_run a" and "run_org r = cu_org user"
proof -
  obtain w1 where u: "u = Some user" and a: "findApprovalInOrganization (Some (cu_org user)) k w = (Inr a, w)"
    and pending: "assertPendingOrExpire a w = (Inr (), w1)"
    and run: "find_run (apr_run a) (cu_org user) w1 = (Inr (Some r), w')"
    and can: "canTransitionWorkflowRun (run_status r) target"
    using assms unfolding decision_context_def
    by (elim bnd_InrE) (auto dest: findApprovalInOrganization_row(2) simp: find_run_def find_first_def)
  note p = assertPendingOrExpire_Inr [OF pending]
  have w': "w' = w1" using run by (simp add: find_run_def find_first_def)
  show "u = Some user" "w' = w\<lparr>reads := Suc (reads w)\<rparr>" "apr_status a = Approval_Pending"
    "canTransitionWorkflowRun (run_status r) target" "\<not> isExpired a (clock (w_env w) (reads w))"
    using u p can w' by simp_all
  show "apr_id a = k" "apr_org a = cu_org user"
    using findApprovalInOrganization_row(4,5) [OF a] by simp_all
  show "run_id r = apr_run a" "run_org r = cu_org user"
    using run by (auto simp: find_run_def find_first_def dest!: find_SomeD [OF sym])
  show "row_of approval_t (apr_id a) w' = Some a" if "unique_approvals w"
    using findApprovalInOrganization_row(3,4) [OF a] that w' p by (simp add: row_of_def)
  show "row_of run_t (run_id r) w' = Some r" if "unique_runs w"
    using find_run_known [OF _ run] that p w' by (simp add: unique_keys_def)
qed

lemma runs_decision_context [effect_intros]: "effect (runs_ok legal) (decision_context u k target) w"
  unfolding decision_context_def assertPendingOrExpire_def
  by (intro effect_intros legal.rows_same [of "findApprovalInOrganization g k" for g k]
      legal.rows_same [of "assertCanTransition a b" for a b] legal.rows_same [of "find_run a b" for a b])
     (auto simp: findApprovalInOrganization_def wrap_defs intro: effect_intros)

lemma runs_approve [effect_intros]: "effect (runs_ok legal) (approve u k c) w"
proof (rule legal.rows_unique)
  assume unique: "unique_runs w"
  show "effect (runs_ok legal) (approve u k c) w"
    unfolding approve_def
  proof (rule legal.ord.effect_bnd, rule runs_decision_context, goal_cases)
    case (1 cx w')
    obtain user a r where cx: "cx = (user, a, r)" by (cases cx)
    have row: "row_of run_t (run_id r) w' = Some r" and can: "canTransitionWorkflowRun (run_status r) Run_Running"
      using decision_context_Inr(4,6) [OF 1 [unfolded cx]] unique by auto
    have "effect (same_of runs) (approve_decide (user, a, r) c) w'"
      unfolding approve_decide_def by (simp, intro effect_intros; simp)
    then show ?case
      unfolding cx
      by (rule legal.keep_bnd [OF row], unfold approve_finish_def)
         (simp add: split_beta, (erule legal.keep_bnd, (intro effect_intros; simp; fail)[1])+,
          erule keep_update_legal; ((intro effect_intros; fail) | simp add: run_like_def legal_step can))
  qed
qed

lemma runs_reject [effect_intros]: "effect (runs_ok legal) (reject u k c) w"
proof (rule legal.rows_unique)
  assume unique: "unique_runs w"
  show "effect (runs_ok legal) (reject u k c) w"
    unfolding reject_def
  proof (rule legal.ord.effect_bnd, rule runs_decision_context, goal_cases)
    case (1 cx w')
    obtain user a r where cx: "cx = (user, a, r)" by (cases cx)
    have "row_of run_t (run_id r) w' = Some r" and can: "canTransitionWorkflowRun (run_status r) Run_Denied"
      using decision_context_Inr(4,6) [OF 1 [unfolded cx]] unique by auto
    then show ?case
      unfolding cx
      by simp ((erule legal.keep_bnd, (intro effect_intros; simp; fail)[1])+,
          erule keep_update_legal; ((intro effect_intros; fail) | simp add: run_like_def legal_step can))
  qed
qed

lemma runs_start_waiting:
  assumes "row_of run_t (run_id r) w = Some r"
  shows "effect (runs_ok legal) (start_waiting r a) w"
  using assms unfolding start_waiting_def
  by - ((erule legal.keep_bnd, (intro effect_intros; simp; fail)[1])+,
    erule keep_update_legal; ((intro effect_intros; fail) | simp add: run_like_def legal_step))

lemma runs_notify [effect_intros]: "effect (runs_ok legal) (notifyApprovalRequested a) w"
  by (intro legal.rows_same same_notify) simp

lemma same_create_parts [effect_intros]:
  "effect (same_of f) (assertScreenshotInRun org run k) w" "effect (same_of f) (parsed_date v) w"
  unfolding assertScreenshotInRun_def parsed_date_def by (intro effect_intros)+

lemma runs_create_approval [effect_intros]: "effect (runs_ok legal) (create_approval a) w"
  unfolding create_approval_def by (intro effect_intros)

lemma runs_approval_createForRun [effect_intros]: "effect (runs_ok legal) (approval_createForRun k i) w"
  unfolding approval_createForRun_def
proof (rule legal.ord.effect_bnd, intro effect_intros, rule legal.ord.effect_bnd, intro effect_intros, goal_cases)
  case (1 found w1 r w2)
  then have row: "row_of run_t (run_id r) w2 = Some r"
    using row_of_run_id by (auto simp: find_first_run)
  show ?case
    by (rule legal.keep_bnd [OF row], intro effect_intros)
      ((erule legal.keep_bnd, (intro effect_intros; simp; fail)[1])+,
       rule legal.ord.effect_bnd, rule legal.ord.effect_run_if, rule runs_start_waiting, assumption,
       intro effect_intros legal.rows_same [OF same_create_parts(2)])
qed

text \<open>Decided requests.\<close>

lemma keeps_approval_row [simp, effect_intros]:
  "keeps (row_of approval_t k) run_t" "keeps (row_of approval_t k) audit_t"
  by (simp_all add: keeps_def row_of_def run_t_def audit_t_def)

lemma same_deny_expired_run [effect_intros]:
  "(\<And>w n. f (w\<lparr>reads := n\<rparr>) = f w) \<Longrightarrow> keeps f run_t \<Longrightarrow> effect (same_of f) (deny_expired_run r) w"
  unfolding deny_expired_run_def by (intro effect_intros; simp)

lemma update_approval_Some:
  assumes "row_of approval_t k w = Some a"
  shows "update_approval k f w = (Inr ((f a)\<lparr>apr_updatedAt := clock (w_env w) (reads w)\<rparr>),
    w\<lparr>reads := Suc (reads w),
      approvals := upd_row apr_id k (\<lambda>q. (f q)\<lparr>apr_updatedAt := clock (w_env w) (reads w)\<rparr>) (approvals w)\<rparr>)"
  using assms by (simp add: row_of_def run_simps)

lemma bnd_update_approval [step_simps]:
  "row_of approval_t k w = Some a \<Longrightarrow>
   bnd (update_approval k f) h w = h ((f a)\<lparr>apr_updatedAt := clock (w_env w) (reads w)\<rparr>)
    (w\<lparr>reads := Suc (reads w),
      approvals := upd_row apr_id k (\<lambda>q. (f q)\<lparr>apr_updatedAt := clock (w_env w) (reads w)\<rparr>) (approvals w)\<rparr>)"
  by (simp add: bnd_Inr [OF update_approval_Some])

text \<open>What an expiry does to the run of the request.\<close>

definition denied_after :: "approval_row \<Rightarrow> run_row list \<Rightarrow> run_row list \<Rightarrow> bool" where
  "denied_after a rs rs' \<longleftrightarrow> (case find (\<lambda>r. run_id r = apr_run a \<and> run_org r = apr_org a) rs of
     None \<Rightarrow> rs' = rs
   | Some r \<Rightarrow> if run_status r = Run_WaitingForApproval
       then \<exists>r'. find (\<lambda>r. run_id r = apr_run a \<and> run_org r = apr_org a) rs' = Some r'
         \<and> run_status r' = Run_Denied \<and> run_completedAt r' \<noteq> None
       else rs' = rs)"

lemma find_upd_run:
  assumes "\<And>r. run_id (f r) = run_id r" and "\<And>r. run_org (f r) = run_org r"
    and "find (\<lambda>r. run_id r = k \<and> run_org r = g) rs = Some r"
  shows "find (\<lambda>r. run_id r = k \<and> run_org r = g) (upd_row run_id k f rs) = Some (f r)"
  using assms(3) by (induction rs) (auto simp: upd_row_def assms(1,2) split: if_splits)

lemma now_unless_some: 
  obtains c n where "now_unless v w = (Inr (Some c), w\<lparr>reads := n\<rparr>)"
proof (cases v)
  case None
  then show ?thesis by (intro that) (simp add: now_unless_def run_simps)
next
  case (Some t)
  then show ?thesis by (intro that [of t "reads w"]) (simp add: now_unless_def run_simps)
qed

lemma deny_expired_run_run:
  assumes "find (\<lambda>r. run_id r = apr_run a \<and> run_org r = apr_org a) (runs w) = Some r"
  obtains w' where "deny_expired_run r w = (Inr (), w')" and "approvals w' = approvals w" and "denied_after a (runs w) (runs w')"
proof (cases "run_status r = Run_WaitingForApproval")
  case False
  with assms show ?thesis by (intro that [of w]) (simp_all add: deny_expired_run_def denied_after_def step_simps)
next
  case True
  have id: "run_id r = apr_run a" using find_SomeD [OF assms] by simp
  have "row_of run_t (apr_run a) w \<noteq> None"
    using find_SomeD [OF assms] by (auto simp: row_of_def find_None_iff)
  then obtain q where row: "row_of run_t (apr_run a) w = Some q" by blast
  obtain c n where t: "now_unless (run_completedAt r) w = (Inr (Some c), w\<lparr>reads := n\<rparr>)"
    by (rule now_unless_some)
  have row': "row_of run_t (apr_run a) (w\<lparr>reads := n\<rparr>) = Some q" using row by (simp add: row_of_def)
  show ?thesis
    using True find_upd_run [OF _ _ assms]
    by (auto intro!: that simp: deny_expired_run_def assertCanTransition_def canTransition_iff step_simps
        bnd_Inr [where m = "now_unless v" for v, OF t] row' id denied_after_def assms)
qed

text \<open>Expiring a pending request always succeeds and changes no other request.\<close>

lemma expireApproval_run:
  assumes "row_of approval_t (apr_id a) w = Some a" and "apr_status a = Approval_Pending"
  obtains w' t a' where "expireApproval a w = (Inr a', w')"
    and "approvals w' = upd_row apr_id (apr_id a) (\<lambda>q. q\<lparr>apr_status := Approval_Expired, apr_updatedAt := t\<rparr>) (approvals w)"
    and "denied_after a (runs w) (runs w')"
proof -
  let ?t = "clock (w_env w) (reads w)"
  let ?f = "\<lambda>q. q\<lparr>apr_status := Approval_Expired, apr_updatedAt := ?t\<rparr>"
  define w1 where "w1 = w\<lparr>reads := Suc (reads w), approvals := upd_row apr_id (apr_id a) ?f (approvals w)\<rparr>"
  define m where "m = (case find (\<lambda>r. run_id r = apr_run a \<and> run_org r = apr_org a) (runs w1) of
     None \<Rightarrow> ret () | Some r \<Rightarrow> deny_expired_run r)"
  obtain w2 where m: "m w1 = (Inr (), w2)" and w2: "approvals w2 = approvals w1" and den: "denied_after a (runs w1) (runs w2)"
  proof (cases "find (\<lambda>r. run_id r = apr_run a \<and> run_org r = apr_org a) (runs w1)")
    case None
    then show ?thesis by (intro that [of w1]) (simp_all add: m_def step_simps denied_after_def)
  next
    case (Some r)
    show ?thesis by (rule deny_expired_run_run [OF Some]) (rule that; simp add: m_def Some)
  qed
  define ev where "ev = \<lparr>ai_org = apr_org a, ai_run = Some (apr_run a),
             ai_agent = Some (apr_requestedBy a), ai_actorType = Actor_System, ai_actorId = None,
             ai_eventType = Ev_ApprovalExpired,
             ai_data = JObj [(''approvalRequestId'', JStr (apr_id a)), (''expiresAt'', iso_opt (w_env w2) (apr_expiresAt a))]\<rparr>"
  have run: "expireApproval a w = (Inr (?f a), snd (record_audit ev w2))"
    using assms by (simp add: expireApproval_def step_simps w1_def [symmetric] m_def [symmetric]
        bnd_Inr [where m = m, OF m] ev_def)
  have "denied_after a (runs w) (runs (snd (record_audit ev w2)))"
    using den by (simp add: w1_def record_audit_run Let_def)
  from that [OF run _ this] show ?thesis
    by (simp add: record_audit_run Let_def w2 w1_def)
qed

lemma approval_like_expired: "apr_status a = Approval_Pending \<Longrightarrow> approval_like a (a\<lparr>apr_status := s, apr_updatedAt := t\<rparr>)"
  by (simp add: approval_like_def)

lemma approvals_expireApproval:
  assumes "row_of approval_t (apr_id a) w = Some a"
  shows "effect approvals_ok (expireApproval a) w"
  using assms unfolding expireApproval_def find_run_def
  by - (rule decided.ord.effect_if, intro effect_intros,
    erule keep_update_approval; (simp add: approval_like_def; fail | intro effect_intros decided.rows_same [OF same_deny_expired_run]; simp))

lemma approvals_expire_all:
  assumes "distinct (map apr_id as)" and "\<forall>a\<in>set as. row_of approval_t (apr_id a) w = Some a \<and> apr_status a = Approval_Pending"
  shows "effect approvals_ok (for_each (\<lambda>a. bnd (expireApproval a) (\<lambda>_. ret ())) as) w"
  using assms
proof (induction as arbitrary: w)
  case (Cons a as)
  have "row_of approval_t (apr_id a) w = Some a" "apr_status a = Approval_Pending"
    using Cons.prems by simp_all
  then obtain w' t a' where run: "expireApproval a w = (Inr a', w')"
    and apps: "approvals w' = upd_row apr_id (apr_id a) (\<lambda>q. q\<lparr>apr_status := Approval_Expired, apr_updatedAt := t\<rparr>) (approvals w)"
    by (rule expireApproval_run) (rule that)
  have rows: "row_of approval_t (apr_id b) w' = Some b" if "b \<in> set as" for b
  proof -
    have other: "apr_id b \<noteq> apr_id a" using Cons.prems(1) that by (auto simp: image_iff)
    have "row_of approval_t (apr_id b) w' = row_of approval_t (apr_id b) w"
      unfolding row_of_def tget_approval_t tkey_approval_t apps
      by (subst find_upd_row) (simp_all add: other)
    then show ?thesis using Cons.prems(2) that by simp
  qed
  have ok: "effect approvals_ok (expireApproval a) w"
    using Cons.prems by (intro approvals_expireApproval) simp
  show ?case
    unfolding for_each.simps bnd_assoc
  proof (rule decided.ord.effect_bnd [OF ok])
    fix x s' assume "expireApproval a w = (Inr x, s')"
    then have s': "s' = w'" using run by simp
    have "effect approvals_ok (for_each (\<lambda>a. bnd (expireApproval a) (\<lambda>_. ret ())) as) w'"
      using Cons.prems rows by (intro Cons.IH) auto
    then show "effect approvals_ok (bnd (ret ()) (\<lambda>_. for_each (\<lambda>a. bnd (expireApproval a) (\<lambda>_. ret ())) as)) s'"
      by (simp only: bnd_ret s')
  qed
qed (simp add: decided.ord.effect_ret)

lemma set_due: "set (due_approvals now as) \<subseteq> {a \<in> set as. isExpired a now}"
  using set_take_subset by (fastforce simp: due_approvals_def isExpired_def)

lemma distinct_due:
  assumes "distinct (map apr_id as)"
  shows "distinct (map apr_id (due_approvals now as))"
proof -
  have "distinct (map apr_id (filter P as))" for P
    using assms by (intro distinct_map_filter)
  moreover have "distinct (map apr_id (order_asc c k xs)) = distinct (map apr_id xs)" for c xs and k :: "approval_row \<Rightarrow> string"
    by (simp add: order_asc_def distinct_map)
  ultimately show ?thesis
    unfolding due_approvals_def take_map [symmetric] by (simp add: distinct_take)
qed

lemma row_of_member:
  assumes "distinct (map apr_id (approvals w))" and "a \<in> set (approvals w)"
  shows "row_of approval_t (apr_id a) w = Some a"
proof -
  have "find (\<lambda>r. apr_id r = apr_id a) as = Some a" if "distinct (map apr_id as)" "a \<in> set as" for as
    using that by (induction as) auto
  then show ?thesis using assms by (simp add: row_of_def)
qed

lemma approvals_expireDue [effect_intros]: "effect approvals_ok expireDue w"
proof (rule decided.rows_unique)
  assume "unique_approvals w"
  then have unique: "distinct (map apr_id (approvals w))" by (simp add: unique_keys_def)
  have loop: "effect approvals_ok (for_each (\<lambda>a. bnd (expireApproval a) (\<lambda>_. ret ())) (due_approvals now (approvals w)))
      (w\<lparr>reads := n\<rparr>)" for now n
    using set_due [of now "approvals w"] row_of_member [OF unique]
    by (intro approvals_expire_all distinct_due unique) (auto simp: row_of_def isExpired_def)
  show "effect approvals_ok expireDue w"
    unfolding expireDue_def
    by (intro decided.ord.effect_bnd [OF approvals_leaves(1)] decided.ord.effect_bnd [OF decided.ord.effect_gets]
        decided.ord.effect_bnd [OF _ decided.ord.effect_ret])
       (auto simp: new_date_def loop)
qed

lemma approvals_sweep [effect_intros]: "effect approvals_ok sweepExpiredApprovals w"
  unfolding sweepExpiredApprovals_def by (intro effect_intros decided.rows_same [OF same_modify]; simp)

lemma approvals_list [effect_intros]: "effect approvals_ok (approval_list org q) w"
  unfolding approval_list_def wrap_defs by (intro effect_intros)

lemma approvals_decision_context: "effect approvals_ok (decision_context u k target) w"
proof (rule decided.rows_unique)
  assume unique: "unique_approvals w"
  show "effect approvals_ok (decision_context u k target) w"
    unfolding decision_context_def
  proof (rule decided.ord.effect_bnd [OF decided.ord.effect_require_some], rule decided.ord.effect_bnd, goal_cases)
    case 1
    show ?case by (rule decided.rows_same) (unfold findApprovalInOrganization_def wrap_defs, intro effect_intros)
  next
    case (2 user w1 a w2)
    have row: "row_of approval_t (apr_id a) w2 = Some a"
      using findApprovalInOrganization_row(2,3,4) [OF 2(2)] 2(1) unique by auto
    have expire: "effect approvals_ok (expireApproval a) (w2\<lparr>reads := n\<rparr>)" for n
      using row by (intro approvals_expireApproval) (simp add: row_of_def)
    show ?case
      unfolding assertPendingOrExpire_def find_run_def
      by (intro effect_intros decided.rows_same [OF same_assertCanTransition])
         (auto simp: new_date_def expire)
  qed
qed

lemma approval_like_decided:
  "apr_status a = Approval_Pending \<Longrightarrow> approval_like a (with_comment c (a\<lparr>apr_status := s, apr_approver := u, apr_approvedAt := t, apr_rejectedAt := t'\<rparr>))"
  by (simp add: approval_like_def with_comment_def split: option.split)

lemma with_comment_id [simp]: "apr_id (with_comment c a) = apr_id a"
  by (simp add: with_comment_def split: option.split)

lemma approvals_steps [effect_intros]:
  "effect approvals_ok (now_unless v) w" "effect approvals_ok (nextRunState j tr) w"
  "effect approvals_ok (update_run k g) w"
  by (intro decided.rows_same same_now_unless same_nextRunState same_update_run; simp)+

lemma approvals_enqueue [effect_intros]: "effect approvals_ok (enqueueApprovalResume a) w"
  by (intro decided.rows_same same_queue_ops effect_intros)

lemma approvals_approve [effect_intros]: "effect approvals_ok (approve u k c) w"
proof (rule decided.rows_unique)
  assume unique: "unique_approvals w"
  show "effect approvals_ok (approve u k c) w"
    unfolding approve_def
  proof (rule decided.ord.effect_bnd [OF approvals_decision_context], goal_cases)
    case (1 cx w')
    obtain user a r where cx: "cx = (user, a, r)" by (cases cx)
    have row: "row_of approval_t (apr_id a) w' = Some a" and pending: "apr_status a = Approval_Pending"
      using decision_context_Inr(3,5) [OF 1 [unfolded cx]] unique by auto
    have first: "effect approvals_ok (approve_decide cx c) w'"
      unfolding approve_decide_def cx
      by (simp, rule decided.keep_bnd [OF row], intro effect_intros, simp,
          erule keep_update_approval; ((intro effect_intros; fail) | simp add: approval_like_def pending with_comment_def split: option.split))
    have second: "effect (same_of approvals) (approve_finish cx c d) w2" for d w2
      unfolding approve_finish_def cx by (cases d) (simp, intro effect_intros; simp)
    show ?case
      by (rule decided.ord.effect_bnd [OF first]) (rule decided.rows_same [OF second])
  qed
qed

lemma approvals_reject [effect_intros]: "effect approvals_ok (reject u k c) w"
proof (rule decided.rows_unique)
  assume unique: "unique_approvals w"
  show "effect approvals_ok (reject u k c) w"
    unfolding reject_def
  proof (rule decided.ord.effect_bnd [OF approvals_decision_context], goal_cases)
    case (1 cx w')
    obtain user a r where cx: "cx = (user, a, r)" by (cases cx)
    have "row_of approval_t (apr_id a) w' = Some a" and pending: "apr_status a = Approval_Pending"
      using decision_context_Inr(3,5) [OF 1 [unfolded cx]] unique by auto
    then show ?case
      unfolding cx
      by - (simp, erule decided.keep_bnd, (intro effect_intros; simp; fail)[1],
          erule keep_update_approval; ((intro effect_intros; fail) | simp add: approval_like_def pending with_comment_def split: option.split))
  qed
qed

text \<open>A new request gets a fresh id.\<close>

definition id_state :: "world \<Rightarrow> approval_row list \<times> nat \<times> env" where
  "id_state w = (approvals w, ids w, w_env w)"

definition fresh_approval_id :: "approval_row list \<times> nat \<times> env \<Rightarrow> bool" where
  "fresh_approval_id = (\<lambda>(as, n, e). uuid e n \<notin> apr_id ` set as)"

lemma keeps_id_state [simp, effect_intros]: "keeps id_state run_t"
  by (simp add: keeps_def id_state_def run_t_def)

lemma id_state_reads [simp]: "id_state (w\<lparr>reads := n\<rparr>) = id_state w"
  by (simp add: id_state_def)

lemma same_start_waiting [effect_intros]: "effect (same_of id_state) (start_waiting r a) w"
  unfolding start_waiting_def by (intro effect_intros; simp)

lemma approvals_create_approval:
  "apr_id a \<notin> apr_id ` set (approvals w) \<Longrightarrow> effect approvals_ok (create_approval a) w"
  unfolding create_approval_def
  by (intro effect_intros decided.rows_create) (auto simp: find_first_def)

lemma approvals_notify [effect_intros]: "effect approvals_ok (notifyApprovalRequested a) w"
  by (intro decided.rows_same same_notify) simp

lemma approvals_createForRun:
  assumes "fresh_approval_id (id_state w)"
  shows "effect approvals_ok (approval_createForRun k i) w"
proof -
  note keep = decided.keep_part [where g = id_state and Q = fresh_approval_id]
  have part: "\<And>w w'. id_state w' = id_state w \<Longrightarrow> approvals w' = approvals w"
    by (simp add: id_state_def)
  from assms show ?thesis
    unfolding approval_createForRun_def
    apply -
    apply ((erule keep, (intro effect_intros; simp; fail)[1], rule part, assumption)+)
    apply (rule decided.ord.effect_bnd, intro effect_intros)
    apply (rule decided.ord.effect_bnd, intro effect_intros)
    apply (rule decided.ord.effect_bnd, rule approvals_create_approval)
     apply (auto simp: fresh_id_def new_date_def fresh_approval_id_def id_state_def)[1]
    apply (intro effect_intros)
    done
qed

subsection \<open>Properties\<close>

lemma enqueueApprovalResume_run:
  obtains w' where "enqueueApprovalResume a w = (Inr (workflowResumeJobId (apr_run a) (apr_id a)), w')"
    and "runs w' = runs w" and "approvals w' = approvals w" and "w_env w' = w_env w"
    and "unique_jobs w \<Longrightarrow> unique_jobs w'"
    and "\<exists>j\<in>set (jobs w'). has_job_id Queue_resume (workflowResumeJobId (apr_run a) (apr_id a)) j"
proof -
  have free: "queue_free runs" "queue_free approvals" "queue_free w_env" by (simp_all add: queue_free_def)
  let ?q = "enqueueResume (apr_run a) (apr_org a) (apr_id a)"
  obtain d where run: "?q w = addIdempotent Queue_resume (WORKFLOW_QUEUE_JOB_NAMES Mode_resume)
      (workflowResumeJobId (apr_run a) (apr_id a)) d retryableJobOptions (w\<lparr>reads := Suc (Suc (reads w))\<rparr>)"
    by (simp add: enqueueResume_def stamped_def issueRunToken_def bnd_assoc step_simps)
  let ?w = "w\<lparr>reads := Suc (Suc (reads w))\<rparr>"
  have res: "\<exists>c. fst (?q w) = Inr \<lparr>eq_jobId = workflowResumeJobId (apr_run a) (apr_id a), eq_queue = Queue_resume, eq_created = c\<rparr>
     \<and> (\<exists>j\<in>set (jobs (snd (?q w))). has_job_id Queue_resume (workflowResumeJobId (apr_run a) (apr_id a)) j)"
  proof (cases "find (has_job_id Queue_resume (workflowResumeJobId (apr_run a) (apr_id a))) (jobs ?w)")
    case None
    from addIdempotent_new [OF None] show ?thesis unfolding run by (auto simp: has_job_id_def)
  next
    case (Some j)
    from find_SomeD [OF Some] show ?thesis unfolding run addIdempotent_old [OF Some] by auto
  qed
  have same: "runs (snd (?q w)) = runs w" "approvals (snd (?q w)) = approvals w" "w_env (snd (?q w)) = w_env w"
    using same_queue_ops(3) free by (simp_all add: effect_def same_of_def)
  obtain c where "fst (?q w) = Inr \<lparr>eq_jobId = workflowResumeJobId (apr_run a) (apr_id a), eq_queue = Queue_resume, eq_created = c\<rparr>"
    using res by blast
  then have "enqueueApprovalResume a w = (Inr (workflowResumeJobId (apr_run a) (apr_id a)), snd (?q w))"
    by (cases "?q w") (simp add: enqueueApprovalResume_def bnd_def ret_def)
  moreover have "unique_jobs w \<Longrightarrow> unique_jobs (snd (?q w))"
    using enqueue_unique(2) by (simp add: effect_def preserves_def)
  ultimately show ?thesis using res same that by blast
qed

lemma nextRunState_run: "\<exists>state. nextRunState ex tr w = (Inr state, w\<lparr>reads := Suc (reads w)\<rparr>)"
  by (simp add: nextRunState_def step_simps)

text \<open>What deciding needs: a pending request that has not expired, of the user's organization,
whose run waits for it.\<close>

definition decidable :: "context_user \<Rightarrow> string \<Rightarrow> world \<Rightarrow> approval_row \<Rightarrow> run_row \<Rightarrow> bool" where
  "decidable user k w a r \<longleftrightarrow> cu_org user \<noteq> [] \<and> row_of approval_t k w = Some a
     \<and> apr_org a = cu_org user \<and> apr_status a = Approval_Pending
     \<and> \<not> isExpired a (clock (w_env w) (reads w))
     \<and> row_of run_t (apr_run a) w = Some r \<and> run_org r = cu_org user
     \<and> run_status r = Run_WaitingForApproval"

lemma row_of_run_find:
  assumes "row_of run_t k w = Some r" and "run_org r = g"
  shows "find (\<lambda>r. run_id r = k \<and> run_org r = g) (runs w) = Some r"
proof -
  have "find (\<lambda>r. run_id r = k \<and> run_org r = g) rs = Some r" if "find (\<lambda>r. run_id r = k) rs = Some r" for rs
    using that assms(2) by (induction rs) (auto split: if_splits)
  then show ?thesis using assms(1) by (simp add: row_of_def)
qed

lemma decision_context_run:
  assumes "decidable user k w a r" and "canTransitionWorkflowRun Run_WaitingForApproval target"
  shows "decision_context (Some user) k target w = (Inr (user, a, r), w\<lparr>reads := Suc (reads w)\<rparr>)"
proof -
  note d = assms(1) [unfolded decidable_def]
  have "find (\<lambda>a. apr_id a = k \<and> apr_org a = cu_org user) as = Some a" if "find (\<lambda>a. apr_id a = k) as = Some a" for as
    using that d by (induction as) (auto split: if_splits)
  then have a: "find (\<lambda>a. apr_id a = k \<and> apr_org a = cu_org user) (approvals w) = Some a"
    using d by (simp add: row_of_def)
  have r: "find (\<lambda>r. run_id r = apr_run a \<and> run_org r = cu_org user) (runs w) = Some r"
    using d by (intro row_of_run_find) simp_all
  show ?thesis
    using d assms(2)
    by (simp add: decision_context_def findApprovalInOrganization_def assertPendingOrExpire_def
        assertCanTransition_def require_org_def truthy_def bnd_assoc step_simps a r)
qed

lemma decidable_ids:
  assumes "decidable user k w a r"
  shows "apr_id a = k" and "run_id r = apr_run a"
  using assms find_SomeD [of "\<lambda>q. apr_id q = k" "approvals w" a] row_of_run_id [of "apr_run a" w r]
  by (simp_all add: decidable_def row_of_def [of approval_t])

text \<open>The two halves of an approval: the decision with its resume job, and the write of the run.\<close>

lemma approve_decide_run:
  assumes "row_of approval_t k w = Some a"
  obtains w' a' where "approve_decide (user, a, r) c w = (Inr (a', workflowResumeJobId (apr_run a) k), w')"
    and "runs w' = runs w" and "w_env w' = w_env w" and "unique_jobs w \<Longrightarrow> unique_jobs w'"
    and "row_of approval_t k w' = Some a'" and "apr_status a' = Approval_Approved"
    and "apr_approver a' = Some (cu_id user)" and "apr_approvedAt a' = Some (clock (w_env w) (reads w))"
    and "\<exists>j\<in>set (jobs w'). has_job_id Queue_resume (workflowResumeJobId (apr_run a) k) j"
proof -
  let ?e = "w_env w"
  have k: "apr_id a = k"
    using assms find_SomeD [of "\<lambda>q. apr_id q = k" "approvals w" a] by (simp add: row_of_def [of approval_t])
  define w1 where "w1 = w\<lparr>reads := Suc (reads w)\<rparr>"
  define f where "f = (\<lambda>a. (with_comment c (a\<lparr>apr_status := Approval_Approved, apr_approver := Some (cu_id user),
      apr_approvedAt := Some (clock ?e (reads w))\<rparr>))\<lparr>apr_updatedAt := clock ?e (Suc (reads w))\<rparr>)"
  define w2 where "w2 = w1\<lparr>reads := Suc (reads w1), approvals := upd_row apr_id k f (approvals w)\<rparr>"
  have rowa: "row_of approval_t k w1 = Some a" using assms by (simp add: w1_def row_of_def)
  have fa: "apr_id (f q) = apr_id q" "apr_run (f q) = apr_run q" for q
    by (simp_all add: f_def with_comment_def split: option.split)
  obtain w3 where q: "enqueueApprovalResume (f a) w2 = (Inr (workflowResumeJobId (apr_run a) k), w3)"
    and w3: "runs w3 = runs w" "approvals w3 = upd_row apr_id k f (approvals w)" "w_env w3 = ?e"
      "unique_jobs w \<Longrightarrow> unique_jobs w3"
    and job: "\<exists>j\<in>set (jobs w3). has_job_id Queue_resume (workflowResumeJobId (apr_run a) k) j"
    using enqueueApprovalResume_run [of "f a" w2] by (auto simp: w2_def w1_def k fa unique_jobs_def)
  have upd: "bnd (update_approval k (\<lambda>a. with_comment c (a\<lparr>apr_status := Approval_Approved,
        apr_approver := Some (cu_id user), apr_approvedAt := Some (clock ?e (reads w))\<rparr>))) h w1 = h (f a) w2"
    for h :: "approval_row \<Rightarrow> (approval_row \<times> string) action"
    by (simp add: bnd_update_approval [OF rowa [unfolded w1_def]] w2_def f_def w1_def)
  have "approve_decide (user, a, r) c w = (Inr (f a, workflowResumeJobId (apr_run a) k), w3)"
    by (simp add: approve_decide_def bnd_new_date k w1_def [symmetric] upd
        bnd_Inr [where m = "enqueueApprovalResume q" for q, OF q] step_simps)
  moreover have "row_of approval_t k w3 = Some (f a)"
    using assms find_upd_row [of apr_id f k k "approvals w"] by (simp add: row_of_def fa w3)
  ultimately show ?thesis
    using that [of "f a" w3] w3 job by (simp add: f_def with_comment_def split: option.splits)
qed

lemma approve_finish_run:
  assumes "row_of run_t (run_id r) w = Some q"
  obtains j w' r' where "approve_finish (user, a, r) c (a', job) w = (Inr j, w')"
    and "row_of run_t (run_id r) w' = Some r'" and "run_status r' = Run_Running"
    and "run_currentStep r' = Some ''approval_approved''"
    and "approvals w' = approvals w" and "jobs w' = jobs w"
    and "au_eventType (last (audits w')) = Ev_ApprovalApproved" and "au_actorId (last (audits w')) = Some (cu_id user)"
proof -
  obtain state where state: "nextRunState (run_state r)
      [(''from'', prisma_status (run_status r)), (''to'', prisma_status Run_Running),
       (''reason'', JStr ''Approval approved.''), (''approvalRequestId'', JStr (apr_id a)),
       (''resumeJobId'', JStr job)] w = (Inr state, w\<lparr>reads := Suc (reads w)\<rparr>)"
    using nextRunState_run by blast
  have row: "row_of run_t (run_id r) (w\<lparr>reads := Suc (reads w)\<rparr>) = Some q"
    using assms by (simp add: row_of_def)
  define g where "g = (\<lambda>q :: run_row. q\<lparr>run_status := Run_Running, run_currentStep := Some ''approval_approved'',
      run_state := state, run_updatedAt := clock (w_env w) (Suc (reads w))\<rparr>)"
  define w1 where "w1 = w\<lparr>reads := Suc (Suc (reads w)), runs := upd_row run_id (run_id r) g (runs w)\<rparr>"
  define ev where "ev = user_event user r Ev_ApprovalApproved
      [(''approvalRequestId'', JStr (apr_id a)), (''workflowRunId'', JStr (run_id r)),
       (''comment'', jopt c), (''resumeJobId'', JStr job)]"
  obtain j where run: "approve_finish (user, a, r) c (a', job) w = (Inr j, snd (record_audit ev w1))"
    using row by (auto simp: approve_finish_def bnd_Inr [where m = "nextRunState x y" for x y, OF state]
        step_simps ev_def g_def w1_def)
  have "row_of run_t (run_id r) (snd (record_audit ev w1)) = Some (g q)"
    unfolding row_of_run_audit
    using assms row_of_upd_runs [of g "run_id r" "run_id r" "runs w"]
    by (simp add: w1_def g_def row_of_def)
  then show ?thesis
    by (rule that [OF run])
       (simp_all add: record_audit_last ev_def user_event_def g_def, simp_all add: record_audit_run Let_def w1_def)
qed

text \<open>C1. Approving: a user's approval of a request that is pending, not expired and of her
organization, whose run waits, marks the request approved by her with the time, puts the run
back to running, leaves a resume job for exactly this run and request in the queue, and
records the decision under her name.\<close>

theorem approve_correct:
  assumes "decidable user k w a r"
  shows "\<exists>j w' a' r'. approve (Some user) k c w = (Inr j, w')
    \<and> row_of approval_t k w' = Some a' \<and> apr_status a' = Approval_Approved
    \<and> apr_approver a' = Some (cu_id user) \<and> apr_approvedAt a' = Some (clock (w_env w) (Suc (reads w)))
    \<and> row_of run_t (apr_run a) w' = Some r' \<and> run_status r' = Run_Running \<and> run_currentStep r' = Some ''approval_approved''
    \<and> (\<exists>job\<in>set (jobs w'). has_job_id Queue_resume (workflowResumeJobId (apr_run a) k) job)
    \<and> au_eventType (last (audits w')) = Ev_ApprovalApproved \<and> au_actorId (last (audits w')) = Some (cu_id user)"
proof -
  note d = assms [unfolded decidable_def] and ids = decidable_ids [OF assms]
  let ?w = "w\<lparr>reads := Suc (reads w)\<rparr>"
  have rowa: "row_of approval_t k ?w = Some a" using d by (simp add: row_of_def)
  obtain w1 a' where decide: "approve_decide (user, a, r) c ?w = (Inr (a', workflowResumeJobId (apr_run a) k), w1)"
    and w1: "runs w1 = runs ?w" "row_of approval_t k w1 = Some a'" "apr_status a' = Approval_Approved"
      "apr_approver a' = Some (cu_id user)" "apr_approvedAt a' = Some (clock (w_env ?w) (reads ?w))"
      "\<exists>j\<in>set (jobs w1). has_job_id Queue_resume (workflowResumeJobId (apr_run a) k) j"
    by (rule approve_decide_run [OF rowa, of user r c]) (rule that)
  have rowr: "row_of run_t (run_id r) w1 = Some r"
    using d w1(1) by (simp add: row_of_def ids)
  obtain j w2 r' where finish: "approve_finish (user, a, r) c (a', workflowResumeJobId (apr_run a) k) w1 = (Inr j, w2)"
    and w2: "row_of run_t (run_id r) w2 = Some r'" "run_status r' = Run_Running"
      "run_currentStep r' = Some ''approval_approved''" "approvals w2 = approvals w1" "jobs w2 = jobs w1"
      "au_eventType (last (audits w2)) = Ev_ApprovalApproved" "au_actorId (last (audits w2)) = Some (cu_id user)"
    by (rule approve_finish_run [OF rowr])
  have "approve (Some user) k c w = (Inr j, w2)"
    by (simp add: approve_def bnd_Inr [where m = "decision_context x y t" for x y t, OF decision_context_run [OF assms]]
        canTransition_iff bnd_Inr [where m = "approve_decide x y" for x y, OF decide] finish)
  moreover have "row_of approval_t k w2 = Some a'"
    using w1(2) w2(4) by (simp add: row_of_def)
  ultimately show ?thesis
    using w1 w2 by (intro exI [of _ j] exI [of _ w2] exI [of _ a'] exI [of _ r']) (simp add: ids)
qed

lemma demo_decidable: "decidable demo_user ''p'' (waiting_world demo_env) demo_approval (demo_run Run_WaitingForApproval)"
  by (simp add: decidable_def demo_user_def row_of_def waiting_world_def demo_approval_def demo_run_def isExpired_def)

theorem approve_correct_witness:
  "\<exists>j w' a' r'. approve (Some demo_user) ''p'' None (waiting_world demo_env) = (Inr j, w')
    \<and> row_of approval_t ''p'' w' = Some a' \<and> apr_status a' = Approval_Approved
    \<and> row_of run_t (apr_run demo_approval) w' = Some r' \<and> run_status r' = Run_Running"
  using approve_correct [OF demo_decidable, of None] by auto

text \<open>C6. A request is decided once: for a request that is no longer pending both decisions are
refused with nothing changed; and on a pending one that has passed its expiry both are
refused, the request becomes expired, and its run, if it waits, is denied.\<close>

theorem decided_once:
  assumes "row_of approval_t k w = Some a" and "apr_org a = cu_org user" and "cu_org user \<noteq> []"
    and "apr_status a \<noteq> Approval_Pending \<or> isExpired a (clock (w_env w) (reads w))"
  shows "if apr_status a \<noteq> Approval_Pending
    then approve (Some user) k c w = (Inl (DomainError WorkflowInvalidTransition ''Approval request has already been decided.''), w)
       \<and> reject (Some user) k c w = (Inl (DomainError WorkflowInvalidTransition ''Approval request has already been decided.''), w)
    else \<exists>w' a'. approve (Some user) k c w = (Inl (DomainError ValidationFailed ''Expired approvals cannot be decided.''), w')
       \<and> reject (Some user) k c w = (Inl (DomainError ValidationFailed ''Expired approvals cannot be decided.''), w')
       \<and> row_of approval_t k w' = Some a' \<and> apr_status a' = Approval_Expired \<and> denied_after a (runs w) (runs w')"
proof -
  have ka: "apr_id a = k" 
    using assms(1) find_SomeD [of "\<lambda>q. apr_id q = k" "approvals w" a] by (simp add: row_of_def [of approval_t])
  have "find (\<lambda>a. apr_id a = k \<and> apr_org a = cu_org user) as = Some a" if "find (\<lambda>a. apr_id a = k) as = Some a" for as
    using that assms(2) by (induction as) (auto split: if_splits)
  then have found: "find (\<lambda>a. apr_id a = k \<and> apr_org a = cu_org user) (approvals w) = Some a"
    using assms(1) by (simp add: row_of_def)
  show ?thesis
  proof (cases "apr_status a = Approval_Pending")
    case False
    then have "decision_context (Some user) k t w
        = (Inl (DomainError WorkflowInvalidTransition ''Approval request has already been decided.''), w)" for t
      by (simp add: decision_context_def findApprovalInOrganization_def assertPendingOrExpire_def
          require_org_def truthy_def assms(3) bnd_assoc step_simps found)
    with False show ?thesis
      by (simp add: approve_def reject_def bnd_def [of "decision_context a b t" for a b t])
  next
    case True
    let ?w = "w\<lparr>reads := Suc (reads w)\<rparr>"
    have row: "row_of approval_t (apr_id a) ?w = Some a"
      using assms(1) ka by (simp add: row_of_def)
    obtain w' t a' where run: "expireApproval a ?w = (Inr a', w')"
      and apps: "approvals w' = upd_row apr_id (apr_id a) (\<lambda>q. q\<lparr>apr_status := Approval_Expired, apr_updatedAt := t\<rparr>) (approvals ?w)"
      and den: "denied_after a (runs ?w) (runs w')"
      by (rule expireApproval_run [OF row True])
    from den have "denied_after a (runs w) (runs w')" by simp
    moreover have "row_of approval_t k w' = Some (a\<lparr>apr_status := Approval_Expired, apr_updatedAt := t\<rparr>)"
      using find_upd_row [of apr_id "\<lambda>q. q\<lparr>apr_status := Approval_Expired, apr_updatedAt := t\<rparr>" k k "approvals w"] assms(1)
      by (simp add: row_of_def apps ka)
    moreover have "isExpired a (clock (w_env w) (reads w))" using assms(4) True by simp
    moreover from this True
    have "decision_context (Some user) k t w
        = (Inl (DomainError ValidationFailed ''Expired approvals cannot be decided.''), w')" for t
      by (simp add: decision_context_def findApprovalInOrganization_def assertPendingOrExpire_def
          require_org_def truthy_def assms(3) bnd_assoc step_simps found bnd_Inr [where m = "expireApproval a", OF run])
    ultimately show ?thesis
      using True by (simp add: approve_def reject_def bnd_def [of "decision_context a b t" for a b t])
  qed
qed

lemma demo_expired:
  "isExpired (demo_approval\<lparr>apr_expiresAt := Some 0\<rparr>) (clock (w_env w) (reads w))"
  by (simp add: isExpired_def demo_approval_def)

theorem decided_once_witness:
  "\<exists>w' a'. reject (Some demo_user) ''p'' None
        ((waiting_world demo_env)\<lparr>approvals := [demo_approval\<lparr>apr_expiresAt := Some 0\<rparr>]\<rparr>)
      = (Inl (DomainError ValidationFailed ''Expired approvals cannot be decided.''), w')
    \<and> row_of approval_t ''p'' w' = Some a' \<and> apr_status a' = Approval_Expired"
proof -
  let ?w = "(waiting_world demo_env)\<lparr>approvals := [demo_approval\<lparr>apr_expiresAt := Some 0\<rparr>]\<rparr>"
  let ?a = "demo_approval\<lparr>apr_expiresAt := Some 0\<rparr>"
  have "row_of approval_t ''p'' ?w = Some ?a" by (simp add: row_of_def demo_approval_def)
  moreover have "apr_org ?a = cu_org demo_user" "cu_org demo_user \<noteq> []" by (simp_all add: demo_approval_def demo_user_def)
  moreover have "apr_status ?a = Approval_Pending" by (simp add: demo_approval_def)
  ultimately show ?thesis
    using decided_once [of "''p''" ?w ?a demo_user None] demo_expired [of ?w] by auto
qed

text \<open>C24. An approval races with a cancellation: the two halves of an approval leave room for a
cancellation of the same run by anybody of the organization. It succeeds and the run is
canceled, yet the second half of the approval writes the run it read before: the canceled run
is running again, a step no transition of the state machine allows.\<close>

theorem approve_overwrites_cancel:
  assumes "decidable user k w a r" and "unique_runs w" and "unique_jobs w" and "cu_org other = cu_org user"
  shows "\<exists>cx w1 d w2 j w3 r3 j' w4 r4. decision_context (Some user) k Run_Running w = (Inr cx, w1)
    \<and> approve_decide cx c w1 = (Inr d, w2)
    \<and> cancel (Some other) (apr_run a) reason w2 = (Inr j, w3)
    \<and> row_of run_t (apr_run a) w3 = Some r3 \<and> run_status r3 = Run_Canceled
    \<and> approve_finish cx c d w3 = (Inr j', w4)
    \<and> row_of run_t (apr_run a) w4 = Some r4 \<and> run_status r4 = Run_Running
    \<and> \<not> canTransitionWorkflowRun Run_Canceled Run_Running"
proof -
  note d = assms(1) [unfolded decidable_def] and ids = decidable_ids [OF assms(1)]
  let ?w = "w\<lparr>reads := Suc (reads w)\<rparr>"
  have cx: "decision_context (Some user) k Run_Running w = (Inr (user, a, r), ?w)"
    using decision_context_run [OF assms(1)] by (simp add: canTransition_iff)
  have rowa: "row_of approval_t k ?w = Some a" using d by (simp add: row_of_def)
  obtain w2 a' where decide: "approve_decide (user, a, r) c ?w = (Inr (a', workflowResumeJobId (apr_run a) k), w2)"
    and w2: "runs w2 = runs ?w" "unique_jobs ?w \<Longrightarrow> unique_jobs w2"
    by (rule approve_decide_run [OF rowa, of user r c]) (rule that)
  have "find (\<lambda>r. run_id r = apr_run a \<and> run_org r = cu_org other) (runs w2) = Some r"
    using d w2(1) assms(4) by (simp add: row_of_run_find)
  moreover have "unique_runs w2" "unique_jobs w2" "\<not> terminal_status (run_status r)"
    using assms(2,3) w2 d by (simp_all add: unique_keys_def unique_jobs_def terminal_status_def)
  ultimately obtain j w3 r3 where cancel: "cancel (Some other) (apr_run a) reason w2 = (Inr j, w3)"
    "row_of run_t (apr_run a) w3 = Some r3" "run_status r3 = Run_Canceled"
    using cancel_run [of w2 other "apr_run a" r reason] d assms(4) by auto
  obtain j' w4 r4 where "approve_finish (user, a, r) c (a', workflowResumeJobId (apr_run a) k) w3 = (Inr j', w4)"
    "row_of run_t (run_id r) w4 = Some r4" "run_status r4 = Run_Running"
    by (rule approve_finish_run [of r w3 r3 user a c a']) (use cancel ids in simp_all)
  with cx decide cancel show ?thesis
    unfolding ids by (simp add: canTransition_iff)
qed

theorem approve_overwrites_cancel_witness:
  "\<exists>cx w1 d w2 j w3 r3 j' w4 r4.
      decision_context (Some demo_user) ''p'' Run_Running (waiting_world demo_env) = (Inr cx, w1)
    \<and> approve_decide cx None w1 = (Inr d, w2)
    \<and> cancel (Some (demo_user\<lparr>cu_id := ''v''\<rparr>)) (apr_run demo_approval) ''stop'' w2 = (Inr j, w3)
    \<and> row_of run_t (apr_run demo_approval) w3 = Some r3 \<and> run_status r3 = Run_Canceled
    \<and> approve_finish cx None d w3 = (Inr j', w4)
    \<and> row_of run_t (apr_run demo_approval) w4 = Some r4 \<and> run_status r4 = Run_Running"
proof -
  have "unique_runs (waiting_world demo_env)" "unique_jobs (waiting_world demo_env)"
    by (simp_all add: unique_keys_def unique_jobs_def waiting_world_def empty_world_def)
  from approve_overwrites_cancel [OF demo_decidable this, of "demo_user\<lparr>cu_id := ''v''\<rparr>" None "''stop''"]
  show ?thesis by auto
qed

text \<open>A refused request strands its run: asking for a second approval of an action attempt is
refused by the database, because an attempt has at most one request, but the run of the
attempt, which was running, has been put into waiting before, and no request is left that
could be approved to let it go on.\<close>

theorem second_request_strands_run:
  assumes run: "row_of run_t k w = Some r" and "run_status r = Run_Running"
    and attempt: "find (\<lambda>q. at_id q = ca_attempt i \<and> at_run q = run_id r \<and> at_org q = run_org r) (attempts w) = Some t"
    and "at_policyDecision t = Decide_RequireApproval"
    and "\<not> truthy (ca_screenshot i)" and "\<not> truthy (ca_expiresAt i)"
    and old: "\<exists>q\<in>set (approvals w). apr_attempt q = at_id t"
  shows "\<exists>w' r'. approval_createForRun k i w
      = (Inl (PrismaError ''Unique constraint failed on the fields: (`action_attempt_id`)''), w')
    \<and> row_of run_t k w' = Some r' \<and> run_status r' = Run_WaitingForApproval
    \<and> approvals w' = approvals w \<and> audits w' = audits w"
proof -
  have id: "run_id r = k" using row_of_run_id [OF run] .
  obtain state where state: "nextRunState (run_state r)
      [(''from'', prisma_status (run_status r)), (''to'', prisma_status Run_WaitingForApproval),
       (''reason'', JStr ''Approval requested.''), (''actionAttemptId'', JStr (at_id t))] w = (Inr state, w\<lparr>reads := Suc (reads w)\<rparr>)"
    using nextRunState_run by blast
  define g where "g = (\<lambda>q :: run_row. q\<lparr>run_status := Run_WaitingForApproval,
      run_currentStep := Some ''waiting_for_approval'', run_state := state,
      run_updatedAt := clock (w_env w) (Suc (reads w))\<rparr>)"
  define w1 where "w1 = w\<lparr>reads := Suc (Suc (reads w)), runs := upd_row run_id k g (runs w)\<rparr>"
  have row: "row_of run_t (run_id r) (w\<lparr>reads := Suc (reads w)\<rparr>) = Some r"
    using run by (simp add: row_of_def id)
  have start: "start_waiting r (at_id t) w = (Inr (), w1)"
    using assms(2) row by (simp add: start_waiting_def assertCanTransition_def canTransition_iff
        bnd_Inr [where m = "nextRunState x y" for x y, OF state [unfolded assms(2)]] step_simps g_def w1_def id)
  have "find (\<lambda>q. apr_attempt q = at_id t) (approvals w) \<noteq> None"
    using old by (auto simp: find_None_iff)
  then obtain q where clash: "find (\<lambda>q. apr_attempt q = at_id t) (approvals w) = Some q" by blast
  have fst: "find (\<lambda>r. run_id r = k) (runs w) = Some r" using run by (simp add: row_of_def)
  have "approval_createForRun k i w
      = (Inl (PrismaError ''Unique constraint failed on the fields: (`action_attempt_id`)''),
         w1\<lparr>ids := Suc (ids w1), reads := Suc (reads w1)\<rparr>)"
    using assms by (simp add: approval_createForRun_def step_simps fst run_t_def attempt_t_def parsed_date_def
        bnd_Inr [where m = "start_waiting x y" for x y, OF start] create_approval_def bnd_assoc)
       (simp add: w1_def step_simps clash throw_def)
  moreover have "row_of run_t k (w1\<lparr>ids := Suc (ids w1), reads := Suc (reads w1)\<rparr>) = Some (g r)"
    using run row_of_upd_runs [of g k k "runs w"] by (simp add: w1_def g_def row_of_def)
  ultimately show ?thesis
    by (intro exI [of _ "w1\<lparr>ids := Suc (ids w1), reads := Suc (reads w1)\<rparr>"] exI [of _ "g r"]) (simp add: g_def w1_def)
qed

definition demo_request :: create_approval_input where
  "demo_request = \<lparr>ca_attempt = at_id demo_attempt, ca_summary = ''again'', ca_riskLevel = None,
     ca_amountCents = None, ca_screenshot = None, ca_policyTriggered = None, ca_expiresAt = None\<rparr>"

theorem second_request_strands_run_witness:
  "\<exists>w' r'. approval_createForRun ''r'' demo_request
        ((waiting_world demo_env)\<lparr>runs := [demo_run Run_Running], approvals := [demo_approval\<lparr>apr_status := Approval_Approved\<rparr>]\<rparr>)
      = (Inl (PrismaError ''Unique constraint failed on the fields: (`action_attempt_id`)''), w')
    \<and> row_of run_t ''r'' w' = Some r' \<and> run_status r' = Run_WaitingForApproval
    \<and> approvals w' = [demo_approval\<lparr>apr_status := Approval_Approved\<rparr>]"
proof -
  let ?w = "(waiting_world demo_env)\<lparr>runs := [demo_run Run_Running], approvals := [demo_approval\<lparr>apr_status := Approval_Approved\<rparr>]\<rparr>"
  have "row_of run_t ''r'' ?w = Some (demo_run Run_Running)" by (simp add: row_of_def demo_run_def)
  moreover have "find (\<lambda>q. at_id q = ca_attempt demo_request \<and> at_run q = run_id (demo_run Run_Running)
      \<and> at_org q = run_org (demo_run Run_Running)) (attempts ?w) = Some demo_attempt"
    by (simp add: waiting_world_def demo_attempt_def demo_run_def demo_request_def)
  moreover have "\<exists>q\<in>set (approvals ?w). apr_attempt q = at_id demo_attempt"
    by (simp add: demo_approval_def demo_attempt_def)
  moreover have "at_policyDecision demo_attempt = Decide_RequireApproval" "run_status (demo_run Run_Running) = Run_Running"
    by (simp_all add: demo_attempt_def demo_run_def)
  moreover have "\<not> truthy (ca_screenshot demo_request)" "\<not> truthy (ca_expiresAt demo_request)"
    by (simp_all add: demo_request_def truthy_def)
  ultimately show ?thesis
    using second_request_strands_run [of "''r''" ?w "demo_run Run_Running" demo_request demo_attempt] by auto
qed

subsection \<open>The sweep\<close>

text \<open>What expiring a batch does to the requests, one by one.\<close>

definition expired_of :: "string set \<Rightarrow> approval_row \<Rightarrow> approval_row \<Rightarrow> bool" where
  "expired_of ks a a' \<longleftrightarrow> (if apr_id a \<in> ks
     then \<exists>t. a' = a\<lparr>apr_status := Approval_Expired, apr_updatedAt := t\<rparr> else a' = a)"

lemma expired_of_trans:
  assumes "list_all2 (expired_of ks) as bs" and "list_all2 (expired_of ls) bs cs"
  shows "list_all2 (expired_of (ks \<union> ls)) as cs"
  by (rule list_all2_trans [OF _ assms]) (auto simp: expired_of_def split: if_splits)

lemma expired_of_one:
  "list_all2 (expired_of {k}) as (upd_row apr_id k (\<lambda>q. q\<lparr>apr_status := Approval_Expired, apr_updatedAt := t\<rparr>) as)"
  by (auto simp: upd_row_def list_all2_conv_all_nth expired_of_def)

lemma expire_all_run:
  assumes "distinct (map apr_id as)" and "\<forall>a\<in>set as. row_of approval_t (apr_id a) w = Some a \<and> apr_status a = Approval_Pending"
  shows "\<exists>w'. for_each (\<lambda>a. bnd (expireApproval a) (\<lambda>_. ret ())) as w = (Inr (), w')
    \<and> list_all2 (expired_of (apr_id ` set as)) (approvals w) (approvals w')"
  using assms
proof (induction as arbitrary: w)
  case Nil
  then show ?case by (simp add: ret_def expired_of_def list_all2_refl)
next
  case (Cons a as)
  have a: "row_of approval_t (apr_id a) w = Some a" "apr_status a = Approval_Pending"
    using Cons.prems by simp_all
  then obtain w1 t a' where run: "expireApproval a w = (Inr a', w1)"
    and apps: "approvals w1 = upd_row apr_id (apr_id a) (\<lambda>q. q\<lparr>apr_status := Approval_Expired, apr_updatedAt := t\<rparr>) (approvals w)"
    by (rule expireApproval_run) (rule that)
  have "row_of approval_t (apr_id b) w1 = Some b" if "b \<in> set as" for b
  proof -
    have other: "apr_id b \<noteq> apr_id a" using Cons.prems(1) that by (auto simp: image_iff)
    have "row_of approval_t (apr_id b) w1 = row_of approval_t (apr_id b) w"
      unfolding row_of_def tget_approval_t tkey_approval_t apps
      by (subst find_upd_row) (simp_all add: other)
    then show ?thesis using Cons.prems(2) that by simp
  qed
  then obtain w' where rest: "for_each (\<lambda>a. bnd (expireApproval a) (\<lambda>_. ret ())) as w1 = (Inr (), w')"
    and all: "list_all2 (expired_of (apr_id ` set as)) (approvals w1) (approvals w')"
    using Cons.IH [of w1] Cons.prems by auto
  have "list_all2 (expired_of ({apr_id a} \<union> apr_id ` set as)) (approvals w) (approvals w')"
    using expired_of_trans [OF expired_of_one all [unfolded apps]] .
  then show ?case
    by (simp add: bnd_assoc bnd_Inr [where m = "expireApproval x" for x, OF run] bnd_ret rest)
qed

lemma filter_expired_of:
  "list_all2 (expired_of ks) as bs \<Longrightarrow>
   filter (\<lambda>a. isExpired a now) bs = filter (\<lambda>a. isExpired a now \<and> apr_id a \<notin> ks) as"
proof (induction rule: list_all2_induct)
  case (Cons a as b bs)
  then show ?case by (cases "apr_id a \<in> ks") (auto simp: expired_of_def isExpired_def)
qed simp

lemma length_due: "length (due_approvals now as) = min 100 (length (filter (\<lambda>a. isExpired a now) as))"
  by (simp add: due_approvals_def SWEEP_BATCH_SIZE_def isExpired_def order_asc_def min.commute)

text \<open>What is due after a batch was expired, and which requests a batch changes.\<close>

lemma due_left:
  assumes "distinct (map apr_id as)" and "set bs \<subseteq> set (filter (\<lambda>a. isExpired a now) as)" and "distinct bs"
    and "list_all2 (expired_of (apr_id ` set bs)) as cs"
  shows "length (filter (\<lambda>a. isExpired a now) cs) = length (filter (\<lambda>a. isExpired a now) as) - length bs"
proof -
  let ?due = "filter (\<lambda>a. isExpired a now) as" and ?rest = "filter (\<lambda>a. isExpired a now \<and> apr_id a \<notin> apr_id ` set bs) as"
  have d: "distinct as" and inj: "inj_on apr_id (set as)" using assms(1) by (simp_all add: distinct_map)
  have "a \<in> set bs" if "apr_id a \<in> apr_id ` set bs" "a \<in> set as" for a
  proof -
    from that(1) obtain b where b: "b \<in> set bs" "apr_id a = apr_id b" by blast
    have "b \<in> set ?due" using b(1) assms(2) by blast
    then have "a = b" using inj_onD [OF inj b(2) that(2)] by simp
    with b show ?thesis by simp
  qed
  then have "set ?rest = set ?due - set bs" unfolding set_filter by blast
  then have "card (set ?rest) = card (set ?due) - card (set bs)" using assms(2) by (simp add: card_Diff_subset del: set_filter)
  moreover have "card (set ?rest) = length ?rest" "card (set ?due) = length ?due" "card (set bs) = length bs"
    using d assms(3) by (intro distinct_card distinct_filter; simp)+
  moreover have "filter (\<lambda>a. isExpired a now) cs = ?rest" by (rule filter_expired_of [OF assms(4)])
  ultimately show ?thesis by simp
qed

lemma due_only:
  assumes "distinct (map apr_id as)" and "set bs \<subseteq> set (filter (\<lambda>a. isExpired a now) as)"
    and "list_all2 (expired_of (apr_id ` set bs)) as cs"
  shows "list_all2 (\<lambda>a a'. a' = a \<or> a \<in> set (filter (\<lambda>a. isExpired a now) as) \<and> apr_status a' = Approval_Expired) as cs"
proof -
  have "a' = a \<or> a \<in> set (filter (\<lambda>a. isExpired a now) as) \<and> apr_status a' = Approval_Expired"
    if "a \<in> set as" "expired_of (apr_id ` set bs) a a'" for a a'
  proof (cases "apr_id a \<in> apr_id ` set bs")
    case True
    then obtain b where b: "b \<in> set bs" "apr_id b = apr_id a" by auto
    then have "b = a" using assms(1,2) that(1) by (auto simp: distinct_map inj_on_def)
    with b(1) assms(2) have "a \<in> set (filter (\<lambda>a. isExpired a now) as)" by blast
    moreover have "apr_status a' = Approval_Expired" using that(2) True by (auto simp: expired_of_def)
    ultimately show ?thesis by blast
  qed (use that in \<open>simp add: expired_of_def\<close>)
  then show ?thesis using assms(3) by (auto simp: list_all2_conv_all_nth)
qed

text \<open>C23. The sweep makes progress: it expires the requests that are past their expiry, a hundred
at most, and says how many; so many fewer are left, and when there were at most a hundred,
none is. Every other request is left as it was.\<close>

theorem expiry_sweep_progress:
  assumes "unique_keys approval_t w" and "due = (\<lambda>as. filter (\<lambda>a. isExpired a (clock (w_env w) (reads w))) as)"
  shows "\<exists>n w'. expireDue w = (Inr n, w') \<and> n = min 100 (length (due (approvals w)))
    \<and> length (due (approvals w')) = length (due (approvals w)) - n
    \<and> list_all2 (\<lambda>a a'. a' = a \<or> a \<in> set (due (approvals w)) \<and> apr_status a' = Approval_Expired)
        (approvals w) (approvals w')"
proof -
  let ?now = "clock (w_env w) (reads w)" and ?w = "w\<lparr>reads := Suc (reads w)\<rparr>"
  let ?due = "due_approvals ?now (approvals w)"
  have dist: "distinct (map apr_id (approvals w))" using assms(1) by (simp add: unique_keys_def)
  have sub: "set ?due \<subseteq> set (due (approvals w))" using set_due unfolding assms(2) by (auto simp: set_filter)
  have row: "row_of approval_t (apr_id a) ?w = Some a" if "a \<in> set (approvals w)" for a
    using row_of_member [of ?w a] dist that by simp
  obtain w' where run: "for_each (\<lambda>a. bnd (expireApproval a) (\<lambda>_. ret ())) ?due ?w = (Inr (), w')"
    and all: "list_all2 (expired_of (apr_id ` set ?due)) (approvals w) (approvals w')"
    using expire_all_run [of ?due ?w] distinct_due [OF dist] row sub by (auto simp: isExpired_def assms(2))
  have "distinct ?due" using distinct_due [OF dist] by (simp add: distinct_map)
  note left = due_left [OF dist sub [unfolded assms(2)] this all] and only = due_only [OF dist sub [unfolded assms(2)] all]
  have "expireDue w = (Inr (length ?due), w')"
    by (simp add: expireDue_def step_simps bnd_Inr [where m = "for_each x y" for x y, OF run])
  then show ?thesis
    using left only by (intro exI [of _ "length ?due"] exI [of _ w']) (simp add: length_due assms(2))
qed

theorem expiry_sweep_progress_witness:
  "\<exists>w'. expireDue ((waiting_world demo_env)\<lparr>approvals := [demo_approval\<lparr>apr_expiresAt := Some 0\<rparr>, demo_approval\<lparr>apr_id := ''x''\<rparr>]\<rparr>) = (Inr 1, w')
    \<and> filter (\<lambda>a. isExpired a 0) (approvals w') = []"
proof -
  let ?w = "(waiting_world demo_env)\<lparr>approvals := [demo_approval\<lparr>apr_expiresAt := Some 0\<rparr>, demo_approval\<lparr>apr_id := ''x''\<rparr>]\<rparr>"
  have u: "unique_keys approval_t ?w" by (simp add: unique_keys_def demo_approval_def)
  have n: "clock (w_env ?w) (reads ?w) = 0" by (simp add: waiting_world_def empty_world_def demo_env_def)
  have "length (filter (\<lambda>a. isExpired a 0) (approvals ?w)) = 1"
    by (simp add: isExpired_def demo_approval_def)
  then show ?thesis
    using expiry_sweep_progress [OF u refl, unfolded n] by auto
qed

end
