(* ===== verification/Browser_Runtime.thy ===== *)
theory Browser_Runtime
  imports Api_Common "HOL-Library.Word"
begin

section \<open>The controlled browser\<close>

text \<open>
  \<open>libs/browser-runtime/src/index.ts\<close>: the browser context of one execution, which navigates,
  clicks and downloads only within the allowed domains. The page, name resolution and the
  classification of addresses are the platform's: each request to the page is answered by
  \<open>page_answer\<close>, and the bytes of a screenshot or a download go to the temporary directory
  (\<open>disk\<close>). The popups a click opens are judged before the click's check, as when they load
  within its waiting time.
\<close>

subsection \<open>Addresses\<close>

definition isPrivateHostname :: "string \<Rightarrow> bool" where
  "isPrivateHostname hostname \<longleftrightarrow> hostname = ''localhost'' \<or> ends_with hostname ''.localhost''"

text \<open>\<open>const [a = 0, b = 0] = address.split('.').map(Number)\<close>; \<open>None\<close> is \<open>NaN\<close>, which no comparison meets.\<close>

definition decimal_part :: "nat \<Rightarrow> string list \<Rightarrow> nat option" where
  "decimal_part n parts =
    (if n < length parts
     then (if parts ! n \<noteq> [] \<and> list_all is_digit (parts ! n) then Some (digits_value (parts ! n)) else None)
     else Some 0)"

definition in_range :: "nat \<Rightarrow> nat \<Rightarrow> nat option \<Rightarrow> bool" where
  "in_range lo hi v \<longleftrightarrow> (case v of None \<Rightarrow> False | Some n \<Rightarrow> lo \<le> n \<and> n \<le> hi)"

definition isPrivateIp :: "env \<Rightarrow> string \<Rightarrow> bool" where
  "isPrivateIp e address =
    (if ip_version e address = 4 then
       (let parts = split_on (CHR ''.'') address; a = decimal_part 0 parts; b = decimal_part 1 parts in
        a = Some 0 \<or> a = Some 10 \<or> a = Some 127
        \<or> (a = Some 100 \<and> in_range 64 127 b)
        \<or> (a = Some 169 \<and> b = Some 254)
        \<or> (a = Some 172 \<and> in_range 16 31 b)
        \<or> (a = Some 192 \<and> b = Some 168)
        \<or> (a = Some 198 \<and> (b = Some 18 \<or> b = Some 19))
        \<or> (case a of None \<Rightarrow> False | Some n \<Rightarrow> 224 \<le> n))
     else if ip_version e address = 6 then
       (let normalized = to_lower address in
        normalized = ''::1'' \<or> normalized = ''::'' \<or> starts_with normalized ''fc'' \<or> starts_with normalized ''fd''
        \<or> starts_with normalized ''fe80:'' \<or> starts_with normalized ''ff'')
     else True)"

definition lookup :: "string \<Rightarrow> string list action" where
  "lookup hostname = (\<lambda>w. (resolve_host (w_env w) (reads w) hostname, w\<lparr>reads := Suc (reads w)\<rparr>))"

definition resolvesToPrivateNetwork :: "string \<Rightarrow> bool action" where
  "resolvesToPrivateNetwork hostname =
    (if isPrivateHostname hostname then ret True
     else bnd (gets w_env) (\<lambda>e.
       if ip_version e hostname \<noteq> 0 then ret (isPrivateIp e hostname)
       else bnd (lookup hostname) (\<lambda>records. ret (list_ex (isPrivateIp e) records))))"

definition domain_allows :: "string list \<Rightarrow> string \<Rightarrow> bool" where
  "domain_allows allowedDomains hostname =
    list_ex (\<lambda>domain. hostname = to_lower domain \<or> ends_with hostname (''.'' @ to_lower domain)) allowedDomains"

subsection \<open>The context\<close>

text \<open>Reading a field of the context; without a context the access throws.\<close>

definition context_get :: "(browser_context \<Rightarrow> 'a) \<Rightarrow> 'a action" where
  "context_get f = bnd (gets browser) (\<lambda>b.
     bnd (require_some b (JsError ''TypeError'' ''Cannot read properties of null'')) (\<lambda>b. ret (f b)))"

definition context_set :: "(browser_context \<Rightarrow> browser_context) \<Rightarrow> unit action" where
  "context_set f = modify (\<lambda>w. w\<lparr>browser := map_option f (browser w)\<rparr>)"

definition page_ask :: "browser_request \<Rightarrow> string action" where
  "page_ask q = (\<lambda>w. (page_answer (w_env w) (reads w) q, w\<lparr>reads := Suc (reads w)\<rparr>))"

definition page_do :: "browser_request \<Rightarrow> unit action" where
  "page_do q = bnd (page_ask q) (\<lambda>_. ret ())"

definition write_disk :: "string \<Rightarrow> string \<Rightarrow> unit action" where
  "write_disk path bytes = modify (\<lambda>w. w\<lparr>disk := (disk w)(path \<mapsto> bytes)\<rparr>)"

definition readFile :: "string \<Rightarrow> string action" where
  "readFile path = bnd (gets (\<lambda>w. disk w path)) (\<lambda>found.
     require_some found (JsError ''Error'' (''ENOENT: no such file or directory, open '' @ path)))"

definition assertOpen :: "unit action" where
  "assertOpen = bnd (context_get bc_closed) (\<lambda>closed.
     require (\<not> closed) (DomainError ValidationFailed ''Browser context is already closed.''))"

definition isAllowedNetworkUrl :: "string \<Rightarrow> bool action" where
  "isAllowedNetworkUrl v =
    (if v = [] \<or> v = ''about:blank'' then ret True
     else
       bnd (gets (\<lambda>w. url_host (w_env w) v)) (\<lambda>host.
       bnd (require_some host (JsError ''TypeError'' ''Invalid URL'')) (\<lambda>host.
       bnd (context_get bc_allowedDomains) (\<lambda>allowedDomains.
       bnd (context_get bc_allowPrivateNetwork) (\<lambda>allowPrivateNetwork.
       if \<not> domain_allows allowedDomains (to_lower host) then ret False
       else if allowPrivateNetwork then ret True
       else bnd (resolvesToPrivateNetwork (to_lower host)) (\<lambda>private. ret (\<not> private)))))))"

definition navigation_blocked :: err where
  "navigation_blocked = DomainError PermissionDenied ''Navigation blocked by domain allowlist.''"

definition assertAllowedNetworkUrl :: "string \<Rightarrow> unit action" where
  "assertAllowedNetworkUrl url = bnd (isAllowedNetworkUrl url) (\<lambda>allowed. require allowed navigation_blocked)"

text \<open>The handler of every request of the page: \<open>True\<close> continues it, \<open>False\<close> aborts it.\<close>

definition route_request :: "string \<Rightarrow> bool action" where
  "route_request url = try_catch (bnd (assertAllowedNetworkUrl url) (\<lambda>_. ret True)) (\<lambda>_. ret False)"

definition createControlledContext :: "string list \<Rightarrow> string \<Rightarrow> bool \<Rightarrow> unit action" where
  "createControlledContext allowedDomains artifactDir allowPrivateNetwork =
    bnd (page_do Page_Launch) (\<lambda>_.
    modify (\<lambda>w. w\<lparr>browser := Some \<lparr>bc_allowedDomains = allowedDomains, bc_artifactDir = artifactDir,
      bc_allowPrivateNetwork = allowPrivateNetwork, bc_blockedPopups = [], bc_closed = False\<rparr>\<rparr>))"

definition closeContext :: "unit action" where
  "closeContext = bnd (context_get bc_closed) (\<lambda>closed.
     run_if (\<not> closed) (context_set (\<lambda>b. b\<lparr>bc_closed := True\<rparr>)))"

definition navigateWithPolicy :: "string \<Rightarrow> (string \<times> string) action" where
  "navigateWithPolicy url =
    bnd assertOpen (\<lambda>_.
    try_catch
      (bnd (assertAllowedNetworkUrl url) (\<lambda>_.
       bnd (page_do (Page_Goto url)) (\<lambda>_.
       bnd (page_ask Page_Url) (\<lambda>finalUrl.
       bnd (assertAllowedNetworkUrl finalUrl) (\<lambda>_.
       bnd (page_ask Page_Title) (\<lambda>title.
       ret (finalUrl, title)))))))
      (\<lambda>e. bnd closeContext (\<lambda>_. throw e)))"

definition fillCredentialField :: "string \<Rightarrow> string \<Rightarrow> unit action" where
  "fillCredentialField selector v =
    bnd assertOpen (\<lambda>_.
    bnd (page_do (Page_Fill selector v)) (\<lambda>_.
    page_do (Page_MarkSecret selector)))"

text \<open>Runs of other characters become one hyphen, hyphens at the ends go, 80 characters at most.\<close>

definition file_part_char :: "char \<Rightarrow> bool" where
  "file_part_char c \<longleftrightarrow> (CHR ''a'' \<le> c \<and> c \<le> CHR ''z'') \<or> is_digit c \<or> c = CHR ''.'' \<or> c = CHR ''-''"

fun hyphenate :: "bool \<Rightarrow> string \<Rightarrow> string" where
  "hyphenate in_run [] = []"
| "hyphenate in_run (c # cs) =
     (if file_part_char c then c # hyphenate False cs
      else if in_run then hyphenate True cs
      else CHR ''-'' # hyphenate True cs)"

definition strip_hyphens :: "string \<Rightarrow> string" where
  "strip_hyphens s = rev (dropWhile (\<lambda>c. c = CHR ''-'') (rev (dropWhile (\<lambda>c. c = CHR ''-'') s)))"

definition sanitizeFilePart :: "string \<Rightarrow> string action" where
  "sanitizeFilePart v =
    (let part = take 80 (strip_hyphens (hyphenate False (to_lower v))) in
     if part \<noteq> [] then ret part else fresh_id)"

definition epoch_text :: "string action" where
  "epoch_text = bnd new_date (\<lambda>t. gets (\<lambda>w. num_str (w_env w) (of_nat t)))"

record screenshot_capture =
  sc_path :: string
  sc_url :: string

definition captureScreenshot :: "string \<Rightarrow> screenshot_capture action" where
  "captureScreenshot label =
    bnd assertOpen (\<lambda>_.
    bnd (page_do Page_Mask) (\<lambda>_.
    bnd new_date (\<lambda>capturedAt.
    bnd epoch_text (\<lambda>stamp.
    bnd (sanitizeFilePart label) (\<lambda>part.
    bnd (context_get bc_artifactDir) (\<lambda>dir.
    bnd (ret (dir @ ''/'' @ stamp @ ''-'' @ part @ ''.png'')) (\<lambda>path.
    bnd (page_ask (Page_Screenshot path)) (\<lambda>bytes.
    bnd (write_disk path bytes) (\<lambda>_.
    bnd (page_ask Page_Url) (\<lambda>url.
    ret \<lparr>sc_path = path, sc_url = url\<rparr>))))))))))"

definition guardPopup :: "string \<Rightarrow> unit action" where
  "guardPopup popupUrl =
    run_if (popupUrl \<noteq> [] \<and> popupUrl \<noteq> ''about:blank'')
      (bnd (isAllowedNetworkUrl popupUrl) (\<lambda>allowed.
       run_if (\<not> allowed) (context_set (\<lambda>b. b\<lparr>bc_blockedPopups := bc_blockedPopups b @ [popupUrl]\<rparr>))))"

text \<open>The popup events of a click; a rejection of their handler reaches nobody.\<close>

definition popup_events :: "unit action" where
  "popup_events =
    bnd (gets (\<lambda>w. opened_popups (w_env w) (reads w))) (\<lambda>popups.
    for_each (\<lambda>u. try_catch (guardPopup u) (\<lambda>_. ret ())) popups)"

definition assertNoNewBlockedPopup :: "nat \<Rightarrow> unit action" where
  "assertNoNewBlockedPopup previousCount =
    bnd (context_get bc_blockedPopups) (\<lambda>blocked.
    require (length blocked \<le> previousCount)
      (DomainError PermissionDenied ''New tab navigation was blocked by the domain allowlist.''))"

record action_metadata =
  am_actionType :: action_type
  am_label :: string
  am_sensitive :: bool
  am_allowDownload :: bool

definition sensitive_screenshot :: "action_metadata \<Rightarrow> string \<Rightarrow> unit action" where
  "sensitive_screenshot meta moment =
    run_if (am_sensitive meta) (bnd (captureScreenshot (am_label meta @ moment)) (\<lambda>_. ret ()))"

definition clickWithActionAttempt :: "string \<Rightarrow> action_metadata \<Rightarrow> unit action" where
  "clickWithActionAttempt selector meta =
    bnd assertOpen (\<lambda>_.
    bnd (sensitive_screenshot meta ''-before'') (\<lambda>_.
    bnd (context_get (\<lambda>b. length (bc_blockedPopups b))) (\<lambda>blockedBefore.
    bnd (page_do (Page_Click selector)) (\<lambda>_.
    bnd popup_events (\<lambda>_.
    bnd (assertNoNewBlockedPopup blockedBefore) (\<lambda>_.
    bnd (page_ask Page_Url) (\<lambda>url.
    bnd (assertAllowedNetworkUrl url) (\<lambda>_.
    sensitive_screenshot meta ''-after''))))))))"

record download_capture =
  dl_label :: string
  dl_suggestedFilename :: string
  dl_path :: string
  dl_sizeBytes :: nat
  dl_sha256 :: string
  dl_url :: string

definition saveDownload :: "string \<Rightarrow> string \<Rightarrow> download_capture action" where
  "saveDownload suggestedFilename label =
    bnd new_date (\<lambda>capturedAt.
    bnd epoch_text (\<lambda>stamp.
    bnd (sanitizeFilePart label) (\<lambda>labelPart.
    bnd (sanitizeFilePart suggestedFilename) (\<lambda>namePart.
    bnd (context_get bc_artifactDir) (\<lambda>dir.
    bnd (ret (dir @ ''/'' @ stamp @ ''-'' @ labelPart @ ''-'' @ namePart)) (\<lambda>path.
    bnd (page_ask (Page_SaveDownload path)) (\<lambda>bytes.
    bnd (write_disk path bytes) (\<lambda>_.
    bnd (readFile path) (\<lambda>buffer.
    bnd (gets (\<lambda>w. sha256 (w_env w) buffer)) (\<lambda>hash.
    bnd (page_ask Page_Url) (\<lambda>url.
    ret \<lparr>dl_label = label, dl_suggestedFilename = suggestedFilename, dl_path = path,
         dl_sizeBytes = length buffer, dl_sha256 = hash, dl_url = url\<rparr>)))))))))))"

text \<open>The answer to \<open>Page_Download\<close> is the name the download suggests.\<close>

definition downloadWithCapture :: "string \<Rightarrow> action_metadata \<Rightarrow> download_capture action" where
  "downloadWithCapture selector meta =
    bnd assertOpen (\<lambda>_.
    bnd (require (am_allowDownload meta \<and> am_actionType meta = DownloadFile)
      (DomainError PermissionDenied ''Download is only allowed during approved download steps.'')) (\<lambda>_.
    bnd (page_ask (Page_Download selector)) (\<lambda>suggestedFilename.
    bnd (page_ask Page_Url) (\<lambda>url.
    bnd (assertAllowedNetworkUrl url) (\<lambda>_.
    saveDownload suggestedFilename (am_label meta))))))"

subsection \<open>Effects\<close>

text \<open>What the browser touches: its context, the temporary files and the platform's counters.\<close>

definition browser_free :: "(world \<Rightarrow> 'x) \<Rightarrow> bool" where
  "browser_free f \<longleftrightarrow> (\<forall>w n. f (w\<lparr>reads := n\<rparr>) = f w) \<and> (\<forall>w n. f (w\<lparr>ids := n\<rparr>) = f w)
     \<and> (\<forall>w b. f (w\<lparr>browser := b\<rparr>) = f w) \<and> (\<forall>w d. f (w\<lparr>disk := d\<rparr>) = f w)"

lemma browser_free_parts [simp]: "browser_free runs" "browser_free approvals" "browser_free attempts" "browser_free audits"
  "browser_free files" "browser_free jobs" "browser_free w_env" "browser_free run_token" "browser_free credentials" "browser_free agents"
  by (simp_all add: browser_free_def)

lemma same_browser_leaves [effect_intros]:
  "(\<And>w n. f (w\<lparr>reads := n\<rparr>) = f w) \<Longrightarrow> effect (same_of f) (page_ask q) w"
  "(\<And>w n. f (w\<lparr>reads := n\<rparr>) = f w) \<Longrightarrow> effect (same_of f) (lookup h) w"
  "(\<And>w d. f (w\<lparr>disk := d\<rparr>) = f w) \<Longrightarrow> effect (same_of f) (write_disk p b) w"
  "(\<And>w b. f (w\<lparr>browser := b\<rparr>) = f w) \<Longrightarrow> effect (same_of f) (context_set g) w"
  by (simp_all add: effect_def same_of_def page_ask_def lookup_def write_disk_def context_set_def modify_def)

lemma same_context_get [effect_intros]: "effect (same_of f) (context_get g) w"
  unfolding context_get_def by (intro effect_intros)

lemma same_readFile [effect_intros]: "effect (same_of f) (readFile p) w"
  unfolding readFile_def by (intro effect_intros)

lemmas browser_defs = page_do_def resolvesToPrivateNetwork_def isAllowedNetworkUrl_def assertAllowedNetworkUrl_def assertOpen_def
  createControlledContext_def closeContext_def navigateWithPolicy_def fillCredentialField_def sanitizeFilePart_def epoch_text_def
  captureScreenshot_def guardPopup_def popup_events_def assertNoNewBlockedPopup_def sensitive_screenshot_def
  clickWithActionAttempt_def saveDownload_def downloadWithCapture_def route_request_def

lemma same_browser_ops [effect_intros]:
  assumes "browser_free f"
  shows "effect (same_of f) (page_do q) w" "effect (same_of f) (isAllowedNetworkUrl u) w"
    "effect (same_of f) (createControlledContext ds dir p) w" "effect (same_of f) closeContext w"
    "effect (same_of f) (navigateWithPolicy u) w" "effect (same_of f) (fillCredentialField s v) w"
    "effect (same_of f) (captureScreenshot l) w" "effect (same_of f) (clickWithActionAttempt s m) w"
    "effect (same_of f) (downloadWithCapture s m) w"
  using assms unfolding browser_defs browser_free_def
  by (elim conjE; intro effect_intros; simp)+

lemma later_browser_leaves [effect_intros]:
  "effect later (page_ask q) w" "effect later (lookup h) w" "effect later (write_disk p b) w" "effect later (context_set g) w"
  by (simp_all add: effect_def later_def page_ask_def lookup_def write_disk_def context_set_def modify_def)

lemma later_browser_reads [effect_intros]: "effect later (context_get g) w" "effect later (readFile p) w"
  unfolding context_get_def readFile_def by (intro effect_intros)+

lemma later_browser_ops [effect_intros]:
  "effect later (page_do q) w" "effect later (isAllowedNetworkUrl u) w"
  "effect later (createControlledContext ds dir p) w" "effect later closeContext w"
  "effect later (navigateWithPolicy u) w" "effect later (fillCredentialField s v) w"
  "effect later (captureScreenshot l) w" "effect later (clickWithActionAttempt s m) w"
  "effect later (downloadWithCapture s m) w"
  unfolding browser_defs
  by (intro effect_intros later.effect_modify; simp add: later_def)+

subsection \<open>Properties\<close>

text \<open>A confined address: blank, or of an allowed domain and, unless the context may reach private
networks, neither a local name nor a private address nor a name some resolution of which is public only.\<close>

definition public_host :: "env \<Rightarrow> string \<Rightarrow> bool" where
  "public_host e h \<longleftrightarrow> \<not> isPrivateHostname h \<and>
     (if ip_version e h \<noteq> 0 then \<not> isPrivateIp e h
      else \<exists>n records. resolve_host e n h = Inr records \<and> (\<forall>a \<in> set records. \<not> isPrivateIp e a))"

definition url_confined :: "env \<Rightarrow> browser_context \<Rightarrow> string \<Rightarrow> bool" where
  "url_confined e b u \<longleftrightarrow> u = [] \<or> u = ''about:blank'' \<or>
     (\<exists>host. url_host e u = Some host \<and> domain_allows (bc_allowedDomains b) (to_lower host)
       \<and> (bc_allowPrivateNetwork b \<or> public_host e (to_lower host)))"

lemma context_get_run [step_simps]:
  "browser w = Some b \<Longrightarrow> bnd (context_get f) g w = g (f b) w"
  by (simp add: context_get_def bnd_assoc step_simps)

lemma allowed_confined:
  assumes "browser w = Some b" and "isAllowedNetworkUrl u w = (Inr True, w')"
  shows "url_confined (w_env w) b u"
proof (cases "u = [] \<or> u = ''about:blank''")
  case True
  then show ?thesis by (auto simp: url_confined_def)
next
  case False
  with assms obtain host where host: "url_host (w_env w) u = Some host" and rest: "(if \<not> domain_allows (bc_allowedDomains b) (to_lower host) then ret False
       else if bc_allowPrivateNetwork b then ret True
       else bnd (resolvesToPrivateNetwork (to_lower host)) (\<lambda>private. ret (\<not> private))) w = (Inr True, w')"
    unfolding isAllowedNetworkUrl_def by (cases "url_host (w_env w) u") (auto simp: step_simps)
  have "domain_allows (bc_allowedDomains b) (to_lower host)"
    using rest by (simp add: step_simps split: if_splits)
  moreover have "public_host (w_env w) (to_lower host)" if "\<not> bc_allowPrivateNetwork b"
    using rest that calculation
    by (auto simp: step_simps resolvesToPrivateNetwork_def public_host_def lookup_def bnd_def list_ex_iff split: if_splits sum.splits prod.splits)
  ultimately show ?thesis using host by (auto simp: url_confined_def)
qed

lemma same_browser_reads [effect_intros]:
  "effect (same_of browser) (isAllowedNetworkUrl u) w" "effect (same_of browser) (assertAllowedNetworkUrl u) w"
  "effect (same_of browser) (page_do q) w"
  unfolding browser_defs by (intro effect_intros; simp)+

lemma assertAllowed_confined:
  "assertAllowedNetworkUrl u w = (Inr x, w') \<Longrightarrow> browser w = Some b \<Longrightarrow>
   url_confined (w_env w) b u \<and> browser w' = Some b \<and> w_env w' = w_env w"
  using same_browser_reads(1) [of u w] same_browser_ops(2) [of w_env u w]
  unfolding assertAllowedNetworkUrl_def
  by (auto elim!: bnd_InrE dest: allowed_confined simp: effect_def same_of_def)

definition already_closed :: err where
  "already_closed = DomainError ValidationFailed ''Browser context is already closed.''"

lemma closed_refuses:
  assumes "browser w = Some b" and "bc_closed b"
  shows "navigateWithPolicy u w = (Inl already_closed, w)" "clickWithActionAttempt s m w = (Inl already_closed, w)"
    "fillCredentialField s v w = (Inl already_closed, w)" "captureScreenshot l w = (Inl already_closed, w)"
    "downloadWithCapture s m w = (Inl already_closed, w)"
  using assms unfolding navigateWithPolicy_def clickWithActionAttempt_def fillCredentialField_def captureScreenshot_def
    downloadWithCapture_def assertOpen_def already_closed_def
  by (simp_all add: step_simps bnd_assoc)

lemma closeContext_run:
  "browser w = Some b \<Longrightarrow> closeContext w = (Inr (), w\<lparr>browser := Some (b\<lparr>bc_closed := True\<rparr>)\<rparr>)"
  by (cases "bc_closed b") (auto simp: closeContext_def step_simps context_set_def)


definition demo_browser :: "bool \<Rightarrow> browser_context" where
  "demo_browser c = \<lparr>bc_allowedDomains = [''shop.example''], bc_artifactDir = ''/tmp/a'', bc_allowPrivateNetwork = False,
     bc_blockedPopups = [], bc_closed = c\<rparr>"

definition browsing :: "string \<Rightarrow> world" where
  "browsing final = empty_world (demo_env\<lparr>url_host := Some, ip_version := (\<lambda>_. 0), resolve_host := (\<lambda>_ _. Inr []),
     page_answer := (\<lambda>_ q. case q of Page_Url \<Rightarrow> Inr final | _ \<Rightarrow> Inr ''title'')\<rparr>)\<lparr>browser := Some (demo_browser False)\<rparr>"


text \<open>The reference for IPv4: the address as a 32-bit word and the blocks reserved for special use.\<close>

definition ipv4_word :: "nat \<Rightarrow> nat \<Rightarrow> nat \<Rightarrow> nat \<Rightarrow> 32 word" where
  "ipv4_word a b c d = word_of_nat (a * 2 ^ 24 + b * 2 ^ 16 + c * 2 ^ 8 + d)"

definition in_block :: "32 word \<Rightarrow> 32 word \<times> nat \<Rightarrow> bool" where
  "in_block v block = (case block of (base, len) \<Rightarrow> drop_bit (32 - len) v = drop_bit (32 - len) base)"

definition reserved_blocks :: "(32 word \<times> nat) list" where
  "reserved_blocks = [(ipv4_word 0 0 0 0, 8), (ipv4_word 10 0 0 0, 8), (ipv4_word 127 0 0 0, 8),
     (ipv4_word 100 64 0 0, 10), (ipv4_word 169 254 0 0, 16), (ipv4_word 172 16 0 0, 12),
     (ipv4_word 192 168 0 0, 16), (ipv4_word 198 18 0 0, 15), (ipv4_word 224 0 0 0, 3)]"

lemma unat_ipv4:
  assumes "a < 256" "b < 256" "c < 256" "d < 256"
  shows "unat (ipv4_word a b c d) = a * 2 ^ 24 + b * 2 ^ 16 + c * 2 ^ 8 + d"
  using assms unfolding ipv4_word_def by (simp only: unsigned_of_nat take_bit_eq_mod) simp

lemma unat_div_pow: "unat (drop_bit n v) = unat v div 2 ^ n" for v :: "32 word"
  by (subst unat_drop_bit_eq) (rule drop_bit_eq_div)

lemma drop_bit_eq_unat: "drop_bit n v = drop_bit n u \<longleftrightarrow> unat v div 2 ^ n = unat u div 2 ^ n"
  for v u :: "32 word"
  unfolding unat_div_pow [symmetric] by (rule word_unat_eq_iff)

text \<open>The quotients that drop the host bits, in terms of the first two parts.\<close>

lemma parts_div:
  fixes a b c d :: nat
  assumes "b < 256" "c < 256" "d < 256"
  defines "n \<equiv> a * 2 ^ 24 + b * 2 ^ 16 + c * 2 ^ 8 + d"
  shows "n div 2 ^ 24 = a" "n div 2 ^ 16 = a * 256 + b"
    and "n div 2 ^ 29 = a div 32" "n div 2 ^ 22 = (a * 256 + b) div 64"
    and "n div 2 ^ 20 = (a * 256 + b) div 16" "n div 2 ^ 17 = (a * 256 + b) div 2"
proof -
  have split: "n = (a * 256 + b) * 2 ^ 16 + (c * 2 ^ 8 + d)" by (simp add: n_def algebra_simps)
  have "c * 2 ^ 8 + d < 2 ^ 16" using assms by simp
  then show 16: "n div 2 ^ 16 = a * 256 + b" unfolding split by simp
  have more: "n div (2 ^ 16 * 2 ^ k) = (a * 256 + b) div 2 ^ k" for k
    by (simp only: div_mult2_eq 16)
  show 24: "n div 2 ^ 24 = a" using more [of 8] assms(1) by simp
  show "n div 2 ^ 29 = a div 32" using div_mult2_eq [of n "2 ^ 24" "2 ^ 5"] 24 by simp
  show "n div 2 ^ 22 = (a * 256 + b) div 64" "n div 2 ^ 20 = (a * 256 + b) div 16" "n div 2 ^ 17 = (a * 256 + b) div 2"
    using more [of 6] more [of 4] more [of 1] by simp_all
qed

lemma base256:
  fixes a b p lo hi :: nat
  assumes "b < 256" and "hi \<le> 256"
  shows "p * 256 + lo \<le> a * 256 + b \<and> a * 256 + b < p * 256 + hi \<longleftrightarrow> a = p \<and> lo \<le> b \<and> b < hi"
proof (cases a p rule: linorder_cases)
  case less
  then have "a * 256 + 256 \<le> p * 256" by simp
  with assms less show ?thesis by linarith
next
  case greater
  then have "p * 256 + 256 \<le> a * 256" by simp
  with assms greater show ?thesis by linarith
qed simp

lemma div_eq_iff_range: "0 < m \<Longrightarrow> n div m = k \<longleftrightarrow> k * m \<le> n \<and> n < k * m + m" for k m n :: nat
  by (metis add.commute div_nat_eqI dividend_less_div_times div_times_less_eq_dividend mult.commute mult_Suc_right)

lemma in_block_parts:
  assumes "a < 256" "b < 256" "c < 256" "d < 256"
  shows "p < 256 \<Longrightarrow> in_block (ipv4_word a b c d) (ipv4_word p 0 0 0, 8) \<longleftrightarrow> a = p"
    and "p < 256 \<Longrightarrow> q < 256 \<Longrightarrow> in_block (ipv4_word a b c d) (ipv4_word p q 0 0, 16) \<longleftrightarrow> a = p \<and> b = q"
    and "in_block (ipv4_word a b c d) (ipv4_word 100 64 0 0, 10) \<longleftrightarrow> a = 100 \<and> 64 \<le> b \<and> b \<le> 127"
    and "in_block (ipv4_word a b c d) (ipv4_word 172 16 0 0, 12) \<longleftrightarrow> a = 172 \<and> 16 \<le> b \<and> b \<le> 31"
    and "in_block (ipv4_word a b c d) (ipv4_word 198 18 0 0, 15) \<longleftrightarrow> a = 198 \<and> (b = 18 \<or> b = 19)"
    and "in_block (ipv4_word a b c d) (ipv4_word 224 0 0 0, 3) \<longleftrightarrow> 224 \<le> a"
proof -
  note [simp del] = power_numeral
  have drop: "in_block (ipv4_word a b c d) (ipv4_word p q 0 0, k) \<longleftrightarrow>
      (a * 2 ^ 24 + b * 2 ^ 16 + c * 2 ^ 8 + d) div 2 ^ K = (p * 2 ^ 24 + q * 2 ^ 16 + 0 * 2 ^ 8 + 0) div 2 ^ K"
    if "p < 256" "q < 256" "K = 32 - k" for p q k K
    using assms that unat_ipv4 [of a b c d] unat_ipv4 [of p q 0 0]
    by (simp only: in_block_def drop_bit_eq_unat prod.case simp_thms zero_less_numeral)
  note q = parts_div [OF assms(2-4)]
  have zero: "(0 :: nat) < 256" by simp
  note q' = parts_div [OF _ zero zero]
  show "p < 256 \<Longrightarrow> in_block (ipv4_word a b c d) (ipv4_word p 0 0 0, 8) \<longleftrightarrow> a = p"
    by (subst drop [where K = 24], simp_all only: q(1) q'(1) [OF zero], simp_all?)
  show "p < 256 \<Longrightarrow> q < 256 \<Longrightarrow> in_block (ipv4_word a b c d) (ipv4_word p q 0 0, 16) \<longleftrightarrow> a = p \<and> b = q"
    by (subst drop [where K = 16], simp_all only: q(2) q'(2)) (use base256 [OF assms(2), of "Suc q" p q a] in auto)
  show "in_block (ipv4_word a b c d) (ipv4_word 100 64 0 0, 10) \<longleftrightarrow> a = 100 \<and> 64 \<le> b \<and> b \<le> 127"
    by (subst drop [where K = 22], simp, simp, simp, unfold q(4))
       (use base256 [OF assms(2), of 128 100 64 a] in \<open>simp add: power_numeral div_eq_iff_range; linarith\<close>)
  show "in_block (ipv4_word a b c d) (ipv4_word 172 16 0 0, 12) \<longleftrightarrow> a = 172 \<and> 16 \<le> b \<and> b \<le> 31"
    by (subst drop [where K = 20], simp, simp, simp, unfold q(5))
       (use base256 [OF assms(2), of 32 172 16 a] in \<open>simp add: power_numeral div_eq_iff_range; linarith\<close>)
  show "in_block (ipv4_word a b c d) (ipv4_word 198 18 0 0, 15) \<longleftrightarrow> a = 198 \<and> (b = 18 \<or> b = 19)"
    by (subst drop [where K = 17], simp, simp, simp, unfold q(6))
       (use base256 [OF assms(2), of 20 198 18 a] in \<open>simp add: power_numeral div_eq_iff_range; linarith\<close>)
  show "in_block (ipv4_word a b c d) (ipv4_word 224 0 0 0, 3) \<longleftrightarrow> 224 \<le> a"
    by (subst drop [where K = 29], simp, simp, simp, unfold q(3)) (use assms(1) in \<open>simp add: power_numeral div_eq_iff_range; linarith\<close>)
qed

text \<open>For a dotted decimal IPv4 address the numeric comparisons of the network guard are exactly
  membership in the reserved blocks 0.0.0.0/8, 10.0.0.0/8, 127.0.0.0/8, 100.64.0.0/10,
  169.254.0.0/16, 172.16.0.0/12, 192.168.0.0/16, 198.18.0.0/15 and 224.0.0.0/3 of the 32-bit
  address.\<close>

theorem private_ranges_exact:
  assumes "ip_version e address = 4"
    and "list_all (\<lambda>p. p \<noteq> [] \<and> list_all is_digit p) (split_on (CHR ''.'') address)"
    and "map digits_value (split_on (CHR ''.'') address) = [a, b, c, d]"
    and "a < 256" and "b < 256" and "c < 256" and "d < 256"
  shows "isPrivateIp e address \<longleftrightarrow> list_ex (in_block (ipv4_word a b c d)) reserved_blocks"
proof -
  obtain p q r s where parts: "split_on (CHR ''.'') address = [p, q, r, s]" "digits_value p = a" "digits_value q = b"
    using assms(3) by (auto simp: map_eq_Cons_conv)
  have "decimal_part 0 [p, q, r, s] = Some a" "decimal_part 1 [p, q, r, s] = Some b"
    using assms(2) parts by (simp_all add: decimal_part_def)
  then show ?thesis
    using assms(4-7)
    by (simp add: isPrivateIp_def assms(1) parts(1) Let_def in_range_def reserved_blocks_def in_block_parts)
qed

theorem private_ranges_exact_witness:
  "isPrivateIp (demo_env\<lparr>ip_version := (\<lambda>_. 4)\<rparr>) ''172.31.0.1''
   \<and> list_ex (in_block (ipv4_word 172 31 0 1)) reserved_blocks
   \<and> \<not> isPrivateIp (demo_env\<lparr>ip_version := (\<lambda>_. 4)\<rparr>) ''172.32.0.1''"
proof -
  let ?e = "demo_env\<lparr>ip_version := (\<lambda>_. 4)\<rparr>"
  have parts: "split_on (CHR ''.'') ''172.31.0.1'' = [''172'', ''31'', ''0'', ''1'']" by code_simp
  have digits: "list_all (\<lambda>p. p \<noteq> [] \<and> list_all is_digit p) [''172'', ''31'', ''0'', ''1'']"
    "map digits_value [''172'', ''31'', ''0'', ''1''] = [172, 31, 0, 1]" by code_simp+
  have "isPrivateIp ?e ''172.31.0.1'' \<longleftrightarrow> list_ex (in_block (ipv4_word 172 31 0 1)) reserved_blocks"
    by (rule private_ranges_exact) (simp_all only: parts digits, simp_all)
  moreover have "isPrivateIp ?e ''172.31.0.1''" "\<not> isPrivateIp ?e ''172.32.0.1''" by code_simp+
  ultimately show ?thesis by simp
qed

text \<open>An IPv4-mapped IPv6 address of the loopback interface is taken for a public one.\<close>

lemma mapped_loopback_public:
  "ip_version e ''::ffff:127.0.0.1'' = 6 \<Longrightarrow> \<not> isPrivateIp e ''::ffff:127.0.0.1''"
  by (simp add: isPrivateIp_def Let_def to_lower_def lower_char_def starts_with_def)

end
