(* ===== verification/Worker.thy ===== *)
theory Worker
  imports Approvals Credentials Browser_Runtime
begin

section \<open>The worker's services\<close>

text \<open>
  The services of \<open>apps/worker/src\<close> the executor and the connectors are built from: the client of
  the API's internal routes, audit events, heartbeats, cancellation, receipts, the record of action
  attempts, the worker's own policy and the choice of a connector. A call of the API runs the guard,
  the check of the request's body and the handler; an error of any of them comes back as an \<open>Error\<close>
  with the status and the body of the answer. The worker and the API are configured with the same
  secret, and the worker writes to the same database.
\<close>

subsection \<open>The client of the internal API\<close>

definition setRunToken :: "string option \<Rightarrow> unit action" where
  "setRunToken token = modify (\<lambda>w. w\<lparr>run_token := token\<rparr>)"

definition clearRunToken :: "unit action" where
  "clearRunToken = modify (\<lambda>w. w\<lparr>run_token := None\<rparr>)"

text \<open>The request does not reach the API.\<close>

definition network_fault :: "unit action" where
  "network_fault = (\<lambda>w. case api_fault (w_env w) (reads w) of
     None \<Rightarrow> (Inr (), w) | Some e \<Rightarrow> (Inl e, w\<lparr>reads := Suc (reads w)\<rparr>))"

definition api_error :: "env \<Rightarrow> string \<Rightarrow> err \<Rightarrow> err" where
  "api_error e path x = JsError ''Error''
     (''Internal API '' @ path @ '' returned '' @ num_str e (of_nat (error_status x)) @ '': '' @ error_body e (error_status x) x)"

definition postJson :: "string \<Rightarrow> string option \<Rightarrow> 'a action \<Rightarrow> 'a action" where
  "postJson path bodyRun handler =
    bnd network_fault (\<lambda>_.
    bnd (gets (\<lambda>w. coalesce (run_token w) (worker_secret (w_env w)))) (\<lambda>token.
    bnd (gets w_env) (\<lambda>e.
    try_catch
      (bnd (canActivate \<lparr>hr_url = Some path, hr_workerToken = Some token, hr_bearer = None, hr_bodyRun = bodyRun\<rparr>) (\<lambda>_.
       handler))
      (\<lambda>x. throw (api_error e path x)))))"

text \<open>The checks of the controllers: \<open>z.string().min(lo).max(hi)\<close>, optional strings, row ids.\<close>

definition text_within :: "nat \<Rightarrow> nat \<Rightarrow> string \<Rightarrow> bool" where
  "text_within lo hi s \<longleftrightarrow> lo \<le> length s \<and> length s \<le> hi"

definition optional :: "('a \<Rightarrow> bool) \<Rightarrow> 'a option \<Rightarrow> bool" where
  "optional P v \<longleftrightarrow> (case v of None \<Rightarrow> True | Some x \<Rightarrow> P x)"

definition run_path :: "string \<Rightarrow> string \<Rightarrow> string" where
  "run_path runId rest = ''/internal/workers/runs/'' @ runId @ rest"

definition recordRunEvent :: "string \<Rightarrow> string \<Rightarrow> audit_event_type \<Rightarrow> (string \<times> json) list \<Rightarrow> json action" where
  "recordRunEvent runId organizationId eventType eventData =
    postJson (run_path runId ''/events'') None
      (bnd (check_body (\<lambda>e. isUuid e organizationId) ''Invalid worker event request.'') (\<lambda>_.
       recordEvent runId organizationId eventType (Some eventData)))"

definition valid_upload :: "env \<Rightarrow> string \<Rightarrow> string \<Rightarrow> string \<Rightarrow> string \<Rightarrow> bool" where
  "valid_upload e organizationId filename mimeType bufferBase64 \<longleftrightarrow> isUuid e organizationId
     \<and> text_within 1 240 filename \<and> text_within 1 120 mimeType \<and> text_within 1 (14 * 1024 * 1024) bufferBase64"

definition uploadRunScreenshot :: "string \<Rightarrow> string \<Rightarrow> string \<Rightarrow> string \<Rightarrow> string \<Rightarrow> file_dto action" where
  "uploadRunScreenshot runId organizationId filename mimeType bufferBase64 =
    postJson (run_path runId ''/screenshots'') None
      (bnd (check_body (\<lambda>e. valid_upload e organizationId filename mimeType bufferBase64) ''Invalid worker screenshot upload request.'') (\<lambda>_.
       Internal_Worker.uploadScreenshot runId organizationId filename mimeType bufferBase64))"

definition uploadRunFile :: "string \<Rightarrow> string \<Rightarrow> file_kind \<Rightarrow> string \<Rightarrow> string \<Rightarrow> string \<Rightarrow> file_dto action" where
  "uploadRunFile runId organizationId kind filename mimeType bufferBase64 =
    postJson (run_path runId ''/files'') None
      (bnd (check_body (\<lambda>e. valid_upload e organizationId filename mimeType bufferBase64) ''Invalid worker file upload request.'') (\<lambda>_.
       Internal_Worker.uploadFile runId organizationId kind filename mimeType bufferBase64))"

definition call_completeRun :: "string \<Rightarrow> string \<Rightarrow> worker_complete \<Rightarrow> json action" where
  "call_completeRun runId organizationId i =
    postJson (run_path runId ''/complete'') None
      (bnd (check_body (\<lambda>e. isUuid e organizationId \<and> optional (text_within 1 1000) (wc_resultSummary i)
          \<and> optional (text_within 1 200) (wc_currentStep i)) ''Invalid worker complete request.'') (\<lambda>_.
       completeRun runId organizationId i))"

definition call_failRun :: "string \<Rightarrow> string \<Rightarrow> worker_fail \<Rightarrow> json action" where
  "call_failRun runId organizationId i =
    postJson (run_path runId ''/fail'') None
      (bnd (check_body (\<lambda>e. isUuid e organizationId \<and> text_within 1 1000 (wx_errorMessage i)
          \<and> optional (text_within 1 200) (wx_currentStep i)) ''Invalid worker fail request.'') (\<lambda>_.
       failRun runId organizationId i))"

definition decryptCredentialForRun :: "string \<Rightarrow> string \<Rightarrow> decrypted_credential action" where
  "decryptCredentialForRun credentialId workflowRunId =
    postJson (''/internal/vault/credentials/'' @ credentialId @ ''/decrypt-for-run'') (Some workflowRunId)
      (bnd (check_body (\<lambda>e. isUuid e workflowRunId) ''Invalid credential decrypt request.'') (\<lambda>_.
       decryptForRun credentialId workflowRunId))"

text \<open>The amount goes over the wire as the connector read it: \<open>z.number().int().min(0).optional()\<close>.\<close>

definition amount_json :: "json \<Rightarrow> bool" where
  "amount_json v \<longleftrightarrow> (case v of JNum q \<Rightarrow> of_int \<lfloor>q\<rfloor> = q \<and> 0 \<le> q | _ \<Rightarrow> False)"

definition amount_value :: "json \<Rightarrow> int" where
  "amount_value v = (case v of JNum q \<Rightarrow> \<lfloor>q\<rfloor> | _ \<Rightarrow> 0)"

definition createApprovalRequest :: "string \<Rightarrow> create_approval_input \<Rightarrow> json option \<Rightarrow> json action" where
  "createApprovalRequest runId i amountCents =
    postJson (run_path runId ''/approval-requests'') None
      (bnd (check_body (\<lambda>e. isUuid e (ca_attempt i) \<and> text_within 1 1000 (ca_summary i)
          \<and> optional amount_json amountCents \<and> optional (isUuid e) (ca_screenshot i))
          ''Invalid approval request create request.'') (\<lambda>_.
       approval_createForRun runId (i\<lparr>ca_amountCents := map_option amount_value amountCents\<rparr>)))"

subsection \<open>Audit events, heartbeats, cancellation\<close>

record worker_audit_input =
  wa_org :: string
  wa_run :: "string option"
  wa_agent :: "string option"
  wa_eventType :: audit_event_type
  wa_data :: "(string \<times> json) list"

definition worker_audit :: "worker_audit_input \<Rightarrow> unit action" where
  "worker_audit i =
    bnd (require (truthy (wa_run i)) (JsError ''Error'' ''Worker audit events require a workflow run ID.'')) (\<lambda>_.
    bnd (recordRunEvent (the (wa_run i)) (wa_org i) (wa_eventType i)
      (spread (wa_data i) (opt_field ''agentId'' (map_option JStr (wa_agent i))))) (\<lambda>_.
    ret ()))"

text \<open>\<open>findUniqueOrThrow\<close> on runs.\<close>

definition unique_run :: "string \<Rightarrow> run_row action" where
  "unique_run k = bnd (find_first run_t (\<lambda>r. run_id r = k)) (\<lambda>found. require_some found record_not_found_first)"

definition nextHeartbeatState :: "json \<Rightarrow> string \<Rightarrow> string \<Rightarrow> json" where
  "nextHeartbeatState existing heartbeatAt jobId =
    JObj (spread (as_object existing) [(''workerHeartbeatAt'', JStr heartbeatAt), (''workerHeartbeatJobId'', JStr jobId)])"

definition heartbeat :: "string \<Rightarrow> string \<Rightarrow> string action" where
  "heartbeat workflowRunId jobId =
    bnd new_date (\<lambda>now.
    bnd (iso_of now) (\<lambda>heartbeatAt.
    bnd (unique_run workflowRunId) (\<lambda>run.
    bnd (update_run workflowRunId (\<lambda>r. r\<lparr>run_state := nextHeartbeatState (run_state run) heartbeatAt jobId\<rparr>)) (\<lambda>_.
    bnd (worker_audit \<lparr>wa_org = run_org run, wa_run = Some (run_id run), wa_agent = Some (run_agent run),
      wa_eventType = Ev_WorkflowStepStarted,
      wa_data = [(''workflowRunId'', JStr (run_id run)), (''step'', JStr ''worker_heartbeat''),
        (''heartbeatAt'', JStr heartbeatAt), (''jobId'', JStr jobId)]\<rparr>) (\<lambda>_.
    ret heartbeatAt)))))"

definition isCanceled :: "string \<Rightarrow> bool action" where
  "isCanceled workflowRunId =
    bnd (find_first run_t (\<lambda>r. run_id r = workflowRunId)) (\<lambda>run.
    ret (map_option run_status run = Some Run_Canceled))"

subsection \<open>Receipts\<close>

record worker_receipt =
  wr_run :: string
  wr_finalStatus :: receipt_status
  wr_summary :: string
  wr_result :: "(string \<times> json) list option"

definition prisma_value :: "string \<Rightarrow> json" where
  "prisma_value v = JStr (prisma_enum v)"

text \<open>An entry with the text it is sorted by.\<close>

definition buildTimeline :: "env \<Rightarrow> audit_row list \<Rightarrow> attempt_row list \<Rightarrow> file_row list \<Rightarrow> json" where
  "buildTimeline e auditEvents actionAttempts fs =
    (let events = map (\<lambda>v. (iso e (au_createdAt v), JObj [(''type'', JStr ''audit_event''), (''id'', JStr (au_id v)),
           (''eventType'', prisma_value (audit_event_type_value (au_eventType v))),
           (''at'', JStr (iso e (au_createdAt v))), (''data'', au_data v)])) auditEvents;
         steps = map (\<lambda>a. (iso e (at_createdAt a), JObj [(''type'', JStr ''action_attempt''), (''id'', JStr (at_id a)),
           (''actionType'', prisma_value (action_type_value (at_actionType a))),
           (''policyDecision'', prisma_value (policy_decision_value (at_policyDecision a))),
           (''riskLevel'', prisma_value (risk_level_value (at_riskLevel a))),
           (''at'', JStr (iso e (at_createdAt a))), (''completedAt'', iso_opt e (at_completedAt a))])) actionAttempts;
         stored = map (\<lambda>f. (iso e (fi_createdAt f), JObj [(''type'', JStr ''file''), (''id'', JStr (fi_id f)),
           (''kind'', prisma_value (file_kind_value (fi_kind f))), (''sha256'', JStr (fi_sha256 f)),
           (''at'', JStr (iso e (fi_createdAt f)))])) fs
     in JArr (map snd (sort_by (\<lambda>l r. collate e (fst l) (fst r)) (events @ steps @ stored))))"

definition buildFiles :: "env \<Rightarrow> file_row list \<Rightarrow> file_kind option \<Rightarrow> json" where
  "buildFiles e fs kind = JArr (map (\<lambda>f. JObj [(''id'', JStr (fi_id f)), (''kind'', prisma_value (file_kind_value (fi_kind f))),
      (''bucket'', JStr (fi_bucket f)), (''objectKey'', JStr (fi_objectKey f)), (''mimeType'', JStr (fi_mimeType f)),
      (''sizeBytes'', JNum (of_nat (fi_size f))), (''sha256'', JStr (fi_sha256 f)),
      (''createdAt'', JStr (iso e (fi_createdAt f)))]) (filter (\<lambda>f. kind = None \<or> kind = Some (fi_kind f)) fs))"

definition buildPolicyDecisions :: "attempt_row list \<Rightarrow> json" where
  "buildPolicyDecisions actionAttempts = JArr (map (\<lambda>a. JObj [(''actionAttemptId'', JStr (at_id a)),
      (''actionType'', prisma_value (action_type_value (at_actionType a))),
      (''policyDecision'', prisma_value (policy_decision_value (at_policyDecision a))),
      (''riskLevel'', prisma_value (risk_level_value (at_riskLevel a))),
      (''policyReason'', jopt (at_policyReason a))]) actionAttempts)"

definition approvalDetails :: "(string \<times> json) list option \<Rightarrow> approval_row list \<Rightarrow> json" where
  "approvalDetails resultJson requests = JObj [(''resultJson'', (case resultJson of None \<Rightarrow> JNull | Some fs \<Rightarrow> JObj fs)),
      (''approvals'', JArr (map (\<lambda>p. JObj [(''id'', JStr (apr_id p)),
        (''status'', prisma_value (approval_status_value (apr_status p))),
        (''summary'', JStr (apr_summary p)), (''amountCents'', jnum_opt (apr_amountCents p))]) requests))]"

text \<open>\<open>upsert\<close> by the run: the one receipt of the run is updated, or created.\<close>

definition receipt_upsert :: "string \<Rightarrow> (receipt_row \<Rightarrow> receipt_row) \<Rightarrow> (string \<Rightarrow> nat \<Rightarrow> receipt_row) \<Rightarrow> receipt_row action" where
  "receipt_upsert runId update create =
    bnd (find_first receipt_t (\<lambda>q. re_run q = runId)) (\<lambda>found.
    case found of
      Some q \<Rightarrow> update_row receipt_t record_not_found (re_id q) update
    | None \<Rightarrow> bnd fresh_id (\<lambda>new_id. bnd new_date (\<lambda>now. create_row receipt_t (create new_id now))))"

definition receipt_createForRun :: "worker_receipt \<Rightarrow> string action" where
  "receipt_createForRun i =
    bnd (unique_run (wr_run i)) (\<lambda>run.
    bnd (gets (\<lambda>w. order_asc au_createdAt au_id (filter (\<lambda>v. au_run v = Some (run_id run)) (audits w)))) (\<lambda>events.
    bnd (gets (\<lambda>w. order_asc at_createdAt at_id (filter (\<lambda>a. at_run a = run_id run) (attempts w)))) (\<lambda>steps.
    bnd (gets (\<lambda>w. order_asc fi_createdAt fi_id (filter (\<lambda>f. fi_run f = Some (run_id run)) (files w)))) (\<lambda>stored.
    bnd (gets (\<lambda>w. order_asc apr_createdAt apr_id (filter (\<lambda>p. apr_run p = run_id run) (approvals w)))) (\<lambda>requests.
    bnd (gets w_env) (\<lambda>e.
    bnd (receipt_upsert (run_id run)
      (\<lambda>q. q\<lparr>re_finalStatus := wr_finalStatus i, re_summary := wr_summary i, re_timeline := buildTimeline e events steps stored,
         re_screenshots := buildFiles e stored (Some File_Screenshot), re_files := buildFiles e stored None,
         re_policyDecisions := buildPolicyDecisions steps, re_approvalDetails := approvalDetails (wr_result i) requests\<rparr>)
      (\<lambda>new_id now. \<lparr>re_id = new_id, re_org = run_org run, re_run = run_id run, re_agent = run_agent run,
         re_finalStatus = wr_finalStatus i, re_summary = wr_summary i, re_timeline = buildTimeline e events steps stored,
         re_screenshots = buildFiles e stored (Some File_Screenshot), re_files = buildFiles e stored None,
         re_policyDecisions = buildPolicyDecisions steps, re_approvalDetails = approvalDetails (wr_result i) requests,
         re_createdAt = now\<rparr>)) (\<lambda>receipt.
    bnd (worker_audit \<lparr>wa_org = run_org run, wa_run = Some (run_id run), wa_agent = Some (run_agent run),
      wa_eventType = Ev_ReceiptCreated,
      wa_data = [(''receiptId'', JStr (re_id receipt)),
        (''finalStatus'', prisma_value (receipt_status_value (wr_finalStatus i))),
        (''workflowRunStatus'', prisma_status (run_status run))]\<rparr>) (\<lambda>_.
    ret (re_id receipt)))))))))"

primrec receiptStatusForRunStatus :: "workflow_run_status \<Rightarrow> receipt_status" where
  "receiptStatusForRunStatus Run_Completed = Receipt_Completed"
| "receiptStatusForRunStatus Run_Denied = Receipt_Denied"
| "receiptStatusForRunStatus Run_Canceled = Receipt_Canceled"
| "receiptStatusForRunStatus Run_Failed = Receipt_Failed"
| "receiptStatusForRunStatus Run_Queued = Receipt_Failed"
| "receiptStatusForRunStatus Run_Running = Receipt_Failed"
| "receiptStatusForRunStatus Run_WaitingForApproval = Receipt_Failed"

subsection \<open>The worker's policy\<close>

record worker_policy_result =
  wp_decision :: policy_decision
  wp_riskLevel :: risk_level
  wp_reason :: string

definition riskyActions :: "action_type list" where
  "riskyActions = [SubmitForm, ChangePlan, CancelSubscription, MakePurchase]"

definition deniedActions :: "action_type list" where
  "deniedActions = [InviteUser, ChangeBillingDetails]"

definition evaluateAction :: "action_type \<Rightarrow> string option \<Rightarrow> worker_policy_result" where
  "evaluateAction act approvalToken =
    (if List.member deniedActions act
     then \<lparr>wp_decision = Decide_Deny, wp_riskLevel = Risk_Critical,
           wp_reason = ''Sandbox policy denies '' @ action_type_value act @ ''.''\<rparr>
     else if List.member riskyActions act \<and> \<not> truthy approvalToken
     then \<lparr>wp_decision = Decide_RequireApproval,
           wp_riskLevel = (if act = CancelSubscription then Risk_Critical else Risk_High),
           wp_reason = ''Sandbox policy requires approval for '' @ action_type_value act @ ''.''\<rparr>
     else \<lparr>wp_decision = Decide_Allow,
           wp_riskLevel = (if act = CredentialInjection then Risk_Medium else Risk_Low),
           wp_reason = ''Sandbox policy allows '' @ action_type_value act @ ''.''\<rparr>)"

subsection \<open>Action attempts of the connectors\<close>

text \<open>An amount is what the page said; the column holds 32-bit integers.\<close>

record connector_attempt =
  cm_run :: string
  cm_website :: string
  cm_actionType :: action_type
  cm_riskLevel :: risk_level
  cm_policyDecision :: policy_decision
  cm_policyReason :: "string option"
  cm_inputSummary :: "string option"
  cm_amountCents :: "json option"
  cm_metadata :: "(string \<times> json) list option"

definition toPrismaPolicyDecision :: "policy_decision \<Rightarrow> policy_decision action" where
  "toPrismaPolicyDecision d =
    (if d = Decide_RequireStepUpAuth \<or> d = Decide_PauseAgent
     then throw (DomainError ValidationFailed (''Unsupported connector policy decision '' @ policy_decision_value d @ ''.''))
     else ret d)"

definition amount_column :: "json option \<Rightarrow> int option action" where
  "amount_column v = (case v of
     None \<Rightarrow> ret None
   | Some JNull \<Rightarrow> ret None
   | Some (JNum q) \<Rightarrow>
       if of_int \<lfloor>q\<rfloor> = q \<and> - (2 ^ 31) \<le> \<lfloor>q\<rfloor> \<and> \<lfloor>q\<rfloor> < 2 ^ 31 then ret (Some \<lfloor>q\<rfloor>)
       else throw (PrismaError ''Argument amountCents: invalid value.'')
   | Some _ \<Rightarrow> throw (PrismaError ''Argument amountCents: invalid value.''))"

definition attempt_record :: "connector_attempt \<Rightarrow> string action" where
  "attempt_record i =
    bnd (find_first run_t (\<lambda>r. run_id r = cm_run i)) (\<lambda>found.
    bnd (require_some found (DomainError NotFound ''Workflow run was not found.'')) (\<lambda>run.
    bnd (toPrismaPolicyDecision (cm_policyDecision i)) (\<lambda>decision.
    bnd (amount_column (cm_amountCents i)) (\<lambda>amount.
    bnd fresh_id (\<lambda>new_id. bnd new_date (\<lambda>now.
    bnd (create_row attempt_t \<lparr>at_id = new_id, at_org = run_org run, at_run = run_id run, at_agent = run_agent run,
      at_vendor = run_vendor run, at_website = cm_website i, at_actionType = cm_actionType i,
      at_riskLevel = cm_riskLevel i, at_policyDecision = decision, at_policyReason = cm_policyReason i,
      at_inputSummary = cm_inputSummary i, at_outputSummary = None, at_amountCents = amount,
      at_metadata = JObj (coalesce (cm_metadata i) []), at_createdAt = now, at_completedAt = None\<rparr>) (\<lambda>attempt.
    ret (at_id attempt))))))))"

definition attempt_finish :: "string \<Rightarrow> string \<Rightarrow> (string \<times> json) list \<Rightarrow> unit action" where
  "attempt_finish k outputSummary metadata =
    bnd (find_first attempt_t (\<lambda>a. at_id a = k)) (\<lambda>found.
    bnd (require_some found (DomainError NotFound ''Action attempt was not found.'')) (\<lambda>attempt.
    bnd new_date (\<lambda>completedAt.
    bnd (update_row attempt_t record_not_found k (\<lambda>a. a\<lparr>at_completedAt := Some completedAt,
      at_outputSummary := Some outputSummary,
      at_metadata := JObj (spread (spread (as_object (at_metadata attempt)) metadata) [(''outcome'', JStr ''completed'')])\<rparr>)) (\<lambda>_.
    ret ()))))"

subsection \<open>The choice of a connector\<close>

definition normalizeConnectorType :: "string option \<Rightarrow> connector_type" where
  "normalizeConnectorType v =
    (if v = Some ''stripe_billing'' \<or> v = Some ''STRIPE_BILLING'' then Connector_StripeBilling
     else if v = Some ''github'' \<or> v = Some ''GITHUB'' then Connector_Github
     else Connector_Sandbox)"

definition assertSupports :: "string option \<Rightarrow> string \<Rightarrow> connector_type action" where
  "assertSupports connectorType template =
    bnd (try_catch (assertConnectorSupportsTemplate (normalizeConnectorType connectorType) template)
      (\<lambda>e. throw (DomainError UnsupportedConnectorCapability (err_message e)))) (\<lambda>_.
    ret (normalizeConnectorType connectorType))"

definition connector_supports :: "string option \<Rightarrow> connector_capability \<Rightarrow> bool" where
  "connector_supports connectorType cap = connectorSupports (normalizeConnectorType connectorType) cap"

end
