(* ===== verification/Patterns.thy ===== *)
theory Patterns
  imports Prelude
begin

section \<open>Patterns on page texts\<close>

text \<open>
  The regular expressions the connectors read a vendor's page with, as the language runs them: the
  leftmost match, alternatives in order, greedy repetition with backtracking. A pattern gives the
  possible matches of a prefix in the order they are tried; \<open>rx_search\<close> is \<open>text.match(pattern)?.[1]\<close>
  for a pattern with one group.
\<close>

datatype rx =
    RSet "char \<Rightarrow> bool"
  | RRep "char \<Rightarrow> bool" nat "nat option"
  | REps
  | RCat rx rx
  | RAlt rx rx
  | ROpt rx

primrec rx_match :: "rx \<Rightarrow> string \<Rightarrow> (string \<times> string) list" where
  "rx_match (RSet p) s = (case s of [] \<Rightarrow> [] | c # cs \<Rightarrow> if p c then [([c], cs)] else [])"
| "rx_match (RRep p lo hi) s =
    (let n = length (takeWhile p s); m = (case hi of None \<Rightarrow> n | Some h \<Rightarrow> min n h) in
     map (\<lambda>k. (take k s, drop k s)) (rev [lo..<Suc m]))"
| "rx_match REps s = [([], s)]"
| "rx_match (RCat a b) s =
    concat (map (\<lambda>(u, r). map (\<lambda>(v, r'). (u @ v, r')) (rx_match b r)) (rx_match a s))"
| "rx_match (RAlt a b) s = rx_match a s @ rx_match b s"
| "rx_match (ROpt a) s = rx_match a s @ [([], s)]"

definition rx_here :: "rx \<Rightarrow> rx \<Rightarrow> rx \<Rightarrow> string \<Rightarrow> string list" where
  "rx_here pre grp post s =
    concat (map (\<lambda>(_, r). concat (map (\<lambda>(g, r'). map (\<lambda>_. g) (rx_match post r')) (rx_match grp r))) (rx_match pre s))"

fun rx_search :: "rx \<Rightarrow> rx \<Rightarrow> rx \<Rightarrow> string \<Rightarrow> string option" where
  "rx_search pre grp post [] = (case rx_here pre grp post [] of [] \<Rightarrow> None | g # _ \<Rightarrow> Some g)"
| "rx_search pre grp post (c # cs) =
    (case rx_here pre grp post (c # cs) of [] \<Rightarrow> rx_search pre grp post cs | g # _ \<Rightarrow> Some g)"

definition rx_char :: "char \<Rightarrow> rx" where
  "rx_char c = RSet (\<lambda>d. d = c)"

text \<open>A word under the flag \<open>i\<close>.\<close>

definition rx_iword :: "string \<Rightarrow> rx" where
  "rx_iword s = foldr (\<lambda>c r. RCat (RSet (\<lambda>d. lower_char d = lower_char c)) r) s REps"

definition is_letter :: "char \<Rightarrow> bool" where
  "is_letter c \<longleftrightarrow> (CHR ''a'' \<le> lower_char c \<and> lower_char c \<le> CHR ''z'')"

text \<open>Every match is a prefix of the text, and what is found is a part of it.\<close>

lemma rx_match_prefix: "(u, r) \<in> set (rx_match p s) \<Longrightarrow> s = u @ r"
proof (induction p arbitrary: s u r)
  case (RRep p lo hi)
  then show ?case by (auto simp: Let_def)
next
  case (RCat a b)
  then obtain u1 r1 u2 where 1: "(u1, r1) \<in> set (rx_match a s)" and 2: "(u2, r) \<in> set (rx_match b r1)" and "u = u1 @ u2"
    by auto
  with RCat.IH(1) [OF 1] RCat.IH(2) [OF 2] show ?case by simp
qed (auto split: list.splits if_splits)

lemma rx_here_sublist: "g \<in> set (rx_here pre grp post s) \<Longrightarrow> sublist g s"
  by (fastforce simp: rx_here_def sublist_def dest!: rx_match_prefix)

lemma rx_search_sublist: "rx_search pre grp post s = Some g \<Longrightarrow> sublist g s"
proof (induction s)
  case Nil
  then show ?case using rx_here_sublist [of g pre grp post "[]"] by (auto split: list.splits)
next
  case (Cons c cs)
  then show ?case using rx_here_sublist [of g pre grp post "c # cs"] by (auto split: list.splits simp: sublist_Cons_right)
qed

end
