(* ===== verification/Connectors.thy ===== *)
theory Connectors
  imports Worker Patterns
begin

section \<open>The vendor connectors\<close>

text \<open>
  \<open>apps/worker/src/connector\<close>: what a connector does on a vendor's site, on the controlled browser,
  for the sandbox vendor, the Stripe dashboard and GitHub. A connector is a record of five operations;
  the locale \<open>vendor_interface\<close> states what the executor relies on: none of them touches runs,
  approvals, credentials or the log, and the attempt that changes a plan is recorded as allowed only
  with the token of an approval. What a page says is JSON as read; numbers of the page count as
  numbers only where the page has numbers.
\<close>

subsection \<open>What a connector works with\<close>

record connector_context =
  xc_run :: string
  xc_org :: string
  xc_agent :: string
  xc_vendor :: "string option"
  xc_baseUrl :: string
  xc_username :: string
  xc_password :: string
  xc_totpSecret :: "string option"
  xc_approvalToken :: "string option"
  xc_metadata :: "(string \<times> json) list option"

text \<open>\<open>RenewalInfo\<close> as the object the page or the connector builds.\<close>

type_synonym renewal_info = "(string \<times> json) list"

record proposed_action =
  pa_policyDecision :: policy_decision
  pa_riskLevel :: risk_level
  pa_attemptId :: string
  pa_summary :: string
  pa_amountCents :: json
  pa_metadata :: "(string \<times> json) list"

record action_result =
  ar_attemptId :: string
  ar_summary :: string
  ar_metadata :: "(string \<times> json) list"

record vendor_connector =
  vc_login :: "connector_context \<Rightarrow> unit action"
  vc_downloadLatestInvoice :: "connector_context \<Rightarrow> download_capture action"
  vc_readRenewalInfo :: "connector_context \<Rightarrow> renewal_info action"
  vc_prepareDowngrade :: "connector_context \<Rightarrow> proposed_action action"
  vc_submitDowngrade :: "connector_context \<Rightarrow> action_result action"

definition info_field :: "renewal_info \<Rightarrow> string \<Rightarrow> json" where
  "info_field info k = (case map_of info k of None \<Rightarrow> JNull | Some v \<Rightarrow> v)"

definition info_text :: "renewal_info \<Rightarrow> string \<Rightarrow> string action" where
  "info_text info k = gets (\<lambda>w. js_text (w_env w) (info_field info k))"

definition absolute_url :: "string \<Rightarrow> string \<Rightarrow> string action" where
  "absolute_url path base = (\<lambda>w. (resolve_url (w_env w) path base, w))"

definition page_url :: "string action" where
  "page_url = page_ask Page_Url"

subsection \<open>Helpers\<close>

definition requireVisible :: "string \<Rightarrow> string \<Rightarrow> unit action" where
  "requireVisible selector description =
    try_catch (page_do (Page_WaitVisible selector)) (\<lambda>_. throw (DomainError VendorPageStructureChanged
      (''Expected vendor page element was missing: '' @ description @ '' ('' @ selector @ '').'')))"

definition mfa_url :: "string \<Rightarrow> bool" where
  "mfa_url url \<longleftrightarrow> str_includes url ''mfa'' \<or> str_includes url ''two-factor'' \<or> str_includes url ''2fa''"

definition mfa_body :: "string \<Rightarrow> bool" where
  "mfa_body body \<longleftrightarrow> str_includes body ''authenticator'' \<or> str_includes body ''verification code''
     \<or> str_includes body ''one-time password'' \<or> str_includes body ''two-factor''"

definition mfa_inputs :: string where
  "mfa_inputs = ''input[name*=\"otp\" i], input[name*=\"totp\" i], input[autocomplete=\"one-time-code\"]''"

definition pageLooksLikeMfa :: "bool action" where
  "pageLooksLikeMfa =
    bnd (page_ask (Page_Text ''body'')) (\<lambda>body.
    bnd page_url (\<lambda>url.
    if mfa_url (to_lower url) \<or> mfa_body (to_lower body) then ret True
    else bnd (page_ask (Page_Count mfa_inputs)) (\<lambda>n. ret (n \<noteq> ''0''))))"

definition completeTotpIfRequired :: "connector_context \<Rightarrow> string \<Rightarrow> string \<Rightarrow> string \<Rightarrow> unit action" where
  "completeTotpIfRequired ctx connectorName codeSelector submitSelector =
    bnd pageLooksLikeMfa (\<lambda>mfa.
    run_if mfa
      (bnd (require (truthy (xc_totpSecret ctx)) (DomainError ManualMfaRequired
         (connectorName @ '' requires MFA, but no totpSecret was present in the vaulted credential.''))) (\<lambda>_.
       bnd new_date (\<lambda>now.
       bnd (gets (\<lambda>w. totp_code (w_env w) now (the (xc_totpSecret ctx)))) (\<lambda>code.
       bnd (requireVisible codeSelector ''MFA code input'') (\<lambda>_.
       bnd (page_do (Page_Fill codeSelector code)) (\<lambda>_.
       bnd (requireVisible submitSelector ''MFA submit'') (\<lambda>_.
       bnd (page_do (Page_Click submitSelector)) (\<lambda>_.
       bnd (page_do Page_WaitLoaded) (\<lambda>_.
       bnd pageLooksLikeMfa (\<lambda>still.
       require (\<not> still) (DomainError ManualMfaRequired
         (connectorName @ '' MFA challenge remained after TOTP submission. Manual handoff is required.'')))))))))))))"

definition readMetadataString :: "(string \<times> json) list option \<Rightarrow> string \<Rightarrow> string option" where
  "readMetadataString metadata k = (case metadata of None \<Rightarrow> None | Some fs \<Rightarrow>
     (case map_of fs k of Some (JStr s) \<Rightarrow> if trim s \<noteq> [] then Some (trim s) else None | _ \<Rightarrow> None))"

text \<open>\<open>Number(text)\<close> of a text of digits and points; \<open>None\<close> is \<open>NaN\<close>.\<close>

definition decimal_value :: "string \<Rightarrow> rat option" where
  "decimal_value s = (case split_on (CHR ''.'') s of
     [a] \<Rightarrow> Some (of_nat (digits_value a))
   | [a, b] \<Rightarrow> if a = [] \<and> b = [] then None
       else Some (of_nat (digits_value a) + of_nat (digits_value b) / 10 ^ length b)
   | _ \<Rightarrow> None)"

definition js_round :: "rat \<Rightarrow> int" where
  "js_round q = \<lfloor>q + 1 / 2\<rfloor>"

definition centsFromText :: "string option \<Rightarrow> int" where
  "centsFromText raw =
    (if \<not> truthy raw then 0
     else case decimal_value (filter (\<lambda>c. is_digit c \<or> c = CHR ''.'') (the raw)) of
       None \<Rightarrow> 0 | Some q \<Rightarrow> js_round (q * 100))"

subsection \<open>Attempts under the worker's policy\<close>

text \<open>The evaluation of an action and the record of its attempt, at the address of the page.\<close>

definition evaluate_and_record ::
  "connector_context \<Rightarrow> action_type \<Rightarrow> string option \<Rightarrow> string \<Rightarrow> json option \<Rightarrow> (string \<times> json) list \<Rightarrow> string action" where
  "evaluate_and_record ctx act approvalToken summary amount metadata =
    bnd page_url (\<lambda>_.
    bnd (ret (evaluateAction act approvalToken)) (\<lambda>policy.
    bnd page_url (\<lambda>website.
    attempt_record \<lparr>cm_run = xc_run ctx, cm_website = website, cm_actionType = act,
      cm_riskLevel = wp_riskLevel policy, cm_policyDecision = wp_decision policy,
      cm_policyReason = Some (wp_reason policy), cm_inputSummary = Some summary,
      cm_amountCents = amount, cm_metadata = Some metadata\<rparr>)))"

subsection \<open>The sandbox vendor\<close>

definition ensureBillingPage :: "connector_context \<Rightarrow> unit action" where
  "ensureBillingPage ctx =
    bnd page_url (\<lambda>currentUrl.
    run_if (\<not> str_includes currentUrl ''/billing'')
      (bnd (absolute_url ''/billing'' (xc_baseUrl ctx)) (\<lambda>url.
       bnd (navigateWithPolicy url) (\<lambda>_. ret ()))))"

definition required_renewal_fields :: "string list" where
  "required_renewal_fields = [''vendorName'', ''currentPlan'', ''currentMonthlyPriceCents'', ''renewalMonthlyPriceCents'',
     ''renewalDate'', ''seatCount'', ''unusedSeats'', ''estimatedMonthlySavingsCents'', ''recommendation'']"

definition parseRenewalInfo :: "string \<Rightarrow> renewal_info action" where
  "parseRenewalInfo raw =
    bnd (gets (\<lambda>w. parse_json (w_env w) raw)) (\<lambda>parsed.
    bnd (require_some parsed (JsError ''SyntaxError'' ''Unexpected token in JSON'')) (\<lambda>parsed.
    bnd (require (parsed \<noteq> JNull) (JsError ''TypeError'' ''Cannot read properties of null'')) (\<lambda>_.
    bnd (for_each (\<lambda>k. require (info_field (as_object parsed) k \<noteq> JNull)
        (DomainError ValidationFailed (''Sandbox renewal data is missing '' @ k @ ''.''))) required_renewal_fields) (\<lambda>_.
    ret (as_object parsed)))))"

definition sandbox_login :: "connector_context \<Rightarrow> unit action" where
  "sandbox_login ctx =
    bnd (absolute_url ''/login'' (xc_baseUrl ctx)) (\<lambda>url.
    bnd (navigateWithPolicy url) (\<lambda>_.
    bnd (evaluate_and_record ctx CredentialInjection None ''Inject sandbox login credentials.'' None
      [(''connector'', JStr ''SandboxVendorConnector''), (''username'', JStr (xc_username ctx))]) (\<lambda>attempt.
    bnd (page_do (Page_Fill ''#email'' (xc_username ctx))) (\<lambda>_.
    bnd (fillCredentialField ''#password'' (xc_password ctx)) (\<lambda>_.
    bnd (clickWithActionAttempt ''#login-submit'' \<lparr>am_actionType = ClickButton, am_label = ''sandbox-login-submit'',
      am_sensitive = False, am_allowDownload = False\<rparr>) (\<lambda>_.
    bnd (page_do Page_WaitLoaded) (\<lambda>_.
    bnd (page_ask (Page_Text ''body'')) (\<lambda>responseText.
    bnd (require (str_includes responseText ''\"ok\":true'') (DomainError PermissionDenied ''Sandbox login failed.'')) (\<lambda>_.
    attempt_finish attempt ''Sandbox login credentials accepted.'' [(''loginAccepted'', JBool True)])))))))))"

definition download_metadata :: "download_capture \<Rightarrow> (string \<times> json) list" where
  "download_metadata d = [(''path'', JStr (dl_path d)), (''sha256'', JStr (dl_sha256 d)), (''sizeBytes'', JNum (of_nat (dl_sizeBytes d)))]"

definition sandbox_downloadLatestInvoice :: "connector_context \<Rightarrow> download_capture action" where
  "sandbox_downloadLatestInvoice ctx =
    bnd (ensureBillingPage ctx) (\<lambda>_.
    bnd (evaluate_and_record ctx DownloadFile None ''Download latest Acme Analytics invoice.'' None
      [(''connector'', JStr ''SandboxVendorConnector''), (''selector'', JStr ''#download-latest-invoice'')]) (\<lambda>attempt.
    bnd (downloadWithCapture ''#download-latest-invoice'' \<lparr>am_actionType = DownloadFile, am_label = ''acme-latest-invoice'',
      am_sensitive = False, am_allowDownload = True\<rparr>) (\<lambda>d.
    bnd (attempt_finish attempt ''Latest sandbox invoice downloaded.'' (download_metadata d)) (\<lambda>_.
    ret d))))"

definition sandbox_readRenewalInfo :: "connector_context \<Rightarrow> renewal_info action" where
  "sandbox_readRenewalInfo ctx =
    bnd (ensureBillingPage ctx) (\<lambda>_.
    bnd (evaluate_and_record ctx ReadPage None ''Extract renewal data from sandbox billing page.'' None
      [(''connector'', JStr ''SandboxVendorConnector''), (''selector'', JStr ''#renewal-json'')]) (\<lambda>attempt.
    bnd (page_ask (Page_Text ''#renewal-json'')) (\<lambda>raw.
    bnd (parseRenewalInfo raw) (\<lambda>info.
    bnd (attempt_finish attempt ''Sandbox renewal data extracted.''
      (map (\<lambda>k. (k, info_field info k)) [''renewalDate'', ''renewalMonthlyPriceCents'', ''unusedSeats''])) (\<lambda>_.
    ret info)))))"

text \<open>The decision is the one of the attempt just recorded.\<close>

definition sandbox_prepareDowngrade :: "connector_context \<Rightarrow> proposed_action action" where
  "sandbox_prepareDowngrade ctx =
    bnd (sandbox_readRenewalInfo ctx) (\<lambda>info.
    bnd (info_text info ''currentPlan'') (\<lambda>plan.
    bnd (info_text info ''vendorName'') (\<lambda>vendor.
    bnd (ret (evaluateAction ChangePlan None)) (\<lambda>policy.
    bnd (evaluate_and_record ctx ChangePlan None (''Prepare downgrade from '' @ plan @ '' to Starter.'')
      (Some (info_field info ''estimatedMonthlySavingsCents''))
      [(''connector'', JStr ''SandboxVendorConnector''), (''currentPlan'', info_field info ''currentPlan''), (''targetPlan'', JStr ''Starter''),
       (''approvalRequired'', JBool (wp_decision policy = Decide_RequireApproval))]) (\<lambda>attempt.
    ret \<lparr>pa_policyDecision = wp_decision policy, pa_riskLevel = wp_riskLevel policy, pa_attemptId = attempt,
      pa_summary = ''Downgrade '' @ vendor @ '' from '' @ plan @ '' to Starter.'',
      pa_amountCents = info_field info ''estimatedMonthlySavingsCents'',
      pa_metadata = [(''vendorName'', info_field info ''vendorName''), (''currentPlan'', info_field info ''currentPlan''),
        (''targetPlan'', JStr ''Starter''), (''renewalDate'', info_field info ''renewalDate'')]\<rparr>)))))"

definition sandbox_submitDowngrade :: "connector_context \<Rightarrow> action_result action" where
  "sandbox_submitDowngrade ctx =
    bnd (require (truthy (xc_approvalToken ctx))
      (DomainError ApprovalRequired ''Approval token is required before submitting a downgrade.'')) (\<lambda>_.
    bnd (ensureBillingPage ctx) (\<lambda>_.
    bnd (sandbox_readRenewalInfo ctx) (\<lambda>info.
    bnd (info_text info ''currentPlan'') (\<lambda>plan.
    bnd (require (wp_decision (evaluateAction ChangePlan (xc_approvalToken ctx)) = Decide_Allow)
      (DomainError ApprovalRequired ''Downgrade policy did not allow submission.'')) (\<lambda>_.
    bnd (evaluate_and_record ctx ChangePlan (xc_approvalToken ctx) (''Submit approved downgrade from '' @ plan @ '' to Starter.'')
      (Some (info_field info ''estimatedMonthlySavingsCents''))
      [(''connector'', JStr ''SandboxVendorConnector''), (''approvalTokenPresent'', JBool True)]) (\<lambda>attempt.
    bnd (clickWithActionAttempt ''#submit-downgrade'' \<lparr>am_actionType = ChangePlan, am_label = ''submit-downgrade'',
      am_sensitive = True, am_allowDownload = False\<rparr>) (\<lambda>_.
    bnd (page_do Page_WaitLoaded) (\<lambda>_.
    bnd (page_ask (Page_Text ''body'')) (\<lambda>responseText.
    bnd (attempt_finish attempt ''Approved sandbox downgrade submitted.'' [(''responseText'', JStr responseText)]) (\<lambda>_.
    ret \<lparr>ar_attemptId = attempt, ar_summary = ''Approved sandbox downgrade submitted.'',
      ar_metadata = [(''responseText'', JStr responseText)]\<rparr>))))))))))"

definition sandbox_connector :: vendor_connector where
  "sandbox_connector = \<lparr>vc_login = sandbox_login, vc_downloadLatestInvoice = sandbox_downloadLatestInvoice,
     vc_readRenewalInfo = sandbox_readRenewalInfo, vc_prepareDowngrade = sandbox_prepareDowngrade,
     vc_submitDowngrade = sandbox_submitDowngrade\<rparr>"

subsection \<open>The Stripe dashboard\<close>

definition rx_amount_group :: rx where
  "rx_amount_group = RCat (RRep is_digit 1 None) (ROpt (RCat (rx_char (CHR ''.'')) (RRep is_digit 2 (Some 2))))"

text \<open>\<open>/\\$\\s?([0-9]+(?:\\.[0-9]{2})?)/\<close>.\<close>

definition amount_match :: "string \<Rightarrow> string option" where
  "amount_match body = rx_search (RCat (rx_char (CHR ''$'')) (RRep is_space 0 (Some 1))) rx_amount_group REps body"

definition colon_or_space :: "char \<Rightarrow> bool" where
  "colon_or_space c \<longleftrightarrow> c = CHR '':'' \<or> is_space c"

definition plan_char :: "char \<Rightarrow> bool" where
  "plan_char c \<longleftrightarrow> is_letter c \<or> is_digit c \<or> c = CHR '' '' \<or> c = CHR ''_'' \<or> c = CHR ''-''"

text \<open>\<open>/Plan[:\\s]+([A-Za-z0-9 _-]+)/i\<close>.\<close>

definition plan_match :: "string \<Rightarrow> string option" where
  "plan_match body = rx_search (RCat (rx_iword ''Plan'') (RRep colon_or_space 1 None)) (RRep plan_char 1 None) REps body"

definition rx_iso_date :: rx where
  "rx_iso_date = RCat (RRep is_digit 4 (Some 4)) (RCat (rx_char (CHR ''-'')) (RCat (RRep is_digit 2 (Some 2))
     (RCat (rx_char (CHR ''-'')) (RRep is_digit 2 (Some 2)))))"

definition rx_long_date :: rx where
  "rx_long_date = RCat (RRep is_letter 1 None) (RCat (rx_char (CHR '' '')) (RCat (RRep is_digit 1 (Some 2))
     (RCat (rx_char (CHR '','')) (RCat (rx_char (CHR '' '')) (RRep is_digit 4 (Some 4))))))"

text \<open>\<open>/Renew(?:al|s)?[:\\s]+([0-9]{4}-[0-9]{2}-[0-9]{2}|[A-Za-z]+ \\d{1,2}, \\d{4})/i\<close>.\<close>

definition renewal_match :: "string \<Rightarrow> string option" where
  "renewal_match body = rx_search
     (RCat (rx_iword ''Renew'') (RCat (ROpt (RAlt (rx_iword ''al'') (rx_iword ''s''))) (RRep colon_or_space 1 None)))
     (RAlt rx_iso_date rx_long_date) REps body"

definition openInvoices :: "connector_context \<Rightarrow> unit action" where
  "openInvoices ctx =
    bnd (absolute_url ''/invoices'' (xc_baseUrl ctx)) (\<lambda>url.
    bnd (navigateWithPolicy url) (\<lambda>_.
    requireVisible ''main, [data-testid], table, a[href*=\"invoice\"]'' ''Stripe invoices page''))"

definition openSubscriptions :: "connector_context \<Rightarrow> unit action" where
  "openSubscriptions ctx =
    bnd (absolute_url ''/subscriptions'' (xc_baseUrl ctx)) (\<lambda>url.
    bnd (navigateWithPolicy url) (\<lambda>_.
    requireVisible ''main, [data-testid], table, body'' ''Stripe subscriptions page''))"

definition login_metadata :: "string \<Rightarrow> connector_context \<Rightarrow> (string \<times> json) list" where
  "login_metadata connector ctx = [(''connector'', JStr connector), (''username'', JStr (xc_username ctx)),
     (''hasTotpSecret'', JBool (truthy (xc_totpSecret ctx)))]"

definition stripe_login :: "connector_context \<Rightarrow> unit action" where
  "stripe_login ctx =
    bnd (absolute_url ''/login'' (xc_baseUrl ctx)) (\<lambda>loginUrl.
    bnd (navigateWithPolicy loginUrl) (\<lambda>_.
    bnd (requireVisible ''input[type=\"email\"], input[name=\"email\"]'' ''Stripe email field'') (\<lambda>_.
    bnd (requireVisible ''input[type=\"password\"]'' ''Stripe password field'') (\<lambda>_.
    bnd (evaluate_and_record ctx CredentialInjection None ''Inject Stripe Dashboard login credentials.'' None
      (login_metadata ''StripeBillingConnector'' ctx)) (\<lambda>attempt.
    bnd (page_do (Page_Fill ''input[type=\"email\"], input[name=\"email\"]'' (xc_username ctx))) (\<lambda>_.
    bnd (fillCredentialField ''input[type=\"password\"]'' (xc_password ctx)) (\<lambda>_.
    bnd (page_do (Page_Click ''button[type=\"submit\"], button:has-text(\"Sign in\"), button:has-text(\"Log in\")'')) (\<lambda>_.
    bnd (page_do Page_WaitLoaded) (\<lambda>_.
    bnd (completeTotpIfRequired ctx ''StripeBillingConnector''
      ''input[name*=\"code\" i], input[autocomplete=\"one-time-code\"], input[type=\"tel\"]''
      ''button[type=\"submit\"], button:has-text(\"Verify\"), button:has-text(\"Continue\")'') (\<lambda>_.
    bnd page_url (\<lambda>url.
    bnd (require (\<not> str_includes url ''/login'') (DomainError PermissionDenied ''Stripe Dashboard login failed.'')) (\<lambda>_.
    attempt_finish attempt ''Stripe Dashboard credentials accepted.'' [(''loginAccepted'', JBool True)]))))))))))))"

definition stripe_downloadLatestInvoice :: "connector_context \<Rightarrow> download_capture action" where
  "stripe_downloadLatestInvoice ctx =
    bnd (openInvoices ctx) (\<lambda>_.
    bnd (evaluate_and_record ctx DownloadFile None ''Download latest Stripe invoice PDF.'' None
      [(''connector'', JStr ''StripeBillingConnector'')]) (\<lambda>attempt.
    bnd (ret ''a[href*=\"invoice\"], a:has-text(\"Download\"), button:has-text(\"Download\"), a[download]'') (\<lambda>selector.
    bnd (requireVisible selector ''Stripe invoice download control'') (\<lambda>_.
    bnd (downloadWithCapture selector \<lparr>am_actionType = DownloadFile, am_label = ''stripe-latest-invoice'',
      am_sensitive = False, am_allowDownload = True\<rparr>) (\<lambda>d.
    bnd (attempt_finish attempt ''Latest Stripe invoice downloaded.'' (download_metadata d)) (\<lambda>_.
    ret d))))))"

definition page_structure_changed :: "string \<Rightarrow> err" where
  "page_structure_changed page = DomainError VendorPageStructureChanged (page @ '' did not expose recognizable plan/price fields.'')"

text \<open>Renewal data built from what the page shows; the savings are a share of the price.\<close>

definition built_info :: "string \<Rightarrow> string \<Rightarrow> int \<Rightarrow> string \<Rightarrow> nat \<Rightarrow> rat \<Rightarrow> string \<Rightarrow> renewal_info" where
  "built_info vendor plan price date seats share advice =
    [(''vendorName'', JStr vendor), (''currentPlan'', JStr plan), (''currentMonthlyPriceCents'', JNum (of_int price)),
     (''renewalMonthlyPriceCents'', JNum (of_int price)), (''renewalDate'', JStr date), (''seatCount'', JNum (of_nat seats)),
     (''unusedSeats'', JNum 0), (''estimatedMonthlySavingsCents'', JNum (of_int (max 0 (js_round (of_int price * share))))),
     (''recommendation'', JStr advice)]"

definition today :: "string action" where
  "today = bnd new_date (\<lambda>now. bnd (iso_of now) (\<lambda>s. ret (take 10 s)))"

definition stripe_readRenewalInfo :: "connector_context \<Rightarrow> renewal_info action" where
  "stripe_readRenewalInfo ctx =
    bnd (openSubscriptions ctx) (\<lambda>_.
    bnd (evaluate_and_record ctx ReadPage None ''Extract Stripe subscription renewal data.'' None
      [(''connector'', JStr ''StripeBillingConnector'')]) (\<lambda>attempt.
    bnd (page_ask (Page_Text ''body'')) (\<lambda>body.
    bnd (ret (centsFromText (amount_match body))) (\<lambda>price.
    bnd (require (\<not> (plan_match body = None \<and> price = 0)) (page_structure_changed ''Stripe subscription page'')) (\<lambda>_.
    bnd (case renewal_match body of Some d \<Rightarrow> ret d | None \<Rightarrow> today) (\<lambda>date.
    bnd (ret (built_info ''Stripe Billing'' (case plan_match body of Some p \<Rightarrow> trim p | None \<Rightarrow> ''Unknown'') price date 1 (1 / 4)
      ''Review Stripe subscription plan for downgrade opportunity.'')) (\<lambda>info.
    bnd (attempt_finish attempt ''Stripe renewal data extracted.''
      (map (\<lambda>k. (k, info_field info k)) [''renewalDate'', ''renewalMonthlyPriceCents''])) (\<lambda>_.
    ret info))))))))"

definition stripe_prepareDowngrade :: "connector_context \<Rightarrow> proposed_action action" where
  "stripe_prepareDowngrade ctx =
    bnd (stripe_readRenewalInfo ctx) (\<lambda>info.
    bnd (info_text info ''currentPlan'') (\<lambda>plan.
    bnd (ret (evaluateAction ChangePlan None)) (\<lambda>policy.
    bnd (evaluate_and_record ctx ChangePlan None (''Prepare Stripe plan downgrade from '' @ plan @ ''.'')
      (Some (info_field info ''estimatedMonthlySavingsCents''))
      [(''connector'', JStr ''StripeBillingConnector''), (''currentPlan'', info_field info ''currentPlan''),
       (''approvalRequired'', JBool (wp_decision policy = Decide_RequireApproval))]) (\<lambda>attempt.
    ret \<lparr>pa_policyDecision = wp_decision policy, pa_riskLevel = wp_riskLevel policy, pa_attemptId = attempt,
      pa_summary = ''Downgrade Stripe plan from '' @ plan @ ''.'',
      pa_amountCents = info_field info ''estimatedMonthlySavingsCents'',
      pa_metadata = [(''vendorName'', info_field info ''vendorName''), (''currentPlan'', info_field info ''currentPlan''),
        (''targetPlan'', JStr (coalesce (readMetadataString (xc_metadata ctx) ''targetPlan'') ''Starter'')),
        (''renewalDate'', info_field info ''renewalDate'')]\<rparr>))))"

definition stripe_submitDowngrade :: "connector_context \<Rightarrow> action_result action" where
  "stripe_submitDowngrade ctx =
    bnd (require (truthy (xc_approvalToken ctx))
      (DomainError ApprovalRequired ''Approval token is required before submitting a Stripe downgrade.'')) (\<lambda>_.
    bnd (openSubscriptions ctx) (\<lambda>_.
    bnd (stripe_readRenewalInfo ctx) (\<lambda>info.
    bnd (info_text info ''currentPlan'') (\<lambda>plan.
    bnd (require (wp_decision (evaluateAction ChangePlan (xc_approvalToken ctx)) = Decide_Allow)
      (DomainError ApprovalRequired ''Stripe downgrade policy did not allow submission.'')) (\<lambda>_.
    bnd (evaluate_and_record ctx ChangePlan (xc_approvalToken ctx) (''Submit approved Stripe downgrade from '' @ plan @ ''.'')
      (Some (info_field info ''estimatedMonthlySavingsCents''))
      [(''connector'', JStr ''StripeBillingConnector''), (''approvalTokenPresent'', JBool True)]) (\<lambda>attempt.
    bnd (ret ''button:has-text(\"Update plan\"), button:has-text(\"Change plan\"), button:has-text(\"Downgrade\"), button:has-text(\"Confirm\")'') (\<lambda>selector.
    bnd (requireVisible selector ''Stripe plan change confirm control'') (\<lambda>_.
    bnd (clickWithActionAttempt selector \<lparr>am_actionType = ChangePlan, am_label = ''stripe-submit-downgrade'',
      am_sensitive = True, am_allowDownload = False\<rparr>) (\<lambda>_.
    bnd (page_do Page_WaitLoaded) (\<lambda>_.
    bnd (attempt_finish attempt ''Approved Stripe downgrade submitted.'' []) (\<lambda>_.
    ret \<lparr>ar_attemptId = attempt, ar_summary = ''Approved Stripe downgrade submitted.'',
      ar_metadata = [(''currentPlan'', info_field info ''currentPlan'')]\<rparr>)))))))))))"

definition stripe_connector :: vendor_connector where
  "stripe_connector = \<lparr>vc_login = stripe_login, vc_downloadLatestInvoice = stripe_downloadLatestInvoice,
     vc_readRenewalInfo = stripe_readRenewalInfo, vc_prepareDowngrade = stripe_prepareDowngrade,
     vc_submitDowngrade = stripe_submitDowngrade\<rparr>"

subsection \<open>GitHub\<close>

text \<open>\<open>/(Free|Team|Enterprise|Pro|Organization)[^\\n]{0,40}/i\<close> and \<open>/(\\d+)\\s+seats?/i\<close>.\<close>

definition github_plan_match :: "string \<Rightarrow> string option" where
  "github_plan_match body = rx_search REps
     (RAlt (rx_iword ''Free'') (RAlt (rx_iword ''Team'') (RAlt (rx_iword ''Enterprise'') (RAlt (rx_iword ''Pro'') (rx_iword ''Organization'')))))
     (RRep (\<lambda>c. of_char c \<noteq> (10 :: nat)) 0 (Some 40)) body"

definition seats_match :: "string \<Rightarrow> string option" where
  "seats_match body = rx_search REps (RRep is_digit 1 None) (RCat (RRep is_space 1 None) (RCat (rx_iword ''seat'') (ROpt (rx_iword ''s'')))) body"

definition openBilling :: "connector_context \<Rightarrow> unit action" where
  "openBilling ctx =
    bnd (ret (case readMetadataString (xc_metadata ctx) ''githubOrganization'' of
        Some org \<Rightarrow> ''/organizations/'' @ org @ ''/settings/billing'' | None \<Rightarrow> ''/settings/billing'')) (\<lambda>billingPath.
    bnd (absolute_url billingPath (xc_baseUrl ctx)) (\<lambda>billingUrl.
    bnd (navigateWithPolicy billingUrl) (\<lambda>_.
    requireVisible ''main, .Layout-main, body'' ''GitHub billing page'')))"

definition github_login :: "connector_context \<Rightarrow> unit action" where
  "github_login ctx =
    bnd (absolute_url ''/login'' (xc_baseUrl ctx)) (\<lambda>loginUrl.
    bnd (navigateWithPolicy loginUrl) (\<lambda>_.
    bnd (requireVisible ''#login_field, input[name=\"login\"]'' ''GitHub username field'') (\<lambda>_.
    bnd (requireVisible ''#password, input[name=\"password\"]'' ''GitHub password field'') (\<lambda>_.
    bnd (evaluate_and_record ctx CredentialInjection None ''Inject GitHub login credentials.'' None
      (login_metadata ''GitHubConnector'' ctx)) (\<lambda>attempt.
    bnd (page_do (Page_Fill ''#login_field, input[name=\"login\"]'' (xc_username ctx))) (\<lambda>_.
    bnd (fillCredentialField ''#password, input[name=\"password\"]'' (xc_password ctx)) (\<lambda>_.
    bnd (page_do (Page_Click ''input[type=\"submit\"], button[type=\"submit\"]'')) (\<lambda>_.
    bnd (page_do Page_WaitLoaded) (\<lambda>_.
    bnd (completeTotpIfRequired ctx ''GitHubConnector''
      ''#app_totp, input[name=\"app_otp\"], input[name=\"otp\"], input[autocomplete=\"one-time-code\"]''
      ''button[type=\"submit\"], input[type=\"submit\"]'') (\<lambda>_.
    bnd page_url (\<lambda>url.
    bnd (if str_includes url ''/login'' then ret True else bnd page_url (\<lambda>again. ret (str_includes again ''/sessions''))) (\<lambda>failed.
    bnd (require (\<not> failed) (DomainError PermissionDenied ''GitHub login failed or was blocked.'')) (\<lambda>_.
    attempt_finish attempt ''GitHub credentials accepted.'' [(''loginAccepted'', JBool True)])))))))))))))"

definition github_downloadLatestInvoice :: "connector_context \<Rightarrow> download_capture action" where
  "github_downloadLatestInvoice ctx =
    bnd (openBilling ctx) (\<lambda>_.
    bnd (evaluate_and_record ctx DownloadFile None ''Download latest GitHub billing receipt/invoice.'' None
      [(''connector'', JStr ''GitHubConnector'')]) (\<lambda>attempt.
    bnd (ret ''a[href*=\"receipt\"], a[href*=\"invoice\"], a:has-text(\"Download\"), a:has-text(\"PDF\"), a[download]'') (\<lambda>selector.
    bnd (requireVisible selector ''GitHub receipt download control'') (\<lambda>_.
    bnd (downloadWithCapture selector \<lparr>am_actionType = DownloadFile, am_label = ''github-latest-invoice'',
      am_sensitive = False, am_allowDownload = True\<rparr>) (\<lambda>d.
    bnd (attempt_finish attempt ''Latest GitHub invoice downloaded.'' (download_metadata d)) (\<lambda>_.
    ret d))))))"

definition month_ms :: nat where
  "month_ms = 30 * 24 * 60 * 60 * 1000"

definition github_readRenewalInfo :: "connector_context \<Rightarrow> renewal_info action" where
  "github_readRenewalInfo ctx =
    bnd (openBilling ctx) (\<lambda>_.
    bnd (evaluate_and_record ctx ReadPage None ''Extract GitHub plan/renewal data.'' None
      [(''connector'', JStr ''GitHubConnector'')]) (\<lambda>attempt.
    bnd (page_ask (Page_Text ''body'')) (\<lambda>body.
    bnd (ret (centsFromText (amount_match body))) (\<lambda>price.
    bnd (require (\<not> (github_plan_match body = None \<and> price = 0)) (page_structure_changed ''GitHub billing page'')) (\<lambda>_.
    bnd new_date (\<lambda>now.
    bnd (iso_of (now + month_ms)) (\<lambda>date.
    bnd (ret (built_info ''GitHub'' (coalesce (github_plan_match body) ''Unknown'') price (take 10 date)
      (digits_value (coalesce (seats_match body) ''1'')) (1 / 5) ''Review GitHub seat usage before renewal.'')) (\<lambda>info.
    bnd (attempt_finish attempt ''GitHub renewal data extracted.''
      (map (\<lambda>k. (k, info_field info k)) [''renewalDate'', ''seatCount''])) (\<lambda>_.
    ret info)))))))))"

definition github_prepareDowngrade :: "connector_context \<Rightarrow> proposed_action action" where
  "github_prepareDowngrade ctx =
    bnd (github_readRenewalInfo ctx) (\<lambda>info.
    bnd (info_text info ''currentPlan'') (\<lambda>plan.
    bnd (ret (evaluateAction ChangePlan None)) (\<lambda>policy.
    bnd (evaluate_and_record ctx ChangePlan None (''Prepare GitHub plan downgrade from '' @ plan @ ''.'')
      (Some (info_field info ''estimatedMonthlySavingsCents''))
      [(''connector'', JStr ''GitHubConnector''), (''currentPlan'', info_field info ''currentPlan''),
       (''approvalRequired'', JBool (wp_decision policy = Decide_RequireApproval))]) (\<lambda>attempt.
    ret \<lparr>pa_policyDecision = wp_decision policy, pa_riskLevel = wp_riskLevel policy, pa_attemptId = attempt,
      pa_summary = ''Downgrade GitHub plan from '' @ plan @ ''.'',
      pa_amountCents = info_field info ''estimatedMonthlySavingsCents'',
      pa_metadata = [(''vendorName'', info_field info ''vendorName''), (''currentPlan'', info_field info ''currentPlan''),
        (''targetPlan'', JStr (coalesce (readMetadataString (xc_metadata ctx) ''targetPlan'') ''Free'')),
        (''renewalDate'', info_field info ''renewalDate'')]\<rparr>))))"

definition github_submitDowngrade :: "connector_context \<Rightarrow> action_result action" where
  "github_submitDowngrade ctx =
    bnd (require (truthy (xc_approvalToken ctx))
      (DomainError ApprovalRequired ''Approval token is required before submitting a GitHub downgrade.'')) (\<lambda>_.
    bnd (openBilling ctx) (\<lambda>_.
    bnd (github_readRenewalInfo ctx) (\<lambda>info.
    bnd (info_text info ''currentPlan'') (\<lambda>plan.
    bnd (require (wp_decision (evaluateAction ChangePlan (xc_approvalToken ctx)) = Decide_Allow)
      (DomainError ApprovalRequired ''GitHub downgrade policy did not allow submission.'')) (\<lambda>_.
    bnd (evaluate_and_record ctx ChangePlan (xc_approvalToken ctx) (''Submit approved GitHub downgrade from '' @ plan @ ''.'')
      (Some (info_field info ''estimatedMonthlySavingsCents''))
      [(''connector'', JStr ''GitHubConnector''), (''approvalTokenPresent'', JBool True)]) (\<lambda>attempt.
    bnd (ret ''button:has-text(\"Downgrade\"), button:has-text(\"Change plan\"), button:has-text(\"Confirm\"), button:has-text(\"Update\")'') (\<lambda>selector.
    bnd (requireVisible selector ''GitHub plan change confirm control'') (\<lambda>_.
    bnd (clickWithActionAttempt selector \<lparr>am_actionType = ChangePlan, am_label = ''github-submit-downgrade'',
      am_sensitive = True, am_allowDownload = False\<rparr>) (\<lambda>_.
    bnd (page_do Page_WaitLoaded) (\<lambda>_.
    bnd (attempt_finish attempt ''Approved GitHub downgrade submitted.'' []) (\<lambda>_.
    ret \<lparr>ar_attemptId = attempt, ar_summary = ''Approved GitHub downgrade submitted.'',
      ar_metadata = [(''currentPlan'', info_field info ''currentPlan'')]\<rparr>)))))))))))"

definition github_connector :: vendor_connector where
  "github_connector = \<lparr>vc_login = github_login, vc_downloadLatestInvoice = github_downloadLatestInvoice,
     vc_readRenewalInfo = github_readRenewalInfo, vc_prepareDowngrade = github_prepareDowngrade,
     vc_submitDowngrade = github_submitDowngrade\<rparr>"

subsection \<open>The registry\<close>

definition resolve_connector :: "connector_type \<Rightarrow> vendor_connector" where
  "resolve_connector t = (case t of
     Connector_StripeBilling \<Rightarrow> stripe_connector | Connector_Github \<Rightarrow> github_connector | Connector_Sandbox \<Rightarrow> sandbox_connector)"

subsection \<open>Effects\<close>

text \<open>What lies outside a connector's reach: everything but the attempts, the browser and the
temporary files.\<close>

definition outside :: "world \<Rightarrow> world" where
  "outside w = w\<lparr>reads := 0, ids := 0, attempts := [], browser := None, disk := Map.empty\<rparr>"

lemma outside_part: "browser_free f \<Longrightarrow> keeps f attempt_t \<Longrightarrow> f (outside w) = f w"
  by (simp add: outside_def browser_free_def keeps_def attempt_t_def)

lemma browser_free_outside [simp, effect_intros]: "browser_free outside" "keeps outside attempt_t"
  by (simp_all add: browser_free_def outside_def keeps_def attempt_t_def)

lemma outside_upd [simp]: "outside (w\<lparr>reads := n\<rparr>) = outside w" "outside (w\<lparr>ids := n\<rparr>) = outside w"
  by (simp_all add: outside_def)

text \<open>The changes of plan recorded as allowed.\<close>

definition plan_changes :: "world \<Rightarrow> string set" where
  "plan_changes w = {at_id a |a. a \<in> set (attempts w) \<and> at_actionType a = ChangePlan \<and> at_policyDecision a = Decide_Allow}"

text \<open>The browser's artifacts stay in its directory.\<close>

definition at_dir :: "string \<Rightarrow> world \<Rightarrow> bool" where
  "at_dir dir w \<longleftrightarrow> (\<forall>b. browser w = Some b \<longrightarrow> bc_artifactDir b = dir)"

definition disk_within :: "string \<Rightarrow> world \<Rightarrow> world \<Rightarrow> bool" where
  "disk_within dir w w' \<longleftrightarrow> (at_dir dir w \<longrightarrow> at_dir dir w'
     \<and> (\<forall>p. \<not> starts_with p (dir @ ''/'') \<longrightarrow> disk w' p = disk w p))"

text \<open>What an operation of a connector with an approval token may do to the world.\<close>

definition connector_ok :: "string option \<Rightarrow> string \<Rightarrow> world \<Rightarrow> world \<Rightarrow> bool" where
  "connector_ok token dir w w' \<longleftrightarrow> outside w' = outside w \<and> later w w' \<and> disk_within dir w w'
     \<and> (truthy token \<or> plan_changes w' \<subseteq> plan_changes w)"

interpretation within: effect_order "disk_within dir" for dir
  by unfold_locales (auto simp: disk_within_def)

interpretation connector_ok: effect_order "connector_ok token dir" for token dir
  by unfold_locales
    (auto simp: connector_ok_def dest: within.R_trans later.R_trans intro: within.R_refl later.R_refl)

lemma connector_okI:
  assumes "effect (same_of outside) m w" "effect later m w" "effect (disk_within dir) m w" "effect (same_of attempts) m w"
  shows "effect (connector_ok token dir) m w"
  using assms by (simp add: effect_def connector_ok_def same_of_def plan_changes_def)

subsubsection \<open>The browser\<close>

lemma within_same [intro]:
  assumes "effect (same_of (\<lambda>w. (browser w, disk w))) m w"
  shows "effect (disk_within dir) m w"
  using assms by (simp add: effect_def same_of_def disk_within_def at_dir_def)

lemma within_leaves [effect_intros]:
  "effect (disk_within dir) (page_ask q) w" "effect (disk_within dir) (lookup h) w"
  "effect (disk_within dir) new_date w" "effect (disk_within dir) fresh_id w"
  "effect (disk_within dir) (write_disk (dir @ CHR ''/'' # p) b) w"
  "(\<And>b. bc_artifactDir (g b) = bc_artifactDir b) \<Longrightarrow> effect (disk_within dir) (context_set g) w"
  by (simp_all add: effect_def disk_within_def at_dir_def page_ask_def lookup_def new_date_def fresh_id_def write_disk_def
      context_set_def modify_def starts_with_def, auto)

lemma within_context [effect_intros]: "effect (disk_within dir) (context_get g) w"
  unfolding context_get_def by (intro effect_intros)

lemma within_dir [effect_intros]:
  assumes "effect (disk_within dir) (f dir) w"
  shows "effect (disk_within dir) (bnd (context_get bc_artifactDir) f) w"
proof (cases "\<exists>b. browser w = Some b \<and> bc_artifactDir b \<noteq> dir")
  case True
  then have "\<not> at_dir dir w" by (auto simp: at_dir_def)
  then show ?thesis by (simp add: effect_def disk_within_def)
next
  case False
  with assms show ?thesis
    by (cases "browser w") (auto simp: context_get_run effect_def context_get_def bnd_assoc step_simps intro: within.R_refl)
qed

lemma within_browser [effect_intros]:
  "effect (disk_within dir) (page_do q) w"
  "effect (disk_within dir) closeContext w"
  "effect (disk_within dir) (isAllowedNetworkUrl u) w"
  "effect (disk_within dir) (navigateWithPolicy u) w"
  "effect (disk_within dir) (fillCredentialField s v) w"
  "effect (disk_within dir) (readFile p) w"
  "effect (disk_within dir) (captureScreenshot l) w"
  "effect (disk_within dir) (clickWithActionAttempt s m) w"
  "effect (disk_within dir) (downloadWithCapture s m) w"
  unfolding browser_defs readFile_def bnd_ret by (intro effect_intros; simp)+

lemma connector_browser [effect_intros]:
  "effect (connector_ok token dir) (page_ask q) w"
  "effect (connector_ok token dir) (page_do q) w"
  "effect (connector_ok token dir) (navigateWithPolicy u) w"
  "effect (connector_ok token dir) (fillCredentialField s v) w"
  "effect (connector_ok token dir) (clickWithActionAttempt s m) w"
  "effect (connector_ok token dir) (downloadWithCapture s m) w"
  "effect (connector_ok token dir) new_date w"
  "effect (connector_ok token dir) fresh_id w"
  by (intro connector_okI effect_intros; simp)+

lemma connector_absolute_url [effect_intros]: "effect (connector_ok token dir) (absolute_url p b) w"
  by (simp add: effect_def absolute_url_def connector_ok.R_refl)

lemma connector_find [effect_intros]: "effect (connector_ok token dir) (find_first t P) w"
  by (simp add: effect_def find_first_def gets_def connector_ok.R_refl)

subsubsection \<open>Attempts\<close>

lemma amount_column_still: "snd (amount_column v w) = w"
  by (simp add: amount_column_def run_simps split: option.splits json.splits)

lemma create_attempt_ok:
  assumes "at_actionType a = ChangePlan \<Longrightarrow> at_policyDecision a = Decide_Allow \<Longrightarrow> truthy token"
  shows "effect (connector_ok token dir) (create_row attempt_t a) w"
proof -
  have "effect later (create_row attempt_t a) w" by (intro effect_intros)
  moreover have "effect (disk_within dir) (create_row attempt_t a) w" by (rule within_same) (intro effect_intros, simp add: keeps_defs)
  moreover have "effect (same_of outside) (create_row attempt_t a) w" by (intro effect_intros)
  ultimately show ?thesis
    using assms by (auto simp: effect_def connector_ok_def same_of_def plan_changes_def create_row_def attempt_t_def step_simps)
qed

lemma finish_attempt_ok:
  assumes "\<And>a. at_id (g a) = at_id a \<and> at_actionType (g a) = at_actionType a \<and> at_policyDecision (g a) = at_policyDecision a"
  shows "effect (connector_ok token dir) (update_row attempt_t e k g) w"
proof -
  have "effect later (update_row attempt_t e k g) w" by (intro effect_intros)
  moreover have "effect (disk_within dir) (update_row attempt_t e k g) w" by (rule within_same) (intro effect_intros, simp add: keeps_defs)
  moreover have "effect (same_of outside) (update_row attempt_t e k g) w" by (intro effect_intros)
  moreover have "plan_changes (snd (update_row attempt_t e k g w)) \<subseteq> plan_changes w"
    using assms by (auto simp: plan_changes_def update_row_def attempt_t_def upd_row_def split: option.splits)
  ultimately show ?thesis
    by (simp add: effect_def connector_ok_def same_of_def)
qed

lemma attempt_finish_ok [effect_intros]: "effect (connector_ok token dir) (attempt_finish k s m) w"
  unfolding attempt_finish_def by (intro effect_intros finish_attempt_ok; simp)

lemma attempt_record_ok:
  assumes "cm_actionType i = ChangePlan \<Longrightarrow> cm_policyDecision i = Decide_Allow \<Longrightarrow> truthy token"
  shows "effect (connector_ok token dir) (attempt_record i) w"
  unfolding attempt_record_def toPrismaPolicyDecision_def
  by (intro effect_intros create_attempt_ok; (simp add: effect_def amount_column_still connector_ok.R_refl; fail)?)
    (use assms in \<open>auto simp: ret_def throw_def split: if_splits\<close>)

lemma policy_gate: "wp_decision (evaluateAction ChangePlan token) = Decide_Allow \<longleftrightarrow> truthy token"
  by (simp add: evaluateAction_def deniedActions_def riskyActions_def List.member_iff)

lemma evaluate_and_record_ok [effect_intros]:
  assumes "act = ChangePlan \<longrightarrow> truthy tok \<longrightarrow> truthy token"
  shows "effect (connector_ok token dir) (evaluate_and_record ctx act tok s amount m) w"
  unfolding evaluate_and_record_def page_url_def
  by (intro effect_intros attempt_record_ok) (use assms in \<open>auto simp: policy_gate\<close>)

subsubsection \<open>Helpers\<close>

lemma info_text_ok [effect_intros]: "effect (connector_ok token dir) (info_text info k) w"
  unfolding info_text_def by (intro effect_intros)

lemma requireVisible_ok [effect_intros]: "effect (connector_ok token dir) (requireVisible s d) w"
  unfolding requireVisible_def by (intro effect_intros)

lemma page_url_ok [effect_intros]: "effect (connector_ok token dir) page_url w"
  unfolding page_url_def by (intro effect_intros)

lemma mfa_ok [effect_intros]:
  "effect (connector_ok token dir) pageLooksLikeMfa w"
  "effect (connector_ok token dir) (completeTotpIfRequired ctx n c s) w"
  unfolding completeTotpIfRequired_def pageLooksLikeMfa_def by (intro effect_intros)+

lemma pages_ok [effect_intros]:
  "effect (connector_ok token dir) (ensureBillingPage ctx) w"
  "effect (connector_ok token dir) (parseRenewalInfo raw) w"
  "effect (connector_ok token dir) (openInvoices ctx) w"
  "effect (connector_ok token dir) (openSubscriptions ctx) w"
  "effect (connector_ok token dir) (openBilling ctx) w"
  "effect (connector_ok token dir) today w"
  unfolding ensureBillingPage_def parseRenewalInfo_def openInvoices_def openSubscriptions_def openBilling_def today_def iso_of_def
  by (intro effect_intros)+

subsection \<open>The interface of a connector\<close>

text \<open>
  What the executor relies on. No operation of a connector reaches beyond attempts, browser and
  temporary files, artifacts stay in the directory of the browser, and a change of plan is
  recorded as allowed only with the token of an approval.
\<close>

locale vendor_interface =
  fixes connector :: vendor_connector
  assumes login: "effect (connector_ok (xc_approvalToken ctx) dir) (vc_login connector ctx) w"
    and download: "effect (connector_ok (xc_approvalToken ctx) dir) (vc_downloadLatestInvoice connector ctx) w"
    and renewal: "effect (connector_ok (xc_approvalToken ctx) dir) (vc_readRenewalInfo connector ctx) w"
    and prepare: "effect (connector_ok (xc_approvalToken ctx) dir) (vc_prepareDowngrade connector ctx) w"
    and submit: "effect (connector_ok (xc_approvalToken ctx) dir) (vc_submitDowngrade connector ctx) w"
    and submit_refused: "\<not> truthy (xc_approvalToken ctx) \<Longrightarrow>
      \<exists>m. vc_submitDowngrade connector ctx w = (Inl (DomainError ApprovalRequired m), w)"
begin

lemma no_token_no_change:
  assumes "\<not> truthy (xc_approvalToken ctx)"
  shows "plan_changes (snd (vc_login connector ctx w)) \<subseteq> plan_changes w"
    and "plan_changes (snd (vc_prepareDowngrade connector ctx w)) \<subseteq> plan_changes w"
    and "plan_changes (snd (vc_submitDowngrade connector ctx w)) = plan_changes w"
  using login [of ctx undefined w] prepare [of ctx undefined w] submit_refused [OF assms, of w] assms
  by (auto simp: effect_def connector_ok_def)

lemma outside_kept:
  assumes "browser_free f" and "keeps f attempt_t"
  shows "f (snd (vc_login connector ctx w)) = f w" "f (snd (vc_downloadLatestInvoice connector ctx w)) = f w"
    "f (snd (vc_readRenewalInfo connector ctx w)) = f w" "f (snd (vc_prepareDowngrade connector ctx w)) = f w"
    "f (snd (vc_submitDowngrade connector ctx w)) = f w"
  using login [of ctx undefined w] download [of ctx undefined w] renewal [of ctx undefined w] prepare [of ctx undefined w]
    submit [of ctx undefined w] outside_part [OF assms]
  unfolding effect_def connector_ok_def by metis+

end

lemma renewal_ok [effect_intros]:
  "effect (connector_ok token dir) (sandbox_readRenewalInfo ctx) w"
  "effect (connector_ok token dir) (stripe_readRenewalInfo ctx) w"
  "effect (connector_ok token dir) (github_readRenewalInfo ctx) w"
  unfolding sandbox_readRenewalInfo_def stripe_readRenewalInfo_def github_readRenewalInfo_def iso_of_def
  by (intro effect_intros; simp)+

lemma logins_ok:
  "effect (connector_ok token dir) (sandbox_login ctx) w"
  "effect (connector_ok token dir) (stripe_login ctx) w"
  "effect (connector_ok token dir) (github_login ctx) w"
  unfolding sandbox_login_def stripe_login_def github_login_def by (intro effect_intros; simp)+

lemma downloads_ok:
  "effect (connector_ok token dir) (sandbox_downloadLatestInvoice ctx) w"
  "effect (connector_ok token dir) (stripe_downloadLatestInvoice ctx) w"
  "effect (connector_ok token dir) (github_downloadLatestInvoice ctx) w"
  unfolding sandbox_downloadLatestInvoice_def stripe_downloadLatestInvoice_def github_downloadLatestInvoice_def
  by (intro effect_intros; simp)+

lemma proposals_ok:
  "effect (connector_ok token dir) (sandbox_prepareDowngrade ctx) w"
  "effect (connector_ok token dir) (stripe_prepareDowngrade ctx) w"
  "effect (connector_ok token dir) (github_prepareDowngrade ctx) w"
  unfolding sandbox_prepareDowngrade_def stripe_prepareDowngrade_def github_prepareDowngrade_def
  by (intro effect_intros; simp add: truthy_def)+

lemma submissions_ok:
  "effect (connector_ok (xc_approvalToken ctx) dir) (sandbox_submitDowngrade ctx) w"
  "effect (connector_ok (xc_approvalToken ctx) dir) (stripe_submitDowngrade ctx) w"
  "effect (connector_ok (xc_approvalToken ctx) dir) (github_submitDowngrade ctx) w"
  unfolding sandbox_submitDowngrade_def stripe_submitDowngrade_def github_submitDowngrade_def
  by (intro effect_intros; simp)+

lemma submissions_refused:
  assumes "\<not> truthy (xc_approvalToken ctx)"
  shows "\<exists>m. sandbox_submitDowngrade ctx w = (Inl (DomainError ApprovalRequired m), w)"
    "\<exists>m. stripe_submitDowngrade ctx w = (Inl (DomainError ApprovalRequired m), w)"
    "\<exists>m. github_submitDowngrade ctx w = (Inl (DomainError ApprovalRequired m), w)"
  using assms unfolding sandbox_submitDowngrade_def stripe_submitDowngrade_def github_submitDowngrade_def
  by (auto simp: step_simps)

lemmas connector_ops_ok = logins_ok downloads_ok renewal_ok proposals_ok submissions_ok submissions_refused

interpretation sandbox: vendor_interface sandbox_connector
  by unfold_locales (simp_all add: sandbox_connector_def connector_ops_ok)

interpretation stripe: vendor_interface stripe_connector
  by unfold_locales (simp_all add: stripe_connector_def connector_ops_ok)

interpretation github: vendor_interface github_connector
  by unfold_locales (simp_all add: github_connector_def connector_ops_ok)

lemma resolved_connector: "vendor_interface (resolve_connector t)"
  by (cases t) (simp_all add: resolve_connector_def sandbox.vendor_interface_axioms stripe.vendor_interface_axioms
      github.vendor_interface_axioms)

end
