(* ===== verification/Executor.thy ===== *)
theory Executor
  imports Connectors
begin

section \<open>The workflow executor\<close>

text \<open>
  \<open>apps/worker/src/workflow-executor/workflow-executor.service.ts\<close>: what the worker does with a job.
  A job to start runs the workflow of its template in a controlled browser of its own and reports
  the outcome to the API; a job to resume submits the approved change of plan. The temporary
  directory and the browser are gone when the method ends, however it ends (the handlers of a
  failure run beside that clean-up and touch neither). Messages of the log are not modelled.
\<close>

subsection \<open>Data\<close>

datatype execution_status = Execution_completed | Execution_ignored | Execution_skipped

record execution_result =
  er_status :: execution_status
  er_run :: string
  er_message :: string

record executable_run =
  ex_run :: run_row
  ex_config :: json
  ex_template :: workflow_template
  ex_vendor :: "vendor_row option"

record vendor_credentials =
  vk_username :: string
  vk_password :: string
  vk_totpSecret :: "string option"

definition executed :: "string \<Rightarrow> string \<Rightarrow> execution_result" where
  "executed runId message = \<lparr>er_status = Execution_completed, er_run = runId, er_message = message\<rparr>"

definition not_executable :: "string \<Rightarrow> execution_result" where
  "not_executable runId = \<lparr>er_status = Execution_ignored, er_run = runId,
     er_message = ''Workflow run is missing or no longer executable.''\<rparr>"

definition canceled_meanwhile :: "string \<Rightarrow> execution_result" where
  "canceled_meanwhile runId = \<lparr>er_status = Execution_ignored, er_run = runId,
     er_message = ''Workflow run was canceled during execution.''\<rparr>"

definition skipped :: "string \<Rightarrow> string \<Rightarrow> execution_result" where
  "skipped runId message = \<lparr>er_status = Execution_skipped, er_run = runId, er_message = message\<rparr>"

subsection \<open>Runs, policies, credentials\<close>

definition executor_isTerminal :: "workflow_run_status \<Rightarrow> bool" where
  "executor_isTerminal status = List.member [Run_Completed, Run_Failed, Run_Canceled, Run_Denied] status"

definition isPolicyDenial :: "err \<Rightarrow> bool" where
  "isPolicyDenial e = (case e of DomainError c _ \<Rightarrow> c = PolicyDenied | _ \<Rightarrow> False)"

definition executor_nextState :: "json \<Rightarrow> (string \<times> json) list \<Rightarrow> json" where
  "executor_nextState existing entry = JObj (append_to ''workerEvents'' existing (JObj entry))"

definition findExecutableRun :: "string \<Rightarrow> string \<Rightarrow> executable_run option action" where
  "findExecutableRun runId organizationId =
    bnd (find_run runId organizationId) (\<lambda>found.
    case found of
      None \<Rightarrow> ret None
    | Some run \<Rightarrow>
        bnd (find_first workflow_t (\<lambda>x. wf_id x = run_workflow run)) (\<lambda>workflow.
        bnd (require_some workflow (missing_relation ''workflow'')) (\<lambda>workflow.
        bnd (find_first vendor_t (\<lambda>x. run_vendor run = Some (ve_id x))) (\<lambda>vendor.
        if executor_isTerminal (run_status run) then ret None
        else ret (Some \<lparr>ex_run = run, ex_config = wf_config workflow, ex_template = wf_template workflow, ex_vendor = vendor\<rparr>)))))"

definition markStarted :: "run_row \<Rightarrow> string \<Rightarrow> string \<Rightarrow> run_row action" where
  "markStarted run jobId currentStep =
    bnd (case run_startedAt run of Some t \<Rightarrow> ret t | None \<Rightarrow> new_date) (\<lambda>startedAt.
    bnd (iso_of startedAt) (\<lambda>at_time.
    bnd (update_run (run_id run) (\<lambda>r. r\<lparr>run_status := Run_Running, run_startedAt := Some startedAt,
      run_currentStep := Some currentStep,
      run_state := executor_nextState (run_state run)
        [(''jobId'', JStr jobId), (''status'', prisma_status Run_Running), (''at'', JStr at_time)]\<rparr>)) (\<lambda>running.
    bnd (worker_audit \<lparr>wa_org = run_org running, wa_run = Some (run_id running), wa_agent = Some (run_agent running),
      wa_eventType = Ev_WorkflowRunStarted,
      wa_data = [(''workflowRunId'', JStr (run_id running)), (''workflowId'', JStr (run_workflow running)), (''jobId'', JStr jobId)]\<rparr>) (\<lambda>_.
    ret running))))"

definition assertApprovalCanResume :: "executable_run \<Rightarrow> string \<Rightarrow> approval_row action" where
  "assertApprovalCanResume run approvalRequestId =
    bnd (find_first approval_t (\<lambda>p. apr_id p = approvalRequestId \<and> apr_run p = run_id (ex_run run) \<and> apr_org p = run_org (ex_run run))) (\<lambda>found.
    bnd (require_some found (DomainError NotFound ''Approval request was not found.'')) (\<lambda>approval.
    bnd (require (apr_status approval = Approval_Approved \<and> apr_approvedAt approval \<noteq> None)
      (DomainError ApprovalRequired ''Approval must be approved before resume.'')) (\<lambda>_.
    bnd (require (\<not> (case (apr_expiresAt approval, apr_approvedAt approval) of (Some e, Some a) \<Rightarrow> e < a | _ \<Rightarrow> False))
      (DomainError ValidationFailed ''Expired approval cannot resume.'')) (\<lambda>_.
    ret approval))))"

definition assertAgentActiveForResume :: "run_row \<Rightarrow> unit action" where
  "assertAgentActiveForResume run =
    bnd (find_first agent_t (\<lambda>a. ag_id a = run_agent run \<and> ag_org a = run_org run)) (\<lambda>found.
    require (map_option ag_status found = Some Agent_Active)
      (DomainError AgentNotActive ''Agent must be active to resume workflow runs.''))"

definition string_values :: "json option \<Rightarrow> string list" where
  "string_values v = concat (map (\<lambda>x. case x of JStr s \<Rightarrow> [s] | _ \<Rightarrow> []) (as_array v))"

definition isJsonObject :: "json \<Rightarrow> bool" where
  "isJsonObject v = (case v of JObj _ \<Rightarrow> True | _ \<Rightarrow> False)"

text \<open>The snapshot is the list of allowed domains.\<close>

definition loadPolicySnapshot :: "string \<Rightarrow> string \<Rightarrow> string list action" where
  "loadPolicySnapshot organizationId agentId =
    bnd (find_first policy_t (\<lambda>p. po_org p = organizationId \<and> po_agent p = Some agentId
      \<and> po_type p = PolicyType_AgentPolicyBundle \<and> po_status p = Policy_Active)) (\<lambda>found.
    bnd (require (case found of None \<Rightarrow> False | Some p \<Rightarrow> isJsonObject (po_rules p))
      (DomainError PolicyDenied ''Active agent policy was not found.'')) (\<lambda>_.
    bnd (ret (string_values (map_of (as_object (po_rules (the found))) ''allowedDomains''))) (\<lambda>allowedDomains.
    bnd (require (allowedDomains \<noteq> []) (DomainError PolicyDenied ''Policy does not allow any vendor domains.'')) (\<lambda>_.
    ret allowedDomains))))"

definition assertPolicyAllowsDomain :: "string \<Rightarrow> string list \<Rightarrow> unit action" where
  "assertPolicyAllowsDomain url allowedDomains =
    bnd (gets (\<lambda>w. url_host (w_env w) url)) (\<lambda>host.
    bnd (require_some host (JsError ''TypeError'' ''Invalid URL'')) (\<lambda>host.
    require (list_ex (\<lambda>domain. to_lower host = to_lower domain \<or> ends_with (to_lower host) (''.'' @ to_lower domain)) allowedDomains)
      (DomainError PolicyDenied ''Vendor domain is not allowed by policy.'')))"

definition requireVendorUrl :: "executable_run \<Rightarrow> string action" where
  "requireVendorUrl run =
    bnd (require (truthy (map_option ve_website (ex_vendor run)))
      (DomainError ValidationFailed ''Invoice workflow requires a vendor website.'')) (\<lambda>_.
    ret (ve_website (the (ex_vendor run))))"

definition requireCredentialId :: "json \<Rightarrow> string action" where
  "requireCredentialId configurationJson =
    (case map_of (as_object configurationJson) ''credentialId'' of
       Some (JStr k) \<Rightarrow> ret k
     | _ \<Rightarrow> throw (DomainError CredentialUnavailable ''Invoice workflow requires a credentialId.''))"

definition text_field :: "(string \<times> json) list \<Rightarrow> string \<Rightarrow> string option" where
  "text_field fs k = (case map_of fs k of Some (JStr s) \<Rightarrow> Some s | _ \<Rightarrow> None)"

definition decryptCredentials :: "string \<Rightarrow> string \<Rightarrow> vendor_credentials action" where
  "decryptCredentials credentialId workflowRunId =
    bnd (decryptCredentialForRun credentialId workflowRunId) (\<lambda>decrypted.
    bnd (ret (text_field (dc_secret decrypted))) (\<lambda>field.
    bnd (require (field ''username'' \<noteq> None \<and> field ''password'' \<noteq> None)
      (DomainError CredentialUnavailable ''Credential payload must include username and password.'')) (\<lambda>_.
    ret \<lparr>vk_username = the (field ''username''), vk_password = the (field ''password''),
         vk_totpSecret = or_else (field ''totpSecret'') (field ''totp'')\<rparr>)))"

definition buildConnectorContext ::
  "run_row \<Rightarrow> string \<Rightarrow> vendor_credentials \<Rightarrow> vendor_row option \<Rightarrow> string option \<Rightarrow> connector_context" where
  "buildConnectorContext run baseUrl login vendor approvalToken =
    \<lparr>xc_run = run_id run, xc_org = run_org run, xc_agent = run_agent run, xc_vendor = run_vendor run, xc_baseUrl = baseUrl,
     xc_username = vk_username login, xc_password = vk_password login, xc_totpSecret = vk_totpSecret login,
     xc_approvalToken = approvalToken,
     xc_metadata = (case map_option ve_metadata vendor of Some (JObj fs) \<Rightarrow> Some fs | _ \<Rightarrow> None)\<rparr>"

subsection \<open>The browser of an execution\<close>

definition artifact_dir :: "run_row \<Rightarrow> string action" where
  "artifact_dir run = bnd fresh_id (\<lambda>suffix. gets (\<lambda>w. tmpdir (w_env w) @ ''/agentpass-run-'' @ run_id run @ ''-'' @ suffix))"

definition remove_dir :: "string \<Rightarrow> unit action" where
  "remove_dir dir = modify (\<lambda>w. w\<lparr>disk := (\<lambda>p. if starts_with p (dir @ ''/'') then None else disk w p)\<rparr>)"

definition close_and_remove :: "string \<Rightarrow> unit action" where
  "close_and_remove dir =
    bnd (gets browser) (\<lambda>b.
    bnd (run_if (b \<noteq> None) closeContext) (\<lambda>_.
    remove_dir dir))"

text \<open>\<open>try { ... } catch (error) { return handler(run, error) } finally { close, remove }\<close>.\<close>

definition with_artifacts :: "run_row \<Rightarrow> (string \<Rightarrow> 'a action) \<Rightarrow> (err \<Rightarrow> 'a action) \<Rightarrow> 'a action" where
  "with_artifacts run body handler =
    bnd (artifact_dir run) (\<lambda>dir.
    bnd (modify (\<lambda>w. w\<lparr>browser := None\<rparr>)) (\<lambda>_.
    try_finally (try_catch (body dir) handler) (close_and_remove dir)))"

record vendor_session =
  vs_allowedDomains :: "string list"
  vs_baseUrl :: string
  vs_credentials :: vendor_credentials

definition open_session :: "executable_run \<Rightarrow> run_row \<Rightarrow> string \<Rightarrow> vendor_session action" where
  "open_session run running dir =
    bnd (loadPolicySnapshot (run_org running) (run_agent running)) (\<lambda>allowedDomains.
    bnd (requireVendorUrl run) (\<lambda>baseUrl.
    bnd (assertPolicyAllowsDomain baseUrl allowedDomains) (\<lambda>_.
    bnd (requireCredentialId (ex_config run)) (\<lambda>credentialId.
    bnd (decryptCredentials credentialId (run_id running)) (\<lambda>credentials.
    bnd (gets (\<lambda>w. \<not> production (w_env w) \<or> allowLocalProduction (w_env w))) (\<lambda>allowPrivateNetwork.
    bnd (createControlledContext allowedDomains dir allowPrivateNetwork) (\<lambda>_.
    ret \<lparr>vs_allowedDomains = allowedDomains, vs_baseUrl = baseUrl, vs_credentials = credentials\<rparr>)))))))"

definition record_page_policy :: "run_row \<Rightarrow> string list \<Rightarrow> unit action" where
  "record_page_policy running allowedDomains =
    bnd (recordRunEvent (run_id running) (run_org running) Ev_PolicyEvaluated
      [(''actionType'', JStr (action_type_value OpenPage)), (''decision'', JStr ''allow''),
       (''allowedDomains'', JArr (map JStr allowedDomains))]) (\<lambda>_. ret ())"

definition connector_for :: "executable_run \<Rightarrow> vendor_connector action" where
  "connector_for run =
    bnd (assertSupports (map_option (\<lambda>v. prisma_enum (connector_type_value (ve_connectorType v))) (ex_vendor run))
      (prisma_enum (workflow_template_value (ex_template run)))) (\<lambda>t.
    ret (resolve_connector t))"

definition session_context :: "executable_run \<Rightarrow> run_row \<Rightarrow> vendor_session \<Rightarrow> string option \<Rightarrow> connector_context" where
  "session_context run running session approvalToken =
    buildConnectorContext running (vs_baseUrl session) (vs_credentials session) (ex_vendor run) approvalToken"

definition executor_uploadInvoice :: "run_row \<Rightarrow> string \<Rightarrow> string \<Rightarrow> unit action" where
  "executor_uploadInvoice run path suggestedFilename =
    bnd (readFile path) (\<lambda>buffer.
    bnd (gets (\<lambda>w. base64_text (w_env w) buffer)) (\<lambda>bufferBase64.
    bnd (uploadRunFile (run_id run) (run_org run) File_Invoice suggestedFilename ''application/pdf'' bufferBase64) (\<lambda>_.
    ret ())))"

definition basename :: "string \<Rightarrow> string" where
  "basename path = last (split_on (CHR ''/'') path)"

definition executor_uploadScreenshot :: "run_row \<Rightarrow> string \<Rightarrow> file_dto action" where
  "executor_uploadScreenshot run path =
    bnd (readFile path) (\<lambda>buffer.
    bnd (gets (\<lambda>w. base64_text (w_env w) buffer)) (\<lambda>bufferBase64.
    uploadRunScreenshot (run_id run) (run_org run) (basename path) ''image/png'' bufferBase64))"

definition photograph :: "run_row \<Rightarrow> string \<Rightarrow> file_dto action" where
  "photograph run label =
    bnd (captureScreenshot label) (\<lambda>screenshot. executor_uploadScreenshot run (sc_path screenshot))"

subsection \<open>Failures\<close>

definition deny_run :: "executable_run \<Rightarrow> string \<Rightarrow> string \<Rightarrow> run_row action" where
  "deny_run run message summary =
    bnd new_date (\<lambda>completedAt.
    bnd new_date (\<lambda>now.
    bnd (iso_of now) (\<lambda>at_time.
    bnd (update_run (run_id (ex_run run)) (\<lambda>r. r\<lparr>run_status := Run_Denied, run_completedAt := Some completedAt,
      run_currentStep := Some ''policy_denied'', run_errorMessage := Some message,
      run_state := executor_nextState (run_state (ex_run run))
        [(''status'', prisma_status Run_Denied), (''reason'', JStr message), (''at'', JStr at_time)]\<rparr>)) (\<lambda>denied.
    bnd (worker_audit \<lparr>wa_org = run_org denied, wa_run = Some (run_id denied), wa_agent = Some (run_agent denied),
      wa_eventType = Ev_WorkflowRunDenied,
      wa_data = [(''workflowRunId'', JStr (run_id denied)), (''workflowId'', JStr (run_workflow denied)), (''reason'', JStr message)]\<rparr>) (\<lambda>_.
    bnd (receipt_createForRun \<lparr>wr_run = run_id denied, wr_finalStatus = Receipt_Denied, wr_summary = summary, wr_result = None\<rparr>) (\<lambda>_.
    ret denied))))))"

definition fail_run :: "executable_run \<Rightarrow> err \<Rightarrow> string \<Rightarrow> string \<Rightarrow> unit action" where
  "fail_run run error step summary =
    bnd (call_failRun (run_id (ex_run run)) (run_org (ex_run run))
      \<lparr>wx_errorMessage = err_message error, wx_currentStep = Some step, wx_state = Some [(''failureType'', JStr (err_name error))]\<rparr>) (\<lambda>_.
    bnd (receipt_createForRun \<lparr>wr_run = run_id (ex_run run), wr_finalStatus = Receipt_Failed, wr_summary = summary, wr_result = None\<rparr>) (\<lambda>_.
    ret ()))"

definition handleInvoiceFailure :: "executable_run \<Rightarrow> err \<Rightarrow> execution_result action" where
  "handleInvoiceFailure run error =
    (if isPolicyDenial error
     then bnd (deny_run run (err_message error) (''Invoice download denied: '' @ err_message error)) (\<lambda>denied.
          ret (executed (run_id denied) ''Invoice download workflow was denied by policy.''))
     else bnd (fail_run run error ''invoice_download_failed'' (''Invoice download failed: '' @ err_message error)) (\<lambda>_.
          ret (executed (run_id (ex_run run)) ''Invoice download workflow failed.'')))"

definition handleRenewalFailure :: "executable_run \<Rightarrow> err \<Rightarrow> execution_result action" where
  "handleRenewalFailure run error =
    (if isPolicyDenial error
     then bnd (deny_run run (err_message error) (''Renewal check denied: '' @ err_message error)) (\<lambda>denied.
          ret (executed (run_id denied) ''Renewal check workflow was denied by policy.''))
     else bnd (fail_run run error ''renewal_check_failed'' (''Renewal check failed: '' @ err_message error)) (\<lambda>_.
          ret (executed (run_id (ex_run run)) ''Renewal check workflow failed.'')))"

definition handlePlanDowngradeFailure :: "executable_run \<Rightarrow> string \<Rightarrow> err \<Rightarrow> execution_result action" where
  "handlePlanDowngradeFailure run heading error =
    (if isPolicyDenial error
     then bnd (deny_run run (err_message error) (heading @ '': '' @ err_message error)) (\<lambda>denied.
          ret (executed (run_id denied) (heading @ '' by policy.'')))
     else bnd (fail_run run error ''plan_downgrade_failed'' (heading @ '': '' @ err_message error)) (\<lambda>_.
          ret (executed (run_id (ex_run run)) (heading @ ''.''))))"

subsection \<open>Invoices\<close>

definition complete_run :: "run_row \<Rightarrow> string \<Rightarrow> string \<Rightarrow> (string \<times> json) list \<Rightarrow> unit action" where
  "complete_run running step summary state =
    bnd (call_completeRun (run_id running) (run_org running)
      \<lparr>wc_resultSummary = Some summary, wc_currentStep = Some step, wc_state = Some state\<rparr>) (\<lambda>_. ret ())"

definition completed_receipt :: "run_row \<Rightarrow> string \<Rightarrow> (string \<times> json) list option \<Rightarrow> unit action" where
  "completed_receipt running summary result =
    bnd (receipt_createForRun \<lparr>wr_run = run_id running, wr_finalStatus = Receipt_Completed, wr_summary = summary, wr_result = result\<rparr>) (\<lambda>_.
    ret ())"

definition download_invoice :: "executable_run \<Rightarrow> run_row \<Rightarrow> string \<Rightarrow> string \<Rightarrow> execution_result action" where
  "download_invoice run running jobId dir =
    bnd (open_session run running dir) (\<lambda>session.
    bnd (record_page_policy running (vs_allowedDomains session)) (\<lambda>_.
    bnd (connector_for run) (\<lambda>connector.
    bnd (ret (session_context run running session None)) (\<lambda>ctx.
    bnd (vc_login connector ctx) (\<lambda>_.
    bnd (vc_downloadLatestInvoice connector ctx) (\<lambda>invoice.
    bnd (executor_uploadInvoice running (dl_path invoice) (dl_suggestedFilename invoice)) (\<lambda>_.
    bnd (photograph running ''invoice-download-complete'') (\<lambda>_.
    bnd (recordRunEvent (run_id running) (run_org running) Ev_FileDownloaded
      [(''workflowRunId'', JStr (run_id running)), (''filename'', JStr (dl_suggestedFilename invoice)),
       (''sha256'', JStr (dl_sha256 invoice)), (''sizeBytes'', JNum (of_nat (dl_sizeBytes invoice)))]) (\<lambda>_.
    bnd (complete_run running ''invoice_download_completed''
      (''Downloaded latest invoice '' @ dl_suggestedFilename invoice @ ''.'')
      [(''jobId'', JStr jobId), (''invoiceFilename'', JStr (dl_suggestedFilename invoice)),
       (''invoiceSha256'', JStr (dl_sha256 invoice))]) (\<lambda>_.
    bnd (completed_receipt running (''Invoice download completed for workflow run '' @ run_id running @ ''.'') None) (\<lambda>_.
    ret (executed (run_id running) ''Invoice download workflow completed.''))))))))))))"

definition executeInvoiceDownload :: "job_data \<Rightarrow> string \<Rightarrow> execution_result action" where
  "executeInvoiceDownload data jobId =
    bnd (findExecutableRun (jd_run data) (jd_org data)) (\<lambda>found.
    case found of
      None \<Rightarrow> ret (not_executable (jd_run data))
    | Some run \<Rightarrow>
        with_artifacts (ex_run run) (\<lambda>dir.
          bnd (markStarted (ex_run run) jobId ''invoice_download_started'') (\<lambda>running.
          bnd (heartbeat (run_id running) jobId) (\<lambda>_.
          bnd (isCanceled (run_id running)) (\<lambda>canceled.
          if canceled then ret (canceled_meanwhile (run_id running))
          else download_invoice run running jobId dir))))
        (handleInvoiceFailure run))"

subsection \<open>Renewals\<close>

text \<open>A number that is none (\<open>NaN\<close>) is written to JSON as \<open>null\<close>.\<close>

definition number_json :: "rat option \<Rightarrow> json" where
  "number_json v = (case v of None \<Rightarrow> JNull | Some q \<Rightarrow> JNum q)"

definition difference :: "rat option \<Rightarrow> rat option \<Rightarrow> rat option" where
  "difference a b = (case (a, b) of (Some p, Some q) \<Rightarrow> Some (p - q) | _ \<Rightarrow> None)"

record renewal_result =
  rr_info :: renewal_info
  rr_monthlyPriceIncreaseCents :: "rat option"
  rr_monthlyPriceIncreasePercent :: "rat option"
  rr_annualizedSavingsOpportunityCents :: "rat option"

definition buildRenewalResult :: "env \<Rightarrow> renewal_info \<Rightarrow> renewal_result" where
  "buildRenewalResult e info =
    (let current = js_number e (info_field info ''currentMonthlyPriceCents'');
         increase = difference (js_number e (info_field info ''renewalMonthlyPriceCents'')) current
     in \<lparr>rr_info = info, rr_monthlyPriceIncreaseCents = increase,
         rr_monthlyPriceIncreasePercent =
           (case current of
              Some c \<Rightarrow> if 0 < c then map_option (\<lambda>i. of_int (js_round (i / c * 10000)) / 100) increase else Some 0
            | None \<Rightarrow> Some 0),
         rr_annualizedSavingsOpportunityCents =
           map_option (\<lambda>s. s * 12) (js_number e (info_field info ''estimatedMonthlySavingsCents''))\<rparr>)"

definition renewal_fields :: "renewal_result \<Rightarrow> (string \<times> json) list" where
  "renewal_fields r = spread (rr_info r)
     [(''monthlyPriceIncreaseCents'', number_json (rr_monthlyPriceIncreaseCents r)),
      (''monthlyPriceIncreasePercent'', number_json (rr_monthlyPriceIncreasePercent r)),
      (''annualizedSavingsOpportunityCents'', number_json (rr_annualizedSavingsOpportunityCents r))]"

definition formatCents :: "env \<Rightarrow> rat option \<Rightarrow> string" where
  "formatCents e cents = ''$'' @ (case cents of None \<Rightarrow> ''NaN'' | Some q \<Rightarrow> to_fixed e (q / 100))"

definition renewalSummary :: "env \<Rightarrow> renewal_result \<Rightarrow> string" where
  "renewalSummary e r =
    js_text e (info_field (rr_info r) ''vendorName'') @ '' renews on '' @ js_text e (info_field (rr_info r) ''renewalDate'')
      @ '': monthly price increases by '' @ formatCents e (rr_monthlyPriceIncreaseCents r)
      @ '', with '' @ formatCents e (js_number e (info_field (rr_info r) ''estimatedMonthlySavingsCents''))
      @ '' monthly savings opportunity.''"

definition check_renewal :: "executable_run \<Rightarrow> run_row \<Rightarrow> string \<Rightarrow> string \<Rightarrow> execution_result action" where
  "check_renewal run running jobId dir =
    bnd (open_session run running dir) (\<lambda>session.
    bnd (record_page_policy running (vs_allowedDomains session)) (\<lambda>_.
    bnd (connector_for run) (\<lambda>connector.
    bnd (ret (session_context run running session None)) (\<lambda>ctx.
    bnd (vc_login connector ctx) (\<lambda>_.
    bnd (vc_readRenewalInfo connector ctx) (\<lambda>renewal.
    bnd (gets (\<lambda>w. buildRenewalResult (w_env w) renewal)) (\<lambda>result.
    bnd (gets (\<lambda>w. renewalSummary (w_env w) result)) (\<lambda>summary.
    bnd (recordRunEvent (run_id running) (run_org running) Ev_PolicyEvaluated
      [(''actionType'', JStr (action_type_value ReadPage)), (''decision'', JStr ''allow''), (''riskLevel'', JStr ''low''),
       (''extractedFields'', JArr (map (JStr \<circ> fst) (renewal_fields result)))]) (\<lambda>_.
    bnd (photograph running ''renewal-check-complete'') (\<lambda>_.
    bnd (complete_run running ''renewal_check_completed'' summary
      [(''jobId'', JStr jobId), (''renewalResult'', JObj (renewal_fields result))]) (\<lambda>_.
    bnd (completed_receipt running summary (Some (renewal_fields result))) (\<lambda>_.
    ret (executed (run_id running) ''Renewal check workflow completed.'')))))))))))))"

definition executeRenewalCheck :: "job_data \<Rightarrow> string \<Rightarrow> execution_result action" where
  "executeRenewalCheck data jobId =
    bnd (findExecutableRun (jd_run data) (jd_org data)) (\<lambda>found.
    case found of
      None \<Rightarrow> ret (not_executable (jd_run data))
    | Some run \<Rightarrow>
        with_artifacts (ex_run run) (\<lambda>dir.
          bnd (markStarted (ex_run run) jobId ''renewal_check_started'') (\<lambda>running.
          bnd (heartbeat (run_id running) jobId) (\<lambda>_.
          bnd (isCanceled (run_id running)) (\<lambda>canceled.
          if canceled then ret (canceled_meanwhile (run_id running))
          else check_renewal run running jobId dir))))
        (handleRenewalFailure run))"

subsection \<open>Changes of plan\<close>

definition propose_downgrade :: "executable_run \<Rightarrow> run_row \<Rightarrow> string \<Rightarrow> execution_result action" where
  "propose_downgrade run running dir =
    bnd (open_session run running dir) (\<lambda>session.
    bnd (record_page_policy running (vs_allowedDomains session)) (\<lambda>_.
    bnd (connector_for run) (\<lambda>connector.
    bnd (ret (session_context run running session None)) (\<lambda>ctx.
    bnd (vc_login connector ctx) (\<lambda>_.
    bnd (vc_prepareDowngrade connector ctx) (\<lambda>proposal.
    bnd (require (pa_policyDecision proposal = Decide_RequireApproval)
      (DomainError ValidationFailed ''Downgrade proposal must require approval in the MVP flow.'')) (\<lambda>_.
    bnd (photograph running ''downgrade-approval-request'') (\<lambda>uploaded.
    bnd (createApprovalRequest (run_id running)
      \<lparr>ca_attempt = pa_attemptId proposal, ca_summary = pa_summary proposal, ca_riskLevel = Some (pa_riskLevel proposal),
       ca_amountCents = None, ca_screenshot = Some (fd_id uploaded),
       ca_policyTriggered = Some (JObj [(''matchedRules'', JArr [JStr ''action.requires_approval.change_plan'']),
         (''proposal'', JObj (pa_metadata proposal))]),
       ca_expiresAt = None\<rparr> (Some (pa_amountCents proposal))) (\<lambda>_.
    ret (executed (run_id running) ''Plan downgrade workflow is waiting for approval.''))))))))))"

definition executePlanDowngradeStart :: "job_data \<Rightarrow> string \<Rightarrow> execution_result action" where
  "executePlanDowngradeStart data jobId =
    bnd (findExecutableRun (jd_run data) (jd_org data)) (\<lambda>found.
    case found of
      None \<Rightarrow> ret (not_executable (jd_run data))
    | Some run \<Rightarrow>
        with_artifacts (ex_run run) (\<lambda>dir.
          bnd (markStarted (ex_run run) jobId ''downgrade_proposal_started'') (\<lambda>running.
          bnd (heartbeat (run_id running) jobId) (\<lambda>_.
          propose_downgrade run running dir)))
        (handlePlanDowngradeFailure run ''Plan downgrade proposal failed''))"

definition submit_downgrade :: "executable_run \<Rightarrow> run_row \<Rightarrow> approval_row \<Rightarrow> string \<Rightarrow> string \<Rightarrow> execution_result action" where
  "submit_downgrade run running approval jobId dir =
    bnd (open_session run running dir) (\<lambda>session.
    bnd (connector_for run) (\<lambda>connector.
    bnd (ret (session_context run running session (Some (apr_id approval)))) (\<lambda>ctx.
    bnd (vc_login connector ctx) (\<lambda>_.
    bnd (vc_submitDowngrade connector ctx) (\<lambda>submitted.
    bnd (photograph running ''downgrade-submitted'') (\<lambda>_.
    bnd (complete_run running ''downgrade_completed'' (ar_summary submitted)
      [(''jobId'', JStr jobId), (''approvalRequestId'', JStr (apr_id approval)),
       (''actionAttemptId'', JStr (ar_attemptId submitted)), (''submittedAction'', JObj (ar_metadata submitted))]) (\<lambda>_.
    bnd (completed_receipt running (ar_summary submitted)
      (Some (spread [(''approvalRequestId'', JStr (apr_id approval)), (''actionAttemptId'', JStr (ar_attemptId submitted)),
        (''status'', JStr ''submitted'')] (ar_metadata submitted)))) (\<lambda>_.
    ret (executed (run_id running) ''Approved plan downgrade workflow completed.'')))))))))"

definition executeResume :: "job_data \<Rightarrow> string \<Rightarrow> execution_result action" where
  "executeResume data jobId =
    (if \<not> truthy (jd_approval data) then ret (skipped (jd_run data) ''Resume jobs require an approval request ID.'')
     else
      bnd (findExecutableRun (jd_run data) (jd_org data)) (\<lambda>found.
      case found of
        None \<Rightarrow> ret (not_executable (jd_run data))
      | Some run \<Rightarrow>
          if ex_template run \<noteq> Template_PlanDowngradeRequest
          then ret (skipped (run_id (ex_run run))
            (''Worker does not resume '' @ prisma_enum (workflow_template_value (ex_template run)) @ '' workflow jobs.''))
          else
            with_artifacts (ex_run run) (\<lambda>dir.
              bnd (assertApprovalCanResume run (the (jd_approval data))) (\<lambda>approval.
              bnd (assertAgentActiveForResume (ex_run run)) (\<lambda>_.
              bnd (markStarted (ex_run run) jobId ''downgrade_resume_started'') (\<lambda>running.
              submit_downgrade run running approval jobId dir))))
            (handlePlanDowngradeFailure run ''Plan downgrade resume failed'')))"

subsection \<open>The method of the queue\<close>

definition executeNoop :: "job_data \<Rightarrow> string \<Rightarrow> execution_result action" where
  "executeNoop data jobId =
    bnd (find_run (jd_run data) (jd_org data)) (\<lambda>found.
    if (case found of None \<Rightarrow> True | Some run \<Rightarrow> executor_isTerminal (run_status run)) then ret (not_executable (jd_run data))
    else
      bnd (markStarted (the found) jobId ''noop_worker_started'') (\<lambda>running.
      bnd (heartbeat (run_id running) jobId) (\<lambda>_.
      bnd (isCanceled (run_id running)) (\<lambda>canceled.
      if canceled then ret (canceled_meanwhile (run_id running))
      else
        bnd new_date (\<lambda>completedAt.
        bnd (iso_of completedAt) (\<lambda>at_time.
        bnd (update_run (run_id running) (\<lambda>r. r\<lparr>run_status := Run_Completed, run_completedAt := Some completedAt,
          run_currentStep := Some ''noop_completed'',
          run_resultSummary := Some ''Phase 19 no-op worker completed the queued workflow run.'',
          run_state := executor_nextState (run_state running)
            [(''jobId'', JStr jobId), (''phase'', JNum 19), (''status'', prisma_status Run_Completed), (''at'', JStr at_time)]\<rparr>)) (\<lambda>_.
        bnd (worker_audit \<lparr>wa_org = run_org running, wa_run = Some (run_id running), wa_agent = Some (run_agent running),
          wa_eventType = Ev_WorkflowRunCompleted,
          wa_data = [(''workflowRunId'', JStr (run_id running)), (''workflowId'', JStr (run_workflow running)),
            (''jobId'', JStr jobId), (''noop'', JBool True)]\<rparr>) (\<lambda>_.
        ret (executed (run_id running) ''No-op workflow completed.'')))))))))"

definition execute_job :: "job_data \<Rightarrow> string \<Rightarrow> execution_result action" where
  "execute_job data jobId =
    (if jd_mode data = Mode_resume then executeResume data jobId
     else if jd_mode data \<noteq> Mode_start
     then ret (skipped (jd_run data)
       (''Worker skips '' @ job_mode_value (jd_mode data) @ '' jobs until resume/cancel executors are implemented.''))
     else if jd_template data = Some ''noop'' then executeNoop data jobId
     else if jd_template data = Some ''VENDOR_INVOICE_DOWNLOAD'' then executeInvoiceDownload data jobId
     else if jd_template data = Some ''SAAS_RENEWAL_CHECK'' then executeRenewalCheck data jobId
     else if jd_template data = Some ''PLAN_DOWNGRADE_REQUEST'' then executePlanDowngradeStart data jobId
     else ret (skipped (jd_run data)
       (''Worker does not yet execute '' @ coalesce (jd_template data) ''unknown'' @ '' workflow jobs.'')))"

definition execute :: "job_data \<Rightarrow> string \<Rightarrow> execution_result action" where
  "execute data jobId =
    bnd (setRunToken (jd_workerRunToken data)) (\<lambda>_.
    try_finally (execute_job data jobId) clearRunToken)"

subsection \<open>Effects\<close>

text \<open>The worker's desk: what the API does not touch.\<close>

definition desk :: "world \<Rightarrow> attempt_row list \<times> browser_context option \<times> (string \<rightharpoonup> string)" where
  "desk w = (attempts w, browser w, disk w)"

lemma desk_upd [simp]:
  "desk (w\<lparr>reads := n\<rparr>) = desk w" "desk (w\<lparr>ids := n\<rparr>) = desk w" "desk (w\<lparr>audits := as\<rparr>) = desk w"
  "desk (w\<lparr>buckets := bs\<rparr>) = desk w" "desk (w\<lparr>bucket_ready := r\<rparr>) = desk w" "desk (w\<lparr>objects := os\<rparr>) = desk w"
  "desk (w\<lparr>notices := ns\<rparr>) = desk w" "desk (w\<lparr>decrypt_counter := dc\<rparr>) = desk w" "desk (w\<lparr>run_token := t\<rparr>) = desk w"
  by (simp_all add: desk_def)

lemma desk_keeps [simp]:
  "keeps desk run_t" "keeps desk approval_t" "keeps desk file_t" "keeps desk receipt_t" "keeps desk credential_t" "keeps desk audit_t"
  by (simp_all add: keeps_defs desk_def)

lemma same_network [effect_intros]:
  "(\<And>w n. f (w\<lparr>reads := n\<rparr>) = f w) \<Longrightarrow> effect (same_of f) network_fault w"
  by (simp add: effect_def same_of_def network_fault_def split: option.splits)

lemma same_canActivate [effect_intros]:
  "(\<And>w n. f (w\<lparr>reads := n\<rparr>) = f w) \<Longrightarrow> effect (same_of f) (canActivate r) w"
  unfolding canActivate_def Let_def by (intro effect_intros)

lemma same_postJson:
  assumes "\<And>w n. f (w\<lparr>reads := n\<rparr>) = f w" and "\<And>w. effect (same_of f) h w"
  shows "effect (same_of f) (postJson p b h) w"
  unfolding postJson_def by (intro effect_intros assms)

lemma desk_store_free [simp]: "store_free desk"
  by (simp add: store_free_def)

lemma desk_handlers [effect_intros]:
  "effect (same_of desk) (recordEvent k org t d) w"
  "effect (same_of desk) (completeRun k org c) w"
  "effect (same_of desk) (failRun k org x) w"
  "effect (same_of desk) (Internal_Worker.uploadFile k org kind n m b) w"
  "effect (same_of desk) (Internal_Worker.uploadScreenshot k org n m b) w"
  "effect (same_of desk) (decryptForRun cid k) w"
  unfolding recordEvent_def completeRun_def failRun_def decryptForRun_def update_credential_def wrap_defs
  by (intro effect_intros; simp)+

lemma desk_approval [effect_intros]: "effect (same_of desk) (approval_createForRun k i) w"
  unfolding approval_createForRun_def start_waiting_def create_approval_def wrap_defs
  by (intro effect_intros; simp)

lemma desk_client [effect_intros]:
  "effect (same_of desk) (recordRunEvent k org t d) w"
  "effect (same_of desk) (uploadRunScreenshot k org n m b) w"
  "effect (same_of desk) (uploadRunFile k org kind n m b) w"
  "effect (same_of desk) (call_completeRun k org c) w"
  "effect (same_of desk) (call_failRun k org x) w"
  "effect (same_of desk) (decryptCredentialForRun cid k) w"
  "effect (same_of desk) (createApprovalRequest k ci amount) w"
  unfolding recordRunEvent_def uploadRunScreenshot_def uploadRunFile_def call_completeRun_def call_failRun_def
    decryptCredentialForRun_def createApprovalRequest_def
  by (intro same_postJson effect_intros; simp)+

lemma desk_services [effect_intros]:
  "effect (same_of desk) (worker_audit i) w"
  "effect (same_of desk) (heartbeat k j) w"
  "effect (same_of desk) (isCanceled k) w"
  "effect (same_of desk) (receipt_createForRun i') w"
  unfolding worker_audit_def heartbeat_def isCanceled_def receipt_createForRun_def receipt_upsert_def unique_run_def wrap_defs
  by (intro effect_intros; simp)+

text \<open>What the executor may do with its own browser and attempts.\<close>

definition guarded :: "string option \<Rightarrow> string \<Rightarrow> world \<Rightarrow> world \<Rightarrow> bool" where
  "guarded token dir w w' \<longleftrightarrow> disk_within dir w w' \<and> (truthy token \<or> plan_changes w' \<subseteq> plan_changes w)"

interpretation guarded: effect_order "guarded token dir" for token dir
  by unfold_locales (auto simp: guarded_def dest: within.R_trans intro: within.R_refl)

lemma guarded_desk: "effect (same_of desk) m w \<Longrightarrow> effect (guarded token dir) m w"
  by (simp add: effect_def same_of_def desk_def guarded_def disk_within_def at_dir_def plan_changes_def)

lemma guarded_connector: "effect (connector_ok token dir) m w \<Longrightarrow> effect (guarded token dir) m w"
  by (simp add: effect_def connector_ok_def guarded_def)

lemma guarded_within: "effect (disk_within dir) m w \<Longrightarrow> effect (same_of attempts) m w \<Longrightarrow> effect (guarded token dir) m w"
  by (simp add: effect_def same_of_def guarded_def plan_changes_def)

lemma guarded_client [effect_intros]:
  "effect (guarded token dir) (recordRunEvent k org t d) w"
  "effect (guarded token dir) (uploadRunScreenshot k org n m b) w"
  "effect (guarded token dir) (uploadRunFile k org kind n m b) w"
  "effect (guarded token dir) (call_completeRun k org c) w"
  "effect (guarded token dir) (call_failRun k org x) w"
  "effect (guarded token dir) (decryptCredentialForRun cid k) w"
  "effect (guarded token dir) (createApprovalRequest k ci amount) w"
  "effect (guarded token dir) (worker_audit ai) w"
  "effect (guarded token dir) (heartbeat k j) w"
  "effect (guarded token dir) (isCanceled k) w"
  "effect (guarded token dir) (receipt_createForRun ri) w"
  "effect (guarded token dir) new_date w"
  "effect (guarded token dir) (update_run k g) w"
  "effect (guarded token dir) (find_first tb P) w"
  for tb :: "(world, 'r) table"
  by (rule guarded_desk, intro effect_intros; simp)+

lemma guarded_browser [effect_intros]:
  "effect (guarded token dir) (captureScreenshot l) w"
  "effect (guarded token dir) closeContext w"
  "effect (guarded token dir) (readFile p) w"
  by (rule guarded_within; intro effect_intros; simp)+

lemma guarded_context [effect_intros]: "effect (guarded token dir) (createControlledContext ds dir p) w"
proof (rule guarded_within)
  show "effect (same_of attempts) (createControlledContext ds dir p) w" by (intro effect_intros) simp
  show "effect (disk_within dir) (createControlledContext ds dir p) w"
    unfolding createControlledContext_def
    by (intro effect_intros within.effect_modify) (simp add: disk_within_def at_dir_def)
qed

lemma guarded_remove [effect_intros]: "effect (guarded token dir) (remove_dir dir) w"
  unfolding remove_dir_def
  by (intro guarded.effect_modify) (simp add: guarded_def disk_within_def at_dir_def plan_changes_def)

lemma guarded_services [effect_intros]:
  "effect (guarded token dir) (markStarted r j s) w"
  "effect (guarded token dir) (loadPolicySnapshot g a) w"
  "effect (guarded token dir) (assertPolicyAllowsDomain u ds) w"
  "effect (guarded token dir) (requireVendorUrl run) w"
  "effect (guarded token dir) (decryptCredentials c k) w"
  "effect (guarded token dir) (record_page_policy r ds) w"
  "effect (guarded token dir) (connector_for run) w"
  "effect (guarded token dir) (photograph r l) w"
  "effect (guarded token dir) (executor_uploadInvoice r p n) w"
  "effect (guarded token dir) (complete_run r s m st) w"
  "effect (guarded token dir) (completed_receipt r m res) w"
  unfolding markStarted_def iso_of_def loadPolicySnapshot_def assertPolicyAllowsDomain_def requireVendorUrl_def decryptCredentials_def
    record_page_policy_def connector_for_def assertSupports_def assertConnectorSupportsTemplate_def photograph_def executor_uploadScreenshot_def
    executor_uploadInvoice_def complete_run_def completed_receipt_def
  by (intro effect_intros; simp)+

lemma connector_for_interface: "connector_for run w = (Inr c, w') \<Longrightarrow> vendor_interface c"
  unfolding connector_for_def by (auto elim!: bnd_InrE simp: resolved_connector)

lemma guarded_vendor [effect_intros]:
  assumes "connector_for run s = (Inr c, s')" and "xc_approvalToken ctx = token"
  shows "effect (guarded token dir) (vc_login c ctx) w"
    "effect (guarded token dir) (vc_downloadLatestInvoice c ctx) w"
    "effect (guarded token dir) (vc_readRenewalInfo c ctx) w"
    "effect (guarded token dir) (vc_prepareDowngrade c ctx) w"
    "effect (guarded token dir) (vc_submitDowngrade c ctx) w"
proof -
  note v = connector_for_interface [OF assms(1)]
  show "effect (guarded token dir) (vc_login c ctx) w" "effect (guarded token dir) (vc_downloadLatestInvoice c ctx) w"
    "effect (guarded token dir) (vc_readRenewalInfo c ctx) w" "effect (guarded token dir) (vc_prepareDowngrade c ctx) w"
    "effect (guarded token dir) (vc_submitDowngrade c ctx) w"
    using vendor_interface.login [OF v] vendor_interface.download [OF v] vendor_interface.renewal [OF v]
      vendor_interface.prepare [OF v] vendor_interface.submit [OF v] assms(2)
    by (auto intro: guarded_connector)
qed

lemma session_token [simp]: "xc_approvalToken (session_context run r s token) = token"
  by (simp add: session_context_def buildConnectorContext_def)

lemma requireCredentialId_still: "snd (requireCredentialId j w) = w"
  by (simp add: requireCredentialId_def step_simps split: option.splits json.splits)

lemma guarded_session [effect_intros]: "effect (guarded token dir) (open_session run r dir) w"
  unfolding open_session_def
  by (intro effect_intros; simp add: effect_def requireCredentialId_still guarded.R_refl)

lemma guarded_failures [effect_intros]:
  "effect (guarded token dir) (handleInvoiceFailure run e) w"
  "effect (guarded token dir) (handleRenewalFailure run e) w"
  "effect (guarded token dir) (handlePlanDowngradeFailure run h e) w"
  unfolding handleInvoiceFailure_def handleRenewalFailure_def handlePlanDowngradeFailure_def deny_run_def fail_run_def iso_of_def
  by (intro effect_intros)+

lemma guarded_bodies [effect_intros]:
  "effect (guarded None dir) (download_invoice run r j dir) w"
  "effect (guarded None dir) (check_renewal run r j dir) w"
  "effect (guarded None dir) (propose_downgrade run r dir) w"
  "effect (guarded (Some (apr_id p)) dir) (submit_downgrade run r p j dir) w"
  unfolding download_invoice_def check_renewal_def propose_downgrade_def submit_downgrade_def
  by (intro effect_intros; (assumption | simp)?)+

lemma artifact_dir_run:
  "artifact_dir r w = (Inr (tmpdir (w_env w) @ ''/agentpass-run-'' @ run_id r @ ''-'' @ uuid (w_env w) (ids w)), w\<lparr>ids := Suc (ids w)\<rparr>)"
  by (simp add: artifact_dir_def step_simps)

lemma guarded_artifacts:
  assumes "\<And>dir. effect (guarded None dir) (body dir) (w\<lparr>ids := Suc (ids w), browser := None\<rparr>)" and "\<And>e dir w. effect (guarded None dir) (handler e) w"
  shows "\<exists>dir. effect (guarded None dir) (with_artifacts r body handler) w"
proof -
  obtain dir where dir: "artifact_dir r w = (Inr dir, w\<lparr>ids := Suc (ids w)\<rparr>)" by (simp add: artifact_dir_run)
  have "guarded None dir w (w\<lparr>ids := Suc (ids w), browser := None\<rparr>)"
    by (simp add: guarded_def disk_within_def at_dir_def plan_changes_def)
  moreover have "effect (guarded None dir) (try_finally (try_catch (body dir) handler) (close_and_remove dir)) (w\<lparr>ids := Suc (ids w), browser := None\<rparr>)"
    unfolding close_and_remove_def by (intro effect_intros assms)
  ultimately have "effect (guarded None dir) (with_artifacts r body handler) w"
    unfolding with_artifacts_def effect_def using dir by (auto simp: bnd_def modify_def intro: guarded.R_trans)
  then show ?thesis ..
qed

subsection \<open>The log\<close>

lemma audit_network [effect_intros]: "effect audit_ok network_fault w" "effect audit_ok (canActivate r) w"
  unfolding canActivate_def Let_def
  by (rule quiet_audit; simp add: network_fault_def split: option.splits) (intro effect_intros)

lemma audit_postJson: "(\<And>w. effect audit_ok h w) \<Longrightarrow> effect audit_ok (postJson p b h) w"
  unfolding postJson_def by (intro effect_intros)

lemma audit_check_body [effect_intros]: "effect audit_ok (check_body ok m) w"
  unfolding check_body_def by (intro effect_intros)

lemma audit_client [effect_intros]:
  "effect audit_ok (recordRunEvent k org t d) w"
  "effect audit_ok (uploadRunScreenshot k org n m b) w"
  "effect audit_ok (uploadRunFile k org kind n m b) w"
  "effect audit_ok (call_completeRun k org c) w"
  "effect audit_ok (call_failRun k org x) w"
  "effect audit_ok (decryptCredentialForRun cid k) w"
  "effect audit_ok (createApprovalRequest k ci amount) w"
  unfolding recordRunEvent_def uploadRunScreenshot_def uploadRunFile_def call_completeRun_def call_failRun_def
    decryptCredentialForRun_def createApprovalRequest_def
  by (intro audit_postJson effect_intros)+

lemma audit_services [effect_intros]:
  "effect audit_ok (worker_audit i) w"
  "effect audit_ok (heartbeat k j) w"
  "effect audit_ok (isCanceled k) w"
  "effect audit_ok (receipt_createForRun i') w"
  unfolding worker_audit_def heartbeat_def isCanceled_def receipt_createForRun_def receipt_upsert_def unique_run_def iso_of_def
  by (intro effect_intros; simp)+

lemma audit_browser [effect_intros]:
  "effect audit_ok (captureScreenshot l) w" "effect audit_ok closeContext w" "effect audit_ok (readFile p) w"
  "effect audit_ok (createControlledContext ds dir priv) w"
  by (intro later_audit effect_intros)+

lemma audit_executor_parts [effect_intros]:
  "effect audit_ok (markStarted r j s) w"
  "effect audit_ok (loadPolicySnapshot g a) w"
  "effect audit_ok (assertPolicyAllowsDomain u ds) w"
  "effect audit_ok (requireVendorUrl run) w"
  "effect audit_ok (decryptCredentials c k) w"
  "effect audit_ok (record_page_policy r ds) w"
  "effect audit_ok (connector_for run) w"
  "effect audit_ok (photograph r l) w"
  "effect audit_ok (executor_uploadInvoice r p n) w"
  "effect audit_ok (complete_run r s m st) w"
  "effect audit_ok (completed_receipt r m res) w"
  "effect audit_ok (assertApprovalCanResume run k) w"
  "effect audit_ok (assertAgentActiveForResume r) w"
  "effect audit_ok (findExecutableRun k org) w"
  unfolding markStarted_def iso_of_def loadPolicySnapshot_def assertPolicyAllowsDomain_def requireVendorUrl_def decryptCredentials_def
    record_page_policy_def connector_for_def assertSupports_def assertConnectorSupportsTemplate_def photograph_def executor_uploadScreenshot_def
    executor_uploadInvoice_def complete_run_def completed_receipt_def assertApprovalCanResume_def assertAgentActiveForResume_def
    findExecutableRun_def find_run_def
  by (intro effect_intros; simp)+

lemma audit_vendor [effect_intros]:
  assumes "connector_for run s = (Inr c, s')"
  shows "effect audit_ok (vc_login c ctx) w" "effect audit_ok (vc_downloadLatestInvoice c ctx) w"
    "effect audit_ok (vc_readRenewalInfo c ctx) w" "effect audit_ok (vc_prepareDowngrade c ctx) w"
    "effect audit_ok (vc_submitDowngrade c ctx) w"
proof -
  note v = connector_for_interface [OF assms]
  show "effect audit_ok (vc_login c ctx) w" "effect audit_ok (vc_downloadLatestInvoice c ctx) w"
    "effect audit_ok (vc_readRenewalInfo c ctx) w" "effect audit_ok (vc_prepareDowngrade c ctx) w"
    "effect audit_ok (vc_submitDowngrade c ctx) w"
    using vendor_interface.login [OF v] vendor_interface.download [OF v] vendor_interface.renewal [OF v]
      vendor_interface.prepare [OF v] vendor_interface.submit [OF v]
    by (auto simp: effect_def connector_ok_def later_def audit_ok_frame)
qed

lemma audit_session [effect_intros]: "effect audit_ok (open_session run r dir) w"
  unfolding open_session_def
  by (intro effect_intros; simp add: effect_def requireCredentialId_still audit_ok_frame)

lemma audit_failures [effect_intros]:
  "effect audit_ok (handleInvoiceFailure run e) w"
  "effect audit_ok (handleRenewalFailure run e) w"
  "effect audit_ok (handlePlanDowngradeFailure run h e) w"
  unfolding handleInvoiceFailure_def handleRenewalFailure_def handlePlanDowngradeFailure_def deny_run_def fail_run_def iso_of_def
  by (intro effect_intros)+

lemma audit_bodies [effect_intros]:
  "effect audit_ok (download_invoice run r j dir) w"
  "effect audit_ok (check_renewal run r j dir) w"
  "effect audit_ok (propose_downgrade run r dir) w"
  "effect audit_ok (submit_downgrade run r p j dir) w"
  unfolding download_invoice_def check_renewal_def propose_downgrade_def submit_downgrade_def
  by (intro effect_intros; (assumption | simp)?)+

lemma audit_artifacts [effect_intros]:
  "(\<And>dir w. effect audit_ok (body dir) w) \<Longrightarrow> (\<And>e w. effect audit_ok (handler e) w) \<Longrightarrow> effect audit_ok (with_artifacts r body handler) w"
  unfolding with_artifacts_def artifact_dir_def close_and_remove_def remove_dir_def
  by (intro effect_intros audit_modify; simp)

lemma audit_execute [effect_intros]: "effect audit_ok (execute data j) w"
  unfolding execute_def execute_job_def executeInvoiceDownload_def executeRenewalCheck_def executePlanDowngradeStart_def
    executeResume_def executeNoop_def find_run_def iso_of_def setRunToken_def clearRunToken_def
  by (intro effect_intros audit_modify; simp)

subsection \<open>Properties\<close>

text \<open>A job that may submit a change of plan: it resumes a run that is not finished, for an approval
of that run given before it expired, while the run's agent is active.\<close>

definition may_submit :: "job_data \<Rightarrow> world \<Rightarrow> bool" where
  "may_submit data w \<longleftrightarrow> jd_mode data = Mode_resume \<and>
     (\<exists>run p t. find (\<lambda>r. run_id r = jd_run data \<and> run_org r = jd_org data) (runs w) = Some run
       \<and> \<not> executor_isTerminal (run_status run)
       \<and> p \<in> set (approvals w) \<and> jd_approval data = Some (apr_id p) \<and> apr_run p = jd_run data \<and> apr_org p = jd_org data
       \<and> apr_status p = Approval_Approved \<and> apr_approvedAt p = Some t \<and> (\<forall>e. apr_expiresAt p = Some e \<longrightarrow> t \<le> e)
       \<and> (\<exists>a \<in> set (agents w). ag_id a = run_agent run \<and> ag_status a = Agent_Active))"

lemma plan_changes_upd [simp]:
  "plan_changes (w\<lparr>run_token := t\<rparr>) = plan_changes w" "plan_changes (w\<lparr>browser := b\<rparr>) = plan_changes w"
  "plan_changes (w\<lparr>reads := n\<rparr>) = plan_changes w" "plan_changes (w\<lparr>ids := n\<rparr>) = plan_changes w"
  by (simp_all add: plan_changes_def)

lemma findExecutableRun_run:
  "findExecutableRun k org w =
    (case find (\<lambda>r. run_id r = k \<and> run_org r = org) (runs w) of
       None \<Rightarrow> (Inr None, w)
     | Some run \<Rightarrow>
         (case find (\<lambda>x. wf_id x = run_workflow run) (workflows w) of
            None \<Rightarrow> (Inl (missing_relation ''workflow''), w)
          | Some x \<Rightarrow>
              if executor_isTerminal (run_status run) then (Inr None, w)
              else (Inr (Some \<lparr>ex_run = run, ex_config = wf_config x, ex_template = wf_template x,
                ex_vendor = find (\<lambda>x. run_vendor run = Some (ve_id x)) (vendors w)\<rparr>), w)))"
  unfolding findExecutableRun_def
  by (cases "find (\<lambda>r. run_id r = k \<and> run_org r = org) (runs w)";
      cases "find (\<lambda>x. wf_id x = run_workflow (the (find (\<lambda>r. run_id r = k \<and> run_org r = org) (runs w)))) (workflows w)")
    (simp_all add: step_simps workflow_t_def vendor_t_def)

lemma findExecutableRun_same: "snd (findExecutableRun k org w) = w"
  by (simp add: findExecutableRun_run split: option.splits)

lemma findExecutableRun_Inr:
  assumes "findExecutableRun k org w = (Inr (Some x), w')"
  shows "w' = w" and "find (\<lambda>r. run_id r = k \<and> run_org r = org) (runs w) = Some (ex_run x)"
    and "\<not> executor_isTerminal (run_status (ex_run x))" and "run_id (ex_run x) = k" and "run_org (ex_run x) = org"
  using assms by (auto simp: findExecutableRun_run dest: find_SomeD split: option.splits if_splits)

lemma start_guarded:
  assumes "\<And>x dir w. effect (guarded None dir) (body x dir) w" and "\<And>x e dir w. effect (guarded None dir) (handler x e) w"
  shows "plan_changes (snd (bnd (findExecutableRun k org) (\<lambda>found. case found of None \<Rightarrow> ret n
     | Some x \<Rightarrow> with_artifacts (ex_run x) (body x) (handler x)) w)) \<subseteq> plan_changes w"
proof (cases "fst (findExecutableRun k org w)")
  case (Inl e)
  then have "findExecutableRun k org w = (Inl e, w)" using findExecutableRun_same [of k org w] by (metis prod.collapse)
  then show ?thesis by (simp add: bnd_def)
next
  case (Inr found)
  then have found: "findExecutableRun k org w = (Inr found, w)" using findExecutableRun_same [of k org w] by (metis prod.collapse)
  show ?thesis
  proof (cases found)
    case None
    with found show ?thesis by (simp add: bnd_def ret_def)
  next
    case (Some x)
    obtain dir where "effect (guarded None dir) (with_artifacts (ex_run x) (body x) (handler x)) w"
      using guarded_artifacts [of "body x" w "handler x"] assms by blast
    with found Some show ?thesis by (simp add: bnd_def effect_def guarded_def truthy_def)
  qed
qed

lemma assertApprovalCanResume_Inr:
  assumes "assertApprovalCanResume run k w = (Inr p, w')"
  shows "w' = w" "p \<in> set (approvals w)" "apr_id p = k" "apr_run p = run_id (ex_run run)" "apr_org p = run_org (ex_run run)"
    "apr_status p = Approval_Approved" "\<exists>t. apr_approvedAt p = Some t \<and> (\<forall>e. apr_expiresAt p = Some e \<longrightarrow> t \<le> e)"
  using assms unfolding assertApprovalCanResume_def
  by (auto elim!: world_elims simp: approval_t_def find_first_def dest!: find_SomeD split: option.splits)

lemma assertAgentActiveForResume_Inr:
  assumes "assertAgentActiveForResume run w = (Inr x, w')"
  shows "w' = w" "\<exists>a \<in> set (agents w). ag_id a = run_agent run \<and> ag_status a = Agent_Active"
  using assms unfolding assertAgentActiveForResume_def
  by (auto elim!: world_elims simp: agent_t_def find_first_def dest!: find_SomeD)

lemma guarded_asserts [effect_intros]:
  "effect (guarded token dir) (assertApprovalCanResume run k) w"
  "effect (guarded token dir) (assertAgentActiveForResume r) w"
  unfolding assertApprovalCanResume_def assertAgentActiveForResume_def by (intro effect_intros)+

lemma resume_guarded:
  assumes "\<not> may_submit data w" and "jd_mode data = Mode_resume"
  shows "plan_changes (snd (executeResume data j w)) \<subseteq> plan_changes w"
proof (cases "truthy (jd_approval data)")
  case False
  then show ?thesis by (simp add: executeResume_def step_simps)
next
  case True
  then obtain k where k: "jd_approval data = Some k" by (auto simp: truthy_def split: option.splits)
  obtain v where v: "findExecutableRun (jd_run data) (jd_org data) w = (v, w)"
    using findExecutableRun_same [of "jd_run data" "jd_org data" w] by (metis prod.collapse)
  consider e where "v = Inl e" | "v = Inr None" | x where "v = Inr (Some x)" by (cases v) auto
  then show ?thesis
  proof cases
    case (3 x)
    note found = findExecutableRun_Inr [OF v [unfolded 3]]
    let ?b = "\<lambda>dir. bnd (assertApprovalCanResume x (the (jd_approval data))) (\<lambda>approval.
      bnd (assertAgentActiveForResume (ex_run x)) (\<lambda>_.
      bnd (markStarted (ex_run x) j ''downgrade_resume_started'') (\<lambda>running. submit_downgrade x running approval j dir)))"
    have "effect (guarded None dir) (?b dir) (w\<lparr>ids := Suc (ids w), browser := None\<rparr>)" for dir
    proof (rule guarded.effect_bnd, (intro effect_intros)[1], rule guarded.effect_bnd, (intro effect_intros)[1])
      fix p s u s'
      assume p: "assertApprovalCanResume x (the (jd_approval data)) (w\<lparr>ids := Suc (ids w), browser := None\<rparr>) = (Inr p, s)"
        and a: "assertAgentActiveForResume (ex_run x) s = (Inr u, s')"
      have "may_submit data w"
        unfolding may_submit_def using assertApprovalCanResume_Inr [OF p] assertAgentActiveForResume_Inr [OF a] found k assms(2)
        by auto
      with assms(1) show "effect (guarded None dir) (bnd (markStarted (ex_run x) j ''downgrade_resume_started'')
          (\<lambda>running. submit_downgrade x running p j dir)) s'" by contradiction
    qed
    then obtain dir where "effect (guarded None dir) (with_artifacts (ex_run x) ?b
        (handlePlanDowngradeFailure x ''Plan downgrade resume failed'')) w"
      using guarded_artifacts [of ?b w "handlePlanDowngradeFailure x ''Plan downgrade resume failed''" "ex_run x"] guarded_failures(3)
      by blast
    then show ?thesis
      using v 3 True by (simp add: executeResume_def bnd_def [of "findExecutableRun (jd_run data) (jd_org data)"] effect_def guarded_def truthy_def step_simps)
  qed (use v True in \<open>simp_all add: executeResume_def bnd_def [of "findExecutableRun (jd_run data) (jd_org data)"] step_simps\<close>)
qed

lemma noop_guarded: "plan_changes (snd (executeNoop data j w)) \<subseteq> plan_changes w"
proof -
  have "effect (guarded None dir) (executeNoop data j) w" for dir
    unfolding executeNoop_def find_run_def iso_of_def by (intro effect_intros)
  then show ?thesis by (simp add: effect_def guarded_def truthy_def)
qed

lemma execute_run: "execute data j w = (fst (execute_job data j (w\<lparr>run_token := jd_workerRunToken data\<rparr>)),
   (snd (execute_job data j (w\<lparr>run_token := jd_workerRunToken data\<rparr>)))\<lparr>run_token := None\<rparr>)"
  by (simp add: execute_def setRunToken_def clearRunToken_def bnd_def try_finally_def modify_def split: prod.splits)

lemma may_submit_token [simp]: "may_submit data (w\<lparr>run_token := t\<rparr>) = may_submit data w"
  by (simp add: may_submit_def)

text \<open>C2. A change of plan is submitted only with an approval: whatever the job, the pages and the API
  answer, executing it records no new allowed change of plan, unless it resumes an unfinished run for
  an approval of that run that was given, before its end, and the run's agent is active.\<close>

theorem plan_change_needs_approval:
  "plan_changes (snd (execute data j w)) \<subseteq> plan_changes w \<or> may_submit data w"
proof -
  let ?w = "w\<lparr>run_token := jd_workerRunToken data\<rparr>"
  have "plan_changes (snd (execute_job data j ?w)) \<subseteq> plan_changes ?w" if "\<not> may_submit data ?w"
  proof -
    have starts: "plan_changes (snd (executeInvoiceDownload data j ?w)) \<subseteq> plan_changes ?w"
      "plan_changes (snd (executeRenewalCheck data j ?w)) \<subseteq> plan_changes ?w"
      "plan_changes (snd (executePlanDowngradeStart data j ?w)) \<subseteq> plan_changes ?w"
      unfolding executeInvoiceDownload_def executeRenewalCheck_def executePlanDowngradeStart_def
      by (rule start_guarded; intro effect_intros)+
    show ?thesis
      unfolding execute_job_def
      using starts resume_guarded [OF that] noop_guarded [of data j ?w] by (simp add: step_simps)
  qed
  then show ?thesis unfolding execute_run by auto
qed

text \<open>No browser is left open.\<close>

definition browser_open :: "world \<Rightarrow> bool" where
  "browser_open w \<longleftrightarrow> (case browser w of None \<Rightarrow> False | Some b \<Rightarrow> \<not> bc_closed b)"

lemma artifacts_cleaned:
  assumes "\<And>dir w. effect (disk_within dir) (body dir) w" and "\<And>e dir w. effect (disk_within dir) (handler e) w"
    and "with_artifacts r body handler w = (res, w')"
  shows "\<not> browser_open w'" and "disk w' \<subseteq>\<^sub>m disk w"
proof -
  obtain dir where dir: "artifact_dir r w = (Inr dir, w\<lparr>ids := Suc (ids w)\<rparr>)" by (simp add: artifact_dir_run)
  let ?w1 = "w\<lparr>ids := Suc (ids w), browser := None\<rparr>"
  obtain q w2 where m: "try_catch (body dir) handler ?w1 = (q, w2)" by (cases "try_catch (body dir) handler ?w1")
  have "effect (disk_within dir) (try_catch (body dir) handler) ?w1" by (intro effect_intros assms)
  with m have w2: "\<forall>p. \<not> starts_with p (dir @ ''/'') \<longrightarrow> disk w2 p = disk w p"
    by (simp add: effect_def disk_within_def at_dir_def)
  have w': "w' = snd (close_and_remove dir w2)"
    using assms(3) dir m closeContext_run [of w2]
    by (cases "browser w2") (auto simp: with_artifacts_def bnd_def modify_def try_finally_def close_and_remove_def remove_dir_def
      gets_def run_if_def ret_def)
  show "\<not> browser_open w'" "disk w' \<subseteq>\<^sub>m disk w"
    unfolding w' close_and_remove_def remove_dir_def browser_open_def map_le_def using w2 closeContext_run [of w2]
    by (cases "browser w2"; auto simp: bnd_def gets_def modify_def run_if_def ret_def domIff split: if_splits)+
qed

lemma within_guarded: "effect (guarded token dir) m w \<Longrightarrow> effect (disk_within dir) m w"
  by (simp add: effect_def guarded_def)

lemma within_resume:
  "effect (disk_within dir) (bnd (assertApprovalCanResume x k) (\<lambda>approval. bnd (assertAgentActiveForResume r) (\<lambda>_.
     bnd (markStarted r j s) (\<lambda>running. submit_downgrade x running approval j dir)))) w"
  by (intro within.effect_bnd; rule within_guarded, rule guarded_asserts guarded_services guarded_bodies)

lemma found_cleaned:
  assumes "\<And>x dir w. effect (disk_within dir) (body x dir) w" and "\<And>x e dir w. effect (disk_within dir) (handler x e) w"
    and "\<not> browser_open w"
    and "bnd (findExecutableRun k org) (\<lambda>found. case found of None \<Rightarrow> ret n
     | Some x \<Rightarrow> if P x then ret (m x) else with_artifacts (ex_run x) (body x) (handler x)) w = (res, w')"
  shows "\<not> browser_open w' \<and> disk w' \<subseteq>\<^sub>m disk w"
proof -
  obtain v where v: "findExecutableRun k org w = (v, w)"
    using findExecutableRun_same [of k org w] by (metis prod.collapse)
  consider e where "v = Inl e" | "v = Inr None" | x where "v = Inr (Some x)" by (cases v) auto
  then show ?thesis
  proof cases
    case (3 x)
    with v assms(3,4) artifacts_cleaned [where body = "body x" and handler = "handler x" and r = "ex_run x", OF assms(1,2)]
    show ?thesis by (auto simp: bnd_def ret_def split: if_splits)
  qed (use v assms(3,4) in \<open>auto simp: bnd_def ret_def\<close>)
qed

lemma noop_desk: "effect (same_of desk) (executeNoop data j) w"
  unfolding executeNoop_def markStarted_def find_run_def iso_of_def by (intro effect_intros; simp)

lemma if_False_same: "(if False then a else b) = b"
  by simp


lemma executor_terminal: "executor_isTerminal s \<longleftrightarrow> terminal_status s"
  by (cases s) (simp_all add: executor_isTerminal_def terminal_status_def List.member_iff)

text \<open>The run of a job is finished, or there is none.\<close>

definition run_over :: "job_data \<Rightarrow> world \<Rightarrow> bool" where
  "run_over data w \<longleftrightarrow> (\<forall>r \<in> set (runs w). run_id r = jd_run data \<and> run_org r = jd_org data \<longrightarrow>
     terminal_status (run_status r) \<and> (\<exists>x \<in> set (workflows w). wf_id x = run_workflow r))"

lemma over_not_found:
  assumes "run_over data w"
  shows "findExecutableRun (jd_run data) (jd_org data) w = (Inr None, w)"
proof (cases "find (\<lambda>r. run_id r = jd_run data \<and> run_org r = jd_org data) (runs w)")
  case (Some r)
  from find_SomeD [OF this] assms obtain x
    where "terminal_status (run_status r)" "x \<in> set (workflows w)" "wf_id x = run_workflow r"
    unfolding run_over_def by blast
  moreover from this have "find (\<lambda>x. wf_id x = run_workflow r) (workflows w) \<noteq> None"
    by (auto simp: find_None_iff)
  ultimately show ?thesis using Some by (auto simp: findExecutableRun_run executor_terminal)
qed (simp add: findExecutableRun_run)

text \<open>A job whose run is finished or missing does nothing: the queue may deliver a job again, and
  the second delivery changes nothing but the client's token and reports nothing as completed.\<close>

theorem finished_run_ignored:
  assumes "run_over data w"
  shows "\<exists>res. execute data j w = (Inr res, w\<lparr>run_token := None\<rparr>) \<and> er_status res \<noteq> Execution_completed"
proof -
  let ?w = "w\<lparr>run_token := jd_workerRunToken data\<rparr>"
  have over: "run_over data ?w" using assms by (simp add: run_over_def)
  note none = over_not_found [OF over]
  have noop: "executeNoop data j ?w = (Inr (not_executable (jd_run data)), ?w)"
  proof (cases "find (\<lambda>r. run_id r = jd_run data \<and> run_org r = jd_org data) (runs w)")
    case (Some r)
    with find_SomeD [OF this] assms have "terminal_status (run_status r)" unfolding run_over_def by blast
    with Some show ?thesis by (simp add: executeNoop_def step_simps executor_terminal)
  qed (simp add: executeNoop_def step_simps)
  have "\<exists>res. execute_job data j ?w = (Inr res, ?w) \<and> er_status res \<noteq> Execution_completed"
    unfolding execute_job_def executeResume_def executeInvoiceDownload_def executeRenewalCheck_def executePlanDowngradeStart_def
    using noop by (simp add: bnd_def [of "findExecutableRun k g" for k g] none step_simps not_executable_def skipped_def)
  then obtain res where "execute_job data j ?w = (Inr res, ?w)" "er_status res \<noteq> Execution_completed" by blast
  then show ?thesis by (simp add: execute_run)
qed

text \<open>The API refuses the message of a failure longer than 1000 characters.\<close>

lemma postJson_refused:
  assumes "\<And>w. \<exists>x. h w = (Inl x, w)" and "\<And>w n. f (w\<lparr>reads := n\<rparr>) = f w"
  shows "\<exists>x w'. postJson p b h w = (Inl x, w') \<and> f w' = f w"
proof -
  have "effect (same_of f) (postJson p b h) w"
  proof (rule same_postJson [OF assms(2)])
    show "effect (same_of f) h w" for w using assms(1) [of w] by (auto simp: effect_def same_of_def)
  qed
  moreover have "\<exists>x. fst (postJson p b h w) = Inl x"
  proof (cases "fst (postJson p b h w)")
    case (Inr y)
    then obtain w' where "postJson p b h w = (Inr y, w')" by (metis prod.collapse)
    moreover have "h w \<noteq> (Inr y, w')" for w using assms(1) [of w] by auto
    ultimately show ?thesis
      unfolding postJson_def
      by (elim bnd_InrE) (auto simp: try_catch_def bnd_def throw_def split: prod.splits sum.splits)
  qed simp
  ultimately show ?thesis by (metis effect_def same_of_def prod.collapse)
qed

definition stranded :: "'a action \<Rightarrow> world \<Rightarrow> bool" where
  "stranded m w \<longleftrightarrow> (\<exists>x w'. m w = (Inl x, w') \<and> runs w' = runs w \<and> receipts w' = receipts w)"

lemma stranded_bnd: "stranded m w \<Longrightarrow> stranded (bnd m f) w"
  unfolding stranded_def by (metis bnd_Inl)

text \<open>C36. A long error message strands the run: when the error of an execution has a message of more than
  1000 characters the API refuses the report of the failure, so the handler throws itself: the run
  keeps its status, no receipt is written, and the job fails in the queue, which will try it again.\<close>

theorem long_failure_strands_run:
  assumes "1000 < length (err_message e)" and "\<not> isPolicyDenial e"
  shows "stranded (handleInvoiceFailure run e) w \<and> stranded (handleRenewalFailure run e) w
    \<and> stranded (handlePlanDowngradeFailure run heading e) w"
proof -
  have "stranded (fail_run run e step summary) w" for step summary
  proof -
    have "\<exists>x w'. call_failRun (run_id (ex_run run)) (run_org (ex_run run)) \<lparr>wx_errorMessage = err_message e,
        wx_currentStep = Some step, wx_state = Some [(''failureType'', JStr (err_name e))]\<rparr> w = (Inl x, w')
      \<and> (\<lambda>w. (runs w, receipts w)) w' = (\<lambda>w. (runs w, receipts w)) w"
      unfolding call_failRun_def using assms(1)
      by (intro postJson_refused) (simp_all add: check_body_def bnd_assoc step_simps text_within_def)
    then show ?thesis unfolding fail_run_def by (intro stranded_bnd) (simp add: stranded_def)
  qed
  then show ?thesis
    unfolding handleInvoiceFailure_def handleRenewalFailure_def handlePlanDowngradeFailure_def
    using assms(2) by (simp add: stranded_bnd)
qed

lemma runs_worker_audit [effect_intros]: "effect (same_of runs) (worker_audit i) w"
  unfolding worker_audit_def recordRunEvent_def recordEvent_def by (intro same_postJson effect_intros; simp)

lemma markStarted_row:
  assumes "row_of run_t (run_id run) w = Some r"
  shows "\<exists>r'. row_of run_t (run_id run) (snd (markStarted run j s w)) = Some r' \<and> run_status r' = Run_Running"
proof -
  let ?pre = "case run_startedAt run of None \<Rightarrow> new_date | Some t \<Rightarrow> ret t"
  obtain t n where pre: "?pre w = (Inr t, w\<lparr>reads := n\<rparr>)"
    by (cases "run_startedAt run") (auto simp: ret_def new_date_def intro: that [where n = "reads w"])
  let ?w = "w\<lparr>reads := n\<rparr>"
  let ?f = "\<lambda>r. r\<lparr>run_status := Run_Running, run_startedAt := Some t, run_currentStep := Some s,
      run_state := executor_nextState (run_state run)
        [(''jobId'', JStr j), (''status'', prisma_status Run_Running), (''at'', JStr (iso (w_env w) t))]\<rparr>"
  have row: "row_of run_t (run_id run) ?w = Some r" using assms by (simp add: row_of_def run_t_def)
  have "effect (same_of runs) (bnd (worker_audit i) (\<lambda>_. ret q)) w'" for i w' and q :: run_row
    by (intro effect_intros)
  then show ?thesis
    unfolding markStarted_def bnd_Inr [of ?pre, OF pre]
    using row_of_run_id [OF row] row
    by (simp add: step_simps bnd_update_run [OF row] effect_def same_of_def row_of_def run_t_def find_upd_row)
qed

text \<open>Starting a run asks nothing of its row: the worker writes the status RUNNING over whatever status
  the row has by then, so that a run canceled after the worker looked it up is RUNNING again.\<close>

theorem started_whatever_status:
  assumes "row_of run_t (run_id run) w = Some r" and "run_status r = Run_Canceled"
  shows "\<exists>r'. row_of run_t (run_id run) (snd (markStarted run j s w)) = Some r' \<and> run_status r' = Run_Running
     \<and> \<not> canTransitionWorkflowRun (run_status r) (run_status r')"
  using markStarted_row [OF assms(1), of j s] assms(2) by (auto simp: canTransition_iff)

subsection \<open>Witnesses\<close>

definition noop_data :: job_data where
  "noop_data = \<lparr>jd_run = ''r'', jd_org = ''o'', jd_mode = Mode_start, jd_approval = None, jd_attempt = 1, jd_requestedAt = '''',
     jd_workflow = None, jd_agent = None, jd_vendor = None, jd_template = Some ''noop'', jd_reason = None, jd_workerRunToken = None\<rparr>"

theorem finished_run_ignored_witness:
  "\<exists>res. execute noop_data ''1'' (empty_world demo_env) = (Inr res, (empty_world demo_env)\<lparr>run_token := None\<rparr>)
     \<and> er_status res \<noteq> Execution_completed"
  by (rule finished_run_ignored) (simp add: run_over_def empty_world_def)


theorem long_failure_strands_run_witness:
  "stranded (handleInvoiceFailure \<lparr>ex_run = demo_run Run_Running, ex_config = JNull,
       ex_template = Template_VendorInvoiceDownload, ex_vendor = None\<rparr>
     (JsError ''TimeoutError'' (replicate 1001 CHR ''t''))) (empty_world demo_env)"
  by (rule long_failure_strands_run [THEN conjunct1]) (simp_all add: isPolicyDenial_def)

theorem started_whatever_status_witness:
  "\<exists>r'. row_of run_t ''r'' (snd (markStarted (demo_run Run_Queued) ''1'' ''x'' (demo_world Run_Canceled))) = Some r' \<and> run_status r' = Run_Running"
proof -
  have "row_of run_t (run_id (demo_run Run_Queued)) (demo_world Run_Canceled) = Some (demo_run Run_Canceled)"
    and "run_status (demo_run Run_Canceled) = Run_Canceled" and "run_id (demo_run Run_Queued) = ''r''"
    by (simp_all add: row_of_def run_t_def demo_world_def demo_run_def)
  with started_whatever_status [of "demo_run Run_Queued" "demo_world Run_Canceled" "demo_run Run_Canceled" "''1''" "''x''"]
  show ?thesis by auto
qed

end
