(* ===== verification/Settings.thy ===== *)
theory Settings
  imports Users
begin

section \<open>Organizations and notification preferences\<close>

text \<open>
  The settings of an organization (\<open>organization/organization.service.ts\<close>, \<open>organization.types.ts\<close>) and of a
  user's mails (\<open>user-preferences/user-preferences.service.ts\<close>). The mails about approvals obey the preferences:
  the recipients of \<open>notification.service.ts\<close> are computed from the rows written here.
\<close>

subsection \<open>The organization\<close>

definition toOrganizationDto :: "env \<Rightarrow> organization_row \<Rightarrow> json" where
  "toOrganizationDto e g = JObj [(''id'', JStr (or_id g)), (''name'', JStr (or_name g)), (''domain'', JStr (or_domain g)),
     (''plan'', JStr (or_plan g)), (''billingEmail'', jopt (or_billingEmail g)),
     (''createdAt'', JStr (iso e (or_createdAt g))), (''updatedAt'', JStr (iso e (or_updatedAt g)))]"

text \<open>An absent billing address and one that is \<open>null\<close> differ.\<close>

record organization_change =
  oc_name :: "string option"
  oc_domain :: "string option"
  oc_billingEmail :: "string option option"

definition getCurrentOrganization :: "string option \<Rightarrow> json action" where
  "getCurrentOrganization organizationId =
    bnd (require_org organizationId) (\<lambda>org.
    bnd (find_first organization_t (\<lambda>g. or_id g = org)) (\<lambda>found.
    bnd (require_some found (DomainError NotFound ''Organization was not found.'')) (\<lambda>g.
    gets (\<lambda>w. toOrganizationDto (w_env w) g))))"

text \<open>The domain of an organization is unique in the table.\<close>

definition domain_violation :: err where
  "domain_violation = PrismaError ''Unique constraint failed on the fields: (`domain`)''"

definition update_organization :: "string \<Rightarrow> organization_change \<Rightarrow> organization_row action" where
  "update_organization k i =
    bnd new_date (\<lambda>now.
    bnd (gets (\<lambda>w. oc_domain i \<noteq> None \<and> list_ex (\<lambda>g. or_id g = k) (organizations w)
      \<and> list_ex (\<lambda>g. or_id g \<noteq> k \<and> Some (or_domain g) = oc_domain i) (organizations w))) (\<lambda>taken.
    bnd (require (\<not> taken) domain_violation) (\<lambda>_.
    update_row organization_t record_not_found k (\<lambda>g. g\<lparr>or_name := coalesce (oc_name i) (or_name g),
      or_domain := coalesce (oc_domain i) (or_domain g), or_billingEmail := coalesce (oc_billingEmail i) (or_billingEmail g),
      or_updatedAt := now\<rparr>))))"

definition updateCurrentOrganization :: "context_user option \<Rightarrow> organization_change \<Rightarrow> json action" where
  "updateCurrentOrganization currentUser i =
    bnd (require_user currentUser) (\<lambda>user.
    bnd (require (cu_role user = Role_Owner) (DomainError PermissionDenied ''Only owners can update the organization.'')) (\<lambda>_.
    bnd (update_organization (cu_org user) i) (\<lambda>organization.
    bnd (record_audit \<lparr>ai_org = or_id organization, ai_run = None, ai_agent = None, ai_actorType = Actor_User,
      ai_actorId = Some (cu_id user), ai_eventType = Ev_OrganizationUpdated, ai_data = JObj
       [(''name'', JStr (or_name organization)), (''domain'', JStr (or_domain organization)),
        (''billingEmail'', jopt (or_billingEmail organization))]\<rparr>) (\<lambda>_.
    gets (\<lambda>w. toOrganizationDto (w_env w) organization)))))"

subsection \<open>Notification preferences\<close>

record preference_values =
  pv_approvalRequests :: bool
  pv_runCompletions :: bool
  pv_failures :: bool

definition DEFAULT_PREFERENCES :: preference_values where
  "DEFAULT_PREFERENCES = \<lparr>pv_approvalRequests = True, pv_runCompletions = False, pv_failures = True\<rparr>"

record preference_change =
  pc_approvalRequests :: "bool option"
  pc_runCompletions :: "bool option"
  pc_failures :: "bool option"

definition preference_dto :: "preference_row \<Rightarrow> preference_values" where
  "preference_dto p = \<lparr>pv_approvalRequests = np_approvalRequests p, pv_runCompletions = np_runCompletions p, pv_failures = np_failures p\<rparr>"

definition getNotificationPreferences :: "context_user option \<Rightarrow> preference_values action" where
  "getNotificationPreferences currentUser =
    bnd (require_user currentUser) (\<lambda>user.
    bnd (find_first preference_t (\<lambda>p. np_user p = cu_id user)) (\<lambda>found.
    ret (case found of None \<Rightarrow> DEFAULT_PREFERENCES | Some p \<Rightarrow> preference_dto p)))"

text \<open>\<open>upsert\<close> by the user.\<close>

definition preference_upsert :: "string \<Rightarrow> preference_change \<Rightarrow> preference_row action" where
  "preference_upsert userId i =
    bnd (find_first preference_t (\<lambda>p. np_user p = userId)) (\<lambda>found.
    case found of
      Some p \<Rightarrow> update_row preference_t record_not_found (np_id p)
        (\<lambda>p. p\<lparr>np_approvalRequests := coalesce (pc_approvalRequests i) (np_approvalRequests p),
          np_runCompletions := coalesce (pc_runCompletions i) (np_runCompletions p),
          np_failures := coalesce (pc_failures i) (np_failures p)\<rparr>)
    | None \<Rightarrow> bnd fresh_id (\<lambda>k. create_row preference_t \<lparr>np_id = k, np_user = userId,
        np_approvalRequests = coalesce (pc_approvalRequests i) (pv_approvalRequests DEFAULT_PREFERENCES),
        np_runCompletions = coalesce (pc_runCompletions i) (pv_runCompletions DEFAULT_PREFERENCES),
        np_failures = coalesce (pc_failures i) (pv_failures DEFAULT_PREFERENCES), np_slackWebhookUrl = None\<rparr>))"

definition updateNotificationPreferences :: "context_user option \<Rightarrow> preference_change \<Rightarrow> preference_values action" where
  "updateNotificationPreferences currentUser i =
    bnd (require_user currentUser) (\<lambda>user.
    bnd (preference_upsert (cu_id user) i) (\<lambda>p. ret (preference_dto p)))"

subsection \<open>Preferences are obeyed\<close>

text \<open>At most one row of preferences per user, and row ids that differ.\<close>

definition preferences_ok :: "preference_row list \<Rightarrow> bool" where
  "preferences_ok ps \<longleftrightarrow> distinct (map np_id ps) \<and> distinct (map np_user ps)"

definition preference_of :: "string \<Rightarrow> world \<Rightarrow> preference_row option" where
  "preference_of k w = find (\<lambda>p. np_user p = k) (preferences w)"

lemma row_of_user: "preferences_ok ps \<Longrightarrow> p \<in> set ps \<Longrightarrow> upd_row np_id (np_id p) f ps = upd_row np_user (np_user p) f ps"
  unfolding upd_row_def by (rule map_cong [OF refl]) (auto simp: preferences_ok_def distinct_map dest: inj_onD)

lemma find_own_row: "preferences_ok ps \<Longrightarrow> p \<in> set ps \<Longrightarrow> find (\<lambda>q. np_id q = np_id p) ps = Some p"
  using find_by_key [of np_id ps p] by (simp add: preferences_ok_def)

text \<open>The row a user has after a change: the row before, or the defaults, with the given values.\<close>

lemma preference_upsert_run:
  assumes "preferences_ok (preferences w)" and "uuid (w_env w) (ids w) \<notin> np_id ` set (preferences w)"
  obtains p w' where "preference_upsert k i w = (Inr p, w')" "preferences_ok (preferences w')"
    "\<And>j. preference_of j w' = (if j = k then Some p else preference_of j w)" "np_user p = k"
    "np_approvalRequests p = coalesce (pc_approvalRequests i) (case preference_of k w of None \<Rightarrow> True | Some q \<Rightarrow> np_approvalRequests q)"
    "np_runCompletions p = coalesce (pc_runCompletions i) (case preference_of k w of None \<Rightarrow> False | Some q \<Rightarrow> np_runCompletions q)"
    "np_failures p = coalesce (pc_failures i) (case preference_of k w of None \<Rightarrow> True | Some q \<Rightarrow> np_failures q)"
    "w_env w' = w_env w" "users w' = users w"
proof (cases "preference_of k w")
  case None
  then have new: "k \<notin> np_user ` set (preferences w)" by (auto simp: preference_of_def find_None_iff)
  let ?p = "\<lparr>np_id = uuid (w_env w) (ids w), np_user = k, np_approvalRequests = coalesce (pc_approvalRequests i) True,
    np_runCompletions = coalesce (pc_runCompletions i) False, np_failures = coalesce (pc_failures i) True, np_slackWebhookUrl = None\<rparr>"
  let ?w = "w\<lparr>ids := Suc (ids w), preferences := preferences w @ [?p]\<rparr>"
  have run: "preference_upsert k i w = (Inr ?p, ?w)"
    using None by (simp add: preference_upsert_def preference_of_def run_simps preference_t_def DEFAULT_PREFERENCES_def)
  show thesis
    by (rule that [OF run]) (use new None assms in \<open>auto simp: preferences_ok_def preference_of_def find_append split: option.splits\<close>)
next
  case (Some q)
  then have q: "q \<in> set (preferences w)" "np_user q = k" by (auto simp: preference_of_def dest: find_SomeD)
  let ?f = "\<lambda>p. p\<lparr>np_approvalRequests := coalesce (pc_approvalRequests i) (np_approvalRequests p),
    np_runCompletions := coalesce (pc_runCompletions i) (np_runCompletions p), np_failures := coalesce (pc_failures i) (np_failures p)\<rparr>"
  let ?w = "w\<lparr>preferences := upd_row np_user k ?f (preferences w)\<rparr>"
  have run: "preference_upsert k i w = (Inr (?f q), ?w)"
    using Some find_own_row [OF assms(1) q(1)] row_of_user [OF assms(1) q(1), of ?f] q(2)
    by (simp add: preference_upsert_def preference_of_def run_simps preference_t_def)
  have "preferences_ok (preferences ?w)"
    using assms(1) by (simp add: preferences_ok_def upd_row_def o_def if_distrib cong: if_cong)
  moreover have "preference_of j ?w = (if j = k then Some (?f q) else preference_of j w)" for j
    using Some find_upd_row [of np_user ?f j k "preferences w"] by (simp add: preference_of_def)
  ultimately show thesis using run Some q(2) by (intro that [OF run]) simp_all
qed

text \<open>What a user sets is what the mails obey: afterwards the stored preferences are the ones returned,
each given value replaced and the others as they were (or the defaults), reading them returns the same, the user is
told of approvals exactly when the returned preferences say so, and nobody else's mails change.\<close>

theorem preferences_obeyed:
  assumes "preferences_ok (preferences w)" and "uuid (w_env w) (ids w) \<notin> np_id ` set (preferences w)"
    and "updateNotificationPreferences (Some u) i w = (r, w')"
  shows "\<exists>v. r = Inr v \<and> fst (getNotificationPreferences (Some u) w') = Inr v
    \<and> (\<forall>x. us_id x = cu_id u \<longrightarrow> wants_approvals (preferences w') x = pv_approvalRequests v
        \<and> pv_approvalRequests v = coalesce (pc_approvalRequests i) (wants_approvals (preferences w) x))
    \<and> (\<forall>x. us_id x \<noteq> cu_id u \<longrightarrow> wants_approvals (preferences w') x = wants_approvals (preferences w) x)
    \<and> preferences_ok (preferences w')"
proof -
  obtain p v where run: "preference_upsert (cu_id u) i w = (Inr p, v)" and p: "preferences_ok (preferences v)"
    "\<And>j. preference_of j v = (if j = cu_id u then Some p else preference_of j w)"
    "np_approvalRequests p = coalesce (pc_approvalRequests i) (case preference_of (cu_id u) w of None \<Rightarrow> True | Some q \<Rightarrow> np_approvalRequests q)"
    by (rule preference_upsert_run [OF assms(1,2), of "cu_id u" i]) blast
  have res: "r = Inr (preference_dto p)" "w' = v"
    using assms(3) by (simp_all add: updateNotificationPreferences_def require_user_def bnd_require_some bnd_Inr [of "preference_upsert k c" for k c, OF run] ret_def)
  have wants: "wants_approvals (preferences x) y = (case preference_of (us_id y) x of None \<Rightarrow> True | Some q \<Rightarrow> np_approvalRequests q)" for x y
    by (simp add: wants_approvals_def preference_of_def)
  have "fst (getNotificationPreferences (Some u) v) = Inr (preference_dto p)"
    using p(2) [of "cu_id u"] by (simp add: getNotificationPreferences_def require_user_def preference_of_def run_simps preference_t_def)
  then show ?thesis
    using p by (auto simp: res wants preference_dto_def)
qed

theorem preferences_obeyed_witness:
  "\<exists>v w'. updateNotificationPreferences (Some demo_user) \<lparr>pc_approvalRequests = Some False, pc_runCompletions = None, pc_failures = None\<rparr>
      (empty_world demo_env) = (Inr v, w') \<and> \<not> wants_approvals (preferences w') (demo_member\<lparr>us_id := cu_id demo_user\<rparr>)"
proof -
  let ?i = "\<lparr>pc_approvalRequests = Some False, pc_runCompletions = None, pc_failures = None\<rparr>"
  obtain r w' where run: "updateNotificationPreferences (Some demo_user) ?i (empty_world demo_env) = (r, w')" by fastforce
  have "\<exists>v. r = Inr v \<and> (\<forall>x. us_id x = cu_id demo_user \<longrightarrow> wants_approvals (preferences w') x = pv_approvalRequests v
      \<and> pv_approvalRequests v = coalesce (pc_approvalRequests ?i) (wants_approvals (preferences (empty_world demo_env)) x))"
    using preferences_obeyed [OF _ _ run] by (simp add: preferences_ok_def empty_world_def) blast
  then show ?thesis using run by (fastforce dest: spec [of _ "demo_member\<lparr>us_id := cu_id demo_user\<rparr>"])
qed

end
