(* ===== verification/Tenants.thy ===== *)
theory Tenants
  imports Receipts Executor Settings
begin

section \<open>Organizations are kept apart\<close>

text \<open>
  What a request of a user may do to the rows of other organizations: nothing. \<open>others_of g w\<close> is the part of the tables
  and of the audit log that does not belong to the organization \<open>g\<close>. The rules below say when a step leaves it alone: a new
  row carries \<open>g\<close>, an updated row was found in \<open>g\<close>, and keys are unique, so that no other row has its key. Every
  operation of a user is proved from them.
\<close>

context effect_order
begin

lemma effect_case_prod [effect_intros]: "(\<And>x y. v = (x, y) \<Longrightarrow> effect R (f x y) s) \<Longrightarrow> effect R (case v of (x, y) \<Rightarrow> f x y) s"
  by (cases v) simp

lemma effect_case_json [effect_intros]:
  "effect R a s \<Longrightarrow> (\<And>x. effect R (b x) s) \<Longrightarrow> (\<And>x. effect R (c x) s) \<Longrightarrow> (\<And>x. effect R (d x) s) \<Longrightarrow>
   (\<And>x. effect R (f x) s) \<Longrightarrow> (\<And>x. effect R (g x) s) \<Longrightarrow> effect R (case_json a b c d f g v) s"
  by (cases v) simp_all

end

named_theorems tenant_intros \<open>steps that leave the rows of other organizations alone\<close>

record others =
  ot_organizations :: "organization_row list"
  ot_users :: "user_row list"
  ot_agents :: "agent_row list"
  ot_vendors :: "vendor_row list"
  ot_policies :: "policy_row list"
  ot_credentials :: "credential_row list"
  ot_workflows :: "workflow_row list"
  ot_runs :: "run_row list"
  ot_approvals :: "approval_row list"
  ot_audits :: "audit_row list"

definition others_of :: "string \<Rightarrow> world \<Rightarrow> others" where
  "others_of g w = \<lparr>ot_organizations = filter (\<lambda>r. or_id r \<noteq> g) (organizations w), ot_users = filter (\<lambda>r. us_org r \<noteq> g) (users w),
     ot_agents = filter (\<lambda>r. ag_org r \<noteq> g) (agents w), ot_vendors = filter (\<lambda>r. ve_org r \<noteq> g) (vendors w),
     ot_policies = filter (\<lambda>r. po_org r \<noteq> g) (policies w), ot_credentials = filter (\<lambda>r. cr_org r \<noteq> g) (credentials w),
     ot_workflows = filter (\<lambda>r. wf_org r \<noteq> g) (workflows w), ot_runs = filter (\<lambda>r. run_org r \<noteq> g) (runs w),
     ot_approvals = filter (\<lambda>r. apr_org r \<noteq> g) (approvals w), ot_audits = filter (\<lambda>r. au_org r \<noteq> g) (audits w)\<rparr>"

abbreviation apart :: "string \<Rightarrow> 'a action \<Rightarrow> world \<Rightarrow> bool" where
  "apart g \<equiv> effect (same_of (others_of g))"

subsection \<open>Steps\<close>

lemma apart_bnd [tenant_intros]:
  assumes "apart g m s" and "\<And>x s'. m s = (Inr x, s') \<Longrightarrow> others_of g s' = others_of g s \<Longrightarrow> apart g (f x) s'"
  shows "apart g (bnd m f) s"
  using assms by (intro same.effect_bnd) (simp_all add: effect_def same_of_def)

lemma filter_apart:
  assumes "\<And>r. r \<in> set rs \<Longrightarrow> org r \<noteq> g \<Longrightarrow> f r = r" and "\<And>r. org (f r) = org r"
  shows "filter (\<lambda>r. org r \<noteq> g) (map f rs) = filter (\<lambda>r. org r \<noteq> g) rs"
  using assms(1) by (induction rs) (simp_all add: assms(2))

lemma filter_upd:
  assumes "k \<notin> key ` set (filter (\<lambda>r. org r \<noteq> g) rs)" and "\<And>r. org (f r) = org r"
  shows "filter (\<lambda>r. org r \<noteq> g) (upd_row key k f rs) = filter (\<lambda>r. org r \<noteq> g) rs"
  unfolding upd_row_def using assms by (intro filter_apart) auto

lemmas apart_leaves [tenant_intros] = same.effect_ret same.effect_throw same.effect_gets same.effect_require same.effect_require_some
  same.effect_if same.effect_run_if same.effect_case_option same.effect_case_prod same.effect_case_json same.effect_let same.effect_try_catch same_find_first same_find_many

lemma apart_clock [tenant_intros]: "apart g new_date s" "apart g fresh_id s"
  by (simp_all add: effect_def same_of_def others_of_def run_simps)

lemma apart_audit [tenant_intros]: "ai_org i = g \<Longrightarrow> apart g (record_audit i) s"
  by (simp add: effect_def same_of_def others_of_def record_audit_run Let_def)

lemma keeps_others [simp]: "keeps (others_of g) preference_t" "keeps (others_of g) refresh_token_t" "keeps (others_of g) grant_t"
  "keeps (others_of g) attempt_t" "keeps (others_of g) file_t" "keeps (others_of g) receipt_t"
  by (simp_all add: keeps_defs others_of_def)

lemma apart_other_tables [tenant_intros]:
  "apart g (create_row grant_t a) s" "apart g (update_row grant_t e k b) s" "apart g (update_many refresh_token_t P c) s"
  "apart g (create_row preference_t p) s" "apart g (update_row preference_t e k q) s"
  by (intro same_create same_update same_update_many keeps_others)+

lemma apart_create [tenant_intros]:
  "us_org u = g \<Longrightarrow> apart g (create_row user_t u) s" "ag_org a = g \<Longrightarrow> apart g (create_row agent_t a) s"
  "ve_org v = g \<Longrightarrow> apart g (create_row vendor_t v) s" "po_org p = g \<Longrightarrow> apart g (create_row policy_t p) s"
  "cr_org c = g \<Longrightarrow> apart g (create_row credential_t c) s" "wf_org f = g \<Longrightarrow> apart g (create_row workflow_t f) s"
  "run_org r = g \<Longrightarrow> apart g (create_row run_t r) s"
  by (simp_all add: effect_def same_of_def others_of_def run_simps)

lemma apart_update [tenant_intros]:
  "k \<notin> us_id ` set (ot_users (others_of g s)) \<Longrightarrow> (\<And>q. us_org (fu q) = us_org q) \<Longrightarrow> apart g (update_row user_t e k fu) s"
  "k \<notin> ag_id ` set (ot_agents (others_of g s)) \<Longrightarrow> (\<And>q. ag_org (fa q) = ag_org q) \<Longrightarrow> apart g (update_row agent_t e k fa) s"
  "k \<notin> ve_id ` set (ot_vendors (others_of g s)) \<Longrightarrow> (\<And>q. ve_org (fv q) = ve_org q) \<Longrightarrow> apart g (update_row vendor_t e k fv) s"
  "k \<notin> po_id ` set (ot_policies (others_of g s)) \<Longrightarrow> (\<And>q. po_org (fp q) = po_org q) \<Longrightarrow> apart g (update_row policy_t e k fp) s"
  "k \<notin> cr_id ` set (ot_credentials (others_of g s)) \<Longrightarrow> (\<And>q. cr_org (fc q) = cr_org q) \<Longrightarrow> apart g (update_row credential_t e k fc) s"
  "k \<notin> wf_id ` set (ot_workflows (others_of g s)) \<Longrightarrow> (\<And>q. wf_org (fw q) = wf_org q) \<Longrightarrow> apart g (update_row workflow_t e k fw) s"
  "k \<notin> run_id ` set (ot_runs (others_of g s)) \<Longrightarrow> (\<And>q. run_org (fr q) = run_org q) \<Longrightarrow> apart g (update_row run_t e k fr) s"
  "k \<notin> apr_id ` set (ot_approvals (others_of g s)) \<Longrightarrow> (\<And>q. apr_org (fo q) = apr_org q) \<Longrightarrow> apart g (update_row approval_t e k fo) s"
  by (simp_all add: effect_def same_of_def others_of_def run_simps filter_upd split: option.splits)

lemma apart_update_organization [tenant_intros]:
  "k = g \<Longrightarrow> (\<And>q. or_id (f q) = or_id q) \<Longrightarrow> apart g (update_row organization_t e k f) s"
  using filter_upd [of g or_id or_id g "organizations s" f]
  by (auto simp: effect_def same_of_def others_of_def run_simps split: option.splits)

subsection \<open>Rows found in the organization\<close>

lemma key_apart:
  assumes "distinct (map key rs)" and "find (\<lambda>r. key r = k \<and> org r = g \<and> P r) rs = Some r"
  shows "org r = g" and "key r = k" and "k \<notin> key ` set (filter (\<lambda>r. org r \<noteq> g) rs)"
  using assms find_SomeD [OF assms(2)] by (auto simp: distinct_map inj_on_def)

lemma apart_require_user [tenant_intros]: "apart g (f u) s \<Longrightarrow> apart g (bnd (require_user (Some u)) f) s"
  by (simp add: require_user_def bnd_require_some)

lemma apart_find:
  assumes "distinct (map key (tget t s))"
    and "\<And>r. org r = g \<Longrightarrow> key r \<notin> key ` set (filter (\<lambda>r. org r \<noteq> g) (tget t s)) \<Longrightarrow> r \<in> set (tget t s) \<Longrightarrow> apart g (f r) s"
  shows "apart g (bnd (bnd (require_org (Some g)) (\<lambda>h. bnd (find_first t (\<lambda>r. key r = k \<and> org r = h \<and> P r)) (\<lambda>found. require_some found e))) f) s"
proof (cases "find (\<lambda>r. key r = k \<and> org r = g \<and> P r) (tget t s)")
  case None
  then show ?thesis by (simp add: require_org_def effect_def bnd_def throw_def ret_def same_of_def find_first_def gets_def require_some_def)
next
  case (Some r)
  have "apart g (f r) s"
    using key_apart [OF assms(1) Some] find_SomeD [OF Some] by (intro assms(2)) simp_all
  then show ?thesis
    using Some by (simp add: require_org_def effect_def bnd_def throw_def ret_def same_of_def find_first_def gets_def require_some_def)
qed

lemmas apart_find_all = apart_find [where P = "\<lambda>_. True", simplified]

lemma apart_found [tenant_intros]:
  "unique_keys agent_t s \<Longrightarrow> (\<And>a. ag_org a = g \<Longrightarrow> ag_id a \<notin> ag_id ` set (ot_agents (others_of g s)) \<Longrightarrow> apart g (fa a) s)
    \<Longrightarrow> apart g (bnd (findAgentInOrganization (Some g) k) fa) s"
  "unique_keys policy_t s \<Longrightarrow> (\<And>p. po_org p = g \<Longrightarrow> po_id p \<notin> po_id ` set (ot_policies (others_of g s)) \<Longrightarrow> apart g (fp p) s)
    \<Longrightarrow> apart g (bnd (findPolicyInOrganization (Some g) k) fp) s"
  "unique_keys vendor_t s \<Longrightarrow> (\<And>v. ve_org v = g \<Longrightarrow> ve_id v \<notin> ve_id ` set (ot_vendors (others_of g s)) \<Longrightarrow> v \<in> set (vendors s) \<Longrightarrow> apart g (fv v) s)
    \<Longrightarrow> apart g (bnd (findVendorInOrganization (Some g) k) fv) s"
  "unique_keys credential_t s \<Longrightarrow> (\<And>c. cr_org c = g \<Longrightarrow> cr_id c \<notin> cr_id ` set (ot_credentials (others_of g s)) \<Longrightarrow> apart g (fc c) s)
    \<Longrightarrow> apart g (bnd (findCredentialInOrganization (Some g) k) fc) s"
  "unique_keys workflow_t s \<Longrightarrow> (\<And>f. wf_org f = g \<Longrightarrow> wf_id f \<notin> wf_id ` set (ot_workflows (others_of g s)) \<Longrightarrow> apart g (ff f) s)
    \<Longrightarrow> apart g (bnd (findWorkflowInOrganization (Some g) k) ff) s"
  "unique_keys run_t s \<Longrightarrow> (\<And>r. run_org r = g \<Longrightarrow> run_id r \<notin> run_id ` set (ot_runs (others_of g s)) \<Longrightarrow> apart g (fr r) s)
    \<Longrightarrow> apart g (bnd (findRunInOrganization (Some g) k) fr) s"
  "unique_keys user_t s \<Longrightarrow> (\<And>u. us_org u = g \<Longrightarrow> us_id u \<notin> us_id ` set (ot_users (others_of g s)) \<Longrightarrow> apart g (fu u) s)
    \<Longrightarrow> apart g (bnd (findUserInOrganization (Some g) k) fu) s"
  "unique_keys approval_t s \<Longrightarrow> (\<And>a. apr_org a = g \<Longrightarrow> apr_id a \<notin> apr_id ` set (ot_approvals (others_of g s)) \<Longrightarrow> a \<in> set (approvals s) \<Longrightarrow> apart g (fo a) s)
    \<Longrightarrow> apart g (bnd (findApprovalInOrganization (Some g) k) fo) s"
  unfolding findAgentInOrganization_def findPolicyInOrganization_def findVendorInOrganization_def findCredentialInOrganization_def
    findWorkflowInOrganization_def findRunInOrganization_def find_run_def findUserInOrganization_def findApprovalInOrganization_def unique_keys_def
  by (rule apart_find_all [of ag_id agent_t s ag_org] apart_find_all [of po_id policy_t s po_org] apart_find [of ve_id vendor_t s ve_org]
      apart_find_all [of cr_id credential_t s cr_org] apart_find_all [of wf_id workflow_t s wf_org] apart_find_all [of run_id run_t s run_org]
      apart_find_all [of us_id user_t s us_org] apart_find_all [of apr_id approval_t s apr_org]; simp add: table_defs others_of_def)+

subsection \<open>The operations of a user\<close>

lemma others_frame [simp]:
  "others_of g (w\<lparr>reads := n\<rparr>) = others_of g w" "others_of g (w\<lparr>ids := n\<rparr>) = others_of g w" "others_of g (w\<lparr>notices := ns\<rparr>) = others_of g w"
  "others_of g (w\<lparr>decrypt_counter := x\<rparr>) = others_of g w" "others_of g (w\<lparr>grant_counter := x\<rparr>) = others_of g w" "queue_free (others_of g)"
  by (simp_all add: others_of_def queue_free_def)

lemma apart_still: "snd (m s) = s \<Longrightarrow> apart g m s"
  by (simp add: effect_def same_of_def)

lemma apart_parts [tenant_intros]:
  "apart g (assertCanPause a) s" "apart g (assertCanResume a) s" "apart g (assertCanRevoke a) s" "apart g (generate name) s"
  "apart g (assertVendorInOrganization h v) s" "apart g (assertAgentInOrganization h v) s" "apart g (with_grants c) s"
  "apart g (encryptSecret x mk ctx) s" "apart g (seal_option y ctx) s" "apart g (recordCredentialGrant z) s"
  "apart g (enqueueStart i) s" "apart g (enqueueCancel r h why) s" "apart g (enqueueApprovalResume p) s" "apart g (removeStartJob r) s"
  "apart g (assertCanTransition a1 a2) s" "apart g (now_unless n) s"
  by (intro effect_intros; simp)+

lemma apart_checks [tenant_intros]:
  "apart g (validateSnapshot v) s" "apart g (validateConfiguration t j c) s"
  using validateSnapshot_still passes_validate [of t j c s] by (simp_all add: apart_still passes_def)

lemma apart_agents:
  assumes "unique_keys agent_t w"
  shows "apart (cu_org u) (agent_create (Some u) i) w" "apart (cu_org u) (agent_update (Some u) k c) w"
    "apart (cu_org u) (agent_pause (Some u) k) w" "apart (cu_org u) (agent_resume (Some u) k) w" "apart (cu_org u) (agent_revoke (Some u) k) w"
  unfolding agent_create_def agent_update_def agent_pause_def agent_resume_def agent_revoke_def update_agent_def recordAgentAudit_def
  using assms by (intro tenant_intros; simp)+

lemma apart_policies:
  assumes "unique_keys policy_t w"
  shows "apart (cu_org u) (policy_create (Some u) i) w" "apart (cu_org u) (policy_update (Some u) k c) w"
  unfolding policy_create_def policy_update_def policy_assertAgent_def assertOneActiveBundle_def recordPolicyAudit_def next_rules_def
  using assms by (intro tenant_intros; simp)+

lemma apart_policy_evaluate: "apart (cu_org u) (policy_evaluate (Some u) e) w"
  unfolding policy_evaluate_def evaluation_findPolicy_def fromPolicy_def
  by (intro tenant_intros; simp)

lemma apart_workflows:
  assumes "unique_keys workflow_t w"
  shows "apart (cu_org u) (workflow_create (Some u) i) w" "apart (cu_org u) (workflow_update (Some u) k c) w"
    "apart (cu_org u) (startRun (Some u) k) w"
  unfolding workflow_create_def workflow_update_def startRun_def assertActiveAgent_def assertActiveVendor_def assertActivePolicy_def
    assertCredentialGrantForConfig_def recordWorkflowAudit_def
  using assms by (intro tenant_intros; simp)+

lemma apart_delete_vendor [tenant_intros]:
  assumes "k \<notin> ve_id ` set (ot_vendors (others_of g s))" and "Some k \<notin> run_vendor ` set (ot_runs (others_of g s))"
  shows "apart g (delete_vendor_row k) s"
proof -
  have v: "filter (\<lambda>v. ve_id v \<noteq> k \<and> ve_org v \<noteq> g) (vendors s) = filter (\<lambda>v. ve_org v \<noteq> g) (vendors s)"
    using assms(1) by (intro filter_cong) (auto simp: others_of_def)
  have r: "filter (\<lambda>r. run_org r \<noteq> g) (map (\<lambda>r. if run_vendor r = Some k then r\<lparr>run_vendor := None\<rparr> else r) (runs s))
      = filter (\<lambda>r. run_org r \<noteq> g) (runs s)"
    using assms(2) by (intro filter_apart) (auto simp: others_of_def image_iff)
  show ?thesis
    unfolding delete_vendor_row_def by (intro tenant_intros same_modify) (simp add: others_of_def v r)
qed

definition vendors_referred :: "world \<Rightarrow> bool" where
  "vendors_referred w \<longleftrightarrow> (\<forall>r \<in> set (runs w). \<forall>v \<in> set (vendors w). run_vendor r = Some (ve_id v) \<longrightarrow> run_org r = ve_org v)"

lemma vendors_referred_apart:
  "vendors_referred s \<Longrightarrow> v \<in> set (vendors s) \<Longrightarrow> ve_org v = g \<Longrightarrow> Some (ve_id v) \<notin> run_vendor ` set (ot_runs (others_of g s))"
  by (auto simp: vendors_referred_def others_of_def)

lemma apart_vendors:
  assumes "unique_keys vendor_t w"
  shows "apart (cu_org u) (vendor_create (Some u) i) w" "apart (cu_org u) (vendor_update (Some u) k c) w"
    "vendors_referred w \<Longrightarrow> apart (cu_org u) (vendor_delete (Some u) k) w"
  unfolding vendor_create_def vendor_update_def vendor_delete_def normalize_def vendor_view_def check_website_def
    assertNoActiveDuplicate_def assertOwnerInOrganization_def recordVendorAudit_def date_input_def next_website_def
  using assms by (intro tenant_intros; simp add: vendors_referred_apart)+

lemma updated_organization:
  assumes "update_organization k i s = (Inr r, s')"
  shows "or_id r = k"
  using assms by (auto simp: update_organization_def run_simps split: if_splits option.splits dest!: find_SomeD)

lemma apart_update_organization_op [tenant_intros]: "k = g \<Longrightarrow> apart g (update_organization k i) s"
  unfolding update_organization_def by (intro tenant_intros; simp)

lemma apart_settings:
  "apart (cu_org u) (updateCurrentOrganization (Some u) c) w" "apart (cu_org u) (updateNotificationPreferences (Some u) p) w"
  unfolding updateCurrentOrganization_def updateNotificationPreferences_def preference_upsert_def
  by (intro tenant_intros; simp add: updated_organization)+

lemma apart_save_grant [tenant_intros]: "apart g (save_grant eg k a sc uid) s"
  unfolding save_grant_def by (intro tenant_intros)

lemma apart_credentials:
  assumes "unique_keys credential_t w"
  shows "apart (cu_org u) (credential_update (Some u) k c) w" "apart (cu_org u) (credential_grant (Some u) k a sc) w"
    "apart (cu_org u) (credential_revokeGrant (Some u) k gk) w" "apart (cu_org u) (credential_revoke (Some u) k) w"
  unfolding credential_update_def credential_grant_def credential_revokeGrant_def credential_revoke_def update_credential_def recordCredentialAudit_def
  using assms by (intro tenant_intros; simp)+

lemma apart_send_email [tenant_intros]: "apart g (send_email m) s"
  unfolding mail_defs by (intro effect_intros) simp_all

lemma apart_user_parts [tenant_intros]:
  "apart g (user_view r) s" "apart g (sendInviteEmail a b c) s" "apart g (verifyPassword h p) s" "apart g (find_user k) s"
  "apart g (refresh_revokeAllForUser k) s" "apart g (assertNotLastOwner k m n) s" "apart g (assertOwnerRoleBoundary u ur m) s"
  unfolding user_view_def sendInviteEmail_def verifyPassword_def find_user_def refresh_revokeAllForUser_def
    revoke_tokens_def assertNotLastOwner_def assertOwnerRoleBoundary_def
  by (intro tenant_intros)+

lemma apart_secrets [tenant_intros]: "apart g randomToken s" "apart g (hashActionToken t) s" "apart g (hashPassword p) s" "apart g (iso_of n) s"
  by (simp_all add: randomToken_def hashActionToken_def hashPassword_def iso_of_def effect_def same_of_def run_simps)

lemma apart_user_event [tenant_intros]: "cu_org u = g \<Longrightarrow> apart g (recordUserEvent u e d) s"
  unfolding recordUserEvent_def by (intro tenant_intros) simp

lemma apart_owner_or_admin [tenant_intros]: "apart g (f u) s \<Longrightarrow> apart g (bnd (assertOwnerOrAdmin (Some u) m) f) s"
  by (simp add: assertOwnerOrAdmin_def require_def bnd_ret effect_def same_of_def bnd_def throw_def ret_def)

lemma apart_users:
  assumes "unique_keys user_t w"
  shows "apart (cu_org u) (inviteUser (Some u) i) w" "apart (cu_org u) (changeUserRole (Some u) k r) w" "apart (cu_org u) (disableUser (Some u) k) w"
    "apart (cu_org u) (enableUser (Some u) k) w"
    "cu_id u \<notin> us_id ` set (ot_users (others_of (cu_org u) w)) \<Longrightarrow> apart (cu_org u) (updateOwnProfile (Some u) n) w"
    "cu_id u \<notin> us_id ` set (ot_users (others_of (cu_org u) w)) \<Longrightarrow> apart (cu_org u) (changeOwnPassword (Some u) p q) w"
  unfolding inviteUser_def changeUserRole_def disableUser_def enableUser_def updateOwnProfile_def changeOwnPassword_def update_user_def
  using assms by (intro tenant_intros; simp add: new_user_def)+

lemma apart_cancel:
  assumes "unique_keys run_t w"
  shows "apart (cu_org u) (cancel (Some u) k why) w"
  unfolding cancel_def update_run_def cancel_nextState_def require_user_def [symmetric]
  using assms by (intro tenant_intros; simp)

text \<open>A decision reads the request and the run; a request past its expiry is expired on the way.\<close>

lemma apart_find_run:
  assumes "unique_keys run_t s" and "apart g (f None) s"
    and "\<And>r. run_org r = g \<Longrightarrow> run_id r \<notin> run_id ` set (ot_runs (others_of g s)) \<Longrightarrow> apart g (f (Some r)) s"
  shows "apart g (bnd (find_run k g) f) s"
proof (cases "find (\<lambda>r. run_id r = k \<and> run_org r = g) (runs s)")
  case None
  with assms(2) show ?thesis by (simp add: effect_def bnd_find_run)
next
  case (Some r)
  have d: "distinct (map run_id (runs s))" using assms(1) by (simp add: unique_keys_def)
  have f: "find (\<lambda>r. run_id r = k \<and> run_org r = g \<and> True) (runs s) = Some r" using Some by simp
  have "apart g (f (Some r)) s"
    using key_apart [OF d f] by (intro assms(3)) (simp_all add: others_of_def)
  with Some show ?thesis by (simp add: effect_def bnd_find_run)
qed

lemma apart_deny [tenant_intros]: "run_id r \<notin> run_id ` set (ot_runs (others_of g s)) \<Longrightarrow> apart g (deny_expired_run r) s"
  unfolding deny_expired_run_def update_run_def by (intro tenant_intros; simp)

lemma apart_expire:
  assumes "unique_keys approval_t s" and "unique_keys run_t s" and "row_of approval_t (apr_id a) s = Some a" and "apr_org a = g"
  shows "apart g (expireApproval a) s"
proof (cases "apr_status a = Approval_Pending")
  case True
  define s1 where "s1 = s\<lparr>reads := Suc (reads s), approvals := upd_row apr_id (apr_id a)
    (\<lambda>q. q\<lparr>apr_status := Approval_Expired, apr_updatedAt := clock (w_env s) (reads s)\<rparr>) (approvals s)\<rparr>"
  have a: "a \<in> set (approvals s)" using assms(3) by (auto simp: row_of_def dest: find_SomeD)
  have inj: "inj_on apr_id (set (approvals s))" using assms(1) by (simp add: unique_keys_def distinct_map)
  have "apr_id a \<notin> apr_id ` set (filter (\<lambda>r. apr_org r \<noteq> g) (approvals s))"
  proof
    assume "apr_id a \<in> apr_id ` set (filter (\<lambda>r. apr_org r \<noteq> g) (approvals s))"
    then obtain b where b: "b \<in> set (approvals s)" "apr_org b \<noteq> g" "apr_id a = apr_id b" by auto
    from inj_onD [OF inj b(3) a b(1)] b(2) assms(4) show False by simp
  qed
  then have same: "others_of g s1 = others_of g s" by (simp add: s1_def others_of_def filter_upd)
  have u: "unique_keys run_t s1" using assms(2) by (simp add: s1_def unique_keys_def)
  let ?a = "a\<lparr>apr_status := Approval_Expired, apr_updatedAt := clock (w_env s) (reads s)\<rparr>"
  have "apart g (bnd (find_run (apr_run a) g) (\<lambda>run. bnd (case run of None \<Rightarrow> ret () | Some r \<Rightarrow> deny_expired_run r) (\<lambda>_.
      bnd (gets (\<lambda>w. iso_opt (w_env w) (apr_expiresAt a))) (\<lambda>expiresAt.
      bnd (record_audit \<lparr>ai_org = g, ai_run = Some (apr_run a), ai_agent = Some (apr_requestedBy a), ai_actorType = Actor_System, ai_actorId = None,
        ai_eventType = Ev_ApprovalExpired, ai_data = JObj [(''approvalRequestId'', JStr (apr_id a)), (''expiresAt'', expiresAt)]\<rparr>) (\<lambda>_. ret ?a))))) s1"
    by (rule apart_find_run [OF u]; simp; intro tenant_intros; simp)
  then show ?thesis
    using True assms(3,4) same unfolding effect_def same_of_def
    by (simp add: expireApproval_def bnd_update_approval s1_def [symmetric])
qed (simp add: expireApproval_def effect_def same_of_def ret_def)

lemma apart_pending:
  assumes "unique_keys approval_t s" and "unique_keys run_t s" and "a \<in> set (approvals s)" and "apr_org a = g"
  shows "apart g (assertPendingOrExpire a) s"
proof -
  let ?s = "s\<lparr>reads := Suc (reads s)\<rparr>"
  have "row_of approval_t (apr_id a) ?s = Some a"
    using row_of_member [of ?s a] assms(1,3) by (simp add: unique_keys_def)
  then have e: "apart g (expireApproval a) ?s"
    using assms by (intro apart_expire) (simp_all add: unique_keys_def)
  show ?thesis
    unfolding assertPendingOrExpire_def by (intro tenant_intros) (use e in \<open>simp_all add: new_date_def\<close>)
qed

lemma pending_reads:
  "assertPendingOrExpire a s = (Inr x, s') \<Longrightarrow> s' = s\<lparr>reads := Suc (reads s)\<rparr>"
  by (auto simp: assertPendingOrExpire_def run_if_def new_date_def throw_def ret_def elim!: bnd_requireE bnd_InrE split: if_splits)

lemma apart_decision:
  assumes "unique_keys approval_t s" and "unique_keys run_t s"
    and "\<And>a r s'. apr_id a \<notin> apr_id ` set (ot_approvals (others_of (cu_org u) s')) \<Longrightarrow>
      run_id r \<notin> run_id ` set (ot_runs (others_of (cu_org u) s')) \<Longrightarrow> apart (cu_org u) (f (u, a, r)) s'"
  shows "apart (cu_org u) (bnd (decision_context (Some u) k t) f) s"
  unfolding decision_context_def bnd_assoc bnd_require_some
proof (rule apart_found(8) [OF assms(1)])
  fix a assume a: "apr_org a = cu_org u" "apr_id a \<notin> apr_id ` set (ot_approvals (others_of (cu_org u) s))" "a \<in> set (approvals s)"
  show "apart (cu_org u) (bnd (assertPendingOrExpire a) (\<lambda>_. bnd (find_run (apr_run a) (cu_org u)) (\<lambda>found.
      bnd (require_some found record_not_found_first) (\<lambda>run. bnd (assertCanTransition (run_status run) t) (\<lambda>_. bnd (ret (u, a, run)) f))))) s"
  proof (rule apart_bnd)
    show "apart (cu_org u) (assertPendingOrExpire a) s" by (rule apart_pending [OF assms(1,2) a(3,1)])
    fix x s' assume "assertPendingOrExpire a s = (Inr x, s')" and same: "others_of (cu_org u) s' = others_of (cu_org u) s"
    then have "unique_keys run_t s'" using assms(2) pending_reads [of a s x s'] by (simp add: unique_keys_def)
    then show "apart (cu_org u) (bnd (find_run (apr_run a) (cu_org u)) (\<lambda>found.
      bnd (require_some found record_not_found_first) (\<lambda>run. bnd (assertCanTransition (run_status run) t) (\<lambda>_. bnd (ret (u, a, run)) f)))) s'"
      by (rule apart_find_run) (intro tenant_intros assms(3); use a same in simp)+
  qed
qed

lemma with_comment_org [simp]: "apr_org (with_comment c a) = apr_org a"
  by (simp add: with_comment_def split: option.split)

lemma apart_decisions:
  assumes "unique_keys approval_t w" and "unique_keys run_t w"
  shows "apart (cu_org u) (approve (Some u) k c) w" "apart (cu_org u) (reject (Some u) k c) w"
  unfolding approve_def reject_def approve_decide_def approve_finish_def update_approval_def update_run_def nextRunState_def user_event_def
  by (rule apart_decision [OF assms]; simp; intro tenant_intros; simp)+

lemma created_row: "create_row t r s = (Inr x, s') \<Longrightarrow> x = r"
  by (simp add: run_simps)

lemma apart_credential_create:
  assumes "uuid (w_env w) (ids w) \<notin> cr_id ` set (ot_credentials (others_of (cu_org u) w))"
  shows "apart (cu_org u) (credential_create (Some u) i) w"
  unfolding credential_create_def
proof (rule apart_require_user, rule apart_bnd, rule apart_parts)
  fix x s assume "assertVendorInOrganization (cu_org u) (cc_vendorId i) w = (Inr x, s)"
  then have "s = w" by (auto simp: assertVendorInOrganization_def bnd_find_first require_def ret_def throw_def split: if_splits)
  then show "apart (cu_org u) (bnd (transaction (
      bnd fresh_id (\<lambda>k.
      bnd new_date (\<lambda>now.
      bnd (create_row credential_t \<lparr>cr_id = k, cr_org = cu_org u, cr_vendor = cc_vendorId i, cr_label = cc_label i,
        cr_type = cc_type i, cr_payload = JObj [], cr_encryptionVersion = ''pending'', cr_status = Credential_Active,
        cr_lastUsedAt = None, cr_createdBy = cu_id u, cr_createdAt = now, cr_updatedAt = now, cr_revokedAt = None\<rparr>) (\<lambda>created.
      bnd (gets (\<lambda>w. vaultMasterKey (w_env w))) (\<lambda>masterKey.
      bnd (encryptSecret (cc_secret i) masterKey \<lparr>vc_org = Some (cu_org u), vc_credential = Some (cr_id created),
        vc_keyVersion = Some ''local-v1''\<rparr>) (\<lambda>p.
      bnd (update_credential (cr_id created) (\<lambda>c. c\<lparr>cr_payload := payload_json p, cr_encryptionVersion := ep_keyVersion p\<rparr>)) (\<lambda>c.
      with_grants c)))))))) (\<lambda>cg.
    bnd (recordCredentialAudit u Ev_CredentialCreated [(''credentialId'', JStr (cr_id (fst cg))),
      (''vendorId'', JStr (cr_vendor (fst cg))), (''label'', JStr (cr_label (fst cg))),
      (''credentialType'', JStr (credential_type_value (cc_type i)))]) (\<lambda>_.
    gets (\<lambda>w. toCredentialDto (w_env w) cg)))) s"
    unfolding update_credential_def recordCredentialAudit_def using assms
    by (intro tenant_intros effect_transaction_same) (auto simp: fresh_id_def dest!: created_row)
qed

end
