(* ===== verification/Rate_Limit.thy ===== *)
theory Rate_Limit
  imports Sessions
begin

section \<open>The rate limit\<close>

text \<open>
  The middleware in front of every route (\<open>rate-limit/rate-limit.middleware.ts\<close>): a fixed window per client, method
  and group of routes. Outside production the windows are the buckets of a map in insertion order
  (\<open>rate_buckets\<close>: key, count, end of the window); in production a script counts them in Redis, whose answers are
  a parameter. What is proved: how many requests a window lets through while the map is not full, and what the
  clean-up of a full map forgets.
\<close>

subsection \<open>Requests and their keys\<close>

datatype header_value = One string | Many "string list"

record rate_request =
  rr_ip :: "string option"
  rr_remoteAddress :: "string option"
  rr_url :: "string option"
  rr_method :: "string option"
  rr_headers :: "string \<Rightarrow> header_value option"

record rate_profile =
  windowMs :: nat
  rp_max :: nat

text \<open>The configuration, and Redis: at the n-th reading of the clock the script on a key and a window answers the
count and the time to live, or the call fails.\<close>

record rate_config =
  rateLimitWindowMs :: nat
  rateLimitDefaultMax :: nat
  rateLimitAuthMax :: nat
  rateLimitInternalMax :: nat
  rateLimitFileMax :: nat
  apiTrustedProxies :: "string list"
  redis_eval :: "nat \<Rightarrow> string \<Rightarrow> nat \<Rightarrow> err + nat \<times> int"

definition MAX_BUCKETS :: nat where
  "MAX_BUCKETS = 20000"

fun first_value :: "header_value option \<Rightarrow> string option" where
  "first_value (Some (Many (v # _))) = Some v"
| "first_value (Some (One v)) = Some v"
| "first_value _ = None"

definition rate_readHeader :: "(string \<Rightarrow> header_value option) \<Rightarrow> string \<Rightarrow> string option" where
  "rate_readHeader headers name = first_value
     (case headers name of Some v \<Rightarrow> Some v | None \<Rightarrow>
     (case headers (to_lower name) of Some v \<Rightarrow> Some v | None \<Rightarrow> headers (to_upper name)))"

text \<open>\<open>x || y\<close> of strings.\<close>

definition or_text :: "string option \<Rightarrow> string \<Rightarrow> string" where
  "or_text v d = (if truthy v then the v else d)"

definition profileFor :: "string \<Rightarrow> rate_config \<Rightarrow> rate_profile" where
  "profileFor path c =
    (if starts_with path ''/auth/'' then \<lparr>windowMs = rateLimitWindowMs c, rp_max = rateLimitAuthMax c\<rparr>
     else if starts_with path ''/internal/'' then \<lparr>windowMs = rateLimitWindowMs c, rp_max = rateLimitInternalMax c\<rparr>
     else if starts_with path ''/files/'' \<or> starts_with path ''/receipts/'' then \<lparr>windowMs = rateLimitWindowMs c, rp_max = rateLimitFileMax c\<rparr>
     else \<lparr>windowMs = rateLimitWindowMs c, rp_max = rateLimitDefaultMax c\<rparr>)"

definition clientKey :: "rate_request \<Rightarrow> string list \<Rightarrow> string" where
  "clientKey r trustedProxies =
    (let remoteAddress = or_text (rr_ip r) (or_text (rr_remoteAddress r) ''unknown'') in
     if remoteAddress \<notin> set trustedProxies then remoteAddress
     else or_text (map_option (\<lambda>forwarded. trim (hd (split_on (CHR '','') forwarded))) (rate_readHeader (rr_headers r) ''x-forwarded-for''))
       remoteAddress)"

definition routeGroup :: "string \<Rightarrow> string" where
  "routeGroup path =
    (if starts_with path ''/auth/'' then ''auth''
     else if starts_with path ''/internal/'' then ''internal''
     else if starts_with path ''/files/'' then ''files''
     else if starts_with path ''/receipts/'' then ''receipts''
     else or_text (Some (join_with ''/'' (take 3 (split_on (CHR ''/'') path)))) ''/'')"

definition rateLimitKey :: "env \<Rightarrow> string \<Rightarrow> string \<Rightarrow> string \<Rightarrow> string" where
  "rateLimitKey e client verb path =
    ''aegisweb:v1:rate-limit:'' @ sha256 e (client @ '':'' @ verb @ '':'' @ routeGroup path)"

subsection \<open>The buckets in memory\<close>

type_synonym rate_bucket = "string \<times> nat \<times> nat"

record rate_hit =
  hit_count :: nat
  hit_resetAt :: nat
  hit_remaining :: int

text \<open>The loop of \<open>cleanupBuckets\<close>, with the size of the map when it comes to an entry.\<close>

fun cleanup_loop :: "nat \<Rightarrow> nat \<Rightarrow> rate_bucket list \<Rightarrow> rate_bucket list" where
  "cleanup_loop now n [] = []"
| "cleanup_loop now n ((k, c, resetAt) # bs) =
    (if resetAt \<le> now \<or> MAX_BUCKETS \<le> n then cleanup_loop now (n - 1) bs else (k, c, resetAt) # cleanup_loop now n bs)"

definition cleanupBuckets :: "nat \<Rightarrow> rate_bucket list \<Rightarrow> rate_bucket list" where
  "cleanupBuckets now bs = (if length bs < MAX_BUCKETS then bs else cleanup_loop now (length bs) bs)"

definition hitMemoryLimit :: "string \<Rightarrow> rate_profile \<Rightarrow> nat \<Rightarrow> rate_bucket list \<Rightarrow> rate_hit \<times> rate_bucket list" where
  "hitMemoryLimit key profile now bs =
    (let bs = cleanupBuckets now bs;
         fresh = (\<lparr>hit_count = 1, hit_resetAt = now + windowMs profile, hit_remaining = int (rp_max profile) - 1\<rparr>,
           map_set bs key (1, now + windowMs profile))
     in case map_of bs key of
          None \<Rightarrow> fresh
        | Some (count, resetAt) \<Rightarrow> if resetAt \<le> now then fresh else
            (\<lparr>hit_count = Suc count, hit_resetAt = resetAt, hit_remaining = max 0 (int (rp_max profile) - int (Suc count))\<rparr>,
             map_set bs key (Suc count, resetAt)))"

definition hitRedisLimit :: "rate_config \<Rightarrow> nat \<Rightarrow> string \<Rightarrow> rate_profile \<Rightarrow> nat \<Rightarrow> err + rate_hit" where
  "hitRedisLimit c n key profile now = (case redis_eval c n key (windowMs profile) of
      Inl e \<Rightarrow> Inl e
    | Inr (count, ttl) \<Rightarrow> Inr \<lparr>hit_count = count, hit_resetAt = now + (if ttl > 0 then nat ttl else windowMs profile),
        hit_remaining = max 0 (int (rp_max profile) - int count)\<rparr>)"

subsection \<open>The middleware\<close>

text \<open>The headers set on the response, and whether the request goes on to its route.\<close>

record rate_response =
  set_headers :: "(string \<times> int) list"
  outcome :: "err + unit"

definition rateLimited :: err where
  "rateLimited = DomainError RateLimited ''Rate limit exceeded.''"

definition request_path :: "rate_request \<Rightarrow> string" where
  "request_path r = hd (split_on (CHR ''?'') (coalesce (rr_url r) ''''))"

definition request_key :: "env \<Rightarrow> rate_config \<Rightarrow> rate_request \<Rightarrow> string" where
  "request_key e c r = rateLimitKey e (clientKey r (apiTrustedProxies c)) (coalesce (rr_method r) ''GET'') (request_path r)"

definition writeHeaders :: "rate_hit \<Rightarrow> (string \<times> int) list" where
  "writeHeaders h = [(''x-ratelimit-remaining'', hit_remaining h), (''x-ratelimit-reset'', int ((hit_resetAt h + 999) div 1000))]"

definition count_hit :: "rate_config \<Rightarrow> string \<Rightarrow> rate_profile \<Rightarrow> nat \<Rightarrow> rate_hit action" where
  "count_hit c key profile now =
    bnd (gets id) (\<lambda>w.
    if production (w_env w) then (case hitRedisLimit c (reads w) key profile now of Inl e \<Rightarrow> throw e | Inr h \<Rightarrow> ret h)
    else (let hit = hitMemoryLimit key profile now (rate_buckets w) in
      bnd (modify (\<lambda>w. w\<lparr>rate_buckets := snd hit\<rparr>)) (\<lambda>_. ret (fst hit))))"

definition rate_use :: "rate_config \<Rightarrow> rate_request \<Rightarrow> rate_response action" where
  "rate_use c r =
    (let path = request_path r; profile = profileFor path c in
     if path = ''/health'' \<or> path = ''/health/ready'' then ret \<lparr>set_headers = [], outcome = Inr ()\<rparr>
     else bnd new_date (\<lambda>now.
       bnd (gets (\<lambda>w. request_key (w_env w) c r)) (\<lambda>key.
       bnd (count_hit c key profile now) (\<lambda>hit.
       ret (if rp_max profile < hit_count hit
         then \<lparr>set_headers = writeHeaders hit @ [(''retry-after'', int (max 1 ((hit_resetAt hit - now + 999) div 1000)))], outcome = Inl rateLimited\<rparr>
         else \<lparr>set_headers = writeHeaders hit, outcome = Inr ()\<rparr>)))))"

subsection \<open>How many requests a window lets through\<close>

lemma map_of_map_set [simp]: "map_of (map_set m k v) = (map_of m)(k \<mapsto> v)"
proof (cases "map_of m k")
  case (Some u)
  have "map_of (map (\<lambda>(k', v'). if k' = k then (k, v) else (k', v')) m) j = (if j = k then map_option (\<lambda>_. v) (map_of m k) else map_of m j)" for j
    by (induction m) auto
  with Some show ?thesis by (simp add: map_set_def fun_eq_iff)
qed (auto simp: map_set_def map_add_def fun_eq_iff split: option.splits)

lemma length_map_set: "length (map_set m k v) \<le> Suc (length m)"
  by (simp add: map_set_def)

lemma cleanup_below [simp]: "length bs < MAX_BUCKETS \<Longrightarrow> cleanupBuckets now bs = bs"
  by (simp add: cleanupBuckets_def)

lemma hit_frame:
  assumes "length bs < MAX_BUCKETS"
  shows "j \<noteq> k \<Longrightarrow> map_of (snd (hitMemoryLimit j p now bs)) k = map_of bs k"
    and "length (snd (hitMemoryLimit j p now bs)) \<le> Suc (length bs)"
  using assms length_map_set [of bs j] by (auto simp: hitMemoryLimit_def Let_def split: option.splits)

lemma windowMs_profile [simp]: "windowMs (profileFor path c) = rateLimitWindowMs c"
  by (simp add: profileFor_def)

definition limited :: "rate_request \<Rightarrow> bool" where
  "limited r \<longleftrightarrow> request_path r \<noteq> ''/health'' \<and> request_path r \<noteq> ''/health/ready''"

lemma rate_use_memory:
  assumes "\<not> production (w_env w)" and "limited r"
  shows "rate_use c r w =
    (let now = clock (w_env w) (reads w); profile = profileFor (request_path r) c;
         h = hitMemoryLimit (request_key (w_env w) c r) profile now (rate_buckets w); hit = fst h
     in (Inr (if rp_max profile < hit_count hit
         then \<lparr>set_headers = writeHeaders hit @ [(''retry-after'', int (max 1 ((hit_resetAt hit - now + 999) div 1000)))], outcome = Inl rateLimited\<rparr>
         else \<lparr>set_headers = writeHeaders hit, outcome = Inr ()\<rparr>),
       w\<lparr>reads := Suc (reads w), rate_buckets := snd h\<rparr>))"
  using assms by (simp add: rate_use_def limited_def count_hit_def run_simps Let_def)

text \<open>The requests of one key that get through: each request comes at its own reading of the clock, after whatever
else the process did in between.\<close>

fun let_through :: "rate_config \<Rightarrow> string \<Rightarrow> (rate_request \<times> nat) list \<Rightarrow> world \<Rightarrow> nat" where
  "let_through c k [] w = 0"
| "let_through c k ((r, n) # rs) w =
    (case rate_use c r (w\<lparr>reads := n\<rparr>) of (res, w') \<Rightarrow>
      (if limited r \<and> request_key (w_env w) c r = k \<and> (case res of Inl _ \<Rightarrow> False | Inr a \<Rightarrow> outcome a = Inr ()) then 1 else 0)
      + let_through c k rs w')"

text \<open>What a bucket still lets through in the time from \<open>t\<close> to \<open>t + W\<close>.\<close>

definition budget :: "nat \<Rightarrow> nat \<Rightarrow> nat \<Rightarrow> (nat \<times> nat) option \<Rightarrow> nat" where
  "budget M t W b = (case b of None \<Rightarrow> M | Some (c, r) \<Rightarrow> if r \<le> t then M else if t + W \<le> r then M - c else M - c + M)"

lemma hit_budget:
  assumes "length bs < MAX_BUCKETS" and "t \<le> now" and "now < t + windowMs p" and "hitMemoryLimit k p now bs = (h, bs')"
  shows "(if hit_count h \<le> rp_max p then 1 else 0) + budget (rp_max p) t (windowMs p) (map_of bs' k)
    \<le> budget (rp_max p) t (windowMs p) (map_of bs k)"
  using assms by (auto simp: hitMemoryLimit_def Let_def budget_def split: option.splits if_splits)

lemma budget_bound: "budget M t W b \<le> 2 * M"
  by (auto simp: budget_def split: option.splits)

lemma let_through_budget:
  assumes "\<not> production (w_env w)" and "length (rate_buckets w) + length rs \<le> MAX_BUCKETS"
    and "\<And>r n. (r, n) \<in> set rs \<Longrightarrow> t \<le> clock (w_env w) n \<and> clock (w_env w) n < t + rateLimitWindowMs c"
    and "\<And>r n. (r, n) \<in> set rs \<Longrightarrow> request_key (w_env w) c r = k \<Longrightarrow> rp_max (profileFor (request_path r) c) = M"
  shows "let_through c k rs w \<le> budget M t (rateLimitWindowMs c) (map_of (rate_buckets w) k)"
  using assms
proof (induction rs arbitrary: w)
  case (Cons q rs)
  obtain r n where q [simp]: "q = (r, n)" by (cases q)
  let ?j = "request_key (w_env w) c r" and ?p = "profileFor (request_path r) c" and ?now = "clock (w_env w) n"
  obtain h bs' where hit: "hitMemoryLimit ?j ?p ?now (rate_buckets w) = (h, bs')" by fastforce
  let ?w' = "w\<lparr>reads := Suc n, rate_buckets := bs'\<rparr>"
  have below: "length (rate_buckets w) < MAX_BUCKETS" using Cons.prems(2) by simp
  have frame: "?j \<noteq> k \<Longrightarrow> map_of bs' k = map_of (rate_buckets w) k" "length bs' \<le> Suc (length (rate_buckets w))"
    using hit_frame(1) [OF below, of ?j k ?p ?now] hit_frame(2) [OF below, of ?j ?p ?now] by (simp_all add: hit)
  have now: "t \<le> ?now" "?now < t + windowMs ?p" using Cons.prems(3) [of r n] by simp_all
  show ?case
  proof (cases "limited r")
    case True
    have rest: "let_through c k rs ?w' \<le> budget M t (rateLimitWindowMs c) (map_of bs' k)"
      using Cons.IH [of ?w'] Cons.prems frame(2) by fastforce
    have "let_through c k (q # rs) w = (if ?j = k \<and> hit_count h \<le> rp_max ?p then 1 else 0) + let_through c k rs ?w'"
      using True Cons.prems(1) by (simp add: rate_use_memory hit Let_def not_less)
    with rest show ?thesis
      using frame(1) hit_budget [OF below now hit] Cons.prems(4) [of r n] by (cases "?j = k") auto
  next
    case False
    then have "let_through c k (q # rs) w = let_through c k rs (w\<lparr>reads := n\<rparr>)"
      by (auto simp: rate_use_def limited_def ret_def)
    moreover have "let_through c k rs (w\<lparr>reads := n\<rparr>) \<le> budget M t (rateLimitWindowMs c) (map_of (rate_buckets w) k)"
      using Cons.IH [of "w\<lparr>reads := n\<rparr>"] Cons.prems by fastforce
    ultimately show ?thesis by (simp only:)
  qed
qed (simp add: budget_def)


definition rate_env :: env where
  "rate_env = demo_env\<lparr>production := False\<rparr>"

definition demo_limits :: rate_config where
  "demo_limits = \<lparr>rateLimitWindowMs = 1000, rateLimitDefaultMax = 2, rateLimitAuthMax = 1, rateLimitInternalMax = 3, rateLimitFileMax = 2,
     apiTrustedProxies = [''10.0.0.1''], redis_eval = (\<lambda>_ _ _. Inr (1, 1000))\<rparr>"

definition login_request :: rate_request where
  "login_request = \<lparr>rr_ip = Some ''10.0.0.1'', rr_remoteAddress = None, rr_url = Some ''/auth/login?next=a'', rr_method = Some ''POST'',
     rr_headers = (\<lambda>n. if n = ''x-forwarded-for'' then Some (One ''1.2.3.4, 10.0.0.1'') else None)\<rparr>"

lemma login_request_facts:
  "request_path login_request = ''/auth/login''" "limited login_request"
  "request_key rate_env demo_limits login_request = ''aegisweb:v1:rate-limit:1.2.3.4:POST:auth''"
  "rp_max (profileFor ''/auth/login'' demo_limits) = 1"
  by (simp_all add: request_path_def login_request_def limited_def request_key_def clientKey_def demo_limits_def or_text_def truthy_def
      rate_readHeader_def trim_def is_space_def rateLimitKey_def rate_env_def demo_env_def routeGroup_def starts_with_def profileFor_def)

lemma rate_world_facts:
  "w_env (empty_world rate_env) = rate_env" "rate_buckets (empty_world rate_env) = []" "clock rate_env n = n"
  "\<not> production rate_env" "rateLimitWindowMs demo_limits = 1000"
  by (simp_all add: empty_world_def rate_env_def demo_env_def demo_limits_def)


subsection \<open>What a full map forgets\<close>

lemma cleanup_subset: "set (cleanup_loop now n bs) \<subseteq> set bs"
  by (induction now n bs rule: cleanup_loop.induct) auto

lemma cleanup_loop_length:
  "length bs \<le> n \<Longrightarrow> n - length bs < MAX_BUCKETS \<Longrightarrow> length (cleanup_loop now n bs) + (n - length bs) < MAX_BUCKETS"
proof (induction now n bs rule: cleanup_loop.induct)
  case (2 now n k c resetAt bs)
  show ?case
  proof (cases "resetAt \<le> now \<or> MAX_BUCKETS \<le> n")
    case False
    then have "n - length bs < MAX_BUCKETS" by linarith
    with False 2 show ?thesis by simp
  qed (use 2 in auto)
qed simp

text \<open>The map never grows beyond its limit.\<close>

lemma buckets_bounded:
  assumes "length bs \<le> MAX_BUCKETS"
  shows "length (snd (hitMemoryLimit k p now bs)) \<le> MAX_BUCKETS"
proof -
  have "length (cleanupBuckets now bs) < MAX_BUCKETS"
    using cleanup_loop_length [of bs "length bs" now] by (simp add: cleanupBuckets_def MAX_BUCKETS_def)
  then have "length (map_set (cleanupBuckets now bs) k v) \<le> MAX_BUCKETS" for v
    using length_map_set [of "cleanupBuckets now bs" k v] by simp
  then show ?thesis by (simp add: hitMemoryLimit_def Let_def split: option.split prod.split)
qed

text \<open>When the map is full, the clean-up drops its oldest bucket even when its window is still open: however often
its client was counted, its next request gets through.\<close>

theorem full_map_forgets_client:
  assumes "\<not> production (w_env w)" and "limited r"
    and "rate_buckets w = (request_key (w_env w) c r, n, resetAt) # bs" and "request_key (w_env w) c r \<notin> fst ` set bs"
    and "MAX_BUCKETS \<le> length (rate_buckets w)" and "1 \<le> rp_max (profileFor (request_path r) c)"
  shows "\<exists>a w'. rate_use c r w = (Inr a, w') \<and> outcome a = Inr ()"
proof -
  let ?k = "request_key (w_env w) c r"
  have "cleanupBuckets now (rate_buckets w) = cleanup_loop now (length bs) bs" for now
    using assms(5) by (simp add: cleanupBuckets_def assms(3) not_less)
  moreover have "map_of (cleanup_loop now (length bs) bs) ?k = None" for now
    using assms(4) cleanup_subset [of now "length bs" bs] by (auto simp: map_of_eq_None_iff)
  ultimately show ?thesis
    using assms(6) by (auto simp: rate_use_memory [OF assms(1,2)] Let_def hitMemoryLimit_def)
qed

theorem full_map_forgets_client_witness:
  "\<exists>a w'. rate_use demo_limits login_request ((empty_world rate_env)\<lparr>rate_buckets :=
      (''aegisweb:v1:rate-limit:1.2.3.4:POST:auth'', 500, 900) # map (\<lambda>i. (replicate (Suc i) CHR ''x'', 1, 900)) [0..<20000]\<rparr>) = (Inr a, w')
    \<and> outcome a = Inr ()"
  by (rule full_map_forgets_client [where n = 500 and resetAt = 900])
    (auto simp: rate_world_facts login_request_facts MAX_BUCKETS_def dest!: arg_cong [where f = hd])

end
