(* ===== verification/Compliance.thy ===== *)
theory Compliance
  imports Settings
begin

section \<open>Compliance\<close>

text \<open>
  The compliance settings of an organization, the export and the deletion of a user's own account
  (\<open>compliance/compliance.service.ts\<close>, with the body check of \<open>compliance.controller.ts\<close>), and the export of the log
  (\<open>audit/audit-export.service.ts\<close>). The settings live in the memory of the process (\<open>compliance\<close>).
\<close>

subsection \<open>Settings\<close>

definition DEFAULT_SETTINGS :: compliance_settings where
  "DEFAULT_SETTINGS = \<lparr>cs_auditRetentionDays = 365, cs_fileRetentionDays = 365, cs_legalHoldEnabled = False\<rparr>"

text \<open>\<open>z.number().int().min(30).max(3650)\<close>.\<close>

definition retention_days :: "json option \<Rightarrow> int option" where
  "retention_days v = (case v of
     Some (JNum q) \<Rightarrow> if of_int \<lfloor>q\<rfloor> = q \<and> 30 \<le> q \<and> q \<le> 3650 then Some \<lfloor>q\<rfloor> else None
   | _ \<Rightarrow> None)"

definition complianceSettingsSchema :: "json \<Rightarrow> compliance_settings option" where
  "complianceSettingsSchema body = (case body of
     JObj fs \<Rightarrow> (case (retention_days (map_of fs ''auditRetentionDays''), retention_days (map_of fs ''fileRetentionDays''),
         map_of fs ''legalHoldEnabled'') of
       (Some a, Some f, Some (JBool h)) \<Rightarrow> Some \<lparr>cs_auditRetentionDays = a, cs_fileRetentionDays = f, cs_legalHoldEnabled = h\<rparr>
     | _ \<Rightarrow> None)
   | _ \<Rightarrow> None)"

definition settings_json :: "compliance_settings \<Rightarrow> json" where
  "settings_json s = JObj [(''auditRetentionDays'', JNum (of_int (cs_auditRetentionDays s))),
     (''fileRetentionDays'', JNum (of_int (cs_fileRetentionDays s))), (''legalHoldEnabled'', JBool (cs_legalHoldEnabled s))]"

definition compliance_getSettings :: "context_user option \<Rightarrow> compliance_settings action" where
  "compliance_getSettings currentUser =
    bnd (require_user currentUser) (\<lambda>user.
    gets (\<lambda>w. coalesce (map_of (compliance w) (cu_org user)) DEFAULT_SETTINGS))"

definition compliance_assertOwnerOrAdmin :: "context_user option \<Rightarrow> context_user action" where
  "compliance_assertOwnerOrAdmin currentUser =
    bnd (require_user currentUser) (\<lambda>user.
    bnd (require (cu_role user = Role_Owner \<or> cu_role user = Role_Admin)
      (DomainError PermissionDenied ''Only owners and admins can update compliance settings.'')) (\<lambda>_. ret user))"

definition compliance_updateSettings :: "context_user option \<Rightarrow> compliance_settings \<Rightarrow> compliance_settings action" where
  "compliance_updateSettings currentUser i =
    bnd (compliance_assertOwnerOrAdmin currentUser) (\<lambda>user.
    bnd (modify (\<lambda>w. w\<lparr>compliance := map_set (compliance w) (cu_org user) i\<rparr>)) (\<lambda>_.
    bnd (record_audit \<lparr>ai_org = cu_org user, ai_run = None, ai_agent = None, ai_actorType = Actor_User,
      ai_actorId = Some (cu_id user), ai_eventType = Ev_OrganizationUpdated,
      ai_data = JObj [(''complianceSettings'', settings_json i)]\<rparr>) (\<lambda>_.
    ret i)))"

text \<open>The route checks the body first.\<close>

definition updateSettings_route :: "context_user option \<Rightarrow> json \<Rightarrow> compliance_settings action" where
  "updateSettings_route currentUser body =
    bnd (require_some (complianceSettingsSchema body) (DomainError ValidationFailed ''Invalid compliance settings.'')) (\<lambda>i.
    compliance_updateSettings currentUser i)"

subsection \<open>Exports\<close>

record account_export =
  ex_exportedAt :: string
  ex_user :: json
  ex_preferences :: "preference_row option"
  ex_sessions :: "json list"
  ex_auditEvents :: "audit_row list"

definition export_user :: "env \<Rightarrow> user_row \<Rightarrow> json" where
  "export_user e u = JObj
     [(''id'', JStr (us_id u)), (''organizationId'', JStr (us_org u)), (''email'', JStr (us_email u)), (''name'', JStr (us_name u)),
      (''role'', JStr (prisma_role u)), (''status'', JStr (prisma_enum (user_status_value (us_status u)))),
      (''createdAt'', JStr (iso e (us_createdAt u))), (''updatedAt'', JStr (iso e (us_updatedAt u))),
      (''lastLoginAt'', iso_opt e (us_lastLoginAt u)), (''emailVerifiedAt'', iso_opt e (us_emailVerifiedAt u)),
      (''mfaEnabled'', JBool (us_mfaEnabled u))]"

definition export_session :: "env \<Rightarrow> refresh_token_row \<Rightarrow> json" where
  "export_session e t = JObj [(''id'', JStr (rt_id t)), (''expiresAt'', JStr (iso e (rt_expiresAt t))),
     (''revokedAt'', iso_opt e (rt_revokedAt t)), (''createdAt'', JStr (iso e (rt_createdAt t)))]"

definition exportAccount :: "context_user option \<Rightarrow> account_export action" where
  "exportAccount currentUser =
    bnd (require_user currentUser) (\<lambda>cu.
    bnd (find_user (cu_id cu)) (\<lambda>user.
    bnd (find_first preference_t (\<lambda>p. np_user p = cu_id cu)) (\<lambda>preferences.
    bnd (find_many refresh_token_t (\<lambda>t. rt_user t = cu_id cu)) (\<lambda>sessions.
    bnd (find_many audit_t (\<lambda>a. au_org a = cu_org cu \<and> au_actorId a = Some (cu_id cu))) (\<lambda>events.
    bnd new_date (\<lambda>now.
    gets (\<lambda>w. \<lparr>ex_exportedAt = iso (w_env w) now, ex_user = (case user of None \<Rightarrow> JNull | Some u \<Rightarrow> export_user (w_env w) u),
      ex_preferences = preferences, ex_sessions = map (export_session (w_env w)) sessions,
      ex_auditEvents = order_asc au_createdAt au_id events\<rparr>)))))))"

record log_export =
  le_exportedAt :: string
  le_organizationId :: string
  le_formatVersion :: nat
  le_events :: "json list"

definition exportOrganizationEvents :: "string option \<Rightarrow> log_export action" where
  "exportOrganizationEvents organizationId =
    bnd (require_org organizationId) (\<lambda>org.
    bnd (find_many audit_t (\<lambda>a. au_org a = org)) (\<lambda>found.
    bnd (ret (order_asc au_createdAt au_id found)) (\<lambda>events.
    bnd new_date (\<lambda>now.
    gets (\<lambda>w. \<lparr>le_exportedAt = iso (w_env w) now, le_organizationId = org, le_formatVersion = 1,
      le_events = map (toAuditEventDto (w_env w)) events\<rparr>)))))"

subsection \<open>Deleting an account\<close>

definition deleted_email :: "string \<Rightarrow> string" where
  "deleted_email k = ''deleted-'' @ k @ ''@deleted.aegisweb.local''"

text \<open>The tokens and the user row change together; the address is unique in the table.\<close>

definition delete_transaction :: "user_row \<Rightarrow> user_row action" where
  "delete_transaction user = transaction
    (bnd (refresh_revokeAllForUser (us_id user)) (\<lambda>_.
     bnd new_date (\<lambda>disabledAt.
     bnd (gets (\<lambda>w. list_ex (\<lambda>u. us_id u \<noteq> us_id user \<and> us_email u = deleted_email (us_id user)) (users w))) (\<lambda>taken.
     bnd (require (\<not> taken) email_violation) (\<lambda>_.
     update_user (us_id user) (\<lambda>u. u\<lparr>us_email := deleted_email (us_id user), us_name := ''Deleted user'',
       us_status := User_Disabled, us_disabledAt := Some disabledAt, us_emailVerificationToken := None,
       us_passwordResetToken := None, us_mfaSecret := None, us_mfaEnabled := False, us_mfaBackupCodes := JNull\<rparr>))))))"

definition deleteAccount :: "context_user option \<Rightarrow> json action" where
  "deleteAccount currentUser =
    bnd (require_user currentUser) (\<lambda>cu.
    bnd (find_user (cu_id cu)) (\<lambda>found.
    bnd (require_some found (DomainError NotFound ''User was not found.'')) (\<lambda>user.
    bnd (run_if (us_role user = Role_Owner)
      (assertNotLastOwner (us_org user) (us_id user) ''Last owner cannot delete their account. Transfer ownership first.'')) (\<lambda>_.
    bnd (delete_transaction user) (\<lambda>_.
    bnd (record_audit \<lparr>ai_org = us_org user, ai_run = None, ai_agent = None, ai_actorType = Actor_User,
      ai_actorId = Some (us_id user), ai_eventType = Ev_UserDisabled,
      ai_data = JObj [(''accountDeletion'', JBool True), (''userId'', JStr (us_id user))]\<rparr>) (\<lambda>_.
    ret (JObj [(''deleted'', JBool True), (''userId'', JStr (us_id user))])))))))"

subsection \<open>What a deletion leaves\<close>

definition erased :: "string \<Rightarrow> nat \<Rightarrow> nat \<Rightarrow> user_row \<Rightarrow> user_row" where
  "erased k disabledAt now = (\<lambda>u. u\<lparr>us_email := deleted_email k, us_name := ''Deleted user'', us_status := User_Disabled,
     us_disabledAt := Some disabledAt, us_emailVerificationToken := None, us_passwordResetToken := None, us_mfaSecret := None,
     us_mfaEnabled := False, us_mfaBackupCodes := JNull, us_updatedAt := now\<rparr>)"

lemma delete_transaction_run:
  assumes "find (\<lambda>u. us_id u = us_id user) (users w) = Some user"
  shows "delete_transaction user w =
    (if list_ex (\<lambda>u. us_id u \<noteq> us_id user \<and> us_email u = deleted_email (us_id user)) (users w)
     then (Inl email_violation, w\<lparr>reads := reads w + 2\<rparr>)
     else (let t = clock (w_env w) in
       (Inr (erased (us_id user) (t (reads w + 1)) (t (reads w + 2)) user),
        w\<lparr>reads := reads w + 3,
          refresh_tokens := map (\<lambda>r. if rt_user r = us_id user \<and> rt_revokedAt r = None then r\<lparr>rt_revokedAt := Some (t (reads w))\<rparr> else r) (refresh_tokens w),
          users := upd_row us_id (us_id user) (erased (us_id user) (t (reads w + 1)) (t (reads w + 2))) (users w)\<rparr>)))"
  using assms
  by (simp add: delete_transaction_def transaction_def refresh_revokeAllForUser_def revoke_tokens_def update_user_def run_simps erased_def Let_def
      numeral_2_eq_2 numeral_3_eq_3)

text \<open>The deletion on its branches.\<close>

lemma deleteAccount_cases:
  assumes "deleteAccount (Some u) w = (r, w')"
  obtains (refused) e where "r = Inl e" "users w' = users w" "refresh_tokens w' = refresh_tokens w" "audits w' = audits w"
  | (deleted) user now1 now2 now3 where "find (\<lambda>q. us_id q = cu_id u) (users w) = Some user"
      "us_role user = Role_Owner \<Longrightarrow> \<exists>q \<in> set (users w). us_id q \<noteq> us_id user \<and> counted_owner (us_org user) q"
      "r = Inr (JObj [(''deleted'', JBool True), (''userId'', JStr (us_id user))])"
      "users w' = upd_row us_id (us_id user) (erased (us_id user) now2 now3) (users w)"
      "refresh_tokens w' = map (\<lambda>r. if rt_user r = us_id user \<and> rt_revokedAt r = None then r\<lparr>rt_revokedAt := Some now1\<rparr> else r) (refresh_tokens w)"
proof (cases "find (\<lambda>q. us_id q = cu_id u) (users w)")
  case None
  with assms show thesis by (intro refused) (auto simp: deleteAccount_def find_user_def run_simps)
next
  case (Some user)
  then have id: "us_id user = cu_id u" by (auto dest: find_SomeD)
  let ?m = "run_if (us_role user = Role_Owner)
      (assertNotLastOwner (us_org user) (us_id user) ''Last owner cannot delete their account. Transfer ownership first.'') :: unit action"
  show thesis
  proof (cases "fst (?m w)")
    case (Inl e)
    then have "?m w = (Inl e, w)" using user_checks_still(5) by (metis prod.collapse)
    with assms Some show thesis by (intro refused) (auto simp: deleteAccount_def find_user_def run_simps)
  next
    case (Inr x)
    then have m: "?m w = (Inr x, w)" using user_checks_still(5) by (metis prod.collapse)
    have f: "find (\<lambda>q. us_id q = us_id user) (users w) = Some user" using Some id by simp
    show thesis
    proof (cases "list_ex (\<lambda>q. us_id q \<noteq> us_id user \<and> us_email q = deleted_email (us_id user)) (users w)")
      case True
      then show thesis using assms Some m f
        by (intro refused) (auto simp: deleteAccount_def find_user_def run_simps delete_transaction_run)
    next
      case False
      show thesis
      proof (rule deleted [OF Some])
        show "\<exists>q \<in> set (users w). us_id q \<noteq> us_id user \<and> counted_owner (us_org user) q" if "us_role user = Role_Owner"
          using other_owner [OF m that] .
      qed (use assms Some m f False in \<open>auto simp: deleteAccount_def find_user_def run_simps delete_transaction_run record_audit_run Let_def\<close>)
    qed
  qed
qed

text \<open>C33. Deleting one's account: a refusal changes no user, token or log entry; a success disables and anonymizes the
user's row, with no second factor and no reset link left, ends all of the user's sessions and leaves the other users and
their sessions as they are. Either way an organization that has an owner keeps one.\<close>

theorem account_deletion:
  assumes "unique_keys user_t w" and "deleteAccount (Some u) w = (r, w')"
  shows "(case r of
      Inl _ \<Rightarrow> users w' = users w \<and> refresh_tokens w' = refresh_tokens w \<and> audits w' = audits w
    | Inr _ \<Rightarrow> (\<exists>x. row_of user_t (cu_id u) w' = Some x \<and> us_status x = User_Disabled \<and> us_email x = deleted_email (cu_id u)
          \<and> us_name x = ''Deleted user'' \<and> \<not> us_mfaEnabled x \<and> us_mfaSecret x = None \<and> us_passwordResetToken x = None)
        \<and> (\<forall>k. k \<noteq> cu_id u \<longrightarrow> row_of user_t k w' = row_of user_t k w)
        \<and> (\<forall>t \<in> set (refresh_tokens w'). rt_user t = cu_id u \<longrightarrow> rt_revokedAt t \<noteq> None)
        \<and> filter (\<lambda>t. rt_user t \<noteq> cu_id u) (refresh_tokens w') = filter (\<lambda>t. rt_user t \<noteq> cu_id u) (refresh_tokens w))
    \<and> (\<forall>org. has_owner org w \<longrightarrow> has_owner org w')"
  using assms(2)
proof (cases rule: deleteAccount_cases)
  case (refused e)
  then show ?thesis by (simp add: has_owner_def)
next
  case (deleted user now1 now2 now3)
  let ?f = "erased (us_id user) now2 now3"
  have id: "us_id user = cu_id u" and user: "user \<in> set (users w)" using deleted(1) by (auto dest: find_SomeD)
  have row: "row_of user_t (cu_id u) w' = Some (?f user)" "k \<noteq> cu_id u \<Longrightarrow> row_of user_t k w' = row_of user_t k w" for k
    using deleted(1) id by (simp_all add: row_of_def user_t_def deleted(4) find_upd_row erased_def)
  have tokens: "filter (\<lambda>t. rt_user t \<noteq> cu_id u) (map (\<lambda>r. if rt_user r = us_id user \<and> rt_revokedAt r = None then r\<lparr>rt_revokedAt := Some now1\<rparr> else r) ts)
      = filter (\<lambda>t. rt_user t \<noteq> cu_id u) ts" for ts
    by (induction ts) (simp_all add: id)
  have "has_owner org w'" if "has_owner org w" for org
  proof (rule owner_kept_upd [OF that deleted(4)])
    fix t assume t: "t \<in> set (users w)" "us_id t = us_id user" "counted_owner org t"
    then have "t = user" using same_user [OF assms(1) user] by blast
    with t(3) deleted(2) show "counted_owner org (?f t) \<or> (\<exists>q \<in> set (users w). us_id q \<noteq> us_id user \<and> counted_owner org q)"
      by (auto simp: counted_owner_def)
  qed
  then show ?thesis
    using tokens by (auto simp: deleted(3,5) row id erased_def)
qed

theorem account_deletion_witness:
  "(\<exists>e w'. deleteAccount (Some demo_user) two_users = (Inl e, w') \<and> users w' = users two_users)
   \<and> (\<exists>j w' x. deleteAccount (Some (demo_user\<lparr>cu_id := ''v''\<rparr>)) two_users = (Inr j, w') \<and> row_of user_t ''v'' w' = Some x
     \<and> us_status x = User_Disabled \<and> has_owner ''o'' w')"
proof -
  obtain r w' where one: "deleteAccount (Some demo_user) two_users = (r, w')" by fastforce
  obtain r2 w2 where two: "deleteAccount (Some (demo_user\<lparr>cu_id := ''v''\<rparr>)) two_users = (r2, w2)" by fastforce
  have "\<exists>e. r = Inl e"
    using one by (cases rule: deleteAccount_cases) (auto simp: two_users_def demo_user_def counted_owner_def)
  moreover have "\<exists>j. r2 = Inr j"
    using two by (auto simp: deleteAccount_def find_user_def run_simps delete_transaction_run record_audit_run Let_def two_users_def deleted_email_def
      demo_member_def demo_user_def assertNotLastOwner_def)
  moreover have "has_owner ''o'' two_users" by (simp add: two_users_def has_owner_def counted_owner_def)
  ultimately show ?thesis
    using account_deletion [OF two_users_unique one] account_deletion [OF two_users_unique two] one two by auto
qed

end
