(* ===== verification/Billing.thy ===== *)
theory Billing
  imports Configuration Compliance
begin

section \<open>Billing\<close>

text \<open>
  \<open>billing/billing.service.ts\<close>: checkout, the customer portal and the webhook by which Stripe reports on subscriptions.
  Stripe's library is the record \<open>stripe_api\<close>: what its calls answer, each at its own instant (the reading of the clock it
  takes), and \<open>st_constructEvent\<close>, which verifies the signature of a payload with a secret and throws otherwise. An object
  Stripe may send by its id or expanded is an \<open>expandable\<close>. Everything runs with the configuration of \<open>Configuration\<close>.
\<close>

subsection \<open>Stripe\<close>

datatype expandable =
    By_Id string
  | Expanded string

fun ref_id :: "expandable \<Rightarrow> string" where
  "ref_id (By_Id k) = k"
| "ref_id (Expanded k) = k"

record subscription =
  sb_id :: string
  sb_status :: string
  sb_customer :: expandable
  sb_metadata :: "(string \<times> string) list option"
  sb_prices :: "string list"

record checkout_session =
  ck_metadata :: "(string \<times> string) list option"
  ck_clientReference :: "string option"
  ck_subscription :: "expandable option"
  ck_customer :: "expandable option"

datatype stripe_event =
    Checkout_Completed checkout_session
  | Subscription_Created subscription
  | Subscription_Updated subscription
  | Subscription_Deleted subscription
  | Other_Event string

primrec event_type :: "stripe_event \<Rightarrow> string" where
  "event_type (Checkout_Completed s) = ''checkout.session.completed''"
| "event_type (Subscription_Created s) = ''customer.subscription.created''"
| "event_type (Subscription_Updated s) = ''customer.subscription.updated''"
| "event_type (Subscription_Deleted s) = ''customer.subscription.deleted''"
| "event_type (Other_Event t) = t"

record customer_input =
  ci_organizationId :: string
  ci_name :: string
  ci_email :: "string option"
  ci_domain :: string
  ci_userName :: "string option"

record session_input =
  si_customer :: string
  si_price :: string
  si_successUrl :: string
  si_cancelUrl :: string
  si_organizationId :: string
  si_plan :: string

record stripe_api =
  st_createCustomer :: "nat \<Rightarrow> customer_input \<Rightarrow> err + string"
  st_createSession :: "nat \<Rightarrow> session_input \<Rightarrow> err + (string \<times> string option)"
  st_createPortal :: "nat \<Rightarrow> string \<Rightarrow> string \<Rightarrow> err + (string \<times> string)"
  st_constructEvent :: "nat \<Rightarrow> string \<Rightarrow> string \<Rightarrow> string \<Rightarrow> err + stripe_event"
  st_retrieve :: "nat \<Rightarrow> string \<Rightarrow> err + subscription"

definition stripe_call :: "(nat \<Rightarrow> err + 'a) \<Rightarrow> 'a action" where
  "stripe_call f = (\<lambda>w. (f (reads w), w\<lparr>reads := Suc (reads w)\<rparr>))"

subsection \<open>Configuration\<close>

definition not_implemented :: "string \<Rightarrow> err" where
  "not_implemented m = JsError ''NotImplementedException'' m"

definition bad_request :: "string \<Rightarrow> err" where
  "bad_request m = JsError ''BadRequestException'' m"

definition requireStripe :: "app_config \<Rightarrow> unit action" where
  "requireStripe c = require (truthy (ac_stripeSecretKey c)) (not_implemented ''Stripe billing is not configured for this deployment.'')"

definition billing_isConfigured :: "app_config \<Rightarrow> bool" where
  "billing_isConfigured c \<longleftrightarrow> truthy (ac_stripeSecretKey c) \<and> truthy (ac_stripeStarterPriceId c) \<and> truthy (ac_stripeBusinessPriceId c)"

definition billing_mode :: "app_config \<Rightarrow> string" where
  "billing_mode c = (if \<not> truthy (ac_stripeSecretKey c) then ''disabled''
     else if starts_with (the (ac_stripeSecretKey c)) ''sk_live_'' then ''live'' else ''test'')"

text \<open>\<open>checkoutSchema\<close>: the plan of a request body.\<close>

definition checkoutSchema :: "json \<Rightarrow> string option" where
  "checkoutSchema body = (case map_of (as_object body) ''plan'' of
     Some (JStr p) \<Rightarrow> if p = ''starter'' \<or> p = ''business'' then Some p else None
   | _ \<Rightarrow> None)"

definition priceIdFor :: "app_config \<Rightarrow> string \<Rightarrow> string action" where
  "priceIdFor c plan =
    (let priceId = (if plan = ''starter'' then ac_stripeStarterPriceId c else ac_stripeBusinessPriceId c) in
     bnd (require (truthy priceId) (not_implemented (''Stripe price for '' @ plan @ '' is not configured.''))) (\<lambda>_. ret (the priceId)))"

subsection \<open>Status, checkout and portal\<close>

definition billing_getStatus :: "app_config \<Rightarrow> string \<Rightarrow> json action" where
  "billing_getStatus c organizationId =
    bnd (find_first organization_t (\<lambda>g. or_id g = organizationId)) (\<lambda>organization.
    ret (JObj [(''provider'', JStr ''stripe''), (''configured'', JBool (billing_isConfigured c)), (''mode'', JStr (billing_mode c)),
      (''plan'', JStr (case organization of None \<Rightarrow> ''unknown'' | Some g \<Rightarrow> or_plan g)),
      (''billingEmail'', jopt (Option.bind organization or_billingEmail)), (''customerId'', jopt (Option.bind organization or_stripeCustomer)),
      (''subscriptionId'', jopt (Option.bind organization or_stripeSubscription)),
      (''subscriptionStatus'', jopt (Option.bind organization or_stripeStatus)), (''priceId'', jopt (Option.bind organization or_stripePrice)),
      (''plans'', JObj [(''starter'', JBool (truthy (ac_stripeStarterPriceId c))), (''business'', JBool (truthy (ac_stripeBusinessPriceId c)))]),
      (''message'', JStr (if billing_isConfigured c then ''Stripe billing is configured.''
         else ''Stripe billing is not configured for this deployment.''))]))"

definition update_billing :: "string \<Rightarrow> (organization_row \<Rightarrow> organization_row) \<Rightarrow> unit action" where
  "update_billing k f =
    bnd new_date (\<lambda>now.
    bnd (update_row organization_t record_not_found k (\<lambda>g. (f g)\<lparr>or_updatedAt := now\<rparr>)) (\<lambda>_. ret ()))"

definition createCheckout :: "app_config \<Rightarrow> stripe_api \<Rightarrow> string \<Rightarrow> string \<Rightarrow> json \<Rightarrow> (string \<times> string option) action" where
  "createCheckout c st organizationId userId body =
    bnd (requireStripe c) (\<lambda>_.
    bnd (require_some (checkoutSchema body) (JsError ''ZodError'' ''plan'')) (\<lambda>plan.
    bnd (priceIdFor c plan) (\<lambda>priceId.
    bnd (find_first organization_t (\<lambda>g. or_id g = organizationId)) (\<lambda>found.
    bnd (require_some found (bad_request ''Organization was not found.'')) (\<lambda>organization.
    bnd (find_first user_t (\<lambda>u. us_id u = userId)) (\<lambda>user.
    bnd (case or_stripeCustomer organization of
        Some k \<Rightarrow> ret k
      | None \<Rightarrow> stripe_call (\<lambda>n. st_createCustomer st n \<lparr>ci_organizationId = or_id organization, ci_name = or_name organization,
          ci_email = (case or_billingEmail organization of Some m \<Rightarrow> Some m | None \<Rightarrow> map_option us_email user),
          ci_domain = or_domain organization, ci_userName = map_option us_name user\<rparr>)) (\<lambda>customerId.
    bnd (run_if (\<not> truthy (or_stripeCustomer organization))
      (update_billing organizationId (\<lambda>g. g\<lparr>or_stripeCustomer := Some customerId\<rparr>))) (\<lambda>_.
    stripe_call (\<lambda>n. st_createSession st n \<lparr>si_customer = customerId, si_price = priceId, si_successUrl = ac_stripeSuccessUrl c,
      si_cancelUrl = ac_stripeCancelUrl c, si_organizationId = organizationId, si_plan = plan\<rparr>)))))))))"

definition createPortal :: "app_config \<Rightarrow> stripe_api \<Rightarrow> string \<Rightarrow> (string \<times> string) action" where
  "createPortal c st organizationId =
    bnd (requireStripe c) (\<lambda>_.
    bnd (find_first organization_t (\<lambda>g. or_id g = organizationId)) (\<lambda>organization.
    bnd (require (truthy (Option.bind organization or_stripeCustomer)) (bad_request ''This organization does not have a Stripe customer yet.'')) (\<lambda>_.
    stripe_call (\<lambda>n. st_createPortal st n (the (Option.bind organization or_stripeCustomer)) (ac_stripeSuccessUrl c)))))"

subsection \<open>The webhook\<close>

text \<open>The plan of a price; a price that is none of the configured ones leaves the plan as it is.\<close>

definition plan_of_price :: "app_config \<Rightarrow> string option \<Rightarrow> string option" where
  "plan_of_price c priceId = (case priceId of
     None \<Rightarrow> None
   | Some p \<Rightarrow> if ac_stripeBusinessPriceId c = Some p then Some ''business''
       else if ac_stripeStarterPriceId c = Some p then Some ''starter'' else None)"

definition first_price :: "subscription \<Rightarrow> string option" where
  "first_price s = (case sb_prices s of [] \<Rightarrow> None | p # _ \<Rightarrow> Some p)"

definition subscriptionData :: "app_config \<Rightarrow> string \<Rightarrow> subscription \<Rightarrow> organization_row \<Rightarrow> organization_row" where
  "subscriptionData c customerId s g = g\<lparr>or_stripeCustomer := Some customerId, or_stripeSubscription := Some (sb_id s),
     or_stripeStatus := Some (sb_status s), or_stripePrice := first_price s, or_plan := coalesce (plan_of_price c (first_price s)) (or_plan g)\<rparr>"

definition updateOrganizationSubscription :: "app_config \<Rightarrow> string \<Rightarrow> string \<Rightarrow> subscription \<Rightarrow> unit action" where
  "updateOrganizationSubscription c organizationId customerId s = update_billing organizationId (subscriptionData c customerId s)"

definition metadata_organization :: "(string \<times> string) list option \<Rightarrow> string option" where
  "metadata_organization m = Option.bind m (\<lambda>fs. map_of fs ''organizationId'')"

definition session_organization :: "checkout_session \<Rightarrow> string option" where
  "session_organization s = (case metadata_organization (ck_metadata s) of Some k \<Rightarrow> Some k | None \<Rightarrow> ck_clientReference s)"

definition handleCheckoutCompleted :: "app_config \<Rightarrow> stripe_api \<Rightarrow> checkout_session \<Rightarrow> unit action" where
  "handleCheckoutCompleted c st s =
    (let organizationId = session_organization s; subscriptionId = map_option ref_id (ck_subscription s);
         customerId = map_option ref_id (ck_customer s)
     in
     if \<not> truthy organizationId \<or> \<not> truthy subscriptionId \<or> \<not> truthy customerId then ret ()
     else
       bnd (requireStripe c) (\<lambda>_.
       bnd (stripe_call (\<lambda>n. st_retrieve st n (the subscriptionId))) (\<lambda>subscription.
       updateOrganizationSubscription c (the organizationId) (the customerId) subscription)))"

definition handleSubscriptionChange :: "app_config \<Rightarrow> subscription \<Rightarrow> unit action" where
  "handleSubscriptionChange c s =
    (let organizationId = metadata_organization (sb_metadata s); customerId = ref_id (sb_customer s) in
     if truthy organizationId then updateOrganizationSubscription c (the organizationId) customerId s
     else
       bnd new_date (\<lambda>now.
       bnd (update_many organization_t (\<lambda>g. or_stripeCustomer g = Some customerId)
         (\<lambda>g. (subscriptionData c customerId s g)\<lparr>or_updatedAt := now\<rparr>)) (\<lambda>_. ret ())))"

type_synonym headers = "string \<Rightarrow> string list option"

text \<open>A header given once is a list of one value.\<close>

definition billing_header :: "headers \<Rightarrow> string \<Rightarrow> string option" where
  "billing_header hs name = (case (case hs name of Some vs \<Rightarrow> Some vs | None \<Rightarrow> hs (to_lower name)) of
     Some (v # _) \<Rightarrow> Some v
   | _ \<Rightarrow> None)"

primrec handle_event :: "app_config \<Rightarrow> stripe_api \<Rightarrow> stripe_event \<Rightarrow> unit action" where
  "handle_event c st (Checkout_Completed s) = handleCheckoutCompleted c st s"
| "handle_event c st (Subscription_Created s) = handleSubscriptionChange c s"
| "handle_event c st (Subscription_Updated s) = handleSubscriptionChange c s"
| "handle_event c st (Subscription_Deleted s) = handleSubscriptionChange c s"
| "handle_event c st (Other_Event t) = ret ()"

definition handleWebhook :: "app_config \<Rightarrow> stripe_api \<Rightarrow> string option \<Rightarrow> headers \<Rightarrow> json \<Rightarrow> string action" where
  "handleWebhook c st rawBody hs fallbackBody =
    bnd (requireStripe c) (\<lambda>_.
    bnd (require (truthy (ac_stripeWebhookSecret c)) (not_implemented ''Stripe webhook handling is not configured for this deployment.'')) (\<lambda>_.
    bnd (require (truthy (billing_header hs ''stripe-signature'')) (bad_request ''Missing Stripe signature.'')) (\<lambda>_.
    bnd (gets (\<lambda>w. coalesce rawBody (json_text (num_str (w_env w)) fallbackBody))) (\<lambda>payload.
    bnd (stripe_call (\<lambda>n. st_constructEvent st n payload (the (billing_header hs ''stripe-signature'')) (the (ac_stripeWebhookSecret c)))) (\<lambda>event.
    bnd (handle_event c st event) (\<lambda>_.
    ret (event_type event)))))))"

subsection \<open>What a webhook may change\<close>

definition addressed :: "stripe_event \<Rightarrow> organization_row \<Rightarrow> bool" where
  "addressed event g = (case event of
     Checkout_Completed s \<Rightarrow> session_organization s = Some (or_id g)
   | Other_Event _ \<Rightarrow> False
   | Subscription_Created s \<Rightarrow> (if truthy (metadata_organization (sb_metadata s)) then metadata_organization (sb_metadata s) = Some (or_id g)
       else or_stripeCustomer g = Some (ref_id (sb_customer s)))
   | Subscription_Updated s \<Rightarrow> (if truthy (metadata_organization (sb_metadata s)) then metadata_organization (sb_metadata s) = Some (or_id g)
       else or_stripeCustomer g = Some (ref_id (sb_customer s)))
   | Subscription_Deleted s \<Rightarrow> (if truthy (metadata_organization (sb_metadata s)) then metadata_organization (sb_metadata s) = Some (or_id g)
       else or_stripeCustomer g = Some (ref_id (sb_customer s))))"

text \<open>Only the columns about billing change, and the plan only to the one of the configured price.\<close>

definition rebilled :: "app_config \<Rightarrow> organization_row \<Rightarrow> organization_row \<Rightarrow> bool" where
  "rebilled c g g' \<longleftrightarrow>
     g' = g\<lparr>or_plan := or_plan g', or_stripeCustomer := or_stripeCustomer g', or_stripeSubscription := or_stripeSubscription g',
       or_stripeStatus := or_stripeStatus g', or_stripePrice := or_stripePrice g', or_updatedAt := or_updatedAt g'\<rparr>
     \<and> (or_plan g' = or_plan g \<or> (\<exists>p. or_stripePrice g' = Some p \<and>
         (ac_stripeBusinessPriceId c = Some p \<and> or_plan g' = ''business'' \<or> ac_stripeStarterPriceId c = Some p \<and> or_plan g' = ''starter'')))"

lemma rebilled_data: "rebilled c g ((subscriptionData c k s g)\<lparr>or_updatedAt := now\<rparr>)"
  by (auto simp: rebilled_def subscriptionData_def plan_of_price_def split: option.splits)

definition changed_by :: "app_config \<Rightarrow> stripe_event \<Rightarrow> world \<Rightarrow> world \<Rightarrow> bool" where
  "changed_by c event w w' \<longleftrightarrow>
     list_all2 (\<lambda>g g'. g' = g \<or> addressed event g \<and> rebilled c g g') (organizations w) (organizations w')
     \<and> w' = w\<lparr>organizations := organizations w', reads := reads w'\<rparr>"

lemma changed_by_still: "changed_by c event w (w\<lparr>reads := n\<rparr>)"
  by (simp add: changed_by_def list.rel_refl)

lemma changed_by_update:
  assumes "\<And>g. or_id g = k \<Longrightarrow> addressed event g"
  shows "changed_by c event w (snd (updateOrganizationSubscription c k j s w))"
proof (cases "find (\<lambda>g. or_id g = k) (organizations w)")
  case None
  then show ?thesis
    using changed_by_still by (simp add: updateOrganizationSubscription_def update_billing_def run_simps)
next
  case (Some g)
  then show ?thesis
    using assms rebilled_data
    by (auto simp: updateOrganizationSubscription_def update_billing_def run_simps changed_by_def upd_row_def list.rel_map intro!: list.rel_refl_strong)
qed

lemma changed_by_change:
  assumes "\<And>g. (if truthy (metadata_organization (sb_metadata s)) then metadata_organization (sb_metadata s) = Some (or_id g)
       else or_stripeCustomer g = Some (ref_id (sb_customer s))) \<Longrightarrow> addressed event g"
  shows "changed_by c event w (snd (handleSubscriptionChange c s w))"
proof (cases "truthy (metadata_organization (sb_metadata s))")
  case True
  then show ?thesis
    using assms by (auto simp: handleSubscriptionChange_def Let_def truthy_def split: option.splits intro!: changed_by_update)
next
  case False
  then show ?thesis
    using assms rebilled_data
    by (auto simp: handleSubscriptionChange_def Let_def run_simps changed_by_def list.rel_map intro!: list.rel_refl_strong)
qed

lemma changed_by_trans:
  assumes "changed_by c event (w\<lparr>reads := n\<rparr>) w'"
  shows "changed_by c event w w'"
  using assms by (simp add: changed_by_def)

lemma changed_by_event: "changed_by c event w (snd (handle_event c st event w))"
proof (cases event)
  case (Checkout_Completed s)
  show ?thesis
  proof (cases "\<not> truthy (session_organization s) \<or> \<not> truthy (map_option ref_id (ck_subscription s)) \<or> \<not> truthy (map_option ref_id (ck_customer s))
      \<or> \<not> truthy (ac_stripeSecretKey c)")
    case True
    then show ?thesis
      using changed_by_still [of c event w "reads w"] Checkout_Completed
      by (auto simp: handleCheckoutCompleted_def Let_def run_simps requireStripe_def)
  next
    case False
    then obtain k where k: "session_organization s = Some k" by (auto simp: truthy_def split: option.splits)
    have "changed_by c event (w\<lparr>reads := n\<rparr>) (snd (updateOrganizationSubscription c k j x (w\<lparr>reads := n\<rparr>)))" for n j x
      by (rule changed_by_update) (simp add: addressed_def Checkout_Completed k)
    then show ?thesis
      using False k Checkout_Completed changed_by_still
      by (auto simp: handleCheckoutCompleted_def Let_def run_simps requireStripe_def stripe_call_def split: sum.splits intro: changed_by_trans)
  qed
qed (use changed_by_still [of c event w "reads w"] in \<open>auto simp: addressed_def run_simps intro!: changed_by_change\<close>)

text \<open>C35. The public webhook: without an event that Stripe's library accepts for the signature of the request under the
configured secret nothing is written at all; with one, only the organizations the event names (by its metadata, or by their
customer) change, only in their billing columns, and to a plan only if the subscription's price is the configured price of that plan.\<close>

theorem webhook_needs_signature:
  assumes "handleWebhook c st raw hs body w = (r, w')"
  shows "w' = w\<lparr>organizations := organizations w', reads := reads w'\<rparr>
    \<and> (organizations w' \<noteq> organizations w \<longrightarrow>
        (\<exists>secret sig event n. ac_stripeWebhookSecret c = Some secret \<and> secret \<noteq> [] \<and> billing_header hs ''stripe-signature'' = Some sig
          \<and> st_constructEvent st n (coalesce raw (json_text (num_str (w_env w)) body)) sig secret = Inr event
          \<and> list_all2 (\<lambda>g g'. g' = g \<or> addressed event g \<and> rebilled c g g') (organizations w) (organizations w')))"
proof (cases "truthy (ac_stripeSecretKey c) \<and> truthy (ac_stripeWebhookSecret c) \<and> truthy (billing_header hs ''stripe-signature'')")
  case False
  then have "w' = w"
    using assms by (cases "truthy (ac_stripeSecretKey c)"; cases "truthy (ac_stripeWebhookSecret c)") (simp_all add: handleWebhook_def requireStripe_def run_simps)
  then show ?thesis by simp
next
  case True
  then obtain secret sig where s: "ac_stripeWebhookSecret c = Some secret" "secret \<noteq> []" "billing_header hs ''stripe-signature'' = Some sig"
    by (auto simp: truthy_def split: option.splits)
  let ?call = "st_constructEvent st (reads w) (coalesce raw (json_text (num_str (w_env w)) body)) sig secret"
  let ?w = "w\<lparr>reads := Suc (reads w)\<rparr>"
  show ?thesis
  proof (cases ?call)
    case (Inl e)
    then have "w' = ?w" using assms True s by (auto simp: handleWebhook_def requireStripe_def run_simps stripe_call_def)
    then show ?thesis by simp
  next
    case (Inr event)
    then have "w' = snd (handle_event c st event ?w)"
      using assms True s by (auto simp: handleWebhook_def requireStripe_def run_simps stripe_call_def split: prod.splits sum.splits)
    then have "changed_by c event w w'" using changed_by_event changed_by_trans by blast
    then show ?thesis using s Inr by (fastforce simp: changed_by_def)
  qed
qed

definition billing_config :: app_config where
  "billing_config = (parsed_config production_platform production_variables)
     \<lparr>ac_stripeSecretKey := Some ''sk_test_1'', ac_stripeWebhookSecret := Some ''s'', ac_stripeBusinessPriceId := Some ''p''\<rparr>"

definition demo_subscription :: subscription where
  "demo_subscription = \<lparr>sb_id = ''sub'', sb_status = ''active'', sb_customer = By_Id ''cus'', sb_metadata = None, sb_prices = [''p'']\<rparr>"

definition demo_stripe :: stripe_api where
  "demo_stripe = \<lparr>st_createCustomer = (\<lambda>_ _. Inr ''cus''), st_createSession = (\<lambda>_ _. Inr (''cs'', None)), st_createPortal = (\<lambda>_ _ _. Inr (''ps'', ''u'')),
     st_constructEvent = (\<lambda>_ payload sig secret. if sig = payload @ secret then Inr (Subscription_Updated demo_subscription) else Inl (bad_request ''signature'')),
     st_retrieve = (\<lambda>_ _. Inr demo_subscription)\<rparr>"

definition customers :: world where
  "customers = (empty_world demo_env)\<lparr>organizations := map (\<lambda>k. \<lparr>or_id = k, or_name = ''n'', or_domain = k, or_plan = ''local'', or_billingEmail = None,
     or_stripeCustomer = Some k, or_stripeSubscription = None, or_stripeStatus = None, or_stripePrice = None, or_createdAt = 0, or_updatedAt = 0\<rparr>)
     [''other'', ''cus'']\<rparr>"

theorem webhook_needs_signature_witness:
  "organizations (snd (handleWebhook billing_config demo_stripe (Some ''{}'') (\<lambda>_. Some [''forged'']) JNull customers)) = organizations customers
   \<and> map or_plan (organizations (snd (handleWebhook billing_config demo_stripe (Some ''{}'') (\<lambda>_. Some [''{}s'']) JNull customers))) = [''local'', ''business'']"
proof
  obtain r w' where run: "handleWebhook billing_config demo_stripe (Some ''{}'') (\<lambda>_. Some [''forged'']) JNull customers = (r, w')" by fastforce
  have "organizations w' = organizations customers"
    using webhook_needs_signature [OF run] by (auto simp: billing_config_def billing_header_def demo_stripe_def split: if_splits)
  with run show "organizations (snd (handleWebhook billing_config demo_stripe (Some ''{}'') (\<lambda>_. Some [''forged'']) JNull customers)) = organizations customers"
    by simp
  show "map or_plan (organizations (snd (handleWebhook billing_config demo_stripe (Some ''{}'') (\<lambda>_. Some [''{}s'']) JNull customers))) = [''local'', ''business'']"
    by (simp add: handleWebhook_def requireStripe_def run_simps billing_config_def billing_header_def stripe_call_def demo_stripe_def truthy_def
        handleSubscriptionChange_def demo_subscription_def metadata_organization_def Let_def customers_def subscriptionData_def
        plan_of_price_def first_price_def)
qed

text \<open>The end of a subscription leaves the organization on its paid plan: the event still carries the price.\<close>

theorem canceled_subscription_keeps_plan:
  assumes "row_of organization_t k w = Some g" and "metadata_organization (sb_metadata s) = Some k" and "k \<noteq> []"
    and "ac_stripeBusinessPriceId c = Some p" and "first_price s = Some p"
  shows "\<exists>g'. row_of organization_t k (snd (handle_event c st (Subscription_Deleted s) w)) = Some g' \<and> or_plan g' = ''business''
    \<and> or_stripeStatus g' = Some (sb_status s)"
  using assms
  by (simp add: row_of_def organization_t_def handleSubscriptionChange_def Let_def truthy_def updateOrganizationSubscription_def update_billing_def
      run_simps find_upd_row subscriptionData_def plan_of_price_def)

subsection \<open>Checkout\<close>

text \<open>Whatever Stripe answers, a checkout writes at most the customer of its organization, and only where there was none.\<close>

lemma checkout_writes_customer:
  assumes "createCheckout c st k u body w = (r, w')"
  shows "w' = w\<lparr>organizations := organizations w', reads := reads w'\<rparr>
    \<and> list_all2 (\<lambda>g g'. g' = g \<or> or_id g = k \<and> (\<exists>j now. g' = g\<lparr>or_stripeCustomer := Some j, or_updatedAt := now\<rparr>)) (organizations w) (organizations w')"
proof -
  have keep: "list_all2 (\<lambda>g g'. g' = g \<or> P g g') gs gs" for P and gs :: "organization_row list" by (rule list.rel_refl) simp
  have upd: "list_all2 (\<lambda>g g'. g' = g \<or> or_id g = k \<and> (\<exists>j now. g' = g\<lparr>or_stripeCustomer := Some j, or_updatedAt := now\<rparr>)) gs
      (upd_row or_id k (\<lambda>g. g\<lparr>or_stripeCustomer := Some j, or_updatedAt := now\<rparr>) gs)" for j now gs
    by (auto simp: upd_row_def list.rel_map intro!: list.rel_refl_strong)
  show ?thesis
    using assms keep upd
    by (auto simp: createCheckout_def requireStripe_def priceIdFor_def run_simps Let_def stripe_call_def update_billing_def
        split: if_splits option.splits sum.splits prod.splits)
qed

end
