(* ===== verification/Schemas.thy ===== *)
theory Schemas
  imports Receipts Executor Compliance
begin

section \<open>Request bodies and queries\<close>

text \<open>
  What a route accepts: the schemas of the controllers (\<open>*/*.controller.ts\<close>, \<open>auth/dto.ts\<close>) and their queries
  (\<open>common/pagination.ts\<close> and the \<open>parseQuery\<close> functions). A schema reads the value of a property, \<open>None\<close> where it is
  absent, and is \<open>None\<close> where it refuses. The syntax of UUIDs, e-mail addresses and dates is the schema library's
  (\<open>isUuid\<close>, \<open>text_syntax\<close>); addresses are what \<open>new URL\<close> takes. Unknown properties are dropped.
\<close>

record text_syntax =
  tx_email :: "string \<Rightarrow> bool"
  tx_date :: "string \<Rightarrow> bool"
  tx_datetime :: "string \<Rightarrow> bool"

type_synonym 'a schema = "json option \<Rightarrow> 'a option"

subsection \<open>Combinators\<close>

definition z_text :: "nat \<Rightarrow> nat \<Rightarrow> string schema" where
  "z_text lo hi v = (case v of Some (JStr s) \<Rightarrow> if lo \<le> length s \<and> length s \<le> hi then Some s else None | _ \<Rightarrow> None)"

definition z_min :: "nat \<Rightarrow> string schema" where
  "z_min lo v = (case v of Some (JStr s) \<Rightarrow> if lo \<le> length s then Some s else None | _ \<Rightarrow> None)"

definition z_where :: "(string \<Rightarrow> bool) \<Rightarrow> string schema" where
  "z_where P v = (case v of Some (JStr s) \<Rightarrow> if P s then Some s else None | _ \<Rightarrow> None)"

definition z_bool :: "bool schema" where
  "z_bool v = (case v of Some (JBool b) \<Rightarrow> Some b | _ \<Rightarrow> None)"

definition z_nat_int :: "int schema" where
  "z_nat_int v = (case json_int v of Some n \<Rightarrow> if 0 \<le> n then Some n else None | None \<Rightarrow> None)"

text \<open>\<open>z.record(z.unknown())\<close>: any object.\<close>

definition z_record :: "(string \<times> json) list schema" where
  "z_record v = (case v of Some (JObj fs) \<Rightarrow> Some fs | _ \<Rightarrow> None)"

definition z_enum :: "('e \<Rightarrow> string) \<Rightarrow> 'e list \<Rightarrow> 'e schema" where
  "z_enum value known v = (case v of Some (JStr s) \<Rightarrow> parse_enum value known s | _ \<Rightarrow> None)"

definition z_array :: "'a schema \<Rightarrow> 'a list schema" where
  "z_array f v = (case v of Some (JArr js) \<Rightarrow> those (map (\<lambda>j. f (Some j)) js) | _ \<Rightarrow> None)"

definition z_optional :: "'a schema \<Rightarrow> 'a option schema" where
  "z_optional f v = (case v of None \<Rightarrow> Some None | Some j \<Rightarrow> map_option Some (f (Some j)))"

definition z_nullable :: "'a schema \<Rightarrow> 'a option schema" where
  "z_nullable f v = (if v = Some JNull then Some None else map_option Some (f v))"

definition z_default :: "'a \<Rightarrow> 'a schema \<Rightarrow> 'a schema" where
  "z_default d f v = (if v = None then Some d else f v)"

definition z_lower :: "string schema \<Rightarrow> string schema" where
  "z_lower f v = map_option to_lower (f v)"

definition z_uuid :: "env \<Rightarrow> string schema" where
  "z_uuid e = z_where (isUuid e)"

definition z_url :: "env \<Rightarrow> string schema" where
  "z_url e = z_where (\<lambda>s. url_host e s \<noteq> None)"

text \<open>The properties of an object, read one after the other.\<close>

definition z_object :: "json \<Rightarrow> ((string \<times> json) list \<Rightarrow> 'a option) \<Rightarrow> 'a option" where
  "z_object body f = (case body of JObj fs \<Rightarrow> f fs | _ \<Rightarrow> None)"

definition z_field :: "(string \<times> json) list \<Rightarrow> string \<Rightarrow> 'a schema \<Rightarrow> ('a \<Rightarrow> 'b option) \<Rightarrow> 'b option" where
  "z_field fs k f g = Option.bind (f (map_of fs k)) g"

definition z_refine :: "bool \<Rightarrow> 'a \<Rightarrow> 'a option" where
  "z_refine b x = (if b then Some x else None)"

text \<open>\<open>Object.keys(value).length > 0\<close> after parsing.\<close>

definition some_key :: "string list \<Rightarrow> (string \<times> json) list \<Rightarrow> bool" where
  "some_key ks fs \<longleftrightarrow> list_ex (\<lambda>k. map_of fs k \<noteq> None) ks"

text \<open>\<open>body ?? {}\<close>.\<close>

definition body_or_empty :: "json \<Rightarrow> json" where
  "body_or_empty body = (if body = JNull then JObj [] else body)"

subsection \<open>Signing in\<close>

definition registerSchema :: "text_syntax \<Rightarrow> json \<Rightarrow> register_input option" where
  "registerSchema tx body = z_object body (\<lambda>fs.
    z_field fs ''email'' (z_lower (z_where (tx_email tx))) (\<lambda>email.
    z_field fs ''name'' (z_text 1 120) (\<lambda>name.
    z_field fs ''password'' (z_text 8 256) (\<lambda>password.
    z_field fs ''organizationName'' (z_text 1 160) (\<lambda>orgName.
    z_field fs ''organizationDomain'' (z_lower (z_text 1 160)) (\<lambda>domain.
    Some \<lparr>rg_email = email, rg_name = name, rg_password = password, rg_organizationName = orgName, rg_organizationDomain = domain\<rparr>))))))"

definition loginSchema :: "text_syntax \<Rightarrow> json \<Rightarrow> (string \<times> string) option" where
  "loginSchema tx body = z_object body (\<lambda>fs.
    z_field fs ''email'' (z_lower (z_where (tx_email tx))) (\<lambda>email.
    z_field fs ''password'' (z_text 1 256) (\<lambda>password. Some (email, password))))"

definition refreshSchema :: "json \<Rightarrow> string option option" where
  "refreshSchema body = z_object body (\<lambda>fs. z_field fs ''refreshToken'' (z_optional (z_min 32)) Some)"

definition forgotPasswordSchema :: "text_syntax \<Rightarrow> json \<Rightarrow> string option" where
  "forgotPasswordSchema tx body = z_object body (\<lambda>fs. z_field fs ''email'' (z_lower (z_where (tx_email tx))) Some)"

definition resetPasswordSchema :: "json \<Rightarrow> (string \<times> string) option" where
  "resetPasswordSchema body = z_object body (\<lambda>fs.
    z_field fs ''token'' (z_min 16) (\<lambda>token. z_field fs ''password'' (z_text 8 256) (\<lambda>password. Some (token, password))))"

definition verifyEmailSchema :: "string option \<Rightarrow> string option" where
  "verifyEmailSchema token = z_min 16 (map_option JStr token)"

definition mfaChallengeSchema :: "json \<Rightarrow> (string \<times> string) option" where
  "mfaChallengeSchema body = z_object body (\<lambda>fs.
    z_field fs ''tempToken'' (z_min 16) (\<lambda>token. z_field fs ''code'' (z_text 6 16) (\<lambda>code. Some (token, code))))"

definition mfaCodeSchema :: "json \<Rightarrow> string option" where
  "mfaCodeSchema body = z_object body (\<lambda>fs. z_field fs ''code'' (z_text 6 16) Some)"

definition mfaRecoverySchema :: "json \<Rightarrow> (string \<times> string) option" where
  "mfaRecoverySchema body = z_object body (\<lambda>fs.
    z_field fs ''tempToken'' (z_min 16) (\<lambda>token. z_field fs ''backupCode'' (z_text 8 32) (\<lambda>code. Some (token, code))))"

definition stepUpSchema :: "json \<Rightarrow> (string option \<times> string option) option" where
  "stepUpSchema body = z_object body (\<lambda>fs.
    z_field fs ''password'' (z_optional (z_text 1 256)) (\<lambda>password.
    z_field fs ''totpCode'' (z_optional (z_text 6 16)) (\<lambda>code.
    z_refine (truthy password \<or> truthy code) (password, code))))"

subsection \<open>Members and organizations\<close>

definition roleSchema :: "user_role schema" where
  "roleSchema = z_enum user_role_value USER_ROLES"

definition inviteUserSchema :: "text_syntax \<Rightarrow> json \<Rightarrow> invite_input option" where
  "inviteUserSchema tx body = z_object body (\<lambda>fs.
    z_field fs ''email'' (z_lower (z_where (tx_email tx))) (\<lambda>email.
    z_field fs ''name'' (z_text 1 120) (\<lambda>name.
    z_field fs ''role'' roleSchema (\<lambda>role. Some \<lparr>iv_email = email, iv_name = name, iv_role = role\<rparr>))))"

definition changeRoleSchema :: "json \<Rightarrow> user_role option" where
  "changeRoleSchema body = z_object body (\<lambda>fs. z_field fs ''role'' roleSchema Some)"

definition updateProfileSchema :: "json \<Rightarrow> string option" where
  "updateProfileSchema body = z_object body (\<lambda>fs. z_field fs ''name'' (z_text 1 120) Some)"

definition changePasswordSchema :: "json \<Rightarrow> (string \<times> string) option" where
  "changePasswordSchema body = z_object body (\<lambda>fs.
    z_field fs ''currentPassword'' (z_text 1 256) (\<lambda>current. z_field fs ''newPassword'' (z_text 8 256) (\<lambda>new. Some (current, new))))"

definition updateOrganizationSchema :: "text_syntax \<Rightarrow> json \<Rightarrow> organization_change option" where
  "updateOrganizationSchema tx body = z_object body (\<lambda>fs.
    z_field fs ''name'' (z_optional (z_text 1 160)) (\<lambda>name.
    z_field fs ''domain'' (z_optional (z_lower (z_text 1 160))) (\<lambda>domain.
    z_field fs ''billingEmail'' (z_optional (z_nullable (z_lower (z_where (tx_email tx))))) (\<lambda>email.
    z_refine (name \<noteq> None \<or> domain \<noteq> None \<or> email \<noteq> None) \<lparr>oc_name = name, oc_domain = domain, oc_billingEmail = email\<rparr>))))"

text \<open>\<open>.strict()\<close>: an unknown property is refused.\<close>

definition updateNotificationPreferencesSchema :: "json \<Rightarrow> preference_change option" where
  "updateNotificationPreferencesSchema body = z_object body (\<lambda>fs.
    if \<not> list_all (\<lambda>(k, _). List.member [''approvalRequests'', ''runCompletions'', ''failures''] k) fs then None
    else
      z_field fs ''approvalRequests'' (z_optional z_bool) (\<lambda>a.
      z_field fs ''runCompletions'' (z_optional z_bool) (\<lambda>r.
      z_field fs ''failures'' (z_optional z_bool) (\<lambda>f.
      Some \<lparr>pc_approvalRequests = a, pc_runCompletions = r, pc_failures = f\<rparr>))))"

subsection \<open>Agents, vendors, policies, credentials, workflows\<close>

definition createAgentSchema :: "json \<Rightarrow> agent_input option" where
  "createAgentSchema body = z_object body (\<lambda>fs.
    z_field fs ''name'' (z_text 1 120) (\<lambda>name.
    z_field fs ''purpose'' (z_text 1 500) (\<lambda>purpose.
    z_field fs ''identifier'' (z_optional (z_text 1 160)) (\<lambda>identifier.
    Some \<lparr>an_name = name, an_purpose = purpose, an_identifier = identifier\<rparr>))))"

definition updateAgentSchema :: "json \<Rightarrow> agent_change option" where
  "updateAgentSchema body = z_object body (\<lambda>fs.
    z_field fs ''name'' (z_optional (z_text 1 120)) (\<lambda>name.
    z_field fs ''purpose'' (z_optional (z_text 1 500)) (\<lambda>purpose.
    z_refine (name \<noteq> None \<or> purpose \<noteq> None) \<lparr>ac_name = name, ac_purpose = purpose\<rparr>)))"

definition categorySchema :: "vendor_category schema" where
  "categorySchema = z_enum vendor_category_value VENDOR_CATEGORIES"

definition connectorTypeSchema :: "connector_type schema" where
  "connectorTypeSchema = z_enum connector_type_value CONNECTOR_TYPES"

definition z_object_value :: "json schema" where
  "z_object_value v = map_option JObj (z_record v)"

definition createVendorSchema :: "env \<Rightarrow> text_syntax \<Rightarrow> json \<Rightarrow> vendor_input option" where
  "createVendorSchema e tx body = z_object body (\<lambda>fs.
    z_field fs ''name'' (z_text 1 160) (\<lambda>name.
    z_field fs ''website'' (z_url e) (\<lambda>website.
    z_field fs ''category'' categorySchema (\<lambda>category.
    z_field fs ''connectorType'' (z_optional connectorTypeSchema) (\<lambda>connectorType.
    z_field fs ''renewalDate'' (z_optional (z_where (tx_date tx))) (\<lambda>renewalDate.
    z_field fs ''monthlyCostCents'' (z_optional z_nat_int) (\<lambda>cost.
    z_field fs ''ownerUserId'' (z_optional (z_uuid e)) (\<lambda>owner.
    z_field fs ''metadataJson'' (z_optional z_object_value) (\<lambda>metadata.
    Some \<lparr>vn_name = name, vn_website = website, vn_category = category, vn_connectorType = connectorType,
      vn_renewalDate = renewalDate, vn_monthlyCostCents = cost, vn_owner = owner, vn_metadata = metadata\<rparr>)))))))))"

definition updateVendorSchema :: "env \<Rightarrow> text_syntax \<Rightarrow> json \<Rightarrow> vendor_change option" where
  "updateVendorSchema e tx body = z_object body (\<lambda>fs.
    z_field fs ''name'' (z_optional (z_text 1 160)) (\<lambda>name.
    z_field fs ''website'' (z_optional (z_url e)) (\<lambda>website.
    z_field fs ''category'' (z_optional categorySchema) (\<lambda>category.
    z_field fs ''connectorType'' (z_optional connectorTypeSchema) (\<lambda>connectorType.
    z_field fs ''renewalDate'' (z_optional (z_where (tx_date tx))) (\<lambda>renewalDate.
    z_field fs ''monthlyCostCents'' (z_optional z_nat_int) (\<lambda>cost.
    z_field fs ''ownerUserId'' (z_optional (z_uuid e)) (\<lambda>owner.
    z_field fs ''metadataJson'' (z_optional z_object_value) (\<lambda>metadata.
    z_refine (some_key [''name'', ''website'', ''category'', ''connectorType'', ''renewalDate'', ''monthlyCostCents'', ''ownerUserId'', ''metadataJson''] fs)
      \<lparr>vq_name = name, vq_website = website, vq_category = category, vq_connectorType = connectorType,
       vq_renewalDate = renewalDate, vq_monthlyCostCents = cost, vq_owner = owner, vq_metadata = metadata\<rparr>)))))))))"

definition policyTypeSchema :: "policy_type schema" where
  "policyTypeSchema = z_enum policy_type_value POLICY_TYPES"

definition policyStatusSchema :: "policy_status schema" where
  "policyStatusSchema = z_enum policy_status_value POLICY_STATUSES"

definition actionTypeSchema :: "action_type schema" where
  "actionTypeSchema = z_enum action_type_value ACTION_TYPES"

definition riskSignalSchema :: "risk_signal schema" where
  "riskSignalSchema = z_enum risk_signal_value RISK_SIGNALS"

definition createPolicySchema :: "env \<Rightarrow> json \<Rightarrow> policy_create_input option" where
  "createPolicySchema e body = z_object body (\<lambda>fs.
    z_field fs ''agentId'' (z_optional (z_uuid e)) (\<lambda>agentId.
    z_field fs ''name'' (z_text 1 160) (\<lambda>name.
    z_field fs ''type'' policyTypeSchema (\<lambda>ty.
    z_field fs ''status'' (z_optional policyStatusSchema) (\<lambda>status.
    z_field fs ''rulesJson'' z_object_value (\<lambda>rules.
    Some \<lparr>pn_agentId = agentId, pn_name = name, pn_type = ty, pn_status = status, pn_rules = rules\<rparr>))))))"

definition updatePolicySchema :: "env \<Rightarrow> json \<Rightarrow> policy_update_input option" where
  "updatePolicySchema e body = z_object body (\<lambda>fs.
    z_field fs ''agentId'' (z_optional (z_nullable (z_uuid e))) (\<lambda>agentId.
    z_field fs ''name'' (z_optional (z_text 1 160)) (\<lambda>name.
    z_field fs ''type'' (z_optional policyTypeSchema) (\<lambda>ty.
    z_field fs ''status'' (z_optional policyStatusSchema) (\<lambda>status.
    z_field fs ''rulesJson'' (z_optional z_object_value) (\<lambda>rules.
    z_refine (some_key [''agentId'', ''name'', ''type'', ''status'', ''rulesJson''] fs)
      \<lparr>pu_agentId = agentId, pu_name = name, pu_type = ty, pu_status = status, pu_rules = rules\<rparr>))))))"

definition evaluatePolicySchema :: "env \<Rightarrow> json \<Rightarrow> evaluate_input option" where
  "evaluatePolicySchema e body = z_object body (\<lambda>fs.
    z_field fs ''policyId'' (z_optional (z_uuid e)) (\<lambda>policyId.
    z_field fs ''agentId'' (z_uuid e) (\<lambda>agentId.
    z_field fs ''website'' (z_text 1 2048) (\<lambda>website.
    z_field fs ''actionType'' actionTypeSchema (\<lambda>actionType.
    z_field fs ''amountCents'' (z_optional z_nat_int) (\<lambda>amount.
    z_field fs ''riskSignals'' (z_optional (z_array riskSignalSchema)) (\<lambda>signals.
    z_field fs ''policySnapshot'' (z_optional z_object_value) (\<lambda>snapshot.
    z_refine (truthy policyId \<or> snapshot \<noteq> None)
      \<lparr>ev_policyId = policyId, ev_agentId = agentId, ev_website = website, ev_actionType = actionType, ev_amountCents = amount,
       ev_riskSignals = signals, ev_policySnapshot = snapshot\<rparr>))))))))"

definition credentialTypeSchema :: "credential_type schema" where
  "credentialTypeSchema = z_enum credential_type_value CREDENTIAL_TYPES"

definition secretSchema :: "(string \<times> json) list schema" where
  "secretSchema v = (case z_record v of Some fs \<Rightarrow> if fs \<noteq> [] then Some fs else None | None \<Rightarrow> None)"

definition createCredentialSchema :: "env \<Rightarrow> json \<Rightarrow> credential_input option" where
  "createCredentialSchema e body = z_object body (\<lambda>fs.
    z_field fs ''vendorId'' (z_uuid e) (\<lambda>vendorId.
    z_field fs ''label'' (z_text 1 160) (\<lambda>label.
    z_field fs ''credentialType'' credentialTypeSchema (\<lambda>ty.
    z_field fs ''secretJson'' secretSchema (\<lambda>secret.
    Some \<lparr>cc_vendorId = vendorId, cc_label = label, cc_type = ty, cc_secret = secret\<rparr>)))))"

definition updateCredentialSchema :: "env \<Rightarrow> json \<Rightarrow> credential_change option" where
  "updateCredentialSchema e body = z_object body (\<lambda>fs.
    z_field fs ''vendorId'' (z_optional (z_uuid e)) (\<lambda>vendorId.
    z_field fs ''label'' (z_optional (z_text 1 160)) (\<lambda>label.
    z_field fs ''credentialType'' (z_optional credentialTypeSchema) (\<lambda>ty.
    z_field fs ''secretJson'' (z_optional secretSchema) (\<lambda>secret.
    z_refine (some_key [''vendorId'', ''label'', ''credentialType'', ''secretJson''] fs)
      \<lparr>cx_vendorId = vendorId, cx_label = label, cx_type = ty, cx_secret = secret\<rparr>)))))"

definition grantSchema :: "env \<Rightarrow> json \<Rightarrow> (string \<times> string) option" where
  "grantSchema e body = z_object body (\<lambda>fs.
    z_field fs ''agentId'' (z_uuid e) (\<lambda>agentId.
    z_field fs ''scope'' (z_default ''login'' (z_text 1 80)) (\<lambda>scope. Some (agentId, scope))))"

definition workflowTemplateSchema :: "workflow_template schema" where
  "workflowTemplateSchema = z_enum workflow_template_value WORKFLOW_TEMPLATES"

definition workflowStatusSchema :: "workflow_status schema" where
  "workflowStatusSchema = z_enum workflow_status_value WORKFLOW_STATUSES"

definition createWorkflowSchema :: "env \<Rightarrow> json \<Rightarrow> workflow_input option" where
  "createWorkflowSchema e body = z_object body (\<lambda>fs.
    z_field fs ''agentId'' (z_uuid e) (\<lambda>agentId.
    z_field fs ''vendorId'' (z_uuid e) (\<lambda>vendorId.
    z_field fs ''name'' (z_text 1 160) (\<lambda>name.
    z_field fs ''template'' workflowTemplateSchema (\<lambda>template.
    z_field fs ''configurationJson'' (z_default (JObj []) z_object_value) (\<lambda>config.
    Some \<lparr>wn_agentId = agentId, wn_vendorId = vendorId, wn_name = name, wn_template = template, wn_config = config\<rparr>))))))"

definition updateWorkflowSchema :: "env \<Rightarrow> json \<Rightarrow> workflow_change option" where
  "updateWorkflowSchema e body = z_object body (\<lambda>fs.
    z_field fs ''agentId'' (z_optional (z_uuid e)) (\<lambda>agentId.
    z_field fs ''vendorId'' (z_optional (z_uuid e)) (\<lambda>vendorId.
    z_field fs ''name'' (z_optional (z_text 1 160)) (\<lambda>name.
    z_field fs ''template'' (z_optional workflowTemplateSchema) (\<lambda>template.
    z_field fs ''configurationJson'' (z_optional z_object_value) (\<lambda>config.
    z_field fs ''status'' (z_optional workflowStatusSchema) (\<lambda>status.
    z_refine (some_key [''agentId'', ''vendorId'', ''name'', ''template'', ''configurationJson'', ''status''] fs)
      \<lparr>wc_agentId = agentId, wc_vendorId = vendorId, wc_name = name, wc_template = template, wc_config = config, wc_status = status\<rparr>)))))))"

subsection \<open>Runs and approvals\<close>

definition cancelSchema :: "json \<Rightarrow> string option" where
  "cancelSchema body = z_object body (\<lambda>fs. z_field fs ''reason'' (z_default ''Canceled by user.'' (z_text 1 500)) Some)"

definition decideSchema :: "json \<Rightarrow> string option option" where
  "decideSchema body = z_object body (\<lambda>fs. z_field fs ''comment'' (z_optional (z_text 1 1000)) Some)"

text \<open>\<open>z.nativeEnum\<close> of the database client, whose values are in upper case.\<close>

definition z_native :: "('e \<Rightarrow> string) \<Rightarrow> 'e list \<Rightarrow> 'e schema" where
  "z_native value = z_enum (\<lambda>x. prisma_enum (value x))"

definition createApprovalSchema :: "env \<Rightarrow> text_syntax \<Rightarrow> json \<Rightarrow> create_approval_input option" where
  "createApprovalSchema e tx body = z_object body (\<lambda>fs.
    z_field fs ''actionAttemptId'' (z_uuid e) (\<lambda>attempt.
    z_field fs ''summary'' (z_text 1 1000) (\<lambda>summary.
    z_field fs ''riskLevel'' (z_optional (z_native risk_level_value RISK_LEVELS)) (\<lambda>riskLevel.
    z_field fs ''amountCents'' (z_optional z_nat_int) (\<lambda>amount.
    z_field fs ''screenshotFileId'' (z_optional (z_uuid e)) (\<lambda>screenshot.
    z_field fs ''policyTriggeredJson'' (z_optional z_object_value) (\<lambda>policy.
    z_field fs ''expiresAt'' (z_optional (z_where (tx_datetime tx))) (\<lambda>expiresAt.
    Some \<lparr>ca_attempt = attempt, ca_summary = summary, ca_riskLevel = riskLevel, ca_amountCents = amount, ca_screenshot = screenshot,
      ca_policyTriggered = policy, ca_expiresAt = expiresAt\<rparr>))))))))"

definition createAttemptSchema :: "json \<Rightarrow> create_attempt_input option" where
  "createAttemptSchema body = z_object body (\<lambda>fs.
    z_field fs ''website'' (z_text 1 2048) (\<lambda>website.
    z_field fs ''actionType'' actionTypeSchema (\<lambda>actionType.
    z_field fs ''riskLevel'' (z_optional (z_enum risk_level_value RISK_LEVELS)) (\<lambda>riskLevel.
    z_field fs ''riskSignals'' (z_optional (z_array (z_where (\<lambda>_. True)))) (\<lambda>signals.
    z_field fs ''policyDecision'' (z_optional (z_enum policy_decision_value POLICY_DECISIONS)) (\<lambda>decision.
    z_field fs ''policyReason'' (z_optional (z_text 1 500)) (\<lambda>reason.
    z_field fs ''inputSummary'' (z_optional (z_text 1 1000)) (\<lambda>input.
    z_field fs ''outputSummary'' (z_optional (z_text 1 1000)) (\<lambda>output.
    z_field fs ''amountCents'' (z_optional z_nat_int) (\<lambda>amount.
    z_field fs ''metadataJson'' (z_optional z_record) (\<lambda>metadata.
    Some \<lparr>ci_website = website, ci_actionType = actionType, ci_riskLevel = riskLevel,
      ci_riskSignals = map_option (\<lambda>ss. JArr (map JStr ss)) signals, ci_policyDecision = decision, ci_policyReason = reason,
      ci_inputSummary = input, ci_outputSummary = output, ci_amountCents = amount, ci_metadata = metadata\<rparr>)))))))))))"

definition completeAttemptSchema :: "env \<Rightarrow> json \<Rightarrow> (string \<times> string option \<times> (string \<times> json) list option) option" where
  "completeAttemptSchema e body = z_object body (\<lambda>fs.
    z_field fs ''outputSummary'' (z_optional (z_text 1 1000)) (\<lambda>output.
    z_field fs ''metadataJson'' (z_optional z_record) (\<lambda>metadata.
    z_field fs ''workflowRunId'' (z_uuid e) (\<lambda>run. Some (run, output, metadata)))))"

definition failAttemptSchema :: "env \<Rightarrow> json \<Rightarrow> (string \<times> string \<times> (string \<times> json) list option) option" where
  "failAttemptSchema e body = z_object body (\<lambda>fs.
    z_field fs ''errorSummary'' (z_text 1 1000) (\<lambda>err.
    z_field fs ''metadataJson'' (z_optional z_record) (\<lambda>metadata.
    z_field fs ''workflowRunId'' (z_uuid e) (\<lambda>run. Some (run, err, metadata)))))"

definition eventSchema :: "env \<Rightarrow> json \<Rightarrow> (string \<times> audit_event_type \<times> (string \<times> json) list option) option" where
  "eventSchema e body = z_object body (\<lambda>fs.
    z_field fs ''organizationId'' (z_uuid e) (\<lambda>org.
    z_field fs ''eventType'' (z_native audit_event_type_value AUDIT_EVENT_TYPES) (\<lambda>ty.
    z_field fs ''eventDataJson'' (z_optional z_record) (\<lambda>d. Some (org, ty, d)))))"

definition uploadSchema :: "env \<Rightarrow> json \<Rightarrow> (string \<times> string \<times> string \<times> string) option" where
  "uploadSchema e body = z_object body (\<lambda>fs.
    z_field fs ''organizationId'' (z_uuid e) (\<lambda>org.
    z_field fs ''filename'' (z_text 1 240) (\<lambda>filename.
    z_field fs ''mimeType'' (z_text 1 120) (\<lambda>mime.
    z_field fs ''bufferBase64'' (z_text 1 (14 * 1024 * 1024)) (\<lambda>buffer. Some (org, filename, mime, buffer))))))"

definition fileUploadSchema :: "env \<Rightarrow> json \<Rightarrow> (file_kind \<times> string \<times> string \<times> string \<times> string) option" where
  "fileUploadSchema e body = Option.bind (uploadSchema e body) (\<lambda>u.
    z_object body (\<lambda>fs. z_field fs ''kind'' (z_native file_kind_value FILE_KINDS) (\<lambda>kind. Some (kind, u))))"

definition completeSchema :: "env \<Rightarrow> json \<Rightarrow> (string \<times> worker_complete) option" where
  "completeSchema e body = z_object body (\<lambda>fs.
    z_field fs ''organizationId'' (z_uuid e) (\<lambda>org.
    z_field fs ''resultSummary'' (z_optional (z_text 1 1000)) (\<lambda>result.
    z_field fs ''currentStep'' (z_optional (z_text 1 200)) (\<lambda>step.
    z_field fs ''stateJson'' (z_optional z_record) (\<lambda>state.
    Some (org, \<lparr>wc_resultSummary = result, wc_currentStep = step, wc_state = state\<rparr>))))))"

definition failSchema :: "env \<Rightarrow> json \<Rightarrow> (string \<times> worker_fail) option" where
  "failSchema e body = z_object body (\<lambda>fs.
    z_field fs ''organizationId'' (z_uuid e) (\<lambda>org.
    z_field fs ''errorMessage'' (z_text 1 1000) (\<lambda>message.
    z_field fs ''currentStep'' (z_optional (z_text 1 200)) (\<lambda>step.
    z_field fs ''stateJson'' (z_optional z_record) (\<lambda>state.
    Some (org, \<lparr>wx_errorMessage = message, wx_currentStep = step, wx_state = state\<rparr>))))))"

definition decryptForRunSchema :: "env \<Rightarrow> json \<Rightarrow> string option" where
  "decryptForRunSchema e body = z_object body (\<lambda>fs. z_field fs ''workflowRunId'' (z_uuid e) Some)"

subsection \<open>Queries\<close>

text \<open>The parameters of a query; one given several times counts with its first value.\<close>

type_synonym query_record = "string \<Rightarrow> string list option"

definition query_first :: "query_record \<Rightarrow> string \<Rightarrow> string option" where
  "query_first q k = (case q k of Some (v # _) \<Rightarrow> Some v | _ \<Rightarrow> None)"

text \<open>\<open>z.coerce.number().int().min(lo).max(hi).default(d)\<close>.\<close>

definition z_number :: "env \<Rightarrow> nat \<Rightarrow> nat \<Rightarrow> nat option \<Rightarrow> string option \<Rightarrow> nat option" where
  "z_number e d lo hi v = (case v of
     None \<Rightarrow> Some d
   | Some s \<Rightarrow> (case number_of_text e s of
         None \<Rightarrow> None
       | Some n \<Rightarrow> if of_int \<lfloor>n\<rfloor> = n \<and> of_nat lo \<le> n \<and> (case hi of None \<Rightarrow> True | Some h \<Rightarrow> n \<le> of_nat h) then Some (nat \<lfloor>n\<rfloor>) else None))"

definition q_uuid :: "env \<Rightarrow> string option \<Rightarrow> string option option" where
  "q_uuid e v = z_optional (z_uuid e) (map_option JStr v)"

definition q_date :: "env \<Rightarrow> string option \<Rightarrow> nat option option" where
  "q_date e v = (case v of None \<Rightarrow> Some None | Some s \<Rightarrow> map_option Some (parse_date e s))"

text \<open>\<open>query_status\<close>: an unknown status is no status.\<close>

definition query_status :: "('e \<Rightarrow> string) \<Rightarrow> 'e list \<Rightarrow> string option \<Rightarrow> 'e option" where
  "query_status value known v = (if \<not> truthy v then None else parse_enum (\<lambda>x. prisma_enum (value x)) known (to_upper (the v)))"

text \<open>This one throws the error of the schema library itself.\<close>

definition parsePageQuery :: "query_record \<Rightarrow> page_query action" where
  "parsePageQuery q =
    bnd (gets (\<lambda>w. Option.bind (z_number (w_env w) 1 1 None (query_first q ''page'')) (\<lambda>page.
      map_option (\<lambda>limit. \<lparr>pq_page = page, pq_limit = limit\<rparr>) (z_number (w_env w) 20 1 (Some 100) (query_first q ''limit''))))) (\<lambda>v.
    require_some v (JsError ''ZodError'' ''page''))"

definition invalid_query :: "string \<Rightarrow> err" where
  "invalid_query what = DomainError ValidationFailed (''Invalid '' @ what @ '' query.'')"

definition run_parseQuery :: "query_record \<Rightarrow> run_query action" where
  "run_parseQuery q =
    bnd (gets (\<lambda>w. let e = w_env w in
      Option.bind (q_uuid e (query_first q ''workflowId'')) (\<lambda>workflowId.
      Option.bind (q_uuid e (query_first q ''agentId'')) (\<lambda>agentId.
      Option.bind (q_uuid e (query_first q ''vendorId'')) (\<lambda>vendorId.
      Option.bind (z_number e 50 1 (Some 100) (query_first q ''limit'')) (\<lambda>limit.
      Option.bind (z_number e 0 0 None (query_first q ''offset'')) (\<lambda>offset.
      Some \<lparr>rq_workflow = workflowId, rq_agent = agentId, rq_vendor = vendorId,
        rq_status = query_status workflow_run_status_value WORKFLOW_RUN_STATUSES (query_first q ''status''),
        rq_limit = limit, rq_offset = offset\<rparr>)))))))
     (\<lambda>v. require_some v (invalid_query ''workflow run''))"

definition approval_parseQuery :: "query_record \<Rightarrow> approval_query action" where
  "approval_parseQuery q =
    bnd (gets (\<lambda>w. let e = w_env w in
      Option.bind (q_uuid e (query_first q ''workflowRunId'')) (\<lambda>run.
      Option.bind (z_number e 50 1 (Some 100) (query_first q ''limit'')) (\<lambda>limit.
      Option.bind (z_number e 0 0 None (query_first q ''offset'')) (\<lambda>offset.
      Some \<lparr>pq_status = query_status approval_status_value APPROVAL_STATUSES (query_first q ''status''), pq_run = run,
        approval_query.pq_limit = limit, pq_offset = offset\<rparr>)))))
     (\<lambda>v. require_some v (invalid_query ''approval''))"

definition receipt_parseQuery :: "query_record \<Rightarrow> receipt_query action" where
  "receipt_parseQuery q =
    bnd (gets (\<lambda>w. let e = w_env w in
      Option.bind (q_uuid e (query_first q ''workflowRunId'')) (\<lambda>run.
      Option.bind (z_number e 50 1 (Some 100) (query_first q ''limit'')) (\<lambda>limit.
      Option.bind (z_number e 0 0 None (query_first q ''offset'')) (\<lambda>offset.
      Some \<lparr>rcq_run = run, rcq_finalStatus = query_status receipt_status_value RECEIPT_STATUSES (query_first q ''finalStatus''),
        rcq_limit = limit, rcq_offset = offset\<rparr>)))))
     (\<lambda>v. require_some v (invalid_query ''receipt''))"

definition audit_parseQuery :: "query_record \<Rightarrow> audit_query action" where
  "audit_parseQuery q =
    bnd (gets (\<lambda>w. let e = w_env w in
      Option.bind (q_uuid e (query_first q ''workflowRunId'')) (\<lambda>run.
      Option.bind (z_optional (z_native audit_actor_type_value AUDIT_ACTOR_TYPES) (map_option JStr (query_first q ''actorType''))) (\<lambda>actorType.
      Option.bind (z_optional (z_native audit_event_type_value AUDIT_EVENT_TYPES) (map_option JStr (query_first q ''eventType''))) (\<lambda>eventType.
      Option.bind (q_date e (query_first q ''from'')) (\<lambda>from_date.
      Option.bind (q_date e (query_first q ''to'')) (\<lambda>to_date.
      Option.bind (z_number e 50 1 (Some 100) (query_first q ''limit'')) (\<lambda>limit.
      Option.bind (z_number e 0 0 None (query_first q ''offset'')) (\<lambda>offset.
      Some \<lparr>aq_run = run, aq_actorType = actorType, aq_actorId = query_first q ''actorId'', aq_eventType = eventType,
        aq_from = from_date, aq_to = to_date, aq_limit = limit, aq_offset = offset\<rparr>)))))))))
     (\<lambda>v. require_some v (invalid_query ''audit''))"

subsection \<open>What passes\<close>

text \<open>An unknown status in a query is dropped instead of refused: the list comes back unfiltered.\<close>

lemma unknown_status_ignored:
  assumes "parse_enum (\<lambda>x. prisma_enum (value x)) known (to_upper s) = None"
  shows "query_status value known (Some s) = query_status value known None"
  using assms by (simp add: query_status_def truthy_def)

lemma page_in_bounds:
  assumes "parsePageQuery q w = (Inr p, w')"
  shows "1 \<le> page_query.pq_page p \<and> 1 \<le> page_query.pq_limit p \<and> page_query.pq_limit p \<le> 100 \<and> w' = w"
proof -
  have "lo \<le> n \<and> (\<forall>h. hi = Some h \<longrightarrow> n \<le> h)" if "z_number e d lo hi v = Some n" and "lo \<le> d" and "\<forall>h. hi = Some h \<longrightarrow> d \<le> h" for e d lo hi v n
    using that by (auto simp: z_number_def le_nat_iff nat_le_iff floor_le_iff le_floor_iff split: option.splits if_splits)
  from this [of "w_env w" 1 1 None] this [of "w_env w" 20 1 "Some 100"] show ?thesis
    using assms by (auto simp: parsePageQuery_def run_simps split: option.splits bind_splits)
qed

end
