(* ===== verification/System.thy ===== *)
theory System
  imports Tenants Rate_Limit Billing Schemas
begin

section \<open>The whole: requests and jobs one after the other\<close>

text \<open>
  The composition of the components. A \<open>request\<close> is one call of a service that changes state, by a user, by the
  worker over its internal routes, by the sweeper or by a queue (\<open>Work_on\<close>: the worker executes a job), with any
  arguments and any acting user: what the guards let through is a part of it (\<open>Auth\<close>, \<open>Internal_Worker\<close>).
  \<open>reachable\<close> is the step relation of whole requests. Two invariants hold along it: the audit chains, for every request,
  and the end of a run, for every request of the API. A request of a user leaves the other organizations alone. All three come from the effects of the operations, which compose
  (\<open>Prelude\<close>, \<open>Effects\<close>); what interleaved halves of requests can break is stated in \<open>Approvals\<close> and \<open>Executor\<close>.
  Signing in and out is left out: its audit events do not fit the chain (\<open>session_audit_breaks_chain\<close> in \<open>Sessions\<close>).
\<close>

subsection \<open>Requests\<close>

datatype request =
    Start_run "context_user option" string
  | Cancel_run "context_user option" string string
  | Approve "context_user option" string "string option"
  | Reject "context_user option" string "string option"
  | Sweep
  | Request_approval string create_approval_input
  | Create_attempt string create_attempt_input
  | Complete_attempt string "string option" "string option" "(string \<times> json) list option"
  | Fail_attempt string "string option" string "(string \<times> json) list option"
  | Record_event string string audit_event_type "(string \<times> json) list option"
  | Upload_file string string file_kind string string string
  | Upload_screenshot string string string string string
  | Decrypt_credential string string
  | Complete_run string string worker_complete
  | Fail_run string string worker_fail
  | Give_up_run string string
  | Create_agent "context_user option" agent_input
  | Update_agent "context_user option" string agent_change
  | Pause_agent "context_user option" string
  | Resume_agent "context_user option" string
  | Revoke_agent "context_user option" string
  | Create_policy "context_user option" policy_create_input
  | Update_policy "context_user option" string policy_update_input
  | Evaluate_policy "context_user option" evaluate_input
  | Create_vendor "context_user option" vendor_input
  | Update_vendor "context_user option" string vendor_change
  | Delete_vendor "context_user option" string
  | Create_credential "context_user option" credential_input
  | Update_credential "context_user option" string credential_change
  | Grant_credential "context_user option" string string string
  | Revoke_grant "context_user option" string string
  | Revoke_credential "context_user option" string
  | Create_workflow "context_user option" workflow_input
  | Update_workflow "context_user option" string workflow_change
  | Invite_user "context_user option" invite_input
  | Change_role "context_user option" string user_role
  | Disable_user "context_user option" string
  | Enable_user "context_user option" string
  | Update_profile "context_user option" string
  | Change_password "context_user option" string string
  | Update_organization "context_user option" organization_change
  | Update_preferences "context_user option" preference_change
  | Work_on job_data string

text \<open>What a request leaves behind, whether it succeeds or throws.\<close>

fun perform :: "request \<Rightarrow> world \<Rightarrow> world" where
  "perform (Start_run a b) w = snd (startRun a b w)"
| "perform (Cancel_run a b c) w = snd (cancel a b c w)"
| "perform (Approve a b c) w = snd (approve a b c w)"
| "perform (Reject a b c) w = snd (reject a b c w)"
| "perform Sweep w = snd (sweepExpiredApprovals w)"
| "perform (Request_approval a b) w = snd (approval_createForRun a b w)"
| "perform (Create_attempt a b) w = snd (attempt_createForRun a b w)"
| "perform (Complete_attempt a b c d) w = snd (attempt_complete a b c d w)"
| "perform (Fail_attempt a b c d) w = snd (attempt_fail a b c d w)"
| "perform (Record_event a b c d) w = snd (recordEvent a b c d w)"
| "perform (Upload_file a b c d e f) w = snd (Internal_Worker.uploadFile a b c d e f w)"
| "perform (Upload_screenshot a b c d e) w = snd (Internal_Worker.uploadScreenshot a b c d e w)"
| "perform (Decrypt_credential a b) w = snd (decryptForRun a b w)"
| "perform (Complete_run a b c) w = snd (completeRun a b c w)"
| "perform (Fail_run a b c) w = snd (failRun a b c w)"
| "perform (Give_up_run a b) w = snd (markPermanentFailure a b w)"
| "perform (Create_agent a b) w = snd (agent_create a b w)"
| "perform (Update_agent a b c) w = snd (agent_update a b c w)"
| "perform (Pause_agent a b) w = snd (agent_pause a b w)"
| "perform (Resume_agent a b) w = snd (agent_resume a b w)"
| "perform (Revoke_agent a b) w = snd (agent_revoke a b w)"
| "perform (Create_policy a b) w = snd (policy_create a b w)"
| "perform (Update_policy a b c) w = snd (policy_update a b c w)"
| "perform (Evaluate_policy a b) w = snd (policy_evaluate a b w)"
| "perform (Create_vendor a b) w = snd (vendor_create a b w)"
| "perform (Update_vendor a b c) w = snd (vendor_update a b c w)"
| "perform (Delete_vendor a b) w = snd (vendor_delete a b w)"
| "perform (Create_credential a b) w = snd (credential_create a b w)"
| "perform (Update_credential a b c) w = snd (credential_update a b c w)"
| "perform (Grant_credential a b c d) w = snd (credential_grant a b c d w)"
| "perform (Revoke_grant a b c) w = snd (credential_revokeGrant a b c w)"
| "perform (Revoke_credential a b) w = snd (credential_revoke a b w)"
| "perform (Create_workflow a b) w = snd (workflow_create a b w)"
| "perform (Update_workflow a b c) w = snd (workflow_update a b c w)"
| "perform (Invite_user a b) w = snd (inviteUser a b w)"
| "perform (Change_role a b c) w = snd (changeUserRole a b c w)"
| "perform (Disable_user a b) w = snd (disableUser a b w)"
| "perform (Enable_user a b) w = snd (enableUser a b w)"
| "perform (Update_profile a b) w = snd (updateOwnProfile a b w)"
| "perform (Change_password a b c) w = snd (changeOwnPassword a b c w)"
| "perform (Update_organization a b) w = snd (updateCurrentOrganization a b w)"
| "perform (Update_preferences a b) w = snd (updateNotificationPreferences a b w)"
| "perform (Work_on a b) w = snd (execute a b w)"

subsection \<open>The effects of the operations on the log and on runs\<close>

lemma same_json_property [effect_intros]: "effect (same_of f) (json_property j k) w"
  unfolding json_property_def by (intro effect_intros)

text \<open>The parts that only read the world, that draw on its random source, or that mail.\<close>

lemma same_check_inputs [effect_intros]: "effect (same_of f) (check_inputs is j v) w"
  by (induction "is" arbitrary: w) (auto intro!: effect_intros)

lemma same_request_parts [effect_intros]:
  "effect (same_of f) (require_org v) w" "effect (same_of f) (validateConfiguration t j c) w"
  by (simp add: require_org_def effect_def same_of_def run_simps)
     (use passes_validate [of t j c w] in \<open>simp add: passes_def effect_def same_of_def\<close>)

lemma same_send_email [effect_intros]: "(\<And>w ns. f (w\<lparr>notices := ns\<rparr>) = f w) \<Longrightarrow> effect (same_of f) (send_email m) w"
  unfolding mail_defs by (intro effect_intros) simp_all

lemma same_secrets [effect_intros]:
  assumes "\<And>w n. f (w\<lparr>ids := n\<rparr>) = f w"
  shows "effect (same_of f) randomToken w" "effect (same_of f) (hashActionToken t) w" "effect (same_of f) (hashPassword p) w"
  using assms by (simp_all add: randomToken_def hashActionToken_def hashPassword_def run_simps effect_def same_of_def)

lemma quiet_both:
  assumes "effect (same_of (\<lambda>w. (quiet w, runs w))) m w"
  shows "effect audit_ok m w" and "effect (runs_ok sticky) m w"
proof -
  show "effect audit_ok m w" using assms by (intro same_quiet) (simp add: effect_def same_of_def)
  show "effect (runs_ok sticky) m w" using assms by (intro sticky.rows_same) (simp add: effect_def same_of_def)
qed

lemma both_parts [effect_intros]:
  "effect audit_ok (send_email m) w" "effect (runs_ok sticky) (send_email m) w"
  "effect audit_ok (hashPassword p) w" "effect (runs_ok sticky) (hashPassword p) w"
  "effect audit_ok randomToken w" "effect (runs_ok sticky) randomToken w"
  "effect audit_ok (hashActionToken t) w" "effect (runs_ok sticky) (hashActionToken t) w"
  "effect audit_ok (require_org v) w" "effect (runs_ok sticky) (require_org v) w"
  "effect (runs_ok sticky) (require_user u) w"
  "effect audit_ok (validateConfiguration tp j c) w" "effect (runs_ok sticky) (validateConfiguration tp j c) w"
  by (rule quiet_both, intro effect_intros; simp add: quiet_def)+

lemma runs_now_unless [effect_intros]: "effect (runs_ok sticky) (now_unless v) w"
  unfolding now_unless_def by (intro effect_intros)

lemma runs_end_sessions [effect_intros]: "effect (runs_ok sticky) (update_many refresh_token_t P g) w"
  by (intro sticky.rows_same same_update_many) simp

lemma runs_findRunForWorker [effect_intros]: "effect (runs_ok sticky) (findRunForWorker k org) w"
  by (intro sticky.rows_same same_findRunForWorker)

lemma audit_delete_vendor_row [effect_intros]: "effect audit_ok (delete_vendor_row k) w"
  unfolding delete_vendor_row_def by (intro effect_intros audit_modify) simp_all

lemma runs_delete_vendor_row [effect_intros]: "effect (runs_ok sticky) (delete_vendor_row k) w"
proof -
  let ?f = "\<lambda>r. if run_vendor r = Some k then r\<lparr>run_vendor := None\<rparr> else r"
  have row: "find (\<lambda>r. run_id r = j) (map ?f rs) = map_option ?f (find (\<lambda>r. run_id r = j) rs)" for j rs
    by (induction rs) auto
  have ids: "map (run_id \<circ> ?f) rs = map run_id rs" for rs by simp
  have like: "run_like sticky r (?f r)" for r by (simp add: run_like_def sticky_def)
  have "runs_ok sticky s (s\<lparr>vendors := vs, runs := map ?f (runs s), attempts := as\<rparr>)" for s vs as
    using like by (simp add: runs_ok_def rows_ok_def unique_keys_def row_of_def run_t_def row ids del: if_split)
  then show ?thesis
    unfolding delete_vendor_row_def by (intro effect_intros sticky.ord.effect_modify)
qed

lemma both_policy_ops:
  "effect audit_ok (policy_create u i) w" "effect (runs_ok sticky) (policy_create u i) w"
  "effect audit_ok (policy_update u k c) w" "effect (runs_ok sticky) (policy_update u k c) w"
  "effect audit_ok (policy_evaluate u e) w" "effect (runs_ok sticky) (policy_evaluate u e) w"
  unfolding policy_create_def policy_update_def policy_evaluate_def stringArray_def actionArray_def money_def timezone_of_def weekdays_of_def hours_of_def businessHours_def validateSnapshot_def validateRiskSignals_def fromPolicy_def findPolicyInOrganization_def policy_assertAgent_def assertOneActiveBundle_def recordPolicyAudit_def next_rules_def evaluation_findPolicy_def
  by (intro effect_intros)+

lemma both_vendor_ops:
  "effect audit_ok (vendor_create u i) w" "effect (runs_ok sticky) (vendor_create u i) w"
  "effect audit_ok (vendor_update u k c) w" "effect (runs_ok sticky) (vendor_update u k c) w"
  "effect audit_ok (vendor_delete u k) w" "effect (runs_ok sticky) (vendor_delete u k) w"
  unfolding vendor_create_def vendor_update_def vendor_delete_def normalize_def vendor_hostname_def vendor_view_def check_website_def findVendorInOrganization_def assertNoActiveDuplicate_def assertOwnerInOrganization_def recordVendorAudit_def date_input_def next_website_def
  by (intro effect_intros)+

lemma both_workflow_ops:
  "effect audit_ok (workflow_create u i) w" "effect (runs_ok sticky) (workflow_create u i) w"
  "effect audit_ok (workflow_update u k c) w" "effect (runs_ok sticky) (workflow_update u k c) w"
  "effect audit_ok (startRun u k) w"
  unfolding workflow_create_def workflow_update_def startRun_def findWorkflowInOrganization_def assertActiveAgent_def assertActiveVendor_def assertActivePolicy_def assertCredentialGrantForConfig_def recordWorkflowAudit_def
  by (intro effect_intros)+

lemma both_user_ops:
  "effect audit_ok (inviteUser u i) w" "effect (runs_ok sticky) (inviteUser u i) w"
  "effect audit_ok (changeUserRole u k r) w" "effect (runs_ok sticky) (changeUserRole u k r) w"
  "effect audit_ok (disableUser u k) w" "effect (runs_ok sticky) (disableUser u k) w"
  "effect audit_ok (enableUser u k) w" "effect (runs_ok sticky) (enableUser u k) w"
  "effect audit_ok (updateOwnProfile u n) w" "effect (runs_ok sticky) (updateOwnProfile u n) w"
  "effect audit_ok (changeOwnPassword u p q) w" "effect (runs_ok sticky) (changeOwnPassword u p q) w"
  unfolding inviteUser_def changeUserRole_def disableUser_def enableUser_def updateOwnProfile_def changeOwnPassword_def user_view_def findUserInOrganization_def assertOwnerOrAdmin_def assertOwnerRoleBoundary_def assertNotLastOwner_def recordUserEvent_def sendInviteEmail_def
    update_user_def find_user_def verifyPassword_def refresh_revokeAllForUser_def revoke_tokens_def
  by (intro effect_intros)+


lemma audit_markPermanentFailure: "effect audit_ok (markPermanentFailure k msg) w"
  unfolding markPermanentFailure_def by (intro effect_intros)

lemma same_start_checks:
  "effect (same_of f) (require_user u) w" "effect (same_of f) (findWorkflowInOrganization v k) w" "effect (same_of f) (assertActiveAgent a b) w"
  "effect (same_of f) (assertActiveVendor a b) w" "effect (same_of f) (assertActivePolicy a b) w"
  "effect (same_of f) (assertCredentialGrantForConfig a b c j) w"
  unfolding findWorkflowInOrganization_def assertActiveAgent_def assertActiveVendor_def assertActivePolicy_def assertCredentialGrantForConfig_def
  by (intro effect_intros)+

lemma runs_enqueueStart [effect_intros]: "effect (runs_ok sticky) (enqueueStart i) w"
  by (intro sticky.rows_same same_queue_ops) (simp add: queue_free_def)

lemma runs_start:
  assumes "uuid (w_env w) (ids w) \<notin> run_id ` set (runs w)"
  shows "effect (runs_ok sticky) (startRun u k) w"
  unfolding startRun_def
  apply ((rule sticky.keep_part [where g = "\<lambda>w. (w_env w, ids w, runs w)" and Q = "\<lambda>(e, n, rs). uuid e n \<notin> run_id ` set rs"],
      use assms in \<open>simp; fail\<close>, (intro same_start_checks effect_intros; fail), (simp; fail))+)
  by (unfold recordWorkflowAudit_def, intro sticky.rows_create effect_intros)
    (auto simp: fresh_id_def new_date_def)

lemma runs_attempts:
  "effect (runs_ok sticky) (attempt_createForRun k i) w" "effect (runs_ok sticky) (attempt_complete k r s m) w"
  "effect (runs_ok sticky) (attempt_fail k r e m) w"
  by (intro sticky.rows_same same_attempt_ops; simp)+

lemmas run_ops = runs_legal_sticky [OF cancel_runs] runs_legal_sticky [OF runs_approve] runs_legal_sticky [OF runs_reject]
  runs_legal_sticky [OF runs_sweep] runs_legal_sticky [OF runs_approval_createForRun] runs_legal_sticky [OF worker_runs(1)]
  runs_legal_sticky [OF worker_runs(2)] markPermanentFailure_runs runs_attempts

lemma both_setting_ops:
  "effect audit_ok (updateCurrentOrganization u c) w" "effect (runs_ok sticky) (updateCurrentOrganization u c) w"
  "effect audit_ok (updateNotificationPreferences u p) w" "effect (runs_ok sticky) (updateNotificationPreferences u p) w"
  unfolding updateCurrentOrganization_def update_organization_def updateNotificationPreferences_def preference_upsert_def
  by (intro effect_intros)+

lemma both_agent_ops:
  "effect (runs_ok sticky) (agent_create u i) w" "effect (runs_ok sticky) (agent_update u k c) w" "effect (runs_ok sticky) (agent_pause u k) w"
  "effect (runs_ok sticky) (agent_resume u k) w" "effect (runs_ok sticky) (agent_revoke u k) w"
  unfolding agent_create_def agent_update_def agent_pause_def agent_resume_def agent_revoke_def update_agent_def recordAgentAudit_def generate_def
    agent_checks
  by (intro effect_intros)+

lemma runs_credential_ops:
  "effect (runs_ok sticky) (credential_create u ci) w" "effect (runs_ok sticky) (credential_update u k cx) w"
  "effect (runs_ok sticky) (credential_grant u k a s) w" "effect (runs_ok sticky) (credential_revokeGrant u k g) w"
  "effect (runs_ok sticky) (credential_revoke u k) w" "effect (runs_ok sticky) (decryptForRun k r) w"
  by (intro sticky.rows_same same_credential_ops; simp)+

lemma runs_worker_requests:
  "effect (runs_ok sticky) (recordEvent k org t d) w" "effect (runs_ok sticky) (Internal_Worker.uploadFile k org kind n m b) w"
  "effect (runs_ok sticky) (Internal_Worker.uploadScreenshot k org n m b) w"
proof -
  show "effect (runs_ok sticky) (recordEvent k org t d) w" unfolding recordEvent_def wrap_defs by (intro effect_intros; simp)
  show "effect (runs_ok sticky) (Internal_Worker.uploadFile k org kind n m b) w" "effect (runs_ok sticky) (Internal_Worker.uploadScreenshot k org n m b) w"
    by (intro sticky.rows_same same_uploads; simp add: store_free_def)+
qed

subsection \<open>Invariants\<close>

lemmas audit_requests = both_policy_ops both_vendor_ops both_workflow_ops both_user_ops both_setting_ops audit_agent_ops
  audit_credential_ops audit_credential_create audit_worker_ops audit_uploads audit_attempt_ops audit_approve audit_reject audit_sweep
  audit_approval_createForRun audit_cancel audit_markPermanentFailure audit_execute

lemmas run_requests = run_ops both_policy_ops both_vendor_ops both_workflow_ops both_user_ops both_setting_ops both_agent_ops
  runs_credential_ops runs_worker_requests runs_start

lemma perform_audit: "audit_ok w (perform q w)"
  using audit_requests by (cases q) (simp_all add: effect_def)

text \<open>The requests of the API: all but the worker's own jobs.\<close>

definition of_api :: "request \<Rightarrow> bool" where
  "of_api q \<longleftrightarrow> (case q of Work_on _ _ \<Rightarrow> False | _ \<Rightarrow> True)"

text \<open>The next id the database draws is not the id of a run yet.\<close>

definition id_unused :: "world \<Rightarrow> bool" where
  "id_unused w \<longleftrightarrow> uuid (w_env w) (ids w) \<notin> run_id ` set (runs w)"

lemma perform_runs: "of_api q \<Longrightarrow> id_unused w \<Longrightarrow> runs_ok sticky w (perform q w)"
  using run_requests by (cases q) (simp_all add: effect_def of_api_def id_unused_def)

inductive reachable :: "(request \<Rightarrow> world \<Rightarrow> bool) \<Rightarrow> world \<Rightarrow> world \<Rightarrow> bool" for ok w where
  here: "reachable ok w w"
| after: "reachable ok w v \<Longrightarrow> ok q v \<Longrightarrow> reachable ok w (perform q v)"

lemma reachable_effect:
  assumes "effect_order R" and "\<And>q v. ok q v \<Longrightarrow> R v (perform q v)" and "reachable ok w v"
  shows "R w v"
  using assms(3)
  by (induction rule: reachable.induct) (auto intro: assms(2) effect_order.R_refl [OF assms(1)] effect_order.R_trans [OF assms(1)])



text \<open>C7. A run that has ended is never started again: through whatever requests of the API, one after the other, it stays
in the table of its organization with the status it ended with.\<close>

theorem ended_runs_stay_ended:
  assumes "unique_runs w" and "row_of run_t k w = Some r" and "terminal_status (run_status r)"
    and "reachable (\<lambda>q v. of_api q \<and> id_unused v) w v"
  shows "\<exists>r'. row_of run_t k v = Some r' \<and> run_status r' = run_status r \<and> run_org r' = run_org r \<and> run_agent r' = run_agent r
    \<and> run_workflow r' = run_workflow r"
proof -
  have "runs_ok sticky w v"
    by (rule reachable_effect [OF sticky.ord.effect_order_axioms _ assms(4)]) (auto intro: perform_runs)
  then show ?thesis
    using assms(1-3) by (fastforce simp: runs_ok_def rows_ok_def run_like_def sticky_def)
qed

theorem ended_runs_stay_ended_witness:
  "\<exists>r'. row_of run_t ''r'' (perform (Approve (Some demo_user) ''q'' None) (perform (Cancel_run (Some demo_user) ''r'' ''why'') (demo_world Run_Completed))) = Some r'
    \<and> run_status r' = Run_Completed"
proof -
  let ?w = "demo_world Run_Completed"
  let ?v = "perform (Cancel_run (Some demo_user) ''r'' ''why'') ?w"
  have v: "?v = ?w"
    by (simp add: cancel_def findRunInOrganization_def require_org_def truthy_def demo_user_def demo_run_def step_simps bnd_assoc
        assertCanTransition_def canTransition_iff throw_def)
  have "reachable (\<lambda>q v. of_api q \<and> id_unused v) ?w (perform (Approve (Some demo_user) ''q'' None) ?v)"
  proof (intro after here)
    have "id_unused ?w" by (simp add: id_unused_def demo_world_def empty_world_def demo_env_def demo_run_def)
    then show "of_api (Cancel_run (Some demo_user) ''r'' ''why'') \<and> id_unused ?w"
      and "of_api (Approve (Some demo_user) ''q'' None) \<and> id_unused ?v" by (simp_all only: v) (simp_all add: of_api_def)
  qed
  then show ?thesis
    using ended_runs_stay_ended [OF demo_unique(1) [of Run_Completed], of "''r''" "demo_run Run_Completed"]
    by (auto simp: row_of_def run_t_def demo_run_def terminal_status_def simp del: perform.simps)
qed

subsection \<open>Organizations\<close>

text \<open>The user a request acts for. The worker, the sweeper and the queue act for none.\<close>

fun acting :: "request \<Rightarrow> context_user option" where
  "acting (Start_run a b) = a"
| "acting (Cancel_run a b c) = a"
| "acting (Approve a b c) = a"
| "acting (Reject a b c) = a"
| "acting (Create_agent a b) = a"
| "acting (Update_agent a b c) = a"
| "acting (Pause_agent a b) = a"
| "acting (Resume_agent a b) = a"
| "acting (Revoke_agent a b) = a"
| "acting (Create_policy a b) = a"
| "acting (Update_policy a b c) = a"
| "acting (Evaluate_policy a b) = a"
| "acting (Create_vendor a b) = a"
| "acting (Update_vendor a b c) = a"
| "acting (Delete_vendor a b) = a"
| "acting (Create_credential a b) = a"
| "acting (Update_credential a b c) = a"
| "acting (Grant_credential a b c d) = a"
| "acting (Revoke_grant a b c) = a"
| "acting (Revoke_credential a b) = a"
| "acting (Create_workflow a b) = a"
| "acting (Update_workflow a b c) = a"
| "acting (Invite_user a b) = a"
| "acting (Change_role a b c) = a"
| "acting (Disable_user a b) = a"
| "acting (Enable_user a b) = a"
| "acting (Update_profile a b) = a"
| "acting (Change_password a b c) = a"
| "acting (Update_organization a b) = a"
| "acting (Update_preferences a b) = a"
| "acting _ = None"

text \<open>
  The primary keys are keys, a run's vendor is one of its organization, the acting user's id is not that of a user
  elsewhere (the user a token names is looked up by \<open>jwt_guard\<close>), and the next id drawn is new.
\<close>

definition tenant_ok :: "context_user \<Rightarrow> world \<Rightarrow> bool" where
  "tenant_ok u w \<longleftrightarrow> unique_keys user_t w \<and> unique_keys agent_t w \<and> unique_keys vendor_t w \<and> unique_keys policy_t w
    \<and> unique_keys credential_t w \<and> unique_keys workflow_t w \<and> unique_keys run_t w \<and> unique_keys approval_t w
    \<and> vendors_referred w \<and> cu_id u \<notin> us_id ` set (ot_users (others_of (cu_org u) w))
    \<and> uuid (w_env w) (ids w) \<notin> cr_id ` set (ot_credentials (others_of (cu_org u) w))"

lemmas apart_requests = apart_agents apart_policies apart_policy_evaluate apart_vendors apart_credentials apart_credential_create
  apart_workflows apart_users apart_settings apart_cancel apart_decisions

lemma tenant_apart:
  assumes "tenant_ok u w" and "acting q = Some u"
  shows "same_of (others_of (cu_org u)) w (perform q w)"
  using assms(2) apart_requests [where u = u and w = w, unfolded effect_def] assms(1) [unfolded tenant_ok_def]
  by (cases q) simp_all



end
